(* ===== verification/Go_Prelude.thy ===== *)
theory Go_Prelude
  imports
    "HOL-Library.Word"
    "HOL-Library.Finite_Map"
    "HOL-Library.Char_ord"
    "HOL-Library.List_Lexorder"
    "HOL-Library.Sublist"
    "HOL-Library.Multiset"
    "HOL-Library.Code_Target_Numeral"
begin

text \<open>
  The prelude of the development: the Go types and the parts of Go's standard library that the
  node uses, and the generic lemmas the component theories share.

  \<^item> Machine integers are words of their width; an \<open>int64\<close> is a 64-bit word read by \<open>sint\<close>.
  \<^item> A Go string is a list of bytes; Isabelle's \<open>char\<close> is exactly a byte, so it is a \<open>string\<close>.
    String comparison in Go is bytewise lexicographic, which is the order of
    \<open>HOL-Library.List_Lexorder\<close> over \<open>HOL-Library.Char_ord\<close>.
  \<^item> A Go map is a finite map. Ranging over a map has no fixed order in Go; the model ranges in
    key order (\<open>sorted_list_of_fmap\<close>), and the locale \<open>range_fold\<close> below shows for
    every loop that uses it that any other order gives the same result.
  \<^item> An error value is an \<open>err\<close> that carries the source's message (its format string without the
    formatted arguments) and the chain of wrapped errors. A function that only computes returns
    \<open>err + 'a\<close>, a validator \<open>err option\<close>, and a method that changes its receiver the pair of
    an \<open>err option\<close> and the receiver after the call, so that what a failing call leaves behind is
    part of the model.
\<close>

unbundle bit_operations_syntax

named_theorems word_nat \<open>64-bit arithmetic moved to nat\<close>
named_theorems codec \<open>what a reader returns on what a writer wrote\<close>
named_theorems frame \<open>fields an operation leaves alone\<close>

type_synonym u8 = "8 word"
type_synonym u32 = "32 word"
type_synonym u64 = "64 word"
type_synonym i64 = "64 word"
type_synonym bytes = "u8 list"

section \<open>Errors\<close>

datatype err = Err string | Wrap string err

text \<open>The \<open>errors.Is\<close> test against a sentinel: the error itself or one it wraps.\<close>

fun errors_Is :: "err \<Rightarrow> err \<Rightarrow> bool" where
  "errors_Is (Err s) t = (Err s = t)"
| "errors_Is (Wrap s e) t = (Wrap s e = t \<or> errors_Is e t)"

section \<open>Machine words\<close>

definition max_u64 :: u64 where
  "max_u64 = - 1"

lemma max_u64_numeral [code, simp]: "max_u64 = 18446744073709551615"
  by (simp add: max_u64_def)

lemma unat_u64_lt [simp]: "unat (x :: u64) < 18446744073709551616"
  using unsigned_less [of x, where ?'a = nat] by simp

lemma unat_u64_le [simp]: "unat (x :: u64) \<le> 18446744073709551615"
  using unat_u64_lt [of x] by linarith

lemma unat_u32_lt [simp]: "unat (x :: u32) < 4294967296"
  using unsigned_less [of x, where ?'a = nat] by simp

lemma unat_u8_lt [simp]: "unat (x :: u8) < 256"
  using unsigned_less [of x, where ?'a = nat] by simp

lemma unat_add_u64 [word_nat]:
  "unat (a :: u64) + unat b < 18446744073709551616 \<Longrightarrow> unat (a + b) = unat a + unat b"
  by (simp add: unat_word_ariths)

lemma unat_sub_u64 [word_nat]: "b \<le> a \<Longrightarrow> unat (a - b :: u64) = unat a - unat b"
  by (rule unat_sub)

lemmas u64_eq_iff = word_unat_eq_iff [where 'a = 64]
lemmas u64_le_iff [word_nat] = word_le_nat_alt [where 'a = 64]
lemmas u64_less_iff [word_nat] = word_less_nat_alt [where 'a = 64]

lemma unat_of_nat_u64 [word_nat]:
  "n < 18446744073709551616 \<Longrightarrow> unat (of_nat n :: u64) = n"
  by (simp add: unat_of_nat)

lemma unat_inc: "(e :: u64) \<noteq> max_u64 \<Longrightarrow> unat (e + 1) = Suc (unat e)"
proof -
  assume "e \<noteq> max_u64"
  then have "unat e \<noteq> 18446744073709551615" by (simp add: max_u64_numeral word_unat_eq_iff)
  then have "unat e < 18446744073709551615" using unat_u64_le [of e] by (intro le_neq_implies_less)
  then show ?thesis using unat_add_u64 [of e 1] by simp
qed

lemma unat_eq_0_u64 [simp]: "unat (x :: u64) = 0 \<longleftrightarrow> x = 0"
  by (rule unat_eq_0)

section \<open>Go strings\<close>

definition byte_of :: "char \<Rightarrow> u8" where
  "byte_of c = of_nat (of_char c)"

definition bytes_of :: "string \<Rightarrow> bytes" where
  "bytes_of s = map byte_of s"

definition string_of :: "bytes \<Rightarrow> string" where
  "string_of b = map (\<lambda>x. char_of (unat x)) b"

lemma length_bytes_of [simp]: "length (bytes_of s) = length s"
  by (simp add: bytes_of_def)

lemma length_string_of [simp]: "length (string_of b) = length b"
  by (simp add: string_of_def)

lemma bytes_of_append [simp]: "bytes_of (s @ t) = bytes_of s @ bytes_of t"
  by (simp add: bytes_of_def)

lemma bytes_of_Nil [simp]: "bytes_of [] = []"
  by (simp add: bytes_of_def)

lemma unat_byte_of [simp]: "unat (byte_of c) = of_char c"
  by (simp add: byte_of_def unat_of_nat)

lemma byte_of_char_of [simp]: "byte_of (char_of (unat x)) = x"
  by (simp add: byte_of_def)

lemma string_of_bytes_of [simp]: "string_of (bytes_of s) = s"
  by (simp add: string_of_def bytes_of_def o_def)

lemma bytes_of_string_of [simp]: "bytes_of (string_of b) = b"
  by (simp add: string_of_def bytes_of_def o_def)

lemma bytes_of_inject [simp]: "bytes_of s = bytes_of t \<longleftrightarrow> s = t"
  by (metis string_of_bytes_of)

text \<open>\<open>strings.HasPrefix\<close>, \<open>strings.TrimPrefix\<close>, \<open>strings.Repeat\<close> of a one-byte string.\<close>

definition HasPrefix :: "string \<Rightarrow> string \<Rightarrow> bool" where
  "HasPrefix s p = (take (length p) s = p)"

definition TrimPrefix :: "string \<Rightarrow> string \<Rightarrow> string" where
  "TrimPrefix s p = (if HasPrefix s p then drop (length p) s else s)"

lemma HasPrefix_append [simp]: "HasPrefix (p @ s) p"
  by (simp add: HasPrefix_def)

lemma TrimPrefix_append [simp]: "TrimPrefix (p @ s) p = s"
  by (simp add: TrimPrefix_def)

text \<open>
  \<open>strings.TrimSpace\<close> removes leading and trailing Unicode white space. The code points with the
  property White\_Space are listed by their UTF-8 encodings; a leading (trailing) white-space rune
  is one of these byte sequences at the start (end) of the string.
\<close>

definition space_runes :: "nat list list" where
  "space_runes =
     [[9], [10], [11], [12], [13], [32], [194, 133], [194, 160], [225, 154, 128]]
     @ map (\<lambda>n. [226, 128, n]) [128, 129, 130, 131, 132, 133, 134, 135, 136, 137, 138, 168, 169, 175]
     @ [[226, 129, 159], [227, 128, 128]]"

definition starts_with_space :: "string \<Rightarrow> nat option" where
  "starts_with_space s =
     map_option length (find (\<lambda>r. take (length r) (map of_char s) = r) space_runes)"

lemma starts_with_space_pos: "starts_with_space s = Some n \<Longrightarrow> 0 < n \<and> s \<noteq> []"
  by (auto simp: starts_with_space_def space_runes_def find_Some_iff split: if_splits)

function TrimLeftSpace :: "string \<Rightarrow> string" where
  "TrimLeftSpace s = (case starts_with_space s of None \<Rightarrow> s | Some n \<Rightarrow> TrimLeftSpace (drop n s))"
  by pat_completeness auto
termination
  by (relation "measure length") (auto dest: starts_with_space_pos)

declare TrimLeftSpace.simps [simp del]

definition ends_with_space :: "string \<Rightarrow> nat option" where
  "ends_with_space s =
     map_option length (find (\<lambda>r. take (length r) (map of_char (rev s)) = rev r) space_runes)"

lemma ends_with_space_pos: "ends_with_space s = Some n \<Longrightarrow> 0 < n \<and> s \<noteq> []"
  by (auto simp: ends_with_space_def space_runes_def find_Some_iff split: if_splits)

function TrimRightSpace :: "string \<Rightarrow> string" where
  "TrimRightSpace s =
     (case ends_with_space s of None \<Rightarrow> s | Some n \<Rightarrow> TrimRightSpace (take (length s - n) s))"
  by pat_completeness auto
termination
  by (relation "measure length") (auto dest: ends_with_space_pos)

declare TrimRightSpace.simps [simp del]

definition TrimSpace :: "string \<Rightarrow> string" where
  "TrimSpace s = TrimRightSpace (TrimLeftSpace s)"

text \<open>A string of visible ASCII characters has no white space to trim.\<close>

definition plain_char :: "char \<Rightarrow> bool" where
  "plain_char c \<longleftrightarrow> 33 \<le> (of_char c :: nat) \<and> (of_char c :: nat) \<le> 126"

lemma no_space_rune:
  assumes "r \<in> set space_runes"
  shows "r \<noteq> [] \<and> (hd r < 33 \<or> 126 < hd r) \<and> (last r < 33 \<or> 126 < last r)"
  using assms by (auto simp: space_runes_def)

lemma take_hd: "take (length r) xs = r \<Longrightarrow> r \<noteq> [] \<Longrightarrow> xs \<noteq> [] \<and> hd xs = hd r"
  by (cases r; cases xs) auto

lemma no_rune_at:
  assumes "plain_char c" and "r \<in> set space_runes"
  shows "take (length r) (of_char c # xs) \<noteq> r" and "take (length r) (of_char c # xs) \<noteq> rev r"
  using no_space_rune [OF assms(2)] assms(1) [unfolded plain_char_def]
    take_hd [of r "of_char c # xs"] take_hd [of "rev r" "of_char c # xs"]
  by (auto simp: hd_rev)

lemma TrimSpace_plain:
  assumes "list_all plain_char s"
  shows "TrimSpace s = s"
proof -
  have "starts_with_space s = None"
  proof (cases s)
    case Nil
    then show ?thesis by (auto simp: starts_with_space_def space_runes_def)
  next
    case (Cons c t)
    have "take (length r) (map of_char s) \<noteq> r" if "r \<in> set space_runes" for r :: "nat list"
      using no_rune_at(1) [OF _ that, of c] assms Cons by simp
    then show ?thesis by (auto simp: starts_with_space_def find_None_iff)
  qed
  then have l: "TrimLeftSpace s = s" by (subst TrimLeftSpace.simps) simp
  have "ends_with_space s = None"
  proof (cases "rev s")
    case Nil
    then show ?thesis by (auto simp: ends_with_space_def space_runes_def)
  next
    case (Cons c t)
    then have "plain_char c" using assms by (metis list.set_intros(1) list_all_iff set_rev)
    have "take (length r) (map of_char (rev s)) \<noteq> rev r" if "r \<in> set space_runes" for r :: "nat list"
      using no_rune_at(2) [OF \<open>plain_char c\<close> that] Cons by simp
    then show ?thesis by (auto simp: ends_with_space_def find_None_iff)
  qed
  then have "TrimRightSpace s = s" by (subst TrimRightSpace.simps) simp
  with l show ?thesis by (simp add: TrimSpace_def)
qed

text \<open>
  \<open>strings.ToLower\<close> on ASCII strings, and \<open>strings.EqualFold\<close> against an ASCII string that has
  neither k nor s (the two letters with a non-ASCII simple fold): the only uses in the node are
  hexadecimal identifiers and the constant \<open>dIDR\<close>.
\<close>

definition lower_char :: "char \<Rightarrow> char" where
  "lower_char c = (let n = of_char c :: nat in if 65 \<le> n \<and> n \<le> 90 then char_of (n + 32) else c)"

definition ToLower :: "string \<Rightarrow> string" where
  "ToLower s = map lower_char s"

definition EqualFold :: "string \<Rightarrow> string \<Rightarrow> bool" where
  "EqualFold s t = (ToLower s = ToLower t)"

text \<open>Decimal output: \<open>strconv.FormatUint\<close>, \<open>strconv.FormatInt\<close> and the verb \<open>%d\<close>.\<close>

definition digit_char :: "nat \<Rightarrow> char" where
  "digit_char d = char_of (48 + d)"

fun dec :: "nat \<Rightarrow> string" where
  "dec n = (if n < 10 then [digit_char n] else dec (n div 10) @ [digit_char (n mod 10)])"

declare dec.simps [simp del]

definition FormatUint :: "'a :: len word \<Rightarrow> string" where
  "FormatUint x = dec (unat x)"

definition FormatInt :: "i64 \<Rightarrow> string" where
  "FormatInt x = (if sint x < 0 then ''-'' @ dec (nat (- sint x)) else dec (nat (sint x)))"

text \<open>\<open>encoding/hex\<close>.\<close>

definition hex_digit :: "nat \<Rightarrow> char" where
  "hex_digit d = (if d < 10 then char_of (48 + d) else char_of (87 + d))"

definition hex_encode :: "bytes \<Rightarrow> string" where
  "hex_encode b = concat (map (\<lambda>x. [hex_digit (unat x div 16), hex_digit (unat x mod 16)]) b)"

definition hex_value :: "char \<Rightarrow> nat option" where
  "hex_value c =
     (let n = of_char c :: nat in
      if 48 \<le> n \<and> n \<le> 57 then Some (n - 48)
      else if 97 \<le> n \<and> n \<le> 102 then Some (n - 87)
      else if 65 \<le> n \<and> n \<le> 70 then Some (n - 55)
      else None)"

fun hex_decode :: "string \<Rightarrow> bytes option" where
  "hex_decode [] = Some []"
| "hex_decode [c] = None"
| "hex_decode (c # d # s) =
     (case (hex_value c, hex_value d, hex_decode s) of
        (Some x, Some y, Some b) \<Rightarrow> Some (of_nat (16 * x + y) # b)
      | _ \<Rightarrow> None)"

lemma hex_value_digit: "d < 16 \<Longrightarrow> hex_value (hex_digit d) = Some d"
  by (auto simp: hex_value_def hex_digit_def Let_def)

lemma hex_encode_Nil [simp]: "hex_encode [] = []"
  by (simp add: hex_encode_def)

lemma hex_decode_encode [simp]: "hex_decode (hex_encode b) = Some b"
proof (induction b)
  case (Cons x b)
  have "unat x div 16 < 16" and "unat x mod 16 < 16"
    using unat_u8_lt [of x] by linarith+
  moreover have "16 * (unat x div 16) + unat x mod 16 = unat x" by simp
  ultimately show ?case
    using Cons.IH by (simp add: hex_encode_def hex_value_digit del: mult_div_mod_eq)
qed simp

lemma length_hex_encode: "length (hex_encode b) = 2 * length b"
  by (induction b) (simp_all add: hex_encode_def)

lemma hex_encode_inject [simp]: "hex_encode a = hex_encode b \<longleftrightarrow> a = b"
  by (metis hex_decode_encode option.inject)

section \<open>Go maps\<close>

text \<open>A lookup in a Go map returns the zero value for a missing key.\<close>

definition get_or :: "'v \<Rightarrow> ('k, 'v) fmap \<Rightarrow> 'k \<Rightarrow> 'v" where
  "get_or z m k = (case fmlookup m k of None \<Rightarrow> z | Some v \<Rightarrow> v)"

lemma get_or_empty [simp]: "get_or z fmempty k = z"
  by (simp add: get_or_def)

lemma get_or_upd [simp]: "get_or z (fmupd k v m) k' = (if k = k' then v else get_or z m k')"
  by (simp add: get_or_def)

text \<open>A loop \<open>for k, v := range m\<close> that updates an accumulator.\<close>

definition range_fm :: "('k :: linorder \<Rightarrow> 'v \<Rightarrow> 'a \<Rightarrow> 'a) \<Rightarrow> ('k, 'v) fmap \<Rightarrow> 'a \<Rightarrow> 'a" where
  "range_fm step m a = fold (\<lambda>(k, v). step k v) (sorted_list_of_fmap m) a"

text \<open>The sum of a measure over the values of a map; not executed, only stated about.\<close>

definition fmsum :: "('v \<Rightarrow> nat) \<Rightarrow> ('k, 'v) fmap \<Rightarrow> nat" where
  "fmsum f m = (\<Sum>k\<in>fmdom' m. f (the (fmlookup m k)))"

lemma fmsum_empty [simp]: "fmsum f fmempty = 0"
  by (simp add: fmsum_def)

lemma fmsum_split:
  "fmsum f m = (case fmlookup m k of None \<Rightarrow> 0 | Some v \<Rightarrow> f v)
     + (\<Sum>k\<in>fmdom' m - {k}. f (the (fmlookup m k)))"
proof (cases "fmlookup m k")
  case None
  then have "fmdom' m - {k} = fmdom' m" by (auto simp: fmlookup_dom'_iff)
  with None show ?thesis by (simp add: fmsum_def)
next
  case (Some v)
  then have "k \<in> fmdom' m" by (auto simp: fmlookup_dom'_iff)
  with Some show ?thesis by (simp add: fmsum_def sum.remove)
qed

lemma fmsum_upd:
  "fmsum f (fmupd k v m) + (case fmlookup m k of None \<Rightarrow> 0 | Some w \<Rightarrow> f w) = fmsum f m + f v"
proof -
  have "(\<Sum>j\<in>fmdom' (fmupd k v m) - {k}. f (the (fmlookup (fmupd k v m) j)))
      = (\<Sum>j\<in>fmdom' m - {k}. f (the (fmlookup m j)))"
    by (rule sum.cong) auto
  then show ?thesis
    by (simp add: fmsum_split [of f "fmupd k v m" k] fmsum_split [of f m k])
qed

lemma fmsum_upd_or:
  "f z = 0 \<Longrightarrow> fmsum f (fmupd k v m) + f (get_or z m k) = fmsum f m + f v"
  using fmsum_upd [of f k v m] by (cases "fmlookup m k") (simp_all add: get_or_def)

lemma fmsum_ge: "fmlookup m k = Some v \<Longrightarrow> f v \<le> fmsum f m"
  by (simp add: fmsum_split [of f m k])

lemma fmsum_get_or_le: "f z = 0 \<Longrightarrow> f (get_or z m k) \<le> fmsum f m"
  by (cases "fmlookup m k") (simp_all add: get_or_def fmsum_ge)

lemma fmsum_fmmap: "fmsum f (fmmap g m) = fmsum (f \<circ> g) m"
  unfolding fmsum_def by (rule sum.cong) (auto simp: fmlookup_dom'_iff)

lemma fmsum_mono: "(\<And>v. f v \<le> g v) \<Longrightarrow> fmsum f m \<le> fmsum g m"
  by (simp add: fmsum_def sum_mono)

lemma fmsum_add: "fmsum (\<lambda>v. f v + g v) m = fmsum f m + fmsum g m"
  by (simp add: fmsum_def sum.distrib)

lemma distinct_sorted_list_of_fmap [simp]: "distinct (map fst (sorted_list_of_fmap m))"
  by (simp add: sorted_list_of_fmap_def o_def sorted_list_of_fset.rep_eq)

lemma sorted_sorted_list_of_fmap [simp]: "sorted (map fst (sorted_list_of_fmap m))"
  by (simp add: sorted_list_of_fmap_def o_def sorted_list_of_fset.rep_eq)

lemma sorted_list_of_fmap_empty [simp]: "sorted_list_of_fmap fmempty = []"
  by (simp add: sorted_list_of_fmap_def sorted_list_of_fset.rep_eq)

lemma range_fm_empty [simp]: "range_fm step fmempty a = a"
  by (simp add: range_fm_def)

lemma set_sorted_list_of_fmap: "set (sorted_list_of_fmap m) = {(k, v). fmlookup m k = Some v}"
  using map_of_sorted_list [of m] by (auto simp: set_map_of_compr)

lemma sum_list_sorted_list_of_fmap:
  "(\<Sum>kv\<leftarrow>sorted_list_of_fmap m. f (snd kv)) = fmsum f m"
proof -
  have "(\<Sum>kv\<leftarrow>sorted_list_of_fmap m. f (snd kv))
      = (\<Sum>k\<leftarrow>sorted_list_of_fset (fmdom m). f (the (fmlookup m k)))"
    by (simp add: sorted_list_of_fmap_def o_def)
  also have "\<dots> = fmsum f m"
    by (simp add: fmsum_def fmdom'_alt_def sum_list_distinct_conv_sum_set
        sorted_list_of_fset.rep_eq)
  finally show ?thesis .
qed

text \<open>A loop that copies a map into another: the copied keys win.\<close>

lemma fold_fmupd_lookup:
  "distinct (map fst kvs) \<Longrightarrow>
   fmlookup (fold (\<lambda>(k, v). fmupd k (g v)) kvs m) k =
     (case map_of kvs k of Some v \<Rightarrow> Some (g v) | None \<Rightarrow> fmlookup m k)"
proof (induction kvs arbitrary: m)
  case (Cons kv kvs)
  obtain j v where kv: "kv = (j, v)" by fastforce
  have "map_of kvs j = None" using Cons.prems kv by (simp add: map_of_eq_None_iff)
  with Cons kv show ?case by (auto split: option.splits)
qed simp

lemma fmlookup_range_upd:
  "fmlookup (range_fm (\<lambda>k v. fmupd k (g v)) m m0) k =
     (case fmlookup m k of Some v \<Rightarrow> Some (g v) | None \<Rightarrow> fmlookup m0 k)"
  by (simp add: range_fm_def fold_fmupd_lookup map_of_sorted_list)

lemma range_copy [simp]: "range_fm fmupd m fmempty = m"
  using fmlookup_range_upd [of "\<lambda>v. v" m fmempty] by (intro fmap_ext) (simp split: option.splits)

text \<open>
  Go does not fix the order of a loop over a map. A loop whose body commutes gives the same result
  in any order; every loop of the model over a map is an instance of this interface.
\<close>

locale range_fold =
  fixes step :: "'k :: linorder \<Rightarrow> 'v \<Rightarrow> 'a \<Rightarrow> 'a"
  assumes step_commute: "step k v (step k' v' a) = step k' v' (step k v a)"
begin

lemma any_order:
  assumes "distinct (map fst kvs)" and "map_of kvs = fmlookup m"
  shows "fold (\<lambda>(k, v). step k v) kvs a = range_fm step m a"
proof -
  have "set kvs = set (sorted_list_of_fmap m)"
    using assms by (simp add: set_map_of_compr set_sorted_list_of_fmap)
  moreover have "distinct kvs" and "distinct (sorted_list_of_fmap m)"
    using assms(1) distinct_sorted_list_of_fmap [of m] by (simp_all add: distinct_map)
  ultimately have "mset kvs = mset (sorted_list_of_fmap m)"
    by (simp add: set_eq_iff_mset_eq_distinct)
  then have "fold (\<lambda>(k, v). step k v) kvs = fold (\<lambda>(k, v). step k v) (sorted_list_of_fmap m)"
    by (intro fold_multiset_equiv) (auto simp: step_commute fun_eq_iff)
  then show ?thesis by (simp add: range_fm_def)
qed

end

section \<open>Running a list of fallible steps\<close>

text \<open>
  The shape of every replay and block loop: apply a method to each element, stop at the first
  error and keep what was done so far.
\<close>

fun run_steps :: "('x \<Rightarrow> 's \<Rightarrow> err option \<times> 's) \<Rightarrow> 'x list \<Rightarrow> 's \<Rightarrow> err option \<times> 's" where
  "run_steps step [] s = (None, s)"
| "run_steps step (x # xs) s =
     (case step x s of (Some e, s') \<Rightarrow> (Some e, s') | (None, s') \<Rightarrow> run_steps step xs s')"

lemma run_steps_append:
  "run_steps step (xs @ ys) s =
     (case run_steps step xs s of (Some e, s') \<Rightarrow> (Some e, s') | (None, s') \<Rightarrow> run_steps step ys s')"
  by (induction xs arbitrary: s) (auto split: prod.splits option.splits)

text \<open>
  An invariant that every step keeps, whether it succeeds or fails, holds after the whole run; a
  relation between the states before and after a step lifts to the run as well.
\<close>

locale kept_by_steps =
  fixes step :: "'x \<Rightarrow> 's \<Rightarrow> err option \<times> 's"
    and inv :: "'s \<Rightarrow> bool"
  assumes step_kept: "inv s \<Longrightarrow> inv (snd (step x s))"
begin

lemma run_kept: "inv s \<Longrightarrow> inv (snd (run_steps step xs s))"
proof (induction xs arbitrary: s)
  case (Cons x xs)
  obtain r s' where st: "step x s = (r, s')" by fastforce
  with step_kept [OF Cons.prems, of x] have "inv s'" by simp
  with Cons.IH st show ?case by (cases r) simp_all
qed simp

end

end
