(* ===== verification/Arith.thy ===== *)
theory Arith
  imports Go_Prelude
begin

text \<open>
  Package \<open>arith\<close>: the checked addition and subtraction every balance of the node goes through,
  and the saturating addition of the totals it reports. The loops that total a map or a list with
  \<open>AddCap\<close> are instances of \<open>range_fold\<close>.
\<close>

definition ErrOverflow :: err where
  "ErrOverflow = Err ''uint64 overflow''"

definition ErrUnderflow :: err where
  "ErrUnderflow = Err ''uint64 underflow''"

definition Add :: "u64 \<Rightarrow> u64 \<Rightarrow> err + u64" where
  "Add a b = (if b > max_u64 - a then Inl ErrOverflow else Inr (a + b))"

definition Sub :: "u64 \<Rightarrow> u64 \<Rightarrow> err + u64" where
  "Sub a b = (if b > a then Inl ErrUnderflow else Inr (a - b))"

definition AddCap :: "u64 \<Rightarrow> u64 \<Rightarrow> u64" where
  "AddCap a b = (case Add a b of Inl _ \<Rightarrow> max_u64 | Inr value \<Rightarrow> value)"

section \<open>Correctness\<close>

lemma room_u64: "b > max_u64 - a \<longleftrightarrow> 2 ^ 64 \<le> unat a + unat b"
proof -
  have "a \<le> max_u64" by (simp add: word_le_nat_alt)
  then have "unat (max_u64 - a) = 18446744073709551615 - unat a"
    by (subst unat_sub_u64) simp_all
  then show ?thesis
    using unat_u64_le [of a] by (simp add: word_less_nat_alt del: max_u64_numeral unat_u64_le) linarith
qed

lemma Add_Inr_iff: "Add a b = Inr c \<longleftrightarrow> unat a + unat b < 2 ^ 64 \<and> unat c = unat a + unat b"
proof (cases "unat a + unat b < 2 ^ 64")
  case True
  then have "Add a b = Inr (a + b)" by (simp add: Add_def room_u64 del: max_u64_numeral)
  moreover have "unat (a + b) = unat a + unat b" using True by (simp add: unat_add_u64)
  ultimately show ?thesis using True by (auto simp: u64_eq_iff)
next
  case False
  then show ?thesis by (simp add: Add_def room_u64 del: max_u64_numeral)
qed

lemma Add_Inl_iff: "Add a b = Inl e \<longleftrightarrow> 2 ^ 64 \<le> unat a + unat b \<and> e = ErrOverflow"
  by (auto simp: Add_def room_u64 simp del: max_u64_numeral)

lemma Sub_Inr_iff: "Sub a b = Inr c \<longleftrightarrow> unat b \<le> unat a \<and> unat c = unat a - unat b"
proof (cases "b \<le> a")
  case True
  then have "Sub a b = Inr (a - b)" by (simp add: Sub_def)
  moreover have "unat (a - b) = unat a - unat b" using True by (rule unat_sub_u64)
  ultimately show ?thesis using True by (auto simp: u64_eq_iff word_le_nat_alt)
next
  case False
  then show ?thesis by (simp add: Sub_def word_le_nat_alt word_less_nat_alt)
qed

lemma Sub_Inl_iff: "Sub a b = Inl e \<longleftrightarrow> unat a < unat b \<and> e = ErrUnderflow"
  by (auto simp: Sub_def word_less_nat_alt)

lemmas arith_iff = Add_Inr_iff Add_Inl_iff Sub_Inr_iff Sub_Inl_iff

lemma unat_AddCap: "unat (AddCap a b) = min (2 ^ 64 - 1) (unat a + unat b)"
proof (cases "Add a b")
  case (Inl e)
  then show ?thesis by (simp add: AddCap_def) (simp add: Add_Inl_iff)
next
  case (Inr c)
  then show ?thesis by (simp add: AddCap_def) (simp add: Add_Inr_iff)
qed

lemma AddCap_commute: "AddCap a b = AddCap b a"
  by (simp add: u64_eq_iff unat_AddCap add.commute)

lemma AddCap_left_commute: "AddCap (AddCap a b) c = AddCap (AddCap a c) b"
  by (simp add: u64_eq_iff unat_AddCap)

lemma AddCap_0 [simp]: "AddCap a 0 = a" "AddCap 0 a = a"
  by (simp_all add: u64_eq_iff unat_AddCap)

text \<open>A loop that totals amounts with \<open>AddCap\<close> computes the capped sum.\<close>

lemma unat_fold_AddCap:
  "unat (fold (\<lambda>x acc. AddCap acc (f x)) xs a) = min (2 ^ 64 - 1) (unat a + (\<Sum>x\<leftarrow>xs. unat (f x)))"
proof (induction xs arbitrary: a)
  case Nil
  show ?case using le_antisym [OF unat_u64_le [of a]] by (auto simp: min_def)
next
  case (Cons x xs)
  then show ?case by (simp add: unat_AddCap min_def)
qed

lemma unat_range_AddCap:
  "unat (range_fm (\<lambda>_ v acc. AddCap acc (f v)) m a)
     = min (2 ^ 64 - 1) (unat a + fmsum (\<lambda>v. unat (f v)) m)"
proof -
  have "range_fm (\<lambda>_ v acc. AddCap acc (f v)) m a
      = fold (\<lambda>kv acc. AddCap acc (f (snd kv))) (sorted_list_of_fmap m) a"
    by (simp add: range_fm_def case_prod_beta')
  then show ?thesis
    by (simp add: unat_fold_AddCap sum_list_sorted_list_of_fmap [where f = "\<lambda>v. unat (f v)"])
qed

interpretation cap_total: range_fold "\<lambda>(_ :: string) v acc. AddCap acc (f v)" for f
  by unfold_locales (simp add: AddCap_left_commute)

end
