(* ===== verification/Config.thy ===== *)
theory Config
  imports Arith
begin

text \<open>
  Package \<open>config\<close>: the protocol constants, the parameter structs, the three built-in network
  profiles, the check every profile has to pass before the node runs on it, and the profile lookup
  by name. The file-system paths and the environment overrides of the package are input and output
  and are not modelled.
\<close>

section \<open>Protocol constants\<close>

definition Decimals :: nat where
  "Decimals = 8"

definition NativeAssetID :: string where
  "NativeAssetID = ''dIDR''"

definition NativeAssetSymbol :: string where
  "NativeAssetSymbol = ''dIDR''"

definition NativeAssetDecimals :: u8 where
  "NativeAssetDecimals = 8"

definition FeeAssetID :: string where
  "FeeAssetID = NativeAssetID"

definition UnitsPerCoin :: u64 where
  "UnitsPerCoin = 100000000"

definition InitialBlockReward :: u64 where
  "InitialBlockReward = 50 * UnitsPerCoin"

definition DefaultMaxBlockBytes :: u64 where
  "DefaultMaxBlockBytes = push_bit 20 1"

definition DefaultMaxTxBytes :: u64 where
  "DefaultMaxTxBytes = push_bit 10 128"

definition DefaultMaxTxCount :: u64 where
  "DefaultMaxTxCount = 2000"

definition InitialDifficulty :: u32 where
  "InitialDifficulty = 4"

definition BlockTimeTargetSecs :: i64 where
  "BlockTimeTargetSecs = 10"

definition GenesisTimestamp :: i64 where
  "GenesisTimestamp = 1717200000"

definition GenesisMessage :: string where
  "GenesisMessage = ''IndoChain Genesis - fair CPU mining starts here''"

definition MainnetGenesisHash :: string where
  "MainnetGenesisHash = ''3f7c6b188ce915a6c1a20a44fa6d02a17f7350776c1db1500daf7356f5f83416''"

section \<open>Parameters of a network\<close>

record staking_params =
  sp_Enabled :: bool
  sp_MinServiceStake :: u64
  sp_MinStakeAmount :: u64
  sp_UnbondingPeriodBlocks :: u64
  sp_MaxActiveStakesPerAddress :: int
  sp_RequireStakeForServiceRewards :: bool

record consensus_params =
  cp_CoinbaseMaturity :: u64
  cp_MaxBlockBytes :: u64
  cp_MaxTxBytes :: u64
  cp_MaxTxCount :: u64
  cp_MaxGasPerBlock :: u64
  cp_Staking :: staking_params

record economic_params =
  ep_BlockSubsidy :: u64
  ep_FeeOnlyBlocks :: bool

record fee_params =
  fp_Enabled :: bool
  fp_MinFee :: u64
  fp_MinGasPrice :: u64
  fp_BytesPerGas :: u64
  fp_MaxGasPerTx :: u64
  fp_BaseGasTransfer :: u64
  fp_BaseGasAssetTransfer :: u64
  fp_BaseGasStakeLock :: u64
  fp_BaseGasStakeUnlock :: u64
  fp_BaseGasAssetCreate :: u64
  fp_BaseGasAssetMint :: u64
  fp_BaseGasAssetBurn :: u64

record asset_params =
  ap_NativeAssetID :: string
  ap_NativeAssetSymbol :: string
  ap_NativeAssetDecimals :: u8
  ap_FeeAssetID :: string
  ap_TokenTransfersEnabled :: bool
  ap_UserIssuedTokensEnabled :: bool
  ap_PaymasterEnabled :: bool

record difficulty_params =
  dp_InitialDifficulty :: u32
  dp_MinDifficulty :: u32
  dp_MaxDifficulty :: u32
  dp_TargetBlockTimeSeconds :: i64
  dp_RetargetWindow :: u64
  dp_MaxFutureDriftSeconds :: i64

record network_limits =
  nl_MaxHeaderBatch :: u64
  nl_MaxSyncBlocks :: u64
  nl_MaxReorgFetchBlocks :: u64

record network_config =
  nc_NetworkName :: string
  nc_Name :: string
  nc_NetworkID :: string
  nc_ChainID :: u64
  nc_AddressPrefix :: string
  nc_AddressVersion :: u8
  nc_LegacyAddressAllowed :: bool
  nc_DefaultRPCPort :: int
  nc_DefaultP2PPort :: int
  nc_ProtocolVersion :: u32
  nc_MinProtocolVersion :: u32
  nc_RPCAPIVersion :: string
  nc_P2PProtocolVersion :: string
  nc_BlockVersion :: u32
  nc_TxVersion :: u32
  nc_Difficulty :: difficulty_params
  nc_Consensus :: consensus_params
  nc_Asset :: asset_params
  nc_Fee :: fee_params
  nc_Economic :: economic_params
  nc_MaxPeers :: int
  nc_MaxReorgDepth :: u64
  nc_MinMiningPeers :: int
  nc_AllowIsolatedMining :: bool
  nc_MinWritePeers :: int
  nc_AllowIsolatedWrites :: bool
  nc_RequireAuthenticatedNode :: bool
  nc_SeedPeers :: "string list"
  nc_GenesisHash :: string
  nc_NetworkLimits :: network_limits

section \<open>The built-in profiles\<close>

definition Localnet :: network_config where
  "Localnet =
    \<lparr>nc_NetworkName = ''localnet'',
       nc_Name = ''localnet'',
       nc_NetworkID = ''ind-local-1'',
       nc_ChainID = 777001,
       nc_AddressPrefix = ''iND'',
       nc_AddressVersion = 30,
       nc_LegacyAddressAllowed = True,
       nc_DefaultRPCPort = 8331,
       nc_DefaultP2PPort = 9331,
       nc_ProtocolVersion = 1,
       nc_MinProtocolVersion = 1,
       nc_RPCAPIVersion = ''v1'',
       nc_P2PProtocolVersion = ''ind-p2p/1'',
       nc_BlockVersion = 1,
       nc_TxVersion = 3,
       nc_Difficulty = \<lparr>dp_InitialDifficulty = 4,
         dp_MinDifficulty = 1,
         dp_MaxDifficulty = 8,
         dp_TargetBlockTimeSeconds = 10,
         dp_RetargetWindow = 10,
         dp_MaxFutureDriftSeconds = 900\<rparr>,
       nc_Consensus = \<lparr>cp_CoinbaseMaturity = 10,
         cp_MaxBlockBytes = DefaultMaxBlockBytes,
         cp_MaxTxBytes = DefaultMaxTxBytes,
         cp_MaxTxCount = DefaultMaxTxCount,
         cp_MaxGasPerBlock = 200000,
         cp_Staking = \<lparr>sp_Enabled = True,
           sp_MinServiceStake = 100 * UnitsPerCoin,
           sp_MinStakeAmount = 10 * UnitsPerCoin,
           sp_UnbondingPeriodBlocks = 10,
           sp_MaxActiveStakesPerAddress = 10,
           sp_RequireStakeForServiceRewards = True\<rparr>\<rparr>,
       nc_Asset = \<lparr>ap_NativeAssetID = NativeAssetID,
         ap_NativeAssetSymbol = NativeAssetSymbol,
         ap_NativeAssetDecimals = NativeAssetDecimals,
         ap_FeeAssetID = FeeAssetID,
         ap_TokenTransfersEnabled = True,
         ap_UserIssuedTokensEnabled = True,
         ap_PaymasterEnabled = True\<rparr>,
       nc_Fee = \<lparr>fp_Enabled = True,
         fp_MinFee = 1,
         fp_MinGasPrice = 0,
         fp_BytesPerGas = 32,
         fp_MaxGasPerTx = 100000,
         fp_BaseGasTransfer = 10,
         fp_BaseGasAssetTransfer = 12,
         fp_BaseGasStakeLock = 12,
         fp_BaseGasStakeUnlock = 8,
         fp_BaseGasAssetCreate = 50,
         fp_BaseGasAssetMint = 30,
         fp_BaseGasAssetBurn = 25\<rparr>,
       nc_Economic = \<lparr>ep_BlockSubsidy = 0,
         ep_FeeOnlyBlocks = True\<rparr>,
       nc_MaxPeers = 32,
       nc_MaxReorgDepth = 64,
       nc_MinMiningPeers = 0,
       nc_AllowIsolatedMining = True,
       nc_MinWritePeers = 0,
       nc_AllowIsolatedWrites = True,
       nc_RequireAuthenticatedNode = False,
       nc_SeedPeers = [],
       nc_GenesisHash = '''',
       nc_NetworkLimits = \<lparr>nl_MaxHeaderBatch = 500,
         nl_MaxSyncBlocks = 500,
         nl_MaxReorgFetchBlocks = 512\<rparr>\<rparr>"

definition Testnet :: network_config where
  "Testnet =
    \<lparr>nc_NetworkName = ''testnet'',
       nc_Name = ''testnet'',
       nc_NetworkID = ''ind-testnet-1'',
       nc_ChainID = 777101,
       nc_AddressPrefix = ''iND'',
       nc_AddressVersion = 31,
       nc_LegacyAddressAllowed = False,
       nc_DefaultRPCPort = 18331,
       nc_DefaultP2PPort = 19331,
       nc_ProtocolVersion = 1,
       nc_MinProtocolVersion = 1,
       nc_RPCAPIVersion = ''v1'',
       nc_P2PProtocolVersion = ''ind-p2p/1'',
       nc_BlockVersion = 1,
       nc_TxVersion = 3,
       nc_Difficulty = \<lparr>dp_InitialDifficulty = 4,
         dp_MinDifficulty = 1,
         dp_MaxDifficulty = 12,
         dp_TargetBlockTimeSeconds = 30,
         dp_RetargetWindow = 30,
         dp_MaxFutureDriftSeconds = 900\<rparr>,
       nc_Consensus = \<lparr>cp_CoinbaseMaturity = 100,
         cp_MaxBlockBytes = DefaultMaxBlockBytes,
         cp_MaxTxBytes = DefaultMaxTxBytes,
         cp_MaxTxCount = DefaultMaxTxCount,
         cp_MaxGasPerBlock = 200000,
         cp_Staking = \<lparr>sp_Enabled = True,
           sp_MinServiceStake = 1000 * UnitsPerCoin,
           sp_MinStakeAmount = 100 * UnitsPerCoin,
           sp_UnbondingPeriodBlocks = 100,
           sp_MaxActiveStakesPerAddress = 20,
           sp_RequireStakeForServiceRewards = True\<rparr>\<rparr>,
       nc_Asset = \<lparr>ap_NativeAssetID = NativeAssetID,
         ap_NativeAssetSymbol = NativeAssetSymbol,
         ap_NativeAssetDecimals = NativeAssetDecimals,
         ap_FeeAssetID = FeeAssetID,
         ap_TokenTransfersEnabled = True,
         ap_UserIssuedTokensEnabled = True,
         ap_PaymasterEnabled = True\<rparr>,
       nc_Fee = \<lparr>fp_Enabled = True,
         fp_MinFee = 1,
         fp_MinGasPrice = 0,
         fp_BytesPerGas = 32,
         fp_MaxGasPerTx = 100000,
         fp_BaseGasTransfer = 10,
         fp_BaseGasAssetTransfer = 12,
         fp_BaseGasStakeLock = 12,
         fp_BaseGasStakeUnlock = 8,
         fp_BaseGasAssetCreate = 50,
         fp_BaseGasAssetMint = 30,
         fp_BaseGasAssetBurn = 25\<rparr>,
       nc_Economic = \<lparr>ep_BlockSubsidy = 0,
         ep_FeeOnlyBlocks = True\<rparr>,
       nc_MaxPeers = 128,
       nc_MaxReorgDepth = 128,
       nc_MinMiningPeers = 1,
       nc_AllowIsolatedMining = False,
       nc_MinWritePeers = 1,
       nc_AllowIsolatedWrites = False,
       nc_RequireAuthenticatedNode = True,
       nc_SeedPeers = [],
       nc_GenesisHash = '''',
       nc_NetworkLimits = \<lparr>nl_MaxHeaderBatch = 500,
         nl_MaxSyncBlocks = 500,
         nl_MaxReorgFetchBlocks = 512\<rparr>\<rparr>"

definition Mainnet :: network_config where
  "Mainnet =
    \<lparr>nc_NetworkName = ''mainnet'',
       nc_Name = ''mainnet'',
       nc_NetworkID = ''ind-main-1'',
       nc_ChainID = 777000,
       nc_AddressPrefix = ''iND'',
       nc_AddressVersion = 32,
       nc_LegacyAddressAllowed = False,
       nc_DefaultRPCPort = 8333,
       nc_DefaultP2PPort = 9333,
       nc_ProtocolVersion = 1,
       nc_MinProtocolVersion = 1,
       nc_RPCAPIVersion = ''v1'',
       nc_P2PProtocolVersion = ''ind-p2p/1'',
       nc_BlockVersion = 1,
       nc_TxVersion = 3,
       nc_Difficulty = \<lparr>dp_InitialDifficulty = 6,
         dp_MinDifficulty = 1,
         dp_MaxDifficulty = 24,
         dp_TargetBlockTimeSeconds = 60,
         dp_RetargetWindow = 60,
         dp_MaxFutureDriftSeconds = 900\<rparr>,
       nc_Consensus = \<lparr>cp_CoinbaseMaturity = 100,
         cp_MaxBlockBytes = DefaultMaxBlockBytes,
         cp_MaxTxBytes = DefaultMaxTxBytes,
         cp_MaxTxCount = DefaultMaxTxCount,
         cp_MaxGasPerBlock = 200000,
         cp_Staking = \<lparr>sp_Enabled = False,
           sp_MinServiceStake = 0,
           sp_MinStakeAmount = 0,
           sp_UnbondingPeriodBlocks = 0,
           sp_MaxActiveStakesPerAddress = 0,
           sp_RequireStakeForServiceRewards = True\<rparr>\<rparr>,
       nc_Asset = \<lparr>ap_NativeAssetID = NativeAssetID,
         ap_NativeAssetSymbol = NativeAssetSymbol,
         ap_NativeAssetDecimals = NativeAssetDecimals,
         ap_FeeAssetID = FeeAssetID,
         ap_TokenTransfersEnabled = True,
         ap_UserIssuedTokensEnabled = True,
         ap_PaymasterEnabled = True\<rparr>,
       nc_Fee = \<lparr>fp_Enabled = True,
         fp_MinFee = 1,
         fp_MinGasPrice = 0,
         fp_BytesPerGas = 32,
         fp_MaxGasPerTx = 100000,
         fp_BaseGasTransfer = 10,
         fp_BaseGasAssetTransfer = 12,
         fp_BaseGasStakeLock = 12,
         fp_BaseGasStakeUnlock = 8,
         fp_BaseGasAssetCreate = 50,
         fp_BaseGasAssetMint = 30,
         fp_BaseGasAssetBurn = 25\<rparr>,
       nc_Economic = \<lparr>ep_BlockSubsidy = 0,
         ep_FeeOnlyBlocks = True\<rparr>,
       nc_MaxPeers = 256,
       nc_MaxReorgDepth = 64,
       nc_MinMiningPeers = 1,
       nc_AllowIsolatedMining = False,
       nc_MinWritePeers = 1,
       nc_AllowIsolatedWrites = False,
       nc_RequireAuthenticatedNode = True,
       nc_SeedPeers = [],
       nc_GenesisHash = MainnetGenesisHash,
       nc_NetworkLimits = \<lparr>nl_MaxHeaderBatch = 500,
         nl_MaxSyncBlocks = 500,
         nl_MaxReorgFetchBlocks = 512\<rparr>\<rparr>"

text \<open>\<open>ValidateNetworkProfile\<close>: the protocol invariants shared by all built-in networks.\<close>

definition ValidateNetworkProfile :: "network_config \<Rightarrow> err option" where
  "ValidateNetworkProfile profile =
    (if nc_Name profile = [] \<or> nc_NetworkID profile = [] \<or> nc_NetworkName profile = [] then
       Some (Err ''network identity is incomplete'')
     else if nc_Name profile \<noteq> nc_NetworkName profile then
       Some (Err ''network name mismatch: name=%q network_name=%q'')
     else if nc_ChainID profile = 0 then Some (Err ''chain id must be non-zero'')
     else if nc_ProtocolVersion profile \<noteq> 1 \<or> nc_MinProtocolVersion profile \<noteq> 1 then
       Some (Err ''unsupported protocol version range: %d/%d'')
     else if nc_RPCAPIVersion profile \<noteq> ''v1'' \<or> nc_P2PProtocolVersion profile \<noteq> ''ind-p2p/1'' then
       Some (Err ''unsupported transport protocol versions'')
     else if nc_BlockVersion profile \<noteq> 1 \<or> nc_TxVersion profile \<noteq> 3 then
       Some (Err ''unsupported consensus versions: block=%d tx=%d'')
     else if ap_NativeAssetID (nc_Asset profile) \<noteq> NativeAssetID
         \<or> ap_NativeAssetSymbol (nc_Asset profile) \<noteq> NativeAssetSymbol
         \<or> ap_NativeAssetDecimals (nc_Asset profile) \<noteq> NativeAssetDecimals then
       Some (Err ''native asset must remain dIDR with %d decimals'')
     else if ap_FeeAssetID (nc_Asset profile) \<noteq> NativeAssetID then
       Some (Err ''fee asset must remain dIDR'')
     else if \<not> ap_TokenTransfersEnabled (nc_Asset profile)
         \<or> \<not> ap_UserIssuedTokensEnabled (nc_Asset profile)
         \<or> \<not> ap_PaymasterEnabled (nc_Asset profile) then
       Some (Err ''v3 asset capabilities are incomplete'')
     else if \<not> fp_Enabled (nc_Fee profile) \<or> fp_MinFee (nc_Fee profile) = 0
         \<or> fp_MaxGasPerTx (nc_Fee profile) = 0 \<or> cp_MaxGasPerBlock (nc_Consensus profile) = 0 then
       Some (Err ''fee/gas policy is incomplete'')
     else if ep_BlockSubsidy (nc_Economic profile) \<noteq> 0
         \<or> \<not> ep_FeeOnlyBlocks (nc_Economic profile) then
       Some (Err ''v3 economics must be fee-only with zero block subsidy'')
     else if cp_MaxBlockBytes (nc_Consensus profile) = 0
         \<or> cp_MaxTxBytes (nc_Consensus profile) = 0 \<or> cp_MaxTxCount (nc_Consensus profile) = 0 then
       Some (Err ''consensus size limits are incomplete'')
     else if nl_MaxHeaderBatch (nc_NetworkLimits profile) = 0
         \<or> nl_MaxSyncBlocks (nc_NetworkLimits profile) = 0
         \<or> nl_MaxReorgFetchBlocks (nc_NetworkLimits profile) = 0 then
       Some (Err ''network fetch limits are incomplete'')
     else if nc_Name profile \<noteq> ''localnet'' \<and> \<not> nc_RequireAuthenticatedNode profile then
       Some (Err ''production network requires authenticated P2P nodes'')
     else if nc_Name profile = ''mainnet'' \<and> nc_GenesisHash profile \<noteq> MainnetGenesisHash then
       Some (Err ''mainnet genesis hash is not frozen'')
     else None)"

definition NetworkByName :: "string \<Rightarrow> err + network_config" where
  "NetworkByName name =
    (let checked = (\<lambda>profile. case ValidateNetworkProfile profile of
                       Some e \<Rightarrow> Inl (Wrap ''invalid %s network profile'' e)
                     | None \<Rightarrow> Inr profile) in
     if name = [] \<or> name = ''localnet'' then checked Localnet
     else if name = ''testnet'' then checked Testnet
     else if name = ''mainnet'' then checked Mainnet
     else Inl (Err ''unknown network: %s''))"

definition DefaultMaxReorgDepth :: "network_config \<Rightarrow> u64" where
  "DefaultMaxReorgDepth profile =
    (if nc_MaxReorgDepth profile > 0 then nc_MaxReorgDepth profile
     else if nc_Name profile = ''testnet'' then 128
     else 64)"

section \<open>The built-in profiles pass their own check\<close>

lemmas config_consts = NativeAssetID_def NativeAssetSymbol_def NativeAssetDecimals_def FeeAssetID_def
  UnitsPerCoin_def InitialBlockReward_def DefaultMaxBlockBytes_def DefaultMaxTxBytes_def
  DefaultMaxTxCount_def

lemma Localnet_valid [simp]: "ValidateNetworkProfile Localnet = None"
  by (simp add: ValidateNetworkProfile_def Localnet_def config_consts)

lemma Testnet_valid [simp]: "ValidateNetworkProfile Testnet = None"
  by (simp add: ValidateNetworkProfile_def Testnet_def config_consts)

lemma Mainnet_valid [simp]: "ValidateNetworkProfile Mainnet = None"
  by (simp add: ValidateNetworkProfile_def Mainnet_def config_consts)

text \<open>
  A profile that passes the check runs the v3 asset model with fee-only economics: the facts about
  it that the consensus theorems use.
\<close>

lemma valid_profile_facts:
  assumes "ValidateNetworkProfile p = None"
  shows "nc_TxVersion p = 3" "nc_BlockVersion p = 1" "nc_ChainID p \<noteq> 0"
    "ep_BlockSubsidy (nc_Economic p) = 0" "fp_Enabled (nc_Fee p)" "fp_MinFee (nc_Fee p) \<noteq> 0"
    "nc_Name p \<noteq> []" "cp_MaxGasPerBlock (nc_Consensus p) \<noteq> 0" "cp_MaxTxCount (nc_Consensus p) \<noteq> 0"
    "nc_Name p = ''mainnet'' \<Longrightarrow> nc_GenesisHash p = MainnetGenesisHash"
    "nc_Name p \<noteq> ''localnet'' \<Longrightarrow> nc_RequireAuthenticatedNode p"
  using assms by (simp_all add: ValidateNetworkProfile_def split: if_splits)

end
