(* ===== verification/Asset_Model.thy ===== *)
theory Asset_Model
  imports Config
begin

text \<open>
  \<open>asset/model.go\<close>: the definition of a fungible asset, its validation, the identifier derived from
  the create transaction and the test for the native asset.
\<close>

definition KindFungible :: string where
  "KindFungible = ''fungible''"

definition StatusAssetActive :: string where
  "StatusAssetActive = ''active''"

definition StatusFrozen :: string where
  "StatusFrozen = ''frozen''"

record asset_definition =
  def_ID :: string
  def_Name :: string
  def_Symbol :: string
  def_Decimals :: u8
  def_Kind :: string
  def_Issuer :: string
  def_MaxSupply :: u64
  def_TotalSupply :: u64
  def_Mintable :: bool
  def_Burnable :: bool
  def_Pausable :: bool
  def_Permissioned :: bool
  def_Status :: string

definition ValidateDefinition :: "asset_definition \<Rightarrow> err option" where
  "ValidateDefinition d =
    (if TrimSpace (def_ID d) = [] \<or> EqualFold (def_ID d) NativeAssetID then
       Some (Err ''invalid issued asset id'')
     else if TrimSpace (def_Name d) = [] then Some (Err ''asset name is required'')
     else if length (TrimSpace (def_Symbol d)) = 0 \<or> length (TrimSpace (def_Symbol d)) > 16 then
       Some (Err ''asset symbol must be 1..16 characters'')
     else if def_Decimals d > 18 then Some (Err ''asset decimals too large: %d'')
     else if def_Kind d \<noteq> [] \<and> def_Kind d \<noteq> KindFungible then Some (Err ''unsupported asset kind'')
     else if TrimSpace (def_Issuer d) = [] then Some (Err ''asset issuer is required'')
     else if def_MaxSupply d > 0 \<and> def_TotalSupply d > def_MaxSupply d then
       Some (Err ''asset total supply exceeds max supply'')
     else let status = (if def_Status d = [] then StatusAssetActive else def_Status d) in
       if status \<noteq> StatusAssetActive \<and> status \<noteq> StatusFrozen then Some (Err ''invalid asset status'')
       else None)"

definition DerivedID :: "string \<Rightarrow> string" where
  "DerivedID txID = ''asset:'' @ ToLower (TrimSpace txID)"

definition IsNative :: "string \<Rightarrow> bool" where
  "IsNative ident = EqualFold (TrimSpace ident) NativeAssetID"

lemma IsNative_NativeAssetID [simp]: "IsNative NativeAssetID"
  by code_simp

end
