(* ===== verification/Crypto.thy ===== *)
theory Crypto
  imports Config
begin

text \<open>
  Big-endian integers (\<open>encoding/binary\<close>), SHA-256 (\<open>crypto/sha256\<close>, FIPS 180-4), and package
  \<open>crypto\<close>: hashing to hexadecimal and signature verification. The elliptic-curve operations of
  \<open>btcec\<close> and the RIPEMD-160 of \<open>golang.org/x/crypto\<close> are third-party code: they are the fields
  of the record \<open>ext\<close>, a parameter of every definition that reaches them.
\<close>

section \<open>Big-endian integers\<close>

fun be_bytes :: "nat \<Rightarrow> nat \<Rightarrow> bytes" where
  "be_bytes 0 n = []"
| "be_bytes (Suc k) n = be_bytes k (n div 256) @ [of_nat (n mod 256)]"

definition be_nat :: "bytes \<Rightarrow> nat" where
  "be_nat b = foldl (\<lambda>a x. a * 256 + unat x) 0 b"

definition PutUint32 :: "u32 \<Rightarrow> bytes" where
  "PutUint32 v = be_bytes 4 (unat v)"

definition PutUint64 :: "u64 \<Rightarrow> bytes" where
  "PutUint64 v = be_bytes 8 (unat v)"

lemma length_be_bytes [simp]: "length (be_bytes k n) = k"
  by (induction k arbitrary: n) simp_all

lemma be_nat_Nil [simp]: "be_nat [] = 0"
  by (simp add: be_nat_def)

lemma be_nat_snoc [simp]: "be_nat (b @ [x]) = be_nat b * 256 + unat x"
  by (simp add: be_nat_def)

lemma unat_of_nat_byte: "unat (of_nat (n mod 256) :: u8) = n mod 256"
  by (simp add: unat_of_nat)

lemma be_nat_be_bytes: "be_nat (be_bytes k n) = n mod 256 ^ k"
proof (induction k arbitrary: n)
  case (Suc k)
  have "be_nat (be_bytes (Suc k) n) = (n div 256 mod 256 ^ k) * 256 + n mod 256"
    by (simp add: Suc.IH unat_of_nat_byte)
  also have "\<dots> = n mod (256 * 256 ^ k)"
    by (simp add: mod_mult2_eq)
  finally show ?case by simp
qed simp

lemma be_nat_less: "be_nat b < 256 ^ length b"
proof (induction b rule: rev_induct)
  case (snoc x b)
  have "be_nat b * 256 + unat x < (be_nat b + 1) * 256"
    using unat_u8_lt [of x] by simp
  also have "\<dots> \<le> 256 ^ length b * 256" using snoc.IH by simp
  finally show ?case by simp
qed simp

lemma be_bytes_be_nat: "be_bytes (length b) (be_nat b) = b"
proof (induction b rule: rev_induct)
  case (snoc x b)
  have "(be_nat b * 256 + unat x) div 256 = be_nat b"
    and "(be_nat b * 256 + unat x) mod 256 = unat x"
    using unat_u8_lt [of x] by simp_all
  then show ?case using snoc.IH by simp
qed simp

lemma length_PutUint32 [simp]: "length (PutUint32 v) = 4"
  by (simp add: PutUint32_def)

lemma length_PutUint64 [simp]: "length (PutUint64 v) = 8"
  by (simp add: PutUint64_def)

lemma be_nat_PutUint32 [simp]: "be_nat (PutUint32 v) = unat v"
  by (simp add: PutUint32_def be_nat_be_bytes)

lemma be_nat_PutUint64 [simp]: "be_nat (PutUint64 v) = unat v"
  by (simp add: PutUint64_def be_nat_be_bytes)

lemma PutUint32_inject [simp]: "PutUint32 v = PutUint32 w \<longleftrightarrow> v = w"
  by (metis be_nat_PutUint32 word_unat_eq_iff)

lemma PutUint64_inject [simp]: "PutUint64 v = PutUint64 w \<longleftrightarrow> v = w"
  by (metis be_nat_PutUint64 word_unat_eq_iff)

section \<open>SHA-256\<close>

text \<open>The round constants and the initial state of FIPS 180-4, in decimal.\<close>

definition sha_K :: "u32 list" where
  "sha_K =
    [1116352408, 1899447441, 3049323471, 3921009573, 961987163, 1508970993, 2453635748, 2870763221,
     3624381080, 310598401, 607225278, 1426881987, 1925078388, 2162078206, 2614888103, 3248222580,
     3835390401, 4022224774, 264347078, 604807628, 770255983, 1249150122, 1555081692, 1996064986,
     2554220882, 2821834349, 2952996808, 3210313671, 3336571891, 3584528711, 113926993, 338241895,
     666307205, 773529912, 1294757372, 1396182291, 1695183700, 1986661051, 2177026350, 2456956037,
     2730485921, 2820302411, 3259730800, 3345764771, 3516065817, 3600352804, 4094571909, 275423344,
     430227734, 506948616, 659060556, 883997877, 958139571, 1322822218, 1537002063, 1747873779,
     1955562222, 2024104815, 2227730452, 2361852424, 2428436474, 2756734187, 3204031479, 3329325298]"

type_synonym sha_state = "u32 \<times> u32 \<times> u32 \<times> u32 \<times> u32 \<times> u32 \<times> u32 \<times> u32"

definition sha_H0 :: sha_state where
  "sha_H0 = (1779033703, 3144134277, 1013904242, 2773480762,
             1359893119, 2600822924, 528734635, 1541459225)"

definition sha_pad :: "bytes \<Rightarrow> bytes" where
  "sha_pad m = m @ [0x80] @ replicate ((119 - length m mod 64) mod 64) 0 @ be_bytes 8 (8 * length m)"

text \<open>The message schedule, newest word first.\<close>

definition sha_expand1 :: "u32 list \<Rightarrow> u32 list" where
  "sha_expand1 r =
    (let w2 = r ! 1; w7 = r ! 6; w15 = r ! 14; w16 = r ! 15;
         s0 = word_rotr 7 w15 XOR word_rotr 18 w15 XOR drop_bit 3 w15;
         s1 = word_rotr 17 w2 XOR word_rotr 19 w2 XOR drop_bit 10 w2
     in (s1 + w7 + s0 + w16) # r)"

definition sha_schedule :: "u32 list \<Rightarrow> u32 list" where
  "sha_schedule ws = rev ((sha_expand1 ^^ 48) (rev ws))"

definition sha_round :: "u32 \<times> u32 \<Rightarrow> sha_state \<Rightarrow> sha_state" where
  "sha_round kw st =
    (case (kw, st) of ((k, w), (a, b, c, d, e, f, g, h)) \<Rightarrow>
      let s1 = word_rotr 6 e XOR word_rotr 11 e XOR word_rotr 25 e;
          ch = (e AND f) XOR (NOT e AND g);
          t1 = h + s1 + ch + k + w;
          s0 = word_rotr 2 a XOR word_rotr 13 a XOR word_rotr 22 a;
          maj = (a AND b) XOR (a AND c) XOR (b AND c);
          t2 = s0 + maj
      in (t1 + t2, a, b, c, d + t1, e, f, g))"

definition sha_add :: "sha_state \<Rightarrow> sha_state \<Rightarrow> sha_state" where
  "sha_add x y =
    (case (x, y) of ((a, b, c, d, e, f, g, h), (a', b', c', d', e', f', g', h')) \<Rightarrow>
       (a + a', b + b', c + c', d + d', e + e', f + f', g + g', h + h'))"

fun chunks :: "nat \<Rightarrow> 'a list \<Rightarrow> 'a list list" where
  "chunks n xs = (if n = 0 \<or> xs = [] then [] else take n xs # chunks n (drop n xs))"

declare chunks.simps [simp del]

definition sha_block :: "bytes \<Rightarrow> sha_state \<Rightarrow> sha_state" where
  "sha_block blk st =
    sha_add st (fold sha_round
      (zip sha_K (sha_schedule (map (\<lambda>b. of_nat (be_nat b)) (chunks 4 blk)))) st)"

definition sha256 :: "bytes \<Rightarrow> bytes" where
  "sha256 m =
    (case fold sha_block (chunks 64 (sha_pad m)) sha_H0 of (a, b, c, d, e, f, g, h) \<Rightarrow>
       concat (map PutUint32 [a, b, c, d, e, f, g, h]))"

lemma length_sha256 [simp]: "length (sha256 m) = 32"
  by (simp add: sha256_def split: prod.split)

section \<open>Package crypto\<close>

definition SHA256Hex :: "bytes \<Rightarrow> string" where
  "SHA256Hex data = hex_encode (sha256 data)"

definition DoubleSHA256Hex :: "bytes \<Rightarrow> string" where
  "DoubleSHA256Hex data = hex_encode (sha256 (sha256 data))"

lemma length_DoubleSHA256Hex [simp]: "length (DoubleSHA256Hex b) = 64"
  by (simp add: DoubleSHA256Hex_def length_hex_encode)

text \<open>
  The third-party primitives. A parsed public key and a parsed signature are represented by byte
  strings, which the code only passes from the parsers to the verifier.
\<close>

record ext =
  x_ripemd160 :: "bytes \<Rightarrow> bytes"
  x_ParsePubKey :: "bytes \<Rightarrow> bytes option"
  x_ParseDERSignature :: "bytes \<Rightarrow> bytes option"
  x_Verify :: "bytes \<Rightarrow> bytes \<Rightarrow> bytes \<Rightarrow> bool"

definition PublicKeyFromHex :: "ext \<Rightarrow> string \<Rightarrow> err + bytes" where
  "PublicKeyFromHex X value =
    (case hex_decode value of
       None \<Rightarrow> Inl (Err ''invalid public key hex'')
     | Some raw \<Rightarrow>
         if length raw \<noteq> 33 then Inl (Err ''invalid public key length'')
         else (case x_ParsePubKey X raw of
                 None \<Rightarrow> Inl (Err ''btcec: invalid public key'')
               | Some pub \<Rightarrow> Inr pub))"

definition VerifyHex :: "ext \<Rightarrow> string \<Rightarrow> string \<Rightarrow> bytes \<Rightarrow> bool" where
  "VerifyHex X publicKeyHex signatureHex payload =
    (case PublicKeyFromHex X publicKeyHex of
       Inl _ \<Rightarrow> False
     | Inr publicKey \<Rightarrow>
         (case hex_decode signatureHex of
            None \<Rightarrow> False
          | Some rawSig \<Rightarrow>
              (case x_ParseDERSignature X rawSig of
                 None \<Rightarrow> False
               | Some sig \<Rightarrow> x_Verify X sig (sha256 payload) publicKey)))"

end
