(* ===== verification/Address.thy ===== *)
theory Address
  imports Crypto
begin

text \<open>
  Package \<open>address\<close> (Base58, Base58Check and network addresses) and the address functions of
  package \<open>crypto\<close>. The big integer of the code is a natural number. Main results: the Base58 round
  trip, that an encoded address decodes to its public-key hash on its own network and on no other
  version, and that the name of the fee pool is no address of any network.
\<close>

section \<open>Base58\<close>

definition alphabet :: string where
  "alphabet = ''123456789ABCDEFGHJKLMNPQRSTUVWXYZabcdefghijkmnopqrstuvwxyz''"

fun digits58 :: "nat \<Rightarrow> nat list" where
  "digits58 x = (if x = 0 then [] else x mod 58 # digits58 (x div 58))"

declare digits58.simps [simp del]

text \<open>
  \<open>out\<close> collects the digits least significant first, then one \<open>alphabet[0]\<close> per leading zero byte,
  and is reversed at the end.
\<close>

definition Base58Encode :: "bytes \<Rightarrow> string" where
  "Base58Encode input =
    (if input = [] then []
     else let out = map (\<lambda>d. alphabet ! d) (digits58 (be_nat input))
                    @ replicate (length (takeWhile (\<lambda>b. b = 0) input)) (alphabet ! 0)
          in rev out)"

fun index_of :: "char \<Rightarrow> string \<Rightarrow> nat option" where
  "index_of c [] = None"
| "index_of c (d # ds) = (if c = d then Some 0 else map_option Suc (index_of c ds))"

fun value58 :: "nat \<Rightarrow> string \<Rightarrow> nat option" where
  "value58 x [] = Some x"
| "value58 x (c # cs) =
     (case index_of c alphabet of None \<Rightarrow> None | Some i \<Rightarrow> value58 (x * 58 + i) cs)"

text \<open>\<open>big.Int.Bytes\<close>: the big-endian bytes without leading zeros.\<close>

fun big_bytes :: "nat \<Rightarrow> bytes" where
  "big_bytes x = (if x = 0 then [] else big_bytes (x div 256) @ [of_nat (x mod 256)])"

declare big_bytes.simps [simp del]

definition Base58Decode :: "string \<Rightarrow> err + bytes" where
  "Base58Decode input =
    (if input = [] then Inr []
     else case value58 0 input of
            None \<Rightarrow> Inl (Err ''invalid base58 character'')
          | Some x \<Rightarrow>
              Inr (replicate (length (takeWhile (\<lambda>c. c = alphabet ! 0) input)) 0 @ big_bytes x))"

definition checksum :: "bytes \<Rightarrow> bytes" where
  "checksum payload = take 4 (sha256 (sha256 payload))"

definition Base58CheckEncode :: "bytes \<Rightarrow> string" where
  "Base58CheckEncode payload = Base58Encode (payload @ checksum payload)"

definition Base58CheckDecode :: "string \<Rightarrow> err + bytes" where
  "Base58CheckDecode encoded =
    (case Base58Decode encoded of
       Inl e \<Rightarrow> Inl e
     | Inr raw \<Rightarrow>
         if length raw < 5 then Inl (Err ''payload too short'')
         else let payload = take (length raw - 4) raw; got = drop (length raw - 4) raw
              in if got \<noteq> checksum payload then Inl (Err ''checksum mismatch'')
                 else Inr payload)"

section \<open>Network addresses\<close>

definition legacyDevPrefix :: string where
  "legacyDevPrefix = ''iND1''"

record address_payload =
  ad_Version :: u8
  ad_PubKeyHash :: bytes
  ad_Legacy :: bool

definition Hash160 :: "ext \<Rightarrow> bytes \<Rightarrow> bytes" where
  "Hash160 X pubKeyBytes = x_ripemd160 X (sha256 pubKeyBytes)"

definition EncodeAddress :: "ext \<Rightarrow> bytes \<Rightarrow> network_config \<Rightarrow> err + string" where
  "EncodeAddress X pubKeyBytes profile =
    (if pubKeyBytes = [] then Inl (Err ''public key is required'')
     else Inr (nc_AddressPrefix profile
               @ Base58CheckEncode (nc_AddressVersion profile # Hash160 X pubKeyBytes)))"

definition IsLegacyDevAddress :: "string \<Rightarrow> bool" where
  "IsLegacyDevAddress addr =
    (HasPrefix addr legacyDevPrefix \<and> length addr = length legacyDevPrefix + 40
     \<and> list_all (\<lambda>c. c \<in> set ''0123456789abcdef'') (drop (length legacyDevPrefix) addr))"

definition DecodeAddress :: "string \<Rightarrow> network_config \<Rightarrow> err + address_payload" where
  "DecodeAddress addr profile =
    (if IsLegacyDevAddress addr then
       (if \<not> nc_LegacyAddressAllowed profile then Inl (Err ''unsupported legacy address'')
        else Inr \<lparr>ad_Version = 0, ad_PubKeyHash = [], ad_Legacy = True\<rparr>)
     else if \<not> HasPrefix addr (nc_AddressPrefix profile) then Inl (Err ''wrong address prefix'')
     else if HasPrefix (ToLower addr) (ToLower (nc_AddressPrefix profile))
         \<and> \<not> HasPrefix addr (nc_AddressPrefix profile) then Inl (Err ''wrong address prefix'')
     else case Base58CheckDecode (TrimPrefix addr (nc_AddressPrefix profile)) of
            Inl e \<Rightarrow> Inl e
          | Inr payload \<Rightarrow>
              if length payload \<noteq> 21 then Inl (Err ''payload length is invalid'')
              else if hd payload \<noteq> nc_AddressVersion profile then Inl (Err ''wrong network version'')
              else Inr \<lparr>ad_Version = hd payload, ad_PubKeyHash = tl payload, ad_Legacy = False\<rparr>)"

definition ValidateAddress :: "string \<Rightarrow> network_config \<Rightarrow> bool" where
  "ValidateAddress addr profile = (\<exists>p. DecodeAddress addr profile = Inr p)"

lemma ValidateAddress_code [code]:
  "ValidateAddress addr profile =
    (case DecodeAddress addr profile of Inl _ \<Rightarrow> False | Inr _ \<Rightarrow> True)"
  by (simp add: ValidateAddress_def split: sum.split)

text \<open>\<open>crypto/address.go\<close>.\<close>

definition AddressFromPublicKeyForNetwork :: "ext \<Rightarrow> string \<Rightarrow> network_config \<Rightarrow> err + string" where
  "AddressFromPublicKeyForNetwork X publicKeyHex profile =
    (case hex_decode publicKeyHex of
       None \<Rightarrow> Inl (Err ''encoding/hex: invalid byte'')
     | Some raw \<Rightarrow> EncodeAddress X raw profile)"

definition AddressFromPublicKey :: "ext \<Rightarrow> string \<Rightarrow> string" where
  "AddressFromPublicKey X publicKeyHex =
    (case AddressFromPublicKeyForNetwork X publicKeyHex Localnet of Inl _ \<Rightarrow> [] | Inr addr \<Rightarrow> addr)"

definition ValidateAddressForNetwork :: "string \<Rightarrow> network_config \<Rightarrow> err option" where
  "ValidateAddressForNetwork address profile =
    (case DecodeAddress address profile of
       Inl e \<Rightarrow> Some (Wrap ''invalid address'' e)
     | Inr _ \<Rightarrow> None)"

section \<open>The Base58 round trip\<close>

lemma length_alphabet [simp]: "length alphabet = 58"
  by (simp add: alphabet_def)

lemma distinct_alphabet: "distinct alphabet"
  by (simp add: alphabet_def)

lemma index_of_nth: "distinct s \<Longrightarrow> i < length s \<Longrightarrow> index_of (s ! i) s = Some i"
proof (induction s arbitrary: i)
  case (Cons c s)
  then show ?case by (cases i) auto
qed simp

lemma index_of_alphabet [simp]: "i < 58 \<Longrightarrow> index_of (alphabet ! i) alphabet = Some i"
  by (simp add: index_of_nth distinct_alphabet)

lemma index_of_None_iff: "index_of c s = None \<longleftrightarrow> c \<notin> set s"
  by (induction s) auto

lemma alphabet_0_iff: "d < 58 \<Longrightarrow> alphabet ! d = alphabet ! 0 \<longleftrightarrow> d = 0"
  using nth_eq_iff_index_eq [OF distinct_alphabet, of d 0] by simp

lemma digits58_bounded: "d \<in> set (digits58 x) \<Longrightarrow> d < 58"
proof (induction x rule: digits58.induct)
  case (1 x)
  then show ?case by (subst (asm) digits58.simps) (auto split: if_splits)
qed

lemma digits58_last: "x \<noteq> 0 \<Longrightarrow> digits58 x \<noteq> [] \<and> last (digits58 x) \<noteq> 0"
proof (induction x rule: digits58.induct)
  case (1 x)
  show ?case
  proof (cases "x div 58 = 0")
    case True
    with "1.prems" have "digits58 x = [x mod 58]" and "x mod 58 = x"
      by (auto simp: digits58.simps [of x] digits58.simps [of 0])
    with "1.prems" show ?thesis by simp
  next
    case False
    with "1.IH" "1.prems" show ?thesis by (simp add: digits58.simps [of x])
  qed
qed

lemma value58_append:
  "value58 x (s @ t) = (case value58 x s of None \<Rightarrow> None | Some y \<Rightarrow> value58 y t)"
  by (induction s arbitrary: x) (auto split: option.split)

lemma value58_zeros [simp]: "value58 0 (replicate n (alphabet ! 0)) = Some 0"
  by (induction n) simp_all

lemma value58_digits: "value58 0 (rev (map (\<lambda>d. alphabet ! d) (digits58 x))) = Some x"
proof (induction x rule: digits58.induct)
  case (1 x)
  show ?case
  proof (cases "x = 0")
    case True
    then show ?thesis by (simp add: digits58.simps)
  next
    case False
    with "1" show ?thesis
      by (subst digits58.simps) (simp add: value58_append)
  qed
qed

lemma be_nat_eq_0_iff: "be_nat b = 0 \<longleftrightarrow> (\<forall>y\<in>set b. y = 0)"
  by (induction b rule: rev_induct) (auto simp: unat_eq_0)

lemma big_bytes_be_nat: "big_bytes (be_nat b) = dropWhile (\<lambda>x. x = 0) b"
proof (induction b rule: rev_induct)
  case (snoc x b)
  have dv: "(be_nat b * 256 + unat x) div 256 = be_nat b"
    and md: "(be_nat b * 256 + unat x) mod 256 = unat x"
    using unat_u8_lt [of x] by simp_all
  show ?case
  proof (cases "be_nat (b @ [x]) = 0")
    case True
    then have "x = 0" and "\<forall>y\<in>set b. y = 0" by (simp_all add: be_nat_eq_0_iff unat_eq_0)
    moreover have "big_bytes (be_nat (b @ [x])) = []"
      by (simp only: True) (simp add: big_bytes.simps)
    ultimately show ?thesis by (simp add: dropWhile_eq_Nil_conv [THEN iffD2])
  next
    case False
    then have "big_bytes (be_nat (b @ [x])) = dropWhile (\<lambda>x. x = 0) b @ [x]"
      by (subst big_bytes.simps) (simp add: dv md snoc.IH)
    moreover have "dropWhile (\<lambda>x. x = 0) (b @ [x]) = dropWhile (\<lambda>x. x = 0) b @ [x]"
    proof (cases "\<forall>y\<in>set b. y = 0")
      case True
      with False have "x \<noteq> 0" by (auto simp: be_nat_eq_0_iff)
      with True show ?thesis by (simp add: dropWhile_append2 dropWhile_eq_Nil_conv [THEN iffD2])
    next
      case False
      then show ?thesis by (auto intro: dropWhile_append1)
    qed
    ultimately show ?thesis by simp
  qed
qed (simp add: big_bytes.simps)

lemma takeWhile_replicate_append:
  "(xs \<noteq> [] \<Longrightarrow> \<not> P (hd xs)) \<Longrightarrow> P c \<Longrightarrow> takeWhile P (replicate n c @ xs) = replicate n c"
  by (induction n) (cases xs; simp)+

lemma Base58_leading:
  fixes input :: bytes
  assumes "input \<noteq> []"
  defines "ds \<equiv> map (\<lambda>d. alphabet ! d) (digits58 (be_nat input))"
  shows "takeWhile (\<lambda>c. c = alphabet ! 0) (replicate n (alphabet ! 0) @ rev ds)
      = replicate n (alphabet ! 0)"
proof (rule takeWhile_replicate_append)
  assume ne: "rev ds \<noteq> []"
  then have "be_nat input \<noteq> 0" by (auto simp: ds_def digits58.simps split: if_splits)
  from digits58_last [OF this] have nz: "last (digits58 (be_nat input)) \<noteq> 0"
    and "digits58 (be_nat input) \<noteq> []"
    by blast+
  then have "last (digits58 (be_nat input)) < 58"
    by (blast intro: digits58_bounded last_in_set)
  then show "hd (rev ds) \<noteq> alphabet ! 0"
    using ne nz by (simp add: ds_def hd_rev last_map alphabet_0_iff)
qed simp

lemma Base58Decode_Encode: "Base58Decode (Base58Encode input) = Inr input"
proof (cases "input = []")
  case True
  then show ?thesis by (simp add: Base58Encode_def Base58Decode_def)
next
  case False
  define z where "z = length (takeWhile (\<lambda>b. b = 0) input)"
  define ds where "ds = map (\<lambda>d. alphabet ! d) (digits58 (be_nat input))"
  have enc: "Base58Encode input = replicate z (alphabet ! 0) @ rev ds"
    using False by (simp add: Base58Encode_def z_def ds_def)
  have zeros: "replicate z 0 = takeWhile (\<lambda>b. b = 0) input"
    unfolding z_def by (rule replicate_length_same) (auto dest: set_takeWhileD)
  have "z \<noteq> 0 \<or> ds \<noteq> []"
  proof (cases "be_nat input = 0")
    case True
    then have "takeWhile (\<lambda>b. b = 0) input = input" by (simp add: be_nat_eq_0_iff)
    with False have "z \<noteq> 0" unfolding z_def by (metis length_0_conv)
    then show ?thesis by simp
  next
    case False
    then show ?thesis using digits58_last [of "be_nat input"] by (simp add: ds_def)
  qed
  then have "Base58Encode input \<noteq> []" by (auto simp: enc)
  moreover have "value58 0 (Base58Encode input) = Some (be_nat input)"
    by (simp add: enc value58_append ds_def value58_digits)
  ultimately show ?thesis
    by (auto simp: Base58Decode_def enc Base58_leading [OF False, folded ds_def] big_bytes_be_nat
        zeros)
qed

lemma length_checksum [simp]: "length (checksum p) = 4"
  by (simp add: checksum_def)

lemma Base58CheckDecode_Encode:
  "payload \<noteq> [] \<Longrightarrow> Base58CheckDecode (Base58CheckEncode payload) = Inr payload"
  by (cases payload) (simp_all add: Base58CheckDecode_def Base58CheckEncode_def Base58Decode_Encode)

section \<open>Addresses of a network\<close>

lemma digits58_length: "x < 58 ^ n \<Longrightarrow> length (digits58 x) \<le> n"
proof (induction n arbitrary: x)
  case 0
  then show ?case by (simp add: digits58.simps)
next
  case (Suc n)
  then have "x div 58 < 58 ^ n" by (simp add: less_mult_imp_div_less mult.commute)
  then show ?case using Suc.IH [of "x div 58"] by (subst digits58.simps) simp
qed

lemma be_nat_dropWhile: "be_nat (dropWhile (\<lambda>b. b = 0) input) = be_nat input"
  by (induction input) (auto simp: be_nat_def)

lemma pow256_le_pow58: "m \<le> 25 \<Longrightarrow> (256 :: nat) ^ m \<le> 58 ^ (m + 10)"
proof -
  assume m: "m \<le> 25"
  have "(256 :: nat) ^ m \<le> (58 * 5) ^ m" by (rule power_mono) simp_all
  also have "\<dots> = 58 ^ m * 5 ^ m" by (rule power_mult_distrib)
  also have "\<dots> \<le> 58 ^ m * 5 ^ 25" using m by (intro mult_le_mono2 power_increasing) simp_all
  also have "\<dots> \<le> 58 ^ m * 58 ^ 10" by (rule mult_le_mono2) simp
  finally show ?thesis by (simp only: power_add)
qed

lemma Base58Encode_length_25: "length input = 25 \<Longrightarrow> length (Base58Encode input) \<le> 35"
proof -
  assume len: "length input = 25"
  define z where "z = length (takeWhile (\<lambda>b. b = 0) input)"
  define r where "r = dropWhile (\<lambda>b. b = 0) input"
  have zr: "z + length r = 25"
    using len by (simp add: z_def r_def flip: length_append)
  have "be_nat input < 256 ^ length r"
    using be_nat_less [of r] by (simp add: r_def be_nat_dropWhile)
  also have "\<dots> \<le> 58 ^ (length r + 10)" using zr by (intro pow256_le_pow58) simp
  finally have "length (digits58 (be_nat input)) \<le> length r + 10" by (rule digits58_length)
  then show ?thesis using zr by (simp add: Base58Encode_def z_def)
qed

lemma encoded_not_legacy:
  assumes "length h = 20"
  shows "\<not> IsLegacyDevAddress (''iND'' @ Base58CheckEncode (v # h))"
proof -
  have "length (Base58Encode (v # h @ checksum (v # h))) \<le> 35"
    using assms by (intro Base58Encode_length_25) simp
  then show ?thesis
    by (simp add: IsLegacyDevAddress_def Base58CheckEncode_def legacyDevPrefix_def)
qed

lemma DecodeAddress_EncodeAddress:
  assumes "EncodeAddress X pk p = Inr addr" and "length (x_ripemd160 X (sha256 pk)) = 20"
    and "nc_AddressPrefix p = ''iND''" and "nc_AddressPrefix q = ''iND''"
  shows "DecodeAddress addr q =
    (if nc_AddressVersion p = nc_AddressVersion q
     then Inr \<lparr>ad_Version = nc_AddressVersion q, ad_PubKeyHash = Hash160 X pk, ad_Legacy = False\<rparr>
     else Inl (Err ''wrong network version''))"
proof -
  let ?pl = "nc_AddressVersion p # Hash160 X pk"
  have addr: "addr = ''iND'' @ Base58CheckEncode ?pl" and len: "length (Hash160 X pk) = 20"
    using assms by (auto simp: EncodeAddress_def Hash160_def split: if_splits)
  then have "Base58CheckDecode (TrimPrefix addr ''iND'') = Inr ?pl"
    by (simp only: TrimPrefix_append) (simp add: Base58CheckDecode_Encode)
  moreover have "\<not> IsLegacyDevAddress addr" using encoded_not_legacy [OF len] addr by simp
  moreover have "HasPrefix addr ''iND''" by (simp only: addr HasPrefix_append)
  ultimately show ?thesis using assms(4) len by (simp add: DecodeAddress_def)
qed

text \<open>
  A string that ends in an underscore is no address of any network: an underscore is neither a
  hexadecimal digit nor a character of the Base58 alphabet, and an empty Base58 body is too short.
\<close>

lemma value58_bad: "c \<in> set s \<Longrightarrow> c \<notin> set alphabet \<Longrightarrow> value58 x s = None"
  by (induction s arbitrary: x) (auto simp: index_of_None_iff [THEN iffD2] split: option.split)

lemma Base58CheckDecode_bad:
  assumes "s = [] \<or> last s \<notin> set alphabet"
  shows "\<exists>e. Base58CheckDecode s = Inl e"
proof (cases "s = []")
  case True
  then show ?thesis by (simp add: Base58CheckDecode_def Base58Decode_def)
next
  case False
  with assms have "value58 0 s = None" by (intro value58_bad [of "last s"]) auto
  with False show ?thesis by (simp add: Base58CheckDecode_def Base58Decode_def)
qed

lemma underscore_not_legacy:
  assumes "last addr = CHR ''_''"
  shows "\<not> IsLegacyDevAddress addr"
proof
  let ?t = "drop (length legacyDevPrefix) addr"
  assume leg: "IsLegacyDevAddress addr"
  then have "last ?t = last addr" and "?t \<noteq> []"
    by (simp_all add: IsLegacyDevAddress_def)
  then have "CHR ''_'' \<in> set ?t" using assms by (metis last_in_set)
  moreover have "\<forall>c\<in>set ?t. c \<in> set ''0123456789abcdef''"
    using leg by (simp add: IsLegacyDevAddress_def list_all_iff)
  ultimately have "CHR ''_'' \<in> set ''0123456789abcdef''" by blast
  then show False by simp
qed

lemma underscore_no_address:
  assumes "addr \<noteq> []" and "last addr = CHR ''_''"
  shows "\<exists>e. ValidateAddressForNetwork addr p = Some e"
proof -
  let ?body = "TrimPrefix addr (nc_AddressPrefix p)"
  have "CHR ''_'' \<notin> set alphabet" by (simp add: alphabet_def)
  moreover have "?body = [] \<or> last ?body = last addr"
    by (cases "length (nc_AddressPrefix p) < length addr") (simp_all add: TrimPrefix_def)
  ultimately obtain e where "Base58CheckDecode ?body = Inl e"
    using assms Base58CheckDecode_bad [of ?body] by auto
  then show ?thesis
    using underscore_not_legacy [OF assms(2)]
    by (cases "HasPrefix addr (nc_AddressPrefix p)")
      (simp_all add: ValidateAddressForNetwork_def DecodeAddress_def)
qed

end
