(* ===== verification/Json.thy ===== *)
theory Json
  imports Go_Prelude
begin

text \<open>
  The part of \<open>encoding/json\<close> the node's identifiers and size limits depend on: \<open>json.Marshal\<close> of a
  struct. A struct is written as the object of its exported fields in declaration order, without
  white space, leaving out the fields tagged \<open>omitempty\<close> that hold their zero value.
\<close>

datatype json = JStr string | JNum string | JBool bool | JNull | JArr "json list" | JObj "(string \<times> json) list"

text \<open>
  The length of the valid UTF-8 sequence a string starts with, 0 if it starts with none (the ranges
  of \<open>utf8.DecodeRune\<close>).
\<close>

definition cont_in :: "nat \<Rightarrow> nat \<Rightarrow> nat list \<Rightarrow> nat \<Rightarrow> bool" where
  "cont_in lo hi b i = (i < length b \<and> lo \<le> b ! i \<and> b ! i \<le> hi)"

definition rune_len :: "string \<Rightarrow> nat" where
  "rune_len s =
    (let b = map of_char (take 4 s) :: nat list; c = (if b = [] then 0 else hd b);
         k2 = cont_in 128 191 b 2; k3 = cont_in 128 191 b 3 in
     if b = [] then 0
     else if c < 128 then 1
     else if 194 \<le> c \<and> c \<le> 223 then (if cont_in 128 191 b 1 then 2 else 0)
     else if c = 224 then (if cont_in 160 191 b 1 \<and> k2 then 3 else 0)
     else if c = 237 then (if cont_in 128 159 b 1 \<and> k2 then 3 else 0)
     else if 225 \<le> c \<and> c \<le> 239 then (if cont_in 128 191 b 1 \<and> k2 then 3 else 0)
     else if c = 240 then (if cont_in 144 191 b 1 \<and> k2 \<and> k3 then 4 else 0)
     else if 241 \<le> c \<and> c \<le> 243 then (if cont_in 128 191 b 1 \<and> k2 \<and> k3 then 4 else 0)
     else if c = 244 then (if cont_in 128 143 b 1 \<and> k2 \<and> k3 then 4 else 0)
     else 0)"

definition json_ascii :: "char \<Rightarrow> string" where
  "json_ascii c =
    (let n = of_char c :: nat in
     if c = CHR 0x22 \<or> c = CHR 0x5C then [CHR 0x5C, c]
     else if n = 8 then [CHR 0x5C, CHR ''b'']
     else if n = 12 then [CHR 0x5C, CHR ''f'']
     else if n = 10 then [CHR 0x5C, CHR ''n'']
     else if n = 13 then [CHR 0x5C, CHR ''r'']
     else if n = 9 then [CHR 0x5C, CHR ''t'']
     else if n < 32 \<or> c = CHR 0x3C \<or> c = CHR 0x3E \<or> c = CHR 0x26
       then CHR 0x5C # ''u00'' @ [hex_digit (n div 16), hex_digit (n mod 16)]
     else [c])"

fun json_escape :: "string \<Rightarrow> string" where
  "json_escape [] = []"
| "json_escape (c # s) =
    (if (of_char c :: nat) < 128 then json_ascii c @ json_escape s
     else if rune_len (c # s) = 0 then CHR 0x5C # ''ufffd'' @ json_escape s
     else if map of_char (take 3 (c # s)) = [226 :: nat, 128, 168]
       then CHR 0x5C # ''u2028'' @ json_escape (drop 2 s)
     else if map of_char (take 3 (c # s)) = [226 :: nat, 128, 169]
       then CHR 0x5C # ''u2029'' @ json_escape (drop 2 s)
     else take (rune_len (c # s)) (c # s) @ json_escape (drop (rune_len (c # s) - 1) s))"

definition json_string :: "string \<Rightarrow> string" where
  "json_string s = CHR 0x22 # json_escape s @ [CHR 0x22]"

fun sep_concat :: "string \<Rightarrow> string list \<Rightarrow> string" where
  "sep_concat sep [] = []"
| "sep_concat sep [x] = x"
| "sep_concat sep (x # y # ys) = x @ sep @ sep_concat sep (y # ys)"

fun json_encode :: "json \<Rightarrow> string" where
  "json_encode (JStr s) = json_string s"
| "json_encode (JNum s) = s"
| "json_encode (JBool b) = (if b then ''true'' else ''false'')"
| "json_encode JNull = ''null''"
| "json_encode (JArr xs) = ''['' @ sep_concat '','' (map json_encode xs) @ '']''"
| "json_encode (JObj fs) =
     CHR 0x7B # sep_concat '','' (map (\<lambda>(k, v). json_string k @ '':'' @ json_encode v) fs) @ [CHR 0x7D]"

text \<open>Struct fields: always written, or left out when zero.\<close>

definition fld :: "string \<Rightarrow> json \<Rightarrow> (string \<times> json) list" where
  "fld k v = [(k, v)]"

definition omit_str :: "string \<Rightarrow> string \<Rightarrow> (string \<times> json) list" where
  "omit_str k s = (if s = [] then [] else [(k, JStr s)])"

definition omit_num :: "string \<Rightarrow> 'a :: len word \<Rightarrow> (string \<times> json) list" where
  "omit_num k n = (if n = 0 then [] else [(k, JNum (FormatUint n))])"

definition omit_bool :: "string \<Rightarrow> bool \<Rightarrow> (string \<times> json) list" where
  "omit_bool k b = (if b then [(k, JBool True)] else [])"

end
