(* ===== verification/Transaction.thy ===== *)
theory Transaction
  imports Asset_Model Address Json
begin

text \<open>
  \<open>types/transaction.go\<close>: the transaction record, its constructors, the structural validation of v3
  transactions, protocol versions, the signing bytes and identifiers of every version, and the
  authorisation of a paymaster. The wall clock of the constructors is the argument \<open>now\<close>.
\<close>

definition TxVersionLegacy :: u32 where "TxVersionLegacy = 1"
definition TxVersionCanonical :: u32 where "TxVersionCanonical = 2"
definition TxVersionAsset :: u32 where "TxVersionAsset = 3"
definition MaxSupportedTxVersion :: u32 where "MaxSupportedTxVersion = TxVersionAsset"
definition CoinbaseSender :: string where "CoinbaseSender = ''COINBASE''"

definition TxTypeTransfer :: string where "TxTypeTransfer = ''transfer''"
definition TxTypeCoinbase :: string where "TxTypeCoinbase = ''coinbase''"
definition TxTypeStakeLock :: string where "TxTypeStakeLock = ''stake_lock''"
definition TxTypeStakeUnlock :: string where "TxTypeStakeUnlock = ''stake_unlock''"
definition TxTypeAssetCreate :: string where "TxTypeAssetCreate = ''asset_create''"
definition TxTypeAssetMint :: string where "TxTypeAssetMint = ''asset_mint''"
definition TxTypeAssetBurn :: string where "TxTypeAssetBurn = ''asset_burn''"

lemmas tx_types = TxTypeTransfer_def TxTypeCoinbase_def TxTypeStakeLock_def TxTypeStakeUnlock_def
  TxTypeAssetCreate_def TxTypeAssetMint_def TxTypeAssetBurn_def

lemmas tx_versions = TxVersionLegacy_def TxVersionCanonical_def TxVersionAsset_def
  MaxSupportedTxVersion_def

record transaction =
  tx_Version :: u32
  tx_ID :: string
  tx_From :: string
  tx_To :: string
  tx_Amount :: u64
  tx_Fee :: u64
  tx_Nonce :: u64
  tx_Timestamp :: i64
  tx_Signature :: string
  tx_PublicKey :: string
  tx_Coinbase :: bool
  tx_Type :: string
  tx_StakeID :: string
  tx_AssetID :: string
  tx_FeePayer :: string
  tx_FeePayerPublicKey :: string
  tx_FeePayerSignature :: string
  tx_AssetName :: string
  tx_AssetSymbol :: string
  tx_AssetDecimals :: u8
  tx_AssetMaxSupply :: u64
  tx_AssetMintable :: bool
  tx_AssetBurnable :: bool
  tx_AssetPausable :: bool
  tx_AssetPermissioned :: bool

text \<open>The zero value \<open>Transaction{}\<close>.\<close>

definition zero_tx :: transaction where
  "zero_tx = \<lparr>tx_Version = 0, tx_ID = [], tx_From = [], tx_To = [], tx_Amount = 0, tx_Fee = 0,
     tx_Nonce = 0, tx_Timestamp = 0, tx_Signature = [], tx_PublicKey = [], tx_Coinbase = False,
     tx_Type = [], tx_StakeID = [], tx_AssetID = [], tx_FeePayer = [], tx_FeePayerPublicKey = [],
     tx_FeePayerSignature = [], tx_AssetName = [], tx_AssetSymbol = [], tx_AssetDecimals = 0,
     tx_AssetMaxSupply = 0, tx_AssetMintable = False, tx_AssetBurnable = False,
     tx_AssetPausable = False, tx_AssetPermissioned = False\<rparr>"

definition EffectiveAssetID :: "transaction \<Rightarrow> string" where
  "EffectiveAssetID tx = (if tx_AssetID tx = [] then NativeAssetID else tx_AssetID tx)"

definition EffectiveFeePayer :: "transaction \<Rightarrow> string" where
  "EffectiveFeePayer tx = (if tx_FeePayer tx = [] then tx_From tx else tx_FeePayer tx)"

definition tx_ProtocolVersion :: "transaction \<Rightarrow> u32" where
  "tx_ProtocolVersion tx = (if tx_Version tx = 0 then TxVersionLegacy else tx_Version tx)"

definition IsIssuedAssetTransaction :: "transaction \<Rightarrow> bool" where
  "IsIssuedAssetTransaction tx =
    (tx_ProtocolVersion tx \<ge> TxVersionAsset \<and> \<not> IsNative (EffectiveAssetID tx))"

definition TxType :: "transaction \<Rightarrow> string" where
  "TxType tx =
    (if tx_Type tx \<noteq> [] then tx_Type tx
     else if tx_Coinbase tx then TxTypeCoinbase
     else TxTypeTransfer)"

definition ValidateTransactionVersion :: "u32 \<Rightarrow> u32 \<Rightarrow> err option" where
  "ValidateTransactionVersion version activeVersion =
    (let version = (if version = 0 then TxVersionLegacy else version);
         activeVersion = (if activeVersion = 0 then TxVersionLegacy else activeVersion) in
     if version > MaxSupportedTxVersion then Some (Err ''unsupported transaction version: %d'')
     else if version > activeVersion then
       Some (Err ''transaction version %d is not active on this network (active version %d)'')
     else None)"

section \<open>Structure of v3 transactions\<close>

definition envelope_type_check :: "transaction \<Rightarrow> err option" where
  "envelope_type_check tx =
    (if TxType tx = TxTypeTransfer then
       (if tx_To tx = [] \<or> tx_To tx = tx_From tx then Some (Err ''asset transfer recipient is invalid'')
        else if EffectiveAssetID tx = [] then Some (Err ''asset transfer asset id is required'')
        else if tx_Amount tx = 0 then Some (Err ''asset transfer amount must be greater than zero'')
        else None)
     else if TxType tx = TxTypeAssetCreate then
       (if tx_To tx \<noteq> [] then Some (Err ''asset create recipient must be empty'')
        else if tx_AssetID tx \<noteq> [] \<and> tx_ID tx = [] then
          Some (Err ''asset create asset id requires transaction id'')
        else if tx_AssetName tx = [] \<or> tx_AssetSymbol tx = [] then
          Some (Err ''asset create metadata is incomplete'')
        else if tx_AssetDecimals tx > 18 then Some (Err ''asset create decimals too large'')
        else None)
     else if TxType tx = TxTypeAssetMint then
       (if tx_To tx = [] \<or> IsNative (tx_AssetID tx) \<or> tx_AssetID tx = [] then
          Some (Err ''asset mint requires an issued asset and recipient'')
        else if tx_Amount tx = 0 then Some (Err ''asset mint amount must be greater than zero'')
        else None)
     else if TxType tx = TxTypeAssetBurn then
       (if tx_To tx \<noteq> tx_From tx \<or> tx_AssetID tx = [] \<or> IsNative (tx_AssetID tx) then
          Some (Err ''asset burn requires an issued asset owned by the sender'')
        else if tx_Amount tx = 0 then Some (Err ''asset burn amount must be greater than zero'')
        else None)
     else Some (Err ''unsupported asset transaction type: %s''))"

definition ValidateAssetEnvelope :: "transaction \<Rightarrow> err option" where
  "ValidateAssetEnvelope tx =
    (if tx_ProtocolVersion tx \<noteq> TxVersionAsset then
       Some (Err ''asset envelope requires transaction version 3'')
     else if tx_Coinbase tx then Some (Err ''asset transactions cannot be coinbase'')
     else if tx_From tx = [] then Some (Err ''asset transaction sender is required'')
     else if EffectiveFeePayer tx = [] then Some (Err ''asset transaction fee payer is required'')
     else case envelope_type_check tx of
            Some e \<Rightarrow> Some e
          | None \<Rightarrow>
              if tx_FeePayer tx \<noteq> [] \<and> tx_FeePayer tx \<noteq> tx_From tx
                 \<and> (tx_FeePayerPublicKey tx = [] \<or> tx_FeePayerSignature tx = []) then
                Some (Err ''paymaster authorization is incomplete'')
              else None)"

section \<open>Canonical codec: writers\<close>

text \<open>\<open>types/transaction_codec.go\<close>: what is signed and stored for versions 2 and 3.\<close>

definition canonicalTxCodecVersion :: u8 where "canonicalTxCodecVersion = 1"
definition canonicalSigningDomain :: string where "canonicalSigningDomain = ''IndoChain/tx-sign/v2''"
definition assetSigningDomain :: string where "assetSigningDomain = ''IndoChain/tx-sign/v3''"
definition feePayerSigningDomain :: string where "feePayerSigningDomain = ''IndoChain/fee-pay/v1''"

definition ErrInvalidCanonicalTx :: err where
  "ErrInvalidCanonicalTx = Err ''invalid canonical transaction''"

definition writeBool :: "bool \<Rightarrow> bytes" where
  "writeBool value = (if value then [1] else [0])"

definition writeCanonicalString :: "string \<Rightarrow> bytes" where
  "writeCanonicalString value = PutUint32 (of_nat (length value)) @ bytes_of value"

definition writeCanonicalHeader :: "u32 \<Rightarrow> string \<Rightarrow> bool \<Rightarrow> bytes" where
  "writeCanonicalHeader version txType coinbase =
    [canonicalTxCodecVersion] @ PutUint32 version @ writeCanonicalString txType
    @ (if coinbase then [1] else [0])"

definition CanonicalSigningBytes :: "transaction \<Rightarrow> bytes" where
  "CanonicalSigningBytes tx =
    writeCanonicalHeader (tx_ProtocolVersion tx) (TxType tx) (tx_Coinbase tx)
    @ writeCanonicalString (tx_From tx)
    @ writeCanonicalString (tx_To tx)
    @ PutUint64 (tx_Amount tx)
    @ PutUint64 (tx_Fee tx)
    @ PutUint64 (tx_Nonce tx)
    @ PutUint64 (tx_Timestamp tx)
    @ writeCanonicalString (tx_PublicKey tx)
    @ writeCanonicalString (if TxType tx = TxTypeStakeLock then [] else tx_StakeID tx)"

definition CanonicalSigningBytesV3 :: "transaction \<Rightarrow> bytes" where
  "CanonicalSigningBytesV3 tx =
    writeCanonicalHeader (tx_ProtocolVersion tx) (TxType tx) (tx_Coinbase tx)
    @ writeCanonicalString (tx_From tx)
    @ writeCanonicalString (tx_To tx)
    @ writeCanonicalString (if TxType tx = TxTypeAssetCreate then [] else EffectiveAssetID tx)
    @ PutUint64 (tx_Amount tx)
    @ PutUint64 (tx_Fee tx)
    @ PutUint64 (tx_Nonce tx)
    @ PutUint64 (tx_Timestamp tx)
    @ writeCanonicalString (tx_PublicKey tx)
    @ writeCanonicalString (EffectiveFeePayer tx)
    @ writeCanonicalString (tx_AssetName tx)
    @ writeCanonicalString (tx_AssetSymbol tx)
    @ [tx_AssetDecimals tx]
    @ PutUint64 (tx_AssetMaxSupply tx)
    @ writeBool (tx_AssetMintable tx)
    @ writeBool (tx_AssetBurnable tx)
    @ writeBool (tx_AssetPausable tx)
    @ writeBool (tx_AssetPermissioned tx)
    @ writeCanonicalString (if TxType tx = TxTypeStakeLock then [] else tx_StakeID tx)"

definition CanonicalSigningBytesWithChainID :: "transaction \<Rightarrow> u64 \<Rightarrow> err + bytes" where
  "CanonicalSigningBytesWithChainID tx chainID =
    (if tx_ProtocolVersion tx = TxVersionAsset then
       (let body = CanonicalSigningBytesV3 tx in
        Inr (writeCanonicalString assetSigningDomain @ PutUint64 chainID
             @ PutUint32 (of_nat (length body)) @ body))
     else if tx_ProtocolVersion tx \<noteq> TxVersionCanonical then
       Inl (Wrap ''chain-bound signing requires canonical transaction version'' ErrInvalidCanonicalTx)
     else
       (let body = CanonicalSigningBytes tx in
        Inr (writeCanonicalString canonicalSigningDomain @ PutUint64 chainID
             @ PutUint32 (of_nat (length body)) @ body)))"

definition CanonicalBytesV3 :: "transaction \<Rightarrow> bytes" where
  "CanonicalBytesV3 tx =
    writeCanonicalHeader (tx_ProtocolVersion tx) (TxType tx) (tx_Coinbase tx)
    @ writeCanonicalString (tx_ID tx)
    @ writeCanonicalString (tx_From tx)
    @ writeCanonicalString (tx_To tx)
    @ writeCanonicalString (tx_AssetID tx)
    @ PutUint64 (tx_Amount tx)
    @ PutUint64 (tx_Fee tx)
    @ PutUint64 (tx_Nonce tx)
    @ PutUint64 (tx_Timestamp tx)
    @ writeCanonicalString (tx_Signature tx)
    @ writeCanonicalString (tx_PublicKey tx)
    @ writeCanonicalString (tx_FeePayer tx)
    @ writeCanonicalString (tx_FeePayerPublicKey tx)
    @ writeCanonicalString (tx_FeePayerSignature tx)
    @ writeCanonicalString (tx_AssetName tx)
    @ writeCanonicalString (tx_AssetSymbol tx)
    @ [tx_AssetDecimals tx]
    @ PutUint64 (tx_AssetMaxSupply tx)
    @ writeBool (tx_AssetMintable tx)
    @ writeBool (tx_AssetBurnable tx)
    @ writeBool (tx_AssetPausable tx)
    @ writeBool (tx_AssetPermissioned tx)
    @ writeCanonicalString (tx_StakeID tx)"

definition CanonicalBytes :: "transaction \<Rightarrow> err + bytes" where
  "CanonicalBytes tx =
    (if tx_ProtocolVersion tx = 0 then Inl (Wrap ''missing protocol version'' ErrInvalidCanonicalTx)
     else if tx_ProtocolVersion tx = TxVersionAsset then Inr (CanonicalBytesV3 tx)
     else Inr
      (writeCanonicalHeader (tx_ProtocolVersion tx) (TxType tx) (tx_Coinbase tx)
       @ writeCanonicalString (tx_ID tx)
       @ writeCanonicalString (tx_From tx)
       @ writeCanonicalString (tx_To tx)
       @ PutUint64 (tx_Amount tx)
       @ PutUint64 (tx_Fee tx)
       @ PutUint64 (tx_Nonce tx)
       @ PutUint64 (tx_Timestamp tx)
       @ writeCanonicalString (tx_Signature tx)
       @ writeCanonicalString (tx_PublicKey tx)
       @ writeCanonicalString (tx_StakeID tx)))"

definition canonicalFeePayerSigningBytes :: "transaction \<Rightarrow> u64 \<Rightarrow> err + bytes" where
  "canonicalFeePayerSigningBytes tx chainID =
    (if EffectiveFeePayer tx = [] then Inl (Wrap ''empty fee payer'' ErrInvalidCanonicalTx)
     else Inr (writeCanonicalString feePayerSigningDomain @ PutUint64 chainID
               @ writeCanonicalString (tx_ID tx) @ writeCanonicalString (EffectiveFeePayer tx)))"

section \<open>JSON form, signing bytes and identifiers\<close>

definition tx_json :: "transaction \<Rightarrow> json" where
  "tx_json tx = JObj
    (omit_num ''version'' (tx_Version tx)
     @ fld ''id'' (JStr (tx_ID tx))
     @ fld ''from'' (JStr (tx_From tx))
     @ fld ''to'' (JStr (tx_To tx))
     @ fld ''amount'' (JNum (FormatUint (tx_Amount tx)))
     @ fld ''fee'' (JNum (FormatUint (tx_Fee tx)))
     @ fld ''nonce'' (JNum (FormatUint (tx_Nonce tx)))
     @ fld ''timestamp'' (JNum (FormatInt (tx_Timestamp tx)))
     @ fld ''signature'' (JStr (tx_Signature tx))
     @ fld ''public_key'' (JStr (tx_PublicKey tx))
     @ fld ''coinbase'' (JBool (tx_Coinbase tx))
     @ omit_str ''type'' (tx_Type tx)
     @ omit_str ''stake_id'' (tx_StakeID tx)
     @ omit_str ''asset_id'' (tx_AssetID tx)
     @ omit_str ''fee_payer'' (tx_FeePayer tx)
     @ omit_str ''fee_payer_public_key'' (tx_FeePayerPublicKey tx)
     @ omit_str ''fee_payer_signature'' (tx_FeePayerSignature tx)
     @ omit_str ''asset_name'' (tx_AssetName tx)
     @ omit_str ''asset_symbol'' (tx_AssetSymbol tx)
     @ omit_num ''asset_decimals'' (tx_AssetDecimals tx)
     @ omit_num ''asset_max_supply'' (tx_AssetMaxSupply tx)
     @ omit_bool ''asset_mintable'' (tx_AssetMintable tx)
     @ omit_bool ''asset_burnable'' (tx_AssetBurnable tx)
     @ omit_bool ''asset_pausable'' (tx_AssetPausable tx)
     @ omit_bool ''asset_permissioned'' (tx_AssetPermissioned tx))"

definition SigningBytes :: "transaction \<Rightarrow> bytes" where
  "SigningBytes tx =
    (if tx_ProtocolVersion tx = TxVersionCanonical then CanonicalSigningBytes tx
     else if tx_ProtocolVersion tx = TxVersionAsset then CanonicalSigningBytesV3 tx
     else let copy = tx\<lparr>tx_ID := [], tx_Signature := [], tx_Version := 0\<rparr>;
              copy = (if TxType copy = TxTypeStakeLock then copy\<lparr>tx_StakeID := []\<rparr> else copy)
          in bytes_of (json_encode (tx_json copy)))"

definition SigningBytesWithChainID :: "transaction \<Rightarrow> u64 \<Rightarrow> err + bytes" where
  "SigningBytesWithChainID tx chainID =
    (if tx_ProtocolVersion tx = TxVersionLegacy then Inr (SigningBytes tx)
     else if tx_ProtocolVersion tx = TxVersionCanonical \<or> tx_ProtocolVersion tx = TxVersionAsset then
       CanonicalSigningBytesWithChainID tx chainID
     else Inl (Err ''unsupported transaction version: %d''))"

definition CalculateIDForChainID :: "transaction \<Rightarrow> u64 \<Rightarrow> err + string" where
  "CalculateIDForChainID tx chainID =
    (case SigningBytesWithChainID tx chainID of
       Inl e \<Rightarrow> Inl e
     | Inr raw \<Rightarrow> Inr (DoubleSHA256Hex raw))"

definition RefreshIDForChainID :: "transaction \<Rightarrow> u64 \<Rightarrow> err option \<times> transaction" where
  "RefreshIDForChainID tx chainID =
    (case CalculateIDForChainID tx chainID of
       Inl e \<Rightarrow> (Some e, tx)
     | Inr ident \<Rightarrow> (None, tx\<lparr>tx_ID := ident\<rparr>))"

definition CalculateID :: "transaction \<Rightarrow> string" where
  "CalculateID tx = DoubleSHA256Hex (SigningBytes tx)"

definition RefreshID :: "transaction \<Rightarrow> transaction" where
  "RefreshID tx = tx\<lparr>tx_ID := CalculateID tx\<rparr>"

definition RefreshDerivedAssetID :: "transaction \<Rightarrow> err option \<times> transaction" where
  "RefreshDerivedAssetID tx =
    (if tx_ProtocolVersion tx \<noteq> TxVersionAsset \<or> TxType tx \<noteq> TxTypeAssetCreate then
       (Some (Err ''derived asset id requires asset-create transaction version 3''), tx)
     else if tx_ID tx = [] then (Some (Err ''transaction id is required''), tx)
     else (None, tx\<lparr>tx_AssetID := DerivedID (tx_ID tx)\<rparr>))"

section \<open>Paymaster authorisation\<close>

definition FeePayerSigningBytesWithChainID :: "transaction \<Rightarrow> u64 \<Rightarrow> err + bytes" where
  "FeePayerSigningBytesWithChainID tx chainID =
    (if tx_ProtocolVersion tx \<noteq> TxVersionAsset then
       Inl (Err ''fee payer authorization requires transaction version 3'')
     else Inr (bytes_of (json_encode (JObj
       (fld ''domain'' (JStr ''deska-paymaster-v1'')
        @ fld ''chain_id'' (JNum (FormatUint chainID))
        @ fld ''tx_id'' (JStr (tx_ID tx))
        @ fld ''from'' (JStr (tx_From tx))
        @ fld ''to'' (JStr (tx_To tx))
        @ fld ''amount'' (JNum (FormatUint (tx_Amount tx)))
        @ fld ''fee'' (JNum (FormatUint (tx_Fee tx)))
        @ fld ''nonce'' (JNum (FormatUint (tx_Nonce tx)))
        @ fld ''timestamp'' (JNum (FormatInt (tx_Timestamp tx)))
        @ fld ''type'' (JStr (TxType tx))
        @ fld ''asset_id'' (JStr (EffectiveAssetID tx))
        @ fld ''fee_payer'' (JStr (EffectiveFeePayer tx)))))))"

definition ValidateFeePayerAuthorization :: "ext \<Rightarrow> transaction \<Rightarrow> network_config \<Rightarrow> err option" where
  "ValidateFeePayerAuthorization X tx profile =
    (if tx_ProtocolVersion tx \<noteq> TxVersionAsset then
       Some (Err ''fee payer authorization requires transaction version 3'')
     else if \<not> ap_PaymasterEnabled (nc_Asset profile) \<and> EffectiveFeePayer tx \<noteq> tx_From tx then
       Some (Err ''paymaster is disabled'')
     else if EffectiveFeePayer tx = tx_From tx then
       (if tx_FeePayerPublicKey tx \<noteq> [] \<or> tx_FeePayerSignature tx \<noteq> [] then
          Some (Err ''self-paid transaction cannot carry paymaster authorization'')
        else None)
     else case ValidateAddressForNetwork (EffectiveFeePayer tx) profile of
       Some e \<Rightarrow> Some (Wrap ''invalid fee payer address'' e)
     | None \<Rightarrow>
         if tx_FeePayerPublicKey tx = [] \<or> tx_FeePayerSignature tx = [] then
           Some (Err ''paymaster authorization is incomplete'')
         else if AddressFromPublicKeyForNetwork X (tx_FeePayerPublicKey tx) profile
                 \<noteq> Inr (EffectiveFeePayer tx) then
           Some (Err ''paymaster public key does not match fee payer'')
         else (case FeePayerSigningBytesWithChainID tx (nc_ChainID profile) of
                 Inl e \<Rightarrow> Some e
               | Inr signingBytes \<Rightarrow>
                   if \<not> VerifyHex X (tx_FeePayerPublicKey tx) (tx_FeePayerSignature tx) signingBytes
                   then Some (Err ''invalid paymaster signature'')
                   else None))"

section \<open>Constructors\<close>

definition NewUnsignedTransaction :: "i64 \<Rightarrow> string \<Rightarrow> string \<Rightarrow> u64 \<Rightarrow> u64 \<Rightarrow> u64 \<Rightarrow> transaction" where
  "NewUnsignedTransaction now from to amount fee nonce =
    RefreshID (zero_tx\<lparr>tx_Version := TxVersionLegacy, tx_From := from, tx_To := to,
      tx_Amount := amount, tx_Fee := fee, tx_Nonce := nonce, tx_Timestamp := now\<rparr>)"

definition NewStakeLockTransaction :: "i64 \<Rightarrow> string \<Rightarrow> u64 \<Rightarrow> u64 \<Rightarrow> transaction" where
  "NewStakeLockTransaction now address amount nonce =
    (let tx = RefreshID (zero_tx\<lparr>tx_Version := TxVersionLegacy, tx_From := address, tx_To := address,
                tx_Amount := amount, tx_Nonce := nonce, tx_Timestamp := now,
                tx_Type := TxTypeStakeLock\<rparr>)
     in tx\<lparr>tx_StakeID := tx_ID tx\<rparr>)"

definition NewStakeUnlockTransaction :: "i64 \<Rightarrow> string \<Rightarrow> string \<Rightarrow> u64 \<Rightarrow> transaction" where
  "NewStakeUnlockTransaction now address stakeID nonce =
    RefreshID (zero_tx\<lparr>tx_Version := TxVersionLegacy, tx_From := address, tx_To := address,
      tx_Nonce := nonce, tx_Timestamp := now, tx_Type := TxTypeStakeUnlock, tx_StakeID := stakeID\<rparr>)"

definition newAssetTransaction ::
  "i64 \<Rightarrow> string \<Rightarrow> string \<Rightarrow> string \<Rightarrow> string \<Rightarrow> u64 \<Rightarrow> u64 \<Rightarrow> u64 \<Rightarrow> transaction" where
  "newAssetTransaction now txType from to assetID amount fee nonce =
    (let tx = zero_tx\<lparr>tx_Version := TxVersionAsset, tx_From := from, tx_To := to,
                tx_Amount := amount, tx_Fee := fee, tx_Nonce := nonce, tx_Timestamp := now,
                tx_Type := txType, tx_AssetID := assetID, tx_FeePayer := from\<rparr>
     in if tx_AssetID tx = [] \<and> txType \<noteq> TxTypeAssetCreate
        then tx\<lparr>tx_AssetID := NativeAssetID\<rparr> else tx)"

definition NewAssetTransferTransaction ::
  "i64 \<Rightarrow> string \<Rightarrow> string \<Rightarrow> string \<Rightarrow> u64 \<Rightarrow> u64 \<Rightarrow> u64 \<Rightarrow> transaction" where
  "NewAssetTransferTransaction now from to assetID amount fee nonce =
    newAssetTransaction now TxTypeTransfer from to assetID amount fee nonce"

definition NewAssetCreateTransaction ::
  "i64 \<Rightarrow> string \<Rightarrow> string \<Rightarrow> string \<Rightarrow> u8 \<Rightarrow> u64 \<Rightarrow> bool \<Rightarrow> bool \<Rightarrow> bool \<Rightarrow> bool \<Rightarrow> u64 \<Rightarrow> u64
     \<Rightarrow> transaction" where
  "NewAssetCreateTransaction now from name symbol decimals maxSupply mintable burnable pausable
     permissioned fee nonce =
    (let tx = RefreshID ((newAssetTransaction now TxTypeAssetCreate from [] [] 0 fee nonce)
          \<lparr>tx_AssetName := name, tx_AssetSymbol := symbol, tx_AssetDecimals := decimals,
           tx_AssetMaxSupply := maxSupply, tx_AssetMintable := mintable,
           tx_AssetBurnable := burnable, tx_AssetPausable := pausable,
           tx_AssetPermissioned := permissioned\<rparr>)
     in tx\<lparr>tx_AssetID := DerivedID (tx_ID tx)\<rparr>)"

definition NewAssetMintTransaction ::
  "i64 \<Rightarrow> string \<Rightarrow> string \<Rightarrow> string \<Rightarrow> u64 \<Rightarrow> u64 \<Rightarrow> u64 \<Rightarrow> transaction" where
  "NewAssetMintTransaction now from assetID to amount fee nonce =
    newAssetTransaction now TxTypeAssetMint from to assetID amount fee nonce"

definition NewAssetBurnTransaction ::
  "i64 \<Rightarrow> string \<Rightarrow> string \<Rightarrow> u64 \<Rightarrow> u64 \<Rightarrow> u64 \<Rightarrow> transaction" where
  "NewAssetBurnTransaction now from assetID amount fee nonce =
    newAssetTransaction now TxTypeAssetBurn from from assetID amount fee nonce"

definition NewCoinbaseTransactionWithVersion :: "string \<Rightarrow> u64 \<Rightarrow> u64 \<Rightarrow> u32 \<Rightarrow> transaction" where
  "NewCoinbaseTransactionWithVersion to amount height version =
    RefreshID (zero_tx\<lparr>tx_Version := version, tx_From := CoinbaseSender, tx_To := to,
      tx_Amount := amount, tx_Timestamp := height, tx_Coinbase := True\<rparr>)"

end
