(* ===== verification/Tx_Codec.thy ===== *)
theory Tx_Codec
  imports Transaction
begin

text \<open>
  The readers of \<open>types/transaction_codec.go\<close>. A \<open>bytes.Reader\<close> is the list of its unread bytes.
  \<open>Read\<close> into a buffer fails only when nothing is left; with fewer bytes than the buffer holds it
  fills the front of the buffer, reports no error and leaves the rest zero, and the code does not
  look at the count. Main results: a stored transaction decodes to itself; the signing bytes
  determine the chain and every signed field; and a truncated encoding is accepted.
\<close>

type_synonym 'a reader = "bytes \<Rightarrow> err + 'a \<times> bytes"

definition rbind :: "'a reader \<Rightarrow> ('a \<Rightarrow> 'b reader) \<Rightarrow> 'b reader" where
  "rbind m f r = (case m r of Inl e \<Rightarrow> Inl e | Inr (x, r') \<Rightarrow> f x r')"

definition maxCanonicalFieldBytes :: u32 where
  "maxCanonicalFieldBytes = push_bit 20 1"

definition ReadByte :: "err \<Rightarrow> u8 reader" where
  "ReadByte eof r = (case r of [] \<Rightarrow> Inl eof | b # r' \<Rightarrow> Inr (b, r'))"

text \<open>\<open>r.Read(raw[:])\<close> into a zeroed buffer of \<open>n\<close> bytes, \<open>0 < n\<close>.\<close>

definition Read :: "nat \<Rightarrow> err \<Rightarrow> bytes reader" where
  "Read n eof r =
    (if r = [] then Inl eof else Inr (take n r @ replicate (n - length r) 0, drop n r))"

definition readUint32 :: "u32 reader" where
  "readUint32 r =
    (case Read 4 (Wrap ''uint32'' ErrInvalidCanonicalTx) r of
       Inl e \<Rightarrow> Inl e
     | Inr (raw, r') \<Rightarrow> Inr (of_nat (be_nat raw), r'))"

definition readUint64 :: "u64 reader" where
  "readUint64 r =
    (case Read 8 (Wrap ''uint64'' ErrInvalidCanonicalTx) r of
       Inl e \<Rightarrow> Inl e
     | Inr (raw, r') \<Rightarrow> Inr (of_nat (be_nat raw), r'))"

definition readInt64 :: "i64 reader" where
  "readInt64 = readUint64"

definition readByteBool :: "bool reader" where
  "readByteBool r =
    (case ReadByte (Wrap ''bool'' ErrInvalidCanonicalTx) r of
       Inl e \<Rightarrow> Inl e
     | Inr (v, r') \<Rightarrow>
         if v > 1 then Inl (Wrap ''invalid bool'' ErrInvalidCanonicalTx) else Inr (v = 1, r'))"

definition readCanonicalString :: "string reader" where
  "readCanonicalString r =
    (case readUint32 r of
       Inl e \<Rightarrow> Inl e
     | Inr (len, r') \<Rightarrow>
         if len > maxCanonicalFieldBytes then Inl (Wrap ''field too large'' ErrInvalidCanonicalTx)
         else if len = 0 then Inr ([], r')
         else if unat len > length r' then Inl (Wrap ''truncated field'' ErrInvalidCanonicalTx)
         else case Read (unat len) (Wrap ''field'' ErrInvalidCanonicalTx) r' of
                Inl e \<Rightarrow> Inl e
              | Inr (raw, r'') \<Rightarrow> Inr (string_of raw, r''))"

text \<open>
  A decoding step reads one field into the transaction, as in
  \<open>if tx.F, err = read(r); err != nil\<close>; after the last one nothing may be left.
\<close>

definition field :: "'a reader \<Rightarrow> (('a \<Rightarrow> 'a) \<Rightarrow> transaction \<Rightarrow> transaction) \<Rightarrow> transaction
    \<Rightarrow> transaction reader" where
  "field rd upd tx = rbind rd (\<lambda>v r. Inr (upd (\<lambda>_. v) tx, r))"

fun read_fields :: "(transaction \<Rightarrow> transaction reader) list \<Rightarrow> transaction \<Rightarrow> bytes
    \<Rightarrow> err + transaction" where
  "read_fields [] tx r =
     (if r \<noteq> [] then Inl (Wrap ''trailing bytes'' ErrInvalidCanonicalTx) else Inr tx)"
| "read_fields (f # fs) tx r =
     (case f tx r of Inl e \<Rightarrow> Inl e | Inr (tx', r') \<Rightarrow> read_fields fs tx' r')"

definition decodeCanonicalTransactionV3 :: "bytes \<Rightarrow> transaction \<Rightarrow> err + transaction" where
  "decodeCanonicalTransactionV3 r tx =
    read_fields
      [field readCanonicalString tx_ID_update,
       field readCanonicalString tx_From_update,
       field readCanonicalString tx_To_update,
       field readCanonicalString tx_AssetID_update,
       field readUint64 tx_Amount_update,
       field readUint64 tx_Fee_update,
       field readUint64 tx_Nonce_update,
       field readInt64 tx_Timestamp_update,
       field readCanonicalString tx_Signature_update,
       field readCanonicalString tx_PublicKey_update,
       field readCanonicalString tx_FeePayer_update,
       field readCanonicalString tx_FeePayerPublicKey_update,
       field readCanonicalString tx_FeePayerSignature_update,
       field readCanonicalString tx_AssetName_update,
       field readCanonicalString tx_AssetSymbol_update,
       field (ReadByte (Wrap ''asset decimals'' ErrInvalidCanonicalTx)) tx_AssetDecimals_update,
       field readUint64 tx_AssetMaxSupply_update,
       field readByteBool tx_AssetMintable_update,
       field readByteBool tx_AssetBurnable_update,
       field readByteBool tx_AssetPausable_update,
       field readByteBool tx_AssetPermissioned_update,
       field readCanonicalString tx_StakeID_update] tx r"

definition decode_fields :: "bytes \<Rightarrow> transaction \<Rightarrow> err + transaction" where
  "decode_fields r tx =
    read_fields
      [field readCanonicalString tx_ID_update,
       field readCanonicalString tx_From_update,
       field readCanonicalString tx_To_update,
       field readUint64 tx_Amount_update,
       field readUint64 tx_Fee_update,
       field readUint64 tx_Nonce_update,
       field readInt64 tx_Timestamp_update,
       field readCanonicalString tx_Signature_update,
       field readCanonicalString tx_PublicKey_update,
       field readCanonicalString tx_StakeID_update] tx r"

definition DecodeCanonicalTransaction :: "bytes \<Rightarrow> err + transaction" where
  "DecodeCanonicalTransaction raw =
    (let badCodec = Wrap ''unsupported codec version'' ErrInvalidCanonicalTx;
         badVersion = Wrap ''invalid protocol version'' ErrInvalidCanonicalTx;
         badCoinbase = Wrap ''invalid coinbase flag'' ErrInvalidCanonicalTx in
     case ReadByte badCodec raw of
       Inl _ \<Rightarrow> Inl badCodec
     | Inr (codec, r1) \<Rightarrow>
         if codec \<noteq> canonicalTxCodecVersion then Inl badCodec
         else case readUint32 r1 of
           Inl _ \<Rightarrow> Inl badVersion
         | Inr (version, r2) \<Rightarrow>
             if version = 0 then Inl badVersion
             else case readCanonicalString r2 of
               Inl e \<Rightarrow> Inl e
             | Inr (txType, r3) \<Rightarrow>
                 (case ReadByte badCoinbase r3 of
                    Inl _ \<Rightarrow> Inl badCoinbase
                  | Inr (coinbase, r4) \<Rightarrow>
                      if coinbase \<noteq> 0 \<and> coinbase \<noteq> 1 then Inl badCoinbase
                      else let tx = zero_tx\<lparr>tx_Version := version, tx_Type := txType,
                                            tx_Coinbase := (coinbase = 1)\<rparr>
                           in if version = TxVersionAsset then decodeCanonicalTransactionV3 r4 tx
                              else decode_fields r4 tx))"

section \<open>Readers and writers agree\<close>

text \<open>
  The interface of a field codec: reading what was written, with anything behind it, returns the
  value and what was behind it. The encodings of two values then agree only when the values do,
  whatever follows them: this is what makes the concatenation of fields unambiguous.
\<close>

locale field_codec =
  fixes put :: "'a \<Rightarrow> bytes"
    and get :: "'a reader"
    and ok :: "'a \<Rightarrow> bool"
  assumes read_write: "ok v \<Longrightarrow> get (put v @ r) = Inr (v, r)"
begin

lemma write_inject: "ok v \<Longrightarrow> ok w \<Longrightarrow> put v @ r = put w @ s \<longleftrightarrow> v = w \<and> r = s"
  by (metis Pair_inject old.sum.inject(2) read_write)

lemma field_read: "ok v \<Longrightarrow> field get upd tx (put v @ r) = Inr (upd (\<lambda>_. v) tx, r)"
  by (simp add: field_def rbind_def read_write)

lemma field_read_last: "ok v \<Longrightarrow> field get upd tx (put v) = Inr (upd (\<lambda>_. v) tx, [])"
  using field_read [of v upd tx "[]"] by simp

end

lemma Read_append: "length w = n \<Longrightarrow> 0 < n \<Longrightarrow> Read n e (w @ r) = Inr (w, r)"
  by (auto simp: Read_def)

interpretation u32_codec: field_codec PutUint32 readUint32 "\<lambda>_. True"
  by unfold_locales (simp add: readUint32_def Read_append)

interpretation u64_codec: field_codec PutUint64 readUint64 "\<lambda>_. True"
  by unfold_locales (simp add: readUint64_def Read_append)

interpretation i64_codec: field_codec PutUint64 readInt64 "\<lambda>_. True"
  by unfold_locales (simp add: readInt64_def u64_codec.read_write)

interpretation byte_codec: field_codec "\<lambda>b. [b]" "ReadByte e" "\<lambda>_. True" for e
  by unfold_locales (simp add: ReadByte_def)

interpretation bool_codec: field_codec writeBool readByteBool "\<lambda>_. True"
  by unfold_locales (simp add: readByteBool_def writeBool_def ReadByte_def)

definition short :: "string \<Rightarrow> bool" where
  "short s = (length s \<le> 2 ^ 20)"

lemma readCanonicalString_write:
  "short s \<Longrightarrow> readCanonicalString (writeCanonicalString s @ r) = Inr (s, r)"
proof -
  assume "short s"
  then have len: "unat (of_nat (length s) :: u32) = length s"
    by (simp add: short_def unat_of_nat)
  then have "\<not> (of_nat (length s) :: u32) > maxCanonicalFieldBytes"
    using \<open>short s\<close> by (simp add: word_less_nat_alt maxCanonicalFieldBytes_def short_def)
  moreover have "(of_nat (length s) :: u32) = 0 \<longleftrightarrow> s = []"
    using len by (metis length_0_conv unat_eq_0)
  ultimately show ?thesis
    by (simp add: readCanonicalString_def writeCanonicalString_def u32_codec.read_write len
        Read_append)
qed

interpretation string_codec: field_codec writeCanonicalString readCanonicalString short
  by unfold_locales (rule readCanonicalString_write)

lemmas field_reads [codec] =
  u64_codec.field_read i64_codec.field_read byte_codec.field_read [simplified] bool_codec.field_read
  string_codec.field_read string_codec.field_read_last

section \<open>Stored transactions decode to themselves\<close>

text \<open>The strings of a transaction that the decoder's field limit admits.\<close>

definition tx_short :: "transaction \<Rightarrow> bool" where
  "tx_short tx =
    list_all short
      [TxType tx, tx_ID tx, tx_From tx, tx_To tx, tx_Signature tx, tx_PublicKey tx, tx_StakeID tx,
       tx_AssetID tx, tx_FeePayer tx, tx_FeePayerPublicKey tx, tx_FeePayerSignature tx,
       tx_AssetName tx, tx_AssetSymbol tx]"

text \<open>What a stored transaction of a version before 3 keeps: no asset field is written.\<close>

definition without_asset_fields :: "transaction \<Rightarrow> transaction" where
  "without_asset_fields tx =
    tx\<lparr>tx_AssetID := [], tx_FeePayer := [], tx_FeePayerPublicKey := [], tx_FeePayerSignature := [],
       tx_AssetName := [], tx_AssetSymbol := [], tx_AssetDecimals := 0, tx_AssetMaxSupply := 0,
       tx_AssetMintable := False, tx_AssetBurnable := False, tx_AssetPausable := False,
       tx_AssetPermissioned := False\<rparr>"

definition normal_tx :: "transaction \<Rightarrow> transaction" where
  "normal_tx tx = tx\<lparr>tx_Version := tx_ProtocolVersion tx, tx_Type := TxType tx\<rparr>"

lemma tx_ProtocolVersion_nonzero [simp]: "tx_ProtocolVersion tx \<noteq> 0"
  by (simp add: tx_ProtocolVersion_def TxVersionLegacy_def)

lemma read_header:
  assumes "short ty" and "v \<noteq> 0"
  shows "DecodeCanonicalTransaction (writeCanonicalHeader v ty cb @ r) =
    (let tx = zero_tx\<lparr>tx_Version := v, tx_Type := ty, tx_Coinbase := cb\<rparr>
     in if v = TxVersionAsset then decodeCanonicalTransactionV3 r tx else decode_fields r tx)"
  using assms
  by (simp add: DecodeCanonicalTransaction_def writeCanonicalHeader_def ReadByte_def Let_def
      u32_codec.read_write string_codec.read_write)

lemma decode_V3_fields:
  assumes "tx_short tx"
  shows "DecodeCanonicalTransaction (CanonicalBytesV3 tx) =
    (if tx_ProtocolVersion tx = TxVersionAsset then Inr (normal_tx tx)
     else decode_fields
       (drop (length (writeCanonicalHeader (tx_ProtocolVersion tx) (TxType tx) (tx_Coinbase tx)))
         (CanonicalBytesV3 tx))
       (zero_tx\<lparr>tx_Version := tx_ProtocolVersion tx, tx_Type := TxType tx,
               tx_Coinbase := tx_Coinbase tx\<rparr>))"
  using assms unfolding CanonicalBytesV3_def
  by (subst read_header)
    (simp_all add: tx_short_def Let_def decodeCanonicalTransactionV3_def codec normal_tx_def
      zero_tx_def)

text \<open>
  C16. Round trip of the canonical codec: every transaction whose strings fit the decoder's field limit
  is encoded, and decoding gives it back with its version and type made explicit; before version 3
  the asset fields are not part of the encoding and come back empty.
\<close>

theorem decode_encode:
  assumes "tx_short tx"
  shows "\<exists>raw. CanonicalBytes tx = Inr raw \<and>
    DecodeCanonicalTransaction raw =
      Inr (if tx_ProtocolVersion tx = TxVersionAsset then normal_tx tx
           else without_asset_fields (normal_tx tx))"
proof (cases "tx_ProtocolVersion tx = TxVersionAsset")
  case True
  then show ?thesis using assms by (simp add: CanonicalBytes_def decode_V3_fields TxVersionAsset_def)
next
  case False
  then show ?thesis
    using assms unfolding CanonicalBytes_def
    by (simp add: read_header tx_short_def Let_def decode_fields_def codec normal_tx_def
        without_asset_fields_def zero_tx_def)
qed

section \<open>Signing bytes are unambiguous\<close>

text \<open>The fields a sender signs in version 3.\<close>

definition signed_fields_V3 where
  "signed_fields_V3 tx =
    (TxType tx, tx_Coinbase tx, tx_From tx, tx_To tx,
     if TxType tx = TxTypeAssetCreate then [] else EffectiveAssetID tx,
     (tx_Amount tx, tx_Fee tx, tx_Nonce tx, tx_Timestamp tx), tx_PublicKey tx,
     EffectiveFeePayer tx, tx_AssetName tx, tx_AssetSymbol tx, tx_AssetDecimals tx,
     tx_AssetMaxSupply tx,
     (tx_AssetMintable tx, tx_AssetBurnable tx, tx_AssetPausable tx, tx_AssetPermissioned tx),
     if TxType tx = TxTypeStakeLock then [] else tx_StakeID tx)"

lemma short_simps [simp]: "short []" "short NativeAssetID" "short assetSigningDomain"
  "short canonicalSigningDomain"
  by (simp_all add: short_def NativeAssetID_def assetSigningDomain_def canonicalSigningDomain_def)

lemma short_signed:
  assumes "tx_short tx"
  shows "short (TxType tx)" "short (tx_From tx)" "short (tx_To tx)" "short (tx_PublicKey tx)"
    "short (EffectiveAssetID tx)" "short (EffectiveFeePayer tx)" "short (tx_AssetName tx)"
    "short (tx_AssetSymbol tx)" "short (tx_StakeID tx)"
  using assms by (simp_all add: tx_short_def EffectiveAssetID_def EffectiveFeePayer_def)

lemma short_if [simp]: "short s \<Longrightarrow> short (if c then [] else s)"
  by simp

lemmas write_injects = u32_codec.write_inject [simplified] u64_codec.write_inject [simplified]
  bool_codec.write_inject [simplified] string_codec.write_inject
  string_codec.write_inject [where r = "[]" and s = "[]", simplified]

lemma header_inject:
  "short ty \<Longrightarrow> short ty' \<Longrightarrow>
   writeCanonicalHeader v ty cb @ r = writeCanonicalHeader v' ty' cb' @ s
     \<longleftrightarrow> v = v' \<and> ty = ty' \<and> cb = cb' \<and> r = s"
  by (auto simp: writeCanonicalHeader_def write_injects)

lemma CanonicalSigningBytesV3_inject:
  assumes "tx_short tx" and "tx_short tx'"
    and "CanonicalSigningBytesV3 tx = CanonicalSigningBytesV3 tx'"
  shows "signed_fields_V3 tx = signed_fields_V3 tx'"
  using assms(3) short_signed [OF assms(1)] short_signed [OF assms(2)]
  unfolding CanonicalSigningBytesV3_def signed_fields_V3_def
  by (simp add: header_inject write_injects split del: if_split) (elim conjE, simp)

lemma signing_domain_split:
  assumes "CanonicalSigningBytesWithChainID tx c = Inr b"
  shows "\<exists>d body. b = writeCanonicalString d @ PutUint64 c @ PutUint32 (of_nat (length body)) @ body
    \<and> (tx_ProtocolVersion tx = TxVersionAsset \<and> d = assetSigningDomain
         \<and> body = CanonicalSigningBytesV3 tx
       \<or> tx_ProtocolVersion tx = TxVersionCanonical \<and> d = canonicalSigningDomain
         \<and> body = CanonicalSigningBytes tx)"
  using assms by (auto simp: CanonicalSigningBytesWithChainID_def Let_def split: if_splits)

lemma domains_differ [simp]: "assetSigningDomain \<noteq> canonicalSigningDomain"
  by (simp add: assetSigningDomain_def canonicalSigningDomain_def)

lemma chain_bound_signing:
  assumes "CanonicalSigningBytesWithChainID tx c = Inr b"
    and "CanonicalSigningBytesWithChainID tx' c' = Inr b"
  shows "c = c' \<and> tx_ProtocolVersion tx = tx_ProtocolVersion tx'"
proof -
  from signing_domain_split [OF assms(1)] obtain d body where
    1: "b = writeCanonicalString d @ PutUint64 c @ PutUint32 (of_nat (length body)) @ body"
    and d: "tx_ProtocolVersion tx = TxVersionAsset \<and> d = assetSigningDomain
      \<or> tx_ProtocolVersion tx = TxVersionCanonical \<and> d = canonicalSigningDomain" by blast
  from signing_domain_split [OF assms(2)] obtain d' body' where
    2: "b = writeCanonicalString d' @ PutUint64 c' @ PutUint32 (of_nat (length body')) @ body'"
    and d': "tx_ProtocolVersion tx' = TxVersionAsset \<and> d' = assetSigningDomain
      \<or> tx_ProtocolVersion tx' = TxVersionCanonical \<and> d' = canonicalSigningDomain" by blast
  have "short d" and "short d'" using d d' by auto
  with 1 2 have "d = d'" and "c = c'" by (simp_all add: write_injects)
  with d d' show ?thesis by (metis domains_differ)
qed

lemma chain_bound_signing_fields:
  assumes "CanonicalSigningBytesWithChainID tx c = Inr b"
    and "CanonicalSigningBytesWithChainID tx' c' = Inr b"
    and "tx_ProtocolVersion tx = TxVersionAsset" and "tx_short tx" and "tx_short tx'"
  shows "signed_fields_V3 tx = signed_fields_V3 tx'"
proof -
  have "tx_ProtocolVersion tx' = TxVersionAsset"
    using chain_bound_signing [OF assms(1,2)] assms(3) by simp
  with assms have "CanonicalSigningBytesV3 tx = CanonicalSigningBytesV3 tx'"
    by (auto simp: CanonicalSigningBytesWithChainID_def Let_def write_injects)
  with assms show ?thesis by (intro CanonicalSigningBytesV3_inject)
qed


text \<open>
  The identifier and the signatures are outside the signing bytes, so a signature or a paymaster
  authorisation can be attached without changing the identifier.
\<close>

lemma tx_ProtocolVersion_upd [simp]:
  "tx_ProtocolVersion (tx\<lparr>tx_ID := i\<rparr>) = tx_ProtocolVersion tx"
  "tx_ProtocolVersion (tx\<lparr>tx_Signature := i\<rparr>) = tx_ProtocolVersion tx"
  "tx_ProtocolVersion (tx\<lparr>tx_FeePayerPublicKey := i\<rparr>) = tx_ProtocolVersion tx"
  "tx_ProtocolVersion (tx\<lparr>tx_FeePayerSignature := i\<rparr>) = tx_ProtocolVersion tx"
  "tx_ProtocolVersion (tx\<lparr>tx_StakeID := i\<rparr>) = tx_ProtocolVersion tx"
  "tx_ProtocolVersion (tx\<lparr>tx_PublicKey := i\<rparr>) = tx_ProtocolVersion tx"
  "tx_ProtocolVersion (tx\<lparr>tx_AssetID := i\<rparr>) = tx_ProtocolVersion tx"
  by (simp_all add: tx_ProtocolVersion_def)

lemma TxType_upd [simp]:
  "TxType (tx\<lparr>tx_ID := i\<rparr>) = TxType tx"
  "TxType (tx\<lparr>tx_Signature := i\<rparr>) = TxType tx"
  "TxType (tx\<lparr>tx_FeePayerPublicKey := i\<rparr>) = TxType tx"
  "TxType (tx\<lparr>tx_FeePayerSignature := i\<rparr>) = TxType tx"
  "TxType (tx\<lparr>tx_StakeID := i\<rparr>) = TxType tx"
  "TxType (tx\<lparr>tx_PublicKey := i\<rparr>) = TxType tx"
  "TxType (tx\<lparr>tx_AssetID := i\<rparr>) = TxType tx"
  "TxType (tx\<lparr>tx_Version := v\<rparr>) = TxType tx"
  by (simp_all add: TxType_def)

lemma Effective_upd [simp]:
  "EffectiveAssetID (tx\<lparr>tx_ID := i\<rparr>) = EffectiveAssetID tx"
  "EffectiveAssetID (tx\<lparr>tx_Signature := i\<rparr>) = EffectiveAssetID tx"
  "EffectiveAssetID (tx\<lparr>tx_FeePayerPublicKey := i\<rparr>) = EffectiveAssetID tx"
  "EffectiveAssetID (tx\<lparr>tx_FeePayerSignature := i\<rparr>) = EffectiveAssetID tx"
  "EffectiveAssetID (tx\<lparr>tx_PublicKey := i\<rparr>) = EffectiveAssetID tx"
  "EffectiveFeePayer (tx\<lparr>tx_ID := i\<rparr>) = EffectiveFeePayer tx"
  "EffectiveFeePayer (tx\<lparr>tx_Signature := i\<rparr>) = EffectiveFeePayer tx"
  "EffectiveFeePayer (tx\<lparr>tx_FeePayerPublicKey := i\<rparr>) = EffectiveFeePayer tx"
  "EffectiveFeePayer (tx\<lparr>tx_FeePayerSignature := i\<rparr>) = EffectiveFeePayer tx"
  "EffectiveFeePayer (tx\<lparr>tx_PublicKey := i\<rparr>) = EffectiveFeePayer tx"
  "EffectiveFeePayer (tx\<lparr>tx_AssetID := i\<rparr>) = EffectiveFeePayer tx"
  by (simp_all add: EffectiveAssetID_def EffectiveFeePayer_def)

lemma signing_ignores_signatures:
  "SigningBytesWithChainID (tx\<lparr>tx_ID := i\<rparr>) c = SigningBytesWithChainID tx c"
  "SigningBytesWithChainID (tx\<lparr>tx_Signature := s\<rparr>) c = SigningBytesWithChainID tx c"
  by (simp_all add: SigningBytesWithChainID_def SigningBytes_def CanonicalSigningBytesWithChainID_def
      CanonicalSigningBytes_def CanonicalSigningBytesV3_def Let_def)

lemma V3_signing_ignores_sponsor:
  assumes "tx_ProtocolVersion tx = TxVersionAsset"
  shows "SigningBytesWithChainID (tx\<lparr>tx_FeePayerPublicKey := k\<rparr>) c = SigningBytesWithChainID tx c"
    "SigningBytesWithChainID (tx\<lparr>tx_FeePayerSignature := s\<rparr>) c = SigningBytesWithChainID tx c"
  using assms
  by (simp_all add: SigningBytesWithChainID_def SigningBytes_def CanonicalSigningBytesWithChainID_def
      CanonicalSigningBytesV3_def Let_def tx_versions)

section \<open>A truncated encoding is accepted\<close>

lemma readCanonicalString_zeros:
  "0 < n \<Longrightarrow> n \<le> 4 \<Longrightarrow> readCanonicalString (replicate n 0) = Inr ([], [])"
proof -
  assume n: "0 < n" "n \<le> 4"
  then have "take 4 (replicate n 0) @ replicate (4 - n) 0 = (replicate 4 0 :: bytes)"
    by (simp add: min_def flip: replicate_add)
  moreover have "be_nat (replicate 4 0) = 0" by (simp add: be_nat_def eval_nat_numeral)
  ultimately have "readUint32 (replicate n 0) = Inr (0, [])"
    using n by (simp add: readUint32_def Read_def)
  then show ?thesis by (simp add: readCanonicalString_def)
qed

lemma field_zeros:
  "0 < n \<Longrightarrow> n \<le> 4 \<Longrightarrow>
   field readCanonicalString upd tx (replicate n 0) = Inr (upd (\<lambda>_. []) tx, [])"
  by (simp add: field_def rbind_def readCanonicalString_zeros)

text \<open>The v3 encoding up to its last field.\<close>

definition V3_head :: "transaction \<Rightarrow> bytes" where
  "V3_head tx =
    writeCanonicalHeader (tx_ProtocolVersion tx) (TxType tx) (tx_Coinbase tx)
    @ writeCanonicalString (tx_ID tx) @ writeCanonicalString (tx_From tx)
    @ writeCanonicalString (tx_To tx) @ writeCanonicalString (tx_AssetID tx)
    @ PutUint64 (tx_Amount tx) @ PutUint64 (tx_Fee tx) @ PutUint64 (tx_Nonce tx)
    @ PutUint64 (tx_Timestamp tx) @ writeCanonicalString (tx_Signature tx)
    @ writeCanonicalString (tx_PublicKey tx) @ writeCanonicalString (tx_FeePayer tx)
    @ writeCanonicalString (tx_FeePayerPublicKey tx) @ writeCanonicalString (tx_FeePayerSignature tx)
    @ writeCanonicalString (tx_AssetName tx) @ writeCanonicalString (tx_AssetSymbol tx)
    @ [tx_AssetDecimals tx] @ PutUint64 (tx_AssetMaxSupply tx) @ writeBool (tx_AssetMintable tx)
    @ writeBool (tx_AssetBurnable tx) @ writeBool (tx_AssetPausable tx)
    @ writeBool (tx_AssetPermissioned tx)"

lemma V3_split: "CanonicalBytesV3 tx = V3_head tx @ writeCanonicalString (tx_StakeID tx)"
  by (simp add: CanonicalBytesV3_def V3_head_def)

lemma decode_V3_head:
  assumes "tx_short tx" and "tx_ProtocolVersion tx = TxVersionAsset"
  shows "DecodeCanonicalTransaction (V3_head tx @ z) =
    read_fields [field readCanonicalString tx_StakeID_update] ((normal_tx tx)\<lparr>tx_StakeID := []\<rparr>) z"
  using assms unfolding V3_head_def append_assoc
  by (subst read_header)
    (simp_all add: tx_short_def Let_def decodeCanonicalTransactionV3_def codec normal_tx_def
      zero_tx_def TxVersionAsset_def, simp add: field_def rbind_def split: sum.split prod.split)

text \<open>
  C18. The decoder does not reject a truncated encoding: \<open>readUint32\<close> and \<open>readUint64\<close> ignore short reads,
  so the canonical bytes of a version 3 transaction without a stake identifier decode to the same
  transaction when up to three of their last bytes are missing.
\<close>

theorem truncated_decodes:
  assumes "tx_short tx" and "tx_ProtocolVersion tx = TxVersionAsset" and "tx_StakeID tx = []"
    and raw: "CanonicalBytesV3 tx = p @ replicate k 0" and "k < 4"
  shows "DecodeCanonicalTransaction p = Inr (normal_tx tx)"
proof -
  have "writeCanonicalString [] = replicate 4 0"
    by code_simp
  moreover have "(4 - k) + k = 4" using \<open>k < 4\<close> by simp
  ultimately have Z: "writeCanonicalString [] = replicate (4 - k) 0 @ replicate k 0"
    by (metis replicate_add)
  have "p = V3_head tx @ replicate (4 - k) 0"
    using raw unfolding V3_split assms(3) Z append_assoc [symmetric] by simp
  moreover have "(normal_tx tx)\<lparr>tx_StakeID := []\<rparr> = normal_tx tx"
    using assms(3) by (simp add: normal_tx_def)
  ultimately show ?thesis
    using \<open>k < 4\<close> by (simp add: decode_V3_head [OF assms(1,2)] field_zeros)
qed

end
