(* ===== verification/Block.thy ===== *)
theory Block
  imports Tx_Codec
begin

text \<open>
  \<open>types/block.go\<close> and \<open>types/block_codec.go\<close>: the block record, its versions, header bytes, hash
  and Merkle root. A nil and an empty transaction slice are both the empty list; where their JSON
  differs (\<open>null\<close> and \<open>[]\<close>) the model writes the nil form.
\<close>

definition BlockVersionLegacy :: u32 where "BlockVersionLegacy = 1"
definition BlockVersionCanonical :: u32 where "BlockVersionCanonical = 2"
definition MaxSupportedBlockVersion :: u32 where "MaxSupportedBlockVersion = BlockVersionCanonical"

record block =
  b_Version :: u32
  b_Height :: u64
  b_PreviousHash :: string
  b_Timestamp :: i64
  b_Nonce :: u64
  b_Difficulty :: u32
  b_MinerAddress :: string
  b_Transactions :: "transaction list"
  b_MerkleRoot :: string
  b_StateRoot :: string
  b_Hash :: string
  b_GenesisMarker :: string

definition zero_block :: block where
  "zero_block = \<lparr>b_Version = 0, b_Height = 0, b_PreviousHash = [], b_Timestamp = 0, b_Nonce = 0,
     b_Difficulty = 0, b_MinerAddress = [], b_Transactions = [], b_MerkleRoot = [],
     b_StateRoot = [], b_Hash = [], b_GenesisMarker = []\<rparr>"

definition b_ProtocolVersion :: "block \<Rightarrow> u32" where
  "b_ProtocolVersion b = (if b_Version b = 0 then BlockVersionLegacy else b_Version b)"

definition ValidateBlockVersion :: "u32 \<Rightarrow> u32 \<Rightarrow> err option" where
  "ValidateBlockVersion version activeVersion =
    (let version = (if version = 0 then BlockVersionLegacy else version);
         activeVersion = (if activeVersion = 0 then BlockVersionLegacy else activeVersion) in
     if version > MaxSupportedBlockVersion then Some (Err ''unsupported block version: %d'')
     else if version \<noteq> activeVersion then
       Some (Err ''block version %d is not active on this network (active version %d)'')
     else None)"

definition canonicalBlockCodecVersion :: u8 where "canonicalBlockCodecVersion = 1"

definition canonicalBlockHeaderDomain :: string where
  "canonicalBlockHeaderDomain = ''IndoChain/block-header/v2''"

definition writeBlockCanonicalString :: "string \<Rightarrow> bytes" where
  "writeBlockCanonicalString value = PutUint32 (of_nat (length value)) @ bytes_of value"

definition CanonicalHeaderBytesWithNonce :: "block \<Rightarrow> u64 \<Rightarrow> err + bytes" where
  "CanonicalHeaderBytesWithNonce b nonce =
    (if b_ProtocolVersion b \<noteq> BlockVersionCanonical then
       Inl (Wrap ''canonical header requires block version %d'' (Err ''invalid canonical block header''))
     else Inr
      ([canonicalBlockCodecVersion]
       @ PutUint32 (b_ProtocolVersion b)
       @ writeBlockCanonicalString canonicalBlockHeaderDomain
       @ PutUint64 (b_Height b)
       @ writeBlockCanonicalString (b_PreviousHash b)
       @ PutUint64 (b_Timestamp b)
       @ PutUint64 nonce
       @ PutUint32 (b_Difficulty b)
       @ writeBlockCanonicalString (b_MinerAddress b)
       @ writeBlockCanonicalString (b_MerkleRoot b)
       @ writeBlockCanonicalString (b_StateRoot b)
       @ writeBlockCanonicalString (b_GenesisMarker b)))"

definition HeaderBytesWithNonce :: "block \<Rightarrow> u64 \<Rightarrow> bytes" where
  "HeaderBytesWithNonce b nonce =
    (if b_ProtocolVersion b = BlockVersionCanonical then
       (case CanonicalHeaderBytesWithNonce b nonce of Inl _ \<Rightarrow> [] | Inr raw \<Rightarrow> raw)
     else bytes_of (sep_concat ''|''
       [FormatUint (b_Height b), b_PreviousHash b, FormatInt (b_Timestamp b), FormatUint nonce,
        FormatUint (b_Difficulty b), b_MinerAddress b, b_MerkleRoot b, b_GenesisMarker b]))"

definition CalculateHash :: "block \<Rightarrow> string" where
  "CalculateHash b = DoubleSHA256Hex (HeaderBytesWithNonce b (b_Nonce b))"

section \<open>Merkle root\<close>

text \<open>One pass of the loop: neighbours are hashed together, an odd last element with itself.\<close>

fun merkle_level :: "string list \<Rightarrow> string list" where
  "merkle_level [] = []"
| "merkle_level [l] = [DoubleSHA256Hex (bytes_of (l @ l))]"
| "merkle_level (l # r # xs) = DoubleSHA256Hex (bytes_of (l @ r)) # merkle_level xs"

lemma length_merkle_level: "length (merkle_level xs) = (length xs + 1) div 2"
  by (induction xs rule: merkle_level.induct) simp_all

function merkle_loop :: "string list \<Rightarrow> string list" where
  "merkle_loop level = (if length level > 1 then merkle_loop (merkle_level level) else level)"
  by pat_completeness auto
termination
  by (relation "measure length") (auto simp: length_merkle_level)

declare merkle_loop.simps [simp del]

definition merkle_leaf :: "transaction \<Rightarrow> string" where
  "merkle_leaf tx = (if tx_ID tx = [] then CalculateID tx else tx_ID tx)"

definition CalculateMerkleRoot :: "transaction list \<Rightarrow> string" where
  "CalculateMerkleRoot transactions =
    (if transactions = [] then DoubleSHA256Hex []
     else hd (merkle_loop (map merkle_leaf transactions)))"

lemma merkle_loop_singleton: "level \<noteq> [] \<Longrightarrow> length (merkle_loop level) = 1"
proof (induction level rule: merkle_loop.induct)
  case (1 level)
  have "length level > 1 \<Longrightarrow> merkle_level level \<noteq> []"
    using length_merkle_level [of level] by (auto dest: arg_cong [where f = length])
  with "1" show ?case
    by (subst merkle_loop.simps) (cases level; auto)
qed

text \<open>
  The pairing rule does not bind the number of leaves: an odd list and the same list with its last
  leaf repeated have the same next level.
\<close>

lemma merkle_level_repeat:
  "odd (length xs) \<Longrightarrow> merkle_level (xs @ [last xs]) = merkle_level xs"
  by (induction xs rule: merkle_level.induct) auto

text \<open>
  The Merkle root does not bind the transaction count: a list of odd length above one and the same
  list with its last transaction repeated have the same root.
\<close>

theorem merkle_repeat_last:
  assumes "odd (length txs)" and "length txs > 1"
  shows "CalculateMerkleRoot (txs @ [last txs]) = CalculateMerkleRoot txs"
proof -
  let ?ls = "map merkle_leaf txs"
  have ne: "txs \<noteq> []" using assms(2) by auto
  then have "map merkle_leaf (txs @ [last txs]) = ?ls @ [last ?ls]"
    by (simp add: last_map)
  then have "merkle_loop (map merkle_leaf (txs @ [last txs])) = merkle_loop ?ls"
    using assms ne merkle_level_repeat [of ?ls]
    by (simp add: merkle_loop.simps [of "?ls @ [last ?ls]"] merkle_loop.simps [of ?ls])
  then show ?thesis using assms(2) by (auto simp: CalculateMerkleRoot_def)
qed

section \<open>Construction\<close>

definition NewBlockWithVersion ::
  "i64 \<Rightarrow> u64 \<Rightarrow> string \<Rightarrow> string \<Rightarrow> u32 \<Rightarrow> transaction list \<Rightarrow> u32 \<Rightarrow> block" where
  "NewBlockWithVersion now height previousHash minerAddress difficulty transactions version =
    (let version = (if version = BlockVersionLegacy then 0 else version) in
     zero_block\<lparr>b_Version := version, b_Height := height, b_PreviousHash := previousHash,
       b_Timestamp := now, b_Difficulty := difficulty, b_MinerAddress := minerAddress,
       b_Transactions := transactions, b_MerkleRoot := CalculateMerkleRoot transactions\<rparr>)"

definition block_json :: "block \<Rightarrow> json" where
  "block_json b = JObj
    (omit_num ''version'' (b_Version b)
     @ fld ''height'' (JNum (FormatUint (b_Height b)))
     @ fld ''previous_hash'' (JStr (b_PreviousHash b))
     @ fld ''timestamp'' (JNum (FormatInt (b_Timestamp b)))
     @ fld ''nonce'' (JNum (FormatUint (b_Nonce b)))
     @ fld ''difficulty'' (JNum (FormatUint (b_Difficulty b)))
     @ fld ''miner_address'' (JStr (b_MinerAddress b))
     @ fld ''transactions''
         (if b_Transactions b = [] then JNull else JArr (map tx_json (b_Transactions b)))
     @ fld ''merkle_root'' (JStr (b_MerkleRoot b))
     @ omit_str ''state_root'' (b_StateRoot b)
     @ fld ''hash'' (JStr (b_Hash b))
     @ omit_str ''genesis_marker'' (b_GenesisMarker b))"

end
