(* ===== verification/Ledger.thy ===== *)
theory Ledger
  imports Block Arith
begin

text \<open>
  \<open>ledger/ledger.go\<close>: the plain account ledger, with balances and nonces per address, always on the
  local network profile. Main results: a transaction moves exactly its amount and burns exactly its
  fee, the sum of all balances changes by coinbase minus fees, a rejected transaction changes
  nothing, and a nonce is spent once.
\<close>

record account =
  ac_Balance :: u64
  ac_Nonce :: u64

type_synonym ledger = "(string, account) fmap"

definition zero_account :: account where
  "zero_account = \<lparr>ac_Balance = 0, ac_Nonce = 0\<rparr>"

definition ledger_New :: ledger where
  "ledger_New = fmempty"

definition ledger_Balance :: "ledger \<Rightarrow> string \<Rightarrow> u64" where
  "ledger_Balance l address = ac_Balance (get_or zero_account l address)"

definition ledger_Nonce :: "ledger \<Rightarrow> string \<Rightarrow> u64" where
  "ledger_Nonce l address = ac_Nonce (get_or zero_account l address)"

definition ledger_Snapshot :: "ledger \<Rightarrow> (string, account) fmap" where
  "ledger_Snapshot l = range_fm fmupd l fmempty"

definition ledger_Clone :: "ledger \<Rightarrow> ledger" where
  "ledger_Clone l = range_fm fmupd l ledger_New"

definition ledger_ApplyCoinbase :: "transaction \<Rightarrow> ledger \<Rightarrow> err option \<times> ledger" where
  "ledger_ApplyCoinbase tx l =
    (if \<not> tx_Coinbase tx then (Some (Err ''transaction is not coinbase''), l)
     else case ValidateAddressForNetwork (tx_To tx) Localnet of
       Some e \<Rightarrow> (Some (Wrap ''invalid coinbase recipient'' e), l)
     | None \<Rightarrow>
         let acct = get_or zero_account l (tx_To tx) in
         case Add (ac_Balance acct) (tx_Amount tx) of
           Inl e \<Rightarrow> (Some (Wrap ''coinbase balance overflow'' e), l)
         | Inr balance \<Rightarrow> (None, fmupd (tx_To tx) (acct\<lparr>ac_Balance := balance\<rparr>) l))"

text \<open>The checks of \<open>ValidateTransaction\<close> before the account is looked at.\<close>

definition ledger_tx_shape :: "ext \<Rightarrow> transaction \<Rightarrow> err option" where
  "ledger_tx_shape X tx =
    (if TxType tx = TxTypeTransfer \<and> tx_Amount tx = 0 then
       Some (Err ''amount must be greater than zero'')
     else if TxType tx = TxTypeStakeLock \<and> tx_Amount tx = 0 then
       Some (Err ''amount must be greater than zero'')
     else if TxType tx = TxTypeTransfer \<and> tx_From tx = tx_To tx then
       Some (Err ''sender and recipient must differ'')
     else case ValidateAddressForNetwork (tx_From tx) Localnet of
       Some e \<Rightarrow> Some (Wrap ''invalid sender address'' e)
     | None \<Rightarrow>
     (case (if TxType tx = TxTypeTransfer then ValidateAddressForNetwork (tx_To tx) Localnet else None) of
        Some e \<Rightarrow> Some (Wrap ''invalid recipient address'' e)
      | None \<Rightarrow>
      if TxType tx = TxTypeStakeLock \<and> tx_To tx \<noteq> [] \<and> tx_To tx \<noteq> tx_From tx then
        Some (Err ''invalid stake lock: recipient must match owner'')
      else if AddressFromPublicKey X (tx_PublicKey tx) \<noteq> tx_From tx then
        Some (Err ''public key does not match sender address'')
      else case CalculateIDForChainID tx (nc_ChainID Localnet) of
        Inl e \<Rightarrow> Some e
      | Inr expectedID \<Rightarrow>
          if tx_ID tx \<noteq> expectedID then Some (Err ''transaction id mismatch'')
          else if TxType tx = TxTypeStakeLock \<and> tx_StakeID tx \<noteq> [] \<and> tx_StakeID tx \<noteq> tx_ID tx then
            Some (Err ''invalid stake lock: stake id mismatch'')
          else case SigningBytesWithChainID tx (nc_ChainID Localnet) of
            Inl e \<Rightarrow> Some e
          | Inr signingBytes \<Rightarrow>
              if \<not> VerifyHex X (tx_PublicKey tx) (tx_Signature tx) signingBytes then
                Some (Err ''invalid transaction signature'')
              else None))"

definition ledger_ValidateTransaction :: "ext \<Rightarrow> transaction \<Rightarrow> ledger \<Rightarrow> err option" where
  "ledger_ValidateTransaction X tx l =
    (case ValidateTransactionVersion (tx_ProtocolVersion tx) (nc_TxVersion Localnet) of
       Some e \<Rightarrow> Some e
     | None \<Rightarrow>
     if tx_Coinbase tx then None
     else case ledger_tx_shape X tx of
       Some e \<Rightarrow> Some e
     | None \<Rightarrow>
     let account = get_or zero_account l (tx_From tx) in
     case Add (ac_Nonce account) 1 of
       Inl _ \<Rightarrow> Some (Err ''account nonce overflow'')
     | Inr expectedNonce \<Rightarrow>
         if tx_Nonce tx \<noteq> expectedNonce then Some (Err ''invalid account nonce: got %d want %d'')
         else case (if TxType tx = TxTypeTransfer then
                      (case Add (tx_Amount tx) (tx_Fee tx) of
                         Inl e \<Rightarrow> Some (Wrap ''transaction cost overflow'' e)
                       | Inr cost \<Rightarrow>
                           if ac_Balance account < cost then Some (Err ''insufficient balance'') else None)
                    else None) of
           Some e \<Rightarrow> Some e
         | None \<Rightarrow>
             if TxType tx = TxTypeStakeLock \<and> ac_Balance account < tx_Amount tx then
               Some (Err ''insufficient balance'')
             else None)"

definition ledger_ApplyTransaction :: "ext \<Rightarrow> transaction \<Rightarrow> ledger \<Rightarrow> err option \<times> ledger" where
  "ledger_ApplyTransaction X tx l =
    (case ledger_ValidateTransaction X tx l of
       Some e \<Rightarrow> (Some e, l)
     | None \<Rightarrow>
     let acct = get_or zero_account l (tx_From tx) in
     if TxType tx = TxTypeTransfer then
       let to = get_or zero_account l (tx_To tx) in
       case Add (tx_Amount tx) (tx_Fee tx) of
         Inl e \<Rightarrow> (Some (Wrap ''transaction cost overflow'' e), l)
       | Inr cost \<Rightarrow>
       (case Sub (ac_Balance acct) cost of
          Inl _ \<Rightarrow> (Some (Err ''insufficient balance''), l)
        | Inr balance \<Rightarrow>
        (case Add (ac_Balance to) (tx_Amount tx) of
           Inl e \<Rightarrow> (Some (Wrap ''recipient balance overflow'' e), l)
         | Inr toBalance \<Rightarrow>
             (None, fmupd (tx_To tx) (to\<lparr>ac_Balance := toBalance\<rparr>)
                (fmupd (tx_From tx) (acct\<lparr>ac_Balance := balance, ac_Nonce := tx_Nonce tx\<rparr>) l))))
     else (None, fmupd (tx_From tx) (acct\<lparr>ac_Nonce := tx_Nonce tx\<rparr>) l))"

text \<open>The loop of \<open>ApplyBlock\<close> with its coinbase counter.\<close>

fun ledger_block_loop :: "ext \<Rightarrow> nat \<Rightarrow> transaction list \<Rightarrow> ledger \<Rightarrow> err option \<times> ledger" where
  "ledger_block_loop X n [] l = (None, l)"
| "ledger_block_loop X n (tx # txs) l =
     (if tx_Coinbase tx then
        (if n + 1 > 1 then (Some (Err ''multiple coinbase transactions''), l)
         else case ledger_ApplyCoinbase tx l of
           (Some e, l') \<Rightarrow> (Some e, l')
         | (None, l') \<Rightarrow> ledger_block_loop X (n + 1) txs l')
      else case ledger_ApplyTransaction X tx l of
        (Some e, l') \<Rightarrow> (Some e, l')
      | (None, l') \<Rightarrow> ledger_block_loop X n txs l')"

definition ledger_ApplyBlock :: "ext \<Rightarrow> block \<Rightarrow> ledger \<Rightarrow> err option \<times> ledger" where
  "ledger_ApplyBlock X block l = ledger_block_loop X 0 (b_Transactions block) l"

definition ledger_Replay :: "ext \<Rightarrow> block list \<Rightarrow> err + ledger" where
  "ledger_Replay X blocks =
    (case run_steps (ledger_ApplyBlock X) blocks ledger_New of
       (Some e, _) \<Rightarrow> Inl e
     | (None, l) \<Rightarrow> Inr l)"

definition TotalSupplyWithProfile :: "block list \<Rightarrow> network_config \<Rightarrow> u64" where
  "TotalSupplyWithProfile blocks profile =
    fold (\<lambda>block acc.
      if b_Height block = 0 then acc
      else fold (\<lambda>tx acc.
          if \<not> tx_Coinbase tx then acc
          else if nc_TxVersion profile \<ge> TxVersionAsset then AddCap acc (tx_Amount tx)
          else AddCap acc InitialBlockReward)
        (b_Transactions block) acc) blocks 0"

definition TotalSupply :: "block list \<Rightarrow> u64" where
  "TotalSupply blocks = TotalSupplyWithProfile blocks Localnet"

section \<open>Correctness\<close>

lemma ledger_Clone_id [simp]: "ledger_Clone l = l" "ledger_Snapshot l = l"
  by (simp_all add: ledger_Clone_def ledger_Snapshot_def ledger_New_def)

text \<open>The sum of all balances.\<close>

definition ledger_supply :: "ledger \<Rightarrow> nat" where
  "ledger_supply l = fmsum (\<lambda>a. unat (ac_Balance a)) l"

lemma supply_upd:
  "ledger_supply (fmupd a v l) + unat (ac_Balance (get_or zero_account l a)) = ledger_supply l + unat (ac_Balance v)"
  unfolding ledger_supply_def
  by (rule fmsum_upd_or [of "\<lambda>a. unat (ac_Balance a)" zero_account]) (simp add: zero_account_def)

lemma ledger_ApplyTransaction_fail: "ledger_ApplyTransaction X tx l = (Some e, l') \<Longrightarrow> l' = l"
  by (auto simp: ledger_ApplyTransaction_def Let_def split: option.splits if_splits sum.splits)

lemma ledger_ApplyCoinbase_fail: "ledger_ApplyCoinbase tx l = (Some e, l') \<Longrightarrow> l' = l"
  by (auto simp: ledger_ApplyCoinbase_def Let_def split: option.splits if_splits sum.splits)

lemma ledger_ApplyTransaction_transfer:
  assumes "ledger_ApplyTransaction X tx l = (None, l')" and "TxType tx = TxTypeTransfer" and "\<not> tx_Coinbase tx"
  shows "tx_From tx \<noteq> tx_To tx"
    and "\<exists>b tb. unat b + unat (tx_Amount tx) + unat (tx_Fee tx) = unat (ledger_Balance l (tx_From tx))
      \<and> unat tb = unat (ledger_Balance l (tx_To tx)) + unat (tx_Amount tx)
      \<and> l' = fmupd (tx_To tx) ((get_or zero_account l (tx_To tx))\<lparr>ac_Balance := tb\<rparr>)
          (fmupd (tx_From tx) ((get_or zero_account l (tx_From tx))\<lparr>ac_Balance := b, ac_Nonce := tx_Nonce tx\<rparr>) l)"
proof -
  have v: "ledger_ValidateTransaction X tx l = None"
    using assms(1) by (simp add: ledger_ApplyTransaction_def split: option.splits)
  then have "ledger_tx_shape X tx = None"
    using assms(3) by (simp add: ledger_ValidateTransaction_def Let_def split: option.splits)
  then show "tx_From tx \<noteq> tx_To tx" using assms(2) by (auto simp: ledger_tx_shape_def split: if_splits)
  obtain cost b tb where "Add (tx_Amount tx) (tx_Fee tx) = Inr cost"
    "Sub (ledger_Balance l (tx_From tx)) cost = Inr b" "Add (ledger_Balance l (tx_To tx)) (tx_Amount tx) = Inr tb"
    and l': "l' = fmupd (tx_To tx) ((get_or zero_account l (tx_To tx))\<lparr>ac_Balance := tb\<rparr>)
          (fmupd (tx_From tx) ((get_or zero_account l (tx_From tx))\<lparr>ac_Balance := b, ac_Nonce := tx_Nonce tx\<rparr>) l)"
    using assms(1, 2) v
    by (auto simp: ledger_ApplyTransaction_def Let_def ledger_Balance_def split: sum.splits)
  then have "unat b + unat (tx_Amount tx) + unat (tx_Fee tx) = unat (ledger_Balance l (tx_From tx))"
    and "unat tb = unat (ledger_Balance l (tx_To tx)) + unat (tx_Amount tx)"
    by (simp_all add: arith_iff)
  with l' show "\<exists>b tb. unat b + unat (tx_Amount tx) + unat (tx_Fee tx) = unat (ledger_Balance l (tx_From tx))
      \<and> unat tb = unat (ledger_Balance l (tx_To tx)) + unat (tx_Amount tx)
      \<and> l' = fmupd (tx_To tx) ((get_or zero_account l (tx_To tx))\<lparr>ac_Balance := tb\<rparr>)
          (fmupd (tx_From tx) ((get_or zero_account l (tx_From tx))\<lparr>ac_Balance := b, ac_Nonce := tx_Nonce tx\<rparr>) l)"
    by blast
qed

lemma ledger_validate_nonce:
  assumes "ledger_ValidateTransaction X tx l = None" and "\<not> tx_Coinbase tx"
  shows "unat (tx_Nonce tx) = unat (ledger_Nonce l (tx_From tx)) + 1"
  using assms
  by (auto simp: ledger_ValidateTransaction_def Let_def ledger_Nonce_def Add_Inr_iff
      split: option.splits sum.splits if_splits)

lemma ledger_apply_nonce:
  assumes "ledger_ApplyTransaction X tx l = (None, l')" and "\<not> tx_Coinbase tx"
  shows "ledger_Nonce l' (tx_From tx) = tx_Nonce tx"
proof (cases "TxType tx = TxTypeTransfer")
  case True
  then show ?thesis using ledger_ApplyTransaction_transfer [OF assms(1) True assms(2)]
    by (auto simp: ledger_Nonce_def)
next
  case False
  then show ?thesis
    using assms(1) by (auto simp: ledger_ApplyTransaction_def Let_def ledger_Nonce_def split: option.splits)
qed

text \<open>
  No replay on the plain ledger: a transaction that was applied is rejected, with the ledger
  unchanged, when it is applied again.
\<close>

theorem ledger_no_replay:
  assumes "ledger_ApplyTransaction X tx l = (None, l')" and "\<not> tx_Coinbase tx"
  shows "\<exists>e. ledger_ApplyTransaction X tx l' = (Some e, l')"
proof (cases "ledger_ValidateTransaction X tx l'")
  case (Some e)
  then show ?thesis by (simp add: ledger_ApplyTransaction_def)
next
  case None
  then show ?thesis
    using ledger_validate_nonce [OF None assms(2)] ledger_apply_nonce [OF assms] by simp
qed

text \<open>Supply over a list of transactions: the coinbase amounts come in, the transfer fees go out.\<close>

definition minted :: "transaction list \<Rightarrow> nat" where
  "minted txs = (\<Sum>tx\<leftarrow>txs. if tx_Coinbase tx then unat (tx_Amount tx) else 0)"

definition burned :: "transaction list \<Rightarrow> nat" where
  "burned txs =
    (\<Sum>tx\<leftarrow>txs. if \<not> tx_Coinbase tx \<and> TxType tx = TxTypeTransfer then unat (tx_Fee tx) else 0)"

lemma supply_coinbase:
  assumes "ledger_ApplyCoinbase tx l = (None, l')"
  shows "ledger_supply l' = ledger_supply l + unat (tx_Amount tx)"
proof -
  obtain b where b: "unat b = unat (ac_Balance (get_or zero_account l (tx_To tx))) + unat (tx_Amount tx)"
    and l': "l' = fmupd (tx_To tx) ((get_or zero_account l (tx_To tx))\<lparr>ac_Balance := b\<rparr>) l"
    using assms by (auto simp: ledger_ApplyCoinbase_def Let_def Add_Inr_iff split: if_splits option.splits sum.splits)
  show ?thesis using supply_upd [of "tx_To tx" "(get_or zero_account l (tx_To tx))\<lparr>ac_Balance := b\<rparr>" l] b l' by simp
qed

lemma supply_transaction:
  assumes "ledger_ApplyTransaction X tx l = (None, l')" and "\<not> tx_Coinbase tx"
  shows "ledger_supply l' + (if TxType tx = TxTypeTransfer then unat (tx_Fee tx) else 0) = ledger_supply l"
proof (cases "TxType tx = TxTypeTransfer")
  case False
  then have "l' = fmupd (tx_From tx) ((get_or zero_account l (tx_From tx))\<lparr>ac_Nonce := tx_Nonce tx\<rparr>) l"
    using assms(1) by (auto simp: ledger_ApplyTransaction_def Let_def split: option.splits)
  then show ?thesis
    using False supply_upd [of "tx_From tx" "(get_or zero_account l (tx_From tx))\<lparr>ac_Nonce := tx_Nonce tx\<rparr>" l]
    by simp
next
  case True
  note T = ledger_ApplyTransaction_transfer [OF assms(1) True assms(2)]
  from T(2) obtain b tb where
    b: "unat b + unat (tx_Amount tx) + unat (tx_Fee tx) = unat (ac_Balance (get_or zero_account l (tx_From tx)))"
    and tb: "unat tb = unat (ac_Balance (get_or zero_account l (tx_To tx))) + unat (tx_Amount tx)"
    and l': "l' = fmupd (tx_To tx) ((get_or zero_account l (tx_To tx))\<lparr>ac_Balance := tb\<rparr>)
      (fmupd (tx_From tx) ((get_or zero_account l (tx_From tx))\<lparr>ac_Balance := b, ac_Nonce := tx_Nonce tx\<rparr>) l)"
    by (auto simp: ledger_Balance_def)
  let ?f = "(get_or zero_account l (tx_From tx))\<lparr>ac_Balance := b, ac_Nonce := tx_Nonce tx\<rparr>"
  let ?t = "(get_or zero_account l (tx_To tx))\<lparr>ac_Balance := tb\<rparr>"
  show ?thesis
    using supply_upd [of "tx_From tx" ?f l] supply_upd [of "tx_To tx" ?t "fmupd (tx_From tx) ?f l"]
      T(1) b tb l' True by simp
qed

lemma supply_block_loop:
  "ledger_block_loop X n txs l = (None, l') \<Longrightarrow> ledger_supply l' + burned txs = ledger_supply l + minted txs"
proof (induction txs arbitrary: n l)
  case (Cons tx txs)
  show ?case
  proof (cases "tx_Coinbase tx")
    case True
    with Cons.prems obtain l1 where c: "ledger_ApplyCoinbase tx l = (None, l1)"
      and r: "ledger_block_loop X (n + 1) txs l1 = (None, l')"
      by (auto split: prod.splits option.splits if_splits)
    show ?thesis using Cons.IH [OF r] supply_coinbase [OF c] True by (simp add: burned_def minted_def)
  next
    case False
    with Cons.prems obtain l1 where c: "ledger_ApplyTransaction X tx l = (None, l1)"
      and r: "ledger_block_loop X n txs l1 = (None, l')"
      by (auto split: prod.splits option.splits)
    show ?thesis using Cons.IH [OF r] supply_transaction [OF c False] False
      by (auto simp: burned_def minted_def)
  qed
qed (simp add: burned_def minted_def)

text \<open>
  Supply of the plain ledger: after a replay the sum of all balances and the fees of all
  transfers is exactly the sum of all coinbase amounts; no amount wraps around.
\<close>

theorem ledger_Replay_supply:
  assumes "ledger_Replay X blocks = Inr l"
  shows "ledger_supply l + burned (concat (map b_Transactions blocks)) = minted (concat (map b_Transactions blocks))"
proof -
  have "run_steps (ledger_ApplyBlock X) bs l0 = (None, l) \<Longrightarrow>
    ledger_supply l + burned (concat (map b_Transactions bs)) = ledger_supply l0 + minted (concat (map b_Transactions bs))" for bs l0
  proof (induction bs arbitrary: l0)
    case (Cons b bs)
    then obtain l1 where "ledger_ApplyBlock X b l0 = (None, l1)" "run_steps (ledger_ApplyBlock X) bs l1 = (None, l)"
      by (auto split: prod.splits option.splits)
    with Cons.IH supply_block_loop [of X 0 "b_Transactions b" l0 l1] show ?case
      by (fastforce simp: ledger_ApplyBlock_def burned_def minted_def)
  qed (simp add: burned_def minted_def)
  then show ?thesis
    using assms by (auto simp: ledger_Replay_def ledger_supply_def ledger_New_def split: prod.splits option.splits)
qed

end
