(* ===== verification/Staking.thy ===== *)
theory Staking
  imports Block Arith
begin

text \<open>
  Package \<open>staking\<close>: the stake records and their life cycle active, unlocking, released. Methods that
  read through \<open>RefreshReleased\<close> change the receiver, so they return the state as well. Main results:
  the totals are the capped sums of the records, a stake moves only forward through its life cycle
  with owner and amount fixed, and no stake is released before its unbonding period has passed.
\<close>

definition StatusActive :: string where "StatusActive = ''active''"
definition StatusUnlocking :: string where "StatusUnlocking = ''unlocking''"
definition StatusReleased :: string where "StatusReleased = ''released''"

record stake_record =
  sr_StakeID :: string
  sr_OwnerAddress :: string
  sr_Amount :: u64
  sr_LockTxID :: string
  sr_LockHeight :: u64
  sr_UnlockTxID :: string
  sr_UnlockHeight :: u64
  sr_ReleaseHeight :: u64
  sr_Status :: string

record stake_state =
  ss_params :: staking_params
  ss_records :: "(string, stake_record) fmap"

record stake_summary =
  sm_TotalActiveStake :: u64
  sm_TotalUnlockingStake :: u64
  sm_TotalReleasedStake :: u64
  sm_ActiveStakeCount :: nat

definition NewStakeState :: "staking_params \<Rightarrow> stake_state" where
  "NewStakeState params = \<lparr>ss_params = params, ss_records = fmempty\<rparr>"

definition release_record :: "u64 \<Rightarrow> stake_record \<Rightarrow> stake_record" where
  "release_record currentHeight r =
    (if sr_Status r = StatusUnlocking \<and> currentHeight \<ge> sr_ReleaseHeight r
     then r\<lparr>sr_Status := StatusReleased\<rparr> else r)"

definition RefreshReleased :: "u64 \<Rightarrow> stake_state \<Rightarrow> stake_state" where
  "RefreshReleased currentHeight s =
    s\<lparr>ss_records := fmmap (release_record currentHeight) (ss_records s)\<rparr>"

definition ActiveCount :: "string \<Rightarrow> stake_state \<Rightarrow> nat" where
  "ActiveCount address s =
    range_fm (\<lambda>_ r count.
        if sr_OwnerAddress r = address \<and> sr_Status r = StatusActive then count + 1 else count)
      (ss_records s) 0"

definition ApplyLock :: "transaction \<Rightarrow> u64 \<Rightarrow> stake_state \<Rightarrow> err option \<times> stake_state" where
  "ApplyLock tx height s =
    (if \<not> sp_Enabled (ss_params s) then (Some (Err ''staking disabled''), s)
     else if tx_Amount tx < sp_MinStakeAmount (ss_params s) then
       (Some (Err ''invalid stake lock: amount below minimum''), s)
     else let stakeID = (if tx_StakeID tx = [] then tx_ID tx else tx_StakeID tx) in
     if fmlookup (ss_records s) stakeID \<noteq> None then
       (Some (Err ''invalid stake lock: duplicate stake id''), s)
     else if int (ActiveCount (tx_From tx) s) \<ge> sp_MaxActiveStakesPerAddress (ss_params s)
         \<and> sp_MaxActiveStakesPerAddress (ss_params s) > 0 then
       (Some (Err ''invalid stake lock: max active stakes reached''), s)
     else (None, s\<lparr>ss_records := fmupd stakeID
            \<lparr>sr_StakeID = stakeID, sr_OwnerAddress = tx_From tx, sr_Amount = tx_Amount tx,
             sr_LockTxID = tx_ID tx, sr_LockHeight = height, sr_UnlockTxID = [], sr_UnlockHeight = 0,
             sr_ReleaseHeight = 0, sr_Status = StatusActive\<rparr> (ss_records s)\<rparr>))"

definition ApplyUnlock :: "transaction \<Rightarrow> u64 \<Rightarrow> stake_state \<Rightarrow> err option \<times> stake_state" where
  "ApplyUnlock tx height s =
    (if \<not> sp_Enabled (ss_params s) then (Some (Err ''staking disabled''), s)
     else case fmlookup (ss_records s) (tx_StakeID tx) of
       None \<Rightarrow> (Some (Err ''invalid stake unlock: stake not found''), s)
     | Some r \<Rightarrow>
         if sr_OwnerAddress r \<noteq> tx_From tx then
           (Some (Err ''invalid stake unlock: owner mismatch''), s)
         else if sr_Status r \<noteq> StatusActive then
           (Some (Err ''invalid stake unlock: stake %s''), s)
         else case Add height (sp_UnbondingPeriodBlocks (ss_params s)) of
           Inl _ \<Rightarrow> (Some (Err ''invalid stake unlock: release height overflow''), s)
         | Inr releaseHeight \<Rightarrow>
             (None, s\<lparr>ss_records := fmupd (tx_StakeID tx)
                (r\<lparr>sr_Status := StatusUnlocking, sr_UnlockTxID := tx_ID tx, sr_UnlockHeight := height,
                   sr_ReleaseHeight := releaseHeight\<rparr>) (ss_records s)\<rparr>))"

definition stake_block_step :: "u64 \<Rightarrow> transaction \<Rightarrow> stake_state \<Rightarrow> err option \<times> stake_state" where
  "stake_block_step height tx s =
    (if TxType tx = TxTypeStakeLock then ApplyLock tx height s
     else if TxType tx = TxTypeStakeUnlock then ApplyUnlock tx height s
     else (None, s))"

definition staking_ApplyBlock :: "block \<Rightarrow> stake_state \<Rightarrow> err option \<times> stake_state" where
  "staking_ApplyBlock block s =
    (case run_steps (stake_block_step (b_Height block)) (b_Transactions block)
            (RefreshReleased (b_Height block) s) of
       (Some e, s') \<Rightarrow> (Some e, s')
     | (None, s') \<Rightarrow> (None, RefreshReleased (b_Height block) s'))"

definition staking_Replay :: "block list \<Rightarrow> staking_params \<Rightarrow> err + stake_state" where
  "staking_Replay blocks params =
    (case run_steps staking_ApplyBlock blocks (NewStakeState params) of
       (Some e, _) \<Rightarrow> Inl e
     | (None, s) \<Rightarrow>
         Inr (if blocks \<noteq> [] then RefreshReleased (b_Height (last blocks)) s else s))"

definition ApplyRecord :: "stake_record \<Rightarrow> stake_state \<Rightarrow> stake_state" where
  "ApplyRecord r s = s\<lparr>ss_records := fmupd (sr_StakeID r) r (ss_records s)\<rparr>"

definition Records :: "u64 \<Rightarrow> stake_state \<Rightarrow> stake_record list \<times> stake_state" where
  "Records currentHeight s =
    (let s' = RefreshReleased currentHeight s in (map snd (sorted_list_of_fmap (ss_records s')), s'))"

definition stake_Find :: "string \<Rightarrow> u64 \<Rightarrow> stake_state \<Rightarrow> stake_record option \<times> stake_state" where
  "stake_Find ident currentHeight s =
    (let s' = RefreshReleased currentHeight s in (fmlookup (ss_records s') ident, s'))"

text \<open>The loop of \<open>AddressSummary\<close> with the three named results as its accumulator.\<close>

definition summary_step :: "string \<Rightarrow> stake_record \<Rightarrow> u64 \<times> u64 \<times> u64 \<Rightarrow> u64 \<times> u64 \<times> u64" where
  "summary_step address r = (\<lambda>(active, unlocking, released).
    if sr_OwnerAddress r \<noteq> address then (active, unlocking, released)
    else if sr_Status r = StatusActive then (AddCap active (sr_Amount r), unlocking, released)
    else if sr_Status r = StatusUnlocking then (active, AddCap unlocking (sr_Amount r), released)
    else if sr_Status r = StatusReleased then (active, unlocking, AddCap released (sr_Amount r))
    else (active, unlocking, released))"

definition AddressSummary :: "string \<Rightarrow> u64 \<Rightarrow> stake_state \<Rightarrow> (u64 \<times> u64 \<times> u64) \<times> stake_state" where
  "AddressSummary address currentHeight s =
    (let s' = RefreshReleased currentHeight s in
     (range_fm (\<lambda>_. summary_step address) (ss_records s') (0, 0, 0), s'))"

definition total_step :: "stake_record \<Rightarrow> stake_summary \<Rightarrow> stake_summary" where
  "total_step r m =
    (if sr_Status r = StatusActive then
       m\<lparr>sm_TotalActiveStake := AddCap (sm_TotalActiveStake m) (sr_Amount r),
         sm_ActiveStakeCount := sm_ActiveStakeCount m + 1\<rparr>
     else if sr_Status r = StatusUnlocking then
       m\<lparr>sm_TotalUnlockingStake := AddCap (sm_TotalUnlockingStake m) (sr_Amount r)\<rparr>
     else if sr_Status r = StatusReleased then
       m\<lparr>sm_TotalReleasedStake := AddCap (sm_TotalReleasedStake m) (sr_Amount r)\<rparr>
     else m)"

definition Summary :: "u64 \<Rightarrow> stake_state \<Rightarrow> stake_summary \<times> stake_state" where
  "Summary currentHeight s =
    (let s' = RefreshReleased currentHeight s in
     (range_fm (\<lambda>_. total_step) (ss_records s')
        \<lparr>sm_TotalActiveStake = 0, sm_TotalUnlockingStake = 0, sm_TotalReleasedStake = 0,
         sm_ActiveStakeCount = 0\<rparr>, s'))"

definition PendingStakeLock :: "transaction list \<Rightarrow> string \<Rightarrow> u64" where
  "PendingStakeLock txs address =
    fold (\<lambda>tx acc. if TxType tx = TxTypeStakeLock \<and> tx_From tx = address
                   then AddCap acc (tx_Amount tx) else acc) txs 0"

definition PendingUnlockIDs :: "transaction list \<Rightarrow> string \<Rightarrow> string set" where
  "PendingUnlockIDs txs address =
    fold (\<lambda>tx out. if TxType tx = TxTypeStakeUnlock \<and> tx_From tx = address
                   then insert (tx_StakeID tx) out else out) txs {}"

section \<open>Map order does not matter\<close>

lemma status_distinct [simp]:
  "StatusActive \<noteq> StatusUnlocking" "StatusUnlocking \<noteq> StatusActive"
  "StatusActive \<noteq> StatusReleased" "StatusReleased \<noteq> StatusActive"
  "StatusUnlocking \<noteq> StatusReleased" "StatusReleased \<noteq> StatusUnlocking"
  by (simp_all add: StatusActive_def StatusUnlocking_def StatusReleased_def)

interpretation summary_loop: range_fold "\<lambda>(_ :: string). summary_step address" for address
  by unfold_locales (auto simp: summary_step_def AddCap_left_commute split: prod.splits)

interpretation total_loop: range_fold "\<lambda>(_ :: string). total_step"
  by unfold_locales (simp add: total_step_def AddCap_left_commute)

interpretation count_loop: range_fold "\<lambda>(_ :: string) r (count :: nat).
    if sr_OwnerAddress r = address \<and> sr_Status r = StatusActive then count + 1 else count" for address
  by unfold_locales simp

section \<open>Totals\<close>

text \<open>The stake of an owner in a status, as a sum.\<close>

definition staked :: "string \<Rightarrow> string \<Rightarrow> stake_state \<Rightarrow> nat" where
  "staked status owner s =
    fmsum (\<lambda>r. if sr_OwnerAddress r = owner \<and> sr_Status r = status then unat (sr_Amount r) else 0)
      (ss_records s)"

definition locked :: "string \<Rightarrow> stake_state \<Rightarrow> nat" where
  "locked owner s = staked StatusActive owner s + staked StatusUnlocking owner s"

lemma fold_summary:
  "fold (\<lambda>kv. summary_step owner (snd kv)) kvs (a, u, r) =
   (fold (\<lambda>kv x. AddCap x (if sr_OwnerAddress (snd kv) = owner \<and> sr_Status (snd kv) = StatusActive
                            then sr_Amount (snd kv) else 0)) kvs a,
    fold (\<lambda>kv x. AddCap x (if sr_OwnerAddress (snd kv) = owner \<and> sr_Status (snd kv) = StatusUnlocking
                            then sr_Amount (snd kv) else 0)) kvs u,
    fold (\<lambda>kv x. AddCap x (if sr_OwnerAddress (snd kv) = owner \<and> sr_Status (snd kv) = StatusReleased
                            then sr_Amount (snd kv) else 0)) kvs r)"
  by (induction kvs arbitrary: a u r) (auto simp: summary_step_def)

lemma unat_if_0: "unat (if b then x else 0) = (if b then unat x else 0)"
  by simp

lemma range_summary:
  "range_fm (\<lambda>_. summary_step owner) (ss_records s) (0, 0, 0) = (a, u, r) \<Longrightarrow>
   unat a = min (2 ^ 64 - 1) (staked StatusActive owner s)
   \<and> unat u = min (2 ^ 64 - 1) (staked StatusUnlocking owner s)
   \<and> unat r = min (2 ^ 64 - 1) (staked StatusReleased owner s)"
proof -
  assume "range_fm (\<lambda>_. summary_step owner) (ss_records s) (0, 0, 0) = (a, u, r)"
  then have "fold (\<lambda>kv. summary_step owner (snd kv)) (sorted_list_of_fmap (ss_records s)) (0, 0, 0) = (a, u, r)"
    by (simp add: range_fm_def case_prod_beta')
  then show ?thesis
    by (auto simp: fold_summary unat_fold_AddCap unat_if_0 staked_def
        simp flip: sum_list_sorted_list_of_fmap)
qed

text \<open>The locked total the ledger computes from a summary: exact, or an overflow error.\<close>

lemma locked_exact:
  assumes "AddressSummary owner h s = ((a, u, r), s')" and "Add a u = Inr l"
    and "unat l < 2 ^ 64 - 1"
  shows "unat l = locked owner s'"
  using assms range_summary [of owner s' a u r]
  by (auto simp: AddressSummary_def Let_def Add_Inr_iff locked_def)

lemma locked_upper:
  assumes "AddressSummary owner h s = ((a, u, r), s')" and "Add a u = Inr l"
    and "unat l + n \<le> 2 ^ 64 - 1" and "0 < n"
  shows "unat l = locked owner s'"
  by (rule locked_exact [OF assms(1, 2)]) (use assms(3, 4) in linarith)

section \<open>Refreshing\<close>

lemma RefreshReleased_params [simp]: "ss_params (RefreshReleased h s) = ss_params s"
  by (simp add: RefreshReleased_def)

lemma lookup_Refresh [simp]:
  "fmlookup (ss_records (RefreshReleased h s)) k = map_option (release_record h) (fmlookup (ss_records s) k)"
  by (simp add: RefreshReleased_def)

lemma release_record_fields [simp]:
  "sr_StakeID (release_record h r) = sr_StakeID r"
  "sr_OwnerAddress (release_record h r) = sr_OwnerAddress r"
  "sr_Amount (release_record h r) = sr_Amount r"
  "sr_LockHeight (release_record h r) = sr_LockHeight r"
  "sr_UnlockHeight (release_record h r) = sr_UnlockHeight r"
  "sr_ReleaseHeight (release_record h r) = sr_ReleaseHeight r"
  by (simp_all add: release_record_def)

lemma release_record_idem: "h \<le> h' \<Longrightarrow> release_record h' (release_record h r) = release_record h' r"
  by (auto simp: release_record_def)

lemma Refresh_Refresh: "h \<le> h' \<Longrightarrow> RefreshReleased h' (RefreshReleased h s) = RefreshReleased h' s"
  by (simp add: RefreshReleased_def release_record_idem fmap.map_comp o_def)

lemma locked_Refresh_le: "locked owner (RefreshReleased h s) \<le> locked owner s"
  unfolding locked_def staked_def RefreshReleased_def
  by (simp add: fmsum_fmmap flip: fmsum_add, rule fmsum_mono) (simp add: release_record_def)

lemma active_Refresh: "staked StatusActive owner (RefreshReleased h s) = staked StatusActive owner s"
  unfolding staked_def RefreshReleased_def
  by (simp add: fmsum_fmmap o_def release_record_def cong: if_cong)
     (rule arg_cong [where f = "\<lambda>f. fmsum f _"], auto)

section \<open>Life cycle\<close>

text \<open>
  The steps of the stake state machine, each at a block height, as the ledger drives it: a lock, an
  unlock or a refresh at a height that never decreases.
\<close>

inductive stake_reach :: "staking_params \<Rightarrow> u64 \<Rightarrow> stake_state \<Rightarrow> bool" for params where
  init: "stake_reach params 0 (NewStakeState params)"
| lock: "stake_reach params h s \<Longrightarrow> h \<le> h' \<Longrightarrow> ApplyLock tx h' s = (None, s') \<Longrightarrow> stake_reach params h' s'"
| unlock: "stake_reach params h s \<Longrightarrow> h \<le> h' \<Longrightarrow> ApplyUnlock tx h' s = (None, s') \<Longrightarrow> stake_reach params h' s'"
| refresh: "stake_reach params h s \<Longrightarrow> h \<le> h' \<Longrightarrow> stake_reach params h' (RefreshReleased h' s)"

lemma ApplyLock_ok:
  assumes "ApplyLock tx h s = (None, s')"
  shows "let k = (if tx_StakeID tx = [] then tx_ID tx else tx_StakeID tx) in
    fmlookup (ss_records s) k = None \<and> sp_MinStakeAmount (ss_params s) \<le> tx_Amount tx
    \<and> s' = s\<lparr>ss_records := fmupd k
            \<lparr>sr_StakeID = k, sr_OwnerAddress = tx_From tx, sr_Amount = tx_Amount tx,
             sr_LockTxID = tx_ID tx, sr_LockHeight = h, sr_UnlockTxID = [], sr_UnlockHeight = 0,
             sr_ReleaseHeight = 0, sr_Status = StatusActive\<rparr> (ss_records s)\<rparr>"
  using assms by (auto simp: ApplyLock_def Let_def not_less split: if_splits)

lemma ApplyLock_fail: "ApplyLock tx h s = (Some e, s') \<Longrightarrow> s' = s"
  by (auto simp: ApplyLock_def Let_def split: if_splits)

lemma ApplyUnlock_ok:
  assumes "ApplyUnlock tx h s = (None, s')"
  shows "\<exists>r v. fmlookup (ss_records s) (tx_StakeID tx) = Some r \<and> sr_OwnerAddress r = tx_From tx
    \<and> sr_Status r = StatusActive
    \<and> unat v = unat h + unat (sp_UnbondingPeriodBlocks (ss_params s))
    \<and> s' = s\<lparr>ss_records := fmupd (tx_StakeID tx)
                (r\<lparr>sr_Status := StatusUnlocking, sr_UnlockTxID := tx_ID tx, sr_UnlockHeight := h,
                   sr_ReleaseHeight := v\<rparr>) (ss_records s)\<rparr>"
  using assms by (auto simp: ApplyUnlock_def Add_Inr_iff split: if_splits option.splits sum.splits)

lemma ApplyUnlock_fail: "ApplyUnlock tx h s = (Some e, s') \<Longrightarrow> s' = s"
  by (auto simp: ApplyUnlock_def split: if_splits option.splits sum.splits)

text \<open>What a record of a reachable state looks like at a height.\<close>

definition record_ok :: "staking_params \<Rightarrow> u64 \<Rightarrow> string \<Rightarrow> stake_record \<Rightarrow> bool" where
  "record_ok params h k r \<longleftrightarrow>
     sr_StakeID r = k \<and> sp_MinStakeAmount params \<le> sr_Amount r \<and> sr_LockHeight r \<le> h
     \<and> (sr_Status r = StatusActive
        \<or> sr_Status r \<in> {StatusUnlocking, StatusReleased}
          \<and> sr_LockHeight r \<le> sr_UnlockHeight r \<and> sr_UnlockHeight r \<le> h
          \<and> unat (sr_ReleaseHeight r) = unat (sr_UnlockHeight r) + unat (sp_UnbondingPeriodBlocks params)
          \<and> (sr_Status r = StatusReleased \<longrightarrow> sr_ReleaseHeight r \<le> h))"

lemma record_ok_mono: "record_ok params h k r \<Longrightarrow> h \<le> h' \<Longrightarrow> record_ok params h' k r"
  by (auto simp: record_ok_def)

lemma record_ok_release: "record_ok params h k r \<Longrightarrow> h \<le> h' \<Longrightarrow> record_ok params h' k (release_record h' r)"
  using record_ok_mono [of params h k r h'] by (auto simp: record_ok_def release_record_def)

lemma reach_params: "stake_reach params h s \<Longrightarrow> ss_params s = params"
proof (induction rule: stake_reach.induct)
  case (lock h s h' tx s')
  then show ?case using ApplyLock_ok [of tx h' s s'] by (auto simp: Let_def)
next
  case (unlock h s h' tx s')
  then show ?case using ApplyUnlock_ok [of tx h' s s'] by auto
qed (simp_all add: NewStakeState_def)

lemma reach_record_ok:
  "stake_reach params h s \<Longrightarrow> fmlookup (ss_records s) k = Some r \<Longrightarrow> record_ok params h k r"
proof (induction arbitrary: k r rule: stake_reach.induct)
  case init
  then show ?case by (simp add: NewStakeState_def)
next
  case (lock h s h' tx s')
  then show ?case
    using ApplyLock_ok [of tx h' s s'] reach_params [of params h s] record_ok_mono [of params h k r h']
    by (auto simp: Let_def record_ok_def split: if_splits)
next
  case (unlock h s h' tx s')
  obtain q v where q: "fmlookup (ss_records s) (tx_StakeID tx) = Some q"
    and v: "unat v = unat h' + unat (sp_UnbondingPeriodBlocks (ss_params s))"
    and s': "s' = s\<lparr>ss_records := fmupd (tx_StakeID tx)
                (q\<lparr>sr_Status := StatusUnlocking, sr_UnlockTxID := tx_ID tx, sr_UnlockHeight := h',
                   sr_ReleaseHeight := v\<rparr>) (ss_records s)\<rparr>"
    using ApplyUnlock_ok [OF unlock.hyps(3)] by blast
  have "record_ok params h' (tx_StakeID tx) q"
    using unlock.IH [OF q] unlock.hyps(2) by (rule record_ok_mono)
  then have "record_ok params h' (tx_StakeID tx)
      (q\<lparr>sr_Status := StatusUnlocking, sr_UnlockTxID := tx_ID tx, sr_UnlockHeight := h',
         sr_ReleaseHeight := v\<rparr>)"
    using v reach_params [OF unlock.hyps(1)] by (auto simp: record_ok_def)
  then show ?case
    using unlock.prems s' unlock.IH [of k r] record_ok_mono [OF _ unlock.hyps(2)]
    by (auto split: if_splits)
next
  case (refresh h s h')
  then obtain q where "fmlookup (ss_records s) k = Some q" "r = release_record h' q" by auto
  then show ?case using refresh.IH refresh.hyps(2) record_ok_release by blast
qed

text \<open>
  C14. No early release: in every state that locks, unlocks and refreshes at non-decreasing heights
  can build, a released stake was unlocked at some height after its lock, its release height is
  that height plus the unbonding period without wrap-around, and the current height has reached it.
\<close>

theorem no_early_release:
  assumes "stake_reach params h s" and "fmlookup (ss_records s) k = Some r"
    and "sr_Status r = StatusReleased"
  shows "sr_LockHeight r \<le> sr_UnlockHeight r
    \<and> unat (sr_UnlockHeight r) + unat (sp_UnbondingPeriodBlocks params) \<le> unat h
    \<and> sp_MinStakeAmount params \<le> sr_Amount r"
proof -
  have "record_ok params h k r" by (rule reach_record_ok [OF assms(1, 2)])
  then show ?thesis using assms(3) by (auto simp: record_ok_def word_le_nat_alt)
qed

text \<open>The stages of the life cycle, and how one step may change a record.\<close>

definition stage :: "stake_record \<Rightarrow> nat" where
  "stage r = (if sr_Status r = StatusActive then 0 else if sr_Status r = StatusUnlocking then 1 else 2)"

definition record_moves :: "stake_record \<Rightarrow> stake_record \<Rightarrow> bool" where
  "record_moves r r' \<longleftrightarrow>
     sr_StakeID r' = sr_StakeID r \<and> sr_OwnerAddress r' = sr_OwnerAddress r \<and> sr_Amount r' = sr_Amount r
     \<and> sr_LockHeight r' = sr_LockHeight r \<and> stage r \<le> stage r'"

lemma record_moves_refl: "record_moves r r"
  by (simp add: record_moves_def)

lemma record_moves_release: "record_moves r (release_record h r)"
  by (auto simp: record_moves_def stage_def release_record_def)

lemma record_moves_trans: "record_moves a b \<Longrightarrow> record_moves b c \<Longrightarrow> record_moves a c"
  by (auto simp: record_moves_def)

lemma ApplyLock_moves:
  assumes "fmlookup (ss_records s) k = Some r"
  shows "fmlookup (ss_records (snd (ApplyLock tx h s))) k = Some r"
proof (cases "ApplyLock tx h s")
  case (Pair e s')
  show ?thesis
  proof (cases e)
    case None
    then obtain j v where "fmlookup (ss_records s) j = None" "s' = s\<lparr>ss_records := fmupd j v (ss_records s)\<rparr>"
      using Pair ApplyLock_ok [of tx h s s'] unfolding Let_def by blast
    with Pair assms show ?thesis by (cases "j = k") simp_all
  next
    case (Some x)
    with Pair ApplyLock_fail [of tx h s x s'] assms show ?thesis by simp
  qed
qed

lemma ApplyUnlock_moves:
  assumes "fmlookup (ss_records s) k = Some r"
  shows "\<exists>r'. fmlookup (ss_records (snd (ApplyUnlock tx h s))) k = Some r' \<and> record_moves r r'"
proof (cases "ApplyUnlock tx h s")
  case (Pair e s')
  show ?thesis
  proof (cases e)
    case None
    then obtain q v where q: "fmlookup (ss_records s) (tx_StakeID tx) = Some q" "sr_Status q = StatusActive"
      and s': "s' = s\<lparr>ss_records := fmupd (tx_StakeID tx)
                (q\<lparr>sr_Status := StatusUnlocking, sr_UnlockTxID := tx_ID tx, sr_UnlockHeight := h,
                   sr_ReleaseHeight := v\<rparr>) (ss_records s)\<rparr>"
      using ApplyUnlock_ok Pair by blast
    show ?thesis
    proof (cases "tx_StakeID tx = k")
      case True
      then show ?thesis using Pair q s' assms by (simp add: record_moves_def stage_def)
    next
      case False
      then show ?thesis using Pair s' assms record_moves_refl by simp
    qed
  next
    case (Some x)
    with Pair ApplyUnlock_fail [of tx h s x s'] assms record_moves_refl show ?thesis by simp
  qed
qed

lemma stake_block_step_moves:
  assumes "fmlookup (ss_records s) k = Some r"
  shows "\<exists>r'. fmlookup (ss_records (snd (stake_block_step h tx s))) k = Some r' \<and> record_moves r r'"
  using assms ApplyLock_moves [OF assms, of tx h] ApplyUnlock_moves [OF assms, of tx h] record_moves_refl
  unfolding stake_block_step_def by (simp split: if_split)

interpretation stake_run: kept_by_steps "stake_block_step h"
    "\<lambda>s. \<exists>r'. fmlookup (ss_records s) k = Some r' \<and> record_moves r r'" for h k r
proof
  fix s :: stake_state and x
  assume "\<exists>r'. fmlookup (ss_records s) k = Some r' \<and> record_moves r r'"
  then show "\<exists>r'. fmlookup (ss_records (snd (stake_block_step h x s))) k = Some r' \<and> record_moves r r'"
    using stake_block_step_moves record_moves_trans by blast
qed

text \<open>
  C15. A block never loses or rewrites a stake: after \<open>ApplyBlock\<close>, successful or not, every stake
  that was recorded is still recorded under its identifier with the same owner, amount and lock
  height, and its status has not moved backwards.
\<close>

theorem staking_ApplyBlock_keeps:
  assumes "fmlookup (ss_records s) k = Some r"
  shows "\<exists>r'. fmlookup (ss_records (snd (staking_ApplyBlock block s))) k = Some r' \<and> record_moves r r'"
proof -
  let ?h = "b_Height block"
  let ?run = "run_steps (stake_block_step ?h) (b_Transactions block) (RefreshReleased ?h s)"
  have "\<exists>r'. fmlookup (ss_records (snd ?run)) k = Some r' \<and> record_moves r r'"
    using assms record_moves_release by (intro stake_run.run_kept) auto
  then obtain r' where "fmlookup (ss_records (snd ?run)) k = Some r'" "record_moves r r'" by blast
  then show ?thesis
    using record_moves_trans record_moves_release
    by (cases ?run; cases "fst ?run") (auto simp: staking_ApplyBlock_def)
qed

end
