(* ===== verification/Asset_State.thy ===== *)
theory Asset_State
  imports Asset_Model
begin

text \<open>
  \<open>asset/state.go\<close>: the asset definitions and the balances per address and asset. A method returns
  its error and the state it leaves. Main results: every balance operation changes one balance by
  exactly its amount or fails and changes nothing that can be read, a transfer conserves and
  restores, mint and burn move the total supply with the balances, and the sum of the balances of an
  issued asset is its total supply in every state the operations build.
\<close>

definition FeeCollectorAddress :: string where
  "FeeCollectorAddress = ''__INDOCHAIN_FEE_POOL__''"

definition ErrAssetNotFound :: err where "ErrAssetNotFound = Err ''asset not found''"
definition ErrAssetExists :: err where "ErrAssetExists = Err ''asset already exists''"
definition ErrUnauthorized :: err where "ErrUnauthorized = Err ''asset operation unauthorized''"
definition ErrInsufficientBalance :: err where
  "ErrInsufficientBalance = Err ''insufficient asset balance''"
definition ErrAssetFrozen :: err where "ErrAssetFrozen = Err ''asset is frozen''"

record balance_entry =
  be_Address :: string
  be_AssetID :: string
  be_Amount :: u64

record asset_state =
  as_assets :: "(string, asset_definition) fmap"
  as_balances :: "(string, (string, u64) fmap) fmap"

definition native_definition :: asset_definition where
  "native_definition =
    \<lparr>def_ID = NativeAssetID, def_Name = NativeAssetSymbol, def_Symbol = NativeAssetSymbol,
     def_Decimals = NativeAssetDecimals, def_Kind = KindFungible, def_Issuer = ''protocol'',
     def_MaxSupply = 0, def_TotalSupply = 0, def_Mintable = False, def_Burnable = False,
     def_Pausable = False, def_Permissioned = False, def_Status = StatusAssetActive\<rparr>"

definition NewAssetState :: asset_state where
  "NewAssetState =
    \<lparr>as_assets = fmupd NativeAssetID native_definition fmempty, as_balances = fmempty\<rparr>"

text \<open>\<open>Definitions\<close>: the values of the map sorted by their identifier.\<close>

definition Definitions :: "asset_state \<Rightarrow> asset_definition list" where
  "Definitions s = sort_key def_ID (map snd (sorted_list_of_fmap (as_assets s)))"

text \<open>\<open>Balances\<close>: the non-zero balances, by address and then by asset.\<close>

definition Balances :: "asset_state \<Rightarrow> balance_entry list" where
  "Balances s =
    concat (map (\<lambda>(address, assets).
        map (\<lambda>(assetID, amount). \<lparr>be_Address = address, be_AssetID = assetID, be_Amount = amount\<rparr>)
          (filter (\<lambda>(assetID, amount). amount \<noteq> 0) (sorted_list_of_fmap assets)))
      (sorted_list_of_fmap (as_balances s)))"

definition asset_Balance :: "asset_state \<Rightarrow> string \<Rightarrow> string \<Rightarrow> u64" where
  "asset_Balance s address assetID =
    (case fmlookup (as_balances s) address of None \<Rightarrow> 0 | Some assets \<Rightarrow> get_or 0 assets assetID)"

definition asset_Definition :: "asset_state \<Rightarrow> string \<Rightarrow> asset_definition option" where
  "asset_Definition s assetID = fmlookup (as_assets s) assetID"

text \<open>\<open>addBalance\<close> creates the inner map of a new address before it can fail.\<close>

definition addBalance :: "string \<Rightarrow> string \<Rightarrow> u64 \<Rightarrow> asset_state \<Rightarrow> err option \<times> asset_state" where
  "addBalance address assetID amount s =
    (if amount = 0 then (None, s)
     else let assets = get_or fmempty (as_balances s) address;
              s1 = (if fmlookup (as_balances s) address = None
                    then s\<lparr>as_balances := fmupd address fmempty (as_balances s)\<rparr> else s) in
          case Add (get_or 0 assets assetID) amount of
            Inl e \<Rightarrow> (Some (Wrap ''asset balance overflow'' e), s1)
          | Inr next \<Rightarrow>
              (None, s1\<lparr>as_balances := fmupd address (fmupd assetID next assets) (as_balances s1)\<rparr>))"

definition subtractBalance :: "string \<Rightarrow> string \<Rightarrow> u64 \<Rightarrow> asset_state \<Rightarrow> err option \<times> asset_state" where
  "subtractBalance address assetID amount s =
    (if amount = 0 then (None, s)
     else case fmlookup (as_balances s) address of
            None \<Rightarrow> (Some ErrInsufficientBalance, s)
          | Some assets \<Rightarrow>
              (case Sub (get_or 0 assets assetID) amount of
                 Inl _ \<Rightarrow> (Some ErrInsufficientBalance, s)
               | Inr next \<Rightarrow>
                   (None, s\<lparr>as_balances := fmupd address (fmupd assetID next assets) (as_balances s)\<rparr>)))"

definition Credit :: "string \<Rightarrow> string \<Rightarrow> u64 \<Rightarrow> asset_state \<Rightarrow> err option \<times> asset_state" where
  "Credit address assetID amount s =
    (if TrimSpace address = [] then (Some (Err ''asset balance address is required''), s)
     else if fmlookup (as_assets s) assetID = None then (Some ErrAssetNotFound, s)
     else addBalance address assetID amount s)"

definition Debit :: "string \<Rightarrow> string \<Rightarrow> u64 \<Rightarrow> asset_state \<Rightarrow> err option \<times> asset_state" where
  "Debit address assetID amount s =
    (if fmlookup (as_assets s) assetID = None then (Some ErrAssetNotFound, s)
     else subtractBalance address assetID amount s)"

text \<open>\<open>Clone\<close> copies the definitions over a new state and every inner balance map.\<close>

definition asset_Clone :: "asset_state \<Rightarrow> asset_state" where
  "asset_Clone s =
    \<lparr>as_assets = range_fm fmupd (as_assets s) (as_assets NewAssetState),
     as_balances = range_fm (\<lambda>address assets. fmupd address (range_fm fmupd assets fmempty))
       (as_balances s) fmempty\<rparr>"

definition Create :: "asset_definition \<Rightarrow> asset_state \<Rightarrow> err option \<times> asset_state" where
  "Create d s =
    (if def_ID d = [] then (Some (Err ''asset id is required''), s)
     else if IsNative (def_ID d) then
       (Some (Err ''native dIDR cannot be recreated as an issued asset''), s)
     else let d = (if def_Kind d = [] then d\<lparr>def_Kind := KindFungible\<rparr> else d);
              d = (if def_Status d = [] then d\<lparr>def_Status := StatusAssetActive\<rparr> else d) in
          case ValidateDefinition d of
            Some e \<Rightarrow> (Some e, s)
          | None \<Rightarrow>
              if fmlookup (as_assets s) (def_ID d) \<noteq> None then (Some ErrAssetExists, s)
              else (None, s\<lparr>as_assets := fmupd (def_ID d) d (as_assets s)\<rparr>))"

definition CreateFromTransactionID ::
  "string \<Rightarrow> string \<Rightarrow> string \<Rightarrow> u8 \<Rightarrow> u64 \<Rightarrow> bool \<Rightarrow> bool \<Rightarrow> bool \<Rightarrow> bool \<Rightarrow> string
     \<Rightarrow> asset_state \<Rightarrow> err option \<times> asset_state" where
  "CreateFromTransactionID txID name symbol decimals maxSupply mintable burnable pausable
     permissioned issuer s =
    Create \<lparr>def_ID = DerivedID txID, def_Name = name, def_Symbol = symbol, def_Decimals = decimals,
      def_Kind = KindFungible, def_Issuer = issuer, def_MaxSupply = maxSupply, def_TotalSupply = 0,
      def_Mintable = mintable, def_Burnable = burnable, def_Pausable = pausable,
      def_Permissioned = permissioned, def_Status = StatusAssetActive\<rparr> s"

definition Mint :: "string \<Rightarrow> string \<Rightarrow> string \<Rightarrow> u64 \<Rightarrow> asset_state \<Rightarrow> err option \<times> asset_state" where
  "Mint assetID issuer to amount s =
    (if TrimSpace to = [] then (Some (Err ''mint recipient is required''), s)
     else if amount = 0 then (Some (Err ''mint amount must be greater than zero''), s)
     else case fmlookup (as_assets s) assetID of
       None \<Rightarrow> (Some ErrAssetNotFound, s)
     | Some d \<Rightarrow>
         if \<not> def_Mintable d then (Some (Err ''asset is not mintable''), s)
         else if def_Issuer d \<noteq> issuer then (Some ErrUnauthorized, s)
         else if def_Status d = StatusFrozen then (Some ErrAssetFrozen, s)
         else case Add (def_TotalSupply d) amount of
           Inl e \<Rightarrow> (Some (Wrap ''asset supply overflow'' e), s)
         | Inr newSupply \<Rightarrow>
             if def_MaxSupply d > 0 \<and> newSupply > def_MaxSupply d then
               (Some (Err ''asset max supply exceeded''), s)
             else case addBalance to assetID amount s of
               (Some e, s') \<Rightarrow> (Some e, s')
             | (None, s') \<Rightarrow>
                 (None, s'\<lparr>as_assets := fmupd assetID (d\<lparr>def_TotalSupply := newSupply\<rparr>) (as_assets s')\<rparr>))"

definition Burn :: "string \<Rightarrow> string \<Rightarrow> u64 \<Rightarrow> asset_state \<Rightarrow> err option \<times> asset_state" where
  "Burn assetID owner amount s =
    (if TrimSpace owner = [] then (Some (Err ''burn owner is required''), s)
     else if amount = 0 then (Some (Err ''burn amount must be greater than zero''), s)
     else case fmlookup (as_assets s) assetID of
       None \<Rightarrow> (Some ErrAssetNotFound, s)
     | Some d \<Rightarrow>
         if \<not> def_Burnable d then (Some (Err ''asset is not burnable''), s)
         else if def_Status d = StatusFrozen then (Some ErrAssetFrozen, s)
         else case Sub (def_TotalSupply d) amount of
           Inl e \<Rightarrow> (Some (Wrap ''asset supply underflow'' e), s)
         | Inr newSupply \<Rightarrow>
             (case subtractBalance owner assetID amount s of
                (Some e, s') \<Rightarrow> (Some e, s')
              | (None, s') \<Rightarrow>
                  (None, s'\<lparr>as_assets := fmupd assetID (d\<lparr>def_TotalSupply := newSupply\<rparr>) (as_assets s')\<rparr>)))"

definition Transfer :: "string \<Rightarrow> string \<Rightarrow> string \<Rightarrow> u64 \<Rightarrow> asset_state \<Rightarrow> err option \<times> asset_state" where
  "Transfer assetID from to amount s =
    (if amount = 0 then (Some (Err ''transfer amount must be greater than zero''), s)
     else if from = [] \<or> to = [] \<or> from = to then
       (Some (Err ''invalid asset transfer addresses''), s)
     else case fmlookup (as_assets s) assetID of
       None \<Rightarrow> (Some ErrAssetNotFound, s)
     | Some d \<Rightarrow>
         if def_Status d = StatusFrozen then (Some ErrAssetFrozen, s)
         else case subtractBalance from assetID amount s of
           (Some e, s1) \<Rightarrow> (Some e, s1)
         | (None, s1) \<Rightarrow>
             (case addBalance to assetID amount s1 of
                (Some e, s2) \<Rightarrow> (Some e, snd (addBalance from assetID amount s2))
              | (None, s2) \<Rightarrow> (None, s2)))"

definition ChargeFee :: "string \<Rightarrow> u64 \<Rightarrow> asset_state \<Rightarrow> err option \<times> asset_state" where
  "ChargeFee payer fee s =
    (if fee = 0 then (None, s)
     else if payer = [] then (Some (Err ''fee payer is required''), s)
     else case subtractBalance payer NativeAssetID fee s of
       (Some e, s1) \<Rightarrow> (Some (Wrap ''native dIDR fee'' e), s1)
     | (None, s1) \<Rightarrow>
         (case addBalance FeeCollectorAddress NativeAssetID fee s1 of
            (Some e, s2) \<Rightarrow>
              (Some (Wrap ''native dIDR fee collector'' e), snd (addBalance payer NativeAssetID fee s2))
          | (None, s2) \<Rightarrow> (None, s2)))"

definition ExecuteTokenTransfer ::
  "string \<Rightarrow> string \<Rightarrow> string \<Rightarrow> string \<Rightarrow> u64 \<Rightarrow> u64 \<Rightarrow> asset_state \<Rightarrow> err option \<times> asset_state" where
  "ExecuteTokenTransfer assetID from to feePayer amount fee s =
    (case Transfer assetID from to amount s of
       (Some e, s1) \<Rightarrow> (Some e, s1)
     | (None, s1) \<Rightarrow>
         (case ChargeFee feePayer fee s1 of
            (Some e, s2) \<Rightarrow> (Some e, snd (Transfer assetID to from amount s2))
          | (None, s2) \<Rightarrow> (None, s2)))"

text \<open>\<open>Restore\<close>: the definitions first, then the balances.\<close>

definition restore_definition :: "asset_definition \<Rightarrow> asset_state \<Rightarrow> err option \<times> asset_state" where
  "restore_definition d s =
    (if IsNative (def_ID d) then
       (if def_ID d \<noteq> NativeAssetID \<or> def_Symbol d \<noteq> NativeAssetSymbol
           \<or> def_Decimals d \<noteq> NativeAssetDecimals then
          (Some (Err ''invalid native dIDR definition''), s)
        else (None, s\<lparr>as_assets := fmupd NativeAssetID d (as_assets s)\<rparr>))
     else Create d s)"

definition restore_balance :: "balance_entry \<Rightarrow> asset_state \<Rightarrow> err option \<times> asset_state" where
  "restore_balance entry s =
    (if be_Address entry = [] \<or> be_AssetID entry = [] \<or> be_Amount entry = 0 then
       (Some (Err ''invalid asset balance entry''), s)
     else if fmlookup (as_assets s) (be_AssetID entry) = None then
       (Some (Err ''asset balance references unknown asset: %s''), s)
     else addBalance (be_Address entry) (be_AssetID entry) (be_Amount entry) s)"

definition Restore :: "asset_definition list \<Rightarrow> balance_entry list \<Rightarrow> asset_state
    \<Rightarrow> err option \<times> asset_state" where
  "Restore definitions balances s =
    (case run_steps restore_definition definitions s of
       (Some e, s1) \<Rightarrow> (Some e, s1)
     | (None, s1) \<Rightarrow> run_steps restore_balance balances s1)"

section \<open>Balances as a store\<close>

text \<open>
  The contract of a balance store: a credit adds to one balance or fails without a readable
  effect, exactly when the balance would overflow; a debit subtracts or fails, exactly when the
  balance is too small. \<open>sum_of\<close> is the sum over all addresses. A client moves funds by a debit and a
  credit and pays the debit back when the credit fails: \<open>move_funds\<close> is the shape of \<open>Transfer\<close> and
  \<open>ChargeFee\<close>.
\<close>

definition upd2 :: "(string \<Rightarrow> string \<Rightarrow> u64) \<Rightarrow> string \<Rightarrow> string \<Rightarrow> u64 \<Rightarrow> string \<Rightarrow> string \<Rightarrow> u64" where
  "upd2 f a k v = (\<lambda>b j. if b = a \<and> j = k then v else f b j)"

definition move_funds where
  "move_funds debit credit wrap k from to n s =
    (case debit from k n s of
       (Some e, s1) \<Rightarrow> (Some e, s1)
     | (None, s1) \<Rightarrow>
         (case credit to k n s1 of
            (Some e, s2) \<Rightarrow> (Some (wrap e), snd (credit from k n s2))
          | (None, s2) \<Rightarrow> (None, s2)))"

locale balance_store =
  fixes bal :: "'s \<Rightarrow> string \<Rightarrow> string \<Rightarrow> u64"
    and sum_of :: "'s \<Rightarrow> string \<Rightarrow> nat"
    and credit debit :: "string \<Rightarrow> string \<Rightarrow> u64 \<Rightarrow> 's \<Rightarrow> err option \<times> 's"
  assumes credit_ok: "credit a k n s = (None, s') \<Longrightarrow>
      unat (bal s a k) + unat n < 2 ^ 64 \<and> bal s' = upd2 (bal s) a k (bal s a k + n)
      \<and> (\<forall>j. sum_of s' j = sum_of s j + (if j = k then unat n else 0))"
    and credit_fail: "credit a k n s = (Some e, s') \<Longrightarrow>
      2 ^ 64 \<le> unat (bal s a k) + unat n \<and> bal s' = bal s \<and> sum_of s' = sum_of s"
    and debit_ok: "debit a k n s = (None, s') \<Longrightarrow>
      unat n \<le> unat (bal s a k) \<and> bal s' = upd2 (bal s) a k (bal s a k - n)
      \<and> (\<forall>j. sum_of s' j + (if j = k then unat n else 0) = sum_of s j)"
    and debit_fail: "debit a k n s = (Some e, s') \<Longrightarrow>
      unat (bal s a k) < unat n \<and> bal s' = bal s \<and> sum_of s' = sum_of s"
begin

lemma credit_succeeds: "unat (bal s a k) + unat n < 2 ^ 64 \<Longrightarrow> fst (credit a k n s) = None"
  using credit_fail [of a k n s] by (cases "credit a k n s"; cases "fst (credit a k n s)") fastforce+

lemma debit_succeeds: "unat n \<le> unat (bal s a k) \<Longrightarrow> fst (debit a k n s) = None"
  using debit_fail [of a k n s] by (cases "debit a k n s"; cases "fst (debit a k n s)") fastforce+

lemma move_ok:
  assumes "move_funds debit credit w k from to n s = (None, s')" and "from \<noteq> to"
  shows "unat n \<le> unat (bal s from k)" and "unat (bal s to k) + unat n < 2 ^ 64"
    and "bal s' = upd2 (upd2 (bal s) from k (bal s from k - n)) to k (bal s to k + n)"
    and "sum_of s' = sum_of s"
proof -
  obtain s1 where d: "debit from k n s = (None, s1)" and c: "credit to k n s1 = (None, s')"
    using assms(1) by (auto simp: move_funds_def split: prod.splits option.splits)
  note D = debit_ok [OF d] and C = credit_ok [OF c]
  show "unat n \<le> unat (bal s from k)" using D by simp
  have b1: "bal s1 to k = bal s to k" using D assms(2) by (simp add: upd2_def)
  then show "unat (bal s to k) + unat n < 2 ^ 64" using C by simp
  show "bal s' = upd2 (upd2 (bal s) from k (bal s from k - n)) to k (bal s to k + n)"
    using C D b1 by simp
  show "sum_of s' = sum_of s"
  proof
    fix j
    show "sum_of s' j = sum_of s j" using C D by (metis add.commute)
  qed
qed

text \<open>A failed move leaves every balance as it was: the debit is always paid back.\<close>

lemma move_fail:
  assumes "move_funds debit credit w k from to n s = (Some e, s')"
  shows "bal s' = bal s" and "sum_of s' = sum_of s"
    and "from \<noteq> to \<Longrightarrow> unat (bal s from k) < unat n \<or> 2 ^ 64 \<le> unat (bal s to k) + unat n"
proof -
  have "bal s' = bal s \<and> sum_of s' = sum_of s
    \<and> (from \<noteq> to \<longrightarrow> unat (bal s from k) < unat n \<or> 2 ^ 64 \<le> unat (bal s to k) + unat n)"
  proof (cases "debit from k n s")
    case (Pair r s1)
    show ?thesis
    proof (cases r)
      case (Some e')
      with Pair assms debit_fail [of "from" k n s e' s1] show ?thesis by (simp add: move_funds_def)
    next
      case None
      note D = debit_ok [OF Pair [unfolded None]]
      obtain e2 s2 where c: "credit to k n s1 = (Some e2, s2)" and s': "s' = snd (credit from k n s2)"
        using assms Pair None by (auto simp: move_funds_def split: prod.splits option.splits)
      note C = credit_fail [OF c]
      have b2: "bal s2 from k = bal s from k - n" using C D by (simp add: upd2_def)
      have "unat (bal s from k - n) + unat n = unat (bal s from k)"
        using D by (simp add: unat_sub word_le_nat_alt)
      then have room: "unat (bal s2 from k) + unat n < 2 ^ 64" using b2 by simp
      then obtain s3 where r: "credit from k n s2 = (None, s3)"
        using credit_succeeds by (metis prod.collapse)
      note R = credit_ok [OF r]
      have "bal s3 = bal s" using R C D b2 by (auto simp: upd2_def fun_eq_iff)
      moreover have "sum_of s3 = sum_of s"
      proof
        fix j
        show "sum_of s3 j = sum_of s j" using R C D by metis
      qed
      moreover have "from \<noteq> to \<longrightarrow> 2 ^ 64 \<le> unat (bal s to k) + unat n"
        using C D by (auto simp: upd2_def split: if_splits)
      ultimately show ?thesis using s' r by simp
    qed
  qed
  then show "bal s' = bal s" "sum_of s' = sum_of s"
    "from \<noteq> to \<Longrightarrow> unat (bal s from k) < unat n \<or> 2 ^ 64 \<le> unat (bal s to k) + unat n" by auto
qed

lemma move_succeeds:
  assumes "unat n \<le> unat (bal s from k)" and "unat (bal s to k) + unat n < 2 ^ 64" and "from \<noteq> to"
  shows "fst (move_funds debit credit w k from to n s) = None"
  using assms move_fail(3) [of w k "from" to n s]
  by (cases "move_funds debit credit w k from to n s"; cases "fst (move_funds debit credit w k from to n s)")
    fastforce+

end

text \<open>The sum of the balances of an asset over all addresses.\<close>

definition total_balance :: "asset_state \<Rightarrow> string \<Rightarrow> nat" where
  "total_balance s k = fmsum (\<lambda>m. unat (get_or 0 m k)) (as_balances s)"

lemma asset_Balance_get: "asset_Balance s a k = get_or 0 (get_or fmempty (as_balances s) a) k"
  by (simp add: asset_Balance_def get_or_def split: option.splits)

lemma total_balance_upd:
  "total_balance (s\<lparr>as_balances := fmupd a (fmupd k v (get_or fmempty (as_balances s) a)) (as_balances s)\<rparr>) j
     + (if j = k then unat (asset_Balance s a k) else 0) = total_balance s j + (if j = k then unat v else 0)"
  using fmsum_upd_or [of "\<lambda>m. unat (get_or 0 m j)" fmempty a
      "fmupd k v (get_or fmempty (as_balances s) a)" "as_balances s"]
  by (simp add: total_balance_def asset_Balance_get split: if_splits)

lemma balance_le_total: "unat (asset_Balance s a k) \<le> total_balance s k"
  unfolding total_balance_def asset_Balance_get
  by (rule fmsum_get_or_le [of "\<lambda>m. unat (get_or 0 m k)" fmempty]) simp

lemma total_balance_fresh:
  "fmlookup (as_balances s) a = None \<Longrightarrow>
   total_balance (s\<lparr>as_balances := fmupd a fmempty (as_balances s)\<rparr>) = total_balance s"
  using fmsum_upd [of "\<lambda>m. unat (get_or 0 m _)" a fmempty "as_balances s"]
  by (auto simp: total_balance_def fun_eq_iff)

lemma addBalance_cases:
  assumes "addBalance a k n s = (r, s')"
  shows "as_assets s' = as_assets s"
    and "r = None \<Longrightarrow> unat (asset_Balance s a k) + unat n < 2 ^ 64
      \<and> asset_Balance s' = upd2 (asset_Balance s) a k (asset_Balance s a k + n)
      \<and> (\<forall>j. total_balance s' j = total_balance s j + (if j = k then unat n else 0))"
    and "r = Some e \<Longrightarrow> 2 ^ 64 \<le> unat (asset_Balance s a k) + unat n
      \<and> asset_Balance s' = asset_Balance s \<and> total_balance s' = total_balance s"
proof -
  let ?m = "get_or fmempty (as_balances s) a"
  let ?s1 = "if fmlookup (as_balances s) a = None
             then s\<lparr>as_balances := fmupd a fmempty (as_balances s)\<rparr> else s"
  let ?u = "\<lambda>v. s\<lparr>as_balances := fmupd a (fmupd k v ?m) (as_balances s)\<rparr>"
  have fresh: "asset_Balance ?s1 = asset_Balance s" "total_balance ?s1 = total_balance s"
    by (auto simp: total_balance_fresh asset_Balance_get fun_eq_iff) (simp_all add: get_or_def)
  have redo: "?s1\<lparr>as_balances := fmupd a (fmupd k v ?m) (as_balances ?s1)\<rparr> = ?u v" for v
    by simp
  have n0: "n = 0 \<Longrightarrow> r = None \<and> s' = s" using assms by (simp add: addBalance_def)
  have shape: "n \<noteq> 0 \<Longrightarrow> (\<exists>e v. r = Some e \<and> s' = ?s1 \<and> Add (asset_Balance s a k) n = Inl v)
     \<or> (\<exists>v. r = None \<and> s' = ?u v \<and> Add (asset_Balance s a k) n = Inr v)"
    using assms unfolding addBalance_def Let_def asset_Balance_get redo
    by (auto split: sum.splits if_splits)
  then show "as_assets s' = as_assets s" using n0 by (cases "n = 0") auto
  show "2 ^ 64 \<le> unat (asset_Balance s a k) + unat n
      \<and> asset_Balance s' = asset_Balance s \<and> total_balance s' = total_balance s" if "r = Some e"
    using shape n0 that fresh by (cases "n = 0") (auto simp: arith_iff)
  show "unat (asset_Balance s a k) + unat n < 2 ^ 64
      \<and> asset_Balance s' = upd2 (asset_Balance s) a k (asset_Balance s a k + n)
      \<and> (\<forall>j. total_balance s' j = total_balance s j + (if j = k then unat n else 0))" if "r = None"
  proof (cases "n = 0")
    case True
    with n0 show ?thesis by (auto simp: upd2_def fun_eq_iff)
  next
    case False
    with shape that obtain v where s': "s' = ?u v" and A: "Add (asset_Balance s a k) n = Inr v" by auto
    then have v: "unat v = unat (asset_Balance s a k) + unat n" "unat v < 2 ^ 64"
      by (simp_all add: arith_iff)
    then have "v = asset_Balance s a k + n" by (simp add: u64_eq_iff unat_add_u64)
    then have "asset_Balance s' = upd2 (asset_Balance s) a k (asset_Balance s a k + n)"
      using s' by (auto simp: asset_Balance_get upd2_def fun_eq_iff)
    moreover have "\<forall>j. total_balance s' j = total_balance s j + (if j = k then unat n else 0)"
    proof
      fix j
      show "total_balance s' j = total_balance s j + (if j = k then unat n else 0)"
        using total_balance_upd [of a k v s j] v s' by (auto split: if_splits)
    qed
    ultimately show ?thesis using v by simp
  qed
qed

lemma subtractBalance_cases:
  assumes "subtractBalance a k n s = (r, s')"
  shows "as_assets s' = as_assets s"
    and "r = None \<Longrightarrow> unat n \<le> unat (asset_Balance s a k)
      \<and> asset_Balance s' = upd2 (asset_Balance s) a k (asset_Balance s a k - n)
      \<and> (\<forall>j. total_balance s' j + (if j = k then unat n else 0) = total_balance s j)"
    and "r = Some e \<Longrightarrow> unat (asset_Balance s a k) < unat n \<and> s' = s \<and> e = ErrInsufficientBalance"
proof -
  let ?m = "get_or fmempty (as_balances s) a"
  let ?u = "\<lambda>v. s\<lparr>as_balances := fmupd a (fmupd k v ?m) (as_balances s)\<rparr>"
  have n0: "n = 0 \<Longrightarrow> r = None \<and> s' = s" using assms by (simp add: subtractBalance_def)
  have shape: "n \<noteq> 0 \<Longrightarrow> (r = Some ErrInsufficientBalance \<and> s' = s \<and> unat (asset_Balance s a k) < unat n)
     \<or> (\<exists>v. r = None \<and> s' = ?u v \<and> Sub (asset_Balance s a k) n = Inr v)"
    using assms unfolding subtractBalance_def asset_Balance_def get_or_def
    by (auto simp: Sub_Inl_iff split: sum.splits option.splits if_splits)
  then show "as_assets s' = as_assets s" using n0 by (cases "n = 0") auto
  show "unat (asset_Balance s a k) < unat n \<and> s' = s \<and> e = ErrInsufficientBalance" if "r = Some e"
    using shape n0 that by (cases "n = 0") auto
  show "unat n \<le> unat (asset_Balance s a k)
      \<and> asset_Balance s' = upd2 (asset_Balance s) a k (asset_Balance s a k - n)
      \<and> (\<forall>j. total_balance s' j + (if j = k then unat n else 0) = total_balance s j)" if "r = None"
  proof (cases "n = 0")
    case True
    with n0 show ?thesis by (auto simp: upd2_def fun_eq_iff)
  next
    case False
    with shape that obtain v where s': "s' = ?u v" and A: "Sub (asset_Balance s a k) n = Inr v" by auto
    then have v: "unat v = unat (asset_Balance s a k) - unat n" "unat n \<le> unat (asset_Balance s a k)"
      by (simp_all add: arith_iff)
    then have "v = asset_Balance s a k - n" by (simp add: u64_eq_iff unat_sub word_le_nat_alt)
    then have "asset_Balance s' = upd2 (asset_Balance s) a k (asset_Balance s a k - n)"
      using s' by (auto simp: asset_Balance_get upd2_def fun_eq_iff)
    moreover have "\<forall>j. total_balance s' j + (if j = k then unat n else 0) = total_balance s j"
    proof
      fix j
      show "total_balance s' j + (if j = k then unat n else 0) = total_balance s j"
        using total_balance_upd [of a k v s j] v s' balance_le_total [of s a k]
        by (auto split: if_splits)
    qed
    ultimately show ?thesis using v by simp
  qed
qed

interpretation raw: balance_store asset_Balance total_balance addBalance subtractBalance
proof unfold_locales
  fix a k n s s' e
  show "addBalance a k n s = (None, s') \<Longrightarrow>
      unat (asset_Balance s a k) + unat n < 2 ^ 64
      \<and> asset_Balance s' = upd2 (asset_Balance s) a k (asset_Balance s a k + n)
      \<and> (\<forall>j. total_balance s' j = total_balance s j + (if j = k then unat n else 0))"
    by (rule addBalance_cases(2)) simp_all
  show "addBalance a k n s = (Some e, s') \<Longrightarrow> 2 ^ 64 \<le> unat (asset_Balance s a k) + unat n
      \<and> asset_Balance s' = asset_Balance s \<and> total_balance s' = total_balance s"
    by (rule addBalance_cases(3)) simp_all
  show "subtractBalance a k n s = (None, s') \<Longrightarrow> unat n \<le> unat (asset_Balance s a k)
      \<and> asset_Balance s' = upd2 (asset_Balance s) a k (asset_Balance s a k - n)
      \<and> (\<forall>j. total_balance s' j + (if j = k then unat n else 0) = total_balance s j)"
    by (rule subtractBalance_cases(2)) simp_all
  show "subtractBalance a k n s = (Some e, s') \<Longrightarrow> unat (asset_Balance s a k) < unat n
      \<and> asset_Balance s' = asset_Balance s \<and> total_balance s' = total_balance s"
    using subtractBalance_cases(3) by blast
qed

section \<open>The operations\<close>

lemma asset_Clone_id:
  assumes "fmlookup (as_assets s) NativeAssetID \<noteq> None"
  shows "asset_Clone s = s"
proof -
  have "range_fm fmupd (as_assets s) (as_assets NewAssetState) = as_assets s"
    using assms fmlookup_range_upd [of "\<lambda>v. v" "as_assets s" "as_assets NewAssetState"]
    by (intro fmap_ext) (auto simp: NewAssetState_def split: option.splits)
  moreover have "range_fm (\<lambda>a m. fmupd a (range_fm fmupd m fmempty)) (as_balances s) fmempty = as_balances s"
    by simp
  ultimately show ?thesis by (simp add: asset_Clone_def)
qed

lemma Transfer_move:
  "Transfer k from to n s =
    (if n = 0 then (Some (Err ''transfer amount must be greater than zero''), s)
     else if from = [] \<or> to = [] \<or> from = to then
       (Some (Err ''invalid asset transfer addresses''), s)
     else case fmlookup (as_assets s) k of
       None \<Rightarrow> (Some ErrAssetNotFound, s)
     | Some d \<Rightarrow>
         if def_Status d = StatusFrozen then (Some ErrAssetFrozen, s)
         else move_funds subtractBalance addBalance id k from to n s)"
  by (auto simp: Transfer_def move_funds_def split: option.splits prod.splits)

lemma ChargeFee_move:
  "0 < n \<Longrightarrow> payer \<noteq> [] \<Longrightarrow>
   ChargeFee payer n s =
     (case move_funds subtractBalance addBalance (Wrap ''native dIDR fee collector'')
             NativeAssetID payer FeeCollectorAddress n s of
        (Some e, s') \<Rightarrow>
          (if fst (subtractBalance payer NativeAssetID n s) = None then (Some e, s')
           else (Some (Wrap ''native dIDR fee'' e), s'))
      | (None, s') \<Rightarrow> (None, s'))"
  by (auto simp: ChargeFee_def move_funds_def split: prod.splits option.splits)

lemma move_assets [frame]:
  "as_assets (snd (move_funds subtractBalance addBalance w k from to n s)) = as_assets s"
  using addBalance_cases(1) subtractBalance_cases(1)
  by (auto simp: move_funds_def split: prod.splits option.splits) (metis snd_conv surj_pair)+

lemma Transfer_assets [frame]: "as_assets (snd (Transfer k from to n s)) = as_assets s"
  by (simp add: Transfer_move move_assets split: option.splits)

lemma Transfer_ok:
  assumes "Transfer k from to n s = (None, s')"
  shows "0 < n \<and> from \<noteq> to \<and> from \<noteq> [] \<and> to \<noteq> []"
    and "\<exists>d. fmlookup (as_assets s) k = Some d \<and> def_Status d \<noteq> StatusFrozen"
    and "unat n \<le> unat (asset_Balance s from k)"
    and "asset_Balance s' = upd2 (upd2 (asset_Balance s) from k (asset_Balance s from k - n))
           to k (asset_Balance s to k + n)"
    and "unat (asset_Balance s to k) + unat n < 2 ^ 64"
    and "total_balance s' = total_balance s"
    and "as_assets s' = as_assets s"
proof -
  have g: "0 < n" "from \<noteq> to" "from \<noteq> []" "to \<noteq> []"
    "\<exists>d. fmlookup (as_assets s) k = Some d \<and> def_Status d \<noteq> StatusFrozen"
    and mv: "move_funds subtractBalance addBalance id k from to n s = (None, s')"
    using assms by (auto simp: Transfer_move word_gt_0 split: option.splits if_splits)
  note M = raw.move_ok [OF mv g(2)]
  show "0 < n \<and> from \<noteq> to \<and> from \<noteq> [] \<and> to \<noteq> []"
    "\<exists>d. fmlookup (as_assets s) k = Some d \<and> def_Status d \<noteq> StatusFrozen" using g by blast+
  show "as_assets s' = as_assets s" using Transfer_assets [of k "from" to n s] assms by simp
  show "unat n \<le> unat (asset_Balance s from k)" by (fact M(1))
  show "unat (asset_Balance s to k) + unat n < 2 ^ 64" by (fact M(2))
  show "asset_Balance s' = upd2 (upd2 (asset_Balance s) from k (asset_Balance s from k - n))
           to k (asset_Balance s to k + n)" by (fact M(3))
  show "total_balance s' = total_balance s" by (fact M(4))
qed

lemma Transfer_fail:
  assumes "Transfer k from to n s = (Some e, s')"
  shows "asset_Balance s' = asset_Balance s" and "total_balance s' = total_balance s"
    and "as_assets s' = as_assets s"
  using assms Transfer_assets [of k "from" to n s] raw.move_fail(1, 2) [of id k "from" to n s e s']
  by (auto simp: Transfer_move split: option.splits if_splits)

lemma ChargeFee_fail:
  assumes "ChargeFee payer n s = (Some e, s')"
  shows "asset_Balance s' = asset_Balance s" and "total_balance s' = total_balance s"
    and "as_assets s' = as_assets s"
proof -
  let ?mv = "move_funds subtractBalance addBalance (Wrap ''native dIDR fee collector'')
             NativeAssetID payer FeeCollectorAddress n s"
  have "asset_Balance s' = asset_Balance s \<and> total_balance s' = total_balance s \<and> as_assets s' = as_assets s"
  proof (cases "n = 0 \<or> payer = []")
    case True
    with assms show ?thesis by (auto simp: ChargeFee_def split: if_splits)
  next
    case False
    then obtain e' where "?mv = (Some e', s')"
      using assms by (auto simp: ChargeFee_move word_gt_0 split: prod.splits option.splits if_splits)
    then show ?thesis
      using raw.move_fail(1, 2) move_assets [of "Wrap ''native dIDR fee collector''"] by (metis snd_conv)
  qed
  then show "asset_Balance s' = asset_Balance s" "total_balance s' = total_balance s"
    "as_assets s' = as_assets s" by blast+
qed

lemma ChargeFee_ok:
  assumes "ChargeFee payer n s = (None, s')" and "payer \<noteq> FeeCollectorAddress" and "payer \<noteq> []"
  shows "unat n \<le> unat (asset_Balance s payer NativeAssetID)"
    and "asset_Balance s' = upd2 (upd2 (asset_Balance s) payer NativeAssetID
          (asset_Balance s payer NativeAssetID - n)) FeeCollectorAddress NativeAssetID
          (asset_Balance s FeeCollectorAddress NativeAssetID + n)"
    and "total_balance s' = total_balance s"
proof -
  let ?mv = "move_funds subtractBalance addBalance (Wrap ''native dIDR fee collector'')
             NativeAssetID payer FeeCollectorAddress n s"
  have "?mv = (None, s')" if "n \<noteq> 0"
    using assms that by (auto simp: ChargeFee_move word_gt_0 split: prod.splits option.splits if_splits)
  note M = raw.move_ok [OF this assms(2)]
  have z: "n = 0 \<Longrightarrow> s' = s" using assms by (simp add: ChargeFee_def)
  show "unat n \<le> unat (asset_Balance s payer NativeAssetID)" using M(1) by (cases "n = 0") auto
  show "total_balance s' = total_balance s" using M(4) z by (cases "n = 0") auto
  show "asset_Balance s' = upd2 (upd2 (asset_Balance s) payer NativeAssetID
          (asset_Balance s payer NativeAssetID - n)) FeeCollectorAddress NativeAssetID
          (asset_Balance s FeeCollectorAddress NativeAssetID + n)"
    using M(3) z by (cases "n = 0") (auto simp: upd2_def fun_eq_iff)
qed

text \<open>
  The undo of \<open>ExecuteTokenTransfer\<close> is the opposite transfer: after a transfer it always succeeds
  and gives back every balance.
\<close>

lemma Transfer_back:
  assumes "Transfer k from to n s = (None, s1)"
    and "asset_Balance s2 = asset_Balance s1" and "as_assets s2 = as_assets s1"
  shows "\<exists>s3. Transfer k to from n s2 = (None, s3) \<and> asset_Balance s3 = asset_Balance s
    \<and> as_assets s3 = as_assets s"
proof -
  note T = Transfer_ok [OF assms(1)]
  have to: "asset_Balance s2 to k = asset_Balance s to k + n"
    and fr: "asset_Balance s2 from k = asset_Balance s from k - n"
    using T(1, 4) assms(2) by (auto simp: upd2_def)
  have n1: "unat n \<le> unat (asset_Balance s2 to k)" using to T(5) by (simp add: unat_add_u64)
  have "unat (asset_Balance s2 from k) + unat n = unat (asset_Balance s from k)"
    using fr T(3) by (simp add: unat_sub word_le_nat_alt)
  then have n2: "unat (asset_Balance s2 from k) + unat n < 2 ^ 64" by simp
  obtain s3 where mv: "move_funds subtractBalance addBalance id k to from n s2 = (None, s3)"
    using raw.move_succeeds [OF n1 n2, of id] T(1) by (metis prod.collapse)
  then have t3: "Transfer k to from n s2 = (None, s3)"
    using T(1, 2, 7) assms(3) by (auto simp: Transfer_move word_gt_0)
  have "asset_Balance s3 = asset_Balance s"
    using Transfer_ok(4) [OF t3] to fr T(1, 4) assms(2) by (auto simp: upd2_def fun_eq_iff)
  with t3 T(7) assms(3) Transfer_ok(7) [OF t3] show ?thesis by auto
qed

text \<open>
  A token transfer with its fee is all or nothing: whatever step fails, every balance of
  every address and asset and every definition is what it was before the call.
\<close>

theorem ExecuteTokenTransfer_atomic:
  assumes "ExecuteTokenTransfer assetID from to feePayer amount fee s = (Some e, s')"
  shows "asset_Balance s' = asset_Balance s \<and> as_assets s' = as_assets s"
proof (cases "Transfer assetID from to amount s")
  case (Pair r s1)
  show ?thesis
  proof (cases r)
    case (Some e1)
    with Pair assms have "Transfer assetID from to amount s = (Some e, s')"
      by (simp add: ExecuteTokenTransfer_def)
    from Transfer_fail(1, 3) [OF this] show ?thesis by simp
  next
    case None
    with Pair assms obtain s2 where c: "ChargeFee feePayer fee s1 = (Some e, s2)"
      and s': "s' = snd (Transfer assetID to from amount s2)"
      by (auto simp: ExecuteTokenTransfer_def split: prod.splits option.splits)
    with Transfer_back [OF Pair [unfolded None]] ChargeFee_fail [OF c] show ?thesis by fastforce
  qed
qed

section \<open>Issued supply\<close>

text \<open>
  The invariant of an asset state: the native asset is registered and can be neither minted nor
  burned, an issued asset is registered under its own non-native identifier with a definition that
  \<open>Create\<close> would accept, its total supply is the sum of its balances and within the maximum, and an
  asset that is not registered has no balances.
\<close>

definition issued_ok :: "asset_state \<Rightarrow> string \<Rightarrow> asset_definition \<Rightarrow> bool" where
  "issued_ok s k d \<longleftrightarrow>
     def_ID d = k \<and> k \<noteq> [] \<and> \<not> IsNative k \<and> ValidateDefinition d = None
     \<and> def_Kind d \<noteq> [] \<and> def_Status d \<noteq> []
     \<and> total_balance s k = unat (def_TotalSupply d)"

definition asset_ok :: "asset_state \<Rightarrow> bool" where
  "asset_ok s \<longleftrightarrow>
     fmlookup (as_assets s) NativeAssetID = Some native_definition
     \<and> (\<forall>k d. k \<noteq> NativeAssetID \<longrightarrow> fmlookup (as_assets s) k = Some d \<longrightarrow> issued_ok s k d)
     \<and> (\<forall>k. fmlookup (as_assets s) k = None \<longrightarrow> total_balance s k = 0)"

lemma asset_okD:
  assumes "asset_ok s"
  shows "fmlookup (as_assets s) NativeAssetID = Some native_definition"
    and "k \<noteq> NativeAssetID \<Longrightarrow> fmlookup (as_assets s) k = Some d \<Longrightarrow> issued_ok s k d"
    and "fmlookup (as_assets s) k = None \<Longrightarrow> total_balance s k = 0"
  using assms by (auto simp: asset_ok_def)

lemma asset_ok_new: "asset_ok NewAssetState"
  by (simp add: asset_ok_def NewAssetState_def total_balance_def)

text \<open>Only the sums of the balances and the definitions matter for the invariant.\<close>

lemma asset_ok_cong:
  "asset_ok s \<Longrightarrow> as_assets s' = as_assets s \<Longrightarrow>
   (\<And>k. k \<noteq> NativeAssetID \<Longrightarrow> total_balance s' k = total_balance s k) \<Longrightarrow> asset_ok s'"
  by (auto simp: asset_ok_def issued_ok_def) (metis option.distinct(1))

text \<open>Replacing the definition of an issued asset, and moving its sum of balances with it.\<close>

lemma asset_ok_set:
  assumes "asset_ok s" and "k \<noteq> NativeAssetID" and "as_assets s' = fmupd k d (as_assets s)"
    and "\<And>j. j \<noteq> k \<Longrightarrow> total_balance s' j = total_balance s j" and "issued_ok s' k d"
  shows "asset_ok s'"
  using assms by (auto simp: asset_ok_def issued_ok_def)

lemma max_supply:
  "asset_ok s \<Longrightarrow> k \<noteq> NativeAssetID \<Longrightarrow> fmlookup (as_assets s) k = Some d \<Longrightarrow> 0 < def_MaxSupply d \<Longrightarrow>
   total_balance s k \<le> unat (def_MaxSupply d)"
  using asset_okD(2) [of s k d]
  by (auto simp: issued_ok_def ValidateDefinition_def word_le_nat_alt word_less_nat_alt Let_def split: if_splits)

lemma Transfer_asset_ok: "asset_ok s \<Longrightarrow> asset_ok (snd (Transfer k from to n s))"
  using Transfer_fail(2) [of k "from" to n s] Transfer_ok(6) [of k "from" to n s]
    asset_ok_cong [OF _ Transfer_assets [of k "from" to n s]]
  by (cases "Transfer k from to n s"; cases "fst (Transfer k from to n s)") auto

lemma ValidateDefinition_TotalSupply:
  "ValidateDefinition d = None \<Longrightarrow> (0 < def_MaxSupply d \<Longrightarrow> n \<le> def_MaxSupply d) \<Longrightarrow>
   ValidateDefinition (d\<lparr>def_TotalSupply := n\<rparr>) = None"
  by (auto simp: ValidateDefinition_def Let_def split: if_splits)

lemma Create_asset_ok:
  assumes "asset_ok s" and "def_TotalSupply d = 0"
  shows "asset_ok (snd (Create d s))"
proof -
  define d' where "d' = (let d = (if def_Kind d = [] then d\<lparr>def_Kind := KindFungible\<rparr> else d)
                         in if def_Status d = [] then d\<lparr>def_Status := StatusAssetActive\<rparr> else d)"
  have d': "def_ID d' = def_ID d" "def_TotalSupply d' = 0" "def_Kind d' \<noteq> []" "def_Status d' \<noteq> []"
    using assms(2) by (auto simp: d'_def Let_def KindFungible_def StatusAssetActive_def)
  show ?thesis
  proof (cases "fst (Create d s)")
    case (Some e)
    then have "snd (Create d s) = s" by (auto simp: Create_def Let_def split: if_splits option.splits)
    with assms show ?thesis by simp
  next
    case None
    then have s': "snd (Create d s) = s\<lparr>as_assets := fmupd (def_ID d) d' (as_assets s)\<rparr>"
      and g: "def_ID d \<noteq> []" "\<not> IsNative (def_ID d)" "ValidateDefinition d' = None"
        "fmlookup (as_assets s) (def_ID d) = None"
      using d'(1) by (auto simp: Create_def d'_def Let_def split: if_splits option.splits)
    have ne: "def_ID d \<noteq> NativeAssetID" using g(2) by auto
    have "total_balance s (def_ID d) = 0" using asset_okD(3) [OF assms(1) g(4)] .
    then have "issued_ok (snd (Create d s)) (def_ID d) d'"
      using s' g d' by (simp add: issued_ok_def total_balance_def)
    then show ?thesis using asset_ok_set [OF assms(1) ne] s' by (simp add: total_balance_def)
  qed
qed

lemma Mint_ok:
  assumes "Mint k issuer to n s = (None, s')"
  shows "\<exists>d. fmlookup (as_assets s) k = Some d \<and> def_Mintable d \<and> def_Issuer d = issuer
      \<and> def_Status d \<noteq> StatusFrozen
      \<and> unat (def_TotalSupply d) + unat n < 2 ^ 64
      \<and> (0 < def_MaxSupply d \<longrightarrow> def_TotalSupply d + n \<le> def_MaxSupply d)
      \<and> as_assets s' = fmupd k (d\<lparr>def_TotalSupply := def_TotalSupply d + n\<rparr>) (as_assets s)"
    and "asset_Balance s' = upd2 (asset_Balance s) to k (asset_Balance s to k + n)"
    and "total_balance s' j = total_balance s j + (if j = k then unat n else 0)"
proof -
  obtain d v s1 where d: "fmlookup (as_assets s) k = Some d" "def_Mintable d" "def_Issuer d = issuer"
    "def_Status d \<noteq> StatusFrozen" and v: "Add (def_TotalSupply d) n = Inr v"
    and m: "0 < def_MaxSupply d \<longrightarrow> v \<le> def_MaxSupply d"
    and a: "addBalance to k n s = (None, s1)"
    and s': "s' = s1\<lparr>as_assets := fmupd k (d\<lparr>def_TotalSupply := v\<rparr>) (as_assets s1)\<rparr>"
    using assms by (auto simp: Mint_def not_less split: if_splits option.splits sum.splits prod.splits)
  have v': "v = def_TotalSupply d + n" "unat (def_TotalSupply d) + unat n < 2 ^ 64"
    using v by (auto simp: Add_Inr_iff u64_eq_iff unat_add_u64)
  note A = addBalance_cases(1) [OF a] addBalance_cases(2) [OF a refl]
  show "\<exists>d. fmlookup (as_assets s) k = Some d \<and> def_Mintable d \<and> def_Issuer d = issuer
      \<and> def_Status d \<noteq> StatusFrozen
      \<and> unat (def_TotalSupply d) + unat n < 2 ^ 64
      \<and> (0 < def_MaxSupply d \<longrightarrow> def_TotalSupply d + n \<le> def_MaxSupply d)
      \<and> as_assets s' = fmupd k (d\<lparr>def_TotalSupply := def_TotalSupply d + n\<rparr>) (as_assets s)"
    using d m v' s' A(1) by auto
  have "asset_Balance s' = asset_Balance s1" "total_balance s' j = total_balance s1 j"
    using s' by (auto simp: asset_Balance_def total_balance_def fun_eq_iff)
  with A(2) show "asset_Balance s' = upd2 (asset_Balance s) to k (asset_Balance s to k + n)"
    "total_balance s' j = total_balance s j + (if j = k then unat n else 0)" by simp_all
qed

lemma Burn_ok:
  assumes "Burn k owner n s = (None, s')"
  shows "\<exists>d. fmlookup (as_assets s) k = Some d \<and> def_Burnable d \<and> def_Status d \<noteq> StatusFrozen
      \<and> n \<le> def_TotalSupply d
      \<and> as_assets s' = fmupd k (d\<lparr>def_TotalSupply := def_TotalSupply d - n\<rparr>) (as_assets s)"
    and "unat n \<le> unat (asset_Balance s owner k)"
    and "asset_Balance s' = upd2 (asset_Balance s) owner k (asset_Balance s owner k - n)"
    and "total_balance s' j + (if j = k then unat n else 0) = total_balance s j"
proof -
  obtain d v s1 where d: "fmlookup (as_assets s) k = Some d" "def_Burnable d"
    "def_Status d \<noteq> StatusFrozen" and v: "Sub (def_TotalSupply d) n = Inr v"
    and a: "subtractBalance owner k n s = (None, s1)"
    and s': "s' = s1\<lparr>as_assets := fmupd k (d\<lparr>def_TotalSupply := v\<rparr>) (as_assets s1)\<rparr>"
    using assms by (auto simp: Burn_def not_less split: if_splits option.splits sum.splits prod.splits)
  have v': "n \<le> def_TotalSupply d" using v by (simp add: Sub_Inr_iff word_le_nat_alt)
  then have v'': "v = def_TotalSupply d - n" using v by (simp add: Sub_Inr_iff u64_eq_iff unat_sub)
  note A = subtractBalance_cases(1) [OF a] subtractBalance_cases(2) [OF a refl]
  show "\<exists>d. fmlookup (as_assets s) k = Some d \<and> def_Burnable d \<and> def_Status d \<noteq> StatusFrozen
      \<and> n \<le> def_TotalSupply d
      \<and> as_assets s' = fmupd k (d\<lparr>def_TotalSupply := def_TotalSupply d - n\<rparr>) (as_assets s)"
    using d v' v'' s' A(1) by auto
  have "asset_Balance s' = asset_Balance s1" "total_balance s' j = total_balance s1 j"
    using s' by (auto simp: asset_Balance_def total_balance_def fun_eq_iff)
  with A(2) show "unat n \<le> unat (asset_Balance s owner k)"
    "asset_Balance s' = upd2 (asset_Balance s) owner k (asset_Balance s owner k - n)"
    "total_balance s' j + (if j = k then unat n else 0) = total_balance s j" by simp_all
qed

lemma Mint_fail:
  assumes "Mint k issuer to n s = (Some e, s')"
  shows "asset_Balance s' = asset_Balance s" and "total_balance s' = total_balance s"
    and "as_assets s' = as_assets s"
proof -
  have "s' = s \<or> (\<exists>e. addBalance to k n s = (Some e, s'))"
    using assms by (auto simp: Mint_def split: if_splits option.splits sum.splits prod.splits)
  then show "asset_Balance s' = asset_Balance s" "total_balance s' = total_balance s"
    "as_assets s' = as_assets s"
    using addBalance_cases(1, 3) by fastforce+
qed

lemma Burn_fail: "Burn k owner n s = (Some e, s') \<Longrightarrow> s' = s"
  using subtractBalance_cases(3)
  by (auto simp: Burn_def split: if_splits option.splits sum.splits prod.splits)

lemma native_fixed: "\<not> def_Mintable native_definition" "\<not> def_Burnable native_definition"
  by (simp_all add: native_definition_def)

lemma Mint_asset_ok:
  assumes "asset_ok s"
  shows "asset_ok (snd (Mint k issuer to n s))"
proof (cases "Mint k issuer to n s")
  case (Pair r s')
  show ?thesis
  proof (cases r)
    case (Some e)
    with Pair Mint_fail [of k issuer to n s e s'] assms show ?thesis by (auto intro: asset_ok_cong)
  next
    case None
    note M = Mint_ok [OF Pair [unfolded None]]
    obtain d where d: "fmlookup (as_assets s) k = Some d" "def_Mintable d"
      "unat (def_TotalSupply d) + unat n < 2 ^ 64"
      "0 < def_MaxSupply d \<longrightarrow> def_TotalSupply d + n \<le> def_MaxSupply d"
      "as_assets s' = fmupd k (d\<lparr>def_TotalSupply := def_TotalSupply d + n\<rparr>) (as_assets s)"
      using M(1) by blast
    have ne: "k \<noteq> NativeAssetID" using d asset_okD(1) [OF assms] native_fixed by auto
    have i: "issued_ok s k d" by (rule asset_okD(2) [OF assms ne d(1)])
    then have "issued_ok s' k (d\<lparr>def_TotalSupply := def_TotalSupply d + n\<rparr>)"
      using d M(3) [of k] ValidateDefinition_TotalSupply [of d "def_TotalSupply d + n"]
      by (simp add: issued_ok_def unat_add_u64)
    then show ?thesis using asset_ok_set [OF assms ne d(5)] M(3) Pair by simp
  qed
qed

lemma Burn_asset_ok:
  assumes "asset_ok s"
  shows "asset_ok (snd (Burn k owner n s))"
proof (cases "Burn k owner n s")
  case (Pair r s')
  show ?thesis
  proof (cases r)
    case (Some e)
    with Pair Burn_fail [of k owner n s e s'] assms show ?thesis by simp
  next
    case None
    note M = Burn_ok [OF Pair [unfolded None]]
    obtain d where d: "fmlookup (as_assets s) k = Some d" "def_Burnable d" "n \<le> def_TotalSupply d"
      "as_assets s' = fmupd k (d\<lparr>def_TotalSupply := def_TotalSupply d - n\<rparr>) (as_assets s)"
      using M(1) by blast
    have ne: "k \<noteq> NativeAssetID" using d asset_okD(1) [OF assms] native_fixed by auto
    have i: "issued_ok s k d" by (rule asset_okD(2) [OF assms ne d(1)])
    have "def_TotalSupply d - n \<le> def_MaxSupply d" if "0 < def_MaxSupply d"
      using max_supply [OF assms ne d(1) that] i d(3)
      by (simp add: issued_ok_def word_le_nat_alt unat_sub)
    then have "issued_ok s' k (d\<lparr>def_TotalSupply := def_TotalSupply d - n\<rparr>)"
      using i M(4) [of k] d(3) ValidateDefinition_TotalSupply [of d "def_TotalSupply d - n"]
      by (simp add: issued_ok_def unat_sub)
    moreover have "total_balance s' j = total_balance s j" if "j \<noteq> k" for j
      using M(4) [of j] that by simp
    ultimately show ?thesis using asset_ok_set [OF assms ne d(4)] Pair by simp
  qed
qed

text \<open>Credits and debits of the native asset, which the ledger makes, do not touch issued assets.\<close>

lemma Credit_cases:
  assumes "Credit a k n s = (r, s')"
  shows "as_assets s' = as_assets s"
    and "r = None \<Longrightarrow> unat (asset_Balance s a k) + unat n < 2 ^ 64
      \<and> asset_Balance s' = upd2 (asset_Balance s) a k (asset_Balance s a k + n)
      \<and> (\<forall>j. total_balance s' j = total_balance s j + (if j = k then unat n else 0))"
    and "r = Some e \<Longrightarrow> asset_Balance s' = asset_Balance s \<and> total_balance s' = total_balance s"
    and "TrimSpace a \<noteq> [] \<Longrightarrow> fmlookup (as_assets s) k \<noteq> None \<Longrightarrow>
      unat (asset_Balance s a k) + unat n < 2 ^ 64 \<Longrightarrow> r = None"
  using assms addBalance_cases [of a k n s r s'] raw.credit_succeeds [of s a k n]
  by (auto simp: Credit_def split: if_splits)

lemma Debit_cases:
  assumes "Debit a k n s = (r, s')"
  shows "as_assets s' = as_assets s"
    and "r = None \<Longrightarrow> unat n \<le> unat (asset_Balance s a k)
      \<and> asset_Balance s' = upd2 (asset_Balance s) a k (asset_Balance s a k - n)
      \<and> (\<forall>j. total_balance s' j + (if j = k then unat n else 0) = total_balance s j)"
    and "r = Some e \<Longrightarrow> s' = s"
    and "fmlookup (as_assets s) k \<noteq> None \<Longrightarrow> unat n \<le> unat (asset_Balance s a k) \<Longrightarrow> r = None"
  using assms subtractBalance_cases [of a k n s r s'] raw.debit_succeeds [of n s a k]
  by (auto simp: Debit_def split: if_splits)

lemma Credit_asset_ok: "asset_ok s \<Longrightarrow> asset_ok (snd (Credit a NativeAssetID n s))"
  using Credit_cases(1-3) [OF prod.collapse [symmetric], of a NativeAssetID n s]
  by (cases "fst (Credit a NativeAssetID n s)") (auto intro!: asset_ok_cong [of s])

lemma Debit_asset_ok: "asset_ok s \<Longrightarrow> asset_ok (snd (Debit a NativeAssetID n s))"
  using Debit_cases(1-3) [OF prod.collapse [symmetric], of a NativeAssetID n s]
  by (cases "fst (Debit a NativeAssetID n s)")
    (auto intro!: asset_ok_cong [of s], metis add.right_neutral)

lemmas asset_ok_ops = asset_ok_new Transfer_asset_ok Create_asset_ok Mint_asset_ok Burn_asset_ok
  Credit_asset_ok Debit_asset_ok

text \<open>
  C13. In a state that satisfies the supply invariant a transfer of an issued asset that is not frozen
  succeeds exactly when the amount and the two addresses are proper and the sender holds the amount:
  the recipient's balance can never overflow, because no balance exceeds the total supply.
\<close>

theorem Transfer_succeeds_iff:
  assumes "asset_ok s" and "assetID \<noteq> NativeAssetID" and "fmlookup (as_assets s) assetID = Some d"
    and "def_Status d \<noteq> StatusFrozen"
  shows "fst (Transfer assetID from to amount s) = None \<longleftrightarrow>
    amount \<noteq> 0 \<and> from \<noteq> [] \<and> to \<noteq> [] \<and> from \<noteq> to \<and> amount \<le> asset_Balance s from assetID"
proof
  assume "fst (Transfer assetID from to amount s) = None"
  then obtain s' where t: "Transfer assetID from to amount s = (None, s')" by (metis prod.collapse)
  show "amount \<noteq> 0 \<and> from \<noteq> [] \<and> to \<noteq> [] \<and> from \<noteq> to \<and> amount \<le> asset_Balance s from assetID"
    using Transfer_ok(1, 3) [OF t] by (auto simp: word_le_nat_alt)
next
  assume g: "amount \<noteq> 0 \<and> from \<noteq> [] \<and> to \<noteq> [] \<and> from \<noteq> to \<and> amount \<le> asset_Balance s from assetID"
  then obtain s1 where b: "subtractBalance from assetID amount s = (None, s1)"
    using raw.debit_succeeds [of amount s "from" assetID] by (metis prod.collapse word_le_nat_alt)
  note B = subtractBalance_cases(2) [OF b refl]
  have "total_balance s assetID < 2 ^ 64"
    using asset_okD(2) [OF assms(1-3)] by (simp add: issued_ok_def)
  moreover have "asset_Balance s1 to assetID = asset_Balance s to assetID"
    using B g by (auto simp: upd2_def)
  moreover have "total_balance s1 assetID + unat amount = total_balance s assetID"
    using B by (metis (full_types))
  ultimately have "unat (asset_Balance s to assetID) + unat amount < 2 ^ 64"
    using balance_le_total [of s1 to assetID] by simp
  with g have "fst (move_funds subtractBalance addBalance id assetID from to amount s) = None"
    by (intro raw.move_succeeds) (simp_all add: word_le_nat_alt)
  with g assms show "fst (Transfer assetID from to amount s) = None" by (simp add: Transfer_move)
qed

end
