(* ===== verification/Fees.thy ===== *)
theory Fees
  imports Tx_Codec
begin

text \<open>
  Package \<open>fees\<close>: gas, minimum fee, quotes and the fee check of a transaction envelope. Main
  results: what a passing check means for gas and fee, that the quote agrees with the check, and
  that attaching keys and signatures does not change the gas.
\<close>

record quote =
  q_GasUnits :: u64
  q_TxBytes :: u64
  q_MinFee :: u64
  q_RequestedFee :: u64
  q_FeeAssetID :: string
  q_Sufficient :: bool

definition ErrFeeTooLow :: err where
  "ErrFeeTooLow = Err ''transaction fee below policy minimum''"

definition ErrGasLimit :: err where
  "ErrGasLimit = Err ''transaction exceeds gas limit''"

definition baseGas :: "transaction \<Rightarrow> fee_params \<Rightarrow> err + u64" where
  "baseGas tx params =
    (if TxType tx = TxTypeTransfer then
       (if EffectiveAssetID tx = NativeAssetID then Inr (fp_BaseGasTransfer params)
        else Inr (fp_BaseGasAssetTransfer params))
     else if TxType tx = TxTypeStakeLock then Inr (fp_BaseGasStakeLock params)
     else if TxType tx = TxTypeStakeUnlock then Inr (fp_BaseGasStakeUnlock params)
     else if TxType tx = TxTypeAssetCreate then Inr (fp_BaseGasAssetCreate params)
     else if TxType tx = TxTypeAssetMint then Inr (fp_BaseGasAssetMint params)
     else if TxType tx = TxTypeAssetBurn then Inr (fp_BaseGasAssetBurn params)
     else Inl (Err ''unsupported fee transaction type: %s''))"

text \<open>
  The results are (gas, bytes). On the gas-limit error the code also returns the bytes, which no
  caller reads.
\<close>

definition GasUsed :: "transaction \<Rightarrow> network_config \<Rightarrow> err + u64 \<times> u64" where
  "GasUsed tx profile =
    (if tx_Coinbase tx \<or> tx_ProtocolVersion tx < TxVersionAsset then Inr (0, 0)
     else let params = nc_Fee profile in
     if \<not> fp_Enabled params then Inr (0, 0)
     else case baseGas tx params of
       Inl e \<Rightarrow> Inl e
     | Inr base \<Rightarrow>
         (case CanonicalSigningBytesWithChainID (tx\<lparr>tx_PublicKey := []\<rparr>) (nc_ChainID profile) of
            Inl e \<Rightarrow> Inl (Wrap ''fee estimation encoding failed'' e)
          | Inr raw \<Rightarrow>
              let bytesPerGas = (if fp_BytesPerGas params = 0 then 32 else fp_BytesPerGas params);
                  bytes = of_nat (length raw);
                  bytesGas = (if bytes mod bytesPerGas \<noteq> 0 then bytes div bytesPerGas + 1
                             else bytes div bytesPerGas) in
              if base > max_u64 - bytesGas then Inl (Err ''gas calculation overflow'')
              else if fp_MaxGasPerTx params > 0 \<and> base + bytesGas > fp_MaxGasPerTx params then
                Inl (Wrap '': got %d want <= %d'' ErrGasLimit)
              else Inr (base + bytesGas, bytes)))"

definition MinimumFee :: "transaction \<Rightarrow> network_config \<Rightarrow> err + u64" where
  "MinimumFee tx profile =
    (if tx_Coinbase tx \<or> tx_ProtocolVersion tx < TxVersionAsset \<or> \<not> fp_Enabled (nc_Fee profile) then
       Inr 0
     else case GasUsed tx profile of
       Inl e \<Rightarrow> Inl e
     | Inr (gas, _) \<Rightarrow>
         let price = fp_MinGasPrice (nc_Fee profile) in
         if price \<noteq> 0 \<and> gas > max_u64 div price then Inl (Err ''minimum fee overflow'')
         else Inr (if gas * price < fp_MinFee (nc_Fee profile) then fp_MinFee (nc_Fee profile)
                   else gas * price))"

definition Estimate :: "transaction \<Rightarrow> network_config \<Rightarrow> err + quote" where
  "Estimate tx profile =
    (case GasUsed tx profile of
       Inl e \<Rightarrow> Inl e
     | Inr (gas, bytes) \<Rightarrow>
         (case MinimumFee tx profile of
            Inl e \<Rightarrow> Inl e
          | Inr minFee \<Rightarrow>
              Inr \<lparr>q_GasUnits = gas, q_TxBytes = bytes, q_MinFee = minFee, q_RequestedFee = tx_Fee tx,
                   q_FeeAssetID = FeeAssetID, q_Sufficient = (tx_Fee tx \<ge> minFee)\<rparr>))"

definition fees_Validate :: "transaction \<Rightarrow> network_config \<Rightarrow> err option" where
  "fees_Validate tx profile =
    (if tx_Coinbase tx \<or> tx_ProtocolVersion tx < TxVersionAsset \<or> \<not> fp_Enabled (nc_Fee profile) then
       None
     else case GasUsed tx profile of
       Inl e \<Rightarrow> Some e
     | Inr _ \<Rightarrow>
         (case MinimumFee tx profile of
            Inl e \<Rightarrow> Some e
          | Inr minFee \<Rightarrow>
              if tx_Fee tx < minFee then Some (Wrap '': got %d want >= %d %s'' ErrFeeTooLow)
              else None))"

section \<open>Correctness\<close>

lemma signing_bytes_ignore:
  "CanonicalSigningBytesV3 (tx\<lparr>tx_Signature := s\<rparr>) = CanonicalSigningBytesV3 tx"
  "CanonicalSigningBytesV3 (tx\<lparr>tx_FeePayerPublicKey := s\<rparr>) = CanonicalSigningBytesV3 tx"
  "CanonicalSigningBytesV3 (tx\<lparr>tx_FeePayerSignature := s\<rparr>) = CanonicalSigningBytesV3 tx"
  "CanonicalSigningBytesV3 (tx\<lparr>tx_ID := s\<rparr>) = CanonicalSigningBytesV3 tx"
  "CanonicalSigningBytes (tx\<lparr>tx_Signature := s\<rparr>) = CanonicalSigningBytes tx"
  "CanonicalSigningBytes (tx\<lparr>tx_FeePayerPublicKey := s\<rparr>) = CanonicalSigningBytes tx"
  "CanonicalSigningBytes (tx\<lparr>tx_FeePayerSignature := s\<rparr>) = CanonicalSigningBytes tx"
  "CanonicalSigningBytes (tx\<lparr>tx_ID := s\<rparr>) = CanonicalSigningBytes tx"
  by (simp_all add: CanonicalSigningBytesV3_def CanonicalSigningBytes_def)

lemma chain_bytes_ignore:
  "CanonicalSigningBytesWithChainID (tx\<lparr>tx_Signature := s\<rparr>) c = CanonicalSigningBytesWithChainID tx c"
  "CanonicalSigningBytesWithChainID (tx\<lparr>tx_FeePayerPublicKey := s\<rparr>) c = CanonicalSigningBytesWithChainID tx c"
  "CanonicalSigningBytesWithChainID (tx\<lparr>tx_FeePayerSignature := s\<rparr>) c = CanonicalSigningBytesWithChainID tx c"
  "CanonicalSigningBytesWithChainID (tx\<lparr>tx_ID := s\<rparr>) c = CanonicalSigningBytesWithChainID tx c"
  by (simp_all only: CanonicalSigningBytesWithChainID_def signing_bytes_ignore tx_ProtocolVersion_upd)

lemma swap_public_key:
  "tx\<lparr>tx_PublicKey := k, tx_PublicKey := []\<rparr> = tx\<lparr>tx_PublicKey := []\<rparr>"
  "tx\<lparr>tx_Signature := s, tx_PublicKey := []\<rparr> = tx\<lparr>tx_PublicKey := [], tx_Signature := s\<rparr>"
  "tx\<lparr>tx_FeePayerPublicKey := s, tx_PublicKey := []\<rparr> = tx\<lparr>tx_PublicKey := [], tx_FeePayerPublicKey := s\<rparr>"
  "tx\<lparr>tx_FeePayerSignature := s, tx_PublicKey := []\<rparr> = tx\<lparr>tx_PublicKey := [], tx_FeePayerSignature := s\<rparr>"
  "tx\<lparr>tx_ID := s, tx_PublicKey := []\<rparr> = tx\<lparr>tx_PublicKey := [], tx_ID := s\<rparr>"
  by simp_all

lemma baseGas_ignore:
  "baseGas (tx\<lparr>tx_PublicKey := s\<rparr>) p = baseGas tx p"
  "baseGas (tx\<lparr>tx_Signature := s\<rparr>) p = baseGas tx p"
  "baseGas (tx\<lparr>tx_FeePayerPublicKey := s\<rparr>) p = baseGas tx p"
  "baseGas (tx\<lparr>tx_FeePayerSignature := s\<rparr>) p = baseGas tx p"
  "baseGas (tx\<lparr>tx_ID := s\<rparr>) p = baseGas tx p"
  by (simp_all only: baseGas_def TxType_upd Effective_upd)

lemma coinbase_ignore:
  "tx_Coinbase (tx\<lparr>tx_PublicKey := s\<rparr>) = tx_Coinbase tx"
  "tx_Coinbase (tx\<lparr>tx_Signature := s\<rparr>) = tx_Coinbase tx"
  "tx_Coinbase (tx\<lparr>tx_FeePayerPublicKey := s\<rparr>) = tx_Coinbase tx"
  "tx_Coinbase (tx\<lparr>tx_FeePayerSignature := s\<rparr>) = tx_Coinbase tx"
  "tx_Coinbase (tx\<lparr>tx_ID := s\<rparr>) = tx_Coinbase tx"
  by simp_all

lemma GasUsed_ignores_keys:
  "GasUsed (tx\<lparr>tx_PublicKey := s\<rparr>) p = GasUsed tx p"
  "GasUsed (tx\<lparr>tx_Signature := s\<rparr>) p = GasUsed tx p"
  "GasUsed (tx\<lparr>tx_FeePayerPublicKey := s\<rparr>) p = GasUsed tx p"
  "GasUsed (tx\<lparr>tx_FeePayerSignature := s\<rparr>) p = GasUsed tx p"
  "GasUsed (tx\<lparr>tx_ID := s\<rparr>) p = GasUsed tx p"
  by (simp_all only: GasUsed_def swap_public_key chain_bytes_ignore baseGas_ignore
      tx_ProtocolVersion_upd coinbase_ignore)

lemma GasUsed_bound:
  assumes "GasUsed tx p = Inr (gas, bytes)" and "fp_MaxGasPerTx (nc_Fee p) > 0"
  shows "gas \<le> fp_MaxGasPerTx (nc_Fee p)"
  using assms by (auto simp: GasUsed_def Let_def split: if_splits sum.splits)

text \<open>
  The minimum fee is exact: when it is computed at all, it is the larger of the policy's minimum
  and gas times the gas price as natural numbers, so the 64-bit product never wraps.
\<close>

theorem MinimumFee_exact:
  assumes "MinimumFee tx p = Inr m" and "GasUsed tx p = Inr (gas, bytes)"
    and "\<not> tx_Coinbase tx" and "tx_ProtocolVersion tx \<ge> TxVersionAsset" and "fp_Enabled (nc_Fee p)"
  shows "unat m = max (unat (fp_MinFee (nc_Fee p))) (unat gas * unat (fp_MinGasPrice (nc_Fee p)))"
proof -
  let ?pr = "fp_MinGasPrice (nc_Fee p)"
  have np: "?pr = 0 \<or> gas \<le> max_u64 div ?pr"
    and m: "m = (if gas * ?pr < fp_MinFee (nc_Fee p) then fp_MinFee (nc_Fee p) else gas * ?pr)"
    using assms by (auto simp: MinimumFee_def Let_def not_less split: if_splits)
  have "unat gas * unat ?pr \<le> 18446744073709551615"
  proof (cases "?pr = 0")
    case False
    with np have "unat gas \<le> 18446744073709551615 div unat ?pr"
      by (simp add: word_le_nat_alt unat_div)
    then have "unat gas * unat ?pr \<le> (18446744073709551615 div unat ?pr) * unat ?pr" by simp
    also have "\<dots> \<le> 18446744073709551615" by simp
    finally show ?thesis .
  qed simp
  then have "unat (gas * ?pr) = unat gas * unat ?pr" by (simp add: unat_word_ariths)
  with m show ?thesis by (auto simp: word_less_nat_alt max_def)
qed

lemma fees_Validate_None_iff:
  assumes "\<not> tx_Coinbase tx" and "tx_ProtocolVersion tx \<ge> TxVersionAsset" and "fp_Enabled (nc_Fee p)"
  shows "fees_Validate tx p = None \<longleftrightarrow>
    (\<exists>gas bytes m. GasUsed tx p = Inr (gas, bytes) \<and> MinimumFee tx p = Inr m \<and> m \<le> tx_Fee tx)"
  using assms by (auto simp: fees_Validate_def not_less split: sum.splits)

text \<open>
  A quote agrees with the fee check: for a version 3 transaction on a network with fees, the
  envelope passes the fee check exactly when its estimate succeeds and reports the offered fee as
  sufficient.
\<close>

theorem Estimate_agrees:
  assumes "\<not> tx_Coinbase tx" and "tx_ProtocolVersion tx \<ge> TxVersionAsset" and "fp_Enabled (nc_Fee p)"
  shows "fees_Validate tx p = None \<longleftrightarrow> (\<exists>q. Estimate tx p = Inr q \<and> q_Sufficient q)"
  using assms
  by (auto simp: fees_Validate_None_iff Estimate_def split: sum.splits)

end
