(* ===== verification/Mature_Ledger.thy ===== *)
theory Mature_Ledger
  imports Ledger Staking Asset_State Fees
begin

text \<open>
  \<open>ledger/maturity.go\<close> and \<open>ledger/asset_execution.go\<close>: the ledger of the node. It keeps confirmed and
  mature native balances and nonces per account, the coinbase credits that are not mature yet, the
  stakes and the asset state, in which the native asset mirrors the confirmed balances.

  Reading a stake summary refreshes the released stakes of the receiver, so the validation methods
  return the ledger as well. The pair (error, ledger) of a method is the error and the receiver
  after the call. This theory has the definitions; the invariants are in \<open>Ledger_Invariants\<close>.
\<close>

definition ErrImmatureBalance :: err where
  "ErrImmatureBalance = Err ''spends immature coinbase''"

record balance_details =
  bd_Address :: string
  bd_Confirmed :: u64
  bd_Mature :: u64
  bd_Immature :: u64
  bd_Spendable :: u64
  bd_PendingOutgoing :: u64
  bd_PendingIncoming :: u64
  bd_ActiveStake :: u64
  bd_UnlockingStake :: u64
  bd_ReleasedStake :: u64
  bd_PendingStakeLock :: u64
  bd_CoinbaseMaturity :: u64
  bd_CurrentHeight :: u64

record mature_account =
  ma_Confirmed :: u64
  ma_Mature :: u64
  ma_Nonce :: u64

record coinbase_credit =
  cb_Address :: string
  cb_Amount :: u64
  cb_Height :: u64
  cb_Matured :: bool

record mature_ledger =
  ml_accounts :: "(string, mature_account) fmap"
  ml_coinbases :: "coinbase_credit list"
  ml_maturity :: u64
  ml_currentHeight :: u64
  ml_stakes :: stake_state
  ml_assets :: asset_state
  ml_params :: consensus_params
  ml_profile :: network_config

record state_account =
  sa_Address :: string
  sa_Confirmed :: u64
  sa_Mature :: u64
  sa_Nonce :: u64

record state_coinbase =
  sc_Address :: string
  sc_Amount :: u64
  sc_Height :: u64

definition zero_mature :: mature_account where
  "zero_mature = \<lparr>ma_Confirmed = 0, ma_Mature = 0, ma_Nonce = 0\<rparr>"

abbreviation ml_account :: "mature_ledger \<Rightarrow> string \<Rightarrow> mature_account" where
  "ml_account l address \<equiv> get_or zero_mature (ml_accounts l) address"

abbreviation set_account :: "string \<Rightarrow> mature_account \<Rightarrow> mature_ledger \<Rightarrow> mature_ledger" where
  "set_account address a l \<equiv> l\<lparr>ml_accounts := fmupd address a (ml_accounts l)\<rparr>"

section \<open>Construction and observers\<close>

definition NewMatureWithProfile :: "consensus_params \<Rightarrow> network_config \<Rightarrow> mature_ledger" where
  "NewMatureWithProfile params profile =
    (let profile = (if nc_Name profile = [] then Localnet else profile) in
     \<lparr>ml_accounts = fmempty, ml_coinbases = [], ml_maturity = cp_CoinbaseMaturity params,
      ml_currentHeight = 0, ml_stakes = NewStakeState (cp_Staking params), ml_assets = NewAssetState,
      ml_params = params, ml_profile = profile\<rparr>)"

definition NewMature :: "consensus_params \<Rightarrow> mature_ledger" where
  "NewMature params = NewMatureWithProfile params Localnet"

definition NewMatureFromState ::
  "consensus_params \<Rightarrow> network_config \<Rightarrow> u64 \<Rightarrow> state_account list \<Rightarrow> stake_record list
     \<Rightarrow> state_coinbase list \<Rightarrow> mature_ledger" where
  "NewMatureFromState params profile height accounts stakes coinbases =
    (let l = NewMatureWithProfile params profile in
     l\<lparr>ml_currentHeight := height,
       ml_accounts := fold (\<lambda>a. fmupd (sa_Address a)
          \<lparr>ma_Confirmed = sa_Confirmed a, ma_Mature = sa_Mature a, ma_Nonce = sa_Nonce a\<rparr>)
          accounts (ml_accounts l),
       ml_stakes := fold ApplyRecord stakes (ml_stakes l),
       ml_coinbases := ml_coinbases l @ map (\<lambda>c. \<lparr>cb_Address = sc_Address c, cb_Amount = sc_Amount c,
          cb_Height = sc_Height c, cb_Matured = False\<rparr>) coinbases\<rparr>)"

definition StateAccounts :: "mature_ledger \<Rightarrow> state_account list" where
  "StateAccounts l =
    map (\<lambda>(address, a). \<lparr>sa_Address = address, sa_Confirmed = ma_Confirmed a, sa_Mature = ma_Mature a,
           sa_Nonce = ma_Nonce a\<rparr>) (sorted_list_of_fmap (ml_accounts l))"

definition StateStakes :: "mature_ledger \<Rightarrow> stake_record list \<times> mature_ledger" where
  "StateStakes l =
    (case Records (ml_currentHeight l) (ml_stakes l) of (rs, st) \<Rightarrow> (rs, l\<lparr>ml_stakes := st\<rparr>))"

definition AssetModelEnabled :: "mature_ledger \<Rightarrow> bool" where
  "AssetModelEnabled l \<longleftrightarrow> nc_TxVersion (ml_profile l) \<ge> TxVersionAsset"

definition StateAssetDefinitions :: "mature_ledger \<Rightarrow> asset_definition list" where
  "StateAssetDefinitions l =
    (if nc_TxVersion (ml_profile l) < TxVersionAsset then [] else Definitions (ml_assets l))"

definition StateAssetBalances :: "mature_ledger \<Rightarrow> balance_entry list" where
  "StateAssetBalances l =
    (if nc_TxVersion (ml_profile l) < TxVersionAsset then [] else Balances (ml_assets l))"

definition FeePoolBalance :: "mature_ledger \<Rightarrow> u64" where
  "FeePoolBalance l =
    (if \<not> AssetModelEnabled l then 0 else asset_Balance (ml_assets l) FeeCollectorAddress NativeAssetID)"

definition StateCoinbases :: "mature_ledger \<Rightarrow> state_coinbase list" where
  "StateCoinbases l =
    map (\<lambda>c. \<lparr>sc_Address = cb_Address c, sc_Amount = cb_Amount c, sc_Height = cb_Height c\<rparr>)
      (filter (\<lambda>c. \<not> cb_Matured c) (ml_coinbases l))"

definition mature_Balance :: "mature_ledger \<Rightarrow> string \<Rightarrow> u64" where
  "mature_Balance l address = ma_Confirmed (ml_account l address)"

definition MatureBalance :: "mature_ledger \<Rightarrow> string \<Rightarrow> u64" where
  "MatureBalance l address = ma_Mature (ml_account l address)"

definition mature_Nonce :: "mature_ledger \<Rightarrow> string \<Rightarrow> u64" where
  "mature_Nonce l address = ma_Nonce (ml_account l address)"

definition TotalMature :: "mature_ledger \<Rightarrow> u64" where
  "TotalMature l = range_fm (\<lambda>_ a acc. AddCap acc (ma_Mature a)) (ml_accounts l) 0"

text \<open>\<open>Clone\<close>: the copy, and the receiver, whose stakes were refreshed by reading the records.\<close>

definition mature_Clone :: "mature_ledger \<Rightarrow> mature_ledger \<times> mature_ledger" where
  "mature_Clone l =
    (case Records (ml_currentHeight l) (ml_stakes l) of
       (rs, st) \<Rightarrow>
         (\<lparr>ml_accounts = range_fm fmupd (ml_accounts l) fmempty, ml_coinbases = ml_coinbases l,
           ml_maturity = ml_maturity l, ml_currentHeight = ml_currentHeight l,
           ml_stakes = fold ApplyRecord rs (NewStakeState (cp_Staking (ml_params l))),
           ml_assets = asset_Clone (ml_assets l), ml_params = ml_params l, ml_profile = ml_profile l\<rparr>,
          l\<lparr>ml_stakes := st\<rparr>))"

section \<open>Coinbase maturity\<close>

text \<open>One iteration of the loop of \<open>matureCoinbases\<close> over the pending list and the accounts.\<close>

definition mature_step ::
  "u64 \<Rightarrow> u64 \<Rightarrow> coinbase_credit \<Rightarrow> coinbase_credit list \<times> (string, mature_account) fmap
     \<Rightarrow> coinbase_credit list \<times> (string, mature_account) fmap" where
  "mature_step maturity currentHeight credit = (\<lambda>(pending, accounts).
    if cb_Matured credit then (pending, accounts)
    else case Add (cb_Height credit) maturity of
      Inl _ \<Rightarrow> (pending @ [credit], accounts)
    | Inr maturityHeight \<Rightarrow>
        if currentHeight < maturityHeight then (pending @ [credit], accounts)
        else let acct = get_or zero_mature accounts (cb_Address credit) in
          case Add (ma_Mature acct) (cb_Amount credit) of
            Inl _ \<Rightarrow> (pending @ [credit], accounts)
          | Inr mature \<Rightarrow> (pending, fmupd (cb_Address credit) (acct\<lparr>ma_Mature := mature\<rparr>) accounts))"

definition matureCoinbases :: "u64 \<Rightarrow> mature_ledger \<Rightarrow> mature_ledger" where
  "matureCoinbases currentHeight l =
    (case fold (mature_step (ml_maturity l) currentHeight) (ml_coinbases l) ([], ml_accounts l) of
       (pending, accounts) \<Rightarrow> l\<lparr>ml_coinbases := pending, ml_accounts := accounts\<rparr>)"

section \<open>Native spends\<close>

text \<open>The locked stake of an address: the two totals of \<open>AddressSummary\<close> added.\<close>

definition lockedStake :: "string \<Rightarrow> mature_ledger \<Rightarrow> (err + u64) \<times> mature_ledger" where
  "lockedStake address l =
    (case AddressSummary address (ml_currentHeight l) (ml_stakes l) of
       ((active, unlocking, _), st) \<Rightarrow>
         ((case Add active unlocking of
             Inl _ \<Rightarrow> Inl (Err ''locked stake total overflow'')
           | Inr lck \<Rightarrow> Inr lck), l\<lparr>ml_stakes := st\<rparr>))"

definition validateNativeSpend :: "string \<Rightarrow> u64 \<Rightarrow> mature_ledger \<Rightarrow> err option \<times> mature_ledger" where
  "validateNativeSpend address amount l =
    (if amount = 0 then (None, l)
     else let account = ml_account l address in
     if ma_Confirmed account < amount then (Some (Err ''insufficient native dIDR balance''), l)
     else if ma_Mature account < amount then (Some ErrImmatureBalance, l)
     else case lockedStake address l of
       (Inl e, l') \<Rightarrow> (Some e, l')
     | (Inr lck, l') \<Rightarrow>
         if ma_Mature account < lck \<or> ma_Mature account - lck < amount then
           (Some (Err ''invalid transaction: spends locked stake''), l')
         else if asset_Balance (ml_assets l') address NativeAssetID < amount then
           (Some (Err ''native dIDR asset balance insufficient''), l')
         else (None, l'))"

definition spendNative :: "string \<Rightarrow> u64 \<Rightarrow> mature_ledger \<Rightarrow> err option \<times> mature_ledger" where
  "spendNative address amount l =
    (case validateNativeSpend address amount l of
       (Some e, l1) \<Rightarrow> (Some e, l1)
     | (None, l1) \<Rightarrow>
         let account = ml_account l1 address in
         case Sub (ma_Confirmed account) amount of
           Inl _ \<Rightarrow> (Some (Err ''native dIDR balance underflow''), l1)
         | Inr confirmed \<Rightarrow>
         (case Sub (ma_Mature account) amount of
            Inl _ \<Rightarrow> (Some ErrImmatureBalance, l1)
          | Inr mature \<Rightarrow>
          (case Debit address NativeAssetID amount (ml_assets l1) of
             (Some e, as) \<Rightarrow> (Some e, l1\<lparr>ml_assets := as\<rparr>)
           | (None, as) \<Rightarrow>
               (None, set_account address (account\<lparr>ma_Confirmed := confirmed, ma_Mature := mature\<rparr>)
                  (l1\<lparr>ml_assets := as\<rparr>)))))"

definition receiveNative :: "string \<Rightarrow> u64 \<Rightarrow> mature_ledger \<Rightarrow> err option \<times> mature_ledger" where
  "receiveNative address amount l =
    (if amount = 0 then (None, l)
     else let account = ml_account l address in
     case Add (ma_Confirmed account) amount of
       Inl e \<Rightarrow> (Some (Wrap ''recipient native dIDR balance overflow'' e), l)
     | Inr confirmed \<Rightarrow>
     (case Add (ma_Mature account) amount of
        Inl e \<Rightarrow> (Some (Wrap ''recipient mature dIDR balance overflow'' e), l)
      | Inr mature \<Rightarrow>
      (case Credit address NativeAssetID amount (ml_assets l) of
         (Some e, as) \<Rightarrow> (Some e, l\<lparr>ml_assets := as\<rparr>)
       | (None, as) \<Rightarrow>
           (None, set_account address (account\<lparr>ma_Confirmed := confirmed, ma_Mature := mature\<rparr>)
              (l\<lparr>ml_assets := as\<rparr>)))))"

definition chargeNativeFee :: "string \<Rightarrow> u64 \<Rightarrow> mature_ledger \<Rightarrow> err option \<times> mature_ledger" where
  "chargeNativeFee payer fee l =
    (if fee = 0 then (None, l)
     else case spendNative payer fee l of
       (Some e, l1) \<Rightarrow> (Some e, l1)
     | (None, l1) \<Rightarrow>
         (case Credit FeeCollectorAddress NativeAssetID fee (ml_assets l1) of
            (None, as) \<Rightarrow> (None, l1\<lparr>ml_assets := as\<rparr>)
          | (Some e, as) \<Rightarrow>
              (case receiveNative payer fee (l1\<lparr>ml_assets := as\<rparr>) of
                 (Some r, l2) \<Rightarrow> (Some (Wrap ''fee collector credit failed: %v; payer restore failed'' r), l2)
               | (None, l2) \<Rightarrow> (Some (Wrap ''fee collector credit failed'' e), l2))))"

definition settleFees :: "string \<Rightarrow> mature_ledger \<Rightarrow> err option \<times> mature_ledger" where
  "settleFees miner l =
    (let fee = asset_Balance (ml_assets l) FeeCollectorAddress NativeAssetID in
     if fee = 0 then (None, l)
     else if miner = [] then (Some (Err ''miner address is required to settle fees''), l)
     else case ValidateAddressForNetwork miner (ml_profile l) of
       Some e \<Rightarrow> (Some (Wrap ''invalid fee recipient'' e), l)
     | None \<Rightarrow>
         (case Debit FeeCollectorAddress NativeAssetID fee (ml_assets l) of
            (Some e, as) \<Rightarrow> (Some e, l\<lparr>ml_assets := as\<rparr>)
          | (None, as) \<Rightarrow>
              (case receiveNative miner fee (l\<lparr>ml_assets := as\<rparr>) of
                 (None, l2) \<Rightarrow> (None, l2)
               | (Some e, l2) \<Rightarrow>
                   (Some (Wrap ''fee settlement failed'' e),
                    l2\<lparr>ml_assets := snd (Credit FeeCollectorAddress NativeAssetID fee (ml_assets l2))\<rparr>))))"

section \<open>Validation of v3 transactions\<close>

definition validateFeePolicy :: "transaction \<Rightarrow> mature_ledger \<Rightarrow> err option" where
  "validateFeePolicy tx l = fees_Validate tx (ml_profile l)"

definition v3_identity :: "ext \<Rightarrow> transaction \<Rightarrow> mature_ledger \<Rightarrow> err option" where
  "v3_identity X tx l =
    (case AddressFromPublicKeyForNetwork X (tx_PublicKey tx) (ml_profile l) of
       Inl _ \<Rightarrow> Some (Err ''public key does not match sender address'')
     | Inr address \<Rightarrow>
     if address \<noteq> tx_From tx then Some (Err ''public key does not match sender address'')
     else case CalculateIDForChainID tx (nc_ChainID (ml_profile l)) of
       Inl e \<Rightarrow> Some e
     | Inr expectedID \<Rightarrow>
     if tx_ID tx \<noteq> expectedID then Some (Err ''transaction id mismatch'')
     else if TxType tx = TxTypeAssetCreate \<and> tx_AssetID tx \<noteq> DerivedID (tx_ID tx) then
       Some (Err ''asset create id mismatch: got %s want %s'')
     else case SigningBytesWithChainID tx (nc_ChainID (ml_profile l)) of
       Inl e \<Rightarrow> Some e
     | Inr signingBytes \<Rightarrow>
     if \<not> VerifyHex X (tx_PublicKey tx) (tx_Signature tx) signingBytes then
       Some (Err ''invalid transaction signature'')
     else ValidateFeePayerAuthorization X tx (ml_profile l))"

definition v3_shape :: "ext \<Rightarrow> transaction \<Rightarrow> mature_ledger \<Rightarrow> err option" where
  "v3_shape X tx l =
    (case validateFeePolicy tx l of
       Some e \<Rightarrow> Some e
     | None \<Rightarrow>
     (case ValidateAssetEnvelope tx of
       Some e \<Rightarrow> Some e
     | None \<Rightarrow>
     if tx_AssetID tx = [] \<and> TxType tx = TxTypeTransfer then
       Some (Err ''asset transfer asset id is required'')
     else case ValidateAddressForNetwork (tx_From tx) (ml_profile l) of
       Some e \<Rightarrow> Some (Wrap ''invalid sender address'' e)
     | None \<Rightarrow>
     (case (if TxType tx = TxTypeTransfer \<or> TxType tx = TxTypeAssetMint then
              (case ValidateAddressForNetwork (tx_To tx) (ml_profile l) of
                 Some e \<Rightarrow> Some (Wrap ''invalid recipient address'' e) | None \<Rightarrow> None)
            else if TxType tx = TxTypeAssetBurn then
              (case ValidateAddressForNetwork (tx_From tx) (ml_profile l) of
                 Some e \<Rightarrow> Some (Wrap ''invalid burn owner'' e) | None \<Rightarrow> None)
            else None) of
       Some e \<Rightarrow> Some e
     | None \<Rightarrow> v3_identity X tx l)))"

definition v3_transfer_check :: "transaction \<Rightarrow> mature_ledger \<Rightarrow> err option \<times> mature_ledger" where
  "v3_transfer_check tx l =
    (if IsNative (EffectiveAssetID tx) then
       (case (if EffectiveFeePayer tx = tx_From tx then Add (tx_Amount tx) (tx_Fee tx)
              else Inr (tx_Amount tx)) of
          Inl e \<Rightarrow> (Some (Wrap ''native dIDR transfer cost overflow'' e), l)
        | Inr cost \<Rightarrow>
        (case validateNativeSpend (tx_From tx) cost l of
           (Some e, l1) \<Rightarrow> (Some e, l1)
         | (None, l1) \<Rightarrow>
         (case (if EffectiveFeePayer tx \<noteq> tx_From tx then
                  (case validateNativeSpend (EffectiveFeePayer tx) (tx_Fee tx) l1 of
                     (Some e, l2) \<Rightarrow> (Some (Wrap ''fee payer'' e), l2)
                   | (None, l2) \<Rightarrow> (None, l2))
                else (None, l1)) of
            (Some e, l2) \<Rightarrow> (Some e, l2)
          | (None, l2) \<Rightarrow>
              if asset_Balance (ml_assets l2) (tx_From tx) NativeAssetID < tx_Amount tx then
                (Some (Err ''native dIDR asset balance insufficient''), l2)
              else (None, l2))))
     else if asset_Balance (ml_assets l) (tx_From tx) (EffectiveAssetID tx) < tx_Amount tx then
       (Some ErrInsufficientBalance, l)
     else validateNativeSpend (EffectiveFeePayer tx) (tx_Fee tx) l)"

definition v3_create_check :: "transaction \<Rightarrow> mature_ledger \<Rightarrow> err option \<times> mature_ledger" where
  "v3_create_check tx l =
    (if asset_Definition (ml_assets l) (tx_AssetID tx) \<noteq> None then (Some ErrAssetExists, l)
     else case ValidateDefinition \<lparr>def_ID = tx_AssetID tx, def_Name = tx_AssetName tx,
         def_Symbol = tx_AssetSymbol tx, def_Decimals = tx_AssetDecimals tx, def_Kind = KindFungible,
         def_Issuer = tx_From tx, def_MaxSupply = tx_AssetMaxSupply tx, def_TotalSupply = 0,
         def_Mintable = tx_AssetMintable tx, def_Burnable = tx_AssetBurnable tx,
         def_Pausable = tx_AssetPausable tx, def_Permissioned = tx_AssetPermissioned tx,
         def_Status = StatusAssetActive\<rparr> of
       Some e \<Rightarrow> (Some e, l)
     | None \<Rightarrow> validateNativeSpend (EffectiveFeePayer tx) (tx_Fee tx) l)"

definition v3_mint_check :: "transaction \<Rightarrow> mature_ledger \<Rightarrow> err option \<times> mature_ledger" where
  "v3_mint_check tx l =
    (case asset_Definition (ml_assets l) (tx_AssetID tx) of
       None \<Rightarrow> (Some ErrAssetNotFound, l)
     | Some d \<Rightarrow>
     if IsNative (def_ID d) then
       (Some (Err ''native dIDR cannot be minted through asset operation''), l)
     else if def_Issuer d \<noteq> tx_From tx then (Some ErrUnauthorized, l)
     else if \<not> def_Mintable d then (Some (Err ''asset is not mintable''), l)
     else if def_Status d = StatusFrozen then (Some ErrAssetFrozen, l)
     else case Add (def_TotalSupply d) (tx_Amount tx) of
       Inl e \<Rightarrow> (Some (Wrap ''asset supply overflow'' e), l)
     | Inr newSupply \<Rightarrow>
     if def_MaxSupply d > 0 \<and> newSupply > def_MaxSupply d then
       (Some (Err ''asset max supply exceeded''), l)
     else case Add (asset_Balance (ml_assets l) (tx_To tx) (tx_AssetID tx)) (tx_Amount tx) of
       Inl e \<Rightarrow> (Some (Wrap ''asset balance overflow'' e), l)
     | Inr _ \<Rightarrow> validateNativeSpend (EffectiveFeePayer tx) (tx_Fee tx) l)"

definition v3_burn_check :: "transaction \<Rightarrow> mature_ledger \<Rightarrow> err option \<times> mature_ledger" where
  "v3_burn_check tx l =
    (case asset_Definition (ml_assets l) (tx_AssetID tx) of
       None \<Rightarrow> (Some ErrAssetNotFound, l)
     | Some d \<Rightarrow>
     if IsNative (def_ID d) then
       (Some (Err ''native dIDR cannot be burned through asset operation''), l)
     else if \<not> def_Burnable d then (Some (Err ''asset is not burnable''), l)
     else if def_Status d = StatusFrozen then (Some ErrAssetFrozen, l)
     else if asset_Balance (ml_assets l) (tx_From tx) (tx_AssetID tx) < tx_Amount tx then
       (Some ErrInsufficientBalance, l)
     else if def_TotalSupply d < tx_Amount tx then
       (Some (Err ''asset total supply underflow''), l)
     else validateNativeSpend (EffectiveFeePayer tx) (tx_Fee tx) l)"

definition validateAssetTransactionV3 ::
  "ext \<Rightarrow> transaction \<Rightarrow> mature_ledger \<Rightarrow> err option \<times> mature_ledger" where
  "validateAssetTransactionV3 X tx l =
    (case v3_shape X tx l of
       Some e \<Rightarrow> (Some e, l)
     | None \<Rightarrow>
     (case Add (ma_Nonce (ml_account l (tx_From tx))) 1 of
        Inl _ \<Rightarrow> (Some (Err ''account nonce overflow''), l)
      | Inr expectedNonce \<Rightarrow>
      if tx_Nonce tx \<noteq> expectedNonce then (Some (Err ''invalid account nonce: got %d want %d''), l)
      else if TxType tx = TxTypeTransfer then v3_transfer_check tx l
      else if TxType tx = TxTypeAssetCreate then v3_create_check tx l
      else if TxType tx = TxTypeAssetMint then v3_mint_check tx l
      else if TxType tx = TxTypeAssetBurn then v3_burn_check tx l
      else (Some (Err ''unsupported v3 asset transaction type: %s''), l)))"

section \<open>Execution of v3 transactions\<close>

definition on_assets :: "(asset_state \<Rightarrow> err option \<times> asset_state) \<Rightarrow> mature_ledger \<Rightarrow> err option \<times> mature_ledger" where
  "on_assets op l = (case op (ml_assets l) of (r, as) \<Rightarrow> (r, l\<lparr>ml_assets := as\<rparr>))"

definition and_then :: "('s \<Rightarrow> err option \<times> 's) \<Rightarrow> ('s \<Rightarrow> err option \<times> 's) \<Rightarrow> 's \<Rightarrow> err option \<times> 's" where
  "and_then f g s = (case f s of (Some e, s') \<Rightarrow> (Some e, s') | (None, s') \<Rightarrow> g s')"

definition v3_effect :: "transaction \<Rightarrow> mature_ledger \<Rightarrow> err option \<times> mature_ledger" where
  "v3_effect tx =
    (if TxType tx = TxTypeTransfer then
       (if IsNative (EffectiveAssetID tx) then
          and_then (spendNative (tx_From tx) (tx_Amount tx))
            (and_then (chargeNativeFee (EffectiveFeePayer tx) (tx_Fee tx))
              (receiveNative (tx_To tx) (tx_Amount tx)))
        else
          and_then (on_assets (Transfer (tx_AssetID tx) (tx_From tx) (tx_To tx) (tx_Amount tx)))
            (chargeNativeFee (EffectiveFeePayer tx) (tx_Fee tx)))
     else if TxType tx = TxTypeAssetCreate then
       and_then (on_assets (CreateFromTransactionID (tx_ID tx) (tx_AssetName tx) (tx_AssetSymbol tx)
           (tx_AssetDecimals tx) (tx_AssetMaxSupply tx) (tx_AssetMintable tx) (tx_AssetBurnable tx)
           (tx_AssetPausable tx) (tx_AssetPermissioned tx) (tx_From tx)))
         (chargeNativeFee (EffectiveFeePayer tx) (tx_Fee tx))
     else if TxType tx = TxTypeAssetMint then
       and_then (on_assets (Mint (tx_AssetID tx) (tx_From tx) (tx_To tx) (tx_Amount tx)))
         (chargeNativeFee (EffectiveFeePayer tx) (tx_Fee tx))
     else if TxType tx = TxTypeAssetBurn then
       and_then (on_assets (Burn (tx_AssetID tx) (tx_From tx) (tx_Amount tx)))
         (chargeNativeFee (EffectiveFeePayer tx) (tx_Fee tx))
     else (\<lambda>l. (Some (Err ''unsupported v3 asset transaction type at height %d: %s''), l)))"

definition set_nonce :: "string \<Rightarrow> u64 \<Rightarrow> mature_ledger \<Rightarrow> mature_ledger" where
  "set_nonce address nonce l = set_account address ((ml_account l address)\<lparr>ma_Nonce := nonce\<rparr>) l"

definition applyAssetTransactionV3 :: "transaction \<Rightarrow> u64 \<Rightarrow> mature_ledger \<Rightarrow> err option \<times> mature_ledger" where
  "applyAssetTransactionV3 tx height l =
    (case mature_Clone l of
       (backup, l0) \<Rightarrow>
         (case v3_effect tx l0 of
            (Some e, _) \<Rightarrow> (Some e, backup)
          | (None, l1) \<Rightarrow> (None, set_nonce (tx_From tx) (tx_Nonce tx) l1)))"

text \<open>The loop runs over the accounts, which it does not change.\<close>

definition syncNativeAssetsFromAccounts :: "mature_ledger \<Rightarrow> mature_ledger" where
  "syncNativeAssetsFromAccounts l =
    l\<lparr>ml_assets := range_fm (\<lambda>address account assets.
        let current = asset_Balance assets address NativeAssetID in
        if current < ma_Confirmed account then
          snd (Credit address NativeAssetID (ma_Confirmed account - current) assets)
        else if current > ma_Confirmed account then
          snd (Debit address NativeAssetID (current - ma_Confirmed account) assets)
        else assets) (ml_accounts l) (ml_assets l)\<rparr>"

definition NewMatureFromStateWithAssets ::
  "consensus_params \<Rightarrow> network_config \<Rightarrow> u64 \<Rightarrow> state_account list \<Rightarrow> stake_record list
     \<Rightarrow> state_coinbase list \<Rightarrow> asset_definition list \<Rightarrow> balance_entry list \<Rightarrow> err + mature_ledger" where
  "NewMatureFromStateWithAssets params profile height accounts stakes coinbases definitions balances =
    (let l = NewMatureFromState params profile height accounts stakes coinbases in
     case Restore definitions balances (ml_assets l) of
       (Some e, _) \<Rightarrow> Inl e
     | (None, as) \<Rightarrow> Inr (syncNativeAssetsFromAccounts (l\<lparr>ml_assets := as\<rparr>)))"

section \<open>Validation of legacy and canonical transactions\<close>

definition mature_type_check :: "transaction \<Rightarrow> mature_ledger \<Rightarrow> err option" where
  "mature_type_check tx l =
    (if TxType tx = TxTypeTransfer then
       (if tx_Amount tx = 0 then Some (Err ''amount must be greater than zero'')
        else if tx_From tx = tx_To tx then Some (Err ''sender and recipient must differ'')
        else None)
     else if TxType tx = TxTypeStakeLock then
       (if tx_Amount tx = 0 then Some (Err ''amount must be greater than zero'')
        else if tx_Amount tx < sp_MinStakeAmount (cp_Staking (ml_params l)) then
          Some (Err ''invalid stake lock: amount below minimum'')
        else None)
     else if TxType tx = TxTypeStakeUnlock then
       (if tx_StakeID tx = [] then Some (Err ''invalid stake unlock: stake id is required'') else None)
     else Some (Err ''unknown transaction type: %s''))"

definition mature_identity :: "ext \<Rightarrow> transaction \<Rightarrow> mature_ledger \<Rightarrow> err option" where
  "mature_identity X tx l =
    (if TxType tx = TxTypeTransfer \<and> tx_From tx = tx_To tx then
       Some (Err ''sender and recipient must differ'')
     else case ValidateAddressForNetwork (tx_From tx) (ml_profile l) of
       Some e \<Rightarrow> Some (Wrap ''invalid sender address'' e)
     | None \<Rightarrow>
     (case (if TxType tx = TxTypeTransfer then ValidateAddressForNetwork (tx_To tx) (ml_profile l)
            else None) of
       Some e \<Rightarrow> Some (Wrap ''invalid recipient address'' e)
     | None \<Rightarrow>
     if TxType tx = TxTypeStakeLock \<and> tx_To tx \<noteq> [] \<and> tx_To tx \<noteq> tx_From tx then
       Some (Err ''invalid stake lock: recipient must match owner'')
     else case AddressFromPublicKeyForNetwork X (tx_PublicKey tx) (ml_profile l) of
       Inl _ \<Rightarrow> Some (Err ''public key does not match sender address'')
     | Inr address \<Rightarrow>
     if address \<noteq> tx_From tx then Some (Err ''public key does not match sender address'')
     else case CalculateIDForChainID tx (nc_ChainID (ml_profile l)) of
       Inl e \<Rightarrow> Some e
     | Inr expectedID \<Rightarrow>
     if tx_ID tx \<noteq> expectedID then Some (Err ''transaction id mismatch'')
     else if TxType tx = TxTypeStakeLock \<and> tx_StakeID tx \<noteq> [] \<and> tx_StakeID tx \<noteq> tx_ID tx then
       Some (Err ''invalid stake lock: stake id mismatch'')
     else case SigningBytesWithChainID tx (nc_ChainID (ml_profile l)) of
       Inl e \<Rightarrow> Some e
     | Inr signingBytes \<Rightarrow>
     if \<not> VerifyHex X (tx_PublicKey tx) (tx_Signature tx) signingBytes then
       Some (Err ''invalid transaction signature'')
     else None))"

definition mature_transfer_check :: "transaction \<Rightarrow> mature_ledger \<Rightarrow> err option \<times> mature_ledger" where
  "mature_transfer_check tx l =
    (let account = ml_account l (tx_From tx) in
     case Add (tx_Amount tx) (tx_Fee tx) of
       Inl e \<Rightarrow> (Some (Wrap ''transaction cost overflow'' e), l)
     | Inr cost \<Rightarrow>
     if ma_Confirmed account < cost then (Some (Err ''insufficient balance''), l)
     else if ma_Mature account < cost then (Some ErrImmatureBalance, l)
     else case lockedStake (tx_From tx) l of
       (Inl e, l') \<Rightarrow> (Some e, l')
     | (Inr lck, l') \<Rightarrow>
         if ma_Mature account < lck \<or> ma_Mature account - lck < cost then
           (Some (Err ''invalid transaction: spends locked stake''), l')
         else (None, l'))"

definition mature_lock_check :: "transaction \<Rightarrow> mature_ledger \<Rightarrow> err option \<times> mature_ledger" where
  "mature_lock_check tx l =
    (let account = ml_account l (tx_From tx) in
     case lockedStake (tx_From tx) l of
       (Inl e, l') \<Rightarrow> (Some e, l')
     | (Inr lck, l') \<Rightarrow>
         if ma_Mature account < lck \<or> ma_Mature account - lck < tx_Amount tx then
           (Some (Err ''invalid stake lock: insufficient mature spendable balance''), l')
         else if int (ActiveCount (tx_From tx) (ml_stakes l'))
               \<ge> sp_MaxActiveStakesPerAddress (cp_Staking (ml_params l'))
             \<and> sp_MaxActiveStakesPerAddress (cp_Staking (ml_params l')) > 0 then
           (Some (Err ''invalid stake lock: max active stakes reached''), l')
         else (None, l'))"

definition mature_unlock_check :: "transaction \<Rightarrow> mature_ledger \<Rightarrow> err option \<times> mature_ledger" where
  "mature_unlock_check tx l =
    (case stake_Find (tx_StakeID tx) (ml_currentHeight l) (ml_stakes l) of
       (r, st) \<Rightarrow>
         let l' = l\<lparr>ml_stakes := st\<rparr> in
         (case r of
            None \<Rightarrow> (Some (Err ''invalid stake unlock: stake not found''), l')
          | Some r \<Rightarrow>
              if sr_OwnerAddress r \<noteq> tx_From tx then
                (Some (Err ''invalid stake unlock: owner mismatch''), l')
              else if sr_Status r \<noteq> StatusActive then
                (Some (Err ''invalid stake unlock: stake %s''), l')
              else (None, l')))"

definition mature_ValidateTransaction ::
  "ext \<Rightarrow> transaction \<Rightarrow> mature_ledger \<Rightarrow> err option \<times> mature_ledger" where
  "mature_ValidateTransaction X tx l =
    (case ValidateTransactionVersion (tx_ProtocolVersion tx) (nc_TxVersion (ml_profile l)) of
       Some e \<Rightarrow> (Some e, l)
     | None \<Rightarrow>
     if tx_Coinbase tx then (None, l)
     else if tx_ProtocolVersion tx = TxVersionAsset then validateAssetTransactionV3 X tx l
     else case mature_type_check tx l of
       Some e \<Rightarrow> (Some e, l)
     | None \<Rightarrow>
     (case mature_identity X tx l of
        Some e \<Rightarrow> (Some e, l)
      | None \<Rightarrow>
      (case Add (ma_Nonce (ml_account l (tx_From tx))) 1 of
         Inl _ \<Rightarrow> (Some (Err ''account nonce overflow''), l)
       | Inr expectedNonce \<Rightarrow>
       if tx_Nonce tx \<noteq> expectedNonce then (Some (Err ''invalid account nonce: got %d want %d''), l)
       else if TxType tx = TxTypeTransfer then mature_transfer_check tx l
       else if TxType tx = TxTypeStakeLock then mature_lock_check tx l
       else if TxType tx = TxTypeStakeUnlock then mature_unlock_check tx l
       else (None, l))))"

section \<open>Applying transactions and blocks\<close>

definition ApplyCoinbaseAtHeight :: "transaction \<Rightarrow> u64 \<Rightarrow> mature_ledger \<Rightarrow> err option \<times> mature_ledger" where
  "ApplyCoinbaseAtHeight tx height l =
    (if \<not> tx_Coinbase tx then (Some (Err ''transaction is not coinbase''), l)
     else case ValidateAddressForNetwork (tx_To tx) (ml_profile l) of
       Some e \<Rightarrow> (Some (Wrap ''invalid coinbase recipient'' e), l)
     | None \<Rightarrow>
     let acct = ml_account l (tx_To tx) in
     case Add (ma_Confirmed acct) (tx_Amount tx) of
       Inl e \<Rightarrow> (Some (Wrap ''coinbase balance overflow'' e), l)
     | Inr confirmed \<Rightarrow>
     (case (if AssetModelEnabled l
            then on_assets (Credit (tx_To tx) NativeAssetID (tx_Amount tx)) l else (None, l)) of
        (Some e, l1) \<Rightarrow> (Some (Wrap ''native dIDR coinbase credit'' e), l1)
      | (None, l1) \<Rightarrow>
          let l2 = set_account (tx_To tx) (acct\<lparr>ma_Confirmed := confirmed\<rparr>) l1 in
          (None, if tx_Amount tx > 0
                 then l2\<lparr>ml_coinbases := ml_coinbases l2 @ [\<lparr>cb_Address = tx_To tx,
                        cb_Amount = tx_Amount tx, cb_Height = height, cb_Matured = False\<rparr>]\<rparr>
                 else l2)))"

definition legacy_transfer :: "transaction \<Rightarrow> mature_ledger \<Rightarrow> err option \<times> mature_ledger" where
  "legacy_transfer tx l =
    (let acct = ml_account l (tx_From tx); to = ml_account l (tx_To tx) in
     case Add (tx_Amount tx) (tx_Fee tx) of
       Inl e \<Rightarrow> (Some (Wrap ''transaction cost overflow'' e), l)
     | Inr cost \<Rightarrow>
     (case Sub (ma_Confirmed acct) cost of
        Inl _ \<Rightarrow> (Some (Err ''insufficient balance''), l)
      | Inr confirmed \<Rightarrow>
     (case Sub (ma_Mature acct) cost of
        Inl _ \<Rightarrow> (Some ErrImmatureBalance, l)
      | Inr mature \<Rightarrow>
     (case Add (ma_Confirmed to) (tx_Amount tx) of
        Inl e \<Rightarrow> (Some (Wrap ''recipient balance overflow'' e), l)
      | Inr toConfirmed \<Rightarrow>
     (case Add (ma_Mature to) (tx_Amount tx) of
        Inl e \<Rightarrow> (Some (Wrap ''recipient mature balance overflow'' e), l)
      | Inr toMature \<Rightarrow>
          let l1 = set_account (tx_To tx) (to\<lparr>ma_Confirmed := toConfirmed, ma_Mature := toMature\<rparr>)
                 (set_account (tx_From tx) (acct\<lparr>ma_Confirmed := confirmed, ma_Mature := mature,
                    ma_Nonce := tx_Nonce tx\<rparr>) l) in
          if AssetModelEnabled l1 then
            (case on_assets (Debit (tx_From tx) NativeAssetID cost) l1 of
               (Some e, l2) \<Rightarrow> (Some (Wrap ''legacy native dIDR asset debit'' e), l2)
             | (None, l2) \<Rightarrow>
                 (case on_assets (Credit (tx_To tx) NativeAssetID (tx_Amount tx)) l2 of
                    (Some e, l3) \<Rightarrow> (Some (Wrap ''legacy native dIDR asset credit'' e), l3)
                  | (None, l3) \<Rightarrow> (None, l3)))
          else (None, l1))))))"

definition on_stakes ::
  "(stake_state \<Rightarrow> err option \<times> stake_state) \<Rightarrow> mature_ledger \<Rightarrow> err option \<times> mature_ledger" where
  "on_stakes op l = (case op (ml_stakes l) of (r, st) \<Rightarrow> (r, l\<lparr>ml_stakes := st\<rparr>))"

definition ApplyTransactionAtHeight ::
  "ext \<Rightarrow> transaction \<Rightarrow> u64 \<Rightarrow> mature_ledger \<Rightarrow> err option \<times> mature_ledger" where
  "ApplyTransactionAtHeight X tx height l =
    (case mature_ValidateTransaction X tx l of
       (Some e, l1) \<Rightarrow> (Some e, l1)
     | (None, l1) \<Rightarrow>
     if tx_ProtocolVersion tx = TxVersionAsset then applyAssetTransactionV3 tx height l1
     else if TxType tx = TxTypeTransfer then legacy_transfer tx l1
     else if TxType tx = TxTypeStakeLock then
       (case on_stakes (ApplyLock tx height) l1 of
          (Some e, l2) \<Rightarrow> (Some e, l2)
        | (None, l2) \<Rightarrow> (None, set_nonce (tx_From tx) (tx_Nonce tx) l2))
     else if TxType tx = TxTypeStakeUnlock then
       (case on_stakes (ApplyUnlock tx height) l1 of
          (Some e, l2) \<Rightarrow> (Some e, l2)
        | (None, l2) \<Rightarrow> (None, set_nonce (tx_From tx) (tx_Nonce tx) l2))
     else (Some (Err ''unknown transaction type: %s''), l1))"

definition ApplyTransaction :: "ext \<Rightarrow> transaction \<Rightarrow> mature_ledger \<Rightarrow> err option \<times> mature_ledger" where
  "ApplyTransaction X tx l = ApplyTransactionAtHeight X tx (ml_currentHeight l) l"

fun block_loop :: "ext \<Rightarrow> u64 \<Rightarrow> nat \<Rightarrow> transaction list \<Rightarrow> mature_ledger \<Rightarrow> err option \<times> mature_ledger" where
  "block_loop X h n [] l = (None, l)"
| "block_loop X h n (tx # txs) l =
     (if tx_Coinbase tx then
        (if n + 1 > 1 then (Some (Err ''multiple coinbase transactions''), l)
         else case ApplyCoinbaseAtHeight tx h l of
           (Some e, l') \<Rightarrow> (Some e, l')
         | (None, l') \<Rightarrow> block_loop X h (n + 1) txs l')
      else case ApplyTransactionAtHeight X tx h l of
        (Some e, l') \<Rightarrow> (Some e, l')
      | (None, l') \<Rightarrow> block_loop X h n txs l')"

definition applyBlock :: "ext \<Rightarrow> block \<Rightarrow> mature_ledger \<Rightarrow> err option \<times> mature_ledger" where
  "applyBlock X block l =
    (let l0 = (if b_Height block > 0 then matureCoinbases (b_Height block - 1) l else l) in
     case block_loop X (b_Height block) 0 (b_Transactions block) l0 of
       (Some e, l1) \<Rightarrow> (Some e, l1)
     | (None, l1) \<Rightarrow>
     (case (if AssetModelEnabled l1 then settleFees (b_MinerAddress block) l1 else (None, l1)) of
        (Some e, l2) \<Rightarrow> (Some e, l2)
      | (None, l2) \<Rightarrow>
          (None, matureCoinbases (b_Height block) (l2\<lparr>ml_currentHeight := b_Height block\<rparr>))))"

definition mature_ApplyBlock :: "ext \<Rightarrow> block \<Rightarrow> mature_ledger \<Rightarrow> err option \<times> mature_ledger" where
  "mature_ApplyBlock X block l =
    (if \<not> AssetModelEnabled l then applyBlock X block l
     else case mature_Clone l of
       (backup, l0) \<Rightarrow>
         (case applyBlock X block l0 of
            (Some e, _) \<Rightarrow> (Some e, backup)
          | (None, l1) \<Rightarrow> (None, l1)))"

definition ReplayMatureWithProfile ::
  "ext \<Rightarrow> block list \<Rightarrow> consensus_params \<Rightarrow> network_config \<Rightarrow> err + mature_ledger" where
  "ReplayMatureWithProfile X blocks params profile =
    (case run_steps (mature_ApplyBlock X) blocks (NewMatureWithProfile params profile) of
       (Some e, _) \<Rightarrow> Inl e
     | (None, l) \<Rightarrow> Inr (if blocks \<noteq> [] then matureCoinbases (b_Height (last blocks)) l else l))"

definition ReplayMature :: "ext \<Rightarrow> block list \<Rightarrow> consensus_params \<Rightarrow> err + mature_ledger" where
  "ReplayMature X blocks params = ReplayMatureWithProfile X blocks params Localnet"

definition CirculatingSupplyWithProfile ::
  "ext \<Rightarrow> block list \<Rightarrow> consensus_params \<Rightarrow> network_config \<Rightarrow> u64" where
  "CirculatingSupplyWithProfile X blocks params profile =
    (case ReplayMatureWithProfile X blocks params profile of Inl _ \<Rightarrow> 0 | Inr l \<Rightarrow> TotalMature l)"

section \<open>Balance details\<close>

definition pending_step :: "string \<Rightarrow> transaction \<Rightarrow> u64 \<times> u64 \<Rightarrow> u64 \<times> u64" where
  "pending_step address tx = (\<lambda>(outgoing, incoming).
    if tx_Coinbase tx then (outgoing, incoming)
    else if TxType tx = TxTypeTransfer then
      (let (outgoing, incoming) =
         (if IsNative (EffectiveAssetID tx) then
            (if tx_From tx = address then AddCap outgoing (tx_Amount tx) else outgoing,
             if tx_To tx = address then AddCap incoming (tx_Amount tx) else incoming)
          else (outgoing, incoming)) in
       (if EffectiveFeePayer tx = address then AddCap outgoing (tx_Fee tx) else outgoing, incoming))
    else (outgoing, incoming))"

definition zero_staking_params :: staking_params where
  "zero_staking_params = \<lparr>sp_Enabled = False, sp_MinServiceStake = 0, sp_MinStakeAmount = 0,
     sp_UnbondingPeriodBlocks = 0, sp_MaxActiveStakesPerAddress = 0,
     sp_RequireStakeForServiceRewards = False\<rparr>"

definition BalanceDetailsFromState ::
  "string \<Rightarrow> state_account \<Rightarrow> stake_record list \<Rightarrow> transaction list \<Rightarrow> u64 \<Rightarrow> u64 \<Rightarrow> balance_details" where
  "BalanceDetailsFromState address account stakes pending coinbaseMaturity currentHeight =
    (let stakeState = fold ApplyRecord stakes (NewStakeState zero_staking_params);
         (pendingOutgoing, pendingIncoming) = fold (pending_step address) pending (0, 0);
         ((activeStake, unlockingStake, releasedStake), _) =
           AddressSummary address currentHeight stakeState;
         pendingStakeLock = PendingStakeLock pending address;
         lck = AddCap (AddCap activeStake unlockingStake) (AddCap pendingStakeLock pendingOutgoing);
         spendable = (if sa_Mature account > lck then sa_Mature account - lck else 0);
         immature = (if sa_Confirmed account > sa_Mature account
                     then sa_Confirmed account - sa_Mature account else 0) in
     \<lparr>bd_Address = address, bd_Confirmed = sa_Confirmed account, bd_Mature = sa_Mature account,
      bd_Immature = immature, bd_Spendable = spendable, bd_PendingOutgoing = pendingOutgoing,
      bd_PendingIncoming = pendingIncoming, bd_ActiveStake = activeStake,
      bd_UnlockingStake = unlockingStake, bd_ReleasedStake = releasedStake,
      bd_PendingStakeLock = pendingStakeLock, bd_CoinbaseMaturity = coinbaseMaturity,
      bd_CurrentHeight = currentHeight\<rparr>)"

definition BalanceDetails ::
  "string \<Rightarrow> transaction list \<Rightarrow> u64 \<Rightarrow> mature_ledger \<Rightarrow> balance_details \<times> mature_ledger" where
  "BalanceDetails address pending currentHeight l =
    (let account = ml_account l address in
     case Records currentHeight (ml_stakes l) of
       (rs, st) \<Rightarrow>
         (BalanceDetailsFromState address
            \<lparr>sa_Address = address, sa_Confirmed = ma_Confirmed account, sa_Mature = ma_Mature account,
             sa_Nonce = ma_Nonce account\<rparr>
            rs pending (ml_maturity l) currentHeight,
          l\<lparr>ml_stakes := st\<rparr>))"

definition BalanceDetailsForWithProfile ::
  "ext \<Rightarrow> string \<Rightarrow> block list \<Rightarrow> transaction list \<Rightarrow> consensus_params \<Rightarrow> network_config
     \<Rightarrow> err + balance_details" where
  "BalanceDetailsForWithProfile X address blocks pending params profile =
    (case ReplayMatureWithProfile X blocks params profile of
       Inl e \<Rightarrow> Inl e
     | Inr l \<Rightarrow>
         let currentHeight = (if blocks \<noteq> [] then b_Height (last blocks) else 0) in
         Inr (fst (BalanceDetails address pending currentHeight l)))"

end
