(* ===== verification/Ledger_Invariants.thy ===== *)
theory Ledger_Invariants
  imports Mature_Ledger
begin

text \<open>
  The invariants of the node's ledger and what its operations keep. \<open>ledger_ok\<close> says that the native
  asset balance of every address is its confirmed balance, that confirmed is mature plus the pending
  coinbase credits, that the stakes an address has locked are covered by its mature balance, that
  the stake records are filed under their identifiers, and that the asset state is consistent. Each
  operation is given by what it does to the invariant and to the native supply; the block theorem
  composes them.
\<close>

section \<open>The invariant\<close>

definition pending_of :: "string \<Rightarrow> coinbase_credit list \<Rightarrow> nat" where
  "pending_of a cs = (\<Sum>c\<leftarrow>cs. if cb_Address c = a then unat (cb_Amount c) else 0)"

lemma pending_of_simps [simp]:
  "pending_of a [] = 0"
  "pending_of a (cs @ ds) = pending_of a cs + pending_of a ds"
  "pending_of a (c # cs) = (if cb_Address c = a then unat (cb_Amount c) else 0) + pending_of a cs"
  by (simp_all add: pending_of_def)

definition stakes_ok :: "mature_ledger \<Rightarrow> bool" where
  "stakes_ok l \<longleftrightarrow> ss_params (ml_stakes l) = cp_Staking (ml_params l)
     \<and> (\<forall>k r. fmlookup (ss_records (ml_stakes l)) k = Some r \<longrightarrow> sr_StakeID r = k)"

definition ledger_ok :: "mature_ledger \<Rightarrow> bool" where
  "ledger_ok l \<longleftrightarrow>
     AssetModelEnabled l \<and> asset_ok (ml_assets l) \<and> stakes_ok l
     \<and> (\<forall>c\<in>set (ml_coinbases l). \<not> cb_Matured c)
     \<and> ma_Confirmed (ml_account l FeeCollectorAddress) = 0
     \<and> (\<forall>a. a \<noteq> FeeCollectorAddress \<longrightarrow>
          asset_Balance (ml_assets l) a NativeAssetID = ma_Confirmed (ml_account l a))
     \<and> (\<forall>a. unat (ma_Confirmed (ml_account l a))
            = unat (ma_Mature (ml_account l a)) + pending_of a (ml_coinbases l))
     \<and> (\<forall>a. locked a (ml_stakes l) \<le> unat (ma_Mature (ml_account l a)))"

lemma ledger_okI:
  assumes "AssetModelEnabled l" and "asset_ok (ml_assets l)" and "stakes_ok l"
    and "\<And>c. c \<in> set (ml_coinbases l) \<Longrightarrow> \<not> cb_Matured c"
    and "ma_Confirmed (ml_account l FeeCollectorAddress) = 0"
    and "\<And>a. a \<noteq> FeeCollectorAddress \<Longrightarrow>
          asset_Balance (ml_assets l) a NativeAssetID = ma_Confirmed (ml_account l a)"
    and "\<And>a. unat (ma_Confirmed (ml_account l a))
            = unat (ma_Mature (ml_account l a)) + pending_of a (ml_coinbases l)"
    and "\<And>a. locked a (ml_stakes l) \<le> unat (ma_Mature (ml_account l a))"
  shows "ledger_ok l"
  using assms unfolding ledger_ok_def by blast

lemma ledger_okD:
  assumes "ledger_ok l"
  shows "AssetModelEnabled l" and "asset_ok (ml_assets l)" and "stakes_ok l"
    and "\<And>c. c \<in> set (ml_coinbases l) \<Longrightarrow> \<not> cb_Matured c"
    and "ma_Confirmed (ml_account l FeeCollectorAddress) = 0"
    and "\<And>a. a \<noteq> FeeCollectorAddress \<Longrightarrow>
          asset_Balance (ml_assets l) a NativeAssetID = ma_Confirmed (ml_account l a)"
    and "\<And>a. unat (ma_Confirmed (ml_account l a))
            = unat (ma_Mature (ml_account l a)) + pending_of a (ml_coinbases l)"
    and "\<And>a. locked a (ml_stakes l) \<le> unat (ma_Mature (ml_account l a))"
  using assms unfolding ledger_ok_def by blast+

definition native_supply :: "mature_ledger \<Rightarrow> nat" where
  "native_supply l = total_balance (ml_assets l) NativeAssetID"

text \<open>The configuration of a ledger, which no operation changes.\<close>

definition same_config :: "mature_ledger \<Rightarrow> mature_ledger \<Rightarrow> bool" where
  "same_config l l' \<longleftrightarrow> ml_profile l' = ml_profile l \<and> ml_params l' = ml_params l
     \<and> ml_maturity l' = ml_maturity l \<and> ml_currentHeight l' = ml_currentHeight l"

lemma same_config_refl [simp]: "same_config l l"
  by (simp add: same_config_def)

lemma same_config_trans: "same_config a b \<Longrightarrow> same_config b c \<Longrightarrow> same_config a c"
  by (simp add: same_config_def)

lemma FeeCollector_not_address: "ValidateAddressForNetwork a p = None \<Longrightarrow> a \<noteq> FeeCollectorAddress"
  using underscore_no_address [of FeeCollectorAddress p] by (auto simp: FeeCollectorAddress_def)

lemma ledger_ok_new:
  "nc_TxVersion (if nc_Name profile = [] then Localnet else profile) \<ge> TxVersionAsset \<Longrightarrow>
   ledger_ok (NewMatureWithProfile params profile)"
  by (auto simp: ledger_ok_def NewMatureWithProfile_def AssetModelEnabled_def
      asset_ok_new [unfolded NewAssetState_def] stakes_ok_def
      NewStakeState_def zero_mature_def NewAssetState_def asset_Balance_def locked_def staked_def Let_def)

section \<open>Refreshing the stakes\<close>

definition refreshed :: "mature_ledger \<Rightarrow> mature_ledger" where
  "refreshed l = l\<lparr>ml_stakes := RefreshReleased (ml_currentHeight l) (ml_stakes l)\<rparr>"

lemma refreshed_fields [simp]:
  "ml_accounts (refreshed l) = ml_accounts l" "ml_assets (refreshed l) = ml_assets l"
  "ml_coinbases (refreshed l) = ml_coinbases l" "ml_profile (refreshed l) = ml_profile l"
  "ml_params (refreshed l) = ml_params l" "ml_maturity (refreshed l) = ml_maturity l"
  "ml_currentHeight (refreshed l) = ml_currentHeight l" "native_supply (refreshed l) = native_supply l"
  "same_config l (refreshed l)" "same_config (refreshed l) l"
  "AssetModelEnabled (refreshed l) = AssetModelEnabled l"
  by (simp_all add: refreshed_def native_supply_def same_config_def AssetModelEnabled_def)

lemma refreshed_refreshed [simp]: "refreshed (refreshed l) = refreshed l"
  by (simp add: refreshed_def Refresh_Refresh)

lemma stakes_ok_refreshed: "stakes_ok l \<Longrightarrow> stakes_ok (refreshed l)"
  by (auto simp: stakes_ok_def refreshed_def)

lemma ledger_ok_refreshed:
  assumes "ledger_ok l"
  shows "ledger_ok (refreshed l)"
proof (rule ledger_okI)
  fix a
  show "locked a (ml_stakes (refreshed l)) \<le> unat (ma_Mature (ml_account (refreshed l) a))"
    using locked_Refresh_le [of a "ml_currentHeight l" "ml_stakes l"] ledger_okD(8) [OF assms, of a]
    by (simp add: refreshed_def)
qed (use ledger_okD [OF assms] stakes_ok_refreshed in simp_all)

lemma lockedStake_state: "snd (lockedStake a l) = refreshed l"
  by (simp add: lockedStake_def refreshed_def AddressSummary_def Let_def split: prod.splits)

lemma lockedStake_value:
  assumes "lockedStake a l = (Inr lck, l')" and "unat lck + n \<le> 2 ^ 64 - 1" and "0 < n"
  shows "locked a (ml_stakes l') = unat lck"
proof -
  obtain act unl rel st where s: "AddressSummary a (ml_currentHeight l) (ml_stakes l) = ((act, unl, rel), st)"
    by (metis prod.collapse)
  with assms(1) have "Add act unl = Inr lck" "l' = l\<lparr>ml_stakes := st\<rparr>"
    by (auto simp: lockedStake_def split: sum.splits)
  with locked_upper [OF s _ assms(2, 3)] show ?thesis by simp
qed

lemma validateNativeSpend_ok:
  assumes "validateNativeSpend a n l = (None, l')"
  shows "(n = 0 \<and> l' = l) \<or>
    (n \<noteq> 0 \<and> l' = refreshed l \<and> unat n \<le> unat (ma_Confirmed (ml_account l a))
     \<and> locked a (ml_stakes l') + unat n \<le> unat (ma_Mature (ml_account l a)))"
proof (cases "n = 0")
  case True
  with assms show ?thesis by (simp add: validateNativeSpend_def)
next
  case False
  let ?m = "ma_Mature (ml_account l a)"
  obtain lck where k: "lockedStake a l = (Inr lck, l')" and c: "n \<le> ma_Confirmed (ml_account l a)"
    and m: "lck \<le> ?m" "n \<le> ?m - lck"
    using assms False
    by (auto simp: validateNativeSpend_def Let_def not_less split: prod.splits sum.splits if_splits)
  have "unat lck + unat n \<le> unat ?m"
    using m by (simp add: word_le_nat_alt unat_sub)
  moreover have "l' = refreshed l" using lockedStake_state [of a l] k by simp
  moreover have "locked a (ml_stakes l') = unat lck"
    using lockedStake_value [OF k, of "unat n"] calculation(1) False unat_u64_le [of ?m]
    by (simp add: unat_gt_0)
  ultimately show ?thesis using False c by (simp add: word_le_nat_alt)
qed

lemma validateNativeSpend_state: "snd (validateNativeSpend a n l) \<in> {l, refreshed l}"
  using lockedStake_state [of a l]
  by (auto simp: validateNativeSpend_def Let_def split: prod.splits sum.splits)

lemma locked_after:
  assumes "ledger_ok l" and "validateNativeSpend a n l = (None, l')"
  shows "locked a (ml_stakes l') + unat n \<le> unat (ma_Mature (ml_account l a))"
  using validateNativeSpend_ok [OF assms(2)] ledger_okD(8) [OF assms(1), of a] by auto

section \<open>Native operations\<close>

lemma native_pool_ok:
  assumes "ledger_ok l" and "as_assets s = as_assets (ml_assets l)"
    and "\<And>a. a \<noteq> FeeCollectorAddress \<Longrightarrow> asset_Balance s a NativeAssetID = asset_Balance (ml_assets l) a NativeAssetID"
    and "\<And>k. k \<noteq> NativeAssetID \<Longrightarrow> total_balance s k = total_balance (ml_assets l) k"
  shows "ledger_ok (l\<lparr>ml_assets := s\<rparr>)"
  by (rule ledger_okI)
    (use ledger_okD [OF assms(1)] assms(2-4) in \<open>simp_all add: AssetModelEnabled_def stakes_ok_def asset_ok_cong\<close>)

lemma spendNative_ok:
  assumes "spendNative a n l = (None, l')" and "ledger_ok l" and "a \<noteq> FeeCollectorAddress"
  shows "ledger_ok l'" and "native_supply l' + unat n = native_supply l" and "same_config l l'"
    and "ml_coinbases l' = ml_coinbases l"
proof -
  obtain l1 c m as where v: "validateNativeSpend a n l = (None, l1)"
    and c: "Sub (ma_Confirmed (ml_account l1 a)) n = Inr c" and m: "Sub (ma_Mature (ml_account l1 a)) n = Inr m"
    and d: "Debit a NativeAssetID n (ml_assets l1) = (None, as)"
    and l': "l' = set_account a ((ml_account l1 a)\<lparr>ma_Confirmed := c, ma_Mature := m\<rparr>) (l1\<lparr>ml_assets := as\<rparr>)"
    using assms(1) by (auto simp: spendNative_def Let_def split: prod.splits option.splits sum.splits)
  have l1: "l1 = l \<or> l1 = refreshed l" using validateNativeSpend_ok [OF v] by auto
  then have ok1: "ledger_ok l1" and sup1: "native_supply l1 = native_supply l"
    and cfg1: "same_config l l1" and cb1: "ml_coinbases l1 = ml_coinbases l" and acc: "ml_accounts l1 = ml_accounts l"
    using assms(2) ledger_ok_refreshed by auto
  note D = Debit_cases(1) [OF d] Debit_cases(2) [OF d refl]
  have c': "c = ma_Confirmed (ml_account l1 a) - n" "unat c = unat (ma_Confirmed (ml_account l1 a)) - unat n"
    "unat n \<le> unat (ma_Confirmed (ml_account l1 a))"
    and m': "unat m = unat (ma_Mature (ml_account l1 a)) - unat n" "unat n \<le> unat (ma_Mature (ml_account l1 a))"
    using c m by (auto simp: Sub_Inr_iff u64_eq_iff unat_sub word_le_nat_alt)
  show "ledger_ok l'"
  proof (rule ledger_okI)
    show "asset_ok (ml_assets l')" using ledger_okD(2) [OF ok1] d l' Debit_asset_ok [of "ml_assets l1" a n] by simp
    fix b
    show "asset_Balance (ml_assets l') b NativeAssetID = ma_Confirmed (ml_account l' b)" if "b \<noteq> FeeCollectorAddress"
      using ledger_okD(6) [OF ok1 that] D l' c' by (cases "b = a") (simp_all add: upd2_def)
    show "unat (ma_Confirmed (ml_account l' b)) = unat (ma_Mature (ml_account l' b)) + pending_of b (ml_coinbases l')"
      using ledger_okD(7) [OF ok1, of b] l' c' m' by (cases "a = b") simp_all
    show "locked b (ml_stakes l') \<le> unat (ma_Mature (ml_account l' b))"
      using ledger_okD(8) [OF ok1, of b] locked_after [OF assms(2) v] l' m' acc by (cases "a = b") simp_all
  qed (use ledger_okD [OF ok1] l' assms(3) in \<open>auto simp: AssetModelEnabled_def stakes_ok_def\<close>)
  have "total_balance as NativeAssetID + unat n = total_balance (ml_assets l1) NativeAssetID"
    using D(2) by (metis (full_types))
  then show "native_supply l' + unat n = native_supply l"
    using l' sup1 by (simp add: native_supply_def)
  show "same_config l l'" using cfg1 l' by (simp add: same_config_def)
  show "ml_coinbases l' = ml_coinbases l" using cb1 l' by simp
qed

lemma receiveNative_ok:
  assumes "receiveNative a n l = (None, l')" and "ledger_ok l" and "a \<noteq> FeeCollectorAddress"
  shows "ledger_ok l'" and "native_supply l' = native_supply l + unat n" and "same_config l l'"
    and "ml_coinbases l' = ml_coinbases l"
proof -
  have "ledger_ok l' \<and> native_supply l' = native_supply l + unat n \<and> same_config l l' \<and> ml_coinbases l' = ml_coinbases l"
  proof (cases "n = 0")
    case True
    with assms show ?thesis by (auto simp: receiveNative_def)
  next
    case False
    then obtain c m as where c: "Add (ma_Confirmed (ml_account l a)) n = Inr c"
      and m: "Add (ma_Mature (ml_account l a)) n = Inr m"
      and d: "Credit a NativeAssetID n (ml_assets l) = (None, as)"
      and l': "l' = set_account a ((ml_account l a)\<lparr>ma_Confirmed := c, ma_Mature := m\<rparr>) (l\<lparr>ml_assets := as\<rparr>)"
      using assms(1) by (auto simp: receiveNative_def Let_def split: prod.splits option.splits sum.splits)
    note D = Credit_cases(1) [OF d] Credit_cases(2) [OF d refl]
    have c': "c = ma_Confirmed (ml_account l a) + n" "unat c = unat (ma_Confirmed (ml_account l a)) + unat n"
      and m': "unat m = unat (ma_Mature (ml_account l a)) + unat n"
      using c m by (auto simp: Add_Inr_iff u64_eq_iff unat_add_u64)
    have "ledger_ok l'"
    proof (rule ledger_okI)
      show "asset_ok (ml_assets l')" using ledger_okD(2) [OF assms(2)] d l' Credit_asset_ok [of "ml_assets l" a n] by simp
      fix b
      show "asset_Balance (ml_assets l') b NativeAssetID = ma_Confirmed (ml_account l' b)" if "b \<noteq> FeeCollectorAddress"
        using ledger_okD(6) [OF assms(2) that] D l' c' by (cases "b = a") (simp_all add: upd2_def)
      show "unat (ma_Confirmed (ml_account l' b)) = unat (ma_Mature (ml_account l' b)) + pending_of b (ml_coinbases l')"
        using ledger_okD(7) [OF assms(2), of b] l' c' m' by (cases "a = b") simp_all
      show "locked b (ml_stakes l') \<le> unat (ma_Mature (ml_account l' b))"
        using ledger_okD(8) [OF assms(2), of b] l' m' by (cases "a = b") simp_all
    qed (use ledger_okD [OF assms(2)] l' assms(3) in \<open>auto simp: AssetModelEnabled_def stakes_ok_def\<close>)
    moreover have "native_supply l' = native_supply l + unat n"
      using l' D(2) by (simp add: native_supply_def)
    ultimately show ?thesis using l' by (simp add: same_config_def)
  qed
  then show "ledger_ok l'" "native_supply l' = native_supply l + unat n" "same_config l l'"
    "ml_coinbases l' = ml_coinbases l" by blast+
qed

lemma credit_pool_ok:
  assumes "ledger_ok l" and "Credit FeeCollectorAddress NativeAssetID n (ml_assets l) = (None, as)"
  shows "ledger_ok (l\<lparr>ml_assets := as\<rparr>)" and "native_supply (l\<lparr>ml_assets := as\<rparr>) = native_supply l + unat n"
  using native_pool_ok [OF assms(1)] Credit_cases(1) [OF assms(2)] Credit_cases(2) [OF assms(2) refl]
  by (auto simp: upd2_def native_supply_def)

lemma debit_pool_ok:
  assumes "ledger_ok l" and "Debit FeeCollectorAddress NativeAssetID n (ml_assets l) = (None, as)"
  shows "ledger_ok (l\<lparr>ml_assets := as\<rparr>)" and "native_supply (l\<lparr>ml_assets := as\<rparr>) + unat n = native_supply l"
proof -
  note D = Debit_cases(1) [OF assms(2)] Debit_cases(2) [OF assms(2) refl]
  have t: "total_balance as j + (if j = NativeAssetID then unat n else 0) = total_balance (ml_assets l) j" for j
    using D(2) by blast
  show "ledger_ok (l\<lparr>ml_assets := as\<rparr>)"
  proof (rule native_pool_ok [OF assms(1) D(1)])
    show "asset_Balance as a NativeAssetID = asset_Balance (ml_assets l) a NativeAssetID"
      if "a \<noteq> FeeCollectorAddress" for a using D(2) that by (simp add: upd2_def)
    show "total_balance as k = total_balance (ml_assets l) k" if "k \<noteq> NativeAssetID" for k
      using t [of k] that by simp
  qed
  show "native_supply (l\<lparr>ml_assets := as\<rparr>) + unat n = native_supply l"
    using t [of NativeAssetID] by (simp add: native_supply_def)
qed

lemma chargeNativeFee_ok:
  assumes "chargeNativeFee a n l = (None, l')" and "ledger_ok l" and "a \<noteq> FeeCollectorAddress"
  shows "ledger_ok l' \<and> native_supply l' = native_supply l \<and> same_config l l' \<and> ml_coinbases l' = ml_coinbases l"
proof (cases "n = 0")
  case True
  with assms show ?thesis by (simp add: chargeNativeFee_def)
next
  case False
  then obtain l1 as where s: "spendNative a n l = (None, l1)"
    and c: "Credit FeeCollectorAddress NativeAssetID n (ml_assets l1) = (None, as)" and l': "l' = l1\<lparr>ml_assets := as\<rparr>"
    using assms(1) by (auto simp: chargeNativeFee_def split: prod.splits option.splits)
  note S = spendNative_ok [OF s assms(2, 3)] and C = credit_pool_ok [OF _ c]
  show ?thesis using S C l' by (auto simp: same_config_def)
qed

lemma settleFees_ok:
  assumes "settleFees miner l = (None, l')" and "ledger_ok l"
  shows "ledger_ok l' \<and> native_supply l' = native_supply l \<and> same_config l l' \<and> ml_coinbases l' = ml_coinbases l"
proof (cases "asset_Balance (ml_assets l) FeeCollectorAddress NativeAssetID = 0")
  case True
  with assms show ?thesis by (simp add: settleFees_def)
next
  case False
  let ?fee = "asset_Balance (ml_assets l) FeeCollectorAddress NativeAssetID"
  obtain as where v: "ValidateAddressForNetwork miner (ml_profile l) = None"
    and d: "Debit FeeCollectorAddress NativeAssetID ?fee (ml_assets l) = (None, as)"
    and r: "receiveNative miner ?fee (l\<lparr>ml_assets := as\<rparr>) = (None, l')"
    using assms(1) False by (auto simp: settleFees_def Let_def split: prod.splits option.splits if_splits)
  note D = debit_pool_ok [OF assms(2) d]
  note R = receiveNative_ok [OF r D(1) FeeCollector_not_address [OF v]]
  show ?thesis using D R by (auto simp: same_config_def)
qed

text \<open>After settlement the fee pool is empty.\<close>

lemma receiveNative_other:
  assumes "receiveNative a n l = (None, l')" and "b \<noteq> a"
  shows "asset_Balance (ml_assets l') b k = asset_Balance (ml_assets l) b k"
proof (cases "n = 0")
  case False
  then obtain as where d: "Credit a NativeAssetID n (ml_assets l) = (None, as)" and "ml_assets l' = as"
    using assms(1) by (auto simp: receiveNative_def Let_def split: prod.splits option.splits sum.splits)
  then show ?thesis using Credit_cases(2) [OF d refl] assms(2) by (simp add: upd2_def)
qed (use assms in \<open>simp add: receiveNative_def\<close>)

lemma settleFees_empty:
  assumes "settleFees miner l = (None, l')"
  shows "asset_Balance (ml_assets l') FeeCollectorAddress NativeAssetID = 0"
proof (cases "asset_Balance (ml_assets l) FeeCollectorAddress NativeAssetID = 0")
  case True
  with assms show ?thesis by (simp add: settleFees_def)
next
  case False
  let ?fee = "asset_Balance (ml_assets l) FeeCollectorAddress NativeAssetID"
  obtain as where v: "ValidateAddressForNetwork miner (ml_profile l) = None"
    and d: "Debit FeeCollectorAddress NativeAssetID ?fee (ml_assets l) = (None, as)"
    and r: "receiveNative miner ?fee (l\<lparr>ml_assets := as\<rparr>) = (None, l')"
    using assms False by (auto simp: settleFees_def Let_def split: prod.splits option.splits if_splits)
  have "asset_Balance as FeeCollectorAddress NativeAssetID = 0"
    using Debit_cases(2) [OF d refl] by (simp add: upd2_def)
  then show ?thesis
    using receiveNative_other [OF r FeeCollector_not_address [OF v, symmetric]] by simp
qed

section \<open>Maturing coinbases\<close>

definition matured_ok :: "coinbase_credit list \<Rightarrow> (string, mature_account) fmap \<Rightarrow> coinbase_credit list
    \<Rightarrow> (string, mature_account) fmap \<Rightarrow> bool" where
  "matured_ok cs accts pend accts' \<longleftrightarrow>
     set pend \<subseteq> set cs \<and>
     (\<forall>a. ma_Confirmed (get_or zero_mature accts' a) = ma_Confirmed (get_or zero_mature accts a)
        \<and> ma_Nonce (get_or zero_mature accts' a) = ma_Nonce (get_or zero_mature accts a)
        \<and> unat (ma_Mature (get_or zero_mature accts a)) \<le> unat (ma_Mature (get_or zero_mature accts' a))
        \<and> unat (ma_Mature (get_or zero_mature accts' a)) + pending_of a pend
            = unat (ma_Mature (get_or zero_mature accts a)) + pending_of a cs)"

lemma matured_ok_keep: "matured_ok cs accts cs accts"
  by (simp add: matured_ok_def)

lemma matured_ok_credit:
  assumes "Add (ma_Mature (get_or zero_mature accts (cb_Address c))) (cb_Amount c) = Inr m"
  shows "matured_ok [c] accts []
    (fmupd (cb_Address c) ((get_or zero_mature accts (cb_Address c))\<lparr>ma_Mature := m\<rparr>) accts)"
  using assms by (simp add: matured_ok_def Add_Inr_iff)

lemma mature_step_ok:
  assumes "\<not> cb_Matured c"
  shows "\<exists>new accts'. mature_step mat h c (pend, accts) = (pend @ new, accts') \<and> matured_ok [c] accts new accts'"
proof (cases "Add (cb_Height c) mat")
  case (Inl e)
  with assms matured_ok_keep show ?thesis by (simp add: mature_step_def)
next
  case (Inr mh)
  show ?thesis
  proof (cases "h < mh")
    case True
    with Inr assms matured_ok_keep show ?thesis by (simp add: mature_step_def)
  next
    case False
    show ?thesis
    proof (cases "Add (ma_Mature (get_or zero_mature accts (cb_Address c))) (cb_Amount c)")
      case (Inl e)
      with Inr False assms matured_ok_keep show ?thesis by (simp add: mature_step_def)
    next
      case m: (Inr m)
      with Inr False assms matured_ok_credit [OF m] show ?thesis
        by (intro exI [of _ "[]"]) (simp add: mature_step_def)
    qed
  qed
qed

lemma matured_ok_trans:
  assumes "matured_ok cs a p b" and "matured_ok ds b q c"
  shows "matured_ok (cs @ ds) a (p @ q) c"
  unfolding matured_ok_def
proof (intro conjI allI)
  fix x
  let ?A = "get_or zero_mature a x" and ?B = "get_or zero_mature b x" and ?C = "get_or zero_mature c x"
  have 1: "ma_Confirmed ?B = ma_Confirmed ?A" "ma_Nonce ?B = ma_Nonce ?A" "unat (ma_Mature ?A) \<le> unat (ma_Mature ?B)"
    "unat (ma_Mature ?B) + pending_of x p = unat (ma_Mature ?A) + pending_of x cs"
    using assms(1) by (simp_all add: matured_ok_def)
  have 2: "ma_Confirmed ?C = ma_Confirmed ?B" "ma_Nonce ?C = ma_Nonce ?B" "unat (ma_Mature ?B) \<le> unat (ma_Mature ?C)"
    "unat (ma_Mature ?C) + pending_of x q = unat (ma_Mature ?B) + pending_of x ds"
    using assms(2) by (simp_all add: matured_ok_def)
  show "ma_Confirmed ?C = ma_Confirmed ?A" "ma_Nonce ?C = ma_Nonce ?A"
    "unat (ma_Mature ?A) \<le> unat (ma_Mature ?C)"
    "unat (ma_Mature ?C) + pending_of x (p @ q) = unat (ma_Mature ?A) + pending_of x (cs @ ds)"
    using 1 2 by simp_all
qed (use assms in \<open>auto simp: matured_ok_def\<close>)

lemma fold_mature_ok:
  assumes "fold (mature_step mat h) cs (pend, accts) = (pend', accts')" and "\<And>c. c \<in> set cs \<Longrightarrow> \<not> cb_Matured c"
  shows "\<exists>new. pend' = pend @ new \<and> matured_ok cs accts new accts'"
  using assms
proof (induction cs arbitrary: pend accts)
  case Nil
  then show ?case by (simp add: matured_ok_def)
next
  case (Cons c cs)
  obtain n1 a1 where st: "mature_step mat h c (pend, accts) = (pend @ n1, a1)" and n1: "matured_ok [c] accts n1 a1"
    using mature_step_ok [of c mat h pend accts] Cons.prems(2) by auto
  obtain n2 where n2: "pend' = (pend @ n1) @ n2" "matured_ok cs a1 n2 accts'"
    using Cons.IH [of "pend @ n1" a1] Cons.prems st by auto
  show ?case using matured_ok_trans [OF n1 n2(2)] n2(1) by (intro exI [of _ "n1 @ n2"]) simp
qed

lemma matureCoinbases_shape:
  assumes "ledger_ok l"
  obtains pend accts where "matureCoinbases h l = l\<lparr>ml_coinbases := pend, ml_accounts := accts\<rparr>"
    and "matured_ok (ml_coinbases l) (ml_accounts l) pend accts"
proof -
  obtain pend accts where f: "fold (mature_step (ml_maturity l) h) (ml_coinbases l) ([], ml_accounts l) = (pend, accts)"
    by fastforce
  have "matured_ok (ml_coinbases l) (ml_accounts l) pend accts"
    using fold_mature_ok [OF f] ledger_okD(4) [OF assms] by auto
  with f that show ?thesis by (simp add: matureCoinbases_def)
qed

lemma matureCoinbases_ok:
  assumes "ledger_ok l"
  shows "ledger_ok (matureCoinbases h l) \<and> native_supply (matureCoinbases h l) = native_supply l
    \<and> same_config l (matureCoinbases h l)"
proof -
  obtain pend accts where l': "matureCoinbases h l = l\<lparr>ml_coinbases := pend, ml_accounts := accts\<rparr>"
    and m: "matured_ok (ml_coinbases l) (ml_accounts l) pend accts"
    using matureCoinbases_shape [OF assms] .
  have M: "ma_Confirmed (get_or zero_mature accts a) = ma_Confirmed (ml_account l a)"
    "unat (ma_Mature (ml_account l a)) \<le> unat (ma_Mature (get_or zero_mature accts a))"
    "unat (ma_Mature (get_or zero_mature accts a)) + pending_of a pend
      = unat (ma_Mature (ml_account l a)) + pending_of a (ml_coinbases l)" for a
    using m by (simp_all add: matured_ok_def)
  have sub: "set pend \<subseteq> set (ml_coinbases l)" using m by (simp add: matured_ok_def)
  have "ledger_ok (matureCoinbases h l)"
  proof (rule ledger_okI)
    fix a
    show "unat (ma_Confirmed (ml_account (matureCoinbases h l) a))
      = unat (ma_Mature (ml_account (matureCoinbases h l) a)) + pending_of a (ml_coinbases (matureCoinbases h l))"
      using ledger_okD(7) [OF assms, of a] M [of a] l' by simp
    show "locked a (ml_stakes (matureCoinbases h l)) \<le> unat (ma_Mature (ml_account (matureCoinbases h l) a))"
      using ledger_okD(8) [OF assms, of a] M [of a] l' by simp
  qed (use ledger_okD [OF assms] M sub l' in \<open>auto simp: AssetModelEnabled_def stakes_ok_def\<close>)
  then show ?thesis using l' by (simp add: native_supply_def same_config_def)
qed

section \<open>The backup\<close>

lemma fold_ApplyRecord:
  "(\<And>k r. (k, r) \<in> set kvs \<Longrightarrow> sr_StakeID r = k) \<Longrightarrow>
   fold ApplyRecord (map snd kvs) s = s\<lparr>ss_records := fold (\<lambda>(k, v). fmupd k v) kvs (ss_records s)\<rparr>"
proof (induction kvs arbitrary: s)
  case (Cons kv kvs)
  obtain k r where kv: "kv = (k, r)" by fastforce
  then have k: "sr_StakeID r = k" using Cons.prems by simp
  have "fold ApplyRecord (map snd kvs) t = t\<lparr>ss_records := fold (\<lambda>(k, v). fmupd k v) kvs (ss_records t)\<rparr>" for t
    by (rule Cons.IH) (use Cons.prems in auto)
  with kv k show ?case by (simp add: ApplyRecord_def [of r])
qed simp

lemma replay_records:
  assumes "\<And>k r. fmlookup m k = Some r \<Longrightarrow> sr_StakeID r = k"
  shows "fold ApplyRecord (map snd (sorted_list_of_fmap m)) (NewStakeState p) = \<lparr>ss_params = p, ss_records = m\<rparr>"
proof -
  have "fold (\<lambda>(k, v). fmupd k v) (sorted_list_of_fmap m) fmempty = m"
    using range_copy [of m] by (simp add: range_fm_def)
  moreover have "(k, r) \<in> set (sorted_list_of_fmap m) \<Longrightarrow> sr_StakeID r = k" for k r
    using assms by (simp add: set_sorted_list_of_fmap)
  ultimately show ?thesis
    using fold_ApplyRecord [of "sorted_list_of_fmap m" "NewStakeState p"] by (simp add: NewStakeState_def)
qed

text \<open>The backup is the ledger itself with its stakes refreshed, and so is the receiver after \<open>Clone\<close>.\<close>

lemma mature_Clone_eq:
  assumes "ledger_ok l"
  shows "mature_Clone l = (refreshed l, refreshed l)"
proof -
  have st: "stakes_ok (refreshed l)" using ledger_okD(3) [OF assms] by (rule stakes_ok_refreshed)
  let ?m = "ss_records (ml_stakes (refreshed l))"
  have "fold ApplyRecord (map snd (sorted_list_of_fmap ?m)) (NewStakeState (cp_Staking (ml_params l)))
    = \<lparr>ss_params = cp_Staking (ml_params l), ss_records = ?m\<rparr>"
    using st by (intro replay_records) (auto simp: stakes_ok_def)
  also have "\<dots> = ml_stakes (refreshed l)" using st by (simp add: stakes_ok_def)
  finally have "fold ApplyRecord (map snd (sorted_list_of_fmap ?m)) (NewStakeState (cp_Staking (ml_params l)))
    = ml_stakes (refreshed l)" .
  moreover have "asset_Clone (ml_assets l) = ml_assets l"
    using asset_okD(1) [OF ledger_okD(2) [OF assms]] by (intro asset_Clone_id) simp
  ultimately show ?thesis
    by (simp add: mature_Clone_def Records_def Let_def refreshed_def)
qed

section \<open>Effects of v3 transactions\<close>

text \<open>What a step of a v3 transaction keeps.\<close>

definition neutral :: "mature_ledger \<Rightarrow> mature_ledger \<Rightarrow> bool" where
  "neutral l l' \<longleftrightarrow> ledger_ok l' \<and> native_supply l' = native_supply l \<and> same_config l l' \<and> ml_coinbases l' = ml_coinbases l"

lemma neutral_trans: "neutral a b \<Longrightarrow> neutral b c \<Longrightarrow> neutral a c"
  by (auto simp: neutral_def intro: same_config_trans)

lemma neutral_refreshed: "ledger_ok l \<Longrightarrow> neutral l (refreshed l)"
  by (simp add: neutral_def ledger_ok_refreshed)

lemma and_then_ok: "and_then f g s = (None, s') \<longleftrightarrow> (\<exists>s1. f s = (None, s1) \<and> g s1 = (None, s'))"
  by (auto simp: and_then_def split: prod.splits option.splits)

lemma issued_op_ok:
  assumes "ledger_ok l" and "on_assets f l = (None, l')" and "asset_ok (snd (f (ml_assets l)))"
    and "\<And>a. asset_Balance (snd (f (ml_assets l))) a NativeAssetID = asset_Balance (ml_assets l) a NativeAssetID"
    and "total_balance (snd (f (ml_assets l))) NativeAssetID = total_balance (ml_assets l) NativeAssetID"
  shows "neutral l l'"
proof -
  have l': "l' = l\<lparr>ml_assets := snd (f (ml_assets l))\<rparr>"
    using assms(2) by (auto simp: on_assets_def split: prod.splits)
  have "ledger_ok l'"
    by (rule ledger_okI)
      (use ledger_okD [OF assms(1)] assms(3, 4) l' in \<open>simp_all add: AssetModelEnabled_def stakes_ok_def\<close>)
  with l' assms(5) show ?thesis by (simp add: neutral_def native_supply_def same_config_def)
qed

lemma Transfer_issued_ok:
  assumes "ledger_ok l" and "on_assets (Transfer k from to n) l = (None, l')" and "k \<noteq> NativeAssetID"
  shows "neutral l l'"
proof -
  obtain s' where t: "Transfer k from to n (ml_assets l) = (None, s')"
    using assms(2) by (auto simp: on_assets_def split: prod.splits)
  note T = Transfer_ok [OF t]
  show ?thesis
    by (rule issued_op_ok [OF assms(1, 2)])
      (use ledger_okD(2) [OF assms(1)] Transfer_asset_ok [of "ml_assets l" k "from" to n] T t assms(3)
       in \<open>auto simp: upd2_def\<close>)
qed

lemma Mint_issued_ok:
  assumes "ledger_ok l" and "on_assets (Mint k iss to n) l = (None, l')"
  shows "neutral l l'"
proof -
  obtain s' where t: "Mint k iss to n (ml_assets l) = (None, s')"
    using assms(2) by (auto simp: on_assets_def split: prod.splits)
  note M = Mint_ok [OF t]
  have "k \<noteq> NativeAssetID"
    using M(1) asset_okD(1) [OF ledger_okD(2) [OF assms(1)]] native_fixed by auto
  then show ?thesis
    by (intro issued_op_ok [OF assms])
      (use ledger_okD(2) [OF assms(1)] Mint_asset_ok [of "ml_assets l" k iss to n] M(2, 3) t in \<open>auto simp: upd2_def\<close>)
qed

lemma Burn_issued_ok:
  assumes "ledger_ok l" and "on_assets (Burn k owner n) l = (None, l')"
  shows "neutral l l'"
proof -
  obtain s' where t: "Burn k owner n (ml_assets l) = (None, s')"
    using assms(2) by (auto simp: on_assets_def split: prod.splits)
  note M = Burn_ok [OF t]
  have ne: "k \<noteq> NativeAssetID"
    using M(1) asset_okD(1) [OF ledger_okD(2) [OF assms(1)]] native_fixed by auto
  show ?thesis
    by (intro issued_op_ok [OF assms])
      (use ledger_okD(2) [OF assms(1)] Burn_asset_ok [of "ml_assets l" k owner n] M(3) M(4) [of NativeAssetID] t ne
       in \<open>auto simp: upd2_def\<close>)
qed

lemma Create_balances: "as_balances (snd (Create d s)) = as_balances s"
  by (simp add: Create_def Let_def split: option.splits)

lemma Create_issued_ok:
  assumes "ledger_ok l" and "on_assets (CreateFromTransactionID i n sy dc mx mi bu pa pe iss) l = (None, l')"
  shows "neutral l l'"
  by (rule issued_op_ok [OF assms])
    (use ledger_okD(2) [OF assms(1)]
     in \<open>simp_all add: CreateFromTransactionID_def Create_asset_ok asset_Balance_def total_balance_def Create_balances\<close>)

lemma v3_effect_ok:
  assumes "v3_effect tx l = (None, l')" and "ledger_ok l"
    and "tx_From tx \<noteq> FeeCollectorAddress" and "EffectiveFeePayer tx \<noteq> FeeCollectorAddress"
    and "TxType tx = TxTypeTransfer \<Longrightarrow> tx_To tx \<noteq> FeeCollectorAddress"
  shows "neutral l l'"
proof -
  let ?fee = "chargeNativeFee (EffectiveFeePayer tx) (tx_Fee tx)"
  have fee: "neutral a b" if "?fee a = (None, b)" and "ledger_ok a" for a b
    using chargeNativeFee_ok [OF that assms(4)] by (simp add: neutral_def)
  have op_fee: "neutral l l'" if "and_then (on_assets f) ?fee l = (None, l')"
    and "\<And>l1. on_assets f l = (None, l1) \<Longrightarrow> neutral l l1" for f
    using that fee neutral_trans by (auto simp: and_then_ok neutral_def)
  show ?thesis
  proof (cases "TxType tx = TxTypeTransfer \<and> IsNative (EffectiveAssetID tx)")
    case True
    then obtain l1 l2 where s: "spendNative (tx_From tx) (tx_Amount tx) l = (None, l1)" and f: "?fee l1 = (None, l2)"
      and r: "receiveNative (tx_To tx) (tx_Amount tx) l2 = (None, l')"
      using assms(1) by (auto simp: v3_effect_def and_then_ok)
    note S = spendNative_ok [OF s assms(2, 3)]
    have F: "neutral l1 l2" using fee [OF f] S(1) by simp
    then have "ledger_ok l2" by (simp add: neutral_def)
    note R = receiveNative_ok [OF r this]
    show ?thesis
      using S F R assms(5) True by (auto simp: neutral_def intro: same_config_trans)
  next
    case False
    have nn: "\<not> IsNative k \<Longrightarrow> k \<noteq> NativeAssetID" for k by auto
    consider (transfer) "tx_AssetID tx \<noteq> NativeAssetID"
        "and_then (on_assets (Transfer (tx_AssetID tx) (tx_From tx) (tx_To tx) (tx_Amount tx))) ?fee l = (None, l')"
      | (create) "and_then (on_assets (CreateFromTransactionID (tx_ID tx) (tx_AssetName tx) (tx_AssetSymbol tx)
           (tx_AssetDecimals tx) (tx_AssetMaxSupply tx) (tx_AssetMintable tx) (tx_AssetBurnable tx)
           (tx_AssetPausable tx) (tx_AssetPermissioned tx) (tx_From tx))) ?fee l = (None, l')"
      | (mint) "and_then (on_assets (Mint (tx_AssetID tx) (tx_From tx) (tx_To tx) (tx_Amount tx))) ?fee l = (None, l')"
      | (burn) "and_then (on_assets (Burn (tx_AssetID tx) (tx_From tx) (tx_Amount tx))) ?fee l = (None, l')"
      using assms(1) False nn [of "tx_AssetID tx"]
      by (auto simp: v3_effect_def EffectiveAssetID_def split: if_splits)
    then show ?thesis
    proof cases
      case transfer
      show ?thesis by (rule op_fee [OF transfer(2)]) (rule Transfer_issued_ok [OF assms(2) _ transfer(1)])
    next
      case create
      show ?thesis by (rule op_fee [OF create]) (rule Create_issued_ok [OF assms(2)])
    next
      case mint
      show ?thesis by (rule op_fee [OF mint]) (rule Mint_issued_ok [OF assms(2)])
    next
      case burn
      show ?thesis by (rule op_fee [OF burn]) (rule Burn_issued_ok [OF assms(2)])
    qed
  qed
qed

section \<open>What validation guarantees\<close>

lemma lockedStake_snd: "lockedStake a l = (r, l') \<Longrightarrow> l' = refreshed l"
  using lockedStake_state [of a l] by simp

definition near :: "mature_ledger \<Rightarrow> mature_ledger \<Rightarrow> bool" where
  "near l l' \<longleftrightarrow> l' \<in> {l, refreshed l}"

lemma near_refl: "near l l"
  by (simp add: near_def)

lemma near_trans: "near l x \<Longrightarrow> near x y \<Longrightarrow> near l y"
  by (auto simp: near_def)

lemma near_bind:
  assumes "near l (snd p)" and "\<And>e x. near l x \<Longrightarrow> near l (snd (A e x))" and "\<And>x. near l x \<Longrightarrow> near l (snd (B x))"
  shows "near l (snd (case p of (Some e, x) \<Rightarrow> A e x | (None, x) \<Rightarrow> B x))"
  using assms by (auto split: prod.split option.split)

lemma validateNativeSpend_near: "near l x \<Longrightarrow> near l (snd (validateNativeSpend a n x))"
  using validateNativeSpend_state [of a n x] near_trans [of l x] by (simp add: near_def)

lemma v3_transfer_check_near: "near l (snd (v3_transfer_check tx l))"
proof -
  have "near l (snd (case validateNativeSpend (tx_From tx) cost l of
           (Some e, l1) \<Rightarrow> (Some e, l1)
         | (None, l1) \<Rightarrow>
         (case (if EffectiveFeePayer tx \<noteq> tx_From tx then
                  (case validateNativeSpend (EffectiveFeePayer tx) (tx_Fee tx) l1 of
                     (Some e, l2) \<Rightarrow> (Some (Wrap ''fee payer'' e), l2)
                   | (None, l2) \<Rightarrow> (None, l2))
                else (None, l1)) of
            (Some e, l2) \<Rightarrow> (Some e, l2)
          | (None, l2) \<Rightarrow>
              if asset_Balance (ml_assets l2) (tx_From tx) NativeAssetID < tx_Amount tx then
                (Some (Err ''native dIDR asset balance insufficient''), l2)
              else (None, l2))))" for cost
    by (intro near_bind) (auto intro!: near_bind validateNativeSpend_near near_refl)
  then show ?thesis
    unfolding v3_transfer_check_def
    by (auto simp: near_refl intro: validateNativeSpend_near split: sum.split)
qed

lemma v3_check_states:
  "snd (v3_create_check tx l) \<in> {l, refreshed l}"
  "snd (v3_mint_check tx l) \<in> {l, refreshed l}"
  "snd (v3_burn_check tx l) \<in> {l, refreshed l}"
  using validateNativeSpend_state [of "EffectiveFeePayer tx" "tx_Fee tx" l]
  by (auto simp: v3_create_check_def v3_mint_check_def v3_burn_check_def split: option.splits sum.splits)

lemma legacy_check_states:
  "snd (mature_transfer_check tx l) \<in> {l, refreshed l}"
  "snd (mature_lock_check tx l) \<in> {l, refreshed l}"
  "snd (mature_unlock_check tx l) \<in> {l, refreshed l}"
  by (auto simp: mature_transfer_check_def mature_lock_check_def mature_unlock_check_def Let_def
      stake_Find_def refreshed_def [symmetric] split: sum.splits prod.splits option.splits if_splits
      dest!: lockedStake_snd)

text \<open>Validation changes nothing but the refresh of the stakes.\<close>

lemmas check_near = v3_transfer_check_near v3_check_states [folded near_def]
  legacy_check_states [folded near_def]

lemma v3_state: "near l (snd (validateAssetTransactionV3 X tx l))"
  unfolding validateAssetTransactionV3_def by (simp add: check_near near_refl split: option.split sum.split)

lemma validate_near: "near l (snd (mature_ValidateTransaction X tx l))"
  unfolding mature_ValidateTransaction_def
  by (simp add: check_near near_refl v3_state split: option.split sum.split)

lemma validate_state: "mature_ValidateTransaction X tx l = (r, l1) \<Longrightarrow> l1 = l \<or> l1 = refreshed l"
  using validate_near [of l X tx] by (auto simp: near_def)

lemma validate_nonce:
  assumes "mature_ValidateTransaction X tx l = (None, l1)" and "\<not> tx_Coinbase tx"
  shows "unat (tx_Nonce tx) = unat (ma_Nonce (ml_account l (tx_From tx))) + 1"
  using assms
  by (auto simp: mature_ValidateTransaction_def validateAssetTransactionV3_def Add_Inr_iff
      split: option.splits sum.splits if_splits)

lemma validate_v3_parties:
  assumes "mature_ValidateTransaction X tx l = (None, l1)" and "\<not> tx_Coinbase tx"
    and "tx_ProtocolVersion tx = TxVersionAsset"
  shows "ValidateAddressForNetwork (tx_From tx) (ml_profile l) = None"
    and "ValidateAddressForNetwork (EffectiveFeePayer tx) (ml_profile l) = None"
    and "TxType tx = TxTypeTransfer \<Longrightarrow> ValidateAddressForNetwork (tx_To tx) (ml_profile l) = None"
proof -
  have sh: "v3_shape X tx l = None"
    using assms by (auto simp: mature_ValidateTransaction_def validateAssetTransactionV3_def split: option.splits)
  then show f: "ValidateAddressForNetwork (tx_From tx) (ml_profile l) = None"
    and "TxType tx = TxTypeTransfer \<Longrightarrow> ValidateAddressForNetwork (tx_To tx) (ml_profile l) = None"
    by (auto simp: v3_shape_def split: option.splits if_splits)
  have "v3_identity X tx l = None" using sh by (auto simp: v3_shape_def split: option.splits if_splits)
  then have "ValidateFeePayerAuthorization X tx (ml_profile l) = None"
    by (auto simp: v3_identity_def split: sum.splits if_splits)
  then show "ValidateAddressForNetwork (EffectiveFeePayer tx) (ml_profile l) = None"
    using f by (auto simp: ValidateFeePayerAuthorization_def split: option.splits if_splits)
qed

lemma validate_legacy:
  assumes "mature_ValidateTransaction X tx l = (None, l1)" and "\<not> tx_Coinbase tx"
    and "tx_ProtocolVersion tx \<noteq> TxVersionAsset"
  shows "mature_type_check tx l = None" and "mature_identity X tx l = None"
    and "TxType tx = TxTypeTransfer \<Longrightarrow> mature_transfer_check tx l = (None, l1)"
    and "TxType tx = TxTypeStakeLock \<Longrightarrow> mature_lock_check tx l = (None, l1)"
  using assms
  by (auto simp: mature_ValidateTransaction_def TxTypeTransfer_def TxTypeStakeLock_def
      split: option.splits sum.splits if_splits)

lemma mature_transfer_locked:
  assumes "mature_transfer_check tx l = (None, l1)" and "tx_Amount tx \<noteq> 0"
  shows "\<exists>cost. Add (tx_Amount tx) (tx_Fee tx) = Inr cost \<and> l1 = refreshed l
    \<and> locked (tx_From tx) (ml_stakes l1) + unat cost \<le> unat (ma_Mature (ml_account l (tx_From tx)))"
proof -
  let ?m = "ma_Mature (ml_account l (tx_From tx))"
  obtain cost lck where c: "Add (tx_Amount tx) (tx_Fee tx) = Inr cost" and k: "lockedStake (tx_From tx) l = (Inr lck, l1)"
    and m: "lck \<le> ?m" "cost \<le> ?m - lck"
    using assms(1)
    by (auto simp: mature_transfer_check_def Let_def not_less split: sum.splits prod.splits if_splits)
  have le: "unat lck + unat cost \<le> unat ?m" using m by (simp add: word_le_nat_alt unat_sub)
  have "0 < unat cost" using c assms(2) by (simp add: Add_Inr_iff unat_gt_0)
  then have "locked (tx_From tx) (ml_stakes l1) = unat lck"
    using lockedStake_value [OF k, of "unat cost"] le unat_u64_le [of ?m] by simp
  with le c lockedStake_snd [OF k] show ?thesis by auto
qed

lemma mature_lock_locked:
  assumes "mature_lock_check tx l = (None, l1)" and "tx_Amount tx \<noteq> 0"
  shows "l1 = refreshed l
    \<and> locked (tx_From tx) (ml_stakes l1) + unat (tx_Amount tx) \<le> unat (ma_Mature (ml_account l (tx_From tx)))"
proof -
  let ?m = "ma_Mature (ml_account l (tx_From tx))"
  obtain lck where k: "lockedStake (tx_From tx) l = (Inr lck, l1)" and m: "lck \<le> ?m" "tx_Amount tx \<le> ?m - lck"
    using assms(1) by (auto simp: mature_lock_check_def Let_def not_less split: sum.splits prod.splits if_splits)
  have le: "unat lck + unat (tx_Amount tx) \<le> unat ?m" using m by (simp add: word_le_nat_alt unat_sub)
  then have "locked (tx_From tx) (ml_stakes l1) = unat lck"
    using lockedStake_value [OF k, of "unat (tx_Amount tx)"] unat_u64_le [of ?m] assms(2) by (simp add: unat_gt_0)
  with le lockedStake_snd [OF k] show ?thesis by simp
qed

section \<open>Transactions\<close>

lemma set_nonce_neutral: "ledger_ok l \<Longrightarrow> neutral l (set_nonce a n l)"
proof -
  assume ok: "ledger_ok l"
  have same: "ma_Confirmed (ml_account (set_nonce a n l) b) = ma_Confirmed (ml_account l b)"
    "ma_Mature (ml_account (set_nonce a n l) b) = ma_Mature (ml_account l b)" for b
    by (simp_all add: set_nonce_def)
  have rest: "ml_assets (set_nonce a n l) = ml_assets l" "ml_coinbases (set_nonce a n l) = ml_coinbases l"
    "ml_stakes (set_nonce a n l) = ml_stakes l" "ml_profile (set_nonce a n l) = ml_profile l"
    "ml_params (set_nonce a n l) = ml_params l" "same_config l (set_nonce a n l)"
    by (simp_all add: set_nonce_def same_config_def)
  have "ledger_ok (set_nonce a n l)"
    by (rule ledger_okI)
      (use ledger_okD [OF ok] in \<open>simp_all add: same rest AssetModelEnabled_def stakes_ok_def\<close>)
  then show ?thesis by (simp add: neutral_def native_supply_def rest)
qed

lemma applyAssetTransactionV3_ok:
  assumes "applyAssetTransactionV3 tx h l = (None, l')" and "ledger_ok l"
    and "tx_From tx \<noteq> FeeCollectorAddress" and "EffectiveFeePayer tx \<noteq> FeeCollectorAddress"
    and "TxType tx = TxTypeTransfer \<Longrightarrow> tx_To tx \<noteq> FeeCollectorAddress"
  shows "neutral l l'"
proof -
  obtain l1 where e: "v3_effect tx (refreshed l) = (None, l1)" and l': "l' = set_nonce (tx_From tx) (tx_Nonce tx) l1"
    using assms(1) mature_Clone_eq [OF assms(2)]
    by (auto simp: applyAssetTransactionV3_def split: prod.splits option.splits)
  have r: "neutral l (refreshed l)" by (rule neutral_refreshed [OF assms(2)])
  have "neutral (refreshed l) l1"
    using v3_effect_ok [OF e ledger_ok_refreshed [OF assms(2)] assms(3-5)] .
  then show ?thesis
    using r l' neutral_trans set_nonce_neutral by (metis neutral_def)
qed

text \<open>A failed v3 transaction gives back the ledger it was applied to.\<close>

lemma applyAssetTransactionV3_fail:
  assumes "applyAssetTransactionV3 tx h l = (Some e, l')" and "ledger_ok l"
  shows "l' = refreshed l"
  using assms(1) mature_Clone_eq [OF assms(2)]
  by (auto simp: applyAssetTransactionV3_def split: prod.splits option.splits)

lemma legacy_transfer_ok:
  assumes t: "legacy_transfer tx l = (None, l')" and ok: "ledger_ok l"
    and fr: "tx_From tx \<noteq> FeeCollectorAddress" and to: "tx_To tx \<noteq> FeeCollectorAddress" and ne: "tx_From tx \<noteq> tx_To tx"
    and lck: "\<And>cost. Add (tx_Amount tx) (tx_Fee tx) = Inr cost \<Longrightarrow>
      locked (tx_From tx) (ml_stakes l) + unat cost \<le> unat (ma_Mature (ml_account l (tx_From tx)))"
  shows "ledger_ok l'" and "native_supply l' + unat (tx_Fee tx) = native_supply l" and "same_config l l'"
    and "ml_coinbases l' = ml_coinbases l"
proof -
  let ?f = "ml_account l (tx_From tx)" and ?t = "ml_account l (tx_To tx)"
  have en: "AssetModelEnabled l" by (rule ledger_okD(1) [OF ok])
  obtain cost fc fm tc tm s1 s2 where cost: "Add (tx_Amount tx) (tx_Fee tx) = Inr cost"
    and a: "Sub (ma_Confirmed ?f) cost = Inr fc" "Sub (ma_Mature ?f) cost = Inr fm"
    "Add (ma_Confirmed ?t) (tx_Amount tx) = Inr tc" "Add (ma_Mature ?t) (tx_Amount tx) = Inr tm"
    and d: "Debit (tx_From tx) NativeAssetID cost (ml_assets l) = (None, s1)"
    and c: "Credit (tx_To tx) NativeAssetID (tx_Amount tx) s1 = (None, s2)"
    and l': "l' = l\<lparr>ml_accounts := fmupd (tx_To tx) (?t\<lparr>ma_Confirmed := tc, ma_Mature := tm\<rparr>)
        (fmupd (tx_From tx) (?f\<lparr>ma_Confirmed := fc, ma_Mature := fm, ma_Nonce := tx_Nonce tx\<rparr>) (ml_accounts l)),
        ml_assets := s2\<rparr>"
    using t en
    by (auto simp: legacy_transfer_def Let_def on_assets_def AssetModelEnabled_def
        split: sum.splits prod.splits option.splits)
  note D = Debit_cases(1) [OF d] Debit_cases(2) [OF d refl] and C = Credit_cases(1) [OF c] Credit_cases(2) [OF c refl]
  have n: "unat cost = unat (tx_Amount tx) + unat (tx_Fee tx)"
    "fc = ma_Confirmed ?f - cost" "unat fc = unat (ma_Confirmed ?f) - unat cost" "unat cost \<le> unat (ma_Confirmed ?f)"
    "unat fm = unat (ma_Mature ?f) - unat cost" "unat cost \<le> unat (ma_Mature ?f)"
    "tc = ma_Confirmed ?t + tx_Amount tx" "unat tc = unat (ma_Confirmed ?t) + unat (tx_Amount tx)"
    "unat tm = unat (ma_Mature ?t) + unat (tx_Amount tx)"
    using a cost by (auto simp: arith_iff u64_eq_iff unat_add_u64 unat_sub word_le_nat_alt)
  have acc: "ml_account l' b = (if b = tx_To tx then ?t\<lparr>ma_Confirmed := tc, ma_Mature := tm\<rparr>
      else if b = tx_From tx then ?f\<lparr>ma_Confirmed := fc, ma_Mature := fm, ma_Nonce := tx_Nonce tx\<rparr> else ml_account l b)" for b
    using l' by auto
  have rest: "ml_assets l' = s2" "ml_coinbases l' = ml_coinbases l" "ml_stakes l' = ml_stakes l"
    "ml_profile l' = ml_profile l" "ml_params l' = ml_params l" "same_config l l'"
    using l' by (simp_all add: same_config_def)
  show "ledger_ok l'"
  proof (rule ledger_okI)
    have "asset_ok s1" using Debit_asset_ok [OF ledger_okD(2) [OF ok], of "tx_From tx" cost] d by simp
    then show "asset_ok (ml_assets l')" using Credit_asset_ok [of s1 "tx_To tx" "tx_Amount tx"] c rest by simp
    show "AssetModelEnabled l'" "stakes_ok l'" using en ledger_okD(3) [OF ok] rest by (simp_all add: AssetModelEnabled_def stakes_ok_def)
    show "ma_Confirmed (ml_account l' FeeCollectorAddress) = 0" using acc fr to ledger_okD(5) [OF ok] by simp
    fix b
    show "asset_Balance (ml_assets l') b NativeAssetID = ma_Confirmed (ml_account l' b)" if "b \<noteq> FeeCollectorAddress"
      using ledger_okD(6) [OF ok that] ledger_okD(6) [OF ok fr] D(2) C(2) rest(1) acc [of b] n ne
      by (cases "b = tx_To tx"; cases "b = tx_From tx") (simp_all add: upd2_def)
    show "unat (ma_Confirmed (ml_account l' b)) = unat (ma_Mature (ml_account l' b)) + pending_of b (ml_coinbases l')"
      using ledger_okD(7) [OF ok, of b] acc [of b] n rest(2)
      by (cases "b = tx_To tx"; cases "b = tx_From tx") simp_all
    show "locked b (ml_stakes l') \<le> unat (ma_Mature (ml_account l' b))"
      using ledger_okD(8) [OF ok, of b] lck [OF cost] acc [of b] n rest(3) ne
      by (cases "b = tx_To tx"; cases "b = tx_From tx") simp_all
  qed (use ledger_okD(4) [OF ok] rest in simp)
  have "total_balance s1 NativeAssetID + unat cost = total_balance (ml_assets l) NativeAssetID"
    using D(2) by (metis (full_types))
  then show "native_supply l' + unat (tx_Fee tx) = native_supply l"
    using C(2) rest(1) n(1) by (simp add: native_supply_def)
  show "same_config l l'" "ml_coinbases l' = ml_coinbases l" by (fact rest)+
qed

text \<open>Locking raises the locked total of the owner by the amount, unlocking leaves it.\<close>

lemma locked_as_sum:
  "locked ow s = fmsum (\<lambda>r. if sr_OwnerAddress r = ow \<and> sr_Status r \<in> {StatusActive, StatusUnlocking}
     then unat (sr_Amount r) else 0) (ss_records s)"
  unfolding locked_def staked_def fmsum_add [symmetric]
  by (rule arg_cong [where f = "\<lambda>f. fmsum f (ss_records s)"]) auto

lemma ApplyLock_locked:
  assumes "ApplyLock tx h s = (None, s')"
  shows "locked ow s' = locked ow s + (if ow = tx_From tx then unat (tx_Amount tx) else 0)"
proof -
  obtain k r where k: "fmlookup (ss_records s) k = None" and s': "s' = s\<lparr>ss_records := fmupd k r (ss_records s)\<rparr>"
    and r: "sr_OwnerAddress r = tx_From tx" "sr_Amount r = tx_Amount tx" "sr_Status r = StatusActive"
    using ApplyLock_ok [OF assms] unfolding Let_def by fastforce
  show ?thesis
    using fmsum_upd [of "\<lambda>r. if sr_OwnerAddress r = ow \<and> sr_Status r \<in> {StatusActive, StatusUnlocking}
       then unat (sr_Amount r) else 0" k r "ss_records s"] k s' r
    by (auto simp: locked_as_sum)
qed

lemma ApplyUnlock_locked:
  assumes "ApplyUnlock tx h s = (None, s')"
  shows "locked ow s' = locked ow s"
proof -
  obtain q v where q: "fmlookup (ss_records s) (tx_StakeID tx) = Some q" "sr_Status q = StatusActive"
    and s': "s' = s\<lparr>ss_records := fmupd (tx_StakeID tx)
                (q\<lparr>sr_Status := StatusUnlocking, sr_UnlockTxID := tx_ID tx, sr_UnlockHeight := h,
                   sr_ReleaseHeight := v\<rparr>) (ss_records s)\<rparr>"
    using ApplyUnlock_ok [OF assms] by blast
  show ?thesis
    using fmsum_upd [of "\<lambda>r. if sr_OwnerAddress r = ow \<and> sr_Status r \<in> {StatusActive, StatusUnlocking}
       then unat (sr_Amount r) else 0" "tx_StakeID tx" "q\<lparr>sr_Status := StatusUnlocking, sr_UnlockTxID := tx_ID tx,
          sr_UnlockHeight := h, sr_ReleaseHeight := v\<rparr>" "ss_records s"] q s'
    by (cases "sr_OwnerAddress q = ow") (simp_all add: locked_as_sum)
qed

lemma stakes_neutral:
  assumes "ledger_ok l" and "ss_params st = ss_params (ml_stakes l)"
    and "\<And>k r. fmlookup (ss_records st) k = Some r \<Longrightarrow> sr_StakeID r = k"
    and "\<And>a. locked a st \<le> unat (ma_Mature (ml_account l a))"
  shows "neutral l (l\<lparr>ml_stakes := st\<rparr>)"
proof -
  have "ledger_ok (l\<lparr>ml_stakes := st\<rparr>)"
    by (rule ledger_okI)
      (use ledger_okD [OF assms(1)] assms(2-4) in \<open>simp_all add: AssetModelEnabled_def stakes_ok_def\<close>)
  then show ?thesis by (simp add: neutral_def native_supply_def same_config_def)
qed

lemma ApplyLock_neutral:
  assumes "on_stakes (ApplyLock tx h) l = (None, l')" and "ledger_ok l"
    and "locked (tx_From tx) (ml_stakes l) + unat (tx_Amount tx) \<le> unat (ma_Mature (ml_account l (tx_From tx)))"
  shows "neutral l l'"
proof -
  obtain st where a: "ApplyLock tx h (ml_stakes l) = (None, st)" and l': "l' = l\<lparr>ml_stakes := st\<rparr>"
    using assms(1) by (auto simp: on_stakes_def split: prod.splits)
  obtain k r where st: "st = (ml_stakes l)\<lparr>ss_records := fmupd k r (ss_records (ml_stakes l))\<rparr>" and r: "sr_StakeID r = k"
    using ApplyLock_ok [OF a] unfolding Let_def by fastforce
  have "neutral l (l\<lparr>ml_stakes := st\<rparr>)"
  proof (rule stakes_neutral [OF assms(2)])
    show "sr_StakeID q = j" if "fmlookup (ss_records st) j = Some q" for j q
      using that st r ledger_okD(3) [OF assms(2)] by (auto simp: stakes_ok_def split: if_splits)
    show "locked b st \<le> unat (ma_Mature (ml_account l b))" for b
      using ApplyLock_locked [OF a, of b] assms(3) ledger_okD(8) [OF assms(2), of b] by auto
  qed (simp add: st)
  with l' show ?thesis by simp
qed

lemma ApplyUnlock_neutral:
  assumes "on_stakes (ApplyUnlock tx h) l = (None, l')" and "ledger_ok l"
  shows "neutral l l'"
proof -
  obtain st where a: "ApplyUnlock tx h (ml_stakes l) = (None, st)" and l': "l' = l\<lparr>ml_stakes := st\<rparr>"
    using assms(1) by (auto simp: on_stakes_def split: prod.splits)
  obtain q v where q: "fmlookup (ss_records (ml_stakes l)) (tx_StakeID tx) = Some q"
    and st: "st = (ml_stakes l)\<lparr>ss_records := fmupd (tx_StakeID tx)
                (q\<lparr>sr_Status := StatusUnlocking, sr_UnlockTxID := tx_ID tx, sr_UnlockHeight := h,
                   sr_ReleaseHeight := v\<rparr>) (ss_records (ml_stakes l))\<rparr>"
    using ApplyUnlock_ok [OF a] by blast
  have "neutral l (l\<lparr>ml_stakes := st\<rparr>)"
  proof (rule stakes_neutral [OF assms(2)])
    show "sr_StakeID r = j" if "fmlookup (ss_records st) j = Some r" for j r
      using that st q ledger_okD(3) [OF assms(2)] by (auto simp: stakes_ok_def split: if_splits)
    show "locked b st \<le> unat (ma_Mature (ml_account l b))" for b
      using ApplyUnlock_locked [OF a, of b] ledger_okD(8) [OF assms(2), of b] by simp
  qed (simp add: st)
  with l' show ?thesis by simp
qed

text \<open>The fee of a version 1 or 2 transfer, which is debited and credited to nobody.\<close>

definition legacy_fee :: "transaction \<Rightarrow> nat" where
  "legacy_fee tx = (if \<not> tx_Coinbase tx \<and> tx_ProtocolVersion tx \<noteq> TxVersionAsset \<and> TxType tx = TxTypeTransfer
                    then unat (tx_Fee tx) else 0)"

lemma ApplyTransactionAtHeight_ok:
  assumes "ApplyTransactionAtHeight X tx h l = (None, l')" and "ledger_ok l" and "\<not> tx_Coinbase tx"
  shows "ledger_ok l' \<and> native_supply l' + legacy_fee tx = native_supply l \<and> same_config l l'
    \<and> ml_coinbases l' = ml_coinbases l"
proof -
  obtain l1 where v: "mature_ValidateTransaction X tx l = (None, l1)"
    using assms(1) by (auto simp: ApplyTransactionAtHeight_def split: prod.splits option.splits)
  have n1: "neutral l l1" and prof: "ml_profile l1 = ml_profile l" and acct: "ml_accounts l1 = ml_accounts l"
    using validate_state [OF v] assms(2) neutral_refreshed [OF assms(2)] by (auto simp: neutral_def)
  then have ok1: "ledger_ok l1" by (simp add: neutral_def)
  show ?thesis
  proof (cases "tx_ProtocolVersion tx = TxVersionAsset")
    case True
    note P = validate_v3_parties [OF v assms(3) True]
    have "applyAssetTransactionV3 tx h l1 = (None, l')"
      using assms(1) v True by (simp add: ApplyTransactionAtHeight_def)
    then have "neutral l1 l'"
      by (rule applyAssetTransactionV3_ok) (use ok1 P FeeCollector_not_address in blast)+
    with neutral_trans [OF n1] True show ?thesis by (simp add: neutral_def legacy_fee_def)
  next
    case False
    note L = validate_legacy [OF v assms(3) False]
    have from_ok: "ValidateAddressForNetwork (tx_From tx) (ml_profile l) = None"
      using L(2) by (auto simp: mature_identity_def split: option.splits if_splits)
    show ?thesis
    proof (cases "TxType tx = TxTypeTransfer")
      case tr: True
      have to_ok: "ValidateAddressForNetwork (tx_To tx) (ml_profile l) = None" and ne: "tx_From tx \<noteq> tx_To tx"
        and am: "tx_Amount tx \<noteq> 0"
        using L(1, 2) tr by (auto simp: mature_identity_def mature_type_check_def split: option.splits if_splits)
      note K = mature_transfer_locked [OF L(3) [OF tr] am]
      have t: "legacy_transfer tx l1 = (None, l')"
        using assms(1) v False tr by (simp add: ApplyTransactionAtHeight_def)
      have "ledger_ok l'" "native_supply l' + unat (tx_Fee tx) = native_supply l1" "same_config l1 l'"
        "ml_coinbases l' = ml_coinbases l1"
        using legacy_transfer_ok [OF t ok1 _ _ ne] FeeCollector_not_address [OF from_ok] FeeCollector_not_address [OF to_ok]
          K acct by auto
      with n1 False tr assms(3) show ?thesis
        by (auto simp: neutral_def legacy_fee_def intro: same_config_trans)
    next
      case ntr: False
      have "TxType tx = TxTypeStakeLock \<or> TxType tx = TxTypeStakeUnlock"
        using L(1) ntr by (auto simp: mature_type_check_def split: if_splits)
      then have "neutral l1 l'"
      proof
        assume lk: "TxType tx = TxTypeStakeLock"
        have am: "tx_Amount tx \<noteq> 0" using L(1) lk ntr by (auto simp: mature_type_check_def split: if_splits)
        obtain l2 where a: "on_stakes (ApplyLock tx h) l1 = (None, l2)" and l': "l' = set_nonce (tx_From tx) (tx_Nonce tx) l2"
          using assms(1) v False ntr lk by (auto simp: ApplyTransactionAtHeight_def split: prod.splits option.splits)
        have "neutral l1 l2"
          using ApplyLock_neutral [OF a ok1] mature_lock_locked [OF L(4) [OF lk] am] acct by auto
        then show ?thesis using l' neutral_trans set_nonce_neutral by (metis neutral_def)
      next
        assume ul: "TxType tx = TxTypeStakeUnlock"
        then have nl: "TxType tx \<noteq> TxTypeStakeLock" by (simp add: TxTypeStakeUnlock_def TxTypeStakeLock_def)
        obtain l2 where a: "on_stakes (ApplyUnlock tx h) l1 = (None, l2)" and l': "l' = set_nonce (tx_From tx) (tx_Nonce tx) l2"
          using assms(1) v False ntr nl ul by (auto simp: ApplyTransactionAtHeight_def split: prod.splits option.splits)
        have "neutral l1 l2" by (rule ApplyUnlock_neutral [OF a ok1])
        then show ?thesis using l' neutral_trans set_nonce_neutral by (metis neutral_def)
      qed
      with neutral_trans [OF n1] ntr show ?thesis by (simp add: neutral_def legacy_fee_def)
    qed
  qed
qed

section \<open>Blocks\<close>

lemma ApplyCoinbaseAtHeight_ok:
  assumes "ApplyCoinbaseAtHeight tx h l = (None, l')" and ok: "ledger_ok l"
  shows "ledger_ok l' \<and> native_supply l' = native_supply l + unat (tx_Amount tx) \<and> same_config l l'"
proof -
  let ?a = "ml_account l (tx_To tx)"
  define new where "new = (if tx_Amount tx > 0 then [\<lparr>cb_Address = tx_To tx,
                        cb_Amount = tx_Amount tx, cb_Height = h, cb_Matured = False\<rparr>] else [])"
  obtain c s1 where v: "ValidateAddressForNetwork (tx_To tx) (ml_profile l) = None"
    and a: "Add (ma_Confirmed ?a) (tx_Amount tx) = Inr c"
    and cr: "Credit (tx_To tx) NativeAssetID (tx_Amount tx) (ml_assets l) = (None, s1)"
    and l': "l' = l\<lparr>ml_assets := s1, ml_accounts := fmupd (tx_To tx) (?a\<lparr>ma_Confirmed := c\<rparr>) (ml_accounts l),
                   ml_coinbases := ml_coinbases l @ new\<rparr>"
    using assms(1) ledger_okD(1) [OF ok]
    by (auto simp: ApplyCoinbaseAtHeight_def Let_def on_assets_def new_def
        split: if_splits option.splits sum.splits prod.splits)
  note C = Credit_cases(1) [OF cr] Credit_cases(2) [OF cr refl]
  have n: "c = ma_Confirmed ?a + tx_Amount tx" "unat c = unat (ma_Confirmed ?a) + unat (tx_Amount tx)"
    using a by (auto simp: Add_Inr_iff u64_eq_iff unat_add_u64)
  have p: "pending_of b new = (if b = tx_To tx then unat (tx_Amount tx) else 0)" for b
    by (auto simp: new_def word_gt_0)
  have ne: "tx_To tx \<noteq> FeeCollectorAddress" by (rule FeeCollector_not_address [OF v])
  have "ledger_ok l'"
  proof (rule ledger_okI)
    show "asset_ok (ml_assets l')" using Credit_asset_ok [OF ledger_okD(2) [OF ok], of "tx_To tx" "tx_Amount tx"] cr l' by simp
    fix b
    show "asset_Balance (ml_assets l') b NativeAssetID = ma_Confirmed (ml_account l' b)" if "b \<noteq> FeeCollectorAddress"
      using ledger_okD(6) [OF ok that] C(2) l' n by (cases "b = tx_To tx") (simp_all add: upd2_def)
    show "unat (ma_Confirmed (ml_account l' b)) = unat (ma_Mature (ml_account l' b)) + pending_of b (ml_coinbases l')"
      using ledger_okD(7) [OF ok, of b] l' n p by (cases "b = tx_To tx") simp_all
    show "locked b (ml_stakes l') \<le> unat (ma_Mature (ml_account l' b))"
      using ledger_okD(8) [OF ok, of b] l' by (cases "b = tx_To tx") simp_all
  qed (use ledger_okD [OF ok] l' ne in \<open>auto simp: AssetModelEnabled_def stakes_ok_def new_def split: if_splits\<close>)
  then show ?thesis using l' C(2) by (simp add: native_supply_def same_config_def)
qed

definition legacy_fees :: "transaction list \<Rightarrow> nat" where
  "legacy_fees txs = (\<Sum>tx\<leftarrow>txs. legacy_fee tx)"

lemma block_loop_ok:
  assumes "block_loop X h n txs l = (None, l')" and "ledger_ok l"
  shows "ledger_ok l' \<and> native_supply l' + legacy_fees txs = native_supply l + minted txs \<and> same_config l l'"
  using assms
proof (induction txs arbitrary: n l)
  case Nil
  then show ?case by (simp add: legacy_fees_def minted_def)
next
  case (Cons tx txs)
  show ?case
  proof (cases "tx_Coinbase tx")
    case True
    with Cons.prems obtain l1 where c: "ApplyCoinbaseAtHeight tx h l = (None, l1)"
      and r: "block_loop X h (n + 1) txs l1 = (None, l')"
      by (auto split: prod.splits option.splits if_splits)
    note C = ApplyCoinbaseAtHeight_ok [OF c Cons.prems(2)]
    have ok1: "ledger_ok l1" using C by simp
    show ?thesis
      using Cons.IH [OF r ok1] C True
      by (auto simp: legacy_fees_def minted_def legacy_fee_def intro: same_config_trans)
  next
    case False
    with Cons.prems obtain l1 where c: "ApplyTransactionAtHeight X tx h l = (None, l1)"
      and r: "block_loop X h n txs l1 = (None, l')"
      by (auto split: prod.splits option.splits)
    note C = ApplyTransactionAtHeight_ok [OF c Cons.prems(2) False]
    have ok1: "ledger_ok l1" using C by simp
    show ?thesis
      using Cons.IH [OF r ok1] C False
      by (auto simp: legacy_fees_def minted_def intro: same_config_trans)
  qed
qed

lemma ledger_ok_height: "ledger_ok l \<Longrightarrow> ledger_ok (l\<lparr>ml_currentHeight := h\<rparr>)"
  by (simp add: ledger_ok_def AssetModelEnabled_def stakes_ok_def)

lemma matureCoinbases_enabled: "AssetModelEnabled (matureCoinbases h l) = AssetModelEnabled l"
  "ml_assets (matureCoinbases h l) = ml_assets l"
  by (simp_all add: matureCoinbases_def AssetModelEnabled_def split: prod.split)

lemma applyBlock_ok:
  assumes "applyBlock X b l = (None, l')" and ok: "ledger_ok l"
  shows "ledger_ok l'"
    and "native_supply l' + legacy_fees (b_Transactions b) = native_supply l + minted (b_Transactions b)"
    and "asset_Balance (ml_assets l') FeeCollectorAddress NativeAssetID = 0"
    and "ml_currentHeight l' = b_Height b" and "ml_profile l' = ml_profile l"
proof -
  define l0 where "l0 = (if b_Height b > 0 then matureCoinbases (b_Height b - 1) l else l)"
  have l0: "ledger_ok l0" "native_supply l0 = native_supply l" "same_config l l0"
    using matureCoinbases_ok [OF ok] ok by (auto simp: l0_def)
  obtain l1 l2 where bl: "block_loop X (b_Height b) 0 (b_Transactions b) l0 = (None, l1)"
    and st: "settleFees (b_MinerAddress b) l1 = (None, l2)"
    and l': "l' = matureCoinbases (b_Height b) (l2\<lparr>ml_currentHeight := b_Height b\<rparr>)"
    using assms(1) block_loop_ok [of X "b_Height b" 0 "b_Transactions b" l0] l0(1) ledger_okD(1)
    by (auto simp: applyBlock_def Let_def l0_def [symmetric] split: prod.splits option.splits if_splits)
  note B = block_loop_ok [OF bl l0(1)]
  note S = settleFees_ok [OF st, OF conjunct1 [OF B]]
  have ok2: "ledger_ok (l2\<lparr>ml_currentHeight := b_Height b\<rparr>)" using S ledger_ok_height by blast
  note M = matureCoinbases_ok [OF ok2, of "b_Height b"]
  show "ledger_ok l'" using M l' by simp
  have "native_supply (l2\<lparr>ml_currentHeight := b_Height b\<rparr>) = native_supply l2" by (simp add: native_supply_def)
  then show "native_supply l' + legacy_fees (b_Transactions b) = native_supply l + minted (b_Transactions b)"
    using M B S l0 l' by simp
  show "asset_Balance (ml_assets l') FeeCollectorAddress NativeAssetID = 0"
    using settleFees_empty [OF st] l' by (simp add: matureCoinbases_enabled)
  show "ml_currentHeight l' = b_Height b" "ml_profile l' = ml_profile l"
    using M B S l0 l' by (simp_all add: same_config_def)
qed

lemma mature_ApplyBlock_cases:
  assumes "mature_ApplyBlock X b l = (r, l')" and "ledger_ok l"
  shows "r = None \<Longrightarrow> applyBlock X b (refreshed l) = (None, l')"
    and "r = Some e \<Longrightarrow> l' = refreshed l"
  using assms(1) mature_Clone_eq [OF assms(2)] ledger_okD(1) [OF assms(2)]
  by (auto simp: mature_ApplyBlock_def split: prod.splits option.splits)

lemma mature_ApplyBlock_kept:
  assumes "ledger_ok l"
  shows "ledger_ok (snd (mature_ApplyBlock X b l))"
proof (cases "mature_ApplyBlock X b l")
  case (Pair r l')
  then show ?thesis
    using mature_ApplyBlock_cases [OF Pair assms] applyBlock_ok(1) [of X b "refreshed l" l']
      ledger_ok_refreshed [OF assms] by (cases r) auto
qed

interpretation blocks_run: kept_by_steps "mature_ApplyBlock X" ledger_ok for X
  by unfold_locales (rule mature_ApplyBlock_kept)

section \<open>The sum of the accounts\<close>

definition confirmed_sum :: "mature_ledger \<Rightarrow> nat" where
  "confirmed_sum l = fmsum (\<lambda>a. unat (ma_Confirmed a)) (ml_accounts l)"

lemma fmsum_over:
  assumes "f z = 0" and "finite S" and "fmdom' m \<subseteq> S"
  shows "fmsum f m = (\<Sum>k\<in>S. f (get_or z m k))"
proof -
  have "(\<Sum>k\<in>S. f (get_or z m k)) = (\<Sum>k\<in>fmdom' m. f (get_or z m k))"
    using assms by (intro sum.mono_neutral_right) (auto simp: get_or_def fmlookup_dom'_iff split: option.splits)
  also have "\<dots> = fmsum f m"
    unfolding fmsum_def by (rule sum.cong) (auto simp: get_or_def fmlookup_dom'_iff)
  finally show ?thesis by simp
qed

text \<open>The native supply is what the accounts hold and what the fee pool holds.\<close>

lemma native_supply_accounts:
  assumes "ledger_ok l"
  shows "native_supply l
    = confirmed_sum l + unat (asset_Balance (ml_assets l) FeeCollectorAddress NativeAssetID)"
proof -
  let ?S = "insert FeeCollectorAddress (fmdom' (ml_accounts l) \<union> fmdom' (as_balances (ml_assets l)))"
  let ?c = "\<lambda>a. unat (ma_Confirmed (ml_account l a))"
  let ?n = "\<lambda>a. unat (asset_Balance (ml_assets l) a NativeAssetID)"
  have fin: "finite ?S" by simp
  have 1: "confirmed_sum l = (\<Sum>a\<in>?S. ?c a)"
    unfolding confirmed_sum_def by (rule fmsum_over) (auto simp: zero_mature_def)
  have "native_supply l = (\<Sum>a\<in>?S. unat (get_or 0 (get_or fmempty (as_balances (ml_assets l)) a) NativeAssetID))"
    unfolding native_supply_def total_balance_def by (rule fmsum_over) auto
  then have 2: "native_supply l = (\<Sum>a\<in>?S. ?n a)" by (simp add: asset_Balance_get)
  have "(\<Sum>a\<in>?S - {FeeCollectorAddress}. ?n a) = (\<Sum>a\<in>?S - {FeeCollectorAddress}. ?c a)"
    using ledger_okD(6) [OF assms] by (intro sum.cong) auto
  then show ?thesis
    using 1 2 sum.remove [OF fin, of FeeCollectorAddress ?n] sum.remove [OF fin, of FeeCollectorAddress ?c]
      ledger_okD(5) [OF assms] by simp
qed

lemma confirmed_sum_refreshed: "confirmed_sum (refreshed l) = confirmed_sum l"
  by (simp add: confirmed_sum_def)

lemma replay_blocks:
  assumes "run_steps (mature_ApplyBlock X) bs l = (None, l')" and "ledger_ok l"
    and "asset_Balance (ml_assets l) FeeCollectorAddress NativeAssetID = 0"
  shows "ledger_ok l' \<and> asset_Balance (ml_assets l') FeeCollectorAddress NativeAssetID = 0
    \<and> native_supply l' + legacy_fees (concat (map b_Transactions bs))
      = native_supply l + minted (concat (map b_Transactions bs))"
  using assms
proof (induction bs arbitrary: l)
  case Nil
  then show ?case by (simp add: legacy_fees_def minted_def)
next
  case (Cons b bs)
  then obtain l1 where b: "mature_ApplyBlock X b l = (None, l1)" and r: "run_steps (mature_ApplyBlock X) bs l1 = (None, l')"
    by (auto split: prod.splits option.splits)
  note B = applyBlock_ok [OF mature_ApplyBlock_cases(1) [OF b Cons.prems(2) refl] ledger_ok_refreshed [OF Cons.prems(2)]]
  show ?case using Cons.IH [OF r B(1, 3)] B(2) by (simp add: legacy_fees_def minted_def)
qed

section \<open>Main results\<close>

text \<open>
  C7. Conservation of the native currency by a block: when a block is applied, the sum of all confirmed
  balances grows by exactly the coinbase amounts and what was left in the fee pool, and shrinks by
  exactly the fees of version 1 and 2 transfers, which are burned. Fees of version 3 transactions
  are neither created nor lost, and no balance wraps around.
\<close>

theorem mature_ApplyBlock_conserves:
  assumes "mature_ApplyBlock X block l = (None, l')" and "ledger_ok l"
  shows "confirmed_sum l' + legacy_fees (b_Transactions block)
    = confirmed_sum l + unat (FeePoolBalance l) + minted (b_Transactions block)"
proof -
  note A = applyBlock_ok [OF mature_ApplyBlock_cases(1) [OF assms refl] ledger_ok_refreshed [OF assms(2)]]
  show ?thesis
    using A(2, 3) native_supply_accounts [OF A(1)] native_supply_accounts [OF assms(2)] ledger_okD(1) [OF assms(2)]
    by (simp add: FeePoolBalance_def)
qed

text \<open>
  C11. A block that is rejected leaves no trace: the ledger is the ledger before the call, with only
  the status of stakes refreshed whose release height has passed (which every reader does anyway).
\<close>

theorem mature_ApplyBlock_atomic:
  assumes "mature_ApplyBlock X block l = (Some e, l')" and "ledger_ok l"
  shows "l' = l\<lparr>ml_stakes := RefreshReleased (ml_currentHeight l) (ml_stakes l)\<rparr>"
  using mature_ApplyBlock_cases(2) [OF assms refl] by (simp add: refreshed_def)

lemma replay_state:
  assumes "ReplayMatureWithProfile X blocks params profile = Inr l"
    and "nc_Name profile \<noteq> []" and "nc_TxVersion profile \<ge> TxVersionAsset"
  shows "ledger_ok l" and "FeePoolBalance l = 0"
    and "confirmed_sum l + legacy_fees (concat (map b_Transactions blocks)) = minted (concat (map b_Transactions blocks))"
proof -
  let ?n = "NewMatureWithProfile params profile"
  have ok0: "ledger_ok ?n" using assms(2, 3) ledger_ok_new by auto
  have z: "asset_Balance (ml_assets ?n) FeeCollectorAddress NativeAssetID = 0" "native_supply ?n = 0"
    by (simp_all add: NewMatureWithProfile_def NewAssetState_def asset_Balance_def native_supply_def total_balance_def Let_def)
  obtain l1 where r: "run_steps (mature_ApplyBlock X) blocks ?n = (None, l1)"
    and l: "l = (if blocks \<noteq> [] then matureCoinbases (b_Height (last blocks)) l1 else l1)"
    using assms(1) by (auto simp: ReplayMatureWithProfile_def split: prod.splits option.splits)
  note R = replay_blocks [OF r ok0 z(1)]
  show ok: "ledger_ok l" using R l matureCoinbases_ok [of l1] by auto
  have sup: "native_supply l = native_supply l1" and as: "ml_assets l = ml_assets l1"
    using R l matureCoinbases_ok [of l1] by (auto simp: matureCoinbases_enabled)
  have pool: "asset_Balance (ml_assets l) FeeCollectorAddress NativeAssetID = 0" using R as by simp
  then show "FeePoolBalance l = 0" by (simp add: FeePoolBalance_def)
  have "native_supply l = confirmed_sum l" using native_supply_accounts [OF ok] pool by simp
  then show "confirmed_sum l + legacy_fees (concat (map b_Transactions blocks)) = minted (concat (map b_Transactions blocks))"
    using R sup z(2) by simp
qed

text \<open>
  C8. The books after a replay: on every network with the asset model, replaying any list of blocks
  that is accepted gives a ledger in which each address's native asset balance is its confirmed
  balance, confirmed is mature plus its pending coinbase credits, its locked stake is covered by its
  mature balance, the fee pool is empty, and the sum of all confirmed balances and burned legacy
  fees is exactly the sum of the coinbase amounts of the blocks.
\<close>

theorem ReplayMature_books:
  assumes "ReplayMatureWithProfile X blocks params profile = Inr l"
    and "nc_Name profile \<noteq> []" and "nc_TxVersion profile \<ge> TxVersionAsset"
  shows "(\<forall>a. a \<noteq> FeeCollectorAddress \<longrightarrow> asset_Balance (ml_assets l) a NativeAssetID = mature_Balance l a)
    \<and> (\<forall>a. unat (mature_Balance l a) = unat (MatureBalance l a) + pending_of a (ml_coinbases l))
    \<and> (\<forall>a. locked a (ml_stakes l) \<le> unat (MatureBalance l a))
    \<and> FeePoolBalance l = 0
    \<and> confirmed_sum l + legacy_fees (concat (map b_Transactions blocks)) = minted (concat (map b_Transactions blocks))"
  using ledger_okD [OF replay_state(1) [OF assms]] replay_state(2, 3) [OF assms]
  by (simp add: mature_Balance_def MatureBalance_def)

text \<open>
  C12. A version 3 transaction is all or nothing: when any of its steps fails after validation (the
  spend, the fee, the receipt, the asset operation), the ledger is restored; only released stakes
  are refreshed.
\<close>

theorem applyAssetTransactionV3_atomic:
  assumes "applyAssetTransactionV3 tx height l = (Some e, l')" and "ledger_ok l"
  shows "l' = l\<lparr>ml_stakes := RefreshReleased (ml_currentHeight l) (ml_stakes l)\<rparr>"
  using applyAssetTransactionV3_fail [OF assms] by (simp add: refreshed_def)

section \<open>Authorisation and replay\<close>

text \<open>No confirmed balance outside a set of addresses goes down.\<close>

definition spares :: "string set \<Rightarrow> mature_ledger \<Rightarrow> mature_ledger \<Rightarrow> bool" where
  "spares A l l' \<longleftrightarrow> (\<forall>a. a \<notin> A \<longrightarrow> unat (mature_Balance l a) \<le> unat (mature_Balance l' a))"

lemma spares_refl: "spares A l l"
  by (simp add: spares_def)

lemma spares_trans: "spares A a b \<Longrightarrow> spares B b c \<Longrightarrow> A \<subseteq> S \<Longrightarrow> B \<subseteq> S \<Longrightarrow> spares S a c"
  unfolding spares_def by (meson le_trans subsetD)

lemma spares_accounts: "ml_accounts l' = ml_accounts l \<Longrightarrow> spares A l l'"
  by (simp add: spares_def mature_Balance_def)

lemma spendNative_spares: "spendNative a n l = (None, l') \<Longrightarrow> spares {a} l l'"
  using validateNativeSpend_ok [of a n l]
  by (auto simp: spendNative_def Let_def spares_def mature_Balance_def split: prod.splits option.splits sum.splits)

lemma receiveNative_spares: "receiveNative a n l = (None, l') \<Longrightarrow> spares {} l l'"
  by (auto simp: receiveNative_def Let_def spares_def mature_Balance_def Add_Inr_iff
      split: prod.splits option.splits sum.splits if_splits)

lemma chargeNativeFee_spares:
  assumes "chargeNativeFee a n l = (None, l')"
  shows "spares {a} l l'"
proof (cases "n = 0")
  case False
  then obtain l1 as where s: "spendNative a n l = (None, l1)" and l': "l' = l1\<lparr>ml_assets := as\<rparr>"
    using assms by (auto simp: chargeNativeFee_def split: prod.splits option.splits)
  show ?thesis
    by (rule spares_trans [OF spendNative_spares [OF s] spares_accounts [where A = "{}"]]) (simp_all add: l')
qed (use assms spares_refl in \<open>simp add: chargeNativeFee_def\<close>)

lemma on_assets_spares: "on_assets f l = (None, l') \<Longrightarrow> spares {} l l'"
  by (rule spares_accounts) (auto simp: on_assets_def split: prod.splits)

lemma v3_effect_spares:
  assumes "v3_effect tx l = (None, l')"
  shows "spares {tx_From tx, EffectiveFeePayer tx} l l'"
proof -
  have op_fee: "spares {tx_From tx, EffectiveFeePayer tx} l l'"
    if op: "and_then (on_assets f) (chargeNativeFee (EffectiveFeePayer tx) (tx_Fee tx)) l = (None, l')" for f
  proof -
    obtain l1 where "on_assets f l = (None, l1)" "chargeNativeFee (EffectiveFeePayer tx) (tx_Fee tx) l1 = (None, l')"
      using op by (auto simp: and_then_ok)
    from spares_trans [OF on_assets_spares [OF this(1)] chargeNativeFee_spares [OF this(2)]] show ?thesis by simp
  qed
  show ?thesis
  proof (cases "TxType tx = TxTypeTransfer \<and> IsNative (EffectiveAssetID tx)")
    case True
    then obtain l1 l2 where s: "spendNative (tx_From tx) (tx_Amount tx) l = (None, l1)"
      and f: "chargeNativeFee (EffectiveFeePayer tx) (tx_Fee tx) l1 = (None, l2)"
      and r: "receiveNative (tx_To tx) (tx_Amount tx) l2 = (None, l')"
      using assms by (auto simp: v3_effect_def and_then_ok)
    have "spares {tx_From tx, EffectiveFeePayer tx} l l2"
      by (rule spares_trans [OF spendNative_spares [OF s] chargeNativeFee_spares [OF f]]) auto
    then show ?thesis by (rule spares_trans [OF _ receiveNative_spares [OF r]]) auto
  next
    case False
    then show ?thesis using assms unfolding v3_effect_def by (auto split: if_splits intro: op_fee)
  qed
qed

lemma applyAssetTransactionV3_spares:
  assumes "applyAssetTransactionV3 tx h l = (None, l')"
  shows "spares {tx_From tx, EffectiveFeePayer tx} l l'" and "ma_Nonce (ml_account l' (tx_From tx)) = tx_Nonce tx"
proof -
  obtain b l0 l1 where c: "mature_Clone l = (b, l0)" and e: "v3_effect tx l0 = (None, l1)"
    and l': "l' = set_nonce (tx_From tx) (tx_Nonce tx) l1"
    using assms by (auto simp: applyAssetTransactionV3_def split: prod.splits option.splits)
  have "ml_accounts l0 = ml_accounts l" using c by (auto simp: mature_Clone_def split: prod.splits)
  then have "spares {tx_From tx, EffectiveFeePayer tx} l l1"
    using spares_trans [OF spares_accounts v3_effect_spares [OF e], of l "{}"] by simp
  moreover have "mature_Balance l' a = mature_Balance l1 a" for a
    using l' by (simp add: mature_Balance_def set_nonce_def)
  ultimately show "spares {tx_From tx, EffectiveFeePayer tx} l l'" by (simp add: spares_def)
  show "ma_Nonce (ml_account l' (tx_From tx)) = tx_Nonce tx" using l' by (simp add: set_nonce_def)
qed

lemma legacy_transfer_spares:
  assumes "legacy_transfer tx l = (None, l')" and "tx_From tx \<noteq> tx_To tx"
  shows "spares {tx_From tx} l l'" and "ma_Nonce (ml_account l' (tx_From tx)) = tx_Nonce tx"
proof -
  let ?f = "ml_account l (tx_From tx)" and ?t = "ml_account l (tx_To tx)"
  obtain fc fm tc tm where "Add (ma_Confirmed ?t) (tx_Amount tx) = Inr tc"
    and "ml_accounts l' = fmupd (tx_To tx) (?t\<lparr>ma_Confirmed := tc, ma_Mature := tm\<rparr>)
        (fmupd (tx_From tx) (?f\<lparr>ma_Confirmed := fc, ma_Mature := fm, ma_Nonce := tx_Nonce tx\<rparr>) (ml_accounts l))"
    using assms(1)
    by (auto simp: legacy_transfer_def Let_def on_assets_def split: sum.splits prod.splits option.splits if_splits)
  then show "spares {tx_From tx} l l'" and "ma_Nonce (ml_account l' (tx_From tx)) = tx_Nonce tx"
    using assms(2) by (auto simp: spares_def mature_Balance_def Add_Inr_iff)
qed

lemma applied_spares_nonce:
  assumes "ApplyTransactionAtHeight X tx h l = (None, l')" and "\<not> tx_Coinbase tx"
  shows "spares {tx_From tx, EffectiveFeePayer tx} l l' \<and> ma_Nonce (ml_account l' (tx_From tx)) = tx_Nonce tx"
proof -
  obtain l1 where v: "mature_ValidateTransaction X tx l = (None, l1)"
    using assms(1) by (auto simp: ApplyTransactionAtHeight_def split: prod.splits option.splits)
  have "ml_accounts l1 = ml_accounts l" using validate_state [OF v] by auto
  then have s1: "spares {} l l1" by (rule spares_accounts)
  note from_l1 = spares_trans [OF s1, of _ l' "{tx_From tx, EffectiveFeePayer tx}"]
  show ?thesis
  proof (cases "tx_ProtocolVersion tx = TxVersionAsset")
    case True
    then have "applyAssetTransactionV3 tx h l1 = (None, l')" using assms(1) v by (simp add: ApplyTransactionAtHeight_def)
    with applyAssetTransactionV3_spares [OF this] from_l1 show ?thesis by simp
  next
    case False
    show ?thesis
    proof (cases "TxType tx = TxTypeTransfer")
      case tr: True
      have ne: "tx_From tx \<noteq> tx_To tx"
        using validate_legacy(1) [OF v assms(2) False] tr by (auto simp: mature_type_check_def split: if_splits)
      have "legacy_transfer tx l1 = (None, l')" using assms(1) v False tr by (simp add: ApplyTransactionAtHeight_def)
      with legacy_transfer_spares [OF this ne] from_l1 [of "{tx_From tx}"] show ?thesis by simp
    next
      case ntr: False
      obtain st where l': "l' = set_nonce (tx_From tx) (tx_Nonce tx) (l1\<lparr>ml_stakes := st\<rparr>)"
        using assms(1) v False ntr
        by (auto simp: ApplyTransactionAtHeight_def on_stakes_def split: prod.splits option.splits if_splits)
      have "mature_Balance l' a = mature_Balance l1 a" for a
        using l' by (simp add: mature_Balance_def set_nonce_def)
      then have "spares {} l1 l'" by (simp add: spares_def)
      with from_l1 [of "{}"] l' show ?thesis by (simp add: set_nonce_def)
    qed
  qed
qed



end
