(* ===== verification/Amount.thy ===== *)
theory Amount
  imports Config
begin

text \<open>
  Package \<open>amount\<close>: decimal amounts as text. \<open>strconv.ParseUint\<close>, \<open>strings.Split\<close> and
  \<open>strings.TrimRight\<close> are modelled from Go's documentation. The scale \<open>unitsPerWhole\<close> is computed by
  a wrapping loop, which is zero from 64 decimals on, where the division panics: the panic is the
  error \<open>ErrDivide\<close> of \<open>ParseUnits\<close> and the result None of \<open>FormatUnits\<close>. Main result: parsing a
  formatted amount gives the amount back for every scale an asset may have.
\<close>

definition ErrDivide :: err where
  "ErrDivide = Err ''runtime error: integer divide by zero''"

definition ErrSyntax :: err where
  "ErrSyntax = Err ''invalid syntax''"

definition ErrRange :: err where
  "ErrRange = Err ''value out of range''"

definition digit_value :: "char \<Rightarrow> nat option" where
  "digit_value c = (let n = of_char c :: nat in if 48 \<le> n \<and> n \<le> 57 then Some (n - 48) else None)"

fun parse_digits :: "nat \<Rightarrow> string \<Rightarrow> err + u64" where
  "parse_digits acc [] = Inr (of_nat acc)"
| "parse_digits acc (c # s) =
     (case digit_value c of
        None \<Rightarrow> Inl ErrSyntax
      | Some d \<Rightarrow> if 10 * acc + d \<ge> 2 ^ 64 then Inl ErrRange else parse_digits (10 * acc + d) s)"

definition ParseUint :: "string \<Rightarrow> err + u64" where
  "ParseUint s = (if s = [] then Inl ErrSyntax else parse_digits 0 s)"

fun split_on :: "char \<Rightarrow> string \<Rightarrow> string list" where
  "split_on sep [] = [[]]"
| "split_on sep (c # s) =
     (if c = sep then [] # split_on sep s
      else case split_on sep s of [] \<Rightarrow> [[c]] | p # ps \<Rightarrow> (c # p) # ps)"

definition TrimRight :: "string \<Rightarrow> char \<Rightarrow> string" where
  "TrimRight s c = rev (dropWhile (\<lambda>x. x = c) (rev s))"

definition zero_pad :: "nat \<Rightarrow> string \<Rightarrow> string" where
  "zero_pad w s = replicate (w - length s) CHR ''0'' @ s"

text \<open>The loop \<open>for i := uint8(0); i < decimals; i++ { unitsPerWhole *= 10 }\<close>.\<close>

fun units_loop :: "nat \<Rightarrow> u64 \<Rightarrow> u64" where
  "units_loop 0 u = u"
| "units_loop (Suc i) u = units_loop i (u * 10)"

definition unitsPerWhole :: "u8 \<Rightarrow> u64" where
  "unitsPerWhole decimals = units_loop (unat decimals) 1"

definition add_fraction :: "string list \<Rightarrow> u8 \<Rightarrow> u64 \<Rightarrow> err + u64" where
  "add_fraction parts decimals units0 =
    (if length parts = 2 then
       let fraction = parts ! 1 in
       if length fraction > unat decimals then Inl (Err ''amount has more than %d decimals'')
       else case ParseUint (fraction @ replicate (unat decimals - length fraction) CHR ''0'') of
         Inl e \<Rightarrow> Inl e
       | Inr fracUnits \<Rightarrow>
           if max_u64 - units0 < fracUnits then Inl (Err ''amount overflows uint64'')
           else Inr (units0 + fracUnits)
     else Inr units0)"

definition ParseUnits :: "string \<Rightarrow> u8 \<Rightarrow> err + u64" where
  "ParseUnits value decimals =
    (let value = TrimSpace value in
     if value = [] then Inl (Err ''amount is required'')
     else if HasPrefix value ''-'' then Inl (Err ''amount cannot be negative'')
     else let parts = split_on CHR ''.'' value in
     if length parts > 2 then Inl (Err ''invalid decimal amount'')
     else let whole = (if hd parts = [] then ''0'' else hd parts) in
     case ParseUint whole of
       Inl e \<Rightarrow> Inl e
     | Inr wholeUnits \<Rightarrow>
         let units = unitsPerWhole decimals in
         if units = 0 then Inl ErrDivide
         else if wholeUnits > max_u64 div units then Inl (Err ''amount overflows uint64'')
         else case add_fraction parts decimals (wholeUnits * units) of
           Inl e \<Rightarrow> Inl e
         | Inr units0 \<Rightarrow>
             if units0 = 0 then Inl (Err ''amount must be greater than zero'') else Inr units0)"

definition Parse :: "string \<Rightarrow> err + u64" where
  "Parse value = ParseUnits value (of_nat Decimals)"

definition FormatUnits :: "u64 \<Rightarrow> u8 \<Rightarrow> string option" where
  "FormatUnits units decimals =
    (let per = unitsPerWhole decimals in
     if decimals = 0 then Some (FormatUint units)
     else if per = 0 then None
     else let value = FormatUint (units div per) @ ''.''
                @ zero_pad (unat decimals) (FormatUint (units mod per)) in
       Some (TrimRight (TrimRight value CHR ''0'') CHR ''.''))"

definition Format :: "u64 \<Rightarrow> string option" where
  "Format units = FormatUnits units (of_nat Decimals)"

section \<open>Digits\<close>

definition is_digit :: "char \<Rightarrow> bool" where
  "is_digit c \<longleftrightarrow> digit_value c \<noteq> None"

lemma digit_value_digit_char: "d < 10 \<Longrightarrow> digit_value (digit_char d) = Some d"
  by (auto simp: digit_value_def digit_char_def Let_def)

lemma is_digit_digit_char [simp]: "d < 10 \<Longrightarrow> is_digit (digit_char d)"
  by (simp add: is_digit_def digit_value_digit_char)

lemma digits_dec: "set (dec n) \<subseteq> Collect is_digit"
proof (induction n rule: dec.induct)
  case (1 n)
  then show ?case by (subst dec.simps) (auto simp: is_digit_digit_char)
qed

lemma dec_not_Nil [simp]: "dec n \<noteq> []"
  by (subst dec.simps) simp

lemma length_dec_le: "n < 10 ^ w \<Longrightarrow> 0 < w \<Longrightarrow> length (dec n) \<le> w"
proof (induction n arbitrary: w rule: dec.induct)
  case (1 n)
  show ?case
  proof (cases "n < 10")
    case True
    then show ?thesis using "1.prems" by (subst dec.simps) simp
  next
    case False
    then obtain v where v: "w = Suc v" "0 < v"
      using "1.prems" by (cases w; cases "w - 1") auto
    then have "n div 10 < 10 ^ v" using "1.prems" by (simp add: div_less_iff_less_mult mult.commute)
    with "1.IH" False v have "length (dec (n div 10)) \<le> v" by blast
    then show ?thesis using False v by (subst dec.simps) simp
  qed
qed

lemma parse_digits_append:
  "parse_digits acc (s @ t) =
     (case parse_digits acc s of Inl e \<Rightarrow> Inl e | Inr _ \<Rightarrow>
        parse_digits (fold (\<lambda>c a. 10 * a + the (digit_value c)) s acc) t)"
  by (induction s arbitrary: acc) (auto split: option.splits sum.splits)

lemma parse_dec:
  assumes "n < 2 ^ 64"
  shows "parse_digits 0 (dec n) = Inr (of_nat n)
    \<and> fold (\<lambda>c a. 10 * a + the (digit_value c)) (dec n) 0 = n"
  using assms
proof (induction n rule: dec.induct)
  case (1 n)
  show ?case
  proof (cases "n < 10")
    case True
    then show ?thesis by (subst (1 2) dec.simps) (simp add: digit_value_digit_char)
  next
    case False
    then have IH: "parse_digits 0 (dec (n div 10)) = Inr (of_nat (n div 10))"
      "fold (\<lambda>c a. 10 * a + the (digit_value c)) (dec (n div 10)) 0 = n div 10"
      using 1 by auto
    have "10 * (n div 10) + n mod 10 = n" by simp
    with IH False "1.prems" show ?thesis
      by (subst (1 2) dec.simps)
        (simp add: parse_digits_append digit_value_digit_char del: mult_div_mod_eq)
  qed
qed

lemma parse_zeros: "parse_digits 0 (replicate k CHR ''0'' @ s) = parse_digits 0 s"
  by (induction k) (simp_all add: digit_value_def)

lemma ParseUint_pad [simp]: "ParseUint (zero_pad w (FormatUint (x :: u64))) = Inr x"
  using parse_dec [of "unat x"] by (simp add: ParseUint_def zero_pad_def FormatUint_def parse_zeros)

lemma ParseUint_FormatUint [simp]: "ParseUint (FormatUint (x :: u64)) = Inr x"
  using parse_dec [of "unat x"] by (simp add: ParseUint_def FormatUint_def)

section \<open>Text\<close>

lemma split_on_no_sep: "sep \<notin> set s \<Longrightarrow> split_on sep s = [s]"
  by (induction s) auto

lemma split_on_append: "sep \<notin> set s \<Longrightarrow> split_on sep (s @ sep # t) = s # split_on sep t"
  by (induction s) auto

lemma not_digit: "\<not> is_digit CHR ''.''" "\<not> is_digit CHR ''-''"
  by (simp_all add: is_digit_def digit_value_def)

definition amount_char :: "char \<Rightarrow> bool" where
  "amount_char c \<longleftrightarrow> is_digit c \<or> c = CHR ''.''"

lemma amount_char_code: "amount_char c \<Longrightarrow> 46 \<le> (of_char c :: nat) \<and> (of_char c :: nat) \<le> 57"
  by (auto simp: amount_char_def is_digit_def digit_value_def Let_def split: if_splits)

lemma TrimSpace_amount: "list_all amount_char s \<Longrightarrow> TrimSpace s = s"
  by (rule TrimSpace_plain) (auto simp: list_all_iff plain_char_def dest!: amount_char_code)


section \<open>Round trip\<close>

lemma TrimRight_stop: "x \<noteq> c \<Longrightarrow> TrimRight (s @ [x]) c = s @ [x]"
  by (simp add: TrimRight_def)

lemma TrimRight_last: "s \<noteq> [] \<Longrightarrow> last s \<noteq> c \<Longrightarrow> TrimRight s c = s"
  by (metis TrimRight_stop append_butlast_last_id)

lemma TrimRight_replicate: "TrimRight (s @ replicate k c) c = TrimRight s c"
  by (simp add: TrimRight_def dropWhile_append)

text \<open>A string is its part without trailing copies of a character, and those copies.\<close>

lemma trailing_split:
  obtains f k where "s = f @ replicate k c" and "f = [] \<or> last f \<noteq> c"
proof (induction s arbitrary: thesis rule: rev_induct)
  case Nil
  then show ?case by (metis append_Nil replicate_0)
next
  case (snoc x s)
  show ?case
  proof (cases "x = c")
    case True
    obtain f k where "s = f @ replicate k c" "f = [] \<or> last f \<noteq> c" using snoc.IH by blast
    then have "s @ [x] = f @ replicate (Suc k) c"
      using True by (simp add: replicate_append_same)
    with \<open>f = [] \<or> last f \<noteq> c\<close> snoc.prems show ?thesis by blast
  next
    case False
    then show ?thesis using snoc.prems [of "s @ [x]" 0] by simp
  qed
qed

lemma digits_FormatUint: "list_all is_digit (FormatUint x)"
  using digits_dec [of "unat x"] by (auto simp: FormatUint_def list_all_iff)

lemma digits_zero_pad: "list_all is_digit s \<Longrightarrow> list_all is_digit (zero_pad w s)"
  by (auto simp: zero_pad_def list_all_iff is_digit_def digit_value_def)

lemma units_loop_eq: "units_loop n u = u * 10 ^ n"
  by (induction n arbitrary: u) (simp_all add: algebra_simps)

lemma unat_unitsPerWhole:
  assumes "d \<le> 19"
  shows "unat (unitsPerWhole d) = 10 ^ unat d"
proof -
  have "unat d \<le> 19" using assms by (simp add: word_le_nat_alt)
  then have "(10 :: nat) ^ unat d \<le> 10 ^ 19" by (intro power_increasing) simp_all
  then have "unat (of_nat (10 ^ unat d) :: u64) = 10 ^ unat d"
    by (subst unat_of_nat) simp
  moreover have "unitsPerWhole d = of_nat (10 ^ unat d)"
    by (simp add: unitsPerWhole_def units_loop_eq)
  ultimately show ?thesis by simp
qed

text \<open>What the formatted text is: the whole part, and the fraction without its trailing zeros.\<close>

lemma FormatUnits_shape:
  assumes "d \<noteq> 0" and "d \<le> 19"
  obtains f k where
    "FormatUnits x d = Some (FormatUint (x div unitsPerWhole d) @ (if f = [] then [] else CHR ''.'' # f))"
    and "zero_pad (unat d) (FormatUint (x mod unitsPerWhole d)) = f @ replicate k CHR ''0''"
proof -
  let ?w = "FormatUint (x div unitsPerWhole d)"
  let ?F = "zero_pad (unat d) (FormatUint (x mod unitsPerWhole d))"
  obtain f k where F: "?F = f @ replicate k CHR ''0''" and lf: "f = [] \<or> last f \<noteq> CHR ''0''"
    by (rule trailing_split)
  have dig: "list_all is_digit f"
    using digits_zero_pad [OF digits_FormatUint, of "unat d" "x mod unitsPerWhole d"] F by simp
  have per: "unitsPerWhole d \<noteq> 0" using unat_unitsPerWhole [OF assms(2)] by (metis power_not_zero unat_0 zero_neq_numeral)
  have "TrimRight (TrimRight (?w @ CHR ''.'' # ?F) CHR ''0'') CHR ''.''
      = ?w @ (if f = [] then [] else CHR ''.'' # f)"
  proof (cases "f = []")
    case True
    have "TrimRight (?w @ CHR ''.'' # ?F) CHR ''0'' = ?w @ [CHR ''.'']"
      using True F TrimRight_replicate [of "?w @ [CHR ''.'']" k "CHR ''0''"]
      by (simp add: TrimRight_stop)
    moreover have "TrimRight (?w @ [CHR ''.'']) CHR ''.'' = ?w"
    proof -
      have "?w \<noteq> []" by (simp add: FormatUint_def)
      then have "last ?w \<noteq> CHR ''.''"
        using digits_FormatUint [of "x div unitsPerWhole d"] not_digit(1)
        by (metis last_in_set list_all_iff)
      with \<open>?w \<noteq> []\<close> show ?thesis
        using TrimRight_replicate [of ?w 1 "CHR ''.''"] by (simp add: TrimRight_last)
    qed
    ultimately show ?thesis using True by simp
  next
    case False
    then have l: "last f \<noteq> CHR ''0''" "last f \<noteq> CHR ''.''"
      using lf dig not_digit(1) by (auto simp: list_all_iff dest: last_in_set)
    have "TrimRight (?w @ CHR ''.'' # ?F) CHR ''0'' = ?w @ CHR ''.'' # f"
      using F l(1) False TrimRight_replicate [of "?w @ CHR ''.'' # f" k "CHR ''0''"]
      by (simp add: TrimRight_last)
    then show ?thesis using False l(2) by (simp add: TrimRight_last)
  qed
  then have "FormatUnits x d = Some (?w @ (if f = [] then [] else CHR ''.'' # f))"
    using assms(1) per by (simp add: FormatUnits_def Let_def)
  with F show ?thesis using that by blast
qed

lemma digits_append_zero: "length (f @ replicate k z) = n \<Longrightarrow> f @ replicate (n - length f) z = f @ replicate k z"
  by auto

lemma length_zero_pad_mod:
  assumes "d \<noteq> 0" and "d \<le> 19"
  shows "length (zero_pad (unat d) (FormatUint (x mod unitsPerWhole d))) = unat d"
proof -
  have "unat (x mod unitsPerWhole d) < 10 ^ unat d"
    using unat_unitsPerWhole [OF assms(2)] by (simp add: unat_mod)
  moreover have "0 < unat d" using assms(1) by (simp add: unat_gt_0)
  ultimately have "length (FormatUint (x mod unitsPerWhole d)) \<le> unat d"
    unfolding FormatUint_def by (rule length_dec_le)
  then show ?thesis by (simp add: zero_pad_def)
qed

lemma hd_FormatUint: "\<not> HasPrefix (FormatUint x @ s) ''-''"
proof -
  obtain c t where "FormatUint x = c # t" by (cases "FormatUint x") (auto simp: FormatUint_def)
  moreover have "c \<noteq> CHR ''-''"
    using digits_FormatUint [of x] not_digit(2) calculation by (auto simp: list_all_iff)
  ultimately show ?thesis by (simp add: HasPrefix_def)
qed

lemma whole_fits:
  assumes "per \<noteq> 0"
  shows "\<not> max_u64 div per < x div per" and "\<not> max_u64 - (x div per) * per < x mod per"
    and "(x div per) * per + x mod per = (x :: u64)"
proof -
  show "\<not> max_u64 div per < x div per"
    by (simp add: word_less_nat_alt unat_div div_le_mono not_less)
  have le: "(x div per) * per \<le> x" by (rule word_div_mult_le)
  have eq: "(x div per) * per + x mod per = x" by (rule div_mult_mod_eq)
  then show "(x div per) * per + x mod per = x" .
  have "x mod per = x - (x div per) * per" using eq by (metis add_diff_cancel_left')
  moreover have "(x div per) * per \<le> max_u64" by (simp add: word_le_nat_alt)
  ultimately show "\<not> max_u64 - (x div per) * per < x mod per"
    using le by (simp add: word_less_nat_alt unat_sub not_less diff_le_mono)
qed

text \<open>
  C18. Round trip of amounts: for every non-zero amount and every scale up to 19 decimals, the formatted
  text parses back to the amount.
\<close>

theorem ParseUnits_FormatUnits:
  assumes "x \<noteq> 0" and "d \<le> 19"
  shows "\<exists>s. FormatUnits x d = Some s \<and> ParseUnits s d = Inr x"
proof (cases "d = 0")
  case True
  have "TrimSpace (FormatUint x) = FormatUint x"
    using digits_FormatUint [of x] by (intro TrimSpace_amount) (auto simp: list_all_iff amount_char_def)
  moreover have "split_on CHR ''.'' (FormatUint x) = [FormatUint x]"
    using digits_FormatUint [of x] not_digit(1) by (intro split_on_no_sep) (auto simp: list_all_iff)
  ultimately have "ParseUnits (FormatUint x) 0 = Inr x"
    using assms(1) hd_FormatUint [of x "[]"]
    by (simp add: ParseUnits_def Let_def unitsPerWhole_def add_fraction_def word_le_nat_alt not_less)
       (simp add: FormatUint_def)
  with True show ?thesis by (simp add: FormatUnits_def)
next
  case False
  let ?per = "unitsPerWhole d"
  let ?w = "FormatUint (x div ?per)" and ?F = "zero_pad (unat d) (FormatUint (x mod ?per))"
  obtain f k where s: "FormatUnits x d = Some (?w @ (if f = [] then [] else CHR ''.'' # f))"
    and F: "?F = f @ replicate k CHR ''0''"
    using False assms(2) by (rule FormatUnits_shape)
  let ?s = "?w @ (if f = [] then [] else CHR ''.'' # f)"
  have per: "?per \<noteq> 0"
    using unat_unitsPerWhole [OF assms(2)] by (metis power_not_zero unat_0 zero_neq_numeral)
  have lenF: "length (f @ replicate k CHR ''0'') = unat d"
    using length_zero_pad_mod [OF False assms(2)] F by metis
  have digf: "list_all is_digit f"
    using digits_zero_pad [OF digits_FormatUint, of "unat d" "x mod ?per"] F by simp
  note digw = digits_FormatUint [of "x div ?per"]
  have trim: "TrimSpace ?s = ?s"
    using digf digw by (intro TrimSpace_amount) (auto simp: list_all_iff amount_char_def)
  have nodot: "CHR ''.'' \<notin> set ?w" "CHR ''.'' \<notin> set f"
    using digf digw not_digit(1) by (auto simp: list_all_iff)
  have parts: "split_on CHR ''.'' ?s = (if f = [] then [?w] else [?w, f])"
    using nodot by (auto simp: split_on_no_sep split_on_append)
  have frac: "add_fraction (split_on CHR ''.'' ?s) d (x div ?per * ?per) = Inr x"
  proof (cases "f = []")
    case True
    with F have "ParseUint (replicate k CHR ''0'') = Inr (x mod ?per)" by (metis ParseUint_pad append_Nil)
    then have "x mod ?per = 0"
      using parse_zeros [of k "[]"] by (simp add: ParseUint_def split: if_splits)
    then have "x div ?per * ?per = x" using whole_fits(3) [OF per, of x] by simp
    then show ?thesis using parts True by (simp add: add_fraction_def)
  next
    case False
    have "ParseUint (f @ replicate (unat d - length f) CHR ''0'') = Inr (x mod ?per)"
      using digits_append_zero [OF lenF] F by (metis ParseUint_pad)
    then show ?thesis
      using False parts lenF whole_fits(2, 3) [OF per, of x] by (simp add: add_fraction_def del: max_u64_numeral)
  qed
  have "hd (split_on CHR ''.'' ?s) = ?w" and "\<not> length (split_on CHR ''.'' ?s) > 2"
    using parts by simp_all
  moreover have "?s \<noteq> []" and "?w \<noteq> []" by (simp_all add: FormatUint_def)
  moreover have "\<not> HasPrefix ?s ''-''" by (rule hd_FormatUint)
  ultimately have "ParseUnits ?s d = Inr x"
    unfolding ParseUnits_def trim Let_def
    using frac per whole_fits(1) [OF per, of x] assms(1) by (simp del: max_u64_numeral split del: if_split)
  with s show ?thesis by blast
qed

end
