(* ===== verification/Scenarios.thy ===== *)
theory Scenarios
  imports Ledger_Invariants Amount
begin

text \<open>
  Concrete inputs at which the hypotheses of the properties hold: a stand-in for the third-party
  primitives (any key parses, any signature verifies), development addresses of the local network,
  which are valid without a checksum, and the blocks, transactions and ledgers built from them.
\<close>

definition demo_ext :: ext where
  "demo_ext = \<lparr>x_ripemd160 = (\<lambda>_. replicate 20 0), x_ParsePubKey = Some, x_ParseDERSignature = Some,
     x_Verify = (\<lambda>_ _ _. True)\<rparr>"

definition dev_address :: string where
  "dev_address = legacyDevPrefix @ replicate 40 CHR ''0''"

definition reward_tx :: transaction where
  "reward_tx = zero_tx\<lparr>tx_Coinbase := True, tx_To := dev_address, tx_Amount := 5000\<rparr>"

definition reward_block :: "u64 \<Rightarrow> block" where
  "reward_block h = zero_block\<lparr>b_Height := h, b_MinerAddress := dev_address, b_Transactions := [reward_tx]\<rparr>"

definition bad_block :: block where
  "bad_block = zero_block\<lparr>b_Height := 2, b_MinerAddress := dev_address, b_Transactions := [reward_tx, reward_tx]\<rparr>"

definition local_params :: consensus_params where
  "local_params = nc_Consensus Localnet"

definition ledger1 :: mature_ledger where
  "ledger1 = snd (mature_ApplyBlock demo_ext (reward_block 1) (NewMatureWithProfile local_params Localnet))"

lemma dev_address_valid: "ValidateAddressForNetwork dev_address Localnet = None"
  by code_simp

lemma reward_block_applies:
  "fst (mature_ApplyBlock demo_ext (reward_block 1) (NewMatureWithProfile local_params Localnet)) = None"
  by code_simp

lemma ledger1_ok: "ledger_ok ledger1"
  unfolding ledger1_def
  by (rule mature_ApplyBlock_kept, rule ledger_ok_new) (simp add: Localnet_def TxVersionAsset_def)

section \<open>Blocks\<close>

lemma reward_block_result:
  "mature_ApplyBlock demo_ext (reward_block 1) (NewMatureWithProfile local_params Localnet) = (None, ledger1)"
  using reward_block_applies by (simp add: ledger1_def prod_eq_iff)

lemma local_new_ok: "ledger_ok (NewMatureWithProfile local_params Localnet)"
  by (rule ledger_ok_new) (simp add: Localnet_def TxVersionAsset_def)

theorem mature_ApplyBlock_conserves_witness: "confirmed_sum ledger1 = 5000"
proof -
  have "confirmed_sum (NewMatureWithProfile local_params Localnet) = 0"
    and "FeePoolBalance (NewMatureWithProfile local_params Localnet) = 0"
    by (simp_all add: confirmed_sum_def NewMatureWithProfile_def FeePoolBalance_def NewAssetState_def
        asset_Balance_def Let_def)
  moreover have "minted (b_Transactions (reward_block 1)) = 5000" "legacy_fees (b_Transactions (reward_block 1)) = 0"
    by (simp_all add: minted_def legacy_fees_def legacy_fee_def reward_block_def reward_tx_def)
  ultimately show ?thesis
    using mature_ApplyBlock_conserves [OF reward_block_result local_new_ok] by simp
qed

lemma bad_block_fails: "fst (mature_ApplyBlock demo_ext bad_block ledger1) \<noteq> None"
  by code_simp

theorem mature_ApplyBlock_atomic_witness:
  "\<exists>e. mature_ApplyBlock demo_ext bad_block ledger1
    = (Some e, ledger1\<lparr>ml_stakes := RefreshReleased (ml_currentHeight ledger1) (ml_stakes ledger1)\<rparr>)"
proof -
  obtain e l' where "mature_ApplyBlock demo_ext bad_block ledger1 = (Some e, l')"
    using bad_block_fails by (metis not_Some_eq prod.collapse)
  with mature_ApplyBlock_atomic [OF this ledger1_ok] show ?thesis by simp
qed

theorem ReplayMature_books_witness:
  "\<exists>l. ReplayMatureWithProfile demo_ext [reward_block 1] local_params Localnet = Inr l
    \<and> FeePoolBalance l = 0 \<and> confirmed_sum l = 5000"
proof -
  let ?l = "matureCoinbases 1 ledger1"
  have r: "ReplayMatureWithProfile demo_ext [reward_block 1] local_params Localnet = Inr ?l"
    using reward_block_result by (simp add: ReplayMatureWithProfile_def reward_block_def)
  have "legacy_fees (concat (map b_Transactions [reward_block 1])) = 0"
    "minted (concat (map b_Transactions [reward_block 1])) = 5000"
    by (simp_all add: minted_def legacy_fees_def legacy_fee_def reward_block_def reward_tx_def)
  then show ?thesis
    using ReplayMature_books [OF r] r by (simp add: Localnet_def TxVersionAsset_def)
qed

definition early_spend :: transaction where
  "early_spend = zero_tx\<lparr>tx_Version := 3, tx_Type := TxTypeTransfer, tx_From := dev_address,
     tx_To := legacyDevPrefix @ replicate 40 CHR ''1'', tx_Amount := 1, tx_Nonce := 1\<rparr>"

lemma early_spend_fails: "fst (applyAssetTransactionV3 early_spend 2 ledger1) = Some ErrImmatureBalance"
  by code_simp

theorem applyAssetTransactionV3_atomic_witness:
  "applyAssetTransactionV3 early_spend 2 ledger1
    = (Some ErrImmatureBalance, ledger1\<lparr>ml_stakes := RefreshReleased (ml_currentHeight ledger1) (ml_stakes ledger1)\<rparr>)"
proof -
  obtain l' where "applyAssetTransactionV3 early_spend 2 ledger1 = (Some ErrImmatureBalance, l')"
    using early_spend_fails by (metis prod.collapse)
  with applyAssetTransactionV3_atomic [OF this ledger1_ok] show ?thesis by simp
qed

section \<open>A signed transaction\<close>

definition demo_key :: string where
  "demo_key = replicate 66 CHR ''0''"

definition demo_address :: string where
  "demo_address = ''iND'' @ Base58CheckEncode (30 # replicate 20 0)"

lemma demo_key_bytes: "hex_decode demo_key = Some (replicate 33 0)"
  by code_simp

lemma demo_address_of_key: "AddressFromPublicKeyForNetwork demo_ext demo_key Localnet = Inr demo_address"
  by (simp add: AddressFromPublicKeyForNetwork_def demo_key_bytes EncodeAddress_def Hash160_def demo_ext_def
      demo_address_def Localnet_def)

lemma demo_address_valid: "ValidateAddressForNetwork demo_address Localnet = None"
proof -
  have "EncodeAddress demo_ext (replicate 33 0) Localnet = Inr demo_address"
    using demo_address_of_key by (simp add: AddressFromPublicKeyForNetwork_def demo_key_bytes)
  moreover have "length (x_ripemd160 demo_ext (sha256 (replicate 33 0))) = 20" by (simp add: demo_ext_def)
  moreover have "nc_AddressPrefix Localnet = ''iND''" by (simp add: Localnet_def)
  ultimately have "DecodeAddress demo_address Localnet = Inr \<lparr>ad_Version = nc_AddressVersion Localnet,
      ad_PubKeyHash = Hash160 demo_ext (replicate 33 0), ad_Legacy = False\<rparr>"
    using DecodeAddress_EncodeAddress [of demo_ext "replicate 33 0" Localnet demo_address Localnet] by simp
  then show ?thesis by (simp add: ValidateAddressForNetwork_def)
qed

lemma demo_verifies: "VerifyHex demo_ext demo_key [] payload"
  by (simp add: VerifyHex_def PublicKeyFromHex_def demo_key_bytes demo_ext_def)

definition stake_unsigned :: transaction where
  "stake_unsigned = zero_tx\<lparr>tx_Type := TxTypeStakeLock, tx_From := demo_address, tx_Amount := 1000000000,
     tx_Nonce := 1, tx_PublicKey := demo_key\<rparr>"

definition stake_tx :: transaction where
  "stake_tx = stake_unsigned\<lparr>tx_ID := DoubleSHA256Hex (SigningBytes stake_unsigned)\<rparr>"

definition funded :: mature_ledger where
  "funded = (NewMatureWithProfile local_params Localnet)\<lparr>ml_accounts :=
     fmupd demo_address \<lparr>ma_Confirmed = 2000000000, ma_Mature = 2000000000, ma_Nonce = 0\<rparr> fmempty\<rparr>"

lemma stake_tx_fields:
  "tx_Version stake_tx = 0" "tx_Type stake_tx = TxTypeStakeLock" "tx_From stake_tx = demo_address"
  "tx_To stake_tx = []" "tx_Amount stake_tx = 1000000000" "tx_Nonce stake_tx = 1" "\<not> tx_Coinbase stake_tx"
  "tx_PublicKey stake_tx = demo_key" "tx_Signature stake_tx = []" "tx_StakeID stake_tx = []"
  "tx_ProtocolVersion stake_tx = TxVersionLegacy" "TxType stake_tx = TxTypeStakeLock"
  by (simp_all add: stake_tx_def stake_unsigned_def zero_tx_def tx_ProtocolVersion_def TxType_def TxTypeStakeLock_def)

lemma stake_tx_signing: "SigningBytesWithChainID stake_tx c = Inr (SigningBytes stake_unsigned)"
proof -
  have "SigningBytesWithChainID stake_tx c = SigningBytesWithChainID stake_unsigned c"
    unfolding stake_tx_def by (rule signing_ignores_signatures)
  then show ?thesis
    by (simp add: SigningBytesWithChainID_def stake_unsigned_def zero_tx_def tx_ProtocolVersion_def)
qed

lemma stake_tx_id: "CalculateIDForChainID stake_tx c = Inr (tx_ID stake_tx)"
  by (simp add: CalculateIDForChainID_def stake_tx_signing) (simp add: stake_tx_def)

lemma funded_fields:
  "ml_profile funded = Localnet" "ml_params funded = nc_Consensus Localnet"
  "ml_stakes funded = NewStakeState (cp_Staking (nc_Consensus Localnet))" "ml_currentHeight funded = 0"
  "ml_account funded demo_address = \<lparr>ma_Confirmed = 2000000000, ma_Mature = 2000000000, ma_Nonce = 0\<rparr>"
  by (simp_all add: funded_def NewMatureWithProfile_def local_params_def Localnet_def Let_def)

lemma stake_tx_identity: "mature_identity demo_ext stake_tx funded = None"
  by (simp add: mature_identity_def stake_tx_fields funded_fields demo_address_valid demo_address_of_key
      stake_tx_id stake_tx_signing demo_verifies TxTypeStakeLock_def TxTypeTransfer_def)

lemma local_consts:
  "nc_TxVersion Localnet = 3" "cp_Staking (nc_Consensus Localnet) = \<lparr>sp_Enabled = True,
           sp_MinServiceStake = 100 * UnitsPerCoin, sp_MinStakeAmount = 10 * UnitsPerCoin,
           sp_UnbondingPeriodBlocks = 10, sp_MaxActiveStakesPerAddress = 10,
           sp_RequireStakeForServiceRewards = True\<rparr>"
  by (simp_all add: Localnet_def)

lemma empty_stakes:
  "RefreshReleased h (NewStakeState p) = NewStakeState p"
  "range_fm f (ss_records (NewStakeState p)) x = x"
  "ActiveCount a (NewStakeState p) = 0"
  by (simp_all add: RefreshReleased_def NewStakeState_def ActiveCount_def)

lemma stake_tx_validates: "fst (mature_ValidateTransaction demo_ext stake_tx funded) = None"
proof -
  have "mature_type_check stake_tx funded = None"
    by (simp add: mature_type_check_def stake_tx_fields funded_fields local_consts UnitsPerCoin_def
        TxTypeStakeLock_def TxTypeTransfer_def)
  moreover have "ValidateTransactionVersion TxVersionLegacy 3 = None" by code_simp
  moreover have "fst (mature_lock_check stake_tx funded) = None"
    by (simp add: mature_lock_check_def lockedStake_def AddressSummary_def empty_stakes stake_tx_fields
        funded_fields Let_def Add_def local_consts)
  ultimately show ?thesis
    using stake_tx_identity
    by (simp add: mature_ValidateTransaction_def stake_tx_fields funded_fields local_consts Add_def
        TxVersionLegacy_def TxVersionAsset_def TxTypeStakeLock_def TxTypeTransfer_def)
qed

lemma stake_tx_applies: "fst (ApplyTransactionAtHeight demo_ext stake_tx 1 funded) = None"
proof -
  obtain l1 where v: "mature_ValidateTransaction demo_ext stake_tx funded = (None, l1)"
    using stake_tx_validates by (metis prod.collapse)
  then have "l1 = funded \<or> l1 = refreshed funded" by (rule validate_state)
  then have "ml_stakes l1 = NewStakeState (cp_Staking (nc_Consensus Localnet))"
    by (auto simp: refreshed_def funded_fields empty_stakes)
  then have "fst (on_stakes (ApplyLock stake_tx 1) l1) = None"
    by (simp add: on_stakes_def ApplyLock_def empty_stakes stake_tx_fields local_consts UnitsPerCoin_def Let_def)
       (simp add: NewStakeState_def)
  then obtain l2 where "on_stakes (ApplyLock stake_tx 1) l1 = (None, l2)" by (metis prod.collapse)
  with v show ?thesis
    by (simp add: ApplyTransactionAtHeight_def stake_tx_fields TxVersionLegacy_def TxVersionAsset_def
        TxTypeStakeLock_def TxTypeTransfer_def)
qed



section \<open>The plain ledger\<close>

lemma reward_replay: "ledger_Replay demo_ext [reward_block 1] = Inr (fmupd dev_address \<lparr>ac_Balance = 5000, ac_Nonce = 0\<rparr> fmempty)"
  by (simp add: ledger_Replay_def ledger_ApplyBlock_def reward_block_def reward_tx_def ledger_ApplyCoinbase_def
      dev_address_valid ledger_New_def zero_account_def Add_def zero_tx_def Let_def)

theorem ledger_Replay_supply_witness:
  "ledger_supply (fmupd dev_address \<lparr>ac_Balance = 5000, ac_Nonce = 0\<rparr> fmempty) = 5000"
  using ledger_Replay_supply [OF reward_replay]
  by (simp add: minted_def burned_def reward_block_def reward_tx_def)

definition funded_plain :: ledger where
  "funded_plain = fmupd demo_address \<lparr>ac_Balance = 2000000000, ac_Nonce = 0\<rparr> fmempty"

lemma stake_plain_applies: "fst (ledger_ApplyTransaction demo_ext stake_tx funded_plain) = None"
proof -
  have "AddressFromPublicKey demo_ext demo_key = demo_address"
    by (simp add: AddressFromPublicKey_def demo_address_of_key)
  then have "ledger_tx_shape demo_ext stake_tx = None"
    by (simp add: ledger_tx_shape_def stake_tx_fields demo_address_valid stake_tx_id stake_tx_signing demo_verifies
        TxTypeStakeLock_def TxTypeTransfer_def)
  moreover have "ValidateTransactionVersion TxVersionLegacy 3 = None" by code_simp
  ultimately show ?thesis
    by (simp add: ledger_ApplyTransaction_def ledger_ValidateTransaction_def stake_tx_fields funded_plain_def
        local_consts Add_def Let_def TxTypeStakeLock_def TxTypeTransfer_def)
qed

theorem ledger_no_replay_witness:
  "fst (ledger_ApplyTransaction demo_ext stake_tx (snd (ledger_ApplyTransaction demo_ext stake_tx funded_plain))) \<noteq> None"
proof -
  obtain l' where a: "ledger_ApplyTransaction demo_ext stake_tx funded_plain = (None, l')"
    using stake_plain_applies by (metis prod.collapse)
  from ledger_no_replay [OF a stake_tx_fields(7)] a show ?thesis by auto
qed

section \<open>Assets\<close>

definition demo_asset :: asset_definition where
  "demo_asset = \<lparr>def_ID = ''asset:1'', def_Name = ''Demo'', def_Symbol = ''DMO'', def_Decimals = 2,
     def_Kind = KindFungible, def_Issuer = dev_address, def_MaxSupply = 1000, def_TotalSupply = 0,
     def_Mintable = True, def_Burnable = True, def_Pausable = False, def_Permissioned = False,
     def_Status = StatusAssetActive\<rparr>"

definition demo_assets :: asset_state where
  "demo_assets = snd (Mint ''asset:1'' dev_address dev_address 700 (snd (Create demo_asset NewAssetState)))"

lemma demo_assets_ok: "asset_ok demo_assets"
  unfolding demo_assets_def
  by (intro Mint_asset_ok Create_asset_ok asset_ok_new) (simp add: demo_asset_def)

lemma demo_assets_definition:
  "fmlookup (as_assets demo_assets) ''asset:1'' = Some (demo_asset\<lparr>def_TotalSupply := 700\<rparr>)"
  by code_simp

theorem Transfer_succeeds_iff_witness:
  "fst (Transfer ''asset:1'' dev_address ''bob'' 700 demo_assets) = None
   \<and> fst (Transfer ''asset:1'' dev_address ''bob'' 701 demo_assets) \<noteq> None"
proof -
  have "asset_Balance demo_assets dev_address ''asset:1'' = 700" by code_simp
  moreover have "dev_address \<noteq> []" "dev_address \<noteq> ''bob''" by code_simp+
  moreover have "''asset:1'' \<noteq> NativeAssetID" by (simp add: NativeAssetID_def)
  moreover have "def_Status (demo_asset\<lparr>def_TotalSupply := 700\<rparr>) \<noteq> StatusFrozen" by code_simp
  ultimately show ?thesis
    using Transfer_succeeds_iff [OF demo_assets_ok _ demo_assets_definition, of dev_address "''bob''"] by simp
qed

lemma token_without_fee: "fst (ExecuteTokenTransfer ''asset:1'' dev_address ''bob'' dev_address 10 1 demo_assets) \<noteq> None"
  by code_simp

theorem ExecuteTokenTransfer_atomic_witness:
  "asset_Balance (snd (ExecuteTokenTransfer ''asset:1'' dev_address ''bob'' dev_address 10 1 demo_assets))
   = asset_Balance demo_assets"
proof -
  obtain e s' where "ExecuteTokenTransfer ''asset:1'' dev_address ''bob'' dev_address 10 1 demo_assets = (Some e, s')"
    using token_without_fee by (metis not_Some_eq prod.collapse)
  with ExecuteTokenTransfer_atomic [OF this] show ?thesis by simp
qed

section \<open>Stakes\<close>

definition local_staking :: staking_params where
  "local_staking = cp_Staking (nc_Consensus Localnet)"

definition lock_tx :: transaction where
  "lock_tx = zero_tx\<lparr>tx_Type := TxTypeStakeLock, tx_ID := ''s1'', tx_From := dev_address, tx_Amount := 1000000000\<rparr>"

definition unlock_tx :: transaction where
  "unlock_tx = zero_tx\<lparr>tx_Type := TxTypeStakeUnlock, tx_ID := ''u1'', tx_From := dev_address, tx_StakeID := ''s1''\<rparr>"

definition stakes1 :: stake_state where
  "stakes1 = snd (ApplyLock lock_tx 3 (NewStakeState local_staking))"

definition stakes2 :: stake_state where
  "stakes2 = snd (ApplyUnlock unlock_tx 5 stakes1)"

lemma stakes_reached: "stake_reach local_staking 15 (RefreshReleased 15 stakes2)"
proof -
  have "fst (ApplyLock lock_tx 3 (NewStakeState local_staking)) = None" by code_simp
  then have 1: "ApplyLock lock_tx 3 (NewStakeState local_staking) = (None, stakes1)"
    by (simp add: stakes1_def prod_eq_iff)
  have "fst (ApplyUnlock unlock_tx 5 stakes1) = None" by code_simp
  then have 2: "ApplyUnlock unlock_tx 5 stakes1 = (None, stakes2)" by (simp add: stakes2_def prod_eq_iff)
  have "stake_reach local_staking 3 stakes1" by (rule stake_reach.lock [OF stake_reach.init _ 1]) simp
  then have "stake_reach local_staking 5 stakes2" by (rule stake_reach.unlock [OF _ _ 2]) simp
  then show ?thesis by (rule stake_reach.refresh) simp
qed

theorem no_early_release_witness:
  "\<exists>r. fmlookup (ss_records (RefreshReleased 15 stakes2)) ''s1'' = Some r \<and> sr_Status r = StatusReleased
    \<and> unat (sr_UnlockHeight r) + unat (sp_UnbondingPeriodBlocks local_staking) \<le> 15"
proof -
  have "map_option sr_Status (fmlookup (ss_records (RefreshReleased 15 stakes2)) ''s1'') = Some StatusReleased"
    by code_simp
  then obtain r where r: "fmlookup (ss_records (RefreshReleased 15 stakes2)) ''s1'' = Some r"
    and st: "sr_Status r = StatusReleased" by auto
  from no_early_release [OF stakes_reached r st]
  have "unat (sr_UnlockHeight r) + unat (sp_UnbondingPeriodBlocks local_staking) \<le> 15" by simp
  with r st show ?thesis by blast
qed

theorem staking_ApplyBlock_keeps_witness:
  "\<exists>r. fmlookup (ss_records (snd (staking_ApplyBlock (zero_block\<lparr>b_Height := 5, b_Transactions := [unlock_tx]\<rparr>) stakes1)))
     ''s1'' = Some r"
proof -
  have "fmlookup (ss_records stakes1) ''s1'' \<noteq> None" by code_simp
  then obtain r where "fmlookup (ss_records stakes1) ''s1'' = Some r" by auto
  from staking_ApplyBlock_keeps [OF this] show ?thesis by blast
qed

section \<open>Codecs, fees and amounts\<close>

definition v3_tx :: transaction where
  "v3_tx = zero_tx\<lparr>tx_Version := 3, tx_Type := TxTypeTransfer, tx_From := ''alice'', tx_To := ''bob'',
     tx_AssetID := NativeAssetID, tx_Amount := 5, tx_Fee := 7, tx_Nonce := 1\<rparr>"

lemma v3_tx_short: "tx_short v3_tx"
  by code_simp

lemma v3_tx_version: "tx_ProtocolVersion v3_tx = TxVersionAsset"
  by code_simp

theorem decode_encode_witness:
  "\<exists>raw. CanonicalBytes v3_tx = Inr raw \<and> DecodeCanonicalTransaction raw = Inr (normal_tx v3_tx)"
  using decode_encode [OF v3_tx_short] v3_tx_version by simp


theorem truncated_decodes_witness:
  "DecodeCanonicalTransaction (butlast (CanonicalBytesV3 v3_tx)) = Inr (normal_tx v3_tx)"
proof (rule truncated_decodes [OF v3_tx_short v3_tx_version])
  show "tx_StakeID v3_tx = []" by code_simp
  show "CanonicalBytesV3 v3_tx = butlast (CanonicalBytesV3 v3_tx) @ replicate 1 0" by code_simp
qed simp

theorem merkle_repeat_last_witness:
  "CalculateMerkleRoot [reward_tx, lock_tx, unlock_tx, unlock_tx] = CalculateMerkleRoot [reward_tx, lock_tx, unlock_tx]"
  using merkle_repeat_last [of "[reward_tx, lock_tx, unlock_tx]"] by simp

lemma v3_tx_gas: "GasUsed v3_tx Localnet = Inr (15, 148)" "MinimumFee v3_tx Localnet = Inr 1"
  by code_simp+

theorem MinimumFee_exact_witness: "unat (1 :: u64) = max (unat (fp_MinFee (nc_Fee Localnet))) (15 * unat (fp_MinGasPrice (nc_Fee Localnet)))"
proof -
  have "\<not> tx_Coinbase v3_tx" "tx_ProtocolVersion v3_tx \<ge> TxVersionAsset" "fp_Enabled (nc_Fee Localnet)" by code_simp+
  from MinimumFee_exact [OF v3_tx_gas(2, 1) this] show ?thesis by simp
qed

theorem Estimate_agrees_witness: "\<exists>q. Estimate v3_tx Localnet = Inr q \<and> q_Sufficient q"
proof -
  have "\<not> tx_Coinbase v3_tx" "tx_ProtocolVersion v3_tx \<ge> TxVersionAsset" "fp_Enabled (nc_Fee Localnet)" by code_simp+
  moreover have "fees_Validate v3_tx Localnet = None" by code_simp
  ultimately show ?thesis using Estimate_agrees by blast
qed

theorem ParseUnits_FormatUnits_witness: "\<exists>s. FormatUnits 150 2 = Some s \<and> ParseUnits s 2 = Inr 150"
  using ParseUnits_FormatUnits [of 150 2] by (simp add: word_le_nat_alt)

end
