(* ===== verification/Mempool.thy ===== *)
theory Mempool
  imports Fees
begin

text \<open>
  Package \<open>mempool\<close>. The pool is a JSON file; the model keeps the list the file decodes to, None when
  there is no file (\<open>encoding/json\<close> and the file system are outside the model, so is their failure).
  The file lock makes \<open>Load\<close>, \<open>Save\<close>, \<open>Add\<close> and \<open>RemoveIDs\<close> atomic; \<open>Admit\<close> is a check on a loaded copy
  followed by an \<open>Add\<close>, and other calls may come between the two.

  Main results: calls that do not overlap keep identifiers and nonces unique and the pool within its
  count and gas limits; overlapping calls keep identifiers unique, but not nonces.
\<close>

definition ErrDuplicateTx :: err where
  "ErrDuplicateTx = Err ''mempool tx already exists''"

type_synonym pool = "transaction list option"

record admission_policy =
  pol_Profile :: network_config
  pol_MaxTxs :: u64
  pol_MaxGas :: u64

section \<open>The stored pool\<close>

fun unique_loop :: "string set \<Rightarrow> transaction list \<Rightarrow> transaction list" where
  "unique_loop seen [] = []"
| "unique_loop seen (tx # txs) =
     (if tx_ID tx = [] then tx # unique_loop seen txs
      else if tx_ID tx \<in> seen then unique_loop seen txs
      else tx # unique_loop (insert (tx_ID tx) seen) txs)"

definition uniqueTransactions :: "transaction list \<Rightarrow> transaction list" where
  "uniqueTransactions txs = unique_loop {} txs"

definition mempool_Load :: "pool \<Rightarrow> transaction list" where
  "mempool_Load p = (case p of None \<Rightarrow> [] | Some txs \<Rightarrow> uniqueTransactions txs)"

definition mempool_Save :: "transaction list \<Rightarrow> pool \<Rightarrow> pool" where
  "mempool_Save txs p = Some (uniqueTransactions txs)"

definition mempool_Add :: "transaction \<Rightarrow> pool \<Rightarrow> err option \<times> pool" where
  "mempool_Add tx p =
    (let txs = mempool_Load p in
     if list_ex (\<lambda>existing. tx_ID existing = tx_ID tx) txs then (Some ErrDuplicateTx, p)
     else (None, mempool_Save (txs @ [tx]) p))"

definition mempool_Clear :: "pool \<Rightarrow> pool" where
  "mempool_Clear p = mempool_Save [] p"

definition RemoveIDs :: "string set \<Rightarrow> pool \<Rightarrow> pool" where
  "RemoveIDs ids p = mempool_Save (filter (\<lambda>tx. tx_ID tx \<notin> ids) (mempool_Load p)) p"

definition PendingOutgoing :: "transaction list \<Rightarrow> string \<Rightarrow> u64 \<times> u64 \<times> u64" where
  "PendingOutgoing txs address =
    fold (\<lambda>tx (count, amount, fee).
        if tx_Coinbase tx \<or> tx_From tx \<noteq> address then (count, amount, fee)
        else (count + 1, amount + tx_Amount tx, fee + tx_Fee tx)) txs (0, 0, 0)"

section \<open>Admission\<close>

definition ValidateForRevalidation :: "ext \<Rightarrow> transaction \<Rightarrow> admission_policy \<Rightarrow> err option" where
  "ValidateForRevalidation X tx policy =
    (if tx_Coinbase tx then Some (Err ''coinbase transactions are not accepted by the mempool'')
     else case ValidateTransactionVersion (tx_ProtocolVersion tx) (nc_TxVersion (pol_Profile policy)) of
       Some e \<Rightarrow> Some e
     | None \<Rightarrow>
     if tx_ID tx = [] then Some (Err ''transaction id is required'')
     else if tx_From tx = [] then Some (Err ''transaction sender is required'')
     else case fees_Validate tx (pol_Profile policy) of
       Some e \<Rightarrow> Some e
     | None \<Rightarrow>
     (case (if tx_ProtocolVersion tx = TxVersionAsset then
              (case ValidateAssetEnvelope tx of
                 Some e \<Rightarrow> Some e
               | None \<Rightarrow> ValidateFeePayerAuthorization X tx (pol_Profile policy))
            else None) of
        Some e \<Rightarrow> Some e
      | None \<Rightarrow> (case GasUsed tx (pol_Profile policy) of Inl e \<Rightarrow> Some e | Inr _ \<Rightarrow> None)))"

text \<open>The two loops of \<open>Admit\<close> over the loaded transactions.\<close>

fun admit_conflict :: "transaction \<Rightarrow> transaction list \<Rightarrow> err option" where
  "admit_conflict tx [] = None"
| "admit_conflict tx (existing # txs) =
     (if tx_ID existing = tx_ID tx then Some ErrDuplicateTx
      else if tx_From existing = tx_From tx \<and> tx_Nonce existing = tx_Nonce tx then
        Some (Err ''transaction nonce already pending: %s/%d'')
      else admit_conflict tx txs)"

fun gas_loop :: "network_config \<Rightarrow> u64 \<Rightarrow> transaction list \<Rightarrow> err + u64" where
  "gas_loop profile totalGas [] = Inr totalGas"
| "gas_loop profile totalGas (existing # txs) =
     (case GasUsed existing profile of
        Inl e \<Rightarrow> Inl e
      | Inr (existingGas, _) \<Rightarrow>
          if max_u64 - totalGas < existingGas then Inl (Err ''mempool gas total overflow'')
          else gas_loop profile (totalGas + existingGas) txs)"

text \<open>What \<open>Admit\<close> checks on the loaded copy before it calls \<open>Add\<close>.\<close>

definition admit_check :: "ext \<Rightarrow> transaction \<Rightarrow> admission_policy \<Rightarrow> transaction list \<Rightarrow> err option" where
  "admit_check X tx policy txs =
    (case ValidateForRevalidation X tx policy of
       Some e \<Rightarrow> Some e
     | None \<Rightarrow>
     (case admit_conflict tx txs of
        Some e \<Rightarrow> Some e
      | None \<Rightarrow>
      if pol_MaxTxs policy > 0 \<and> of_nat (length txs) \<ge> pol_MaxTxs policy then
        Some (Err ''mempool transaction limit reached: got %d want < %d'')
      else case GasUsed tx (pol_Profile policy) of
        Inl e \<Rightarrow> Some e
      | Inr (gas, _) \<Rightarrow>
          (case gas_loop (pol_Profile policy) 0 txs of
             Inl e \<Rightarrow> Some e
           | Inr totalGas \<Rightarrow>
               if max_u64 - totalGas < gas then Some (Err ''mempool gas total overflow'')
               else if pol_MaxGas policy > 0 \<and> totalGas + gas > pol_MaxGas policy then
                 Some (Err ''mempool gas limit exceeded: got %d want <= %d'')
               else None)))"

definition Admit :: "ext \<Rightarrow> transaction \<Rightarrow> admission_policy \<Rightarrow> pool \<Rightarrow> err option \<times> pool" where
  "Admit X tx policy p =
    (case admit_check X tx policy (mempool_Load p) of
       Some e \<Rightarrow> (Some e, p)
     | None \<Rightarrow> mempool_Add tx p)"

section \<open>Unique identifiers\<close>

lemma unique_loop_ids:
  "distinct (filter (\<lambda>i. i \<noteq> []) (map tx_ID (unique_loop seen txs)))
     \<and> set (map tx_ID (unique_loop seen txs)) \<inter> seen \<subseteq> {[]}"
  by (induction seen txs rule: unique_loop.induct) auto

lemma unique_loop_same:
  "distinct (map tx_ID txs) \<Longrightarrow> set (map tx_ID txs) \<inter> seen = {} \<Longrightarrow> unique_loop seen txs = txs"
  by (induction seen txs rule: unique_loop.induct) auto

lemma set_unique_loop: "set (unique_loop seen txs) \<subseteq> set txs"
  by (induction seen txs rule: unique_loop.induct) auto

lemma uniqueTransactions_same [simp]: "distinct (map tx_ID txs) \<Longrightarrow> uniqueTransactions txs = txs"
  by (simp add: uniqueTransactions_def unique_loop_same)

lemma mempool_Load_None [simp]: "mempool_Load None = []"
  by (simp add: mempool_Load_def)

lemma Load_Save [simp]: "distinct (map tx_ID txs) \<Longrightarrow> mempool_Load (mempool_Save txs p) = txs"
  by (simp add: mempool_Load_def mempool_Save_def)

lemma Load_Clear [simp]: "mempool_Load (mempool_Clear p) = []"
  by (simp add: mempool_Clear_def)

lemma distinct_map_filter_id: "distinct (map f xs) \<Longrightarrow> distinct (map f (filter P xs))"
  by (induction xs) auto

lemma Load_RemoveIDs:
  "distinct (map tx_ID (mempool_Load p)) \<Longrightarrow>
     mempool_Load (RemoveIDs ids p) = filter (\<lambda>tx. tx_ID tx \<notin> ids) (mempool_Load p)"
  by (simp add: RemoveIDs_def distinct_map_filter_id)

lemma Load_Add:
  assumes "distinct (map tx_ID (mempool_Load p))"
  shows "mempool_Load (snd (mempool_Add tx p)) =
    (if tx_ID tx \<in> tx_ID ` set (mempool_Load p) then mempool_Load p else mempool_Load p @ [tx])"
proof -
  have "list_ex (\<lambda>e. tx_ID e = tx_ID tx) (mempool_Load p) \<longleftrightarrow> tx_ID tx \<in> tx_ID ` set (mempool_Load p)"
    unfolding list_ex_iff by (metis (no_types, lifting) imageE imageI)
  moreover have "distinct (map tx_ID (mempool_Load p @ [tx]))" if "tx_ID tx \<notin> tx_ID ` set (mempool_Load p)"
    using assms that by simp
  ultimately show ?thesis by (simp add: mempool_Add_def Let_def)
qed

section \<open>Limits\<close>

text \<open>The gas of a transaction as a natural number, 0 where \<open>GasUsed\<close> fails.\<close>

definition gas_of :: "network_config \<Rightarrow> transaction \<Rightarrow> nat" where
  "gas_of profile tx = (case GasUsed tx profile of Inl _ \<Rightarrow> 0 | Inr (g, _) \<Rightarrow> unat g)"

lemma gas_loop_sum:
  "gas_loop profile g txs = Inr g' \<Longrightarrow> unat g' = unat g + (\<Sum>tx\<leftarrow>txs. gas_of profile tx)"
proof (induction profile g txs arbitrary: g' rule: gas_loop.induct)
  case (2 profile g tx txs)
  from "2.prems" obtain eg b where u: "GasUsed tx profile = Inr (eg, b)"
    and room: "\<not> max_u64 - g < eg" and l: "gas_loop profile (g + eg) txs = Inr g'"
    by (auto split: sum.splits if_splits)
  from room have "unat (g + eg) = unat g + unat eg" using room_u64 [of g eg] by (simp add: unat_add_u64)
  with "2.IH" [OF u refl room l] u show ?case by (simp add: gas_of_def)
qed simp

lemma revalidation_profile:
  "pol_Profile p = pol_Profile q \<Longrightarrow> ValidateForRevalidation X tx p = ValidateForRevalidation X tx q"
  by (simp only: ValidateForRevalidation_def)

lemma admit_conflict_None_iff:
  "admit_conflict tx txs = None \<longleftrightarrow>
     (\<forall>e \<in> set txs. tx_ID e \<noteq> tx_ID tx \<and> (tx_From e, tx_Nonce e) \<noteq> (tx_From tx, tx_Nonce tx))"
  by (induction txs) auto

lemma admit_check_None:
  assumes "admit_check X tx policy txs = None"
  shows "ValidateForRevalidation X tx policy = None" and "admit_conflict tx txs = None"
    and "pol_MaxTxs policy > 0 \<Longrightarrow> of_nat (length txs) < pol_MaxTxs policy"
    and "pol_MaxGas policy > 0 \<Longrightarrow>
      (\<Sum>e\<leftarrow>txs @ [tx]. gas_of (pol_Profile policy) e) \<le> unat (pol_MaxGas policy)"
proof -
  from assms obtain gas b total' where v: "ValidateForRevalidation X tx policy = None"
    and c: "admit_conflict tx txs = None"
    and n: "\<not> (pol_MaxTxs policy > 0 \<and> of_nat (length txs) \<ge> pol_MaxTxs policy)"
    and g: "GasUsed tx (pol_Profile policy) = Inr (gas, b)"
    and l: "gas_loop (pol_Profile policy) 0 txs = Inr total'"
    and room: "\<not> max_u64 - total' < gas"
    and m: "\<not> (pol_MaxGas policy > 0 \<and> total' + gas > pol_MaxGas policy)"
    by (auto simp: admit_check_def split: option.splits if_splits sum.splits)
  show "ValidateForRevalidation X tx policy = None" "admit_conflict tx txs = None" by fact+
  show "of_nat (length txs) < pol_MaxTxs policy" if "pol_MaxTxs policy > 0" using n that by auto
  have "unat (total' + gas) = unat total' + unat gas"
    using room room_u64 [of total' gas] by (simp add: unat_add_u64)
  with m gas_loop_sum [OF l] g
  show "(\<Sum>e\<leftarrow>txs @ [tx]. gas_of (pol_Profile policy) e) \<le> unat (pol_MaxGas policy)"
    if "pol_MaxGas policy > 0" using that by (auto simp: gas_of_def word_le_nat_alt not_less)
qed

text \<open>What the pool promises its readers.\<close>

definition pool_ok :: "ext \<Rightarrow> admission_policy \<Rightarrow> pool \<Rightarrow> bool" where
  "pool_ok X policy p \<longleftrightarrow>
     distinct (map tx_ID (mempool_Load p))
   \<and> distinct (map (\<lambda>tx. (tx_From tx, tx_Nonce tx)) (mempool_Load p))
   \<and> (pol_MaxTxs policy > 0 \<longrightarrow> length (mempool_Load p) \<le> unat (pol_MaxTxs policy))
   \<and> (pol_MaxGas policy > 0 \<longrightarrow>
        (\<Sum>tx\<leftarrow>mempool_Load p. gas_of (pol_Profile policy) tx) \<le> unat (pol_MaxGas policy))
   \<and> (\<forall>tx \<in> set (mempool_Load p). ValidateForRevalidation X tx policy = None)"

lemma pool_ok_empty: "mempool_Load p = [] \<Longrightarrow> pool_ok X policy p"
  by (simp add: pool_ok_def)

lemma sum_list_filter_le: "(\<Sum>x\<leftarrow>filter P xs. f x) \<le> (\<Sum>x\<leftarrow>xs. f x :: nat)"
  by (induction xs) auto

lemma pool_ok_RemoveIDs: "pool_ok X policy p \<Longrightarrow> pool_ok X policy (RemoveIDs ids p)"
  unfolding pool_ok_def
  by (auto simp: Load_RemoveIDs distinct_map_filter_id
      intro: order_trans [OF length_filter_le] order_trans [OF sum_list_filter_le])

lemma count_below:
  assumes "n \<le> unat m" and "of_nat n < (m :: u64)"
  shows "Suc n \<le> unat m"
proof -
  have "n < 2 ^ 64" using le_less_trans [OF assms(1) unat_u64_lt] by simp
  with assms(2) show ?thesis by (simp add: word_less_nat_alt unat_of_nat_u64)
qed

lemma pool_ok_Admit:
  assumes "pool_ok X policy p"
  shows "pool_ok X policy (snd (Admit X tx policy p))"
proof (cases "admit_check X tx policy (mempool_Load p)")
  case None
  from assms have d: "distinct (map tx_ID (mempool_Load p))" by (simp add: pool_ok_def)
  from admit_check_None(2) [OF None]
  have c: "tx_ID tx \<notin> tx_ID ` set (mempool_Load p)"
    "(tx_From tx, tx_Nonce tx) \<notin> (\<lambda>e. (tx_From e, tx_Nonce e)) ` set (mempool_Load p)"
    by (auto simp: admit_conflict_None_iff)
  have "mempool_Load (snd (Admit X tx policy p)) = mempool_Load p @ [tx]"
    using None c(1) by (simp add: Admit_def Load_Add [OF d])
  with assms c admit_check_None [OF None] show ?thesis
    by (auto simp: pool_ok_def dest: count_below)
qed (simp add: Admit_def assms)

text \<open>The states of the pool under calls that do not overlap.\<close>

inductive pool_reach :: "ext \<Rightarrow> admission_policy \<Rightarrow> pool \<Rightarrow> bool" for X policy where
  start: "pool_reach X policy None"
| admit: "pool_reach X policy p \<Longrightarrow> pool_reach X policy (snd (Admit X tx policy p))"
| remove: "pool_reach X policy p \<Longrightarrow> pool_reach X policy (RemoveIDs ids p)"
| clear: "pool_reach X policy p \<Longrightarrow> pool_reach X policy (mempool_Clear p)"

lemma pool_reach_ok: "pool_reach X policy p \<Longrightarrow> pool_ok X policy p"
  by (induction rule: pool_reach.induct) (simp_all add: pool_ok_empty pool_ok_Admit pool_ok_RemoveIDs)

lemma pool_limits_facts:
  assumes "pool_reach X policy p"
  shows "distinct (map tx_ID (mempool_Load p))"
    and "distinct (map (\<lambda>tx. (tx_From tx, tx_Nonce tx)) (mempool_Load p))"
    and "\<forall>tx \<in> set (mempool_Load p). ValidateForRevalidation X tx policy = None"
    and "pol_MaxTxs policy > 0 \<longrightarrow> length (mempool_Load p) \<le> unat (pol_MaxTxs policy)"
    and "pol_MaxGas policy > 0 \<longrightarrow>
      (\<Sum>tx\<leftarrow>mempool_Load p. gas_of (pol_Profile policy) tx) \<le> unat (pol_MaxGas policy)"
  using pool_reach_ok [OF assms] unfolding pool_ok_def by blast+


section \<open>Overlapping admissions\<close>

text \<open>
  \<open>Admit\<close> as concurrent callers run it: the check reads the pool under the lock, the \<open>Add\<close> takes the
  lock again later. The state is the pool and the transactions whose check has passed and whose \<open>Add\<close>
  is still to come.
\<close>

inductive admit_step ::
  "ext \<Rightarrow> admission_policy \<Rightarrow> pool \<times> transaction set \<Rightarrow> pool \<times> transaction set \<Rightarrow> bool" for X policy where
  check: "admit_check X tx policy (mempool_Load p) = None \<Longrightarrow> admit_step X policy (p, w) (p, insert tx w)"
| add: "tx \<in> w \<Longrightarrow> admit_step X policy (p, w) (snd (mempool_Add tx p), w - {tx})"

inductive_cases admit_stepE: "admit_step X policy (p, w) s"

abbreviation admit_runs :: "ext \<Rightarrow> admission_policy \<Rightarrow> pool \<times> transaction set \<Rightarrow> pool \<times> transaction set \<Rightarrow> bool" where
  "admit_runs X policy \<equiv> (admit_step X policy)\<^sup>*\<^sup>*"

lemma admit_step_ids:
  "admit_step X policy s s' \<Longrightarrow> distinct (map tx_ID (mempool_Load (fst s)))
     \<Longrightarrow> distinct (map tx_ID (mempool_Load (fst s')))"
  by (induction rule: admit_step.induct) (simp_all add: Load_Add)

text \<open>
  C21. Overlapping admissions keep identifiers unique: \<open>Add\<close> repeats the test for the identifier under
  the lock, so no interleaving stores two transactions with one identifier.
\<close>

theorem admit_runs_ids:
  assumes "admit_runs X policy (None, {}) (p, w)"
  shows "distinct (map tx_ID (mempool_Load p))"
proof -
  have "distinct (map tx_ID (mempool_Load (fst s)))" if "admit_runs X policy (None, {}) s" for s
    using that by (induction rule: rtranclp_induct) (auto dest: admit_step_ids)
  with assms show ?thesis by fastforce
qed

text \<open>
  C20. Overlapping admissions do not keep nonces unique: any two transactions that the empty pool would
  admit and that differ in their identifier can both become pending, also when they have the same
  sender and nonce, because \<open>Add\<close> does not repeat the nonce test.
\<close>

theorem admit_race:
  assumes "admit_check X a policy [] = None" and "admit_check X b policy [] = None"
    and "tx_ID a \<noteq> tx_ID b"
  shows "\<exists>p. admit_runs X policy (None, {}) (p, {}) \<and> mempool_Load p = [a, b]"
proof -
  let ?p1 = "snd (mempool_Add a None)" and ?p2 = "snd (mempool_Add b (snd (mempool_Add a None)))"
  have "admit_step X policy (None, {}) (None, {a})" using admit_step.check [of X a policy None "{}"] assms(1) by simp
  moreover have "admit_step X policy (None, {a}) (None, {b, a})"
    using admit_step.check [of X b policy None "{a}"] assms(2) by simp
  moreover have "admit_step X policy (None, {b, a}) (?p1, {b, a} - {a})" by (rule admit_step.add) simp
  moreover have "{b, a} - {a} = {b}" using assms(3) by auto
  moreover have "admit_step X policy (?p1, {b}) (?p2, {b} - {b})" by (rule admit_step.add) simp
  ultimately have "admit_runs X policy (None, {}) (?p2, {})"
    by (metis (no_types, lifting) Diff_cancel converse_rtranclp_into_rtranclp rtranclp.rtrancl_refl)
  moreover have "mempool_Load ?p1 = [a]" using Load_Add [of None a] by simp
  then have "mempool_Load ?p2 = [a, b]" using Load_Add [of ?p1 b] assms(3) by auto
  ultimately show ?thesis by blast
qed

end
