(* ===== verification/Go_Sort.thy ===== *)
theory Go_Sort
  imports Go_Prelude
begin

text \<open>
  \<open>sort.Slice\<close> with a comparison, as insertion sort. \<open>sort.Slice\<close> is not stable, so its result is
  determined only where the comparison decides every two different elements: the locale \<open>priority\<close>
  states that contract and proves that the sorted list is then unique. Every comparison of the node
  is an interpretation of it.
\<close>

fun insert_by :: "('a \<Rightarrow> 'a \<Rightarrow> bool) \<Rightarrow> 'a \<Rightarrow> 'a list \<Rightarrow> 'a list" where
  "insert_by lt x [] = [x]"
| "insert_by lt x (y # ys) = (if lt y x then y # insert_by lt x ys else x # y # ys)"

definition sort_by :: "('a \<Rightarrow> 'a \<Rightarrow> bool) \<Rightarrow> 'a list \<Rightarrow> 'a list" where
  "sort_by lt xs = foldr (insert_by lt) xs []"

section \<open>Sorting by a priority\<close>

text \<open>
  The contract a comparison has to meet for \<open>sort.Slice\<close> to give one result: a strict order that
  decides every two elements with different keys.
\<close>

locale priority =
  fixes lt :: "'a \<Rightarrow> 'a \<Rightarrow> bool" and key :: "'a \<Rightarrow> 'k"
  assumes irrefl: "\<not> lt a a"
    and trans: "lt a b \<Longrightarrow> lt b c \<Longrightarrow> lt a c"
    and decides: "key a \<noteq> key b \<Longrightarrow> lt a b \<or> lt b a"
begin

lemma set_insert: "set (insert_by lt x xs) = insert x (set xs)"
  by (induction xs) auto

lemma sorted_insert:
  "sorted_wrt lt xs \<Longrightarrow> key x \<notin> key ` set xs \<Longrightarrow> sorted_wrt lt (insert_by lt x xs)"
proof (induction xs)
  case (Cons y ys)
  then have "lt x y \<or> lt y x" using decides [of x y] by auto
  with Cons show ?case using trans irrefl by (auto simp: set_insert)
qed simp

lemma mset_insert: "mset (insert_by lt x xs) = add_mset x (mset xs)"
  by (induction xs) auto

lemma mset_sort [simp]: "mset (sort_by lt xs) = mset xs"
  by (induction xs) (simp_all add: sort_by_def mset_insert)

lemma set_sort [simp]: "set (sort_by lt xs) = set xs"
  using mset_eq_setD [OF mset_sort] .

lemma length_sort [simp]: "length (sort_by lt xs) = length xs"
  by (metis mset_sort size_mset)

lemma sorted_sort: "distinct (map key xs) \<Longrightarrow> sorted_wrt lt (sort_by lt xs)"
proof (induction xs)
  case (Cons x xs)
  then have "key x \<notin> key ` set (sort_by lt xs)" by simp
  with Cons show ?case by (simp add: sort_by_def sorted_insert)
qed (simp add: sort_by_def)

lemma sorted_unique:
  "sorted_wrt lt xs \<Longrightarrow> sorted_wrt lt ys \<Longrightarrow> mset xs = mset ys \<Longrightarrow> xs = ys"
proof (induction xs arbitrary: ys)
  case (Cons x xs)
  then obtain y ys' where ys: "ys = y # ys'" by (cases ys) auto
  have "x = y"
  proof (rule ccontr)
    assume "x \<noteq> y"
    with Cons.prems(3) ys have "x \<in> set ys'" "y \<in> set xs"
      by (metis insert_iff list.set(2) mset_eq_setD)+
    with Cons.prems ys show False using trans irrefl by (metis sorted_wrt.simps(2))
  qed
  with Cons ys show ?case by auto
qed simp

lemma sort_sorted: "sorted_wrt lt xs \<Longrightarrow> sort_by lt xs = xs"
proof (induction xs)
  case (Cons x xs)
  then have "sort_by lt (x # xs) = insert_by lt x xs" by (simp add: sort_by_def)
  also have "\<dots> = x # xs" using Cons.prems trans irrefl by (cases xs) auto
  finally show ?case .
qed (simp add: sort_by_def)

lemma sort_cong:
  assumes "distinct (map key xs)" and "mset xs = mset ys"
  shows "sort_by lt xs = sort_by lt ys"
proof -
  have "distinct (map key ys)"
    using assms by (metis mset_eq_imp_distinct_iff mset_map)
  with assms show ?thesis by (intro sorted_unique) (simp_all add: sorted_sort)
qed

end

end
