(* ===== verification/Selection.thy ===== *)
theory Selection
  imports Complex_Main Mempool Go_Sort
begin

text \<open>
  The selection of transactions for a block: \<open>Select\<close> of \<open>mempool/admission.go\<close> and \<open>SelectWithNonces\<close>
  of \<open>mempool/selection.go\<close>. Go's iteration order over the map of senders in \<open>SelectWithNonces\<close> is a
  parameter of the model: a function that permutes the entries in each round. Main results: the
  priority is a strict linear order by fee rate, so \<open>Select\<close> depends only on the set of candidates; a
  selection fits the gas limit and nothing left out would still fit; \<open>SelectWithNonces\<close> ends, takes
  each sender's nonces in order without gaps, but its choice depends on the iteration order.
\<close>

record candidate =
  cand_tx :: transaction
  cand_gas :: u64

text \<open>\<open>math/big\<close> products are exact, so the comparison is over the natural numbers.\<close>

definition higherPriority :: "candidate \<Rightarrow> candidate \<Rightarrow> bool" where
  "higherPriority a b =
    (let left = unat (tx_Fee (cand_tx a)) * unat (cand_gas b);
         right = unat (tx_Fee (cand_tx b)) * unat (cand_gas a) in
     if left \<noteq> right then left > right
     else if tx_Fee (cand_tx a) \<noteq> tx_Fee (cand_tx b) then tx_Fee (cand_tx a) > tx_Fee (cand_tx b)
     else if cand_gas a \<noteq> cand_gas b then cand_gas a < cand_gas b
     else tx_ID (cand_tx a) < tx_ID (cand_tx b))"

definition samePriority :: "candidate \<Rightarrow> candidate \<Rightarrow> bool" where
  "samePriority a b = (tx_Fee (cand_tx a) = tx_Fee (cand_tx b) \<and> cand_gas a = cand_gas b
     \<and> unat (tx_Fee (cand_tx a)) = unat (tx_Fee (cand_tx b)))"

fun gather :: "ext \<Rightarrow> network_config \<Rightarrow> transaction list \<Rightarrow> err + candidate list" where
  "gather X profile [] = Inr []"
| "gather X profile (tx # txs) =
     (if tx_Coinbase tx then gather X profile txs
      else case ValidateForRevalidation X tx
             \<lparr>pol_Profile = profile, pol_MaxTxs = 0, pol_MaxGas = 0\<rparr> of
        Some e \<Rightarrow> Inl e
      | None \<Rightarrow>
      (case GasUsed tx profile of
         Inl e \<Rightarrow> Inl e
       | Inr (gas, _) \<Rightarrow>
           (case gather X profile txs of
              Inl e \<Rightarrow> Inl e
            | Inr cs \<Rightarrow> Inr (\<lparr>cand_tx = tx, cand_gas = gas\<rparr> # cs))))"

definition no_room :: "u64 \<Rightarrow> u64 \<Rightarrow> u64 \<Rightarrow> bool" where
  "no_room maxGas used gas = (maxGas > 0 \<and> (gas > maxGas \<or> used > maxGas - gas))"

fun take_loop :: "u64 \<Rightarrow> u64 \<Rightarrow> candidate list \<Rightarrow> candidate list" where
  "take_loop maxGas used [] = []"
| "take_loop maxGas used (c # cs) =
     (if no_room maxGas used (cand_gas c) then take_loop maxGas used cs
      else c # take_loop maxGas (used + cand_gas c) cs)"

definition Select :: "ext \<Rightarrow> transaction list \<Rightarrow> network_config \<Rightarrow> u64 \<Rightarrow> err + transaction list" where
  "Select X txs profile maxGas =
    (case gather X profile txs of
       Inl e \<Rightarrow> Inl e
     | Inr candidates \<Rightarrow>
         Inr (map cand_tx (take_loop maxGas 0 (sort_by higherPriority candidates))))"

text \<open>The first loop of \<open>SelectWithNonces\<close>: the candidates of each sender in input order.\<close>

fun by_sender :: "ext \<Rightarrow> network_config \<Rightarrow> transaction list \<Rightarrow> (string, candidate list) fmap
    \<Rightarrow> err + (string, candidate list) fmap" where
  "by_sender X profile [] m = Inr m"
| "by_sender X profile (tx # txs) m =
     (if tx_Coinbase tx then by_sender X profile txs m
      else case ValidateTransactionVersion (tx_ProtocolVersion tx) (nc_TxVersion profile) of
        Some e \<Rightarrow> Inl e
      | None \<Rightarrow>
      (case fees_Validate tx profile of
         Some e \<Rightarrow> Inl e
       | None \<Rightarrow>
       (case (if tx_ProtocolVersion tx = TxVersionAsset then
                (case ValidateAssetEnvelope tx of
                   Some e \<Rightarrow> Some e
                 | None \<Rightarrow> ValidateFeePayerAuthorization X tx profile)
              else None) of
          Some e \<Rightarrow> Inl e
        | None \<Rightarrow>
        (case GasUsed tx profile of
           Inl e \<Rightarrow> Inl e
         | Inr (gas, _) \<Rightarrow>
             by_sender X profile txs
               (fmupd (tx_From tx) (get_or [] m (tx_From tx) @ [\<lparr>cand_tx = tx, cand_gas = gas\<rparr>]) m)))))"

definition nonce_less :: "candidate \<Rightarrow> candidate \<Rightarrow> bool" where
  "nonce_less a b =
    (if tx_Nonce (cand_tx a) \<noteq> tx_Nonce (cand_tx b) then tx_Nonce (cand_tx a) < tx_Nonce (cand_tx b)
     else tx_ID (cand_tx a) < tx_ID (cand_tx b))"

text \<open>The run of consecutive nonces from the expected one.\<close>

fun ready_loop :: "u64 \<Rightarrow> candidate list \<Rightarrow> candidate list" where
  "ready_loop expected [] = []"
| "ready_loop expected (c # cs) =
     (if tx_Nonce (cand_tx c) < expected then ready_loop expected cs
      else if tx_Nonce (cand_tx c) \<noteq> expected then []
      else if expected = max_u64 then [c]
      else c # ready_loop (expected + 1) cs)"

definition ready_list :: "(string, u64) fmap \<Rightarrow> string \<Rightarrow> candidate list \<Rightarrow> candidate list" where
  "ready_list nextNonce sender cands =
    (let sorted = sort_by nonce_less cands;
         start = (case fmlookup nextNonce sender of
                    Some n \<Rightarrow> n | None \<Rightarrow> tx_Nonce (cand_tx (hd sorted))) in
     ready_loop start sorted)"

text \<open>One entry of the inner loop: the best sender so far, with its head candidate.\<close>

definition best_step :: "u64 \<Rightarrow> u64 \<Rightarrow> string \<times> candidate list \<Rightarrow> (string \<times> candidate) option
    \<Rightarrow> (string \<times> candidate) option" where
  "best_step maxGas used = (\<lambda>(sender, list) best.
    case list of
      [] \<Rightarrow> best
    | c # _ \<Rightarrow>
        if no_room maxGas used (cand_gas c) then best
        else case best of
          None \<Rightarrow> Some (sender, c)
        | Some (_, b) \<Rightarrow>
            if higherPriority c b
               \<or> samePriority c b \<and> (sender < tx_From (cand_tx b)
                    \<or> sender = tx_From (cand_tx b) \<and> tx_ID (cand_tx c) < tx_ID (cand_tx b))
            then Some (sender, c) else best)"

definition pick_best :: "u64 \<Rightarrow> u64 \<Rightarrow> (string \<times> candidate list) list \<Rightarrow> (string \<times> candidate) option" where
  "pick_best maxGas used entries = fold (best_step maxGas used) entries None"

text \<open>
  The outer loop. Each round selects one candidate and shortens one list, so the number of pending
  candidates bounds the rounds; that many units of fuel are enough (see \<open>select_loop_enough\<close>).
\<close>

type_synonym map_order = "nat \<Rightarrow> (string \<times> candidate list) list \<Rightarrow> (string \<times> candidate list) list"

fun select_loop :: "map_order \<Rightarrow> u64 \<Rightarrow> nat \<Rightarrow> u64 \<Rightarrow> (string, candidate list) fmap \<Rightarrow> candidate list option" where
  "select_loop ord maxGas fuel used m =
     (case pick_best maxGas used (ord fuel (sorted_list_of_fmap m)) of
        None \<Rightarrow> Some []
      | Some (sender, c) \<Rightarrow>
          (case fuel of
             0 \<Rightarrow> None
           | Suc n \<Rightarrow>
               map_option ((#) c)
                 (select_loop ord maxGas n (used + cand_gas c) (fmupd sender (tl (get_or [] m sender)) m))))"

declare select_loop.simps [simp del]

definition SelectWithNonces ::
  "ext \<Rightarrow> map_order \<Rightarrow> transaction list \<Rightarrow> network_config \<Rightarrow> u64 \<Rightarrow> (string, u64) fmap
     \<Rightarrow> err + transaction list option" where
  "SelectWithNonces X ord txs profile maxGas nextNonce =
    (case by_sender X profile txs fmempty of
       Inl e \<Rightarrow> Inl e
     | Inr m \<Rightarrow>
         let ready = fmmap_keys (ready_list nextNonce) m in
         Inr (map_option (map cand_tx) (select_loop ord maxGas (length txs) 0 ready)))"

section \<open>The priority is the fee rate\<close>

text \<open>
  The reference order: by fee per gas, where a fee without gas is above every rate and a transaction
  with neither stands between the rates above zero and zero.
\<close>

definition fee_class :: "candidate \<Rightarrow> nat" where
  "fee_class c =
    (if tx_Fee (cand_tx c) = 0 then (if cand_gas c = 0 then 1 else 0)
     else if cand_gas c = 0 then 3 else 2)"

definition fee_rate :: "candidate \<Rightarrow> real" where
  "fee_rate c = real (unat (tx_Fee (cand_tx c))) / real (unat (cand_gas c))"

definition outranks :: "candidate \<Rightarrow> candidate \<Rightarrow> bool" where
  "outranks a b \<longleftrightarrow> fee_class a > fee_class b
    \<or> fee_class a = fee_class b \<and> (fee_rate a > fee_rate b
    \<or> fee_rate a = fee_rate b \<and> (tx_Fee (cand_tx a) > tx_Fee (cand_tx b)
    \<or> tx_Fee (cand_tx a) = tx_Fee (cand_tx b) \<and> (cand_gas a < cand_gas b
    \<or> cand_gas a = cand_gas b \<and> tx_ID (cand_tx a) < tx_ID (cand_tx b))))"

lemma rate_less:
  fixes f g f' g' :: nat
  assumes "0 < g" and "0 < g'"
  shows "real f' / real g' < real f / real g \<longleftrightarrow> f' * g < f * g'"
    and "real f / real g = real f' / real g' \<longleftrightarrow> f * g' = f' * g"
proof -
  have "real f' / real g' < real f / real g \<longleftrightarrow> real f' * real g < real f * real g'"
    using assms by (simp add: divide_less_eq less_divide_eq mult.commute)
  then show "real f' / real g' < real f / real g \<longleftrightarrow> f' * g < f * g'"
    by (metis of_nat_less_iff of_nat_mult)
  have "real f / real g = real f' / real g' \<longleftrightarrow> real f * real g' = real f' * real g"
    using assms by (simp add: frac_eq_eq)
  then show "real f / real g = real f' / real g' \<longleftrightarrow> f * g' = f' * g"
    by (metis of_nat_eq_iff of_nat_mult)
qed

lemma higherPriority_outranks: "higherPriority a b = outranks a b"
proof -
  note defs = higherPriority_def outranks_def fee_class_def fee_rate_def Let_def
  consider "tx_Fee (cand_tx a) = 0 \<or> cand_gas a = 0 \<or> tx_Fee (cand_tx b) = 0 \<or> cand_gas b = 0"
    | "0 < unat (tx_Fee (cand_tx a))" "0 < unat (cand_gas a)" "0 < unat (tx_Fee (cand_tx b))" "0 < unat (cand_gas b)"
    by (metis unat_gt_0)
  then show ?thesis
  proof cases
    case 1
    then show ?thesis
      by (cases "tx_Fee (cand_tx a) = 0"; cases "cand_gas a = 0"; cases "tx_Fee (cand_tx b) = 0"; cases "cand_gas b = 0")
        (auto simp: defs unat_eq_0_u64 word_less_nat_alt zero_less_mult_iff unat_gt_0)
  next
    case 2
    then have "fee_class a = 2" "fee_class b = 2" by (auto simp: fee_class_def)
    moreover have "fee_rate b < fee_rate a \<longleftrightarrow>
        unat (tx_Fee (cand_tx b)) * unat (cand_gas a) < unat (tx_Fee (cand_tx a)) * unat (cand_gas b)"
      "fee_rate a = fee_rate b \<longleftrightarrow>
        unat (tx_Fee (cand_tx a)) * unat (cand_gas b) = unat (tx_Fee (cand_tx b)) * unat (cand_gas a)"
      unfolding fee_rate_def by (rule rate_less [OF 2(2) 2(4)])+
    ultimately show ?thesis by (auto simp: higherPriority_def outranks_def Let_def)
  qed
qed

interpretation by_fee: priority higherPriority "\<lambda>c. tx_ID (cand_tx c)"
proof
  show "\<not> higherPriority a a" for a by (simp add: higherPriority_def)
  show "higherPriority a c" if "higherPriority a b" "higherPriority b c" for a b c
    using that unfolding higherPriority_outranks outranks_def by (elim disjE conjE) (simp_all, auto)
  show "higherPriority a b \<or> higherPriority b a" if "tx_ID (cand_tx a) \<noteq> tx_ID (cand_tx b)" for a b
    using that unfolding higherPriority_outranks outranks_def by (metis linorder_less_linear)
qed

interpretation by_nonce: priority nonce_less "\<lambda>c. tx_ID (cand_tx c)"
proof
  show "\<not> nonce_less a a" for a by (simp add: nonce_less_def)
  show "nonce_less a c" if "nonce_less a b" "nonce_less b c" for a b c
    using that by (auto simp: nonce_less_def split: if_splits)
  show "nonce_less a b \<or> nonce_less b a" if "tx_ID (cand_tx a) \<noteq> tx_ID (cand_tx b)" for a b
    using that by (auto simp: nonce_less_def)
qed

section \<open>Room for gas\<close>

lemma room_left:
  assumes "maxGas > 0" and "\<not> no_room maxGas used gas"
  shows "used + gas \<le> maxGas" and "unat (used + gas) = unat used + unat gas"
proof -
  from assms have "gas \<le> maxGas" and u: "used \<le> maxGas - gas" by (auto simp: no_room_def not_less)
  then have "unat used + unat gas \<le> unat maxGas" by (auto simp: word_le_nat_alt unat_sub_u64)
  moreover from this show "unat (used + gas) = unat used + unat gas"
    using le_less_trans [OF _ unat_u64_lt [of maxGas]] by (intro unat_add_u64)
  ultimately show "used + gas \<le> maxGas" by (simp add: word_le_nat_alt)
qed

lemma no_room_iff:
  "no_room maxGas used gas \<longleftrightarrow> maxGas > 0 \<and> unat maxGas < unat used + unat gas"
proof (cases "gas \<le> maxGas")
  case True
  then have "unat (maxGas - gas) = unat maxGas - unat gas" "unat gas \<le> unat maxGas"
    by (simp_all add: unat_sub_u64 word_le_nat_alt)
  then show ?thesis by (auto simp: no_room_def word_less_nat_alt)
next
  case False
  then show ?thesis by (auto simp: no_room_def word_le_nat_alt word_less_nat_alt)
qed

section \<open>Select\<close>

abbreviation cand_of :: "network_config \<Rightarrow> transaction \<Rightarrow> candidate" where
  "cand_of profile tx \<equiv> \<lparr>cand_tx = tx, cand_gas = of_nat (gas_of profile tx)\<rparr>"

lemma of_nat_gas_of [simp]: "GasUsed tx profile = Inr (g, b) \<Longrightarrow> of_nat (gas_of profile tx) = g"
  by (simp add: gas_of_def)

lemma unat_gas_of [simp]: "unat (of_nat (gas_of profile tx) :: u64) = gas_of profile tx"
  by (simp add: gas_of_def split: sum.splits prod.splits)

lemma revalidation_gas: "ValidateForRevalidation X tx policy = None \<Longrightarrow> \<exists>r. GasUsed tx (pol_Profile policy) = Inr r"
  by (auto simp: ValidateForRevalidation_def split: if_splits option.splits sum.splits)

text \<open>When the candidates are gathered, they are the envelopes of the list without coinbases.\<close>

lemma gather_Inr_iff:
  "gather X profile txs = Inr cs \<longleftrightarrow>
     (\<forall>tx \<in> set txs. \<not> tx_Coinbase tx \<longrightarrow>
        ValidateForRevalidation X tx \<lparr>pol_Profile = profile, pol_MaxTxs = 0, pol_MaxGas = 0\<rparr> = None)
     \<and> cs = map (cand_of profile) (filter (\<lambda>tx. \<not> tx_Coinbase tx) txs)"
proof (induction txs arbitrary: cs)
  case (Cons tx txs)
  show ?case
  proof (cases "tx_Coinbase tx")
    case False
    then show ?thesis using Cons
      by (cases "gather X profile txs") (auto split: option.splits sum.splits dest!: revalidation_gas)
  qed (simp add: Cons)
qed auto

lemma take_loop_within:
  assumes "maxGas > 0" and "used \<le> maxGas"
  shows "unat used + (\<Sum>c\<leftarrow>take_loop maxGas used cs. unat (cand_gas c)) \<le> unat maxGas"
  using assms(2)
proof (induction cs arbitrary: used)
  case (Cons c cs)
  show ?case
  proof (cases "no_room maxGas used (cand_gas c)")
    case False
    with room_left [OF assms(1)] have "used + cand_gas c \<le> maxGas" "unat (used + cand_gas c) = unat used + unat (cand_gas c)"
      by blast+
    with Cons.IH [of "used + cand_gas c"] False show ?thesis by simp
  qed (simp add: Cons)
qed (simp add: word_le_nat_alt)

lemma take_loop_unlimited: "maxGas = 0 \<Longrightarrow> take_loop maxGas used cs = cs"
  by (induction cs arbitrary: used) (simp_all add: no_room_def)

lemma take_loop_skipped:
  assumes "c \<in> set cs" and "c \<notin> set (take_loop maxGas used cs)" and "used \<le> maxGas"
  shows "maxGas > 0
    \<and> unat maxGas < unat used + (\<Sum>c\<leftarrow>take_loop maxGas used cs. unat (cand_gas c)) + unat (cand_gas c)"
proof -
  from assms(1, 2) have pos: "maxGas > 0"
    using take_loop_unlimited [of maxGas used cs] by (cases "maxGas = 0") (auto simp: word_gt_0)
  from assms have "unat maxGas < unat used + (\<Sum>c\<leftarrow>take_loop maxGas used cs. unat (cand_gas c)) + unat (cand_gas c)"
  proof (induction cs arbitrary: used)
    case (Cons d cs)
    show ?case
    proof (cases "no_room maxGas used (cand_gas d)")
      case True
      with Cons show ?thesis by (cases "c = d") (auto simp: no_room_iff)
    next
      case False
      from room_left [OF pos False] Cons.IH [of "used + cand_gas d"] Cons.prems False show ?thesis
        by (auto simp: add.assoc)
    qed
  qed simp
  with pos show ?thesis ..
qed

lemma set_take_loop: "set (take_loop maxGas used cs) \<subseteq> set cs"
  by (induction cs arbitrary: used) auto

lemma sorted_take_loop: "sorted_wrt lt cs \<Longrightarrow> sorted_wrt lt (take_loop maxGas used cs)"
  using set_take_loop by (induction cs arbitrary: used) fastforce+

lemma Select_Inr:
  assumes "Select X txs profile maxGas = Inr out"
  obtains cs where "gather X profile txs = Inr cs"
    and "out = map cand_tx (take_loop maxGas 0 (sort_by higherPriority cs))"
  using assms by (auto simp: Select_def split: sum.splits)

lemma cands_ids: "distinct (map tx_ID txs) \<Longrightarrow>
    distinct (map (\<lambda>c. tx_ID (cand_tx c)) (map (cand_of profile) (filter P txs)))"
  by (simp add: o_def distinct_map_filter_id)

text \<open>
  C22. The order of the pool does not matter: when the identifiers are distinct, \<open>Select\<close> gives the same
  block content for every arrangement of the same transactions.
\<close>

theorem Select_order_free:
  assumes "Select X txs profile maxGas = Inr out" and "distinct (map tx_ID txs)"
    and "mset txs' = mset txs"
  shows "Select X txs' profile maxGas = Inr out"
proof -
  from assms(1) obtain cs where g: "gather X profile txs = Inr cs"
    and out: "out = map cand_tx (take_loop maxGas 0 (sort_by higherPriority cs))" by (rule Select_Inr)
  let ?cs = "\<lambda>ts. map (cand_of profile) (filter (\<lambda>tx. \<not> tx_Coinbase tx) ts)"
  have "gather X profile txs' = Inr (?cs txs')" and cs: "cs = ?cs txs"
    using g mset_eq_setD [OF assms(3)] unfolding gather_Inr_iff by auto
  moreover have "mset cs = mset (?cs txs')" using assms(3) cs by simp
  then have "sort_by higherPriority cs = sort_by higherPriority (?cs txs')"
    using cands_ids [OF assms(2)] cs by (intro by_fee.sort_cong) simp_all
  ultimately show ?thesis using out by (simp add: Select_def)
qed

lemma Select_fits_facts:
  assumes "Select X txs profile maxGas = Inr out" and "distinct (map tx_ID txs)"
  shows "maxGas > 0 \<longrightarrow> (\<Sum>tx\<leftarrow>out. gas_of profile tx) \<le> unat maxGas"
    and "sorted_wrt (\<lambda>a b. outranks (cand_of profile a) (cand_of profile b)) out"
    and "set out \<subseteq> {tx \<in> set txs. \<not> tx_Coinbase tx}"
    and "\<forall>tx \<in> set txs - set out. \<not> tx_Coinbase tx \<longrightarrow>
      maxGas > 0 \<and> unat maxGas < (\<Sum>tx\<leftarrow>out. gas_of profile tx) + gas_of profile tx"
proof -
  from assms(1) obtain cs where g: "gather X profile txs = Inr cs"
    and out: "out = map cand_tx (take_loop maxGas 0 (sort_by higherPriority cs))" by (rule Select_Inr)
  have cs: "cs = map (cand_of profile) (filter (\<lambda>tx. \<not> tx_Coinbase tx) txs)"
    using g by (simp add: gather_Inr_iff)
  let ?ts = "take_loop maxGas 0 (sort_by higherPriority cs)"
  have sub: "set ?ts \<subseteq> set cs" using set_take_loop by fastforce
  have self: "c = cand_of profile (cand_tx c)" if "c \<in> set ?ts" for c using that sub cs by auto
  have gas: "(\<Sum>c\<leftarrow>?ts. unat (cand_gas c)) = (\<Sum>tx\<leftarrow>out. gas_of profile tx)"
    unfolding out map_map o_def
    by (intro arg_cong [where f = sum_list] map_cong refl) (metis self candidate.select_convs(2) unat_gas_of)
  show "maxGas > 0 \<longrightarrow> (\<Sum>tx\<leftarrow>out. gas_of profile tx) \<le> unat maxGas"
    using take_loop_within [of maxGas 0 "sort_by higherPriority cs"] gas by auto
  have "sorted_wrt higherPriority (sort_by higherPriority cs)"
    using cands_ids [OF assms(2)] cs by (intro by_fee.sorted_sort) simp
  then have "sorted_wrt higherPriority ?ts" by (rule sorted_take_loop)
  then have "sorted_wrt (\<lambda>a b. outranks (cand_of profile (cand_tx a)) (cand_of profile (cand_tx b))) ?ts"
    by (rule sorted_wrt_mono_rel [rotated]) (metis self higherPriority_outranks)
  then show "sorted_wrt (\<lambda>a b. outranks (cand_of profile a) (cand_of profile b)) out"
    by (simp add: out sorted_wrt_map)
  show "set out \<subseteq> {tx \<in> set txs. \<not> tx_Coinbase tx}" using sub cs out by auto
  show "\<forall>tx \<in> set txs - set out. \<not> tx_Coinbase tx \<longrightarrow>
      maxGas > 0 \<and> unat maxGas < (\<Sum>tx\<leftarrow>out. gas_of profile tx) + gas_of profile tx"
  proof (intro ballI impI)
    fix tx assume tx: "tx \<in> set txs - set out" "\<not> tx_Coinbase tx"
    then have "cand_of profile tx \<in> set (sort_by higherPriority cs)" using cs by simp
    moreover have "cand_of profile tx \<notin> set ?ts" using tx out by force
    ultimately show "maxGas > 0 \<and> unat maxGas < (\<Sum>tx\<leftarrow>out. gas_of profile tx) + gas_of profile tx"
      using take_loop_skipped [of _ "sort_by higherPriority cs" maxGas 0] gas by fastforce
  qed
qed

text \<open>
  C20. A selection is in order of fee rate, fits the gas limit, and is full: a pending transaction that
  was left out would exceed the limit.
\<close>

theorem Select_fits:
  assumes "Select X txs profile maxGas = Inr out" and "distinct (map tx_ID txs)"
  shows "(maxGas > 0 \<longrightarrow> (\<Sum>tx\<leftarrow>out. gas_of profile tx) \<le> unat maxGas)
    \<and> sorted_wrt (\<lambda>a b. outranks (cand_of profile a) (cand_of profile b)) out
    \<and> set out \<subseteq> {tx \<in> set txs. \<not> tx_Coinbase tx}
    \<and> (\<forall>tx \<in> set txs - set out. \<not> tx_Coinbase tx \<longrightarrow>
        maxGas > 0 \<and> unat maxGas < (\<Sum>tx\<leftarrow>out. gas_of profile tx) + gas_of profile tx)"
  using Select_fits_facts [OF assms] by blast

section \<open>SelectWithNonces\<close>

lemma by_sender_lists:
  assumes "by_sender X profile txs m = Inr m'"
  shows "get_or [] m' s = get_or [] m s @
      map (cand_of profile) (filter (\<lambda>tx. \<not> tx_Coinbase tx \<and> tx_From tx = s) txs)"
  using assms
proof (induction X profile txs m rule: by_sender.induct)
  case (2 X profile tx txs m)
  show ?case
  proof (cases "tx_Coinbase tx")
    case True
    with 2 show ?thesis by simp
  next
    case False
    with "2.prems" obtain g b where g: "GasUsed tx profile = Inr (g, b)"
      and "by_sender X profile txs
        (fmupd (tx_From tx) (get_or [] m (tx_From tx) @ [\<lparr>cand_tx = tx, cand_gas = g\<rparr>]) m) = Inr m'"
      by (auto split: option.splits sum.splits if_splits)
    with "2.IH" (2) False "2.prems" show ?thesis by (auto split: option.splits sum.splits if_splits)
  qed
qed simp

text \<open>The nonces of the ready list are consecutive and do not wrap.\<close>

lemma ready_loop_nonces:
  "map (\<lambda>c. unat (tx_Nonce (cand_tx c))) (ready_loop e cs) = [unat e..<unat e + length (ready_loop e cs)]"
proof (induction e cs rule: ready_loop.induct)
  case (2 e c cs)
  then show ?case using unat_inc [of e] by (auto simp: upt_conv_Cons simp del: upt_Suc)
qed simp

lemma set_ready_loop: "set (ready_loop e cs) \<subseteq> set cs"
  by (induction e cs rule: ready_loop.induct) auto

lemma length_ready_loop: "length (ready_loop e cs) \<le> length cs"
  by (induction e cs rule: ready_loop.induct) auto

text \<open>The best entry of a round is the head of some list, and it fits.\<close>

lemma best_step_cases:
  "best_step maxGas used e best = best \<or>
    (\<exists>s c cs. e = (s, c # cs) \<and> \<not> no_room maxGas used (cand_gas c) \<and> best_step maxGas used e best = Some (s, c))"
  by (auto simp: best_step_def split: prod.splits list.splits option.splits)

lemma pick_best_Some:
  assumes "pick_best maxGas used es = Some (s, c)"
  shows "\<exists>cs. (s, c # cs) \<in> set es \<and> \<not> no_room maxGas used (cand_gas c)"
proof -
  have "best = Some (s, c) \<or> (\<exists>cs. (s, c # cs) \<in> set es \<and> \<not> no_room maxGas used (cand_gas c))"
    if "fold (best_step maxGas used) es best = Some (s, c)" for best
    using that
  proof (induction es arbitrary: best)
    case (Cons e es)
    with best_step_cases [of maxGas used e best] show ?case by fastforce
  qed simp
  with assms show ?thesis unfolding pick_best_def by blast
qed

lemma best_step_not_None: "best \<noteq> None \<Longrightarrow> fold (best_step maxGas used) es best \<noteq> None"
proof (induction es arbitrary: best)
  case (Cons e es)
  from Cons.prems best_step_cases [of maxGas used e best] have "best_step maxGas used e best \<noteq> None" by auto
  with Cons.IH show ?case by simp
qed simp

lemma pick_best_None:
  assumes "pick_best maxGas used es = None" and "(s, c # cs) \<in> set es"
  shows "no_room maxGas used (cand_gas c)"
proof (rule ccontr)
  assume room: "\<not> no_room maxGas used (cand_gas c)"
  from assms(2) obtain es1 es2 where es: "es = es1 @ (s, c # cs) # es2" by (meson split_list)
  have "best_step maxGas used (s, c # cs) best \<noteq> None" for best
    using room by (auto simp: best_step_def split: option.splits)
  then have "pick_best maxGas used es \<noteq> None"
    unfolding pick_best_def es by (simp add: best_step_not_None)
  with assms(1) show False by simp
qed

lemma entry_iff: "(s, c # cs) \<in> set (sorted_list_of_fmap m) \<longleftrightarrow> get_or [] m s = c # cs"
  by (auto simp: set_sorted_list_of_fmap get_or_def split: option.splits)

text \<open>Enough fuel: one unit per candidate.\<close>

lemma select_loop_enough:
  assumes "\<And>n xs. set (ord n xs) = set xs" and "fmsum length m \<le> fuel"
  shows "select_loop ord maxGas fuel used m \<noteq> None"
  using assms(2)
proof (induction fuel arbitrary: used m)
  case 0
  have False if "pick_best maxGas used (ord 0 (sorted_list_of_fmap m)) = Some (s, c)" for s c
  proof -
    from pick_best_Some [OF that] assms(1) obtain cs where "get_or [] m s = c # cs" by (auto simp: entry_iff)
    with 0 fmsum_get_or_le [of length "[]" m s] show False by simp
  qed
  then show ?case by (subst select_loop.simps) (auto split: option.splits)
next
  case (Suc fuel)
  have "select_loop ord maxGas fuel (used + cand_gas c) (fmupd s (tl (get_or [] m s)) m) \<noteq> None"
    if "pick_best maxGas used (ord (Suc fuel) (sorted_list_of_fmap m)) = Some (s, c)" for s c
  proof (rule Suc.IH)
    from pick_best_Some [OF that] assms(1) obtain cs where "get_or [] m s = c # cs" by (auto simp: entry_iff)
    then show "fmsum length (fmupd s (tl (get_or [] m s)) m) \<le> fuel"
      using Suc.prems fmsum_upd_or [of length "[]" s "tl (get_or [] m s)" m] by simp
  qed
  then show ?case by (subst select_loop.simps) (auto split: option.splits)
qed

text \<open>
  What a run of the loop selects: a prefix of every sender's list, within the gas limit, and the next
  candidate of every sender no longer fits.
\<close>

lemma select_loop_round:
  assumes "select_loop ord maxGas fuel used m = Some out" and "\<And>n xs. set (ord n xs) = set xs"
  obtains (stop) "out = []" "\<And>s c cs. get_or [] m s = c # cs \<Longrightarrow> no_room maxGas used (cand_gas c)"
  | (pick) t c cs n out' where "get_or [] m t = c # cs" "\<not> no_room maxGas used (cand_gas c)"
      "fuel = Suc n" "out = c # out'" "select_loop ord maxGas n (used + cand_gas c) (fmupd t cs m) = Some out'"
proof (cases "pick_best maxGas used (ord fuel (sorted_list_of_fmap m))")
  case None
  show ?thesis
  proof (rule stop)
    show "out = []" using assms(1) None by (subst (asm) select_loop.simps) simp
    show "no_room maxGas used (cand_gas c)" if "get_or [] m s = c # cs" for s c cs
      using pick_best_None [OF None, of s c cs] that assms(2) by (simp add: entry_iff)
  qed
next
  case (Some sc)
  obtain t c where sc: "sc = (t, c)" by force
  from pick_best_Some [OF Some [unfolded sc]] assms(2) obtain cs
    where t: "get_or [] m t = c # cs" and room: "\<not> no_room maxGas used (cand_gas c)"
    by (auto simp: entry_iff)
  from assms(1) Some sc t obtain n out' where "fuel = Suc n" "out = c # out'"
    "select_loop ord maxGas n (used + cand_gas c) (fmupd t cs m) = Some out'"
    by (subst (asm) select_loop.simps) (auto split: nat.splits)
  with t room show ?thesis by (rule pick)
qed

lemma select_loop_gas:
  assumes "\<And>n xs. set (ord n xs) = set xs" and "maxGas > 0"
    and "select_loop ord maxGas fuel used m = Some out" and "used \<le> maxGas"
  shows "unat used + (\<Sum>c\<leftarrow>out. unat (cand_gas c)) \<le> unat maxGas"
  using assms(3, 4)
proof (induction fuel arbitrary: used m out rule: less_induct)
  case (less fuel)
  from less.prems(1) assms(1) show ?case
  proof (cases rule: select_loop_round)
    case stop
    then show ?thesis using less.prems(2) by (simp add: word_le_nat_alt)
  next
    case (pick t c cs n out')
    from less.IH [OF _ pick(5)] room_left [OF assms(2) pick(2)] pick(3, 4) show ?thesis by simp
  qed
qed

lemma select_loop_prefix:
  assumes "\<And>n xs. set (ord n xs) = set xs"
    and "\<forall>s. \<forall>c \<in> set (get_or [] m s). tx_From (cand_tx c) = s"
    and "select_loop ord maxGas fuel used m = Some out"
  shows "\<exists>rest. get_or [] m s = filter (\<lambda>c. tx_From (cand_tx c) = s) out @ rest
    \<and> (\<forall>c cs. rest = c # cs \<longrightarrow> maxGas > 0
         \<and> unat maxGas < unat used + (\<Sum>c\<leftarrow>out. unat (cand_gas c)) + unat (cand_gas c))"
  using assms(2, 3)
proof (induction fuel arbitrary: used m out rule: less_induct)
  case (less fuel)
  from less.prems(2) assms(1) show ?case
  proof (cases rule: select_loop_round)
    case stop
    then show ?thesis by (auto simp: no_room_iff)
  next
    case (pick t c cs n out')
    have "\<forall>s. \<forall>d \<in> set (get_or [] (fmupd t cs m) s). tx_From (cand_tx d) = s"
      using less.prems(1) pick(1) by (metis get_or_upd list.set_intros(2))
    with less.IH [OF _ _ pick(5)] pick(3) obtain rest
      where r: "get_or [] (fmupd t cs m) s = filter (\<lambda>c. tx_From (cand_tx c) = s) out' @ rest"
      and full: "\<forall>d ds. rest = d # ds \<longrightarrow> maxGas > 0
        \<and> unat maxGas < unat (used + cand_gas c) + (\<Sum>c\<leftarrow>out'. unat (cand_gas c)) + unat (cand_gas d)"
      by auto
    have f: "tx_From (cand_tx c) = t" using less.prems(1) pick(1) by (metis list.set_intros(1))
    show ?thesis
    proof (intro exI conjI)
      show "get_or [] m s = filter (\<lambda>c. tx_From (cand_tx c) = s) out @ rest"
        using r f pick(1, 4) by (auto split: if_splits)
      show "\<forall>d ds. rest = d # ds \<longrightarrow> maxGas > 0
        \<and> unat maxGas < unat used + (\<Sum>c\<leftarrow>out. unat (cand_gas c)) + unat (cand_gas d)"
        using full room_left [OF _ pick(2)] pick(4) by auto
    qed
  qed
qed

lemma by_sender_count:
  "by_sender X profile txs m = Inr m' \<Longrightarrow> fmsum length m' \<le> fmsum length m + length txs"
proof (induction X profile txs m rule: by_sender.induct)
  case (2 X profile tx txs m)
  have "fmsum length (fmupd (tx_From tx) (get_or [] m (tx_From tx) @ [c]) m) = Suc (fmsum length m)" for c
    using fmsum_upd_or [of length "[]" "tx_From tx" "get_or [] m (tx_From tx) @ [c]" m] by simp
  with 2 show ?case by (fastforce split: if_splits option.splits sum.splits)
qed simp

lemma get_or_ready:
  "get_or [] (fmmap_keys (ready_list nextNonce) m) s =
     (case fmlookup m s of None \<Rightarrow> [] | Some cs \<Rightarrow> ready_list nextNonce s cs)"
  by (simp add: get_or_def split: option.splits)

lemma ready_list_facts:
  shows "set (ready_list nextNonce s cs) \<subseteq> set cs"
    and "length (ready_list nextNonce s cs) \<le> length cs"
  using set_ready_loop [of _ "sort_by nonce_less cs"] length_ready_loop [of _ "sort_by nonce_less cs"]
  by (auto simp: ready_list_def Let_def)

lemma ready_list_nonces:
  "\<exists>start. (\<forall>n. fmlookup nextNonce s = Some n \<longrightarrow> start = n)
     \<and> map (\<lambda>c. unat (tx_Nonce (cand_tx c))) (ready_list nextNonce s cs)
        = [unat start..<unat start + length (ready_list nextNonce s cs)]"
proof (intro exI conjI)
  let ?start = "case fmlookup nextNonce s of Some n \<Rightarrow> n | None \<Rightarrow> tx_Nonce (cand_tx (hd (sort_by nonce_less cs)))"
  show "\<forall>n. fmlookup nextNonce s = Some n \<longrightarrow> ?start = n" by simp
  show "map (\<lambda>c. unat (tx_Nonce (cand_tx c))) (ready_list nextNonce s cs)
      = [unat ?start..<unat ?start + length (ready_list nextNonce s cs)]"
    unfolding ready_list_def Let_def by (rule ready_loop_nonces)
qed

lemma fmsum_ready: "fmsum length (fmmap_keys (ready_list nextNonce) m) \<le> fmsum length m"
proof -
  have "fmdom' (fmmap_keys (ready_list nextNonce) m) = fmdom' m" by (simp add: fmdom'_alt_def)
  moreover have "length (the (fmlookup (fmmap_keys (ready_list nextNonce) m) k)) \<le> length (the (fmlookup m k))"
    if "k \<in> fmdom' m" for k
    using that ready_list_facts(2) by (cases "fmlookup m k") (auto simp: fmlookup_dom'_iff)
  ultimately show ?thesis unfolding fmsum_def by (simp add: sum_mono)
qed

lemma map_upt_prefix:
  assumes "map f xs = [a..<a + length xs]" and "xs = ys @ zs"
  shows "map f ys = [a..<a + length ys]"
proof -
  have "map f ys = take (length ys) (map f xs)" using assms(2) by simp
  also have "\<dots> = [a..<a + length ys]" using assms by (simp add: take_upt)
  finally show ?thesis .
qed

lemma prefix_nonces:
  assumes "get_or [] (fmmap_keys (ready_list nextNonce) m) s = cs @ rest"
  shows "\<exists>start. (\<forall>n. fmlookup nextNonce s = Some n \<longrightarrow> start = n)
    \<and> map (\<lambda>c. unat (tx_Nonce (cand_tx c))) cs = [unat start..<unat start + length cs]"
proof -
  obtain start where "\<forall>n. fmlookup nextNonce s = Some n \<longrightarrow> start = n"
    "map (\<lambda>c. unat (tx_Nonce (cand_tx c))) (get_or [] (fmmap_keys (ready_list nextNonce) m) s)
      = [unat start..<unat start + length (get_or [] (fmmap_keys (ready_list nextNonce) m) s)]"
    using ready_list_nonces [of nextNonce s] by (cases "fmlookup m s") (auto simp: get_or_ready)
  with map_upt_prefix [OF this(2) assms] show ?thesis by blast
qed

lemma select_ready:
  assumes m: "by_sender X profile txs fmempty = Inr m" and ord: "\<And>n xs. set (ord n xs) = set xs"
  obtains cs where "select_loop ord maxGas (length txs) 0 (fmmap_keys (ready_list nextNonce) m) = Some cs"
    and "\<And>s. \<exists>rest. get_or [] (fmmap_keys (ready_list nextNonce) m) s
           = filter (\<lambda>c. tx_From (cand_tx c) = s) cs @ rest"
    and "\<And>c. c \<in> set cs \<Longrightarrow> c = cand_of profile (cand_tx c) \<and> cand_tx c \<in> set txs \<and> \<not> tx_Coinbase (cand_tx c)"
proof -
  let ?ready = "fmmap_keys (ready_list nextNonce) m"
  have "fmsum length ?ready \<le> length txs"
    using fmsum_ready by_sender_count [OF m] by (metis add_0 fmsum_empty order_trans)
  with select_loop_enough [of ord ?ready "length txs" maxGas 0] ord obtain cs
    where cs: "select_loop ord maxGas (length txs) 0 ?ready = Some cs" by auto
  have ready: "c = cand_of profile (cand_tx c) \<and> cand_tx c \<in> set txs \<and> \<not> tx_Coinbase (cand_tx c)
      \<and> tx_From (cand_tx c) = s" if "c \<in> set (get_or [] ?ready s)" for c s
  proof -
    from that have "c \<in> set (get_or [] m s)"
      using ready_list_facts(1) by (fastforce simp: get_or_ready get_or_def split: option.splits)
    then show ?thesis using by_sender_lists [OF m, of s] by auto
  qed
  then have rest: "\<exists>rest. get_or [] ?ready s = filter (\<lambda>c. tx_From (cand_tx c) = s) cs @ rest" for s
    using select_loop_prefix [of ord ?ready maxGas "length txs" 0 cs s] ord cs by blast
  have "c \<in> set (get_or [] ?ready (tx_From (cand_tx c)))" if "c \<in> set cs" for c
    using rest [of "tx_From (cand_tx c)"] that by auto
  with cs rest ready show ?thesis by (intro that) blast+
qed

text \<open>
  C21. Selection with nonces, whatever order Go ranges over the senders in: the loop ends, the block fits
  the gas limit, and the selected transactions of each sender carry consecutive nonces, from the
  next executable one where it is known.
\<close>

theorem SelectWithNonces_consecutive:
  assumes "\<And>n xs. set (ord n xs) = set xs"
    and "SelectWithNonces X ord txs profile maxGas nextNonce = Inr r"
  shows "\<exists>out. r = Some out
    \<and> (maxGas > 0 \<longrightarrow> (\<Sum>tx\<leftarrow>out. gas_of profile tx) \<le> unat maxGas)
    \<and> set out \<subseteq> {tx \<in> set txs. \<not> tx_Coinbase tx}
    \<and> (\<forall>s. \<exists>start. (\<forall>n. fmlookup nextNonce s = Some n \<longrightarrow> start = n)
        \<and> map (\<lambda>tx. unat (tx_Nonce tx)) (filter (\<lambda>tx. tx_From tx = s) out)
           = [unat start..<unat start + length (filter (\<lambda>tx. tx_From tx = s) out)])"
proof -
  from assms(2) obtain m where m: "by_sender X profile txs fmempty = Inr m"
    and r: "r = map_option (map cand_tx)
      (select_loop ord maxGas (length txs) 0 (fmmap_keys (ready_list nextNonce) m))"
    by (auto simp: SelectWithNonces_def Let_def split: sum.splits)
  let ?ready = "fmmap_keys (ready_list nextNonce) m"
  obtain cs where cs: "select_loop ord maxGas (length txs) 0 ?ready = Some cs"
    and rest: "\<And>s. \<exists>rest. get_or [] ?ready s = filter (\<lambda>c. tx_From (cand_tx c) = s) cs @ rest"
    and self: "\<And>c. c \<in> set cs \<Longrightarrow> c = cand_of profile (cand_tx c) \<and> cand_tx c \<in> set txs \<and> \<not> tx_Coinbase (cand_tx c)"
    using select_ready [of X profile txs m ord maxGas nextNonce] m assms(1) by metis
  show ?thesis
  proof (rule exI [of _ "map cand_tx cs"], intro conjI)
    show "r = Some (map cand_tx cs)" using r cs by simp
    have "(\<Sum>c\<leftarrow>cs. unat (cand_gas c)) = (\<Sum>tx\<leftarrow>map cand_tx cs. gas_of profile tx)"
      unfolding map_map o_def using self
      by (intro arg_cong [where f = sum_list] map_cong refl) (metis candidate.select_convs(2) unat_gas_of)
    then show "maxGas > 0 \<longrightarrow> (\<Sum>tx\<leftarrow>map cand_tx cs. gas_of profile tx) \<le> unat maxGas"
      using select_loop_gas [of ord maxGas "length txs" 0 ?ready cs] assms(1) cs by auto
    show "set (map cand_tx cs) \<subseteq> {tx \<in> set txs. \<not> tx_Coinbase tx}" using self by auto
    show "\<forall>s. \<exists>start. (\<forall>n. fmlookup nextNonce s = Some n \<longrightarrow> start = n)
        \<and> map (\<lambda>tx. unat (tx_Nonce tx)) (filter (\<lambda>tx. tx_From tx = s) (map cand_tx cs))
           = [unat start..<unat start + length (filter (\<lambda>tx. tx_From tx = s) (map cand_tx cs))]"
      (is "\<forall>s. ?N s")
    proof
      fix s
      obtain rest where "get_or [] ?ready s = filter (\<lambda>c. tx_From (cand_tx c) = s) cs @ rest"
        using rest by blast
      from prefix_nonces [OF this] show "?N s" by (simp add: filter_map o_def)
    qed
  qed
qed

lemma pick_best_order_dependent_facts:
  assumes "tx_Fee (cand_tx a) = tx_Fee (cand_tx b)" and "cand_gas a = cand_gas b"
    and "tx_From (cand_tx a) < tx_From (cand_tx b)" and "tx_ID (cand_tx b) < tx_ID (cand_tx a)"
    and "\<not> no_room maxGas used (cand_gas a)"
  shows "pick_best maxGas used [(tx_From (cand_tx a), a # as), (tx_From (cand_tx b), b # bs)]
       = Some (tx_From (cand_tx b), b)"
    and "pick_best maxGas used [(tx_From (cand_tx b), b # bs), (tx_From (cand_tx a), a # as)]
       = Some (tx_From (cand_tx a), a)"
  using assms by (simp_all add: pick_best_def best_step_def higherPriority_def samePriority_def)

text \<open>
  The choice depends on the iteration order of a Go map: of two senders with equal fee and gas, the
  one visited second wins when it is smaller in either the sender or the identifier, so the two
  orders of visiting give different picks when the two comparisons disagree.
\<close>

theorem pick_best_order_dependent:
  assumes "tx_Fee (cand_tx a) = tx_Fee (cand_tx b)" and "cand_gas a = cand_gas b"
    and "tx_From (cand_tx a) < tx_From (cand_tx b)" and "tx_ID (cand_tx b) < tx_ID (cand_tx a)"
    and "\<not> no_room maxGas used (cand_gas a)"
  shows "pick_best maxGas used [(tx_From (cand_tx a), a # as), (tx_From (cand_tx b), b # bs)]
       = Some (tx_From (cand_tx b), b)
    \<and> pick_best maxGas used [(tx_From (cand_tx b), b # bs), (tx_From (cand_tx a), a # as)]
       = Some (tx_From (cand_tx a), a)"
  using pick_best_order_dependent_facts [OF assms] by blast

end
