(* ===== verification/Mempool_Scenarios.thy ===== *)
theory Mempool_Scenarios
  imports Selection
begin

text \<open>
  Concrete pools for the properties of admission and selection: two version 3 transfers of one sender
  with one nonce, a second sender, and a policy for the local network.
\<close>

definition any_ext :: ext where
  "any_ext = \<lparr>x_ripemd160 = (\<lambda>_. replicate 20 0), x_ParsePubKey = Some, x_ParseDERSignature = Some,
     x_Verify = (\<lambda>_ _ _. True)\<rparr>"

definition pool_policy :: admission_policy where
  "pool_policy = \<lparr>pol_Profile = Localnet, pol_MaxTxs = 10, pol_MaxGas = 20\<rparr>"

definition pool_a :: transaction where
  "pool_a = zero_tx\<lparr>tx_ID := ''a'', tx_Version := 3, tx_Type := TxTypeTransfer, tx_From := ''alice'',
     tx_To := ''bob'', tx_AssetID := NativeAssetID, tx_Amount := 5, tx_Fee := 7, tx_Nonce := 1\<rparr>"

definition pool_b :: transaction where
  "pool_b = pool_a\<lparr>tx_ID := ''b'', tx_Amount := 6\<rparr>"

lemma pool_fields: "tx_ID pool_a = ''a''" "tx_ID pool_b = ''b''" "tx_From pool_a = ''alice''"
  "tx_From pool_b = ''alice''" "tx_Nonce pool_a = 1" "tx_Nonce pool_b = 1"
  by (simp_all add: pool_a_def pool_b_def)

lemma pool_a_admitted: "admit_check any_ext pool_a pool_policy [] = None"
  by code_simp

lemma pool_b_admitted: "admit_check any_ext pool_b pool_policy [] = None"
  by code_simp

lemma pool_with_a: "mempool_Load (snd (Admit any_ext pool_a pool_policy None)) = [pool_a]"
  using Load_Add [of None pool_a] pool_a_admitted by (simp add: Admit_def)


theorem admit_runs_ids_witness: "distinct (map tx_ID (mempool_Load (snd (mempool_Add pool_a None))))"
proof -
  have "admit_step any_ext pool_policy (None, {}) (None, {pool_a})"
    using admit_step.check [of any_ext pool_a pool_policy None "{}"] pool_a_admitted by simp
  moreover have "admit_step any_ext pool_policy (None, {pool_a}) (snd (mempool_Add pool_a None), {pool_a} - {pool_a})"
    by (rule admit_step.add) simp
  ultimately have "admit_runs any_ext pool_policy (None, {}) (snd (mempool_Add pool_a None), {pool_a} - {pool_a})"
    by (meson converse_rtranclp_into_rtranclp r_into_rtranclp)
  then show ?thesis by (rule admit_runs_ids)
qed

theorem admit_race_witness:
  "\<exists>p. admit_runs any_ext pool_policy (None, {}) (p, {}) \<and> mempool_Load p = [pool_a, pool_b]
     \<and> tx_From pool_a = tx_From pool_b \<and> tx_Nonce pool_a = tx_Nonce pool_b"
  using admit_race [OF pool_a_admitted pool_b_admitted] by (simp add: pool_fields)

lemma pool_valid:
  "ValidateForRevalidation any_ext pool_a \<lparr>pol_Profile = Localnet, pol_MaxTxs = n, pol_MaxGas = g\<rparr> = None"
  "ValidateForRevalidation any_ext pool_b \<lparr>pol_Profile = Localnet, pol_MaxTxs = n, pol_MaxGas = g\<rparr> = None"
  using revalidation_profile [of pool_policy "\<lparr>pol_Profile = Localnet, pol_MaxTxs = n, pol_MaxGas = g\<rparr>"]
    admit_check_None(1) [OF pool_a_admitted] admit_check_None(1) [OF pool_b_admitted]
  by (simp_all add: pool_policy_def)

lemma pool_gas: "GasUsed pool_a Localnet = Inr (15, 148)" "GasUsed pool_b Localnet = Inr (15, 148)"
  by code_simp+

lemma pool_more: "\<not> tx_Coinbase pool_a" "\<not> tx_Coinbase pool_b" "tx_Fee pool_a = 7" "tx_Fee pool_b = 7"
  by (simp_all add: pool_a_def pool_b_def zero_tx_def)

lemma one_fits: "Select any_ext [pool_b, pool_a] Localnet 20 = Inr [pool_a]"
proof -
  let ?a = "\<lparr>cand_tx = pool_a, cand_gas = 15\<rparr>" and ?b = "\<lparr>cand_tx = pool_b, cand_gas = 15\<rparr>"
  have "gather any_ext Localnet [pool_b, pool_a] = Inr [?b, ?a]"
    by (simp add: pool_valid pool_more pool_gas)
  moreover have "map cand_tx (take_loop 20 0 (sort_by higherPriority [?b, ?a])) = [pool_a]" by code_simp
  ultimately show ?thesis by (simp add: Select_def)
qed

lemma by_sender_valid:
  assumes "ValidateForRevalidation X tx policy = None" and "pol_Profile policy = profile"
    and "GasUsed tx profile = Inr (g, b)"
  shows "by_sender X profile (tx # txs) m =
    by_sender X profile txs (fmupd (tx_From tx) (get_or [] m (tx_From tx) @ [\<lparr>cand_tx = tx, cand_gas = g\<rparr>]) m)"
  using assms by (auto simp: ValidateForRevalidation_def split: if_splits option.splits sum.splits)

theorem Select_order_free_witness: "Select any_ext [pool_a, pool_b] Localnet 20 = Inr [pool_a]"
  by (rule Select_order_free [OF one_fits]) (simp_all add: pool_fields)

theorem Select_fits_witness: "gas_of Localnet pool_a \<le> 20 \<and> 20 < gas_of Localnet pool_a + gas_of Localnet pool_b"
  using Select_fits [OF one_fits] by (auto simp: pool_fields pool_a_def pool_b_def zero_tx_def)

lemma run_of_one: "SelectWithNonces any_ext (\<lambda>_ xs. xs) [pool_b, pool_a] Localnet 0 fmempty = Inr (Some [pool_a])"
proof -
  let ?m = "fmupd ''alice'' [\<lparr>cand_tx = pool_b, cand_gas = 15\<rparr>, \<lparr>cand_tx = pool_a, cand_gas = 15\<rparr>] fmempty"
  have "by_sender any_ext Localnet [pool_b, pool_a] fmempty = Inr ?m"
    using by_sender_valid [OF pool_valid(1) _ pool_gas(1)] by_sender_valid [OF pool_valid(2) _ pool_gas(2)]
    by (simp add: pool_fields del: by_sender.simps(2))
  moreover have "map_option (map cand_tx)
      (select_loop (\<lambda>_ xs. xs) 0 2 0 (fmmap_keys (ready_list fmempty) ?m)) = Some [pool_a]"
    by code_simp
  ultimately show ?thesis by (simp add: SelectWithNonces_def numeral_2_eq_2)
qed

theorem SelectWithNonces_consecutive_witness:
  "\<exists>start :: u64. map (\<lambda>tx. unat (tx_Nonce tx)) (filter (\<lambda>tx. tx_From tx = ''alice'') [pool_a])
      = [unat start..<unat start + length (filter (\<lambda>tx. tx_From tx = ''alice'') [pool_a])]"
proof -
  obtain out where "Some [pool_a] = Some out"
    "\<forall>s. \<exists>start :: u64. (\<forall>n. fmlookup fmempty s = Some n \<longrightarrow> start = n)
        \<and> map (\<lambda>tx. unat (tx_Nonce tx)) (filter (\<lambda>tx. tx_From tx = s) out)
           = [unat start..<unat start + length (filter (\<lambda>tx. tx_From tx = s) out)]"
    using SelectWithNonces_consecutive [of "\<lambda>_ xs. xs", OF refl run_of_one] by blast
  then show ?thesis by blast
qed

theorem pick_best_order_dependent_witness:
  "pick_best 0 0 [(''alice'', [\<lparr>cand_tx = pool_b, cand_gas = 15\<rparr>]),
                  (''carol'', [\<lparr>cand_tx = pool_a\<lparr>tx_From := ''carol''\<rparr>, cand_gas = 15\<rparr>])]
   \<noteq> pick_best 0 0 [(''carol'', [\<lparr>cand_tx = pool_a\<lparr>tx_From := ''carol''\<rparr>, cand_gas = 15\<rparr>]),
                  (''alice'', [\<lparr>cand_tx = pool_b, cand_gas = 15\<rparr>])]"
proof -
  let ?a = "\<lparr>cand_tx = pool_b, cand_gas = 15\<rparr>" and ?b = "\<lparr>cand_tx = pool_a\<lparr>tx_From := ''carol''\<rparr>, cand_gas = 15\<rparr>"
  have "tx_From (cand_tx ?a) < tx_From (cand_tx ?b)" by code_simp
  moreover have "tx_ID (cand_tx ?b) < tx_ID (cand_tx ?a)" by code_simp
  moreover have "tx_Fee (cand_tx ?a) = tx_Fee (cand_tx ?b)" by (simp add: pool_a_def pool_b_def)
  ultimately show ?thesis
    using pick_best_order_dependent [of ?a ?b 0 0 "[]" "[]"] by (simp add: pool_fields no_room_def)
qed

end
