(* ===== verification/Pow.thy ===== *)
theory Pow
  imports Block
begin

text \<open>
  \<open>chain/pow.go\<close>: proof of work, mining, and the difficulty of the next block. The loop of
  \<open>MineWithContext\<close> may run forever (no limit on the nonce and no solution), so it is a partial
  function: None is a run that does not end. The context is an oracle that says whether the call is
  cancelled by the i-th round; the progress callback has no effect on the result and is left out.

  Main results: a mined block is the input with another nonce and passes the proof-of-work check;
  with a nonce limit below the largest word mining ends; the difficulty stays in its range and
  moves by at most one per block.
\<close>

record mine_options =
  mo_MaxNonce :: u64

definition ErrMaxNonceReached :: err where
  "ErrMaxNonceReached = Err ''max nonce reached''"

definition pow_target :: "u32 \<Rightarrow> string" where
  "pow_target difficulty = replicate (unat difficulty) CHR ''0''"

partial_function (option) mine_loop :: "(nat \<Rightarrow> bool) \<Rightarrow> mine_options \<Rightarrow> nat \<Rightarrow> block \<Rightarrow> (err + block) option" where
  [code]: "mine_loop cancelled opts i block =
    (if b_Nonce block mod 10000 = 0 \<and> cancelled i then Some (Inl (Err ''mining cancelled''))
     else if mo_MaxNonce opts > 0 \<and> b_Nonce block > mo_MaxNonce opts then Some (Inl ErrMaxNonceReached)
     else let hash = DoubleSHA256Hex (HeaderBytesWithNonce block (b_Nonce block)) in
       if HasPrefix hash (pow_target (b_Difficulty block)) then Some (Inr (block\<lparr>b_Hash := hash\<rparr>))
       else mine_loop cancelled opts (i + 1) (block\<lparr>b_Nonce := b_Nonce block + 1\<rparr>))"

definition MineWithContext :: "(nat \<Rightarrow> bool) \<Rightarrow> block \<Rightarrow> mine_options \<Rightarrow> (err + block) option" where
  "MineWithContext cancelled block opts = mine_loop cancelled opts 0 block"

text \<open>\<open>Mine\<close> drops the error; its background context is never cancelled.\<close>

definition Mine :: "block \<Rightarrow> block option" where
  "Mine block =
    map_option (\<lambda>r. case r of Inl _ \<Rightarrow> zero_block | Inr b \<Rightarrow> b)
      (MineWithContext (\<lambda>_. False) block \<lparr>mo_MaxNonce = 0\<rparr>)"

definition ValidateProofOfWork :: "block \<Rightarrow> bool" where
  "ValidateProofOfWork block =
    (HasPrefix (b_Hash block) (pow_target (b_Difficulty block)) \<and> b_Hash block = CalculateHash block)"

section \<open>Difficulty\<close>

definition normalizeDifficultyParams :: "difficulty_params \<Rightarrow> difficulty_params" where
  "normalizeDifficultyParams p =
    (let p = (if dp_InitialDifficulty p = 0 then p\<lparr>dp_InitialDifficulty := InitialDifficulty\<rparr> else p);
         p = (if dp_MinDifficulty p = 0 then p\<lparr>dp_MinDifficulty := 1\<rparr> else p);
         p = (if dp_MaxDifficulty p = 0 then p\<lparr>dp_MaxDifficulty := dp_InitialDifficulty p\<rparr> else p);
         p = (if dp_MaxDifficulty p < dp_MinDifficulty p then p\<lparr>dp_MaxDifficulty := dp_MinDifficulty p\<rparr> else p);
         p = (if sint (dp_TargetBlockTimeSeconds p) \<le> 0
              then p\<lparr>dp_TargetBlockTimeSeconds := BlockTimeTargetSecs\<rparr> else p);
         p = (if dp_RetargetWindow p = 0 then p\<lparr>dp_RetargetWindow := 10\<rparr> else p);
         p = (if sint (dp_MaxFutureDriftSeconds p) \<le> 0 then p\<lparr>dp_MaxFutureDriftSeconds := 900\<rparr> else p)
     in p)"

definition clampDifficulty :: "u32 \<Rightarrow> difficulty_params \<Rightarrow> u32" where
  "clampDifficulty difficulty p =
    (if difficulty < dp_MinDifficulty p then dp_MinDifficulty p
     else if difficulty > dp_MaxDifficulty p then dp_MaxDifficulty p
     else difficulty)"

text \<open>The first block of the list at a height.\<close>

fun block_at :: "u64 \<Rightarrow> block list \<Rightarrow> block option" where
  "block_at height [] = None"
| "block_at height (b # bs) = (if b_Height b = height then Some b else block_at height bs)"

text \<open>Go divides an \<open>int64\<close> towards zero.\<close>

definition half :: "int \<Rightarrow> int" where
  "half x = (if x \<ge> 0 then x div 2 else - ((- x) div 2))"

definition adjust :: "i64 \<Rightarrow> i64 \<Rightarrow> u32 \<Rightarrow> u32" where
  "adjust actualTimespan expectedTimespan d =
    (if sint actualTimespan \<le> 0 then d + 1
     else if sint actualTimespan < half (sint expectedTimespan) then d + 1
     else if sint actualTimespan > sint (expectedTimespan * 2) \<and> d > 0 then d - 1
     else d)"

definition CalculateNextDifficultyWithParams :: "block list \<Rightarrow> difficulty_params \<Rightarrow> u32" where
  "CalculateNextDifficultyWithParams blocks params0 =
    (let params = normalizeDifficultyParams params0 in
     if blocks = [] then dp_InitialDifficulty params
     else let tip = last blocks in
     if b_Height tip = 0 \<or> b_Difficulty tip = 0 then dp_InitialDifficulty params
     else if b_Height tip < dp_RetargetWindow params then clampDifficulty (b_Difficulty tip) params
     else if dp_RetargetWindow params = 0 \<or> b_Height tip mod dp_RetargetWindow params \<noteq> 0 then
       clampDifficulty (b_Difficulty tip) params
     else case block_at (b_Height tip - dp_RetargetWindow params + 1) blocks of
       None \<Rightarrow> clampDifficulty (b_Difficulty tip) params
     | Some first \<Rightarrow>
         clampDifficulty
           (adjust (b_Timestamp tip - b_Timestamp first)
              (dp_TargetBlockTimeSeconds params * (dp_RetargetWindow params - 1)) (b_Difficulty tip)) params)"

definition CalculateNextDifficulty :: "block list \<Rightarrow> u32" where
  "CalculateNextDifficulty blocks = CalculateNextDifficultyWithParams blocks (nc_Difficulty Localnet)"

definition BlocksUntilRetarget :: "block list \<Rightarrow> difficulty_params \<Rightarrow> u64" where
  "BlocksUntilRetarget blocks params0 =
    (let params = normalizeDifficultyParams params0 in
     if blocks = [] then dp_RetargetWindow params
     else let height = b_Height (last blocks) in
     if height = 0 then dp_RetargetWindow params
     else let remaining = dp_RetargetWindow params - (height mod dp_RetargetWindow params) in
     if remaining = dp_RetargetWindow params then 0 else remaining)"

section \<open>Mining is sound and ends\<close>

lemma header_upd [simp]:
  "HeaderBytesWithNonce (b\<lparr>b_Hash := h\<rparr>) n = HeaderBytesWithNonce b n"
  "HeaderBytesWithNonce (b\<lparr>b_Nonce := k\<rparr>) n = HeaderBytesWithNonce b n"
  by (simp_all add: HeaderBytesWithNonce_def CanonicalHeaderBytesWithNonce_def b_ProtocolVersion_def)

text \<open>What two blocks share that differ at most in the nonce and the hash.\<close>

definition same_template :: "block \<Rightarrow> block \<Rightarrow> bool" where
  "same_template a b \<longleftrightarrow> a\<lparr>b_Nonce := 0, b_Hash := []\<rparr> = b\<lparr>b_Nonce := 0, b_Hash := []\<rparr>"

definition mined_ok :: "mine_options \<Rightarrow> block \<Rightarrow> block \<Rightarrow> bool" where
  "mined_ok opts block b \<longleftrightarrow> same_template b block \<and> ValidateProofOfWork b
     \<and> (mo_MaxNonce opts > 0 \<longrightarrow> b_Nonce b \<le> mo_MaxNonce opts)"

lemma mined_ok_next: "mined_ok opts (block\<lparr>b_Nonce := n\<rparr>) b \<longleftrightarrow> mined_ok opts block b"
  by (simp add: mined_ok_def same_template_def)

lemma mined_ok_here:
  assumes "HasPrefix (DoubleSHA256Hex (HeaderBytesWithNonce block (b_Nonce block))) (pow_target (b_Difficulty block))"
    and "\<not> (mo_MaxNonce opts > 0 \<and> b_Nonce block > mo_MaxNonce opts)"
  shows "mined_ok opts block (block\<lparr>b_Hash := DoubleSHA256Hex (HeaderBytesWithNonce block (b_Nonce block))\<rparr>)"
  using assms by (auto simp: mined_ok_def same_template_def ValidateProofOfWork_def CalculateHash_def)

lemma mine_loop_sound:
  assumes "mine_loop cancelled opts i block = Some r"
  shows "\<forall>b. r = Inr b \<longrightarrow> mined_ok opts block b"
proof (rule mine_loop.raw_induct [where P = "\<lambda>_ opts _ block r. \<forall>b. r = Inr b \<longrightarrow> mined_ok opts block b", OF _ assms])
  fix loop :: "(nat \<Rightarrow> bool) \<Rightarrow> mine_options \<Rightarrow> nat \<Rightarrow> block \<Rightarrow> (err + block) option"
    and cancelled :: "nat \<Rightarrow> bool" and opts i block r
  let ?hash = "DoubleSHA256Hex (HeaderBytesWithNonce block (b_Nonce block))"
  let ?next = "loop cancelled opts (i + 1) (block\<lparr>b_Nonce := b_Nonce block + 1\<rparr>)"
  assume IH: "\<And>c opts i block r. loop c opts i block = Some r \<Longrightarrow> \<forall>b. r = Inr b \<longrightarrow> mined_ok opts block b"
    and u: "(if b_Nonce block mod 10000 = 0 \<and> cancelled i then Some (Inl (Err ''mining cancelled''))
      else if mo_MaxNonce opts > 0 \<and> b_Nonce block > mo_MaxNonce opts then Some (Inl ErrMaxNonceReached)
      else let hash = ?hash in if HasPrefix hash (pow_target (b_Difficulty block)) then Some (Inr (block\<lparr>b_Hash := hash\<rparr>))
        else ?next) = Some r"
  show "\<forall>b. r = Inr b \<longrightarrow> mined_ok opts block b"
  proof (intro allI impI)
    fix b assume r: "r = Inr b"
    have m: "\<not> (mo_MaxNonce opts > 0 \<and> b_Nonce block > mo_MaxNonce opts)"
      using u unfolding r by (cases "b_Nonce block mod 10000 = 0 \<and> cancelled i") (force split: if_split_asm)+
    show "mined_ok opts block b"
    proof (cases "HasPrefix ?hash (pow_target (b_Difficulty block))")
      case True
      then have "block\<lparr>b_Hash := ?hash\<rparr> = b"
        using u m unfolding r Let_def by (cases "b_Nonce block mod 10000 = 0 \<and> cancelled i") simp_all
      with mined_ok_here [OF True m] show ?thesis by simp
    next
      case False
      then have "?next = Some r"
        using u m unfolding r Let_def by (cases "b_Nonce block mod 10000 = 0 \<and> cancelled i") simp_all
      from IH [OF this] r show ?thesis by (simp add: mined_ok_next)
    qed
  qed
qed

lemma MineWithContext_sound_facts:
  assumes "MineWithContext cancelled block opts = Some (Inr b)"
  shows "ValidateProofOfWork b" and "same_template b block"
    and "mo_MaxNonce opts > 0 \<longrightarrow> b_Nonce b \<le> mo_MaxNonce opts"
  using mine_loop_sound [of cancelled opts 0 block "Inr b"] assms
  by (simp_all add: MineWithContext_def mined_ok_def)

text \<open>
  C24. Mining is sound: a block that \<open>MineWithContext\<close> returns passes the proof-of-work check, differs from
  the template only in nonce and hash, and its nonce is within the limit.
\<close>

theorem MineWithContext_sound:
  assumes "MineWithContext cancelled block opts = Some (Inr b)"
  shows "ValidateProofOfWork b \<and> same_template b block
    \<and> (mo_MaxNonce opts > 0 \<longrightarrow> b_Nonce b \<le> mo_MaxNonce opts)"
  using MineWithContext_sound_facts [OF assms] by blast

lemma mine_loop_ends:
  assumes "mo_MaxNonce opts > 0" and "mo_MaxNonce opts < max_u64"
  shows "mine_loop cancelled opts i block \<noteq> None"
proof (induction "Suc (unat (mo_MaxNonce opts)) - unat (b_Nonce block)" arbitrary: i block)
  case 0
  then have "b_Nonce block > mo_MaxNonce opts" by (simp add: word_less_nat_alt)
  with assms show ?case by (subst mine_loop.simps) simp
next
  case (Suc n)
  then have le: "unat (b_Nonce block) \<le> unat (mo_MaxNonce opts)" by simp
  also have "\<dots> < 18446744073709551615" using assms(2) by (simp add: word_less_nat_alt)
  finally have "unat (b_Nonce block + 1) = Suc (unat (b_Nonce block))"
    using unat_add_u64 [of "b_Nonce block" 1] by simp
  with Suc(2) have "n = Suc (unat (mo_MaxNonce opts)) - unat (b_Nonce (block\<lparr>b_Nonce := b_Nonce block + 1\<rparr>))"
    by simp
  from Suc(1) [OF this, of "i + 1"] show ?case by (subst mine_loop.simps) (simp add: Let_def)
qed

text \<open>
  Mining ends: with a nonce limit above zero and below the largest 64-bit word, the loop returns a
  block or an error for every template and every context.
\<close>

theorem MineWithContext_ends:
  assumes "mo_MaxNonce opts > 0" and "mo_MaxNonce opts < max_u64"
  shows "\<exists>r. MineWithContext cancelled block opts = Some r"
  using mine_loop_ends [OF assms] by (auto simp: MineWithContext_def)

section \<open>The difficulty stays in range\<close>

lemma one_le_u32: "x \<noteq> 0 \<Longrightarrow> 1 \<le> (x :: u32)"
  by (simp add: word_le_nat_alt Suc_le_eq unat_gt_0)

lemma normalized:
  fixes p defines "q \<equiv> normalizeDifficultyParams p"
  shows "dp_MinDifficulty q \<le> dp_MaxDifficulty q" and "dp_MinDifficulty q > 0"
    and "dp_InitialDifficulty q > 0" and "dp_RetargetWindow q > 0"
    and "sint (dp_TargetBlockTimeSeconds q) > 0" and "sint (dp_MaxFutureDriftSeconds q) > 0"
  unfolding q_def normalizeDifficultyParams_def Let_def InitialDifficulty_def BlockTimeTargetSecs_def
  by (auto simp: word_gt_0 one_le_u32 not_less)

lemma clamp_range:
  "dp_MinDifficulty p \<le> dp_MaxDifficulty p \<Longrightarrow>
     dp_MinDifficulty p \<le> clampDifficulty d p \<and> clampDifficulty d p \<le> dp_MaxDifficulty p"
  by (auto simp: clampDifficulty_def)

lemma clamp_id: "dp_MinDifficulty p \<le> d \<Longrightarrow> d \<le> dp_MaxDifficulty p \<Longrightarrow> clampDifficulty d p = d"
  by (auto simp: clampDifficulty_def)

lemma adjust_step:
  assumes "d < 4294967295" shows "unat (adjust a e d) \<le> Suc (unat d) \<and> unat d \<le> Suc (unat (adjust a e d))"
proof -
  have "unat d < 4294967295" using assms by (simp add: word_less_nat_alt)
  then have "unat (d + 1) = Suc (unat d)" by (simp add: unat_word_ariths)
  moreover have "d > 0 \<Longrightarrow> unat (d - 1) = unat d - 1" by (rule unat_minus_one) auto
  ultimately show ?thesis by (auto simp: adjust_def word_gt_0)
qed

lemma clamp_near:
  assumes "unat n \<le> Suc (unat d) \<and> unat d \<le> Suc (unat n)" and "dp_MinDifficulty p \<le> d" and "d \<le> dp_MaxDifficulty p"
  shows "unat (clampDifficulty n p) \<le> Suc (unat d) \<and> unat d \<le> Suc (unat (clampDifficulty n p))"
  using assms by (auto simp: clampDifficulty_def word_less_nat_alt word_le_nat_alt)

lemma next_difficulty_range_facts:
  fixes params defines "p \<equiv> normalizeDifficultyParams params"
  shows "CalculateNextDifficultyWithParams blocks params = dp_InitialDifficulty p
      \<or> dp_MinDifficulty p \<le> CalculateNextDifficultyWithParams blocks params
        \<and> CalculateNextDifficultyWithParams blocks params \<le> dp_MaxDifficulty p"
    and "blocks \<noteq> [] \<Longrightarrow> b_Height (last blocks) \<noteq> 0 \<Longrightarrow>
      dp_MinDifficulty p \<le> b_Difficulty (last blocks) \<Longrightarrow> b_Difficulty (last blocks) \<le> dp_MaxDifficulty p \<Longrightarrow>
      dp_MaxDifficulty p < 4294967295 \<Longrightarrow>
      unat (CalculateNextDifficultyWithParams blocks params) \<le> Suc (unat (b_Difficulty (last blocks)))
        \<and> unat (b_Difficulty (last blocks)) \<le> Suc (unat (CalculateNextDifficultyWithParams blocks params))"
proof -
  note clamp = clamp_range [OF normalized(1) [of params], folded p_def]
  show "CalculateNextDifficultyWithParams blocks params = dp_InitialDifficulty p
      \<or> dp_MinDifficulty p \<le> CalculateNextDifficultyWithParams blocks params
        \<and> CalculateNextDifficultyWithParams blocks params \<le> dp_MaxDifficulty p"
    using clamp by (auto simp: CalculateNextDifficultyWithParams_def p_def [symmetric] Let_def split: option.splits)
  let ?d = "b_Difficulty (last blocks)"
  assume h: "blocks \<noteq> []" "b_Height (last blocks) \<noteq> 0" and r: "dp_MinDifficulty p \<le> ?d" "?d \<le> dp_MaxDifficulty p"
    and m: "dp_MaxDifficulty p < 4294967295"
  have "?d \<noteq> 0" using r(1) normalized(2) [of params] p_def by auto
  moreover have "?d < 4294967295" using r(2) m by simp
  note near = clamp_near [OF adjust_step [OF this] r]
  ultimately show "unat (CalculateNextDifficultyWithParams blocks params) \<le> Suc (unat ?d)
      \<and> unat ?d \<le> Suc (unat (CalculateNextDifficultyWithParams blocks params))"
    using h near clamp_id [OF r]
    by (auto simp: CalculateNextDifficultyWithParams_def p_def [symmetric] Let_def split: option.splits)
qed

text \<open>
  C22. The difficulty of the next block is the initial one or lies in the configured range, and between
  two heights above the genesis it moves by at most one step from a difficulty in range, for every
  choice of timestamps; the range must stop below the largest 32-bit word, where \<open>next++\<close> wraps.
\<close>

theorem next_difficulty_range:
  fixes params defines "p \<equiv> normalizeDifficultyParams params"
  shows "(CalculateNextDifficultyWithParams blocks params = dp_InitialDifficulty p
      \<or> dp_MinDifficulty p \<le> CalculateNextDifficultyWithParams blocks params
        \<and> CalculateNextDifficultyWithParams blocks params \<le> dp_MaxDifficulty p)
    \<and> (blocks \<noteq> [] \<and> b_Height (last blocks) \<noteq> 0 \<and> dp_MinDifficulty p \<le> b_Difficulty (last blocks)
        \<and> b_Difficulty (last blocks) \<le> dp_MaxDifficulty p \<and> dp_MaxDifficulty p < 4294967295 \<longrightarrow>
      unat (CalculateNextDifficultyWithParams blocks params) \<le> Suc (unat (b_Difficulty (last blocks)))
      \<and> unat (b_Difficulty (last blocks)) \<le> Suc (unat (CalculateNextDifficultyWithParams blocks params)))"
  using next_difficulty_range_facts [of blocks params] unfolding p_def by blast

text \<open>
  The retarget counter is exact: that many blocks above the tip, and no fewer, the height is a
  multiple of the retarget window.
\<close>

theorem BlocksUntilRetarget_exact:
  fixes params defines "w \<equiv> unat (dp_RetargetWindow (normalizeDifficultyParams params))"
  assumes "blocks \<noteq> []" and "b_Height (last blocks) \<noteq> 0"
  shows "(unat (b_Height (last blocks)) + unat (BlocksUntilRetarget blocks params)) mod w = 0"
    and "unat (BlocksUntilRetarget blocks params) < w"
proof -
  let ?W = "dp_RetargetWindow (normalizeDifficultyParams params)" and ?h = "b_Height (last blocks)"
  have w: "w > 0" using normalized(4) [of params] by (simp add: w_def unat_gt_0 word_gt_0)
  have m: "unat (?h mod ?W) = unat ?h mod w" by (simp add: w_def unat_mod)
  have le: "?h mod ?W \<le> ?W" using m w mod_less_divisor [OF w, of "unat ?h"] by (simp add: word_le_nat_alt w_def)
  have sub: "unat (?W - ?h mod ?W) = w - unat ?h mod w" using le m by (simp add: unat_sub_u64 w_def)
  have eq: "?W - ?h mod ?W = ?W \<longleftrightarrow> unat ?h mod w = 0"
    using sub w mod_less_divisor [OF w, of "unat ?h"] by (auto simp: word_unat_eq_iff w_def)
  have r: "unat (BlocksUntilRetarget blocks params) = (if unat ?h mod w = 0 then 0 else w - unat ?h mod w)"
    using assms(2, 3) eq sub by (simp add: BlocksUntilRetarget_def Let_def)
  show "unat (BlocksUntilRetarget blocks params) < w" using r w by auto
  have "(unat ?h + (w - unat ?h mod w)) mod w = (unat ?h mod w + (w - unat ?h mod w)) mod w"
    by (simp add: mod_add_left_eq)
  then show "(unat ?h + unat (BlocksUntilRetarget blocks params)) mod w = 0"
    using r mod_less_divisor [OF w, of "unat ?h"] by simp
qed

end
