(* ===== verification/Locator.thy ===== *)
theory Locator
  imports Block Arith
begin

text \<open>
  \<open>chain/locator.go\<close>: block locators, the common ancestor of two chains, and chain work. The loop of
  \<open>BuildBlockLocator\<close> doubles its step, which wraps to zero after 63 doublings; it is a partial
  function, and it is proved to end for every height before the step can wrap.

  Main results: a locator is built for every non-empty chain, has at most 67 entries in strictly
  falling heights, each on the chain, from the tip down to the genesis; two chains with one genesis
  always find a common ancestor; work is a capped sum of powers of 16.
\<close>

record locator_entry =
  le_Height :: u64
  le_Hash :: string

definition by_height :: "block list \<Rightarrow> (u64, string) fmap" where
  "by_height blocks = fold (\<lambda>b m. fmupd (b_Height b) (b_Hash b) m) blocks fmempty"

text \<open>One round appends an entry for a height that is on the chain and not seen yet.\<close>

definition entry_at :: "(u64, string) fmap \<Rightarrow> u64 set \<Rightarrow> u64 \<Rightarrow> locator_entry list" where
  "entry_at byHeight seen height =
    (case fmlookup byHeight height of
       Some hash \<Rightarrow> if height \<notin> seen then [\<lparr>le_Height = height, le_Hash = hash\<rparr>] else []
     | None \<Rightarrow> [])"

partial_function (option) locator_loop ::
  "(u64, string) fmap \<Rightarrow> u64 \<Rightarrow> nat \<Rightarrow> u64 \<Rightarrow> u64 set \<Rightarrow> locator_entry list \<Rightarrow> (locator_entry list \<times> u64 set) option" where
  [code]: "locator_loop byHeight step linearSteps height seen locator =
    (let e = entry_at byHeight seen height;
         seen = seen \<union> le_Height ` set e;
         locator = locator @ e in
     if height = 0 then Some (locator, seen)
     else if linearSteps > 0 then locator_loop byHeight step (linearSteps - 1) (height - 1) seen locator
     else locator_loop byHeight (step * 2) 0 (if height \<le> step then 0 else height - step) seen locator)"

definition BuildBlockLocator :: "block list \<Rightarrow> locator_entry list option" where
  "BuildBlockLocator blocks =
    (if blocks = [] then Some []
     else case locator_loop (by_height blocks) 2 2 (b_Height (last blocks)) {} [] of
       None \<Rightarrow> None
     | Some (locator, seen) \<Rightarrow>
         Some (if 0 \<notin> seen then
                 (case fmlookup (by_height blocks) 0 of
                    Some hash \<Rightarrow> locator @ [\<lparr>le_Height = 0, le_Hash = hash\<rparr>]
                  | None \<Rightarrow> locator)
               else locator))"

fun first_common :: "(u64, string) fmap \<Rightarrow> locator_entry list \<Rightarrow> locator_entry option" where
  "first_common byHeight [] = None"
| "first_common byHeight (e # es) =
     (if fmlookup byHeight (le_Height e) = Some (le_Hash e) then Some e else first_common byHeight es)"

text \<open>None stands for the result \<open>(BlockLocatorEntry{}, false)\<close>.\<close>

definition FindCommonAncestor :: "block list \<Rightarrow> locator_entry list \<Rightarrow> locator_entry option" where
  "FindCommonAncestor blocks locator = first_common (by_height blocks) locator"

fun work_loop :: "nat \<Rightarrow> u64 \<Rightarrow> u64" where
  "work_loop 0 work = work"
| "work_loop (Suc n) work = (if work > max_u64 div 16 then max_u64 else work_loop n (work * 16))"

definition CalculateBlockWork :: "u32 \<Rightarrow> u64" where
  "CalculateBlockWork difficulty =
    (if difficulty = 0 then 1
     else if difficulty \<ge> 16 then max_u64
     else work_loop (unat difficulty) 1)"

fun cumulative_loop :: "u64 \<Rightarrow> block list \<Rightarrow> u64" where
  "cumulative_loop work [] = work"
| "cumulative_loop work (b # bs) =
     (let blockWork = CalculateBlockWork (b_Difficulty b) in
      if max_u64 - work < blockWork then max_u64 else cumulative_loop (work + blockWork) bs)"

definition CalculateCumulativeWork :: "block list \<Rightarrow> u64" where
  "CalculateCumulativeWork blocks = cumulative_loop 0 blocks"

section \<open>Work\<close>

lemma work_loop_pow:
  "n + k < 16 \<Longrightarrow> unat w = 16 ^ k \<Longrightarrow> unat (work_loop n w) = 16 ^ (n + k)"
proof (induction n arbitrary: w k)
  case (Suc n)
  have "16 ^ k \<le> (16 :: nat) ^ 14" using Suc.prems by (intro power_increasing) auto
  then have le: "unat w \<le> 72057594037927936" using Suc.prems by simp
  then have "\<not> w > max_u64 div 16" by (simp add: word_less_nat_alt)
  moreover have "unat (w * 16) = 16 ^ Suc k" using le Suc.prems by (simp add: unat_word_ariths)
  ultimately show ?case using Suc.IH [of "Suc k" "w * 16"] Suc.prems by simp
qed simp

lemma CalculateBlockWork_value:
  "unat (CalculateBlockWork d) = (if d \<ge> 16 then 2 ^ 64 - 1 else 16 ^ unat d)"
proof (cases "d \<ge> 16")
  case False
  then have "unat d < 16" by (simp add: word_le_nat_alt)
  then show ?thesis using False work_loop_pow [of "unat d" 0 1] by (simp add: CalculateBlockWork_def)
qed (auto simp: CalculateBlockWork_def)

lemma cumulative_loop_value:
  "unat (cumulative_loop w bs) = min (2 ^ 64 - 1) (unat w + (\<Sum>b\<leftarrow>bs. unat (CalculateBlockWork (b_Difficulty b))))"
proof (induction bs arbitrary: w)
  case Nil
  show ?case using le_antisym [OF unat_u64_le [of w]] by (auto simp: min_def)
next
  case (Cons b bs)
  show ?case
  proof (cases "max_u64 - w < CalculateBlockWork (b_Difficulty b)")
    case True
    then have "2 ^ 64 \<le> unat w + unat (CalculateBlockWork (b_Difficulty b))" by (rule room_u64 [THEN iffD1])
    with True show ?thesis by (simp add: Let_def min_def)
  next
    case False
    then have "unat (w + CalculateBlockWork (b_Difficulty b)) = unat w + unat (CalculateBlockWork (b_Difficulty b))"
      using room_u64 [of w "CalculateBlockWork (b_Difficulty b)"] by (intro unat_add_u64) simp
    with False Cons show ?thesis by (simp add: Let_def add.assoc)
  qed
qed

text \<open>
  Cumulative work is the capped sum of the work of the blocks, 16 to the power of the difficulty:
  no intermediate product or sum wraps, and a chain above the cap compares equal to the cap.
\<close>

theorem CalculateCumulativeWork_exact:
  "unat (CalculateCumulativeWork blocks)
     = min (2 ^ 64 - 1) (\<Sum>b\<leftarrow>blocks. if b_Difficulty b \<ge> 16 then 2 ^ 64 - 1 else 16 ^ unat (b_Difficulty b))"
  by (simp add: CalculateCumulativeWork_def cumulative_loop_value CalculateBlockWork_value)

section \<open>Locators\<close>

text \<open>What a run of the loop from a height adds to the locator.\<close>

definition locator_run :: "(u64, string) fmap \<Rightarrow> u64 \<Rightarrow> locator_entry list \<Rightarrow> bool" where
  "locator_run m h l \<longleftrightarrow>
     sorted_wrt (\<lambda>a b. le_Height a > le_Height b) l
   \<and> (\<forall>e \<in> set l. le_Height e \<le> h \<and> fmlookup m (le_Height e) = Some (le_Hash e))
   \<and> (\<forall>x. fmlookup m h = Some x \<longrightarrow> l \<noteq> [] \<and> hd l = \<lparr>le_Height = h, le_Hash = x\<rparr>)
   \<and> (\<forall>x. fmlookup m 0 = Some x \<longrightarrow> l \<noteq> [] \<and> last l = \<lparr>le_Height = 0, le_Hash = x\<rparr>)"

lemma locator_run_zero: "locator_run m 0 (entry_at m {} 0)"
  by (auto simp: locator_run_def entry_at_def split: option.splits)

lemma locator_run_step:
  assumes "locator_run m h' l" and "h' < h"
  shows "locator_run m h (entry_at m {} h @ l)"
  using assms by (fastforce simp: locator_run_def entry_at_def split: option.splits)

lemma entry_unseen: "h \<notin> seen \<Longrightarrow> entry_at m seen h = entry_at m {} h"
  by (simp add: entry_at_def split: option.splits)

lemma entry_heights: "le_Height ` set (entry_at m seen h) \<subseteq> {h}"
  by (auto simp: entry_at_def split: option.splits)

text \<open>One round that does not end the loop, and the last one.\<close>

lemma locator_last:
  assumes "\<forall>s \<in> seen. s > 0"
  shows "locator_loop m step n 0 seen locator
    = Some (locator @ entry_at m {} 0, seen \<union> le_Height ` set (entry_at m {} 0))"
  using entry_unseen [of 0 seen m] assms by (subst locator_loop.simps) (auto simp: Let_def)

lemma locator_round:
  assumes run: "\<And>seen locator. \<forall>s \<in> seen. s > h' \<Longrightarrow>
      \<exists>l. locator_loop m step' n' h' seen locator = Some (locator @ l, seen \<union> le_Height ` set l)
        \<and> locator_run m h' l \<and> length l \<le> b"
    and next_round: "\<And>seen locator. locator_loop m step n h seen locator =
      locator_loop m step' n' h' (seen \<union> le_Height ` set (entry_at m seen h)) (locator @ entry_at m seen h)"
    and "h' < h" and "\<forall>s \<in> seen. s > h"
  shows "\<exists>l. locator_loop m step n h seen locator = Some (locator @ l, seen \<union> le_Height ` set l)
    \<and> locator_run m h l \<and> length l \<le> Suc b"
proof -
  let ?e = "entry_at m {} h"
  have e: "entry_at m seen h = ?e" by (rule entry_unseen) (use assms(4) in auto)
  have "\<forall>s \<in> seen \<union> le_Height ` set ?e. s > h'"
    using assms(3, 4) entry_heights [of m "{}" h] by fastforce
  from run [OF this, of "locator @ ?e"] obtain l
    where l: "locator_loop m step' n' h' (seen \<union> le_Height ` set ?e) (locator @ ?e)
        = Some ((locator @ ?e) @ l, (seen \<union> le_Height ` set ?e) \<union> le_Height ` set l)"
      "locator_run m h' l" "length l \<le> b" by blast
  have "length ?e \<le> 1" by (simp add: entry_at_def split: option.splits)
  with l locator_run_step [OF l(2) assms(3)] show ?thesis
    by (intro exI [of _ "?e @ l"]) (simp add: next_round e image_Un Un_assoc)
qed

text \<open>
  The doubling phase: with the step at \<open>2 ^ k\<close> the height is at most \<open>2 ^ 64 - 2 ^ k\<close>, so it reaches zero
  before the step wraps.
\<close>

lemma doubling_phase:
  assumes "unat step = 2 ^ k" and "k < 64" and "unat h + 2 ^ k \<le> 2 ^ 64" and "\<forall>s \<in> seen. s > h"
  shows "\<exists>l. locator_loop m step 0 h seen locator = Some (locator @ l, seen \<union> le_Height ` set l)
    \<and> locator_run m h l \<and> length l \<le> 65 - k"
  using assms
proof (induction "64 - k" arbitrary: k step h seen locator)
  case (Suc n)
  have small: "length (entry_at m {} 0) \<le> 1" by (simp add: entry_at_def split: option.splits)
  show ?case
  proof (cases "h = 0")
    case True
    with Suc.prems(2, 4) small locator_last [of seen m step 0 locator] locator_run_zero [of m] show ?thesis
      by (intro exI [of _ "entry_at m {} 0"]) simp
  next
    case False
    then have "locator_loop m step 0 h seen locator =
        locator_loop m (step * 2) 0 (if h \<le> step then 0 else h - step)
          (seen \<union> le_Height ` set (entry_at m seen h)) (locator @ entry_at m seen h)" for seen locator
      by (subst locator_loop.simps) (simp add: Let_def)
    note next_round = this
    have "\<exists>l. locator_loop m step 0 h seen locator = Some (locator @ l, seen \<union> le_Height ` set l)
      \<and> locator_run m h l \<and> length l \<le> Suc (64 - k)"
    proof (rule locator_round [OF _ next_round _ Suc.prems(4)])
      show "(if h \<le> step then 0 else h - step) < h"
        using False Suc.prems(1) unat_gt_0 [of h] by (auto simp: word_less_nat_alt unat_sub_u64)
    next
      fix seen' locator' assume s: "\<forall>s \<in> seen'. s > (if h \<le> step then 0 else h - step)"
      show "\<exists>l. locator_loop m (step * 2) 0 (if h \<le> step then 0 else h - step) seen' locator'
          = Some (locator' @ l, seen' \<union> le_Height ` set l)
        \<and> locator_run m (if h \<le> step then 0 else h - step) l \<and> length l \<le> 64 - k"
      proof (cases "h \<le> step")
        case True
        with Suc.prems(2) s small locator_last [of seen' m "step * 2" 0 locator'] locator_run_zero [of m]
        show ?thesis by (intro exI [of _ "entry_at m {} 0"]) simp
      next
        case False
        then have gt: "2 ^ k < unat h" using Suc.prems(1) by (simp add: word_le_nat_alt)
        have k: "k < 63"
        proof (rule ccontr)
          assume "\<not> k < 63"
          with Suc.prems(2) have "k = 63" by simp
          with gt Suc.prems(3) show False by simp
        qed
        have p: "(2 :: nat) ^ Suc k \<le> 2 ^ 63" using k by (intro power_increasing) auto
        have "unat (step * 2) = 2 ^ Suc k"
          using Suc.prems(1) p by (simp add: unat_word_ariths)
        moreover have "unat (h - step) + 2 ^ Suc k \<le> 2 ^ 64"
          using False gt Suc.prems(1, 3) by (simp add: unat_sub_u64)
        ultimately show ?thesis
          using Suc.hyps(1) [of "Suc k" "step * 2" "h - step" seen' locator'] Suc.hyps(2) k s False by simp
      qed
    qed
    moreover have "Suc (64 - k) = 65 - k" using Suc.prems(2) by simp
    ultimately show ?thesis by simp
  qed
qed simp

lemma linear_phase:
  assumes "\<forall>s \<in> seen. s > h" and "h \<noteq> 0 \<Longrightarrow> unat h + 2 \<le> 2 ^ 64 + n"
  shows "\<exists>l. locator_loop m 2 n h seen locator = Some (locator @ l, seen \<union> le_Height ` set l)
    \<and> locator_run m h l \<and> length l \<le> 64 + n"
  using assms
proof (induction n arbitrary: h seen locator)
  case 0
  show ?case
  proof (cases "h = 0")
    case True
    with 0 doubling_phase [of 2 1 0 seen m locator] show ?thesis by simp
  next
    case False
    with 0 doubling_phase [of 2 1 h seen m locator] show ?thesis by simp
  qed
next
  case (Suc n)
  show ?case
  proof (cases "h = 0")
    case True
    with Suc.prems(1) locator_last [of seen m 2 "Suc n" locator] locator_run_zero [of m] show ?thesis
      by (intro exI [of _ "entry_at m {} 0"]) (simp add: entry_at_def split: option.splits)
  next
    case False
    have u: "unat (h - 1) = unat h - 1" using False by (simp add: unat_minus_one)
    have nz: "unat h > 0" using False by (simp add: unat_gt_0)
    have "\<exists>l. locator_loop m 2 (Suc n) h seen locator = Some (locator @ l, seen \<union> le_Height ` set l)
      \<and> locator_run m h l \<and> length l \<le> Suc (64 + n)"
    proof (rule locator_round [OF _ _ _ Suc.prems(1)])
      show "h - 1 < h" using u nz by (simp add: word_less_nat_alt)
      show "locator_loop m 2 (Suc n) h seen locator =
        locator_loop m 2 n (h - 1) (seen \<union> le_Height ` set (entry_at m seen h)) (locator @ entry_at m seen h)"
        for seen locator using False by (subst locator_loop.simps) (simp add: Let_def)
      show "\<exists>l. locator_loop m 2 n (h - 1) seen locator = Some (locator @ l, seen \<union> le_Height ` set l)
        \<and> locator_run m (h - 1) l \<and> length l \<le> 64 + n" if "\<forall>s \<in> seen. s > h - 1" for seen locator
        using Suc.IH [OF that] Suc.prems(2) [OF False] u nz by simp
    qed
    then show ?thesis by simp
  qed
qed

lemma lookup_by_height:
  assumes "fmlookup (by_height blocks) h = Some x"
  shows "\<exists>b \<in> set blocks. b_Height b = h \<and> b_Hash b = x"
proof -
  have "fmlookup m h = Some x \<or> (\<exists>b \<in> set blocks. b_Height b = h \<and> b_Hash b = x)"
    if "fmlookup (fold (\<lambda>b m. fmupd (b_Height b) (b_Hash b) m) blocks m) h = Some x" for m
    using that
  proof (induction blocks arbitrary: m)
    case (Cons b bs)
    from Cons.IH [of "fmupd (b_Height b) (b_Hash b) m"] Cons.prems show ?case by (auto split: if_splits)
  qed simp
  with assms show ?thesis unfolding by_height_def by force
qed

lemma lookup_tip: "blocks \<noteq> [] \<Longrightarrow> fmlookup (by_height blocks) (b_Height (last blocks)) = Some (b_Hash (last blocks))"
  unfolding by_height_def by (cases blocks rule: rev_cases) simp_all

lemma lookup_in_dom:
  assumes "b \<in> set blocks" shows "\<exists>x. fmlookup (by_height blocks) (b_Height b) = Some x"
proof -
  have "fmlookup m (b_Height b) \<noteq> None \<or> b \<in> set blocks \<Longrightarrow>
      fmlookup (fold (\<lambda>b m. fmupd (b_Height b) (b_Hash b) m) blocks m) (b_Height b) \<noteq> None" for m
    by (induction blocks arbitrary: m) auto
  with assms show ?thesis unfolding by_height_def by blast
qed

lemma BuildBlockLocator_run:
  assumes "blocks \<noteq> []"
  shows "\<exists>l. BuildBlockLocator blocks = Some l \<and> locator_run (by_height blocks) (b_Height (last blocks)) l
    \<and> length l \<le> 66"
proof -
  let ?m = "by_height blocks" and ?h = "b_Height (last blocks)"
  have "unat ?h + 2 \<le> 2 ^ 64 + 2" using less_imp_le [OF unat_u64_lt [of ?h]] by simp
  then obtain l where l: "locator_loop ?m 2 2 ?h {} [] = Some (l, le_Height ` set l)"
    "locator_run ?m ?h l" "length l \<le> 66"
    using linear_phase [of "{}" ?h 2 ?m "[]"] by auto
  have "0 \<in> le_Height ` set l" if "fmlookup ?m 0 = Some x" for x
    using l(2) that last_in_set [of l] unfolding locator_run_def by force
  with l assms show ?thesis by (auto simp: BuildBlockLocator_def split: option.splits)
qed

text \<open>
  A locator is built for every non-empty chain: the loop ends, with at most 66 entries in strictly
  falling heights, each the height and hash of a block of the chain, starting with the tip and, when
  the chain has a block at height zero, ending there.
\<close>

theorem BuildBlockLocator_ends:
  assumes "blocks \<noteq> []"
  shows "\<exists>l. BuildBlockLocator blocks = Some l \<and> length l \<le> 66
    \<and> sorted_wrt (\<lambda>a b. le_Height a > le_Height b) l
    \<and> (\<forall>e \<in> set l. \<exists>b \<in> set blocks. b_Height b = le_Height e \<and> b_Hash b = le_Hash e)
    \<and> hd l = \<lparr>le_Height = b_Height (last blocks), le_Hash = b_Hash (last blocks)\<rparr>
    \<and> (\<forall>b \<in> set blocks. b_Height b = 0 \<longrightarrow> le_Height (last l) = 0)"
proof -
  obtain l where l: "BuildBlockLocator blocks = Some l" "length l \<le> 66"
    and run: "locator_run (by_height blocks) (b_Height (last blocks)) l"
    using BuildBlockLocator_run [OF assms] by blast
  have "le_Height (last l) = 0" if "b \<in> set blocks" "b_Height b = 0" for b
    using lookup_in_dom [OF that(1)] that(2) run by (auto simp: locator_run_def)
  moreover have "\<exists>b \<in> set blocks. b_Height b = le_Height e \<and> b_Hash b = le_Hash e" if "e \<in> set l" for e
    using that run lookup_by_height by (auto simp: locator_run_def)
  ultimately show ?thesis using l run lookup_tip [OF assms] by (auto simp: locator_run_def)
qed

lemma first_common_Some:
  "first_common m es = Some e \<Longrightarrow> e \<in> set es \<and> fmlookup m (le_Height e) = Some (le_Hash e)"
  by (induction es) (auto split: if_splits)

lemma first_common_None:
  "first_common m es = None \<Longrightarrow> e \<in> set es \<Longrightarrow> fmlookup m (le_Height e) \<noteq> Some (le_Hash e)"
  by (induction es) (auto split: if_splits)

text \<open>
  C22. Two chains that agree on the block at height zero find a common ancestor through a locator, and
  what is found has the height and hash of a block of both.
\<close>

theorem FindCommonAncestor_locator:
  assumes "BuildBlockLocator theirs = Some l" and "theirs \<noteq> []"
    and "fmlookup (by_height theirs) 0 = Some g" and "fmlookup (by_height ours) 0 = Some g"
  shows "\<exists>e. FindCommonAncestor ours l = Some e
    \<and> (\<exists>b \<in> set ours. b_Height b = le_Height e \<and> b_Hash b = le_Hash e)
    \<and> (\<exists>b \<in> set theirs. b_Height b = le_Height e \<and> b_Hash b = le_Hash e)"
proof -
  have run: "locator_run (by_height theirs) (b_Height (last theirs)) l"
    using BuildBlockLocator_run [OF assms(2)] assms(1) by auto
  with assms(3) have "\<lparr>le_Height = 0, le_Hash = g\<rparr> \<in> set l"
    using last_in_set [of l] by (auto simp: locator_run_def)
  then obtain e where e: "FindCommonAncestor ours l = Some e"
    using first_common_None [of "by_height ours" l] assms(4) by (fastforce simp: FindCommonAncestor_def)
  then have "e \<in> set l" "fmlookup (by_height ours) (le_Height e) = Some (le_Hash e)"
    by (auto simp: FindCommonAncestor_def dest: first_common_Some)
  with run e show ?thesis using lookup_by_height by (force simp: locator_run_def)
qed

end
