(* ===== verification/State_Root.thy ===== *)
theory State_Root
  imports Mature_Ledger Go_Sort
begin

text \<open>
  \<open>state/root.go\<close> and \<open>state/root_blocks.go\<close>: the state root, a hash of the sorted accounts, stakes, asset
  definitions and asset balances. The functions of the code return a root and an error that is
  always nil; the model returns the root. A nil ledger cannot be represented.

  Main results: the root does not depend on the order of its inputs; the bytes under the hash
  determine every account, stake, definition and balance; the root does not cover the pending
  coinbase credits.
\<close>

definition StateRootVersion :: u8 where
  "StateRootVersion = 1"

definition StateRootDomain :: string where
  "StateRootDomain = ''IndoChain/state-root/v1''"

definition AssetRootDomain :: string where
  "AssetRootDomain = ''IndoChain/state-root/v2-assets''"

definition root_writeString :: "string \<Rightarrow> bytes" where
  "root_writeString value = PutUint32 (of_nat (length value)) @ bytes_of value"

definition root_writeBool :: "bool \<Rightarrow> bytes" where
  "root_writeBool value = (if value then [1] else [0])"

definition account_less :: "state_account \<Rightarrow> state_account \<Rightarrow> bool" where
  "account_less a b = (sa_Address a < sa_Address b)"

definition stake_less :: "stake_record \<Rightarrow> stake_record \<Rightarrow> bool" where
  "stake_less a b =
    (if sr_StakeID a \<noteq> sr_StakeID b then sr_StakeID a < sr_StakeID b
     else sr_OwnerAddress a < sr_OwnerAddress b)"

definition definition_less :: "asset_definition \<Rightarrow> asset_definition \<Rightarrow> bool" where
  "definition_less a b = (def_ID a < def_ID b)"

definition entry_less :: "balance_entry \<Rightarrow> balance_entry \<Rightarrow> bool" where
  "entry_less a b =
    (if be_Address a \<noteq> be_Address b then be_Address a < be_Address b else be_AssetID a < be_AssetID b)"

definition StableDigestInputs ::
  "state_account list \<Rightarrow> stake_record list \<Rightarrow> state_account list \<times> stake_record list" where
  "StableDigestInputs accounts stakes = (sort_by account_less accounts, sort_by stake_less stakes)"

definition writeStakeRecord :: "stake_record \<Rightarrow> bytes" where
  "writeStakeRecord r =
     root_writeString (sr_StakeID r) @ root_writeString (sr_OwnerAddress r) @ PutUint64 (sr_Amount r)
   @ root_writeString (sr_LockTxID r) @ PutUint64 (sr_LockHeight r) @ root_writeString (sr_UnlockTxID r)
   @ PutUint64 (sr_UnlockHeight r) @ PutUint64 (sr_ReleaseHeight r) @ root_writeString (sr_Status r)"

definition write_account :: "state_account \<Rightarrow> bytes" where
  "write_account a =
     root_writeString (sa_Address a) @ PutUint64 (sa_Confirmed a) @ PutUint64 (sa_Mature a)
   @ PutUint64 (sa_Nonce a)"

definition write_definition :: "asset_definition \<Rightarrow> bytes" where
  "write_definition d =
     root_writeString (def_ID d) @ root_writeString (def_Name d) @ root_writeString (def_Symbol d)
   @ [def_Decimals d] @ root_writeString (def_Kind d) @ root_writeString (def_Issuer d)
   @ PutUint64 (def_MaxSupply d) @ PutUint64 (def_TotalSupply d) @ root_writeBool (def_Mintable d)
   @ root_writeBool (def_Burnable d) @ root_writeBool (def_Pausable d) @ root_writeBool (def_Permissioned d)
   @ root_writeString (def_Status d)"

definition write_entry :: "balance_entry \<Rightarrow> bytes" where
  "write_entry e =
     root_writeString (be_Address e) @ root_writeString (be_AssetID e) @ PutUint64 (be_Amount e)"

text \<open>A count and then the elements.\<close>

definition write_list :: "('a \<Rightarrow> bytes) \<Rightarrow> 'a list \<Rightarrow> bytes" where
  "write_list w xs = PutUint32 (of_nat (length xs)) @ concat (map w xs)"

definition asset_root_bytes ::
  "state_account list \<Rightarrow> stake_record list \<Rightarrow> asset_definition list \<Rightarrow> balance_entry list \<Rightarrow> bytes" where
  "asset_root_bytes accounts stakes definitions balances =
     [StateRootVersion] @ root_writeString AssetRootDomain
   @ write_list write_account accounts @ write_list writeStakeRecord stakes
   @ write_list write_definition definitions @ write_list write_entry balances"

definition RootForCollectionsWithAssets ::
  "state_account list \<Rightarrow> stake_record list \<Rightarrow> asset_definition list \<Rightarrow> balance_entry list \<Rightarrow> string" where
  "RootForCollectionsWithAssets accounts0 stakes0 definitions balances =
    (case StableDigestInputs accounts0 stakes0 of (accounts, stakes) \<Rightarrow>
       DoubleSHA256Hex (asset_root_bytes accounts stakes (sort_by definition_less definitions)
         (sort_by entry_less balances)))"

definition root_bytes :: "state_account list \<Rightarrow> stake_record list \<Rightarrow> bytes" where
  "root_bytes accounts stakes =
     [StateRootVersion] @ root_writeString StateRootDomain
   @ write_list write_account accounts @ write_list writeStakeRecord stakes"

definition RootForCollections :: "state_account list \<Rightarrow> stake_record list \<Rightarrow> string" where
  "RootForCollections accounts0 stakes0 =
    (case StableDigestInputs accounts0 stakes0 of (accounts, stakes) \<Rightarrow>
       DoubleSHA256Hex (root_bytes accounts stakes))"

text \<open>Reading the stakes refreshes their status, so the ledger comes back too.\<close>

definition RootForLedger :: "mature_ledger \<Rightarrow> string \<times> mature_ledger" where
  "RootForLedger l =
    (case StateStakes l of (stakes, l') \<Rightarrow>
       (if AssetModelEnabled l
        then RootForCollectionsWithAssets (StateAccounts l) stakes (StateAssetDefinitions l) (StateAssetBalances l)
        else RootForCollections (StateAccounts l) stakes, l'))"

definition RootForBlocks ::
  "ext \<Rightarrow> block list \<Rightarrow> consensus_params \<Rightarrow> network_config \<Rightarrow> err + string" where
  "RootForBlocks X blocks params profile =
    (case ReplayMatureWithProfile X blocks params profile of
       Inl e \<Rightarrow> Inl e
     | Inr l \<Rightarrow> Inr (fst (RootForLedger l)))"

definition RootForBlock ::
  "ext \<Rightarrow> block list \<Rightarrow> block \<Rightarrow> consensus_params \<Rightarrow> network_config \<Rightarrow> err + string" where
  "RootForBlock X parent block params profile = RootForBlocks X (parent @ [block]) params profile"

section \<open>The order of the inputs does not matter\<close>

interpretation accounts_order: priority account_less sa_Address
  by unfold_locales (auto simp: account_less_def)

interpretation stakes_order: priority stake_less "\<lambda>r. (sr_StakeID r, sr_OwnerAddress r)"
  by unfold_locales (auto simp: stake_less_def split: if_splits)

interpretation definitions_order: priority definition_less def_ID
  by unfold_locales (auto simp: definition_less_def)

interpretation entries_order: priority entry_less "\<lambda>e. (be_Address e, be_AssetID e)"
  by unfold_locales (auto simp: entry_less_def split: if_splits)

lemma root_order_free_facts:
  assumes "mset accounts = mset accounts'" and "distinct (map sa_Address accounts)"
    and "mset stakes = mset stakes'" and "distinct (map (\<lambda>r. (sr_StakeID r, sr_OwnerAddress r)) stakes)"
    and "mset definitions = mset definitions'" and "distinct (map def_ID definitions)"
    and "mset balances = mset balances'" and "distinct (map (\<lambda>e. (be_Address e, be_AssetID e)) balances)"
  shows "RootForCollectionsWithAssets accounts stakes definitions balances
       = RootForCollectionsWithAssets accounts' stakes' definitions' balances'"
    and "RootForCollections accounts stakes = RootForCollections accounts' stakes'"
  using accounts_order.sort_cong [OF assms(2, 1)] stakes_order.sort_cong [OF assms(4, 3)]
    definitions_order.sort_cong [OF assms(6, 5)] entries_order.sort_cong [OF assms(8, 7)]
  by (simp_all add: RootForCollectionsWithAssets_def RootForCollections_def StableDigestInputs_def)

text \<open>
  C23. The state root does not depend on the order in which the accounts, stakes, definitions and
  balances are given, as long as their keys are distinct: the node may range over its maps in any
  order.
\<close>

theorem root_order_free:
  assumes "mset accounts = mset accounts'" and "distinct (map sa_Address accounts)"
    and "mset stakes = mset stakes'" and "distinct (map (\<lambda>r. (sr_StakeID r, sr_OwnerAddress r)) stakes)"
    and "mset definitions = mset definitions'" and "distinct (map def_ID definitions)"
    and "mset balances = mset balances'" and "distinct (map (\<lambda>e. (be_Address e, be_AssetID e)) balances)"
  shows "RootForCollectionsWithAssets accounts stakes definitions balances
       = RootForCollectionsWithAssets accounts' stakes' definitions' balances'
    \<and> RootForCollections accounts stakes = RootForCollections accounts' stakes'"
  using root_order_free_facts [OF assms] by blast

section \<open>The hashed bytes determine the state\<close>

lemma of_nat_u32_inj: "m < 2 ^ 32 \<Longrightarrow> n < 2 ^ 32 \<Longrightarrow> (of_nat m :: u32) = of_nat n \<longleftrightarrow> m = n"
  by (auto dest!: arg_cong [where f = unat] simp: unat_of_nat)

text \<open>
  The contract of a writer whose output can be told from what follows it; records and counted lists
  of such writers have it too.
\<close>

locale prefix_code =
  fixes put :: "'a \<Rightarrow> bytes" and ok :: "'a \<Rightarrow> bool"
  assumes split: "ok v \<Longrightarrow> ok w \<Longrightarrow> put v @ r = put w @ s \<longleftrightarrow> v = w \<and> r = s"
begin

lemma concat_split:
  "list_all ok xs \<Longrightarrow> list_all ok ys \<Longrightarrow> length xs = length ys \<Longrightarrow>
     concat (map put xs) @ r = concat (map put ys) @ s \<longleftrightarrow> xs = ys \<and> r = s"
proof (induction xs arbitrary: ys)
  case (Cons x xs)
  then obtain y ys' where "ys = y # ys'" by (cases ys) auto
  with Cons split [of x y] show ?case by auto
qed simp

lemma list_split:
  assumes "list_all ok xs" "list_all ok ys" "length xs < 2 ^ 32" "length ys < 2 ^ 32"
  shows "write_list put xs @ r = write_list put ys @ s \<longleftrightarrow> xs = ys \<and> r = s"
proof
  assume eq: "write_list put xs @ r = write_list put ys @ s"
  then have "PutUint32 (of_nat (length xs)) = PutUint32 (of_nat (length ys))"
    and rest: "concat (map put xs) @ r = concat (map put ys) @ s"
    unfolding write_list_def by (simp_all add: append_eq_append_conv)
  then have "(of_nat (length xs) :: u32) = of_nat (length ys)" by (simp add: PutUint32_inject)
  with assms(3, 4) have "length xs = length ys" by (simp add: of_nat_u32_inj)
  with concat_split [OF assms(1, 2)] rest show "xs = ys \<and> r = s" by simp
qed simp

end

sublocale field_codec \<subseteq> prefix_code put ok
  by unfold_locales (rule write_inject)

definition fits32 :: "string \<Rightarrow> bool" where
  "fits32 s \<longleftrightarrow> length s < 2 ^ 32"

interpretation string_code: prefix_code root_writeString fits32
proof
  fix v w :: string and r s :: bytes
  assume ok: "fits32 v" "fits32 w"
  show "root_writeString v @ r = root_writeString w @ s \<longleftrightarrow> v = w \<and> r = s"
  proof
    assume eq: "root_writeString v @ r = root_writeString w @ s"
    then have "PutUint32 (of_nat (length v)) = PutUint32 (of_nat (length w))"
      and rest: "bytes_of v @ r = bytes_of w @ s"
      unfolding root_writeString_def by (simp_all add: append_eq_append_conv)
    then have "(of_nat (length v) :: u32) = of_nat (length w)" by (simp add: PutUint32_inject)
    with ok have "length v = length w" by (simp add: of_nat_u32_inj fits32_def)
    with rest show "v = w \<and> r = s" by (simp add: append_eq_append_conv)
  qed simp
qed

interpretation flag_code: prefix_code root_writeBool "\<lambda>_. True"
  by unfold_locales (simp add: root_writeBool_def)

definition account_fits :: "state_account \<Rightarrow> bool" where
  "account_fits a \<longleftrightarrow> fits32 (sa_Address a)"

definition stake_fits :: "stake_record \<Rightarrow> bool" where
  "stake_fits r \<longleftrightarrow> fits32 (sr_StakeID r) \<and> fits32 (sr_OwnerAddress r) \<and> fits32 (sr_LockTxID r)
     \<and> fits32 (sr_UnlockTxID r) \<and> fits32 (sr_Status r)"

definition definition_fits :: "asset_definition \<Rightarrow> bool" where
  "definition_fits d \<longleftrightarrow> fits32 (def_ID d) \<and> fits32 (def_Name d) \<and> fits32 (def_Symbol d)
     \<and> fits32 (def_Kind d) \<and> fits32 (def_Issuer d) \<and> fits32 (def_Status d)"

definition entry_fits :: "balance_entry \<Rightarrow> bool" where
  "entry_fits e \<longleftrightarrow> fits32 (be_Address e) \<and> fits32 (be_AssetID e)"

interpretation account_code: prefix_code write_account account_fits
  by unfold_locales (auto simp: write_account_def account_fits_def string_code.split u64_codec.write_inject
      intro: state_account.equality)

interpretation stake_code: prefix_code writeStakeRecord stake_fits
  by unfold_locales (auto simp: writeStakeRecord_def stake_fits_def string_code.split u64_codec.write_inject
      intro: stake_record.equality)

interpretation definition_code: prefix_code write_definition definition_fits
  by unfold_locales (auto simp: write_definition_def definition_fits_def string_code.split flag_code.split
      u64_codec.write_inject intro: asset_definition.equality)

interpretation entry_code: prefix_code write_entry entry_fits
  by unfold_locales (auto simp: write_entry_def entry_fits_def string_code.split u64_codec.write_inject
      intro: balance_entry.equality)

text \<open>The collections a root can be computed for without a count or a length wrapping at 32 bits.\<close>

definition root_fits ::
  "state_account list \<Rightarrow> stake_record list \<Rightarrow> asset_definition list \<Rightarrow> balance_entry list \<Rightarrow> bool" where
  "root_fits accounts stakes definitions balances \<longleftrightarrow>
     list_all account_fits accounts \<and> list_all stake_fits stakes
   \<and> list_all definition_fits definitions \<and> list_all entry_fits balances
   \<and> length accounts < 2 ^ 32 \<and> length stakes < 2 ^ 32 \<and> length definitions < 2 ^ 32 \<and> length balances < 2 ^ 32"

lemma root_bytes_inject_facts:
  assumes "root_fits as ss ds bs" and "root_fits as' ss' ds' bs'"
  shows "asset_root_bytes as ss ds bs = asset_root_bytes as' ss' ds' bs' \<longleftrightarrow>
      as = as' \<and> ss = ss' \<and> ds = ds' \<and> bs = bs'"
    and "root_bytes as ss = root_bytes as' ss' \<longleftrightarrow> as = as' \<and> ss = ss'"
    and "asset_root_bytes as ss ds bs \<noteq> root_bytes as' ss'"
proof -
  note fits = assms [unfolded root_fits_def]
  note lists = account_code.list_split stake_code.list_split definition_code.list_split
    entry_code.list_split [where r = "[]" and s = "[]", simplified]
    stake_code.list_split [where r = "[]" and s = "[]", simplified]
  show "asset_root_bytes as ss ds bs = asset_root_bytes as' ss' ds' bs' \<longleftrightarrow>
      as = as' \<and> ss = ss' \<and> ds = ds' \<and> bs = bs'"
    using fits by (simp add: asset_root_bytes_def lists)
  show "root_bytes as ss = root_bytes as' ss' \<longleftrightarrow> as = as' \<and> ss = ss'"
    using fits by (simp add: root_bytes_def lists)
  have "fits32 AssetRootDomain" "fits32 StateRootDomain" "AssetRootDomain \<noteq> StateRootDomain"
    by (simp_all add: fits32_def AssetRootDomain_def StateRootDomain_def)
  then show "asset_root_bytes as ss ds bs \<noteq> root_bytes as' ss'"
    by (simp add: asset_root_bytes_def root_bytes_def string_code.split)
qed

text \<open>
  The state root commits to the state: when the bytes that are hashed agree, so do all accounts,
  stakes, definitions and balances in their sorted order. Two different states with one root would
  be a collision of the hash. The version of the root for networks without assets is never the
  encoding of a state with assets.
\<close>

theorem root_bytes_inject:
  assumes "root_fits as ss ds bs" and "root_fits as' ss' ds' bs'"
  shows "(asset_root_bytes as ss ds bs = asset_root_bytes as' ss' ds' bs' \<longleftrightarrow>
        as = as' \<and> ss = ss' \<and> ds = ds' \<and> bs = bs')
    \<and> (root_bytes as ss = root_bytes as' ss' \<longleftrightarrow> as = as' \<and> ss = ss')
    \<and> asset_root_bytes as ss ds bs \<noteq> root_bytes as' ss'"
  using root_bytes_inject_facts [OF assms] by blast

text \<open>
  The state root does not commit to the pending coinbase credits: ledgers that differ only there have
  the same root, although the credits decide which balances mature and when.
\<close>

theorem root_ignores_coinbases:
  "fst (RootForLedger (l\<lparr>ml_coinbases := cs\<rparr>)) = fst (RootForLedger l)"
  by (simp add: RootForLedger_def StateStakes_def StateAccounts_def StateAssetDefinitions_def
      StateAssetBalances_def AssetModelEnabled_def split: prod.splits)

end
