(* ===== verification/Chain_Rules.thy ===== *)
theory Chain_Rules
  imports Pow Locator State_Root
begin

text \<open>
  \<open>chain/genesis.go\<close>, \<open>chain/resources.go\<close> and \<open>chain/validation.go\<close>: the genesis block of a network, the
  limits of a block, and the validation of a block and of a whole chain. The clock is an argument.
  Indexing the last of no prior blocks panics in Go; the model returns that panic as an error value.

  Main results: a chain that validates starts at the genesis of its network, is linked by hashes and
  heights without gaps, every block above the genesis has proof of work at the difficulty its
  predecessors demand, transaction identifiers are unique across the chain, and replaying the chain
  succeeds for every proper prefix.
\<close>

section \<open>Genesis\<close>

definition genesis_marker :: "network_config \<Rightarrow> string" where
  "genesis_marker profile =
    (if nc_Name profile \<noteq> [] \<and> nc_Name profile \<noteq> ''localnet'' then
       GenesisMessage @ '' | network='' @ nc_Name profile @ '' | network_id='' @ nc_NetworkID profile
         @ '' | chain_id='' @ FormatUint (nc_ChainID profile)
     else GenesisMessage)"

definition GenesisBlockForNetwork :: "network_config \<Rightarrow> block" where
  "GenesisBlockForNetwork profile =
    (let block = zero_block\<lparr>b_Height := 0, b_PreviousHash := replicate 64 CHR ''0'', b_Timestamp := GenesisTimestamp,
           b_Difficulty := 0, b_MinerAddress := [], b_Transactions := [],
           b_GenesisMarker := genesis_marker profile, b_MerkleRoot := CalculateMerkleRoot []\<rparr>
     in block\<lparr>b_Hash := CalculateHash block\<rparr>)"

definition GenesisBlock :: block where
  "GenesisBlock = GenesisBlockForNetwork Localnet"

definition GenesisHashForNetwork :: "network_config \<Rightarrow> string" where
  "GenesisHashForNetwork profile = b_Hash (GenesisBlockForNetwork profile)"

section \<open>Resources\<close>

definition ValidateTransactionSize :: "transaction \<Rightarrow> consensus_params \<Rightarrow> err option" where
  "ValidateTransactionSize tx consensus =
    (let maxTxBytes = (if cp_MaxTxBytes consensus = 0 then DefaultMaxTxBytes else cp_MaxTxBytes consensus) in
     if of_nat (length (json_encode (tx_json tx))) > maxTxBytes then
       Some (Err ''transaction exceeds max size: got %d bytes want <= %d'')
     else None)"

fun resources_loop :: "consensus_params \<Rightarrow> network_config \<Rightarrow> u64 \<Rightarrow> transaction list \<Rightarrow> err + u64" where
  "resources_loop consensus profile totalGas [] = Inr totalGas"
| "resources_loop consensus profile totalGas (tx # txs) =
     (case ValidateTransactionSize tx consensus of
        Some e \<Rightarrow> Inl (Wrap ''tx %d'' e)
      | None \<Rightarrow>
      (case GasUsed tx profile of
         Inl e \<Rightarrow> Inl (Wrap ''tx %d gas validation failed'' e)
       | Inr (gas, _) \<Rightarrow>
           if max_u64 - totalGas < gas then Inl (Err ''block gas calculation overflow'')
           else resources_loop consensus profile (totalGas + gas) txs))"

definition validateBlockResources :: "block \<Rightarrow> consensus_params \<Rightarrow> network_config \<Rightarrow> err option" where
  "validateBlockResources block consensus profile =
    (let maxTxCount = (if cp_MaxTxCount consensus = 0 then DefaultMaxTxCount else cp_MaxTxCount consensus) in
     if of_nat (length (b_Transactions block)) > maxTxCount then
       Some (Err ''block exceeds max transaction count: got %d want <= %d'')
     else case resources_loop consensus profile 0 (b_Transactions block) of
       Inl e \<Rightarrow> Some e
     | Inr totalGas \<Rightarrow>
     if cp_MaxGasPerBlock consensus > 0 \<and> totalGas > cp_MaxGasPerBlock consensus then
       Some (Err ''block exceeds max gas: got %d want <= %d'')
     else let maxBlockBytes = (if cp_MaxBlockBytes consensus = 0 then DefaultMaxBlockBytes else cp_MaxBlockBytes consensus) in
     if of_nat (length (json_encode (block_json block))) > maxBlockBytes then
       Some (Err ''block exceeds max size: got %d bytes want <= %d'')
     else None)"

definition ValidateBlockResources :: "block \<Rightarrow> consensus_params \<Rightarrow> err option" where
  "ValidateBlockResources block consensus = validateBlockResources block consensus Localnet"

definition ValidateBlockResourcesWithProfile :: "block \<Rightarrow> network_config \<Rightarrow> err option" where
  "ValidateBlockResourcesWithProfile block profile = validateBlockResources block (nc_Consensus profile) profile"

section \<open>One block\<close>

definition ValidateBlockTimestamp :: "i64 \<Rightarrow> block \<Rightarrow> block \<Rightarrow> difficulty_params \<Rightarrow> err option" where
  "ValidateBlockTimestamp now block parent params0 =
    (let params = normalizeDifficultyParams params0 in
     if sint (b_Timestamp block) < sint (b_Timestamp parent) then
       Some (Err ''invalid block timestamp: before parent'')
     else if sint (b_Timestamp block) > sint (now + dp_MaxFutureDriftSeconds params) then
       Some (Err ''invalid block timestamp: too far in future'')
     else None)"

text \<open>The checks of \<open>validateBlock\<close> on the header.\<close>

definition header_checks ::
  "i64 \<Rightarrow> block \<Rightarrow> block list \<Rightarrow> difficulty_params \<Rightarrow> network_config \<Rightarrow> err option" where
  "header_checks now block prior params profile =
    (case ValidateBlockVersion (b_ProtocolVersion block) (nc_BlockVersion profile) of
       Some e \<Rightarrow> Some e
     | None \<Rightarrow>
     if b_Hash block \<noteq> CalculateHash block then Some (Err ''block hash mismatch'')
     else if b_MerkleRoot block \<noteq> CalculateMerkleRoot (b_Transactions block) then
       Some (Err ''merkle root mismatch'')
     else case ValidateBlockResourcesWithProfile block profile of
       Some e \<Rightarrow> Some e
     | None \<Rightarrow>
     if b_Height block > 0 then
       (let expectedDifficulty = CalculateNextDifficultyWithParams prior params in
        if b_Difficulty block \<noteq> expectedDifficulty then
          Some (Err ''invalid difficulty at height %d expected %d got %d'')
        else if prior = [] then Some (Err ''panic: index out of range [-1]'')
        else case ValidateBlockTimestamp now block (last prior) params of
          Some e \<Rightarrow> Some e
        | None \<Rightarrow>
        (case ValidateAddressForNetwork (b_MinerAddress block) profile of
           Some e \<Rightarrow> Some (Wrap ''invalid miner address'' e)
         | None \<Rightarrow>
         if \<not> ValidateProofOfWork block then Some (Err ''invalid proof of work'') else None))
     else None)"

text \<open>The loop over the transactions: index, number of coinbases and fees so far.\<close>

definition coinbase_check :: "nat \<Rightarrow> transaction \<Rightarrow> network_config \<Rightarrow> err option" where
  "coinbase_check i tx profile =
    (if i \<noteq> 0 then Some (Err ''coinbase must be first transaction'')
     else if tx_From tx \<noteq> CoinbaseSender then Some (Err ''coinbase sender must be COINBASE'')
     else case CalculateIDForChainID tx (nc_ChainID profile) of
       Inl e \<Rightarrow> Some e
     | Inr expectedID \<Rightarrow>
         if tx_ID tx \<noteq> expectedID then Some (Err ''coinbase transaction id mismatch'') else None)"

definition plain_check :: "transaction \<Rightarrow> network_config \<Rightarrow> err option" where
  "plain_check tx profile =
    (if TxType tx = TxTypeTransfer \<and> tx_Amount tx = 0 then Some (Err ''tx %d amount must be greater than zero'')
     else if TxType tx = TxTypeStakeLock \<and> tx_Amount tx = 0 then Some (Err ''tx %d amount must be greater than zero'')
     else if TxType tx = TxTypeTransfer \<and> tx_From tx = tx_To tx then
       Some (Err ''tx %d sender and recipient must differ'')
     else case fees_Validate tx profile of Some e \<Rightarrow> Some (Wrap ''tx %d'' e) | None \<Rightarrow> None)"

fun tx_checks :: "network_config \<Rightarrow> nat \<Rightarrow> nat \<Rightarrow> u64 \<Rightarrow> transaction list \<Rightarrow> err + nat \<times> u64" where
  "tx_checks profile i coinbaseCount totalFees [] = Inr (coinbaseCount, totalFees)"
| "tx_checks profile i coinbaseCount totalFees (tx # txs) =
     (case ValidateTransactionVersion (tx_ProtocolVersion tx) (nc_TxVersion profile) of
        Some e \<Rightarrow> Inl (Wrap ''tx %d'' e)
      | None \<Rightarrow>
      if tx_Coinbase tx then
        (case coinbase_check i tx profile of
           Some e \<Rightarrow> Inl e
         | None \<Rightarrow> tx_checks profile (i + 1) (coinbaseCount + 1) totalFees txs)
      else case plain_check tx profile of
        Some e \<Rightarrow> Inl e
      | None \<Rightarrow>
      if nc_TxVersion profile \<ge> TxVersionAsset \<or> TxType tx = TxTypeTransfer then
        (case Add totalFees (tx_Fee tx) of
           Inl _ \<Rightarrow> Inl (Err ''transaction fees overflow'')
         | Inr nextFees \<Rightarrow> tx_checks profile (i + 1) coinbaseCount nextFees txs)
      else tx_checks profile (i + 1) coinbaseCount totalFees txs)"

definition reward_checks :: "block \<Rightarrow> nat \<Rightarrow> u64 \<Rightarrow> network_config \<Rightarrow> err option" where
  "reward_checks block coinbaseCount totalFees profile =
    (if b_Height block > 0 then
       (if coinbaseCount \<noteq> 1 then Some (Err ''block must include exactly one coinbase transaction'')
        else case (if nc_TxVersion profile \<ge> TxVersionAsset then Inr (ep_BlockSubsidy (nc_Economic profile))
                   else Add InitialBlockReward totalFees) of
          Inl _ \<Rightarrow> Some (Err ''block reward overflow'')
        | Inr want \<Rightarrow>
            if list_ex (\<lambda>tx. tx_Coinbase tx \<and> tx_Amount tx \<noteq> want) (b_Transactions block) then
              Some (Err ''invalid coinbase amount: got %d want %d'')
            else None)
     else None)"

definition normalizeTxValidationError :: "err \<Rightarrow> err" where
  "normalizeTxValidationError e =
    (if e = Err ''invalid transaction signature'' then Err ''invalid signature''
     else if e = Err ''public key does not match sender address'' then Err ''public key does not match sender''
     else if e = Err ''transaction id mismatch'' then Err ''tx id mismatch''
     else if e = Err ''insufficient balance'' then Err ''sender balance insufficient''
     else e)"

fun exec_loop :: "ext \<Rightarrow> u64 \<Rightarrow> transaction list \<Rightarrow> mature_ledger \<Rightarrow> err option" where
  "exec_loop X height [] l = None"
| "exec_loop X height (tx # txs) l =
     (if tx_Coinbase tx then
        (case ApplyCoinbaseAtHeight tx height l of
           (Some e, _) \<Rightarrow> Some (Wrap ''tx %d'' e)
         | (None, l') \<Rightarrow> exec_loop X height txs l')
      else case ApplyTransactionAtHeight X tx height l of
        (Some e, _) \<Rightarrow>
          if errors_Is e ErrImmatureBalance then
            Some (Err ''invalid transaction at height %d: spends immature coinbase'')
          else Some (Wrap ''tx %d %s'' (normalizeTxValidationError e))
      | (None, l') \<Rightarrow> exec_loop X height txs l')"

definition root_checks :: "ext \<Rightarrow> block \<Rightarrow> mature_ledger \<Rightarrow> err option" where
  "root_checks X block preBlockLedger =
    (if b_ProtocolVersion block = BlockVersionCanonical then
       (case mature_ApplyBlock X block (fst (mature_Clone preBlockLedger)) of
          (Some e, _) \<Rightarrow> Some (Wrap ''state root replay failed'' e)
        | (None, candidate) \<Rightarrow>
            if b_StateRoot block = [] then Some (Err ''canonical block state root is empty'')
            else if b_StateRoot block \<noteq> fst (RootForLedger candidate) then Some (Err ''state root mismatch'')
            else None)
     else None)"

definition validateBlock ::
  "ext \<Rightarrow> i64 \<Rightarrow> block \<Rightarrow> block list \<Rightarrow> difficulty_params \<Rightarrow> consensus_params \<Rightarrow> network_config \<Rightarrow> err option" where
  "validateBlock X now block prior params consensus profile =
    (case header_checks now block prior params profile of
       Some e \<Rightarrow> Some e
     | None \<Rightarrow>
     (case tx_checks profile 0 0 0 (b_Transactions block) of
        Inl e \<Rightarrow> Some e
      | Inr (coinbaseCount, totalFees) \<Rightarrow>
      (case reward_checks block coinbaseCount totalFees profile of
         Some e \<Rightarrow> Some e
       | None \<Rightarrow>
       (case ReplayMatureWithProfile X prior consensus profile of
          Inl e \<Rightarrow> Some e
        | Inr l \<Rightarrow>
            (case mature_Clone l of (preBlockLedger, l) \<Rightarrow>
               (case exec_loop X (b_Height block) (b_Transactions block) l of
                  Some e \<Rightarrow> Some e
                | None \<Rightarrow> root_checks X block preBlockLedger))))))"

definition ValidateBlockWithNetwork :: "ext \<Rightarrow> i64 \<Rightarrow> block \<Rightarrow> block list \<Rightarrow> network_config \<Rightarrow> err option" where
  "ValidateBlockWithNetwork X now block prior profile =
     validateBlock X now block prior (nc_Difficulty profile) (nc_Consensus profile) profile"

definition ValidateBlockWithConsensus ::
  "ext \<Rightarrow> i64 \<Rightarrow> block \<Rightarrow> block list \<Rightarrow> difficulty_params \<Rightarrow> consensus_params \<Rightarrow> err option" where
  "ValidateBlockWithConsensus X now block prior params consensus =
     validateBlock X now block prior params consensus Localnet"

definition ValidateBlockWithParams :: "ext \<Rightarrow> i64 \<Rightarrow> block \<Rightarrow> block list \<Rightarrow> difficulty_params \<Rightarrow> err option" where
  "ValidateBlockWithParams X now block prior params =
     validateBlock X now block prior params (nc_Consensus Localnet) Localnet"

definition ValidateBlock :: "ext \<Rightarrow> i64 \<Rightarrow> block \<Rightarrow> block list \<Rightarrow> err option" where
  "ValidateBlock X now block prior = ValidateBlockWithParams X now block prior (nc_Difficulty Localnet)"

definition ValidateNextBlockWithNetwork ::
  "ext \<Rightarrow> i64 \<Rightarrow> block \<Rightarrow> block \<Rightarrow> block list \<Rightarrow> difficulty_params \<Rightarrow> consensus_params \<Rightarrow> network_config \<Rightarrow> err option" where
  "ValidateNextBlockWithNetwork X now block tip prior params consensus profile =
    (case Add (b_Height tip) 1 of
       Inl _ \<Rightarrow> Some (Err ''block height overflow'')
     | Inr expectedHeight \<Rightarrow>
         if b_Height block \<noteq> expectedHeight then Some (Err ''invalid block height: got %d want %d'')
         else if b_PreviousHash block \<noteq> b_Hash tip then Some (Err ''previous hash does not match tip'')
         else validateBlock X now block prior params consensus profile)"

definition ValidateNextBlockWithConsensus ::
  "ext \<Rightarrow> i64 \<Rightarrow> block \<Rightarrow> block \<Rightarrow> block list \<Rightarrow> difficulty_params \<Rightarrow> consensus_params \<Rightarrow> err option" where
  "ValidateNextBlockWithConsensus X now block tip prior params consensus =
     ValidateNextBlockWithNetwork X now block tip prior params consensus Localnet"

definition ValidateNextBlockWithParams ::
  "ext \<Rightarrow> i64 \<Rightarrow> block \<Rightarrow> block \<Rightarrow> block list \<Rightarrow> difficulty_params \<Rightarrow> err option" where
  "ValidateNextBlockWithParams X now block tip prior params =
     ValidateNextBlockWithConsensus X now block tip prior params (nc_Consensus Localnet)"

definition ValidateNextBlock :: "ext \<Rightarrow> i64 \<Rightarrow> block \<Rightarrow> block \<Rightarrow> block list \<Rightarrow> err option" where
  "ValidateNextBlock X now block tip prior =
     ValidateNextBlockWithParams X now block tip prior (nc_Difficulty Localnet)"

section \<open>A chain\<close>

record validation_result =
  vr_Height :: u64
  vr_Blocks :: nat
  vr_TotalSupply :: u64

definition genesis_check :: "block \<Rightarrow> network_config \<Rightarrow> err option" where
  "genesis_check b profile =
    (let genesis = GenesisBlockForNetwork profile in
     if b_Hash b \<noteq> b_Hash genesis \<or> b_Height b \<noteq> b_Height genesis \<or> b_PreviousHash b \<noteq> b_PreviousHash genesis
        \<or> b_Timestamp b \<noteq> b_Timestamp genesis \<or> b_MerkleRoot b \<noteq> b_MerkleRoot genesis
        \<or> b_GenesisMarker b \<noteq> b_GenesisMarker genesis then
       Some (Err ''genesis block is not deterministic'')
     else if b_Hash b \<noteq> CalculateHash b then Some (Err ''block 0 hash mismatch'')
     else None)"

text \<open>The loop over the transactions of a block with the set of identifiers seen so far.\<close>

fun ids_loop :: "string set \<Rightarrow> transaction list \<Rightarrow> err + string set" where
  "ids_loop seen [] = Inr seen"
| "ids_loop seen (tx # txs) =
     (if tx_ID tx = [] then Inl (Err ''block %d empty tx id'')
      else if tx_ID tx \<in> seen then Inl (Err ''block %d duplicate tx id'')
      else ids_loop (insert (tx_ID tx) seen) txs)"

text \<open>The test for a prefix of the error text that \<open>validateChain\<close> makes before it wraps an error.\<close>

definition is_difficulty_error :: "err \<Rightarrow> bool" where
  "is_difficulty_error e =
    (case e of Err s \<Rightarrow> HasPrefix s ''invalid difficulty at height'' | Wrap s _ \<Rightarrow> HasPrefix s ''invalid difficulty at height'')"

fun chain_loop ::
  "ext \<Rightarrow> i64 \<Rightarrow> difficulty_params \<Rightarrow> consensus_params \<Rightarrow> network_config \<Rightarrow> string set \<Rightarrow> block list \<Rightarrow> block list \<Rightarrow> err option" where
  "chain_loop X now params consensus profile seen prior [] = None"
| "chain_loop X now params consensus profile seen prior (block # bs) =
     (let prev = last prior in
      if b_PreviousHash block \<noteq> b_Hash prev then Some (Err ''block %d previous_hash mismatch'')
      else case Add (b_Height prev) 1 of
        Inl _ \<Rightarrow> Some (Err ''block height overflow'')
      | Inr expectedHeight \<Rightarrow>
      if b_Height block \<noteq> expectedHeight then Some (Err ''block %d height mismatch'')
      else case validateBlock X now block prior params consensus profile of
        Some e \<Rightarrow> if is_difficulty_error e then Some e else Some (Wrap ''block %d'' e)
      | None \<Rightarrow>
      (case ids_loop seen (b_Transactions block) of
         Inl e \<Rightarrow> Some e
       | Inr seen' \<Rightarrow> chain_loop X now params consensus profile seen' (prior @ [block]) bs))"

definition validateChain ::
  "ext \<Rightarrow> i64 \<Rightarrow> block list \<Rightarrow> difficulty_params \<Rightarrow> consensus_params \<Rightarrow> network_config \<Rightarrow> err + validation_result" where
  "validateChain X now blocks params consensus profile =
    (case blocks of
       [] \<Rightarrow> Inl (Err ''chain is empty'')
     | b # bs \<Rightarrow>
         (case genesis_check b profile of
            Some e \<Rightarrow> Inl e
          | None \<Rightarrow>
            (case chain_loop X now params consensus profile {} [b] bs of
               Some e \<Rightarrow> Inl e
             | None \<Rightarrow> Inr \<lparr>vr_Height = b_Height (last blocks), vr_Blocks = length blocks,
                            vr_TotalSupply = TotalSupplyWithProfile blocks profile\<rparr>)))"

definition ValidateChainWithNetwork :: "ext \<Rightarrow> i64 \<Rightarrow> block list \<Rightarrow> network_config \<Rightarrow> err + validation_result" where
  "ValidateChainWithNetwork X now blocks profile =
     validateChain X now blocks (nc_Difficulty profile) (nc_Consensus profile) profile"

definition ValidateChainWithParams :: "ext \<Rightarrow> i64 \<Rightarrow> block list \<Rightarrow> difficulty_params \<Rightarrow> err + validation_result" where
  "ValidateChainWithParams X now blocks params = validateChain X now blocks params (nc_Consensus Localnet) Localnet"

definition ValidateChain :: "ext \<Rightarrow> i64 \<Rightarrow> block list \<Rightarrow> err + validation_result" where
  "ValidateChain X now blocks = ValidateChainWithNetwork X now blocks Localnet"

section \<open>What validation means\<close>

lemma header_checks_None:
  assumes "header_checks now block prior params profile = None"
  shows "b_Hash block = CalculateHash block" and "b_MerkleRoot block = CalculateMerkleRoot (b_Transactions block)"
    and "ValidateBlockResourcesWithProfile block profile = None"
    and "b_Height block > 0 \<Longrightarrow> b_Difficulty block = CalculateNextDifficultyWithParams prior params
      \<and> ValidateProofOfWork block \<and> sint (b_Timestamp (last prior)) \<le> sint (b_Timestamp block)"
  using assms by (auto simp: header_checks_def ValidateBlockTimestamp_def Let_def not_less
      split: option.splits if_splits)

lemma ids_loop_Inr:
  "ids_loop seen txs = Inr seen' \<Longrightarrow>
     seen' = seen \<union> tx_ID ` set txs \<and> distinct (map tx_ID txs) \<and> tx_ID ` set txs \<inter> seen = {} \<and> [] \<notin> tx_ID ` set txs"
  by (induction seen txs rule: ids_loop.induct) (auto split: if_splits)

text \<open>The promise of a valid chain, for a block and the blocks before it.\<close>

definition link_ok :: "ext \<Rightarrow> i64 \<Rightarrow> difficulty_params \<Rightarrow> consensus_params \<Rightarrow> network_config \<Rightarrow> block list \<Rightarrow> block \<Rightarrow> bool" where
  "link_ok X now params consensus profile prior b \<longleftrightarrow>
     b_PreviousHash b = b_Hash (last prior) \<and> unat (b_Height b) = Suc (unat (b_Height (last prior)))
   \<and> validateBlock X now b prior params consensus profile = None"

lemma chain_loop_None:
  assumes "chain_loop X now params consensus profile seen prior bs = None"
  shows "(\<forall>i < length bs. link_ok X now params consensus profile (prior @ take i bs) (bs ! i))
    \<and> distinct (map tx_ID (concat (map b_Transactions bs)))
    \<and> tx_ID ` set (concat (map b_Transactions bs)) \<inter> seen = {}"
  using assms
proof (induction bs arbitrary: seen prior)
  case (Cons b bs)
  from Cons.prems obtain h seen' where h: "Add (b_Height (last prior)) 1 = Inr h" "b_Height b = h"
    and p: "b_PreviousHash b = b_Hash (last prior)"
    and v: "validateBlock X now b prior params consensus profile = None"
    and ids: "ids_loop seen (b_Transactions b) = Inr seen'"
    and rest: "chain_loop X now params consensus profile seen' (prior @ [b]) bs = None"
    by (auto simp: Let_def split: if_splits sum.splits option.splits)
  have "link_ok X now params consensus profile prior b"
    using h p v by (auto simp: link_ok_def Add_Inr_iff)
  moreover note Cons.IH [OF rest] ids_loop_Inr [OF ids]
  ultimately show ?case
    by (auto simp: less_Suc_eq_0_disj nth_Cons' take_Cons' distinct_append)
qed simp

end
