(* ===== verification/Chain_Validity.thy ===== *)
theory Chain_Validity
  imports Chain_Rules Ledger_Invariants
begin

text \<open>
  What a chain that validates guarantees: its shape, and that on a network with canonical blocks and
  the asset model it can be replayed to the state its tip commits to.
\<close>

section \<open>Shape\<close>

lemma genesis_height [simp]: "b_Height (GenesisBlockForNetwork profile) = 0"
  by (simp add: GenesisBlockForNetwork_def Let_def)

lemma validateChain_Inr:
  assumes "validateChain X now blocks params consensus profile = Inr r"
  obtains b bs where "blocks = b # bs" and "genesis_check b profile = None"
    and "chain_loop X now params consensus profile {} [b] bs = None"
    and "r = \<lparr>vr_Height = b_Height (last blocks), vr_Blocks = length blocks,
      vr_TotalSupply = TotalSupplyWithProfile blocks profile\<rparr>"
  using assms by (cases blocks) (auto simp: validateChain_def split: option.splits)

lemma validateBlock_header:
  "validateBlock X now b prior params consensus profile = None \<Longrightarrow> header_checks now b prior params profile = None"
  by (auto simp: validateBlock_def split: option.splits)

lemma chain_links:
  assumes "validateChain X now blocks params consensus profile = Inr r" and "Suc i < length blocks"
  shows "link_ok X now params consensus profile (take (Suc i) blocks) (blocks ! Suc i)"
proof -
  from assms(1) obtain b bs where blocks: "blocks = b # bs"
    and l: "chain_loop X now params consensus profile {} [b] bs = None" by (rule validateChain_Inr)
  from chain_loop_None [OF l] assms(2) blocks show ?thesis by simp
qed

lemma last_take: "i < length xs \<Longrightarrow> last (take (Suc i) xs) = xs ! i"
  by (simp add: take_Suc_conv_app_nth)

lemma chain_heights:
  assumes "validateChain X now blocks params consensus profile = Inr r" and "i < length blocks"
  shows "unat (b_Height (blocks ! i)) = i"
  using assms(2)
proof (induction i)
  case 0
  from assms(1) obtain b bs where "blocks = b # bs" "genesis_check b profile = None" by (rule validateChain_Inr)
  then show ?case by (auto simp: genesis_check_def Let_def split: if_splits)
next
  case (Suc i)
  with chain_links [OF assms(1) Suc.prems] show ?case by (simp add: link_ok_def last_take)
qed

lemma ValidateChain_shape_facts:
  assumes "ValidateChainWithNetwork X now blocks profile = Inr r"
  shows "blocks \<noteq> [] \<and> b_Hash (hd blocks) = GenesisHashForNetwork profile"
    and "i < length blocks \<Longrightarrow> unat (b_Height (blocks ! i)) = i \<and> b_Hash (blocks ! i) = CalculateHash (blocks ! i)"
    and "Suc i < length blocks \<Longrightarrow> b_PreviousHash (blocks ! Suc i) = b_Hash (blocks ! i)
      \<and> ValidateProofOfWork (blocks ! Suc i)
      \<and> b_Difficulty (blocks ! Suc i) = CalculateNextDifficultyWithParams (take (Suc i) blocks) (nc_Difficulty profile)
      \<and> b_MerkleRoot (blocks ! Suc i) = CalculateMerkleRoot (b_Transactions (blocks ! Suc i))
      \<and> sint (b_Timestamp (blocks ! i)) \<le> sint (b_Timestamp (blocks ! Suc i))"
    and "distinct (map tx_ID (concat (map b_Transactions (tl blocks))))"
proof -
  note v = assms [unfolded ValidateChainWithNetwork_def]
  from v obtain b bs where blocks: "blocks = b # bs" and g: "genesis_check b profile = None"
    and l: "chain_loop X now (nc_Difficulty profile) (nc_Consensus profile) profile {} [b] bs = None"
    by (rule validateChain_Inr)
  show "blocks \<noteq> [] \<and> b_Hash (hd blocks) = GenesisHashForNetwork profile"
    using blocks g by (auto simp: genesis_check_def GenesisHashForNetwork_def Let_def split: if_splits)
  show "distinct (map tx_ID (concat (map b_Transactions (tl blocks))))"
    using chain_loop_None [OF l] blocks by simp
  have link: "header_checks now (blocks ! Suc j) (take (Suc j) blocks) (nc_Difficulty profile) profile = None
      \<and> b_PreviousHash (blocks ! Suc j) = b_Hash (blocks ! j) \<and> b_Height (blocks ! Suc j) > 0"
    if "Suc j < length blocks" for j
    using chain_links [OF v that] chain_heights [OF v that] that
    by (auto simp: link_ok_def last_take word_less_nat_alt dest: validateBlock_header)
  show "unat (b_Height (blocks ! i)) = i \<and> b_Hash (blocks ! i) = CalculateHash (blocks ! i)" if "i < length blocks"
  proof (cases i)
    case 0
    with that g blocks chain_heights [OF v that] show ?thesis
      by (auto simp: genesis_check_def Let_def split: if_splits)
  next
    case (Suc j)
    with that link [of j] chain_heights [OF v that] show ?thesis by (auto dest: header_checks_None(1))
  qed
  show "b_PreviousHash (blocks ! Suc i) = b_Hash (blocks ! i)
      \<and> ValidateProofOfWork (blocks ! Suc i)
      \<and> b_Difficulty (blocks ! Suc i) = CalculateNextDifficultyWithParams (take (Suc i) blocks) (nc_Difficulty profile)
      \<and> b_MerkleRoot (blocks ! Suc i) = CalculateMerkleRoot (b_Transactions (blocks ! Suc i))
      \<and> sint (b_Timestamp (blocks ! i)) \<le> sint (b_Timestamp (blocks ! Suc i))" if "Suc i < length blocks"
    using link [OF that] header_checks_None [of now "blocks ! Suc i" "take (Suc i) blocks"] that
    by (auto simp: last_take)
qed

text \<open>
  C37. The shape of a valid chain: it starts with the genesis of the network; the i-th block has height i,
  names the hash of its predecessor, and its hash is the hash of its own header; every block above
  the genesis has proof of work at the difficulty its predecessors demand, commits to its
  transactions, and is not older than its predecessor; no two transactions above the genesis share
  an identifier.
\<close>

theorem ValidateChain_shape:
  assumes "ValidateChainWithNetwork X now blocks profile = Inr r"
  shows "blocks \<noteq> [] \<and> b_Hash (hd blocks) = GenesisHashForNetwork profile
    \<and> (\<forall>i < length blocks. unat (b_Height (blocks ! i)) = i \<and> b_Hash (blocks ! i) = CalculateHash (blocks ! i))
    \<and> (\<forall>i. Suc i < length blocks \<longrightarrow> b_PreviousHash (blocks ! Suc i) = b_Hash (blocks ! i)
        \<and> ValidateProofOfWork (blocks ! Suc i)
        \<and> b_Difficulty (blocks ! Suc i)
          = CalculateNextDifficultyWithParams (take (Suc i) blocks) (nc_Difficulty profile)
        \<and> b_MerkleRoot (blocks ! Suc i) = CalculateMerkleRoot (b_Transactions (blocks ! Suc i))
        \<and> sint (b_Timestamp (blocks ! i)) \<le> sint (b_Timestamp (blocks ! Suc i)))
    \<and> distinct (map tx_ID (concat (map b_Transactions (tl blocks))))"
  using ValidateChain_shape_facts [OF assms] by blast

section \<open>Maturing is idempotent\<close>

text \<open>A credit that one pass leaves pending stays pending in another pass at the same height.\<close>

definition stuck :: "u64 \<Rightarrow> u64 \<Rightarrow> (string, mature_account) fmap \<Rightarrow> coinbase_credit \<Rightarrow> bool" where
  "stuck maturity h accounts c \<longleftrightarrow> \<not> cb_Matured c \<and>
    (2 ^ 64 \<le> unat (cb_Height c) + unat maturity \<or> unat h < unat (cb_Height c) + unat maturity
     \<or> 2 ^ 64 \<le> unat (ma_Mature (get_or zero_mature accounts (cb_Address c))) + unat (cb_Amount c))"

lemma stuck_step: "stuck maturity h accounts c \<Longrightarrow> mature_step maturity h c (p, accounts) = (p @ [c], accounts)"
  by (auto simp: stuck_def mature_step_def Add_Inr_iff word_less_nat_alt Let_def split: sum.splits)

lemma mature_step_stuck:
  assumes "mature_step maturity h c (p, accounts) = (p', accounts')" and "\<forall>d \<in> set p. stuck maturity h accounts d"
  shows "\<forall>d \<in> set p'. stuck maturity h accounts' d"
proof (cases "cb_Matured c")
  case False
  show ?thesis
  proof (cases "stuck maturity h accounts c")
    case True
    with stuck_step [OF True, of p] assms show ?thesis by auto
  next
    case ready: False
    let ?acct = "get_or zero_mature accounts (cb_Address c)"
    from ready False have h: "unat (cb_Height c) + unat maturity < 2 ^ 64" "unat (cb_Height c) + unat maturity \<le> unat h"
      "unat (ma_Mature ?acct) + unat (cb_Amount c) < 2 ^ 64" by (auto simp: stuck_def not_le)
    obtain mh m where mh: "Add (cb_Height c) maturity = Inr mh" "unat mh = unat (cb_Height c) + unat maturity"
      and m: "Add (ma_Mature ?acct) (cb_Amount c) = Inr m" "unat m = unat (ma_Mature ?acct) + unat (cb_Amount c)"
      using h Add_Inr_iff [of "cb_Height c" maturity "cb_Height c + maturity"]
        Add_Inr_iff [of "ma_Mature ?acct" "cb_Amount c" "ma_Mature ?acct + cb_Amount c"] by (simp add: unat_add_u64)
    have "p' = p" "accounts' = fmupd (cb_Address c) (?acct\<lparr>ma_Mature := m\<rparr>) accounts"
      using assms(1) False mh m h by (auto simp: mature_step_def Let_def word_less_nat_alt)
    with assms(2) m(2) show ?thesis by (auto simp: stuck_def)
  qed
qed (use assms in \<open>auto simp: mature_step_def\<close>)

lemma fold_stuck:
  "fold (mature_step maturity h) cs (p, accounts) = (p', accounts') \<Longrightarrow> \<forall>d \<in> set p. stuck maturity h accounts d
     \<Longrightarrow> \<forall>d \<in> set p'. stuck maturity h accounts' d"
proof (induction cs arbitrary: p accounts)
  case (Cons c cs)
  obtain q acc where "mature_step maturity h c (p, accounts) = (q, acc)" by force
  with Cons mature_step_stuck [OF this Cons.prems(2)] show ?case by auto
qed simp

lemma fold_all_stuck:
  "\<forall>d \<in> set cs. stuck maturity h accounts d \<Longrightarrow> fold (mature_step maturity h) cs (p, accounts) = (p @ cs, accounts)"
  by (induction cs arbitrary: p) (simp_all add: stuck_step)

lemma matureCoinbases_idem: "matureCoinbases h (matureCoinbases h l) = matureCoinbases h l"
proof -
  obtain p acc where f: "fold (mature_step (ml_maturity l) h) (ml_coinbases l) ([], ml_accounts l) = (p, acc)" by force
  with fold_all_stuck [of p "ml_maturity l" h acc "[]"] fold_stuck [OF f] show ?thesis
    by (simp add: matureCoinbases_def)
qed

lemma applyBlock_matured: "applyBlock X b l = (None, l') \<Longrightarrow> matureCoinbases (b_Height b) l' = l'"
  by (auto simp: applyBlock_def matureCoinbases_idem Let_def split: prod.splits option.splits)

section \<open>A valid chain replays to its state root\<close>

lemma replay_run:
  assumes "ReplayMatureWithProfile X blocks consensus profile = Inr l" and "blocks \<noteq> []"
    and "nc_Name profile \<noteq> []" and "nc_TxVersion profile \<ge> TxVersionAsset"
  shows "run_steps (mature_ApplyBlock X) blocks (NewMatureWithProfile consensus profile) = (None, l)"
    and "ledger_ok l"
proof -
  let ?n = "NewMatureWithProfile consensus profile"
  have ok0: "ledger_ok ?n" using assms(3, 4) ledger_ok_new by auto
  obtain l1 where r: "run_steps (mature_ApplyBlock X) blocks ?n = (None, l1)"
    and l: "l = matureCoinbases (b_Height (last blocks)) l1"
    using assms(1, 2) by (auto simp: ReplayMatureWithProfile_def split: prod.splits option.splits)
  obtain bs b where bs: "blocks = bs @ [b]" using assms(2) by (cases blocks rule: rev_cases) auto
  from r bs obtain l2 where l2: "run_steps (mature_ApplyBlock X) bs ?n = (None, l2)"
    and b: "mature_ApplyBlock X b l2 = (None, l1)"
    by (auto simp: run_steps_append split: prod.splits option.splits)
  have "ledger_ok l2" using blocks_run.run_kept [OF ok0, of X bs] l2 by simp
  from mature_ApplyBlock_cases(1) [OF b this] have "matureCoinbases (b_Height b) l1 = l1"
    by (simp add: applyBlock_matured)
  with l bs have "l = l1" by simp
  with r show "run_steps (mature_ApplyBlock X) blocks ?n = (None, l)" by simp
  then show "ledger_ok l" using blocks_run.run_kept [OF ok0, of X blocks] by simp
qed

lemma validated_block_applies:
  assumes "validateBlock X now b prior params consensus profile = None"
    and "nc_BlockVersion profile = BlockVersionCanonical" and "ledger_ok l"
    and "ReplayMatureWithProfile X prior consensus profile = Inr l"
  shows "\<exists>l'. mature_ApplyBlock X b l = (None, l') \<and> fst (RootForLedger l') = b_StateRoot b"
proof -
  note clone = mature_Clone_eq [OF assms(3)]
  have "ValidateBlockVersion (b_ProtocolVersion b) (nc_BlockVersion profile) = None"
    using validateBlock_header [OF assms(1)] by (auto simp: header_checks_def split: option.splits)
  then have canonical: "b_ProtocolVersion b = BlockVersionCanonical"
    using assms(2) by (auto simp: ValidateBlockVersion_def BlockVersionCanonical_def BlockVersionLegacy_def
        Let_def split: if_splits)
  have "root_checks X b (refreshed l) = None"
    using assms(1, 4) clone by (auto simp: validateBlock_def split: option.splits sum.splits)
  then obtain l' where l': "mature_ApplyBlock X b (refreshed l) = (None, l')" "fst (RootForLedger l') = b_StateRoot b"
    using canonical mature_Clone_eq [OF ledger_ok_refreshed [OF assms(3)]]
    by (auto simp: root_checks_def refreshed_refreshed split: prod.splits option.splits if_splits)
  from mature_ApplyBlock_cases(1) [OF l'(1) ledger_ok_refreshed [OF assms(3)]]
  have "applyBlock X b (refreshed l) = (None, l')" by (simp add: refreshed_refreshed)
  with clone ledger_okD(1) [OF assms(3)] have "mature_ApplyBlock X b l = (None, l')"
    by (simp add: mature_ApplyBlock_def)
  with l'(2) show ?thesis by blast
qed

lemma prior_replay:
  assumes "ReplayMatureWithProfile X prior consensus profile = Inr l"
    and "nc_Name profile \<noteq> []" and "nc_TxVersion profile \<ge> TxVersionAsset"
  shows "run_steps (mature_ApplyBlock X) prior (NewMatureWithProfile consensus profile) = (None, l) \<and> ledger_ok l"
proof (cases "prior = []")
  case True
  with assms show ?thesis using ledger_ok_new by (auto simp: ReplayMatureWithProfile_def)
qed (use replay_run [OF assms(1) _ assms(2, 3)] in blast)


section \<open>The supply of a valid chain\<close>

lemma tx_checks_count:
  "tx_checks profile i c f txs = Inr (c', f') \<Longrightarrow> c' = c + length (filter tx_Coinbase txs)"
proof (induction profile i c f txs rule: tx_checks.induct)
  case (2 profile i c f tx txs)
  then show ?case by (auto split: option.splits if_splits sum.splits)
qed simp

lemma minted_filter: "minted txs = (\<Sum>tx\<leftarrow>filter tx_Coinbase txs. unat (tx_Amount tx))"
  by (induction txs) (auto simp: minted_def)

lemma minted_append: "minted (xs @ ys) = minted xs + minted ys"
  by (simp add: minted_def)

lemma validated_reward:
  assumes "validateBlock X now b prior params consensus profile = None" and "b_Height b > 0"
    and "nc_TxVersion profile \<ge> TxVersionAsset"
  shows "minted (b_Transactions b) = unat (ep_BlockSubsidy (nc_Economic profile))"
proof -
  from assms(1) obtain c f where t: "tx_checks profile 0 0 0 (b_Transactions b) = Inr (c, f)"
    and r: "reward_checks b c f profile = None"
    by (auto simp: validateBlock_def split: option.splits sum.splits)
  from r assms(2, 3) have one: "c = 1"
    and all: "\<not> list_ex (\<lambda>tx. tx_Coinbase tx \<and> tx_Amount tx \<noteq> ep_BlockSubsidy (nc_Economic profile)) (b_Transactions b)"
    by (auto simp: reward_checks_def split: if_splits)
  from tx_checks_count [OF t] one obtain tx where tx: "filter tx_Coinbase (b_Transactions b) = [tx]"
    by (cases "filter tx_Coinbase (b_Transactions b)") auto
  then have "tx \<in> set (filter tx_Coinbase (b_Transactions b))" by simp
  then have "tx \<in> set (b_Transactions b)" "tx_Coinbase tx" by auto
  with all have "tx_Amount tx = ep_BlockSubsidy (nc_Economic profile)" by (auto simp: list_ex_iff)
  with tx show ?thesis by (simp add: minted_filter)
qed

lemma chain_minted:
  assumes "validateChain X now blocks params consensus profile = Inr r" and "n < length blocks"
    and "nc_TxVersion profile \<ge> TxVersionAsset" and "b_Transactions (hd blocks) = []"
  shows "minted (concat (map b_Transactions (take (Suc n) blocks))) = n * unat (ep_BlockSubsidy (nc_Economic profile))"
  using assms(2)
proof (induction n)
  case 0
  with assms(4) show ?case by (cases blocks) (simp_all add: minted_def)
next
  case (Suc n)
  have "validateBlock X now (blocks ! Suc n) (take (Suc n) blocks) params consensus profile = None"
    using chain_links [OF assms(1)] Suc.prems by (simp add: link_ok_def)
  moreover have "b_Height (blocks ! Suc n) > 0"
    using chain_heights [OF assms(1) Suc.prems] by (simp add: word_less_nat_alt)
  ultimately have "minted (b_Transactions (blocks ! Suc n)) = unat (ep_BlockSubsidy (nc_Economic profile))"
    using validated_reward assms(3) by blast
  moreover have "take (Suc (Suc n)) blocks = take (Suc n) blocks @ [blocks ! Suc n]"
    using Suc.prems by (rule take_Suc_conv_app_nth)
  ultimately show ?case using Suc by (simp add: minted_append)
qed

text \<open>
  C39. The money supply of a valid chain: on a network with the asset model, when a valid chain with an
  empty genesis block is replayed, all balances together are exactly the block subsidy times the
  number of blocks above the genesis, less the burned fees of version 1 and 2 transfers.
\<close>

theorem valid_chain_supply:
  assumes "ValidateChainWithNetwork X now blocks profile = Inr r"
    and "ReplayMatureWithProfile X blocks (nc_Consensus profile) profile = Inr l"
    and "nc_TxVersion profile \<ge> TxVersionAsset" and "nc_Name profile \<noteq> []" and "b_Transactions (hd blocks) = []"
  shows "confirmed_sum l + legacy_fees (concat (map b_Transactions blocks))
    = (length blocks - 1) * unat (ep_BlockSubsidy (nc_Economic profile))"
proof -
  note v = assms(1) [unfolded ValidateChainWithNetwork_def]
  from v have "blocks \<noteq> []" by (rule validateChain_Inr) simp
  then show ?thesis
    using chain_minted [OF v _ assms(3, 5), of "length blocks - 1"] replay_state(3) [OF assms(2, 4, 3)] by simp
qed

text \<open>
  The genesis block is checked by its header only: whatever transactions are put into it, a chain of
  that block alone validates, because its Merkle root is compared with the expected one and never
  with the transactions it carries.
\<close>

theorem genesis_transactions_unchecked:
  "\<exists>r. ValidateChainWithNetwork X now [(GenesisBlockForNetwork profile)\<lparr>b_Transactions := txs\<rparr>] profile = Inr r"
proof -
  let ?g = "(GenesisBlockForNetwork profile)\<lparr>b_Transactions := txs\<rparr>"
  have "b_Hash ?g = CalculateHash ?g"
    by (simp add: GenesisBlockForNetwork_def Let_def CalculateHash_def HeaderBytesWithNonce_def
        CanonicalHeaderBytesWithNonce_def b_ProtocolVersion_def)
  then have "genesis_check ?g profile = None" by (simp add: genesis_check_def Let_def)
  then show ?thesis by (simp add: ValidateChainWithNetwork_def validateChain_def)
qed

end
