(* ===== verification/Restore.thy ===== *)
theory Restore
  imports Snapshot Ledger_Invariants
begin

text \<open>
  Rebuilding a ledger from its snapshot. An asset state is rebuilt from its lists of definitions and
  balances with the same definitions and the same balance for every address and asset; a ledger
  that satisfies its invariant and has settled its fees is rebuilt with the same accounts, stakes,
  pending credits, definitions and balances, so that its snapshot is the snapshot it was built from.
\<close>

section \<open>Asset definitions\<close>

lemma restore_definitions:
  assumes "\<And>d. d \<in> set ds \<Longrightarrow> IsNative (def_ID d) \<Longrightarrow> d = native_definition"
    and "\<And>d. d \<in> set ds \<Longrightarrow> \<not> IsNative (def_ID d) \<Longrightarrow> def_ID d \<noteq> [] \<and> def_Kind d \<noteq> [] \<and> def_Status d \<noteq> []
      \<and> ValidateDefinition d = None \<and> fmlookup (as_assets s) (def_ID d) = None"
    and "distinct (map def_ID ds)"
  shows "run_steps restore_definition ds s
    = (None, s\<lparr>as_assets := fold (\<lambda>d. fmupd (def_ID d) d) ds (as_assets s)\<rparr>)"
  using assms
proof (induction ds arbitrary: s)
  case (Cons d ds)
  have "restore_definition d s = (None, s\<lparr>as_assets := fmupd (def_ID d) d (as_assets s)\<rparr>)"
  proof (cases "IsNative (def_ID d)")
    case True
    with Cons.prems(1) have "d = native_definition" by simp
    with True show ?thesis by (simp add: restore_definition_def native_definition_def)
  next
    case False
    with Cons.prems(2) [of d] show ?thesis by (simp add: restore_definition_def Create_def)
  qed
  moreover have "run_steps restore_definition ds (s\<lparr>as_assets := fmupd (def_ID d) d (as_assets s)\<rparr>)
    = (None, s\<lparr>as_assets := fold (\<lambda>d. fmupd (def_ID d) d) ds (fmupd (def_ID d) d (as_assets s))\<rparr>)"
    using Cons.IH [of "s\<lparr>as_assets := fmupd (def_ID d) d (as_assets s)\<rparr>"] Cons.prems by force
  ultimately show ?case by simp
qed simp

lemma fold_by_id:
  "distinct (map def_ID ds) \<Longrightarrow> fmlookup (fold (\<lambda>d. fmupd (def_ID d) d) ds m) k =
     (case find (\<lambda>d. def_ID d = k) ds of Some d \<Rightarrow> Some d | None \<Rightarrow> fmlookup m k)"
proof (induction ds arbitrary: m)
  case (Cons d ds)
  have "find (\<lambda>e. def_ID e = def_ID d) ds = None" using Cons.prems by (auto simp: find_None_iff image_iff)
  with Cons show ?case by (auto split: option.splits)
qed simp

text \<open>The definitions of a state whose definitions are filed under their identifiers.\<close>

lemma set_Definitions: "set (Definitions s) = fmran' (as_assets s)"
  by (auto simp: Definitions_def set_sorted_list_of_fmap fmran'_def image_iff)

lemma distinct_Definitions:
  assumes "\<And>k d. fmlookup (as_assets s) k = Some d \<Longrightarrow> def_ID d = k"
  shows "distinct (map def_ID (Definitions s))"
proof -
  have "map def_ID (map snd (sorted_list_of_fmap (as_assets s))) = map fst (sorted_list_of_fmap (as_assets s))"
    using assms by (auto simp: set_sorted_list_of_fmap)
  then have "distinct (map def_ID (map snd (sorted_list_of_fmap (as_assets s))))"
    by (simp only: distinct_sorted_list_of_fmap)
  moreover have "mset (map def_ID (Definitions s)) = mset (map def_ID (map snd (sorted_list_of_fmap (as_assets s))))"
    by (simp add: Definitions_def image_mset.compositionality)
  ultimately show ?thesis by (metis mset_eq_imp_distinct_iff)
qed

lemma asset_ids:
  assumes "asset_ok s" and "fmlookup (as_assets s) k = Some d"
  shows "def_ID d = k"
  using asset_okD(1, 2) [OF assms(1)] assms(2)
  by (cases "k = NativeAssetID") (auto simp: issued_ok_def native_definition_def)

lemma in_Definitions:
  "asset_ok s \<Longrightarrow> d \<in> set (Definitions s) \<longleftrightarrow> fmlookup (as_assets s) (def_ID d) = Some d"
  using asset_ids by (fastforce simp: set_Definitions fmran'_def)

lemma definition_kinds:
  assumes "asset_ok s" and "d \<in> set (Definitions s)"
  shows "def_ID d = NativeAssetID \<Longrightarrow> d = native_definition"
    and "def_ID d \<noteq> NativeAssetID \<Longrightarrow> issued_ok s (def_ID d) d"
proof -
  have l: "fmlookup (as_assets s) (def_ID d) = Some d" using assms in_Definitions by blast
  show "d = native_definition" if "def_ID d = NativeAssetID" using l that asset_okD(1) [OF assms(1)] by simp
  show "issued_ok s (def_ID d) d" if "def_ID d \<noteq> NativeAssetID" using asset_okD(2) [OF assms(1) that l] .
qed

lemma fold_Definitions:
  assumes "asset_ok s"
  shows "fold (\<lambda>d. fmupd (def_ID d) d) (Definitions s) (as_assets NewAssetState) = as_assets s"
proof (rule fmap_ext)
  fix k
  note fold = fold_by_id [OF distinct_Definitions [OF asset_ids [OF assms]]]
  show "fmlookup (fold (\<lambda>d. fmupd (def_ID d) d) (Definitions s) (as_assets NewAssetState)) k = fmlookup (as_assets s) k"
  proof (cases "find (\<lambda>d. def_ID d = k) (Definitions s)")
    case None
    have unknown: "fmlookup (as_assets s) k = None"
    proof (rule ccontr)
      assume "fmlookup (as_assets s) k \<noteq> None"
      then obtain d where "fmlookup (as_assets s) k = Some d" by blast
      with asset_ids [OF assms this] have "d \<in> set (Definitions s)" "def_ID d = k"
        by (simp_all add: in_Definitions [OF assms])
      with None show False by (auto simp: find_None_iff)
    qed
    then have "NativeAssetID \<noteq> k" using asset_okD(1) [OF assms] by auto
    with unknown None show ?thesis by (simp add: fold NewAssetState_def)
  next
    case (Some d)
    then have "d \<in> set (Definitions s)" "def_ID d = k" by (auto simp: find_Some_iff)
    with in_Definitions [OF assms, of d] Some show ?thesis by (simp add: fold)
  qed
qed

lemma restore_Definitions:
  assumes "asset_ok s"
  shows "run_steps restore_definition (Definitions s) NewAssetState = (None, NewAssetState\<lparr>as_assets := as_assets s\<rparr>)"
proof -
  have issued: "issued_ok s (def_ID d) d \<and> def_ID d \<noteq> NativeAssetID"
    if "d \<in> set (Definitions s)" "\<not> IsNative (def_ID d)" for d
    using that definition_kinds(2) [OF assms that(1)] by (metis IsNative_NativeAssetID)
  have native: "d = native_definition" if "d \<in> set (Definitions s)" "IsNative (def_ID d)" for d
    using that definition_kinds [OF assms that(1)] by (metis issued_ok_def)
  have "run_steps restore_definition (Definitions s) NewAssetState = (None, NewAssetState\<lparr>as_assets :=
      fold (\<lambda>d. fmupd (def_ID d) d) (Definitions s) (as_assets NewAssetState)\<rparr>)"
  proof (rule restore_definitions [OF native _ distinct_Definitions [OF asset_ids [OF assms]]])
    fix d assume "d \<in> set (Definitions s)" "\<not> IsNative (def_ID d)"
    from issued [OF this] show "def_ID d \<noteq> [] \<and> def_Kind d \<noteq> [] \<and> def_Status d \<noteq> []
        \<and> ValidateDefinition d = None \<and> fmlookup (as_assets NewAssetState) (def_ID d) = None"
      by (auto simp: issued_ok_def NewAssetState_def)
  qed
  then show ?thesis by (simp only: fold_Definitions [OF assms])
qed

section \<open>Asset balances\<close>

lemma in_Balances: "e \<in> set (Balances s) \<longleftrightarrow>
    be_Amount e = asset_Balance s (be_Address e) (be_AssetID e) \<and> be_Amount e \<noteq> 0"
proof -
  have "e \<in> set (Balances s) \<longleftrightarrow> (\<exists>m. fmlookup (as_balances s) (be_Address e) = Some m
      \<and> fmlookup m (be_AssetID e) = Some (be_Amount e)) \<and> be_Amount e \<noteq> 0"
    by (cases e) (auto simp: Balances_def set_sorted_list_of_fmap image_iff)
  then show ?thesis by (auto simp: asset_Balance_def get_or_def split: option.splits)
qed

lemma distinct_Balances: "distinct (map (\<lambda>e. (be_Address e, be_AssetID e)) (Balances s))"
proof -
  have inner: "distinct (map (\<lambda>e. (be_Address e, be_AssetID e))
      (map (\<lambda>(k, n). \<lparr>be_Address = a, be_AssetID = k, be_Amount = n\<rparr>)
        (filter (\<lambda>(k, n). n \<noteq> 0) (sorted_list_of_fmap m))))" for a and m :: "(string, u64) fmap"
  proof -
    have "distinct (map fst (filter (\<lambda>(k, n). n \<noteq> 0) (sorted_list_of_fmap m)))"
      by (rule distinct_map_filter) (rule distinct_sorted_list_of_fmap)
    then have "distinct (map (Pair a) (map fst (filter (\<lambda>(k, n). n \<noteq> 0) (sorted_list_of_fmap m))))"
      by (subst distinct_map) (simp add: inj_on_def del: map_map)
    then show ?thesis by (simp add: o_def case_prod_unfold)
  qed
  have "distinct (map (\<lambda>e. (be_Address e, be_AssetID e)) (concat (map (\<lambda>(a, m).
      map (\<lambda>(k, n). \<lparr>be_Address = a, be_AssetID = k, be_Amount = n\<rparr>)
        (filter (\<lambda>(k, n). n \<noteq> 0) (sorted_list_of_fmap m))) ams)))"
    if "distinct (map fst ams)" for ams :: "(string \<times> (string, u64) fmap) list"
    using that
  proof (induction ams)
    case (Cons am ams)
    obtain a m where "am = (a, m)" by force
    with Cons inner [of a m] show ?case by (auto simp: image_iff)
  qed simp
  then show ?thesis unfolding Balances_def by simp
qed

text \<open>Entries are added to balances that start at zero.\<close>

lemma restore_balances:
  assumes "\<And>e. e \<in> set es \<Longrightarrow> be_Address e \<noteq> [] \<and> be_AssetID e \<noteq> [] \<and> be_Amount e \<noteq> 0
      \<and> fmlookup (as_assets s) (be_AssetID e) \<noteq> None \<and> asset_Balance s (be_Address e) (be_AssetID e) = 0"
    and "distinct (map (\<lambda>e. (be_Address e, be_AssetID e)) es)"
  shows "\<exists>s'. run_steps restore_balance es s = (None, s') \<and> as_assets s' = as_assets s
    \<and> (\<forall>e \<in> set es. asset_Balance s' (be_Address e) (be_AssetID e) = be_Amount e)
    \<and> (\<forall>a k. (a, k) \<notin> (\<lambda>e. (be_Address e, be_AssetID e)) ` set es \<longrightarrow> asset_Balance s' a k = asset_Balance s a k)"
  using assms
proof (induction es arbitrary: s)
  case (Cons e es)
  obtain r s1 where s1: "addBalance (be_Address e) (be_AssetID e) (be_Amount e) s = (r, s1)" by force
  have z: "asset_Balance s (be_Address e) (be_AssetID e) = 0" using Cons.prems(1) by simp
  have r: "r = None"
  proof (cases r)
    case (Some x)
    from addBalance_cases(3) [OF s1 this] z show ?thesis using unat_u64_lt [of "be_Amount e"] by simp
  qed
  note c = addBalance_cases [OF s1]
  have b1: "asset_Balance s1 = upd2 (asset_Balance s) (be_Address e) (be_AssetID e) (be_Amount e)"
    using c(2) [OF r] z by simp
  have "restore_balance e s = (None, s1)" using Cons.prems(1) s1 r by (simp add: restore_balance_def)
  moreover obtain s' where s': "run_steps restore_balance es s1 = (None, s')" "as_assets s' = as_assets s1"
    "\<forall>e \<in> set es. asset_Balance s' (be_Address e) (be_AssetID e) = be_Amount e"
    "\<forall>a k. (a, k) \<notin> (\<lambda>e. (be_Address e, be_AssetID e)) ` set es \<longrightarrow> asset_Balance s' a k = asset_Balance s1 a k"
  proof -
    have "asset_Balance s1 (be_Address x) (be_AssetID x) = 0" if "x \<in> set es" for x
    proof -
      have "(be_Address x, be_AssetID x) \<noteq> (be_Address e, be_AssetID e)"
      proof
        assume "(be_Address x, be_AssetID x) = (be_Address e, be_AssetID e)"
        with imageI [OF that, of "\<lambda>e. (be_Address e, be_AssetID e)"] Cons.prems(2) show False by simp
      qed
      then show ?thesis using that Cons.prems(1) [of x] b1 by (auto simp: upd2_def)
    qed
    then show thesis using Cons.IH [of s1] Cons.prems c(1) that by auto
  qed
  ultimately show ?case using b1 c(1) Cons.prems(2) by (auto simp: upd2_def)
qed simp

text \<open>
  An asset state that satisfies its invariant, in which the empty address owns nothing, is rebuilt from
  its lists.
\<close>

lemma Restore_lists:
  assumes "asset_ok s" and "\<And>k. asset_Balance s [] k = 0"
  shows "\<exists>s'. Restore (Definitions s) (Balances s) NewAssetState = (None, s')
    \<and> as_assets s' = as_assets s \<and> asset_Balance s' = asset_Balance s"
proof -
  let ?s = "NewAssetState\<lparr>as_assets := as_assets s\<rparr>"
  have zero: "asset_Balance ?s a k = 0" for a k by (simp add: asset_Balance_def NewAssetState_def)
  have known: "fmlookup (as_assets s) (be_AssetID e) \<noteq> None" if "e \<in> set (Balances s)" for e
  proof
    assume "fmlookup (as_assets s) (be_AssetID e) = None"
    then have "unat (asset_Balance s (be_Address e) (be_AssetID e)) = 0"
      using asset_okD(3) [OF assms(1)] balance_le_total [of s "be_Address e" "be_AssetID e"] by simp
    with that show False by (simp add: in_Balances unat_eq_0_u64)
  qed
  have "be_AssetID e \<noteq> []" if "e \<in> set (Balances s)" for e
    using known [OF that] asset_okD(1, 2) [OF assms(1)] by (force simp: issued_ok_def NativeAssetID_def)
  then obtain s' where s': "run_steps restore_balance (Balances s) ?s = (None, s')" "as_assets s' = as_assets ?s"
    "\<forall>e \<in> set (Balances s). asset_Balance s' (be_Address e) (be_AssetID e) = be_Amount e"
    "\<forall>a k. (a, k) \<notin> (\<lambda>e. (be_Address e, be_AssetID e)) ` set (Balances s) \<longrightarrow> asset_Balance s' a k = asset_Balance ?s a k"
    using restore_balances [OF _ distinct_Balances, of s ?s] known zero assms(2)
    by (metis (no_types, lifting) asset_state.select_convs(1) asset_state.surjective asset_state.update_convs(1) in_Balances)
  have "asset_Balance s' a k = asset_Balance s a k" for a k
  proof (cases "asset_Balance s a k = 0")
    case True
    then have "(a, k) \<notin> (\<lambda>e. (be_Address e, be_AssetID e)) ` set (Balances s)" by (auto simp: in_Balances)
    with s'(4) zero True show ?thesis by simp
  next
    case False
    then have "\<lparr>be_Address = a, be_AssetID = k, be_Amount = asset_Balance s a k\<rparr> \<in> set (Balances s)"
      by (simp add: in_Balances)
    with s'(3) show ?thesis by fastforce
  qed
  then have "asset_Balance s' = asset_Balance s" by blast
  with s' restore_Definitions [OF assms(1)] show ?thesis by (simp add: Restore_def)
qed

section \<open>The ledger\<close>

lemma Balances_cong: "asset_Balance s = asset_Balance s' \<Longrightarrow> mset (Balances s) = mset (Balances s')"
  using distinct_Balances [of s] distinct_Balances [of s']
  by (intro set_eq_iff_mset_eq_distinct [THEN iffD1]) (auto simp: distinct_map in_Balances)

lemma strictly_sorted: "sorted_wrt (<) (map fst (sorted_list_of_fmap m))"
  by (simp add: strict_sorted_iff)

lemma sorted_concat:
  "(\<And>xs. xs \<in> set xss \<Longrightarrow> sorted_wrt R xs) \<Longrightarrow> sorted_wrt (\<lambda>xs ys. \<forall>x \<in> set xs. \<forall>y \<in> set ys. R x y) xss
     \<Longrightarrow> sorted_wrt R (concat xss)"
  by (induction xss) (auto simp: sorted_wrt_append)

definition entries_of :: "string \<Rightarrow> (string, u64) fmap \<Rightarrow> balance_entry list" where
  "entries_of a m = map (\<lambda>(k, n). \<lparr>be_Address = a, be_AssetID = k, be_Amount = n\<rparr>)
     (filter (\<lambda>(k, n). n \<noteq> 0) (sorted_list_of_fmap m))"

lemma entries_address: "e \<in> set (entries_of a m) \<Longrightarrow> be_Address e = a"
  by (auto simp: entries_of_def)

lemma entries_sorted: "sorted_wrt entry_less (entries_of a m)"
proof -
  have "sorted_wrt (\<lambda>x y. fst x < fst y) (sorted_list_of_fmap m)"
    using strictly_sorted [of m] by (simp add: sorted_wrt_map)
  then show ?thesis
    by (auto simp: entries_of_def sorted_wrt_map entry_less_def intro!: sorted_wrt_filter
        elim: sorted_wrt_mono_rel [rotated])
qed

lemma sorted_Balances: "sorted_wrt entry_less (Balances s)"
proof -
  have "Balances s = concat (map (\<lambda>(a, m). entries_of a m) (sorted_list_of_fmap (as_balances s)))"
    by (simp add: Balances_def entries_of_def)
  moreover have "sorted_wrt (\<lambda>x y. fst x < fst y) (sorted_list_of_fmap (as_balances s))"
    using strictly_sorted [of "as_balances s"] by (simp add: sorted_wrt_map)
  then have "sorted_wrt (\<lambda>p q. \<forall>x \<in> set (entries_of (fst p) (snd p)). \<forall>y \<in> set (entries_of (fst q) (snd q)).
      entry_less x y) (sorted_list_of_fmap (as_balances s))"
    by (rule sorted_wrt_mono_rel [rotated]) (auto simp: entry_less_def dest!: entries_address)
  ultimately show ?thesis
    using entries_sorted by (auto intro!: sorted_concat simp: sorted_wrt_map case_prod_unfold)
qed

lemma Balances_eq: "asset_Balance s = asset_Balance s' \<Longrightarrow> Balances s = Balances s'"
  by (rule entries_order.sorted_unique [OF sorted_Balances sorted_Balances Balances_cong])

lemma accounts_sorted: "sort_by account_less (StateAccounts l) = StateAccounts l"
proof (rule accounts_order.sort_sorted)
  have "sorted_wrt (\<lambda>x y. fst x < fst y) (sorted_list_of_fmap (ml_accounts l))"
    using strictly_sorted [of "ml_accounts l"] by (simp add: sorted_wrt_map)
  then show "sorted_wrt account_less (StateAccounts l)"
    by (auto simp: StateAccounts_def sorted_wrt_map account_less_def elim: sorted_wrt_mono_rel [rotated])
qed

lemma stakes_sorted:
  assumes "stakes_ok l"
  shows "sort_by stake_less (fst (StateStakes l)) = fst (StateStakes l)"
proof (rule stakes_order.sort_sorted)
  let ?m = "ss_records (RefreshReleased (ml_currentHeight l) (ml_stakes l))"
  have "sorted_wrt (\<lambda>x y. fst x < fst y) (sorted_list_of_fmap ?m)"
    using strictly_sorted [of ?m] by (simp add: sorted_wrt_map)
  moreover have "sr_StakeID (snd x) = fst x" if "x \<in> set (sorted_list_of_fmap ?m)" for x
  proof -
    obtain k r where x: "x = (k, r)" by force
    with that have "fmlookup ?m k = Some r" by (simp add: set_sorted_list_of_fmap)
    with assms x show ?thesis by (auto simp: stakes_ok_def)
  qed
  ultimately have "sorted_wrt (\<lambda>x y. stake_less (snd x) (snd y)) (sorted_list_of_fmap ?m)"
    by (auto simp: stake_less_def elim: sorted_wrt_mono_rel [rotated])
  then show "sorted_wrt stake_less (fst (StateStakes l))"
    by (simp add: StateStakes_def Records_def Let_def sorted_wrt_map)
qed

lemma rebuilt_accounts:
  "fold (\<lambda>a. fmupd (sa_Address a) \<lparr>ma_Confirmed = sa_Confirmed a, ma_Mature = sa_Mature a, ma_Nonce = sa_Nonce a\<rparr>)
     (StateAccounts l) fmempty = ml_accounts l"
proof -
  have "fold (\<lambda>(k, v). fmupd k v) (sorted_list_of_fmap (ml_accounts l)) fmempty = ml_accounts l"
    using range_copy [of "ml_accounts l"] by (simp add: range_fm_def)
  moreover have eta: "\<lparr>ma_Confirmed = ma_Confirmed m, ma_Mature = ma_Mature m, ma_Nonce = ma_Nonce m\<rparr> = m"
    for m :: mature_account by simp
  ultimately show ?thesis
    unfolding StateAccounts_def fold_map o_def case_prod_unfold state_account.select_convs eta by simp
qed

lemma fold_same: "(\<And>x. x \<in> set xs \<Longrightarrow> f x a = a) \<Longrightarrow> fold f xs a = a"
  by (induction xs) simp_all

lemma sync_same:
  assumes "\<And>a m. fmlookup (ml_accounts l) a = Some m \<Longrightarrow> asset_Balance (ml_assets l) a NativeAssetID = ma_Confirmed m"
  shows "syncNativeAssetsFromAccounts l = l"
proof -
  have "range_fm (\<lambda>address account assets.
      let current = asset_Balance assets address NativeAssetID in
      if current < ma_Confirmed account then snd (Credit address NativeAssetID (ma_Confirmed account - current) assets)
      else if current > ma_Confirmed account then snd (Debit address NativeAssetID (current - ma_Confirmed account) assets)
      else assets) (ml_accounts l) (ml_assets l) = ml_assets l"
    unfolding range_fm_def using assms by (intro fold_same) (auto simp: set_sorted_list_of_fmap)
  then show ?thesis by (simp add: syncNativeAssetsFromAccounts_def)
qed

text \<open>The parts of a ledger that its operations can tell apart.\<close>

definition same_state :: "mature_ledger \<Rightarrow> mature_ledger \<Rightarrow> bool" where
  "same_state l l' \<longleftrightarrow> ml_accounts l' = ml_accounts l \<and> ml_coinbases l' = ml_coinbases l
     \<and> ml_stakes l' = ml_stakes l \<and> as_assets (ml_assets l') = as_assets (ml_assets l)
     \<and> asset_Balance (ml_assets l') = asset_Balance (ml_assets l)
     \<and> ml_currentHeight l' = ml_currentHeight l \<and> ml_maturity l' = ml_maturity l
     \<and> ml_params l' = ml_params l \<and> ml_profile l' = ml_profile l"

lemma SnapshotForLedger_cong:
  assumes "same_state l l'" shows "SnapshotForLedger l' = SnapshotForLedger l"
proof -
  have "Balances (ml_assets l') = Balances (ml_assets l)"
    using assms by (intro Balances_eq) (simp add: same_state_def)
  with assms show ?thesis
    by (simp add: same_state_def SnapshotForLedger_def StateAccounts_def StateStakes_def StateCoinbases_def
        StateAssetDefinitions_def StateAssetBalances_def Definitions_def split: prod.splits)
qed

lemma SnapshotForLedger_refreshed: "SnapshotForLedger (refreshed l) = SnapshotForLedger l"
  by (simp add: SnapshotForLedger_def StateAccounts_def StateStakes_def StateCoinbases_def Records_def Let_def
      StateAssetDefinitions_def StateAssetBalances_def refreshed_def Refresh_Refresh split: prod.splits)

lemma rebuilt_coinbases:
  assumes "\<And>c. c \<in> set cs \<Longrightarrow> \<not> cb_Matured c"
  shows "map (\<lambda>c. \<lparr>cb_Address = sc_Address c, cb_Amount = sc_Amount c, cb_Height = sc_Height c, cb_Matured = False\<rparr>)
     (map (\<lambda>c. \<lparr>sc_Address = cb_Address c, sc_Amount = cb_Amount c, sc_Height = cb_Height c\<rparr>)
       (filter (\<lambda>c. \<not> cb_Matured c) cs)) = cs"
  using assms by (induction cs) (auto intro: coinbase_credit.equality)

lemma rebuilt_stakes:
  assumes "stakes_ok l"
  shows "fold ApplyRecord (fst (StateStakes l)) (NewStakeState (cp_Staking (ml_params l)))
    = RefreshReleased (ml_currentHeight l) (ml_stakes l)"
proof -
  let ?st = "RefreshReleased (ml_currentHeight l) (ml_stakes l)"
  have "fold ApplyRecord (map snd (sorted_list_of_fmap (ss_records ?st))) (NewStakeState (cp_Staking (ml_params l)))
      = \<lparr>ss_params = cp_Staking (ml_params l), ss_records = ss_records ?st\<rparr>"
    using assms by (intro replay_records) (auto simp: stakes_ok_def)
  also have "\<dots> = ?st" using assms by (intro stake_state.equality) (simp_all add: stakes_ok_def)
  finally show ?thesis by (simp add: StateStakes_def Records_def Let_def)
qed

lemma restore_same:
  assumes "ledger_ok l" and "FeePoolBalance l = 0" and "\<And>k. asset_Balance (ml_assets l) [] k = 0"
    and "nc_Name (ml_profile l) \<noteq> []" and "ml_maturity l = cp_CoinbaseMaturity (ml_params l)"
  shows "\<exists>l'. restore_snapshot (SnapshotForLedger l) (ml_params l) (ml_profile l) = Inr l'
    \<and> same_state (refreshed l) l' \<and> SnapshotForLedger l' = SnapshotForLedger l"
proof -
  note ok = ledger_okD [OF assms(1)]
  let ?st = "RefreshReleased (ml_currentHeight l) (ml_stakes l)"
  have enabled: "\<not> nc_TxVersion (ml_profile l) < TxVersionAsset" using ok(1) by (simp add: AssetModelEnabled_def)
  have native: "asset_Balance (ml_assets l) a NativeAssetID = ma_Confirmed (ml_account l a)" for a
    using assms(1, 2) ok(1) by (cases "a = FeeCollectorAddress") (auto simp: ledger_ok_def FeePoolBalance_def)
  obtain as where as: "Restore (Definitions (ml_assets l)) (Balances (ml_assets l)) NewAssetState = (None, as)"
    "as_assets as = as_assets (ml_assets l)" "asset_Balance as = asset_Balance (ml_assets l)"
    using Restore_lists [OF ok(2) assms(3)] by blast
  define r where "r = \<lparr>ml_accounts = ml_accounts l, ml_coinbases = ml_coinbases l, ml_maturity = ml_maturity l,
    ml_currentHeight = ml_currentHeight l, ml_stakes = ?st, ml_assets = as, ml_params = ml_params l,
    ml_profile = ml_profile l\<rparr>"
  have "fmlookup (ml_accounts l) a = Some m \<Longrightarrow> ma_Confirmed m = ma_Confirmed (ml_account l a)" for a m
    by (simp add: get_or_def)
  then have sync: "syncNativeAssetsFromAccounts r = r" by (intro sync_same) (simp add: r_def as native)
  have "restore_snapshot (SnapshotForLedger l) (ml_params l) (ml_profile l) = Inr (syncNativeAssetsFromAccounts r)"
    using as(1) enabled assms(4, 5) rebuilt_coinbases [OF ok(4)] stakes_sorted [OF ok(3)] rebuilt_stakes [OF ok(3)]
    by (simp add: restore_snapshot_def NewMatureFromStateWithAssets_def NewMatureFromState_def SnapshotForLedger_def
        StableDigestInputs_def NewMatureWithProfile_def Let_def accounts_sorted rebuilt_accounts StateCoinbases_def
        StateAssetDefinitions_def StateAssetBalances_def r_def)
  then have "restore_snapshot (SnapshotForLedger l) (ml_params l) (ml_profile l) = Inr r" by (simp add: sync)
  moreover have same: "same_state (refreshed l) r" by (simp add: same_state_def r_def as refreshed_def)
  ultimately show ?thesis
    using SnapshotForLedger_cong [OF same] SnapshotForLedger_refreshed [of l] by auto
qed

text \<open>
  A ledger survives its snapshot: when the books of the ledger are in order, its fees are settled and
  the empty address owns nothing, rebuilding it from its own snapshot succeeds and gives the same
  accounts, stakes, pending credits, asset definitions and balances, and hence the same snapshot and
  state root.
\<close>

theorem restore_snapshot_same:
  assumes "ledger_ok l" and "FeePoolBalance l = 0" and "\<And>k. asset_Balance (ml_assets l) [] k = 0"
    and "nc_Name (ml_profile l) \<noteq> []" and "ml_maturity l = cp_CoinbaseMaturity (ml_params l)"
  shows "\<exists>l'. restore_snapshot (SnapshotForLedger l) (ml_params l) (ml_profile l) = Inr l'
    \<and> same_state (refreshed l) l' \<and> SnapshotForLedger l' = SnapshotForLedger l"
  using restore_same [OF assms] .

end
