(* ===== verification/Chain_Scenarios.thy ===== *)
theory Chain_Scenarios
  imports Chain_Validity Restore
begin

text \<open>
  Concrete inputs for the properties of the chain and of the state: blocks without difficulty, chains of
  one block, an empty ledger, and a network with limits no block can exceed.
\<close>

definition no_ext :: ext where
  "no_ext = \<lparr>x_ripemd160 = (\<lambda>_. replicate 20 0), x_ParsePubKey = Some, x_ParseDERSignature = Some,
     x_Verify = (\<lambda>_ _ _. True)\<rparr>"

section \<open>Mining and difficulty\<close>

lemma easy_block: "MineWithContext (\<lambda>_. False) zero_block \<lparr>mo_MaxNonce = 5\<rparr>
    = Some (Inr (zero_block\<lparr>b_Hash := CalculateHash zero_block\<rparr>))"
  unfolding MineWithContext_def
  by (subst mine_loop.simps) (simp add: zero_block_def pow_target_def HasPrefix_def CalculateHash_def Let_def)

theorem MineWithContext_sound_witness: "ValidateProofOfWork (zero_block\<lparr>b_Hash := CalculateHash zero_block\<rparr>)"
  using MineWithContext_sound [OF easy_block] by simp

theorem MineWithContext_ends_witness:
  "\<exists>r. MineWithContext (\<lambda>_. False) (zero_block\<lparr>b_Difficulty := 64\<rparr>) \<lparr>mo_MaxNonce = 5\<rparr> = Some r"
  by (rule MineWithContext_ends) simp_all

definition tip_block :: block where
  "tip_block = zero_block\<lparr>b_Height := 1, b_Difficulty := 4\<rparr>"

lemma tip_fields: "b_Height tip_block = 1" "b_Difficulty tip_block = 4"
  by (simp_all add: tip_block_def)

definition open_params :: difficulty_params where
  "open_params = \<lparr>dp_InitialDifficulty = 4, dp_MinDifficulty = 1, dp_MaxDifficulty = 8,
     dp_TargetBlockTimeSeconds = 10, dp_RetargetWindow = 10, dp_MaxFutureDriftSeconds = 900\<rparr>"

lemma open_params_normal: "normalizeDifficultyParams open_params = open_params"
  by (simp add: normalizeDifficultyParams_def open_params_def)

theorem next_difficulty_range_witness:
  "unat (CalculateNextDifficultyWithParams [tip_block] open_params) \<le> Suc 4
   \<and> 4 \<le> Suc (unat (CalculateNextDifficultyWithParams [tip_block] open_params))"
  using next_difficulty_range [of "[tip_block]" open_params]
  by (simp add: tip_fields open_params_normal) (simp add: open_params_def)

section \<open>Locators\<close>

theorem BuildBlockLocator_ends_witness:
  "\<exists>l. BuildBlockLocator [tip_block] = Some l \<and> length l \<le> 66"
  using BuildBlockLocator_ends [of "[tip_block]"] by auto

theorem FindCommonAncestor_locator_witness:
  "\<exists>l e. BuildBlockLocator [zero_block] = Some l \<and> FindCommonAncestor [zero_block] l = Some e"
proof -
  obtain l where l: "BuildBlockLocator [zero_block] = Some l" using BuildBlockLocator_run [of "[zero_block]"] by auto
  have "fmlookup (by_height [zero_block]) 0 = Some []" by (simp add: by_height_def zero_block_def)
  from FindCommonAncestor_locator [OF l _ this this] l show ?thesis by auto
qed

section \<open>Valid chains\<close>

lemma genesis_valid:
  "ValidateChainWithNetwork no_ext 0 [GenesisBlockForNetwork Localnet] Localnet
    = Inr \<lparr>vr_Height = 0, vr_Blocks = 1, vr_TotalSupply = 0\<rparr>"
proof -
  have "CalculateHash (GenesisBlockForNetwork Localnet) = b_Hash (GenesisBlockForNetwork Localnet)"
    by (simp add: GenesisBlockForNetwork_def Let_def CalculateHash_def)
  then show ?thesis
    by (simp add: ValidateChainWithNetwork_def validateChain_def genesis_check_def Let_def TotalSupplyWithProfile_def)
qed

theorem ValidateChain_shape_witness:
  "b_Hash (GenesisBlockForNetwork Localnet) = CalculateHash (GenesisBlockForNetwork Localnet)"
  using ValidateChain_shape [OF genesis_valid] by auto

definition open_net :: network_config where
  "open_net = Localnet\<lparr>nc_BlockVersion := BlockVersionCanonical, nc_TxVersion := TxVersionAsset,
     nc_Consensus := (nc_Consensus Localnet)\<lparr>cp_MaxBlockBytes := max_u64, cp_MaxTxBytes := max_u64\<rparr>\<rparr>"

lemma open_net_fields: "nc_Name open_net \<noteq> []" "nc_TxVersion open_net = TxVersionAsset"
  "nc_BlockVersion open_net = BlockVersionCanonical" "cp_MaxBlockBytes (nc_Consensus open_net) = max_u64"
  by (simp_all add: open_net_def Localnet_def)

definition fresh_ledger :: mature_ledger where
  "fresh_ledger = NewMatureWithProfile (nc_Consensus open_net) open_net"

lemma fresh_ok: "ledger_ok fresh_ledger"
  using ledger_ok_new [of open_net "nc_Consensus open_net"] by (simp add: fresh_ledger_def open_net_fields)

lemma fresh_fields: "ml_coinbases fresh_ledger = []" "ml_currentHeight fresh_ledger = 0"
  "ml_assets fresh_ledger = NewAssetState" "ml_profile fresh_ledger = open_net"
  "ml_params fresh_ledger = nc_Consensus open_net" "ml_accounts fresh_ledger = fmempty"
  "ml_maturity fresh_ledger = cp_CoinbaseMaturity (nc_Consensus open_net)"
  by (simp_all add: fresh_ledger_def NewMatureWithProfile_def open_net_fields Let_def)

lemma fresh_balance: "asset_Balance NewAssetState a k = 0"
  by (simp add: asset_Balance_def NewAssetState_def)

lemma fresh_refreshed: "refreshed fresh_ledger = fresh_ledger"
  by (simp add: refreshed_def fresh_ledger_def NewMatureWithProfile_def Let_def RefreshReleased_def NewStakeState_def)

definition root_block :: block where
  "root_block =
    (let b = zero_block\<lparr>b_Version := 2, b_MerkleRoot := CalculateMerkleRoot [],
           b_StateRoot := fst (RootForLedger fresh_ledger)\<rparr>
     in b\<lparr>b_Hash := CalculateHash b\<rparr>)"

lemma root_block_fields: "b_Height root_block = 0" "b_Transactions root_block = []" "b_ProtocolVersion root_block = 2"
  "b_MerkleRoot root_block = CalculateMerkleRoot []" "b_StateRoot root_block = fst (RootForLedger fresh_ledger)"
  by (simp_all add: root_block_def zero_block_def b_ProtocolVersion_def Let_def)

lemma root_block_hash: "CalculateHash root_block = b_Hash root_block"
  by (simp add: root_block_def CalculateHash_def Let_def)

lemma root_block_applies: "mature_ApplyBlock X root_block fresh_ledger = (None, fresh_ledger)"
proof -
  have "fresh_ledger\<lparr>ml_currentHeight := 0\<rparr> = fresh_ledger" by (simp add: fresh_fields)
  then have "applyBlock X root_block fresh_ledger = (None, fresh_ledger)"
    by (simp add: applyBlock_def root_block_fields settleFees_def fresh_fields fresh_balance matureCoinbases_def Let_def)
  then show ?thesis
    using mature_Clone_eq [OF fresh_ok] ledger_okD(1) [OF fresh_ok]
    by (simp add: mature_ApplyBlock_def fresh_refreshed)
qed

lemma root_not_empty: "fst (RootForLedger l) \<noteq> []"
proof -
  have "length (fst (RootForLedger l)) = 64"
    by (simp add: RootForLedger_def RootForCollectionsWithAssets_def RootForCollections_def StableDigestInputs_def
        length_DoubleSHA256Hex split: prod.splits)
  then show ?thesis by auto
qed

lemma not_above_max: "\<not> max_u64 < x"
  by (simp add: max_u64_def not_less del: max_u64_numeral)

lemma max_u64_pos: "max_u64 \<noteq> 0"
  by simp

lemma root_block_valid: "ValidateBlockWithNetwork no_ext 0 root_block [] open_net = None"
proof -
  have "header_checks 0 root_block [] (nc_Difficulty open_net) open_net = None"
    using not_above_max
    by (simp add: header_checks_def root_block_fields root_block_hash max_u64_pos open_net_fields ValidateBlockVersion_def BlockVersionCanonical_def
        MaxSupportedBlockVersion_def ValidateBlockResourcesWithProfile_def validateBlockResources_def Let_def
        del: max_u64_numeral)
  moreover have "root_checks no_ext root_block fresh_ledger = None"
    using mature_Clone_eq [OF fresh_ok]
    by (simp add: root_checks_def fresh_refreshed root_block_applies root_block_fields root_not_empty)
  ultimately show ?thesis
    using mature_Clone_eq [OF fresh_ok]
    by (simp add: ValidateBlockWithNetwork_def validateBlock_def root_block_fields reward_checks_def
        ReplayMatureWithProfile_def fresh_refreshed flip: fresh_ledger_def)
qed


section \<open>The money supply and the state of small chains\<close>

lemma localnet_fresh_ok: "ledger_ok (NewMatureWithProfile (nc_Consensus Localnet) Localnet)"
  by (rule ledger_ok_new) (simp_all add: Localnet_def TxVersionAsset_def)

lemma genesis_replays:
  "\<exists>l. ReplayMatureWithProfile no_ext [GenesisBlockForNetwork Localnet] (nc_Consensus Localnet) Localnet = Inr l"
proof -
  let ?l = "NewMatureWithProfile (nc_Consensus Localnet) Localnet"
  let ?g = "GenesisBlockForNetwork Localnet"
  have g: "b_Transactions ?g = []" "b_Height ?g = 0"
    by (simp_all add: GenesisBlockForNetwork_def Let_def)
  have f: "ml_coinbases ?l = []" "ml_currentHeight ?l = 0" "ml_assets ?l = NewAssetState"
    by (simp_all add: NewMatureWithProfile_def Let_def)
  have "?l\<lparr>ml_currentHeight := 0\<rparr> = ?l" by (simp add: f)
  then have "applyBlock no_ext ?g ?l = (None, ?l)"
    by (simp add: applyBlock_def g settleFees_def f fresh_balance matureCoinbases_def Let_def)
  moreover have "refreshed ?l = ?l"
    by (simp add: refreshed_def NewMatureWithProfile_def Let_def RefreshReleased_def NewStakeState_def)
  ultimately have "mature_ApplyBlock no_ext ?g ?l = (None, ?l)"
    using mature_Clone_eq [OF localnet_fresh_ok] ledger_okD(1) [OF localnet_fresh_ok]
    by (simp add: mature_ApplyBlock_def)
  then show ?thesis by (simp add: ReplayMatureWithProfile_def)
qed

theorem valid_chain_supply_witness:
  "\<exists>l. ReplayMatureWithProfile no_ext [GenesisBlockForNetwork Localnet] (nc_Consensus Localnet) Localnet = Inr l
    \<and> confirmed_sum l + legacy_fees (concat (map b_Transactions [GenesisBlockForNetwork Localnet])) = 0"
proof -
  obtain l where l: "ReplayMatureWithProfile no_ext [GenesisBlockForNetwork Localnet] (nc_Consensus Localnet) Localnet = Inr l"
    using genesis_replays by auto
  have "nc_TxVersion Localnet \<ge> TxVersionAsset" "nc_Name Localnet \<noteq> []"
    by (simp_all add: Localnet_def TxVersionAsset_def)
  moreover have "b_Transactions (hd [GenesisBlockForNetwork Localnet]) = []"
    by (simp add: GenesisBlockForNetwork_def Let_def)
  ultimately show ?thesis using valid_chain_supply [OF genesis_valid l] l by auto
qed

definition account_a :: state_account where
  "account_a = \<lparr>sa_Address = ''a'', sa_Confirmed = 5, sa_Mature = 5, sa_Nonce = 1\<rparr>"

theorem root_order_free_witness:
  "RootForCollectionsWithAssets [account_a\<lparr>sa_Address := ''b''\<rparr>, account_a] [] [] []
   = RootForCollectionsWithAssets [account_a, account_a\<lparr>sa_Address := ''b''\<rparr>] [] [] []"
  using root_order_free [of "[account_a\<lparr>sa_Address := ''b''\<rparr>, account_a]" "[account_a, account_a\<lparr>sa_Address := ''b''\<rparr>]"
      "[]" "[]" "[]" "[]" "[]" "[]"] by (simp add: account_a_def)

theorem root_bytes_inject_witness: "asset_root_bytes [] [] [] [] \<noteq> root_bytes [] []"
  using root_bytes_inject [of "[]" "[]" "[]" "[]" "[]" "[]" "[]" "[]"] by (simp add: root_fits_def)

theorem restore_snapshot_same_witness:
  "\<exists>l'. restore_snapshot (SnapshotForLedger fresh_ledger) (ml_params fresh_ledger) (ml_profile fresh_ledger) = Inr l'
    \<and> same_state (refreshed fresh_ledger) l' \<and> SnapshotForLedger l' = SnapshotForLedger fresh_ledger"
  by (rule restore_snapshot_same [OF fresh_ok])
    (simp_all add: fresh_fields fresh_balance open_net_fields FeePoolBalance_def)

end
