(* ===== verification/Storage.thy ===== *)
theory Storage
  imports Snapshot
begin

text \<open>
  \<open>storage/bbolt.go\<close>: the blocks and the state in a bbolt database. bbolt is outside the repository: a
  bucket is an argument type, its operations are the record \<open>bolt\<close>, and the locale \<open>bolt_buckets\<close>
  states what its documentation promises of them. A bucket maps byte strings to values and is read in
  the order of its keys.

  A stored value is the struct whose JSON is stored: \<open>json.Unmarshal\<close> gives back what \<open>json.Marshal\<close> wrote,
  and on the JSON of another kind of struct the model returns an error. Keys and raw values are byte
  strings. Calling a method of a missing bucket panics; the model returns that panic as an error.

  \<open>db.View\<close> is a reading of the database. \<open>db.Update\<close> keeps the old database when its function or the
  commit fails.
\<close>

datatype stored =
  SBlock block | SAccount state_account | SStake stake_record | SAsset asset_definition
| SCredit state_coinbase | SRaw string

record 'b bolt =
  bolt_New :: 'b
  bolt_Get :: "'b \<Rightarrow> string \<Rightarrow> stored option"
  bolt_Put :: "string \<Rightarrow> stored \<Rightarrow> 'b \<Rightarrow> err + 'b"
  bolt_Delete :: "string \<Rightarrow> 'b \<Rightarrow> err + 'b"
  bolt_Pairs :: "'b \<Rightarrow> (string \<times> stored) list"
  bolt_DeleteFrom :: "string \<Rightarrow> 'b \<Rightarrow> err + 'b"
  bolt_Commit :: "err option"

text \<open>
  \<open>bolt_Pairs\<close> is what \<open>ForEach\<close> and a cursor see. \<open>bolt_DeleteFrom\<close> is the loop of \<open>replaceFromHeightTx\<close> that
  seeks a key with a cursor and deletes until the end; what a cursor does after a deletion is bbolt's.
\<close>

record 'b state_root =
  st_meta :: "'b option"
  st_accounts :: "'b option"
  st_stakes :: "'b option"
  st_stakesByOwner :: "'b option"
  st_coinbases :: "'b option"
  st_assets :: "'b option"
  st_balances :: "'b option"

record 'b bolt_db =
  db_blocks :: "'b option"
  db_meta :: "'b option"
  db_state :: "'b state_root option"

section \<open>Results\<close>

definition on_ok :: "err + 'a \<Rightarrow> ('a \<Rightarrow> err + 'c) \<Rightarrow> err + 'c" where
  "on_ok m f = (case m of Inl e \<Rightarrow> Inl e | Inr x \<Rightarrow> f x)"

definition unless_err :: "err option \<Rightarrow> err + 'a \<Rightarrow> err + 'a" where
  "unless_err c m = (case c of Some e \<Rightarrow> Inl e | None \<Rightarrow> m)"

definition err_of :: "err + 'a \<Rightarrow> err option" where
  "err_of m = (case m of Inl e \<Rightarrow> Some e | Inr _ \<Rightarrow> None)"

fun fold_ok :: "('x \<Rightarrow> 's \<Rightarrow> err + 's) \<Rightarrow> 'x list \<Rightarrow> 's \<Rightarrow> err + 's" where
  "fold_ok step [] s = Inr s"
| "fold_ok step (x # xs) s = on_ok (step x s) (fold_ok step xs)"

definition must :: "'b option \<Rightarrow> err + 'b" where
  "must b = (case b of None \<Rightarrow> Inl (Err ''panic: nil bucket'') | Some b \<Rightarrow> Inr b)"

definition ErrStateNotInitialized :: err where
  "ErrStateNotInitialized = Err ''state is not initialized''"

definition need :: "'b option \<Rightarrow> err + 'b" where
  "need b = (case b of None \<Rightarrow> Inl ErrStateNotInitialized | Some b \<Rightarrow> Inr b)"

definition chain_buckets :: "'b bolt_db \<Rightarrow> err + 'b \<times> 'b" where
  "chain_buckets db =
    (case (db_meta db, db_blocks db) of
       (Some meta, Some blocks) \<Rightarrow> Inr (meta, blocks)
     | _ \<Rightarrow> Inl (Err ''chain storage is not initialized''))"

section \<open>JSON and keys\<close>

definition json_mismatch :: err where
  "json_mismatch = Err ''json: cannot unmarshal''"

definition as_block :: "stored \<Rightarrow> err + block" where
  "as_block v = (case v of SBlock b \<Rightarrow> Inr b | _ \<Rightarrow> Inl json_mismatch)"

definition as_account :: "stored \<Rightarrow> err + state_account" where
  "as_account v = (case v of SAccount a \<Rightarrow> Inr a | _ \<Rightarrow> Inl json_mismatch)"

definition as_stake :: "stored \<Rightarrow> err + stake_record" where
  "as_stake v = (case v of SStake r \<Rightarrow> Inr r | _ \<Rightarrow> Inl json_mismatch)"

definition as_asset :: "stored \<Rightarrow> err + asset_definition" where
  "as_asset v = (case v of SAsset d \<Rightarrow> Inr d | _ \<Rightarrow> Inl json_mismatch)"

definition as_credit :: "stored \<Rightarrow> err + state_coinbase" where
  "as_credit v = (case v of SCredit c \<Rightarrow> Inr c | _ \<Rightarrow> Inl json_mismatch)"

text \<open>The bytes of a raw value; the JSON of a struct is never read as raw bytes.\<close>

definition raw_of :: "stored \<Rightarrow> string" where
  "raw_of v = (case v of SRaw s \<Rightarrow> s | _ \<Rightarrow> [])"

definition BigEndianUint64 :: "string \<Rightarrow> u64" where
  "BigEndianUint64 s = of_nat (be_nat (bytes_of (take 8 s)))"

definition heightKey :: "u64 \<Rightarrow> string" where
  "heightKey height = string_of (PutUint64 height)"

definition tipKey :: string where "tipKey = ''tip''"
definition stateVersionKey :: string where "stateVersionKey = ''version''"
definition stateHeightKey :: string where "stateHeightKey = ''height''"
definition stateRootKey :: string where "stateRootKey = ''root''"

definition stateAssetBalancePrefix :: "string \<Rightarrow> string" where
  "stateAssetBalancePrefix address = address @ [CHR 0x00]"

definition stateAssetBalanceKey :: "string \<Rightarrow> string \<Rightarrow> string" where
  "stateAssetBalanceKey address assetID = stateAssetBalancePrefix address @ assetID"

definition stateStakeOwnerPrefix :: "string \<Rightarrow> string" where
  "stateStakeOwnerPrefix address = address @ [CHR 0x00]"

definition stateStakeOwnerKey :: "string \<Rightarrow> string \<Rightarrow> string" where
  "stateStakeOwnerKey address stakeID = stateStakeOwnerPrefix address @ stakeID"

text \<open>
  The key cut at its first zero byte, and None where the code refuses it: no zero byte, or one at
  either end.
\<close>

definition split_key :: "string \<Rightarrow> (string \<times> string) option" where
  "split_key k =
    (let a = takeWhile (\<lambda>c. c \<noteq> CHR 0x00) k in
     if length a = length k \<or> a = [] \<or> length a = length k - 1 then None
     else Some (a, drop (length a + 1) k))"

section \<open>Transactions of the database\<close>

definition db_Update :: "'b bolt \<Rightarrow> ('b bolt_db \<Rightarrow> err + 'b bolt_db) \<Rightarrow> 'b bolt_db \<Rightarrow> err option \<times> 'b bolt_db" where
  "db_Update B f db =
    (case f db of
       Inl e \<Rightarrow> (Some e, db)
     | Inr db' \<Rightarrow> (case bolt_Commit B of Some e \<Rightarrow> (Some e, db) | None \<Rightarrow> (None, db')))"

definition created :: "'b bolt \<Rightarrow> 'b option \<Rightarrow> 'b option" where
  "created B b = Some (case b of None \<Rightarrow> bolt_New B | Some b \<Rightarrow> b)"

definition store_Init :: "'b bolt \<Rightarrow> 'b bolt_db \<Rightarrow> err option \<times> 'b bolt_db" where
  "store_Init B =
    db_Update B (\<lambda>db.
      let root = (case db_state db of
                    None \<Rightarrow> \<lparr>st_meta = None, st_accounts = None, st_stakes = None, st_stakesByOwner = None,
                             st_coinbases = None, st_assets = None, st_balances = None\<rparr>
                  | Some root \<Rightarrow> root) in
      Inr \<lparr>db_blocks = created B (db_blocks db), db_meta = created B (db_meta db),
           db_state = Some \<lparr>st_meta = created B (st_meta root), st_accounts = created B (st_accounts root),
             st_stakes = created B (st_stakes root), st_stakesByOwner = created B (st_stakesByOwner root),
             st_coinbases = created B (st_coinbases root), st_assets = created B (st_assets root),
             st_balances = created B (st_balances root)\<rparr>\<rparr>)"

section \<open>Reading the chain\<close>

definition store_HasChain :: "'b bolt \<Rightarrow> 'b bolt_db \<Rightarrow> err + bool" where
  "store_HasChain B db = on_ok (must (db_meta db)) (\<lambda>meta. Inr (bolt_Get B meta tipKey \<noteq> None))"

definition store_Blocks :: "'b bolt \<Rightarrow> 'b bolt_db \<Rightarrow> err + block list" where
  "store_Blocks B db =
    on_ok (must (db_blocks db)) (\<lambda>bucket.
      fold_ok (\<lambda>(_, v) blocks. on_ok (as_block v) (\<lambda>block. Inr (blocks @ [block]))) (bolt_Pairs B bucket) [])"

definition store_Tip :: "'b bolt \<Rightarrow> 'b bolt_db \<Rightarrow> err + block" where
  "store_Tip B db =
    on_ok (must (db_meta db)) (\<lambda>meta.
      case bolt_Get B meta tipKey of
        None \<Rightarrow> Inl (Err ''chain is not initialized'')
      | Some key \<Rightarrow>
          on_ok (must (db_blocks db)) (\<lambda>blocks.
            case bolt_Get B blocks (raw_of key) of
              None \<Rightarrow> Inl (Err ''tip block not found'')
            | Some raw \<Rightarrow> as_block raw))"

definition store_GetBlockByHeight :: "'b bolt \<Rightarrow> u64 \<Rightarrow> 'b bolt_db \<Rightarrow> err + block" where
  "store_GetBlockByHeight B height db =
    on_ok (must (db_blocks db)) (\<lambda>blocks.
      case bolt_Get B blocks (heightKey height) of
        None \<Rightarrow> Inl (Err ''block not found'')
      | Some raw \<Rightarrow> as_block raw)"

definition store_GetHeight :: "'b bolt \<Rightarrow> 'b bolt_db \<Rightarrow> err + u64" where
  "store_GetHeight B db = on_ok (store_Tip B db) (\<lambda>block. Inr (b_Height block))"

definition store_GetTip :: "'b bolt \<Rightarrow> 'b bolt_db \<Rightarrow> err + u64 \<times> string" where
  "store_GetTip B db = on_ok (store_Tip B db) (\<lambda>block. Inr (b_Height block, b_Hash block))"

section \<open>Saving the state\<close>

fun delete_keys :: "'b bolt \<Rightarrow> string list \<Rightarrow> 'b \<Rightarrow> err + 'b" where
  "delete_keys B [] b = Inr b"
| "delete_keys B (k # ks) b = on_ok (bolt_Delete B k b) (delete_keys B ks)"

definition clearBucket :: "'b bolt \<Rightarrow> 'b \<Rightarrow> err + 'b" where
  "clearBucket B b = delete_keys B (map fst (bolt_Pairs B b)) b"

text \<open>The seven buckets of the state, all present.\<close>

definition state_buckets :: "'b bolt_db \<Rightarrow> err + 'b \<times> 'b \<times> 'b \<times> 'b \<times> 'b \<times> 'b \<times> 'b" where
  "state_buckets db =
    on_ok (need (db_state db)) (\<lambda>root.
      on_ok (need (st_meta root)) (\<lambda>meta. on_ok (need (st_accounts root)) (\<lambda>accounts.
      on_ok (need (st_stakes root)) (\<lambda>stakes. on_ok (need (st_stakesByOwner root)) (\<lambda>owner.
      on_ok (need (st_coinbases root)) (\<lambda>coinbases. on_ok (need (st_assets root)) (\<lambda>assets.
      on_ok (need (st_balances root)) (\<lambda>balances.
        Inr (meta, accounts, stakes, owner, coinbases, assets, balances)))))))))"

definition with_state :: "'b \<times> 'b \<times> 'b \<times> 'b \<times> 'b \<times> 'b \<times> 'b \<Rightarrow> 'b bolt_db \<Rightarrow> 'b bolt_db" where
  "with_state s db =
    (case s of (meta, accounts, stakes, owner, coinbases, assets, balances) \<Rightarrow>
       db\<lparr>db_state := Some \<lparr>st_meta = Some meta, st_accounts = Some accounts, st_stakes = Some stakes,
         st_stakesByOwner = Some owner, st_coinbases = Some coinbases, st_assets = Some assets,
         st_balances = Some balances\<rparr>\<rparr>)"

definition clear_state :: "'b bolt \<Rightarrow> 'b \<times> 'b \<times> 'b \<times> 'b \<times> 'b \<times> 'b \<times> 'b \<Rightarrow> err + 'b \<times> 'b \<times> 'b \<times> 'b \<times> 'b \<times> 'b \<times> 'b" where
  "clear_state B s =
    (case s of (meta, accounts, stakes, owner, coinbases, assets, balances) \<Rightarrow>
      on_ok (clearBucket B meta) (\<lambda>meta. on_ok (clearBucket B accounts) (\<lambda>accounts.
      on_ok (clearBucket B stakes) (\<lambda>stakes. on_ok (clearBucket B owner) (\<lambda>owner.
      on_ok (clearBucket B coinbases) (\<lambda>coinbases. on_ok (clearBucket B assets) (\<lambda>assets.
      on_ok (clearBucket B balances) (\<lambda>balances.
        Inr (meta, accounts, stakes, owner, coinbases, assets, balances)))))))))"

definition put_account :: "'b bolt \<Rightarrow> state_account \<Rightarrow> 'b \<Rightarrow> err + 'b" where
  "put_account B a = bolt_Put B (sa_Address a) (SAccount a)"

definition put_stake :: "'b bolt \<Rightarrow> stake_record \<Rightarrow> 'b \<times> 'b \<Rightarrow> err + 'b \<times> 'b" where
  "put_stake B r = (\<lambda>(stakes, owner).
    on_ok (bolt_Put B (sr_StakeID r) (SStake r) stakes) (\<lambda>stakes.
      on_ok (bolt_Put B (stateStakeOwnerKey (sr_OwnerAddress r) (sr_StakeID r)) (SStake r) owner) (\<lambda>owner.
        Inr (stakes, owner))))"

definition put_asset :: "'b bolt \<Rightarrow> asset_definition \<Rightarrow> 'b \<Rightarrow> err + 'b" where
  "put_asset B d = bolt_Put B (def_ID d) (SAsset d)"

definition put_balance :: "'b bolt \<Rightarrow> balance_entry \<Rightarrow> 'b \<Rightarrow> err + 'b" where
  "put_balance B e =
     bolt_Put B (stateAssetBalanceKey (be_Address e) (be_AssetID e)) (SRaw (heightKey (be_Amount e)))"

definition put_credit :: "'b bolt \<Rightarrow> state_coinbase \<Rightarrow> 'b \<Rightarrow> err + 'b" where
  "put_credit B c b =
    (if bolt_Get B b (heightKey (sc_Height c)) \<noteq> None then Inl (Err ''duplicate pending coinbase height'')
     else bolt_Put B (heightKey (sc_Height c)) (SCredit c) b)"

definition put_meta :: "'b bolt \<Rightarrow> snapshot \<Rightarrow> 'b \<Rightarrow> err + 'b" where
  "put_meta B s meta =
    on_ok (bolt_Put B stateVersionKey (SRaw (string_of [sn_Version s])) meta) (\<lambda>meta.
    on_ok (bolt_Put B stateHeightKey (SRaw (heightKey (sn_Height s))) meta) (\<lambda>meta.
      bolt_Put B stateRootKey (SRaw (sn_StateRoot s)) meta))"

definition saveStateTx :: "'b bolt \<Rightarrow> snapshot \<Rightarrow> 'b bolt_db \<Rightarrow> err + 'b bolt_db" where
  "saveStateTx B s db =
    unless_err (snapshot_Validate s) (
      on_ok (state_buckets db) (\<lambda>buckets.
      on_ok (clear_state B buckets) (\<lambda>(meta, accounts, stakes, owner, coinbases, assets, balances).
      on_ok (put_meta B s meta) (\<lambda>meta.
      on_ok (fold_ok (put_account B) (sn_Accounts s) accounts) (\<lambda>accounts.
      on_ok (fold_ok (put_stake B) (sn_Stakes s) (stakes, owner)) (\<lambda>(stakes, owner).
      on_ok (fold_ok (put_asset B) (sn_Assets s) assets) (\<lambda>assets.
      on_ok (fold_ok (put_balance B) (sn_AssetBalances s) balances) (\<lambda>balances.
      on_ok (fold_ok (put_credit B) (sn_Coinbases s) coinbases) (\<lambda>coinbases.
        Inr (with_state (meta, accounts, stakes, owner, coinbases, assets, balances) db))))))))))"

definition validateStateAgainstCanonicalTipTx :: "'b bolt \<Rightarrow> snapshot \<Rightarrow> 'b bolt_db \<Rightarrow> err option" where
  "validateStateAgainstCanonicalTipTx B s db =
    (case chain_buckets db of
       Inl e \<Rightarrow> Some e
     | Inr (meta, blocks) \<Rightarrow>
     (case bolt_Get B meta tipKey of
        None \<Rightarrow> None
      | Some key \<Rightarrow>
      (case bolt_Get B blocks (raw_of key) of
         None \<Rightarrow> Some (Err ''chain tip block is missing'')
       | Some raw \<Rightarrow>
       (case as_block raw of
          Inl e \<Rightarrow> Some e
        | Inr tip \<Rightarrow>
            if sn_Height s \<noteq> b_Height tip then Some (Err ''state height does not match canonical tip'')
            else if b_StateRoot tip \<noteq> [] \<and> sn_StateRoot s \<noteq> b_StateRoot tip then
              Some (Err ''state root does not match canonical tip'')
            else None))))"

definition store_SaveState :: "'b bolt \<Rightarrow> snapshot \<Rightarrow> 'b bolt_db \<Rightarrow> err option \<times> 'b bolt_db" where
  "store_SaveState B s db =
    (case snapshot_Validate s of
       Some e \<Rightarrow> (Some e, db)
     | None \<Rightarrow>
         db_Update B (\<lambda>db. unless_err (validateStateAgainstCanonicalTipTx B s db) (saveStateTx B s db)) db)"

definition store_DeleteState :: "'b bolt \<Rightarrow> 'b bolt_db \<Rightarrow> err option \<times> 'b bolt_db" where
  "store_DeleteState B =
    db_Update B (\<lambda>db. on_ok (state_buckets db) (\<lambda>buckets.
      on_ok (clear_state B buckets) (\<lambda>buckets. Inr (with_state buckets db))))"

section \<open>Loading the state\<close>

definition meta_value :: "'b bolt \<Rightarrow> 'b \<Rightarrow> string \<Rightarrow> string" where
  "meta_value B meta key = (case bolt_Get B meta key of None \<Rightarrow> [] | Some v \<Rightarrow> raw_of v)"

definition meta_complete :: "'b bolt \<Rightarrow> 'b \<Rightarrow> bool" where
  "meta_complete B meta \<longleftrightarrow> length (meta_value B meta stateVersionKey) = 1
     \<and> length (meta_value B meta stateHeightKey) = 8 \<and> meta_value B meta stateRootKey \<noteq> []"

definition store_GetStateMetadata :: "'b bolt \<Rightarrow> 'b bolt_db \<Rightarrow> err + u8 \<times> u64 \<times> string" where
  "store_GetStateMetadata B db =
    on_ok (need (db_state db)) (\<lambda>root. on_ok (need (st_meta root)) (\<lambda>meta.
      if \<not> meta_complete B meta then Inl ErrStateNotInitialized
      else Inr (hd (bytes_of (meta_value B meta stateVersionKey)),
                BigEndianUint64 (meta_value B meta stateHeightKey), meta_value B meta stateRootKey)))"

definition load_account :: "string \<times> stored \<Rightarrow> state_account list \<Rightarrow> err + state_account list" where
  "load_account = (\<lambda>(k, v) accounts.
    on_ok (as_account v) (\<lambda>account.
      if sa_Address account \<noteq> k then Inl (Err ''state account key mismatch'') else Inr (accounts @ [account])))"

definition load_asset :: "string \<times> stored \<Rightarrow> asset_definition list \<Rightarrow> err + asset_definition list" where
  "load_asset = (\<lambda>(k, v) assets.
    on_ok (as_asset v) (\<lambda>d.
      if def_ID d \<noteq> k then Inl (Err ''state asset key mismatch'') else Inr (assets @ [d])))"

definition load_balance :: "string \<times> stored \<Rightarrow> balance_entry list \<Rightarrow> err + balance_entry list" where
  "load_balance = (\<lambda>(k, v) balances.
    case split_key k of
      None \<Rightarrow> Inl (Err ''invalid state asset balance key'')
    | Some (address, assetID) \<Rightarrow>
        if length (raw_of v) \<noteq> 8 then Inl (Err ''state asset balance encoding mismatch'')
        else Inr (balances @ [\<lparr>be_Address = address, be_AssetID = assetID, be_Amount = BigEndianUint64 (raw_of v)\<rparr>]))"

definition load_stake :: "string \<times> stored \<Rightarrow> stake_record list \<Rightarrow> err + stake_record list" where
  "load_stake = (\<lambda>(k, v) stakes.
    on_ok (as_stake v) (\<lambda>r.
      if sr_StakeID r \<noteq> k then Inl (Err ''state stake key mismatch'') else Inr (stakes @ [r])))"

definition load_credit :: "string \<times> stored \<Rightarrow> state_coinbase list \<Rightarrow> err + state_coinbase list" where
  "load_credit = (\<lambda>(k, v) coinbases.
    if length k \<noteq> 8 then Inl (Err ''state coinbase key length mismatch'')
    else on_ok (as_credit v) (\<lambda>credit.
      if BigEndianUint64 k \<noteq> sc_Height credit then Inl (Err ''state coinbase key mismatch'')
      else Inr (coinbases @ [credit])))"

definition store_LoadState :: "'b bolt \<Rightarrow> 'b bolt_db \<Rightarrow> err + snapshot" where
  "store_LoadState B db =
    on_ok (need (db_state db)) (\<lambda>root.
    on_ok (need (st_meta root)) (\<lambda>meta. on_ok (need (st_accounts root)) (\<lambda>accountsBucket.
    on_ok (need (st_stakes root)) (\<lambda>stakesBucket. on_ok (need (st_coinbases root)) (\<lambda>coinbasesBucket.
    on_ok (need (st_assets root)) (\<lambda>assetsBucket. on_ok (need (st_balances root)) (\<lambda>balancesBucket.
    if \<not> meta_complete B meta then Inl ErrStateNotInitialized
    else
    on_ok (fold_ok load_account (bolt_Pairs B accountsBucket) []) (\<lambda>accounts.
    on_ok (fold_ok load_asset (bolt_Pairs B assetsBucket) []) (\<lambda>assets.
    on_ok (fold_ok load_balance (bolt_Pairs B balancesBucket) []) (\<lambda>balances.
    on_ok (fold_ok load_stake (bolt_Pairs B stakesBucket) []) (\<lambda>stakes.
    on_ok (fold_ok load_credit (bolt_Pairs B coinbasesBucket) []) (\<lambda>coinbases.
      let s = \<lparr>sn_Version = hd (bytes_of (meta_value B meta stateVersionKey)),
               sn_Height = BigEndianUint64 (meta_value B meta stateHeightKey),
               sn_StateRoot = meta_value B meta stateRootKey, sn_Accounts = accounts, sn_Stakes = stakes,
               sn_Coinbases = coinbases, sn_Assets = assets, sn_AssetBalances = balances\<rparr> in
      unless_err (snapshot_Validate s) (Inr s)))))))))))))"

section \<open>Queries of the state\<close>

text \<open>The state bucket and its meta bucket with the three keys present.\<close>

definition ready_state :: "'b bolt \<Rightarrow> 'b bolt_db \<Rightarrow> err + 'b state_root" where
  "ready_state B db =
    on_ok (need (db_state db)) (\<lambda>root. on_ok (need (st_meta root)) (\<lambda>meta.
      if bolt_Get B meta stateVersionKey = None \<or> bolt_Get B meta stateHeightKey = None
         \<or> bolt_Get B meta stateRootKey = None then Inl ErrStateNotInitialized
      else Inr root))"

text \<open>The result None is the zero value with \<open>found\<close> false.\<close>

definition store_GetStateAccount :: "'b bolt \<Rightarrow> string \<Rightarrow> 'b bolt_db \<Rightarrow> err + state_account option" where
  "store_GetStateAccount B address db =
    on_ok (ready_state B db) (\<lambda>root. on_ok (need (st_accounts root)) (\<lambda>bucket.
      case bolt_Get B bucket address of
        None \<Rightarrow> Inr None
      | Some raw \<Rightarrow>
          on_ok (as_account raw) (\<lambda>account.
            if sa_Address account \<noteq> address then Inl (Err ''state account key mismatch'') else Inr (Some account))))"

definition store_GetStateAsset :: "'b bolt \<Rightarrow> string \<Rightarrow> 'b bolt_db \<Rightarrow> err + asset_definition option" where
  "store_GetStateAsset B assetID db =
    on_ok (ready_state B db) (\<lambda>root. on_ok (need (st_assets root)) (\<lambda>bucket.
      case bolt_Get B bucket assetID of
        None \<Rightarrow> Inr None
      | Some raw \<Rightarrow>
          on_ok (as_asset raw) (\<lambda>d.
            if def_ID d \<noteq> assetID then Inl (Err ''state asset key mismatch'') else Inr (Some d))))"

definition store_GetStateStake :: "'b bolt \<Rightarrow> string \<Rightarrow> 'b bolt_db \<Rightarrow> err + stake_record option" where
  "store_GetStateStake B stakeID db =
    on_ok (ready_state B db) (\<lambda>root. on_ok (need (st_stakes root)) (\<lambda>bucket.
      case bolt_Get B bucket stakeID of
        None \<Rightarrow> Inr None
      | Some raw \<Rightarrow>
          on_ok (as_stake raw) (\<lambda>r.
            if sr_StakeID r \<noteq> stakeID then Inl (Err ''state stake key mismatch'') else Inr (Some r))))"

definition store_GetStateAssetBalance :: "'b bolt \<Rightarrow> string \<Rightarrow> string \<Rightarrow> 'b bolt_db \<Rightarrow> err + u64 option" where
  "store_GetStateAssetBalance B address assetID db =
    on_ok (ready_state B db) (\<lambda>root. on_ok (need (st_balances root)) (\<lambda>bucket.
      case bolt_Get B bucket (stateAssetBalanceKey address assetID) of
        None \<Rightarrow> Inr None
      | Some raw \<Rightarrow>
          if length (raw_of raw) \<noteq> 8 then Inl (Err ''state asset balance encoding mismatch'')
          else Inr (Some (BigEndianUint64 (raw_of raw)))))"

text \<open>What a cursor passes from the first key at or after a prefix while the keys have it.\<close>

definition scan_prefix :: "'b bolt \<Rightarrow> string \<Rightarrow> 'b \<Rightarrow> (string \<times> stored) list" where
  "scan_prefix B pre b =
     takeWhile (\<lambda>(k, _). HasPrefix k pre) (dropWhile (\<lambda>(k, _). k < pre) (bolt_Pairs B b))"

definition store_GetStateAssetBalancesForAddress ::
  "'b bolt \<Rightarrow> string \<Rightarrow> 'b bolt_db \<Rightarrow> err + balance_entry list" where
  "store_GetStateAssetBalancesForAddress B address db =
    on_ok (ready_state B db) (\<lambda>root. on_ok (need (st_balances root)) (\<lambda>bucket.
      let pre = stateAssetBalancePrefix address in
      fold_ok (\<lambda>(k, raw) entries.
          if length (raw_of raw) \<noteq> 8 then Inl (Err ''state asset balance encoding mismatch'')
          else let assetID = drop (length pre) k in
            if assetID = [] then Inl (Err ''invalid state asset balance key'')
            else Inr (entries @ [\<lparr>be_Address = address, be_AssetID = assetID,
                                  be_Amount = BigEndianUint64 (raw_of raw)\<rparr>]))
        (scan_prefix B pre bucket) []))"

definition store_GetStateStakesForAddress :: "'b bolt \<Rightarrow> string \<Rightarrow> 'b bolt_db \<Rightarrow> err + stake_record list" where
  "store_GetStateStakesForAddress B address db =
    on_ok (ready_state B db) (\<lambda>root. on_ok (need (st_stakesByOwner root)) (\<lambda>bucket.
      fold_ok (\<lambda>(k, v) records.
          on_ok (as_stake v) (\<lambda>r.
            if sr_OwnerAddress r \<noteq> address then Inl (Err ''state owner stake index mismatch'')
            else Inr (records @ [r])))
        (scan_prefix B (stateStakeOwnerPrefix address) bucket) []))"

end
