(* ===== verification/Store_Commit.thy ===== *)
theory Store_Commit
  imports Storage
begin

text \<open>
  \<open>storage/bbolt.go\<close>, second part: the checks of the stored state and the operations that change the chain.
  Main results, in the theories built on this one: the stored chain has no gaps, and a commit of a block
  with its state is read back.
\<close>

section \<open>Checks\<close>

definition tip_state_check :: "'b bolt \<Rightarrow> 'b \<Rightarrow> block \<Rightarrow> err option" where
  "tip_state_check B stateMeta tip =
    (if length (meta_value B stateMeta stateHeightKey) \<noteq> 8 \<or> meta_value B stateMeta stateRootKey = [] then
       Some ErrStateNotInitialized
     else if BigEndianUint64 (meta_value B stateMeta stateHeightKey) \<noteq> b_Height tip then
       Some (Err ''chain tip/state height mismatch'')
     else if b_StateRoot tip \<noteq> [] \<and> meta_value B stateMeta stateRootKey \<noteq> b_StateRoot tip then
       Some (Err ''chain tip/state root mismatch'')
     else None)"

definition validateTipStateConsistencyTx :: "'b bolt \<Rightarrow> block \<Rightarrow> 'b bolt_db \<Rightarrow> err option" where
  "validateTipStateConsistencyTx B tip db =
    (case on_ok (need (db_state db)) (\<lambda>root. need (st_meta root)) of
       Inl e \<Rightarrow> Some e
     | Inr meta \<Rightarrow> tip_state_check B meta tip)"

definition store_ValidateChainStateConsistency :: "'b bolt \<Rightarrow> 'b bolt_db \<Rightarrow> err option" where
  "store_ValidateChainStateConsistency B db =
    (case (db_meta db, db_blocks db, db_state db) of
       (Some meta, Some blocks, Some root) \<Rightarrow>
         (case bolt_Get B meta tipKey of
            None \<Rightarrow> Some (Err ''chain tip is not initialized'')
          | Some key \<Rightarrow>
          (case bolt_Get B blocks (raw_of key) of
             None \<Rightarrow> Some (Err ''chain tip block is missing'')
           | Some rawBlock \<Rightarrow>
           (case as_block rawBlock of
              Inl e \<Rightarrow> Some e
            | Inr tip \<Rightarrow>
            (case need (st_meta root) of
               Inl e \<Rightarrow> Some e
             | Inr stateMeta \<Rightarrow> tip_state_check B stateMeta tip))))
     | _ \<Rightarrow> Some (Err ''chain/state storage is not initialized''))"

text \<open>The callbacks of \<open>ValidateStateIndexes\<close>, one per bucket.\<close>

definition index_asset :: "string \<times> stored \<Rightarrow> string set \<Rightarrow> err + string set" where
  "index_asset = (\<lambda>(k, v) assetIDs.
    on_ok (as_asset v) (\<lambda>d.
      if def_ID d \<noteq> k then Inl (Err ''state asset key mismatch'')
      else if IsNative (def_ID d) then
        (if def_ID d \<noteq> NativeAssetID \<or> def_Symbol d \<noteq> NativeAssetSymbol \<or> def_Decimals d \<noteq> NativeAssetDecimals then
           Inl (Err ''invalid persisted native dIDR definition'')
         else Inr (insert (def_ID d) assetIDs))
      else unless_err (ValidateDefinition d) (Inr (insert (def_ID d) assetIDs))))"

definition index_balance :: "string set \<Rightarrow> string \<times> stored \<Rightarrow> (string, u64) fmap \<Rightarrow> err + (string, u64) fmap" where
  "index_balance assetIDs = (\<lambda>(k, v) nativeBalances.
    case split_key k of
      None \<Rightarrow> Inl (Err ''invalid state asset balance key'')
    | Some (address, assetID) \<Rightarrow>
        if assetID \<notin> assetIDs then Inl (Err ''state asset balance references unknown asset'')
        else if length (raw_of v) \<noteq> 8 \<or> BigEndianUint64 (raw_of v) = 0 then
          Inl (Err ''invalid persisted asset balance'')
        else Inr (if IsNative assetID then fmupd address (BigEndianUint64 (raw_of v)) nativeBalances
                  else nativeBalances))"

definition index_account :: "(string, u64) fmap \<Rightarrow> string \<times> stored \<Rightarrow> unit \<Rightarrow> err + unit" where
  "index_account nativeBalances = (\<lambda>(k, v) _.
    on_ok (as_account v) (\<lambda>account.
      if sa_Address account \<noteq> k then Inl (Err ''state account key mismatch'')
      else if get_or 0 nativeBalances (sa_Address account) \<noteq> sa_Confirmed account then
        Inl (Err ''persisted native dIDR/account balance mismatch'')
      else Inr ()))"

definition index_stake :: "'b bolt \<Rightarrow> 'b \<Rightarrow> string \<times> stored \<Rightarrow> nat \<Rightarrow> err + nat" where
  "index_stake B ownerIndex = (\<lambda>(k, v) stakeCount.
    on_ok (as_stake v) (\<lambda>r.
      if sr_StakeID r \<noteq> k then Inl (Err ''state stake key mismatch'')
      else if bolt_Get B ownerIndex (stateStakeOwnerKey (sr_OwnerAddress r) (sr_StakeID r)) \<noteq> Some v then
        Inl (Err ''state stake owner index mismatch'')
      else Inr (stakeCount + 1)))"

definition index_owner :: "'b bolt \<Rightarrow> 'b \<Rightarrow> string \<times> stored \<Rightarrow> nat \<Rightarrow> err + nat" where
  "index_owner B stakes = (\<lambda>(k, v) ownerCount.
    case split_key k of
      None \<Rightarrow> Inl (Err ''invalid state stake owner index key'')
    | Some (address, stakeID) \<Rightarrow>
        if bolt_Get B stakes stakeID \<noteq> Some v then Inl (Err ''state stake owner index target mismatch'')
        else on_ok (as_stake v) (\<lambda>r.
          if sr_OwnerAddress r \<noteq> address \<or> sr_StakeID r \<noteq> stakeID then
            Inl (Err ''state stake owner index identity mismatch'')
          else Inr (ownerCount + 1)))"

definition index_credit :: "string \<times> stored \<Rightarrow> unit \<Rightarrow> err + unit" where
  "index_credit = (\<lambda>(k, v) _.
    if length k \<noteq> 8 then Inl (Err ''state coinbase key length mismatch'')
    else on_ok (as_credit v) (\<lambda>credit.
      if BigEndianUint64 k \<noteq> sc_Height credit then Inl (Err ''state coinbase key mismatch'')
      else if sc_Address credit = [] \<or> sc_Amount credit = 0 then Inl (Err ''invalid persisted coinbase state'')
      else Inr ()))"

definition store_ValidateStateIndexes :: "'b bolt \<Rightarrow> 'b bolt_db \<Rightarrow> err option" where
  "store_ValidateStateIndexes B db =
    err_of (
      on_ok (need (db_state db)) (\<lambda>root.
      on_ok (need (st_accounts root)) (\<lambda>accounts. on_ok (need (st_stakes root)) (\<lambda>stakes.
      on_ok (need (st_stakesByOwner root)) (\<lambda>ownerIndex. on_ok (need (st_coinbases root)) (\<lambda>coinbases.
      on_ok (need (st_assets root)) (\<lambda>assets. on_ok (need (st_balances root)) (\<lambda>assetBalances.
      on_ok (fold_ok index_asset (bolt_Pairs B assets) {}) (\<lambda>assetIDs.
      on_ok (fold_ok (index_balance assetIDs) (bolt_Pairs B assetBalances) fmempty) (\<lambda>nativeBalances.
      on_ok (fold_ok (index_account nativeBalances) (bolt_Pairs B accounts) ()) (\<lambda>_.
      on_ok (fold_ok (index_stake B ownerIndex) (bolt_Pairs B stakes) 0) (\<lambda>stakeCount.
      on_ok (fold_ok (index_owner B stakes) (bolt_Pairs B ownerIndex) 0) (\<lambda>ownerCount.
      if stakeCount \<noteq> ownerCount then Inl (Err ''state stake owner index count mismatch'')
      else fold_ok index_credit (bolt_Pairs B coinbases) ())))))))))))))"

definition store_ValidateStartupIntegrity :: "'b bolt \<Rightarrow> 'b bolt_db \<Rightarrow> err option" where
  "store_ValidateStartupIntegrity B db =
    (case store_HasChain B db of
       Inl e \<Rightarrow> Some e
     | Inr hasChain \<Rightarrow>
     if \<not> hasChain then None
     else case store_ValidateChainStateConsistency B db of
       Some e \<Rightarrow> Some e
     | None \<Rightarrow>
     (case store_ValidateStateIndexes B db of
        Some e \<Rightarrow> Some e
      | None \<Rightarrow>
      (case store_LoadState B db of
         Inl e \<Rightarrow> Some e
       | Inr _ \<Rightarrow> err_of (store_GetStateMetadata B db))))"

section \<open>Committing a block\<close>

definition validateBlockStatePair :: "block \<Rightarrow> snapshot \<Rightarrow> err option" where
  "validateBlockStatePair block s =
    (case snapshot_Validate s of
       Some e \<Rightarrow> Some e
     | None \<Rightarrow>
     if sn_Height s \<noteq> b_Height block then Some (Err ''state snapshot height does not match block height'')
     else if b_ProtocolVersion block = BlockVersionCanonical
         \<and> (b_StateRoot block = [] \<or> b_StateRoot block \<noteq> sn_StateRoot s) then
       Some (Err ''block state root does not match persisted state'')
     else None)"

definition validateCanonicalCommitPreconditionsTx :: "'b bolt \<Rightarrow> block \<Rightarrow> 'b bolt_db \<Rightarrow> err option" where
  "validateCanonicalCommitPreconditionsTx B block db =
    (case chain_buckets db of
       Inl e \<Rightarrow> Some e
     | Inr (meta, blocks) \<Rightarrow>
     let tip = bolt_Get B meta tipKey in
     if b_Height block = 0 then
       (if tip \<noteq> None then Some (Err ''genesis commit attempted on initialized chain'') else None)
     else case tip of
       None \<Rightarrow> Some (Err ''non-genesis commit requires existing chain tip'')
     | Some tip \<Rightarrow>
     (case bolt_Get B blocks (raw_of tip) of
        None \<Rightarrow> Some (Err ''chain tip block missing'')
      | Some raw \<Rightarrow>
      (case as_block raw of
         Inl e \<Rightarrow> Some e
       | Inr tipBlock \<Rightarrow>
           if b_Height tipBlock = max_u64 \<or> b_Height tipBlock + 1 \<noteq> b_Height block then
             Some (Err ''block height is not the next canonical height'')
           else if b_Hash tipBlock = [] \<or> b_PreviousHash block \<noteq> b_Hash tipBlock then
             Some (Err ''block predecessor does not match canonical tip'')
           else None)))"

definition put_tip :: "'b bolt \<Rightarrow> block \<Rightarrow> 'b bolt_db \<Rightarrow> err + 'b bolt_db" where
  "put_tip B block db =
    on_ok (must (db_blocks db)) (\<lambda>blocks.
    on_ok (bolt_Put B (heightKey (b_Height block)) (SBlock block) blocks) (\<lambda>blocks.
    on_ok (must (db_meta db)) (\<lambda>meta.
    on_ok (bolt_Put B tipKey (SRaw (heightKey (b_Height block))) meta) (\<lambda>meta.
      Inr (db\<lparr>db_blocks := Some blocks, db_meta := Some meta\<rparr>)))))"

definition store_SaveBlock :: "'b bolt \<Rightarrow> block \<Rightarrow> 'b bolt_db \<Rightarrow> err option \<times> 'b bolt_db" where
  "store_SaveBlock B block =
    db_Update B (\<lambda>db. unless_err (validateCanonicalCommitPreconditionsTx B block db) (put_tip B block db))"

definition store_SaveBlockAndState :: "'b bolt \<Rightarrow> block \<Rightarrow> snapshot \<Rightarrow> 'b bolt_db \<Rightarrow> err option \<times> 'b bolt_db" where
  "store_SaveBlockAndState B block s db =
    (case validateBlockStatePair block s of
       Some e \<Rightarrow> (Some e, db)
     | None \<Rightarrow>
     (case validateCanonicalCommitPreconditionsTx B block db of
        Some e \<Rightarrow> (Some e, db)
      | None \<Rightarrow>
          db_Update B (\<lambda>db.
            unless_err (validateCanonicalCommitPreconditionsTx B block db)
              (on_ok (put_tip B block db) (saveStateTx B s))) db))"

definition store_DeleteBlockByHeight :: "'b bolt \<Rightarrow> u64 \<Rightarrow> 'b bolt_db \<Rightarrow> err option \<times> 'b bolt_db" where
  "store_DeleteBlockByHeight B height =
    db_Update B (\<lambda>db.
      on_ok (chain_buckets db) (\<lambda>(meta, blocks).
      let key = heightKey height in
      if bolt_Get B blocks key = None then Inl (Err ''block not found'')
      else case bolt_Get B meta tipKey of
        None \<Rightarrow> Inl (Err ''chain is not initialized'')
      | Some tip \<Rightarrow>
          if raw_of tip = key then Inl (Err ''cannot delete canonical tip block'')
          else if height \<le> BigEndianUint64 (raw_of tip) then Inl (Err ''cannot delete canonical chain block'')
          else on_ok (bolt_Delete B key blocks) (\<lambda>blocks. Inr (db\<lparr>db_blocks := Some blocks\<rparr>))))"

definition store_SetTip :: "'b bolt \<Rightarrow> u64 \<Rightarrow> string \<Rightarrow> 'b bolt_db \<Rightarrow> err option \<times> 'b bolt_db" where
  "store_SetTip B height hash =
    db_Update B (\<lambda>db.
      on_ok (chain_buckets db) (\<lambda>(meta, blocks).
      let key = heightKey height in
      case bolt_Get B blocks key of
        None \<Rightarrow> Inl (Err ''tip block not found'')
      | Some raw \<Rightarrow>
      on_ok (as_block raw) (\<lambda>block.
      if b_Height block \<noteq> height then Inl (Err ''tip block height mismatch'')
      else if b_Hash block \<noteq> hash then Inl (Err ''tip hash mismatch'')
      else case bolt_Get B meta tipKey of
        None \<Rightarrow> Inl (Err ''chain is not initialized'')
      | Some currentKey \<Rightarrow>
          if raw_of currentKey = key then unless_err (validateTipStateConsistencyTx B block db) (Inr db)
          else Inl (Err ''cannot mutate canonical tip without atomic state commit''))))"

section \<open>Replacing a branch\<close>

definition checkedReplacementHeight :: "u64 \<Rightarrow> u64 \<Rightarrow> err + u64" where
  "checkedReplacementHeight start offset =
    (if max_u64 - start < offset then Inl (Err ''replacement branch height overflow'') else Inr (start + offset))"

definition validateBlockStateBranch :: "block list \<Rightarrow> snapshot \<Rightarrow> err option" where
  "validateBlockStateBranch blocks s =
    (if blocks = [] then Some (Err ''replacement branch is empty'')
     else case snapshot_Validate s of
       Some e \<Rightarrow> Some e
     | None \<Rightarrow>
     let tip = last blocks in
     if sn_Height s \<noteq> b_Height tip then Some (Err ''state snapshot height does not match replacement tip'')
     else if list_ex (\<lambda>b. b_ProtocolVersion b = BlockVersionCanonical \<and> b_StateRoot b = []) blocks then
       Some (Err ''canonical replacement block has empty state root'')
     else if b_ProtocolVersion tip = BlockVersionCanonical \<and> b_StateRoot tip \<noteq> sn_StateRoot s then
       Some (Err ''replacement tip state root does not match persisted state'')
     else None)"

text \<open>The snapshot None is the zero snapshot of a replacement without state, whose version is zero.\<close>

definition validateReplacementAgainstCanonicalTipTx ::
  "'b bolt \<Rightarrow> u64 \<Rightarrow> block list \<Rightarrow> snapshot option \<Rightarrow> 'b bolt_db \<Rightarrow> err option" where
  "validateReplacementAgainstCanonicalTipTx B start blocks s db =
    err_of (
      on_ok (chain_buckets db) (\<lambda>(meta, chain).
      case bolt_Get B meta tipKey of
        None \<Rightarrow> Inl (Err ''chain tip is not initialized'')
      | Some key \<Rightarrow>
      (case bolt_Get B chain (raw_of key) of
         None \<Rightarrow> Inl (Err ''chain tip block is missing'')
       | Some rawTip \<Rightarrow>
       on_ok (as_block rawTip) (\<lambda>tip.
       if blocks = [] then Inl (Err ''replacement branch is empty'')
       else on_ok
         (if start > 0 then
            (case bolt_Get B chain (heightKey (start - 1)) of
               None \<Rightarrow> Inl (Err ''replacement branch predecessor not found'')
             | Some rawParent \<Rightarrow>
                 on_ok (as_block rawParent) (\<lambda>parent.
                   if b_Hash parent = [] \<or> b_PreviousHash (hd blocks) \<noteq> b_Hash parent then
                     Inl (Err ''replacement branch predecessor mismatch'')
                   else Inr ()))
          else Inr ()) (\<lambda>_.
       let replacementTip = last blocks in
       on_ok
         (case s of
            None \<Rightarrow> Inr ()
          | Some s \<Rightarrow>
              if sn_Version s \<noteq> 0 \<and> sn_Height s \<noteq> b_Height replacementTip then
                Inl (Err ''replacement state height does not match replacement tip'')
              else if sn_Version s \<noteq> 0 \<and> b_StateRoot replacementTip \<noteq> []
                  \<and> sn_StateRoot s \<noteq> b_StateRoot replacementTip then
                Inl (Err ''replacement state root does not match replacement tip'')
              else Inr ()) (\<lambda>_.
       if start > b_Height tip then Inl (Err ''replacement height is beyond canonical tip'') else Inr ())))))) "

fun check_heights :: "u64 \<Rightarrow> nat \<Rightarrow> block list \<Rightarrow> err option" where
  "check_heights start i [] = None"
| "check_heights start i (b # bs) =
     (case checkedReplacementHeight start (of_nat i) of
        Inl e \<Rightarrow> Some e
      | Inr expectedHeight \<Rightarrow>
          if b_Height b \<noteq> expectedHeight then Some (Err ''replacement branch is not contiguous'')
          else check_heights start (i + 1) bs)"

fun put_branch :: "'b bolt \<Rightarrow> u64 \<Rightarrow> nat \<Rightarrow> block list \<Rightarrow> 'b \<Rightarrow> err + 'b" where
  "put_branch B start i [] b = Inr b"
| "put_branch B start i (block # bs) b =
     on_ok (checkedReplacementHeight start (of_nat i)) (\<lambda>height.
     on_ok (bolt_Put B (heightKey height) (SBlock block) b) (put_branch B start (i + 1) bs))"

definition replaceFromHeightTx ::
  "'b bolt \<Rightarrow> u64 \<Rightarrow> block list \<Rightarrow> snapshot option \<Rightarrow> 'b bolt_db \<Rightarrow> err + 'b bolt_db" where
  "replaceFromHeightTx B start blocks s db =
    (if blocks = [] then Inl (Err ''replacement branch is empty'')
     else unless_err (check_heights start 0 blocks)
       (unless_err (validateReplacementAgainstCanonicalTipTx B start blocks s db)
         (case db_blocks db of
            None \<Rightarrow> Inl (Err ''chain storage is not initialized'')
          | Some b \<Rightarrow>
              if start > 0 \<and> bolt_Get B b (heightKey (start - 1)) = None then
                Inl (Err ''replacement branch predecessor not found'')
              else
                on_ok (bolt_DeleteFrom B (heightKey start) b) (\<lambda>b.
                on_ok (put_branch B start 0 blocks b) (\<lambda>b.
                on_ok (must (db_meta db)) (\<lambda>meta.
                on_ok (bolt_Put B tipKey (SRaw (heightKey (b_Height (last blocks)))) meta) (\<lambda>meta.
                let db = db\<lparr>db_blocks := Some b, db_meta := Some meta\<rparr> in
                case s of None \<Rightarrow> Inr db | Some s \<Rightarrow> saveStateTx B s db)))))))"

definition store_ReplaceFromHeight :: "'b bolt \<Rightarrow> u64 \<Rightarrow> block list \<Rightarrow> 'b bolt_db \<Rightarrow> err option \<times> 'b bolt_db" where
  "store_ReplaceFromHeight B start blocks =
    db_Update B (\<lambda>db.
      on_ok (need (db_state db)) (\<lambda>root. on_ok (need (st_meta root)) (\<lambda>meta.
        if bolt_Get B meta stateVersionKey \<noteq> None \<or> bolt_Get B meta stateHeightKey \<noteq> None
           \<or> bolt_Get B meta stateRootKey \<noteq> None then
          Inl (Err ''cannot replace canonical blocks without atomic state commit'')
        else replaceFromHeightTx B start blocks None db)))"

definition store_replaceFromHeight ::
  "'b bolt \<Rightarrow> u64 \<Rightarrow> block list \<Rightarrow> snapshot option \<Rightarrow> 'b bolt_db \<Rightarrow> err option \<times> 'b bolt_db" where
  "store_replaceFromHeight B start blocks s = db_Update B (replaceFromHeightTx B start blocks s)"

definition store_ReplaceFromHeightAndState ::
  "'b bolt \<Rightarrow> u64 \<Rightarrow> block list \<Rightarrow> snapshot \<Rightarrow> 'b bolt_db \<Rightarrow> err option \<times> 'b bolt_db" where
  "store_ReplaceFromHeightAndState B start blocks s db =
    (case validateBlockStateBranch blocks s of
       Some e \<Rightarrow> (Some e, db)
     | None \<Rightarrow> store_replaceFromHeight B start blocks (Some s) db)"

end
