(* ===== verification/Store_Chain.thy ===== *)
theory Store_Chain
  imports Store_Commit
begin

text \<open>
  The chain in the store. The locale \<open>bolt_buckets\<close> states what bbolt promises of a bucket. Under it, the
  database represents a list of blocks, every operation of the store acts on that list as its
  specification says, and no sequence of operations leaves a gap in the heights.
\<close>

section \<open>The order of the keys\<close>

lemma div_mod_less: "n < m \<longleftrightarrow> n div 256 < m div 256 \<or> n div 256 = m div 256 \<and> n mod 256 < m mod 256" for n m :: nat
proof -
  have "n = 256 * (n div 256) + n mod 256" "m = 256 * (m div 256) + m mod 256"
    "n mod 256 < 256" "m mod 256 < 256" by simp_all
  then show ?thesis by (cases "n div 256" "m div 256" rule: linorder_cases) linarith+
qed

lemma snoc_less:
  "length xs = length ys \<Longrightarrow> xs @ [x] < ys @ [y] \<longleftrightarrow> xs < ys \<or> xs = ys \<and> x < y" for x y :: "'c :: linorder"
  by (induction xs ys rule: list_induct2) auto

lemma char_of_less: "char_of (unat x) < (char_of (unat y) :: char) \<longleftrightarrow> x < y" for x y :: u8
  by (simp add: less_char_def word_less_nat_alt)

lemma string_of_less:
  "n < 256 ^ k \<Longrightarrow> m < 256 ^ k \<Longrightarrow> string_of (be_bytes k n) < string_of (be_bytes k m) \<longleftrightarrow> n < m"
proof (induction k arbitrary: n m)
  case (Suc k)
  have d: "n div 256 < 256 ^ k" "m div 256 < 256 ^ k" using Suc.prems by (simp_all add: less_mult_imp_div_less)
  have eq: "string_of (be_bytes k (n div 256)) = string_of (be_bytes k (m div 256)) \<longleftrightarrow> n div 256 = m div 256"
    using d by (metis be_nat_be_bytes bytes_of_string_of mod_less)
  have b: "(of_nat (n mod 256) :: u8) < of_nat (m mod 256) \<longleftrightarrow> n mod 256 < m mod 256"
    by (simp add: word_less_nat_alt unat_of_nat_byte)
  have "string_of (be_bytes (Suc k) n) < string_of (be_bytes (Suc k) m) \<longleftrightarrow>
      n div 256 < m div 256 \<or> n div 256 = m div 256 \<and> n mod 256 < m mod 256"
    using Suc.IH [OF d] eq by (simp add: string_of_def snoc_less char_of_less b del: be_bytes.simps(1))
  then show ?case using div_mod_less [of n m] by simp
qed simp

lemma heightKey_less [simp]: "heightKey a < heightKey b \<longleftrightarrow> a < b"
  using string_of_less [of "unat a" 8 "unat b"] unat_u64_lt [of a] unat_u64_lt [of b]
  by (simp add: heightKey_def PutUint64_def word_less_nat_alt)

lemma heightKey_inject [simp]: "heightKey a = heightKey b \<longleftrightarrow> a = b"
  by (metis bytes_of_string_of heightKey_def PutUint64_inject)

lemma length_heightKey [simp]: "length (heightKey a) = 8"
  by (simp add: heightKey_def PutUint64_def)

lemma BigEndianUint64_heightKey [simp]: "BigEndianUint64 (heightKey a) = a"
  by (simp add: BigEndianUint64_def heightKey_def)

section \<open>The chain a database holds\<close>

text \<open>The heights count from zero without a gap.\<close>

definition numbered :: "block list \<Rightarrow> bool" where
  "numbered bs \<longleftrightarrow> map (unat \<circ> b_Height) bs = [0..<length bs]"

definition chain_pairs :: "block list \<Rightarrow> (string \<times> stored) list" where
  "chain_pairs bs = map (\<lambda>b. (heightKey (b_Height b), SBlock b)) bs"

definition holds_chain :: "'b bolt \<Rightarrow> 'b bolt_db \<Rightarrow> block list \<Rightarrow> bool" where
  "holds_chain B db bs \<longleftrightarrow> numbered bs \<and>
     (\<exists>meta blocks. db_meta db = Some meta \<and> db_blocks db = Some blocks
       \<and> bolt_Get B meta tipKey = (if bs = [] then None else Some (SRaw (heightKey (b_Height (last bs)))))
       \<and> bolt_Get B blocks = map_of (chain_pairs bs))"

lemma numbered_nth: "numbered bs \<Longrightarrow> i < length bs \<Longrightarrow> unat (b_Height (bs ! i)) = i"
  unfolding numbered_def by (metis add_0 comp_apply nth_map nth_upt)

lemma numbered_snoc: "numbered (bs @ [b]) \<longleftrightarrow> numbered bs \<and> unat (b_Height b) = length bs"
  by (simp add: numbered_def)

lemma numbered_Nil [simp]: "numbered []"
  by (simp add: numbered_def)

lemma numbered_take: "numbered bs \<Longrightarrow> numbered (take n bs)"
  by (simp add: numbered_def take_map [symmetric] min_def)

lemma numbered_last: "numbered bs \<Longrightarrow> bs \<noteq> [] \<Longrightarrow> unat (b_Height (last bs)) = length bs - 1"
  by (simp add: last_conv_nth numbered_nth)

lemma numbered_append:
  "numbered bs \<Longrightarrow> numbered (bs @ cs) \<longleftrightarrow> (\<forall>i < length cs. unat (b_Height (cs ! i)) = length bs + i)"
  unfolding numbered_def length_append map_append upt_add_eq_append [OF le0]
  by (simp add: list_eq_iff_nth_eq [of "map (unat \<circ> b_Height) cs"])

lemma numbered_sorted: "numbered bs \<Longrightarrow> sorted_wrt (\<lambda>a b. b_Height a < b_Height b) bs"
  by (auto simp: sorted_wrt_iff_nth_less word_less_nat_alt numbered_nth)

lemma chain_keys_sorted: "numbered bs \<Longrightarrow> sorted_wrt (<) (map fst (chain_pairs bs))"
  using numbered_sorted [of bs] by (simp add: chain_pairs_def sorted_wrt_map)

lemma chain_keys_distinct: "numbered bs \<Longrightarrow> distinct (map fst (chain_pairs bs))"
  using strict_sorted_iff chain_keys_sorted by blast

lemma chain_get:
  assumes "numbered bs"
  shows "map_of (chain_pairs bs) (heightKey h) = (if unat h < length bs then Some (SBlock (bs ! unat h)) else None)"
proof (cases "unat h < length bs")
  case True
  then have "h = b_Height (bs ! unat h)" using numbered_nth [OF assms True] by (simp add: word_unat_eq_iff)
  with True have "(heightKey h, SBlock (bs ! unat h)) \<in> set (chain_pairs bs)"
    by (auto simp: chain_pairs_def image_iff intro!: bexI [of _ "bs ! unat h"])
  with True chain_keys_distinct [OF assms] show ?thesis by (simp add: map_of_is_SomeI)
next
  case False
  have "heightKey h \<notin> fst ` set (chain_pairs bs)"
    using False numbered_nth [OF assms] by (auto simp: chain_pairs_def in_set_conv_nth)
  with False show ?thesis by (simp add: map_of_eq_None_iff)
qed

lemma chain_get_last: "numbered bs \<Longrightarrow> bs \<noteq> [] \<Longrightarrow>
    map_of (chain_pairs bs) (heightKey (b_Height (last bs))) = Some (SBlock (last bs))"
  using numbered_last [of bs] by (simp add: chain_get last_conv_nth)

lemma chain_pairs_snoc:
  assumes "numbered (bs @ [b])"
  shows "(map_of (chain_pairs bs))(heightKey (b_Height b) \<mapsto> SBlock b) = map_of (chain_pairs (bs @ [b]))"
proof -
  have "map_of (chain_pairs bs) (heightKey (b_Height b)) = None"
    using assms by (simp add: chain_get numbered_snoc)
  then show ?thesis by (auto simp: chain_pairs_def fun_eq_iff map_add_def split: option.splits)
qed

lemma chain_pairs_below:
  assumes "numbered bs" and "unat h \<le> length bs"
  shows "(\<lambda>k. if k < heightKey h then map_of (chain_pairs bs) k else None) = map_of (chain_pairs (take (unat h) bs))"
proof
  fix k
  have "fst ` set (chain_pairs bs) = heightKey ` b_Height ` set bs" by (simp add: chain_pairs_def image_image)
  then consider (other) "k \<notin> heightKey ` b_Height ` set bs" | (key) b where "b \<in> set bs" "k = heightKey (b_Height b)"
    by auto
  then show "(if k < heightKey h then map_of (chain_pairs bs) k else None) = map_of (chain_pairs (take (unat h) bs)) k"
  proof cases
    case other
    then have "k \<notin> fst ` set (chain_pairs bs)" "k \<notin> fst ` set (chain_pairs (take (unat h) bs))"
      using set_take_subset [of "unat h" bs] by (auto simp: chain_pairs_def image_image)
    then show ?thesis by (metis map_of_eq_None_iff)
  next
    case key
    then obtain i where "i < length bs" "b = bs ! i" by (auto simp: in_set_conv_nth)
    with key assms show ?thesis
      by (simp add: chain_get numbered_take numbered_nth word_less_nat_alt)
  qed
qed

section \<open>Results of the transactions\<close>

lemma on_ok_Inr [simp]: "on_ok m f = Inr y \<longleftrightarrow> (\<exists>x. m = Inr x \<and> f x = Inr y)"
  by (cases m) (simp_all add: on_ok_def)

lemma unless_err_Inr [simp]: "unless_err c m = Inr y \<longleftrightarrow> c = None \<and> m = Inr y"
  by (cases c) (simp_all add: unless_err_def)

lemma err_of_None [simp]: "err_of m = None \<longleftrightarrow> (\<exists>x. m = Inr x)"
  by (cases m) (simp_all add: err_of_def)

lemma must_Inr [simp]: "must b = Inr x \<longleftrightarrow> b = Some x"
  by (cases b) (simp_all add: must_def)

lemma need_Inr [simp]: "need b = Inr x \<longleftrightarrow> b = Some x"
  by (cases b) (simp_all add: need_def)

lemma db_Update_None [simp]:
  "db_Update B f db = (None, db') \<longleftrightarrow> f db = Inr db' \<and> bolt_Commit B = None"
  by (auto simp: db_Update_def split: sum.splits option.splits)

lemma db_Update_failed [simp]: "fst (db_Update B f db) = Some e \<Longrightarrow> snd (db_Update B f db) = db"
  by (auto simp: db_Update_def split: sum.splits option.splits)

lemma chain_buckets_Inr [simp]:
  "chain_buckets db = Inr (meta, blocks) \<longleftrightarrow> db_meta db = Some meta \<and> db_blocks db = Some blocks"
  by (auto simp: chain_buckets_def split: option.splits)

lemma as_block_Inr [simp]: "as_block v = Inr b \<longleftrightarrow> v = SBlock b"
  by (cases v) (simp_all add: as_block_def)

lemma raw_of_SRaw [simp]: "raw_of (SRaw s) = s"
  by (simp add: raw_of_def)

text \<open>Saving the state leaves the blocks and the tip alone.\<close>

lemma saveStateTx_chain:
  "saveStateTx B s db = Inr db' \<Longrightarrow> db_meta db' = db_meta db \<and> db_blocks db' = db_blocks db"
  by (auto simp: saveStateTx_def with_state_def)

lemma holds_chain_cong:
  "db_meta db' = db_meta db \<Longrightarrow> db_blocks db' = db_blocks db \<Longrightarrow> holds_chain B db' bs = holds_chain B db bs"
  by (simp add: holds_chain_def)

section \<open>What bbolt promises\<close>

locale bolt_buckets =
  fixes B :: "'b bolt"
  assumes keys_sorted: "sorted_wrt (<) (map fst (bolt_Pairs B b))"
    and get_pairs: "bolt_Get B b = map_of (bolt_Pairs B b)"
    and pairs_new: "bolt_Pairs B (bolt_New B) = []"
    and get_put: "bolt_Put B k v b = Inr b' \<Longrightarrow> bolt_Get B b' = (bolt_Get B b)(k \<mapsto> v)"
    and get_delete: "bolt_Delete B k b = Inr b' \<Longrightarrow> bolt_Get B b' = (bolt_Get B b)(k := None)"
    and get_delete_from: "bolt_DeleteFrom B k b = Inr b' \<Longrightarrow>
      bolt_Get B b' = (\<lambda>j. if j < k then bolt_Get B b j else None)"
begin

lemma pairs_unique:
  assumes "bolt_Get B b = map_of ps" and "sorted_wrt (<) (map fst ps)"
  shows "bolt_Pairs B b = ps"
proof -
  have d: "distinct (map fst (bolt_Pairs B b))" "distinct (map fst ps)"
    and s: "sorted (map fst (bolt_Pairs B b))" "sorted (map fst ps)"
    using keys_sorted [of b] assms(2) strict_sorted_iff by blast+
  have "set (bolt_Pairs B b) = set ps"
    using d assms(1) by (metis get_pairs map_of_inject_set)
  moreover from this have "inj_on fst (set (bolt_Pairs B b) \<union> set ps)" using d by (simp add: distinct_map)
  ultimately show ?thesis using map_sorted_distinct_set_unique d s by blast
qed

lemma get_new [simp]: "bolt_Get B (bolt_New B) k = None"
  by (simp add: get_pairs pairs_new)

lemma delete_keys_get:
  "delete_keys B ks b = Inr b' \<Longrightarrow> bolt_Get B b' = (\<lambda>k. if k \<in> set ks then None else bolt_Get B b k)"
  by (induction ks arbitrary: b) (auto simp: fun_eq_iff dest!: get_delete)

lemma clear_pairs: "clearBucket B b = Inr b' \<Longrightarrow> bolt_Pairs B b' = []"
proof -
  assume "clearBucket B b = Inr b'"
  then have "bolt_Get B b' = map_of []"
    using delete_keys_get [of "map fst (bolt_Pairs B b)" b b'] map_of_eq_None_iff [of "bolt_Pairs B b"]
    by (auto simp: clearBucket_def get_pairs fun_eq_iff)
  then show ?thesis by (rule pairs_unique) simp
qed

subsection \<open>Reading\<close>

lemma read_pairs:
  "fold_ok (\<lambda>(_, v) blocks. on_ok (as_block v) (\<lambda>block. Inr (blocks @ [block]))) (chain_pairs bs) acc = Inr (acc @ bs)"
  by (induction bs arbitrary: acc) (simp_all add: chain_pairs_def on_ok_def as_block_def)

lemma read_chain:
  assumes "holds_chain B db bs"
  shows "store_Blocks B db = Inr bs"
    and "store_Tip B db = (if bs = [] then Inl (Err ''chain is not initialized'') else Inr (last bs))"
    and "store_HasChain B db = Inr (bs \<noteq> [])"
    and "store_GetBlockByHeight B h db
      = (if unat h < length bs then Inr (bs ! unat h) else Inl (Err ''block not found''))"
proof -
  from assms obtain meta blocks where n: "numbered bs"
    and db: "db_meta db = Some meta" "db_blocks db = Some blocks"
    and tip: "bolt_Get B meta tipKey = (if bs = [] then None else Some (SRaw (heightKey (b_Height (last bs)))))"
    and get: "bolt_Get B blocks = map_of (chain_pairs bs)" by (auto simp: holds_chain_def)
  have "bolt_Pairs B blocks = chain_pairs bs" using pairs_unique [OF get chain_keys_sorted [OF n]] .
  then show "store_Blocks B db = Inr bs"
    using read_pairs [of bs "[]"] by (simp add: store_Blocks_def db must_def on_ok_def [of "Inr _"])
  show "store_Tip B db = (if bs = [] then Inl (Err ''chain is not initialized'') else Inr (last bs))"
    using chain_get_last [OF n] by (auto simp: store_Tip_def db tip get must_def on_ok_def as_block_def)
  show "store_HasChain B db = Inr (bs \<noteq> [])" by (simp add: store_HasChain_def db tip must_def on_ok_def)
  show "store_GetBlockByHeight B h db
      = (if unat h < length bs then Inr (bs ! unat h) else Inl (Err ''block not found''))"
    by (simp add: store_GetBlockByHeight_def db get chain_get [OF n] must_def on_ok_def as_block_def)
qed

subsection \<open>Commits\<close>

lemma commit_check:
  assumes "holds_chain B db bs"
  shows "validateCanonicalCommitPreconditionsTx B block db = None \<longleftrightarrow>
    unat (b_Height block) = length bs \<and> (bs \<noteq> [] \<longrightarrow> b_Hash (last bs) \<noteq> [] \<and> b_PreviousHash block = b_Hash (last bs))"
proof -
  from assms obtain meta blocks where n: "numbered bs"
    and db: "db_meta db = Some meta" "db_blocks db = Some blocks"
    and tip: "bolt_Get B meta tipKey = (if bs = [] then None else Some (SRaw (heightKey (b_Height (last bs)))))"
    and get: "bolt_Get B blocks = map_of (chain_pairs bs)" by (auto simp: holds_chain_def)
  note defs = validateCanonicalCommitPreconditionsTx_def chain_buckets_def db tip get as_block_def Let_def
  show ?thesis
  proof (cases "bs = []")
    case True
    then show ?thesis by (simp add: defs)
  next
    case False
    have "b_Height (last bs) \<noteq> max_u64 \<and> b_Height (last bs) + 1 = b_Height block \<longleftrightarrow> unat (b_Height block) = length bs"
      if "b_Height block \<noteq> 0"
    proof -
      let ?h = "b_Height (last bs)"
      have h: "unat ?h = length bs - 1" using numbered_last [OF n False] .
      have l: "length bs > 0" using False by simp
      show ?thesis
      proof (cases "?h = max_u64")
        case True
        then have "length bs = 18446744073709551616" using h l by simp
        moreover have "unat (b_Height block) \<noteq> 18446744073709551616" by (rule less_imp_neq) (rule unat_u64_lt)
        ultimately show ?thesis using True by simp
      next
        case m: False
        then have "unat (?h + 1) = length bs"
          using h l unat_add_u64 [of ?h 1] unat_u64_le [of ?h] by (simp add: word_unat_eq_iff)
        with m show ?thesis by (auto simp: word_unat_eq_iff)
      qed
    qed
    moreover have "unat (b_Height block) = length bs \<Longrightarrow> b_Height block \<noteq> 0" using False by auto
    ultimately show ?thesis using False chain_get_last [OF n False] by (auto simp: defs)
  qed
qed

lemma put_tip_chain:
  assumes "holds_chain B db bs" and "unat (b_Height block) = length bs" and "put_tip B block db = Inr db'"
  shows "holds_chain B db' (bs @ [block])" and "db_state db' = db_state db"
proof -
  have n: "numbered (bs @ [block])" using assms(1, 2) by (auto simp: holds_chain_def numbered_snoc)
  with assms show "holds_chain B db' (bs @ [block])"
    by (auto simp: holds_chain_def put_tip_def chain_pairs_snoc [OF n] dest!: get_put)
  from assms(3) show "db_state db' = db_state db" by (auto simp: put_tip_def)
qed

lemma SaveBlock_chain:
  assumes "holds_chain B db bs" and "store_SaveBlock B block db = (None, db')"
  shows "holds_chain B db' (bs @ [block])" and "bs \<noteq> [] \<Longrightarrow> b_PreviousHash block = b_Hash (last bs)"
  using assms commit_check [OF assms(1)] put_tip_chain by (auto simp: store_SaveBlock_def)

lemma SaveBlockAndState_chain:
  assumes "holds_chain B db bs" and "store_SaveBlockAndState B block s db = (None, db')"
  shows "holds_chain B db' (bs @ [block])" and "bs \<noteq> [] \<Longrightarrow> b_PreviousHash block = b_Hash (last bs)"
proof -
  from assms(2) obtain db1 where c: "validateCanonicalCommitPreconditionsTx B block db = None"
    and db1: "put_tip B block db = Inr db1" "saveStateTx B s db1 = Inr db'"
    by (auto simp: store_SaveBlockAndState_def split: option.splits)
  show "holds_chain B db' (bs @ [block])"
    using put_tip_chain(1) [OF assms(1) _ db1(1)] c commit_check [OF assms(1)] saveStateTx_chain [OF db1(2)]
      holds_chain_cong by blast
  show "bs \<noteq> [] \<Longrightarrow> b_PreviousHash block = b_Hash (last bs)" using c commit_check [OF assms(1)] by blast
qed

subsection \<open>Replacing a branch\<close>

lemma check_heights_None:
  "check_heights start i cs = None \<Longrightarrow> j < length cs \<Longrightarrow> i + length cs < 2 ^ 64 \<Longrightarrow>
     unat (b_Height (cs ! j)) = unat start + i + j"
proof (induction cs arbitrary: i j)
  case (Cons c cs)
  have i: "unat (of_nat i :: u64) = i" using Cons.prems(3) by (simp add: unat_of_nat)
  from Cons.prems(1) have c: "\<not> max_u64 - start < of_nat i" "b_Height c = start + of_nat i"
    "check_heights start (i + 1) cs = None"
    by (auto simp: checkedReplacementHeight_def split: if_splits)
  then have "unat start + i < 2 ^ 64" using room_u64 [of start "of_nat i"] i by simp
  then have "unat (b_Height c) = unat start + i" using c(2) i by (simp add: unat_add_u64)
  with Cons.IH [OF c(3), of "j - 1"] Cons.prems show ?case by (cases j) auto
qed simp

lemma put_branch_get:
  assumes "put_branch B start i cs b = Inr b'" and "numbered (bs @ cs)" and "unat start + i = length bs"
    and "bolt_Get B b = map_of (chain_pairs bs)"
  shows "bolt_Get B b' = map_of (chain_pairs (bs @ cs))"
  using assms
proof (induction cs arbitrary: i b bs)
  case (Cons c cs)
  from Cons.prems(1) obtain h b1 where h: "checkedReplacementHeight start (of_nat i) = Inr h"
    and b1: "bolt_Put B (heightKey h) (SBlock c) b = Inr b1" "put_branch B start (i + 1) cs b1 = Inr b'" by auto
  have n: "numbered (bs @ [c])"
    using numbered_take [OF Cons.prems(2), of "length bs + 1"] by simp
  then have hc: "unat (b_Height c) = unat start + i" using Cons.prems(3) by (simp add: numbered_snoc)
  have "i < 2 ^ 64" using hc unat_u64_lt [of "b_Height c"] by simp
  then have "b_Height c = start + of_nat i"
    using hc mod_less [OF unat_u64_lt [of "b_Height c"]] by (simp add: word_unat_eq_iff unat_word_ariths unat_of_nat)
  moreover have "h = start + of_nat i" using h by (simp add: checkedReplacementHeight_def split: if_splits)
  ultimately have "h = b_Height c" by simp
  then have "bolt_Get B b1 = map_of (chain_pairs (bs @ [c]))"
    using get_put [OF b1(1)] Cons.prems(4) chain_pairs_snoc [OF n] by simp
  with Cons.IH [OF b1(2), of "bs @ [c]"] Cons.prems show ?case by simp
qed simp

lemma replaceFromHeightTx_chain:
  assumes "holds_chain B db bs" and "replaceFromHeightTx B start cs s db = Inr db'" and "length cs < 2 ^ 64"
  shows "holds_chain B db' (take (unat start) bs @ cs)" and "cs \<noteq> [] \<and> unat start < length bs"
    and "start > 0 \<Longrightarrow> b_PreviousHash (hd cs) = b_Hash (bs ! (unat start - 1))"
proof -
  from assms(1) obtain meta blocks where n: "numbered bs"
    and db: "db_meta db = Some meta" "db_blocks db = Some blocks"
    and tip: "bolt_Get B meta tipKey = (if bs = [] then None else Some (SRaw (heightKey (b_Height (last bs)))))"
    and get: "bolt_Get B blocks = map_of (chain_pairs bs)" by (auto simp: holds_chain_def)
  from assms(2) obtain b1 b2 meta' where cs: "cs \<noteq> []" "check_heights start 0 cs = None"
    and v: "validateReplacementAgainstCanonicalTipTx B start cs s db = None"
    and b1: "bolt_DeleteFrom B (heightKey start) blocks = Inr b1" and b2: "put_branch B start 0 cs b1 = Inr b2"
    and m: "bolt_Put B tipKey (SRaw (heightKey (b_Height (last cs)))) meta = Inr meta'"
    and db': "(case s of None \<Rightarrow> Inr (db\<lparr>db_blocks := Some b2, db_meta := Some meta'\<rparr>)
      | Some s \<Rightarrow> saveStateTx B s (db\<lparr>db_blocks := Some b2, db_meta := Some meta'\<rparr>)) = Inr db'"
    by (auto simp: replaceFromHeightTx_def db Let_def split: if_splits)
  have ne: "bs \<noteq> []" using v by (auto simp: validateReplacementAgainstCanonicalTipTx_def db tip)
  have tipb: "map_of (chain_pairs bs) (heightKey (b_Height (last bs))) = Some (SBlock (last bs))"
    using chain_get_last [OF n ne] .
  have "\<not> start > b_Height (last bs)"
    using v ne by (auto simp: validateReplacementAgainstCanonicalTipTx_def db tip get tipb Let_def split: if_splits)
  then have low: "unat start < length bs"
    using numbered_last [OF n ne] ne by (cases bs) (auto simp: word_less_nat_alt)
  show "cs \<noteq> [] \<and> unat start < length bs" using cs low by simp
  show "b_PreviousHash (hd cs) = b_Hash (bs ! (unat start - 1))" if "start > 0"
  proof -
    have "unat (start - 1) = unat start - 1" using that by (simp add: unat_minus_one word_greater_zero_iff)
    then show ?thesis
      using v ne that low cs
      by (auto simp: validateReplacementAgainstCanonicalTipTx_def db tip get tipb Let_def chain_get [OF n] split: if_splits)
  qed
  have "numbered (take (unat start) bs @ cs)"
    using check_heights_None [OF cs(2)] assms(3) low numbered_take [OF n] by (simp add: numbered_append)
  moreover from this have "bolt_Get B b2 = map_of (chain_pairs (take (unat start) bs @ cs))"
  proof (rule put_branch_get [OF b2])
    show "bolt_Get B b1 = map_of (chain_pairs (take (unat start) bs))"
      unfolding get_delete_from [OF b1] get using low by (intro chain_pairs_below [OF n]) simp
  qed (use low in simp)
  ultimately have "holds_chain B (db\<lparr>db_blocks := Some b2, db_meta := Some meta'\<rparr>) (take (unat start) bs @ cs)"
    using get_put [OF m] cs(1) by (simp add: holds_chain_def)
  then show "holds_chain B db' (take (unat start) bs @ cs)"
    using db' saveStateTx_chain holds_chain_cong by (cases s) fastforce+
qed

subsection \<open>The other operations\<close>

lemma DeleteBlock_never:
  assumes "holds_chain B db bs" shows "\<exists>e. store_DeleteBlockByHeight B h db = (Some e, db)"
proof -
  from assms obtain meta blocks where n: "numbered bs"
    and db: "db_meta db = Some meta" "db_blocks db = Some blocks"
    and tip: "bolt_Get B meta tipKey = (if bs = [] then None else Some (SRaw (heightKey (b_Height (last bs)))))"
    and get: "bolt_Get B blocks = map_of (chain_pairs bs)" by (auto simp: holds_chain_def)
  have "h \<le> b_Height (last bs)" if "unat h < length bs"
    using that numbered_last [OF n] by (cases "bs = []") (auto simp: word_le_nat_alt)
  then show ?thesis
    by (auto simp: store_DeleteBlockByHeight_def db_Update_def chain_buckets_def on_ok_def db tip get chain_get [OF n] Let_def)
qed

lemma SetTip_same: "snd (store_SetTip B h hash db) = db"
  by (auto simp: store_SetTip_def db_Update_def on_ok_def unless_err_def Let_def split: sum.splits option.splits if_splits)

lemma SaveState_chain: "holds_chain B (snd (store_SaveState B s db)) bs = holds_chain B db bs"
  by (intro holds_chain_cong)
    (auto simp: store_SaveState_def db_Update_def split: option.splits sum.splits dest!: saveStateTx_chain)

lemma DeleteState_chain: "holds_chain B (snd (store_DeleteState B db)) bs = holds_chain B db bs"
  by (intro holds_chain_cong)
    (auto simp: store_DeleteState_def db_Update_def with_state_def split: option.splits sum.splits)

lemma Init_chain: "holds_chain B db bs \<Longrightarrow> holds_chain B (snd (store_Init B db)) bs"
  by (auto simp: store_Init_def db_Update_def holds_chain_def created_def Let_def split: option.splits)

lemma Init_new:
  assumes "db_meta db = None" and "db_blocks db = None" and "store_Init B db = (None, db')"
  shows "holds_chain B db' []"
  using assms by (auto simp: store_Init_def holds_chain_def created_def chain_pairs_def get_pairs pairs_new Let_def)

end

section \<open>Every sequence of operations\<close>

inductive store_reach :: "'b bolt \<Rightarrow> 'b bolt_db \<Rightarrow> bool" for B where
  fresh: "db_meta db = None \<Longrightarrow> db_blocks db = None \<Longrightarrow> store_Init B db = (None, db') \<Longrightarrow> store_reach B db'"
| init: "store_reach B db \<Longrightarrow> store_reach B (snd (store_Init B db))"
| save_block: "store_reach B db \<Longrightarrow> store_reach B (snd (store_SaveBlock B block db))"
| save_both: "store_reach B db \<Longrightarrow> store_reach B (snd (store_SaveBlockAndState B block s db))"
| delete_block: "store_reach B db \<Longrightarrow> store_reach B (snd (store_DeleteBlockByHeight B h db))"
| set_tip: "store_reach B db \<Longrightarrow> store_reach B (snd (store_SetTip B h hash db))"
| replace: "store_reach B db \<Longrightarrow> length cs < 2 ^ 64 \<Longrightarrow> store_reach B (snd (store_ReplaceFromHeight B h cs db))"
| replace_both: "store_reach B db \<Longrightarrow> length cs < 2 ^ 64 \<Longrightarrow>
    store_reach B (snd (store_ReplaceFromHeightAndState B h cs s db))"
| save_state: "store_reach B db \<Longrightarrow> store_reach B (snd (store_SaveState B s db))"
| delete_state: "store_reach B db \<Longrightarrow> store_reach B (snd (store_DeleteState B db))"

text \<open>An operation that fails leaves the database as it was.\<close>

lemma failed_same:
  "fst (store_SaveBlock B block db) \<noteq> None \<Longrightarrow> snd (store_SaveBlock B block db) = db"
  "fst (store_SaveBlockAndState B block s db) \<noteq> None \<Longrightarrow> snd (store_SaveBlockAndState B block s db) = db"
  "fst (store_ReplaceFromHeight B h cs db) \<noteq> None \<Longrightarrow> snd (store_ReplaceFromHeight B h cs db) = db"
  "fst (store_ReplaceFromHeightAndState B h cs s db) \<noteq> None \<Longrightarrow> snd (store_ReplaceFromHeightAndState B h cs s db) = db"
  by (auto simp: store_SaveBlock_def store_SaveBlockAndState_def store_ReplaceFromHeight_def
      store_ReplaceFromHeightAndState_def store_replaceFromHeight_def split: option.splits)

context bolt_buckets
begin

lemma Replace_chain:
  assumes "holds_chain B db bs" and "length cs < 2 ^ 64" and "store_ReplaceFromHeight B h cs db = (None, db')"
  shows "holds_chain B db' (take (unat h) bs @ cs)"
  using assms replaceFromHeightTx_chain(1) by (auto simp: store_ReplaceFromHeight_def split: if_splits)

lemma ReplaceAndState_chain:
  assumes "holds_chain B db bs" and "length cs < 2 ^ 64" and "store_ReplaceFromHeightAndState B h cs s db = (None, db')"
  shows "holds_chain B db' (take (unat h) bs @ cs)"
  using assms replaceFromHeightTx_chain(1)
  by (auto simp: store_ReplaceFromHeightAndState_def store_replaceFromHeight_def split: option.splits)

lemma step_chain:
  assumes "holds_chain B db bs" and "fst r \<noteq> None \<Longrightarrow> snd r = db"
    and "\<And>db'. r = (None, db') \<Longrightarrow> \<exists>cs. holds_chain B db' cs"
  shows "\<exists>cs. holds_chain B (snd r) cs"
  using assms by (cases r; cases "fst r") auto

lemma reach_chain: "store_reach B db \<Longrightarrow> \<exists>bs. holds_chain B db bs"
proof (induction rule: store_reach.induct)
  case (fresh db db')
  then show ?case using Init_new by blast
next
  case (init db)
  then show ?case using Init_chain by blast
next
  case (save_block db block)
  then show ?case using SaveBlock_chain(1) failed_same(1) step_chain by metis
next
  case (save_both db block s)
  then show ?case using SaveBlockAndState_chain(1) failed_same(2) step_chain by metis
next
  case (delete_block db h)
  then show ?case using DeleteBlock_never [of db _ h] by (metis snd_conv)
next
  case (set_tip db h hash)
  then show ?case by (simp add: SetTip_same)
next
  case (replace db cs h)
  then show ?case using Replace_chain failed_same(3) step_chain by metis
next
  case (replace_both db cs h s)
  then show ?case using ReplaceAndState_chain failed_same(4) step_chain by metis
next
  case (save_state db s)
  then show ?case by (simp add: SaveState_chain)
next
  case (delete_state db)
  then show ?case by (simp add: DeleteState_chain)
qed

end


text \<open>
  Replacing a branch together with its state: when the call succeeds, the stored chain is the old one
  below the first replaced height followed by the new branch, whose first block names the hash of
  the block it is put on. When it fails, the database is what it was.
\<close>

theorem replaced_branch:
  assumes "bolt_buckets B" and "holds_chain B db bs" and "length cs < 2 ^ 64"
  shows "case store_ReplaceFromHeightAndState B h cs s db of
      (Some e, db') \<Rightarrow> db' = db
    | (None, db') \<Rightarrow> store_Blocks B db' = Inr (take (unat h) bs @ cs) \<and> cs \<noteq> [] \<and> unat h < length bs
        \<and> (h > 0 \<longrightarrow> b_PreviousHash (hd cs) = b_Hash (bs ! (unat h - 1)))"
proof (cases "store_ReplaceFromHeightAndState B h cs s db")
  case (Pair r db')
  show ?thesis
  proof (cases r)
    case None
    then have "replaceFromHeightTx B h cs (Some s) db = Inr db'"
      using Pair by (auto simp: store_ReplaceFromHeightAndState_def store_replaceFromHeight_def split: option.splits)
    note facts = bolt_buckets.replaceFromHeightTx_chain [OF assms(1, 2) this assms(3)]
    show ?thesis
      using bolt_buckets.read_chain(1) [OF assms(1) facts(1)] facts(2, 3) Pair None by simp
  next
    case (Some e)
    then show ?thesis using failed_same(4) [of B h cs s db] Pair by simp
  qed
qed

section \<open>A database of finite maps\<close>

text \<open>The laws can be met: buckets as finite maps that refuse the empty key.\<close>

definition map_bolt :: "(string, stored) fmap bolt" where
  "map_bolt = \<lparr>bolt_New = fmempty, bolt_Get = fmlookup,
     bolt_Put = (\<lambda>k v b. if k = [] then Inl (Err ''key required'') else Inr (fmupd k v b)),
     bolt_Delete = (\<lambda>k b. Inr (fmdrop k b)), bolt_Pairs = sorted_list_of_fmap,
     bolt_DeleteFrom = (\<lambda>k b. Inr (fmfilter (\<lambda>j. j < k) b)), bolt_Commit = None\<rparr>"

interpretation map_store: bolt_buckets map_bolt
proof unfold_locales
  show "bolt_Get map_bolt b = map_of (bolt_Pairs map_bolt b)" for b
    by (simp add: map_bolt_def)
qed (auto simp: map_bolt_def strict_sorted_iff fun_eq_iff split: if_splits)

end
