(* ===== verification/Store_State.thy ===== *)
theory Store_State
  imports Store_Chain Chain_Rules "HOL-Library.Product_Lexorder"
begin

text \<open>
  The state in the store: a snapshot that was saved is loaded back in its sorted form, and a store that
  committed a block with its state passes the checks the node makes when it opens the store again.
\<close>

section \<open>Sorting by a key\<close>

abbreviation by_key :: "('a \<Rightarrow> 'k :: linorder) \<Rightarrow> 'a \<Rightarrow> 'a \<Rightarrow> bool" where
  "by_key k \<equiv> (\<lambda>a b. k a < k b)"

lemma set_insert_by: "set (insert_by lt x xs) = insert x (set xs)"
  by (induction xs) auto

lemma sorted_insert_by: "sorted (map k xs) \<Longrightarrow> sorted (map k (insert_by (by_key k) x xs))"
  by (induction xs) (auto simp: set_insert_by not_less)

lemma sorted_sort_by: "sorted (map k (sort_by (by_key k) xs))"
  by (induction xs) (simp_all add: sort_by_def sorted_insert_by)

lemma sort_by_id: "sorted (map k xs) \<Longrightarrow> sort_by (by_key k) xs = xs"
proof (induction xs)
  case (Cons x xs)
  then have "sort_by (by_key k) xs = xs" by simp
  with Cons.prems show ?case by (cases xs) (auto simp: sort_by_def not_less)
qed (simp add: sort_by_def)

lemma sort_by_idem [simp]: "sort_by (by_key k) (sort_by (by_key k) xs) = sort_by (by_key k) xs"
  by (rule sort_by_id) (rule sorted_sort_by)

lemma neighbours_sorted:
  "sorted (map k xs) \<Longrightarrow> \<not> neighbours (\<lambda>a b. k a = k b) xs \<Longrightarrow> sorted_wrt (<) (map k xs)"
  for k :: "'a \<Rightarrow> 'k :: linorder"
proof (induction xs)
  case (Cons x xs)
  then show ?case
  proof (cases xs)
    case (Cons y ys)
    with Cons.prems Cons.IH show ?thesis by fastforce
  qed simp
qed simp

lemma sorted_map_mono: "sorted (map k xs) \<Longrightarrow> mono f \<Longrightarrow> sorted (map (f \<circ> k) xs)"
  for k :: "'a \<Rightarrow> 'k :: linorder" and f :: "'k \<Rightarrow> 'l :: linorder"
  by (induction xs) (auto simp: mono_def)

lemma mset_sort_by: "mset (sort_by lt xs) = mset xs"
proof -
  have "mset (insert_by lt x ys) = add_mset x (mset ys)" for x ys by (induction ys) auto
  then show ?thesis by (induction xs) (simp_all add: sort_by_def)
qed

lemma set_sort_by [simp]: "set (sort_by lt xs) = set xs"
  using mset_eq_setD [OF mset_sort_by] .

lemma distinct_sort_by: "distinct (map k (sort_by lt xs)) \<longleftrightarrow> distinct (map k xs)"
  by (metis mset_map mset_sort_by mset_eq_imp_distinct_iff)

lemma account_key: "account_less = by_key sa_Address"
  by (simp add: account_less_def fun_eq_iff)

lemma stake_key: "stake_less = by_key (\<lambda>r. (sr_StakeID r, sr_OwnerAddress r))"
  by (auto simp: stake_less_def fun_eq_iff)

lemma definition_key: "definition_less = by_key def_ID"
  by (simp add: definition_less_def fun_eq_iff)

lemma entry_key: "entry_less = by_key (\<lambda>e. (be_Address e, be_AssetID e))"
  by (auto simp: entry_less_def fun_eq_iff)

lemma coinbase_key: "coinbase_less = by_key (\<lambda>c. (sc_Height c, sc_Address c, sc_Amount c))"
  by (auto simp: coinbase_less_def fun_eq_iff)

lemmas sort_keys = account_key stake_key definition_key entry_key coinbase_key

lemma fst_sorted: "sorted (map (\<lambda>x. (f x, g x)) xs) \<Longrightarrow> sorted (map f xs)"
  for f :: "'a \<Rightarrow> 'k :: linorder" and g :: "'a \<Rightarrow> 'l :: linorder"
  by (induction xs) auto

lemma fst2_sorted: "sorted (map (\<lambda>x. (f x, g x, h x)) xs) \<Longrightarrow> sorted (map (\<lambda>x. (f x, g x)) xs)"
  for f :: "'a \<Rightarrow> 'k :: linorder" and g :: "'a \<Rightarrow> 'l :: linorder" and h :: "'a \<Rightarrow> 'm :: linorder"
  by (induction xs) auto

section \<open>What a valid snapshot satisfies\<close>

definition proper_asset :: "asset_definition \<Rightarrow> bool" where
  "proper_asset d \<longleftrightarrow>
    (if IsNative (def_ID d) then def_ID d = NativeAssetID \<and> def_Symbol d = NativeAssetSymbol
       \<and> def_Decimals d = NativeAssetDecimals
     else ValidateDefinition d = None)"

definition snapshot_proper :: "snapshot \<Rightarrow> bool" where
  "snapshot_proper s \<longleftrightarrow> sn_Version s = SnapshotVersion \<and> sn_StateRoot s \<noteq> []
     \<and> distinct (map sa_Address (sn_Accounts s)) \<and> distinct (map sr_StakeID (sn_Stakes s))
     \<and> distinct (map (\<lambda>c. (sc_Height c, sc_Address c)) (sn_Coinbases s))
     \<and> (\<forall>c \<in> set (sn_Coinbases s). sc_Address c \<noteq> [] \<and> sc_Amount c \<noteq> 0 \<and> sc_Height c \<le> sn_Height s)
     \<and> (\<forall>d \<in> set (sn_Assets s). proper_asset d)
     \<and> (sn_Assets s \<noteq> [] \<longrightarrow> (\<exists>d \<in> set (sn_Assets s). IsNative (def_ID d)))
     \<and> distinct (map def_ID (sn_Assets s))
     \<and> distinct (map (\<lambda>e. (be_Address e, be_AssetID e)) (sn_AssetBalances s))
     \<and> (\<forall>e \<in> set (sn_AssetBalances s). be_Address e \<noteq> [] \<and> be_AssetID e \<noteq> [] \<and> be_Amount e \<noteq> 0
           \<and> be_AssetID e \<in> def_ID ` set (sn_Assets s))
     \<and> (if sn_Assets s \<noteq> []
        then RootForCollectionsWithAssets (sn_Accounts s) (sn_Stakes s) (sn_Assets s) (sn_AssetBalances s)
        else RootForCollections (sn_Accounts s) (sn_Stakes s)) = sn_StateRoot s
     \<and> (sn_Assets s \<noteq> [] \<longrightarrow> (\<forall>a \<in> set (sn_Accounts s).
          get_or 0 (native_balances (sort_by entry_less (sn_AssetBalances s))) (sa_Address a) = sa_Confirmed a))"

lemma snapshot_properD:
  assumes "snapshot_proper s"
  shows "distinct (map sr_StakeID (sn_Stakes s))" and "\<forall>d \<in> set (sn_Assets s). proper_asset d"
    and "\<forall>e \<in> set (sn_AssetBalances s). be_Address e \<noteq> [] \<and> be_AssetID e \<noteq> [] \<and> be_Amount e \<noteq> 0
           \<and> be_AssetID e \<in> def_ID ` set (sn_Assets s)"
    and "sn_Assets s \<noteq> [] \<Longrightarrow> \<forall>a \<in> set (sn_Accounts s).
          get_or 0 (native_balances (sort_by entry_less (sn_AssetBalances s))) (sa_Address a) = sa_Confirmed a"
    and "\<forall>c \<in> set (sn_Coinbases s). sc_Address c \<noteq> [] \<and> sc_Amount c \<noteq> 0 \<and> sc_Height c \<le> sn_Height s"
    and "sn_StateRoot s \<noteq> []" and "sn_Version s = SnapshotVersion"
  using assms unfolding snapshot_proper_def by blast+

lemma check_coinbases_None: "check_coinbases h cs = None \<longleftrightarrow>
    (\<forall>c \<in> set cs. sc_Address c \<noteq> [] \<and> sc_Amount c \<noteq> 0 \<and> sc_Height c \<le> h)"
  by (induction cs) auto

lemma proper_native: "proper_asset d \<Longrightarrow> IsNative (def_ID d) \<Longrightarrow> def_ID d = NativeAssetID"
  by (simp add: proper_asset_def)

lemma check_definitions_step:
  "check_definitions seen (d # ds) = Inr r \<longleftrightarrow> proper_asset d
     \<and> (if IsNative (def_ID d) then \<not> seen \<and> check_definitions True ds = Inr r else check_definitions seen ds = Inr r)"
  by (cases "IsNative (def_ID d)") (auto simp: proper_asset_def split: option.splits)

lemma check_definitions_Inr:
  "check_definitions seen ds = Inr r \<Longrightarrow>
     (\<forall>d \<in> set ds. proper_asset d) \<and> (r \<longleftrightarrow> seen \<or> (\<exists>d \<in> set ds. IsNative (def_ID d)))"
proof (induction ds arbitrary: seen)
  case (Cons d ds)
  from Cons.prems Cons.IH [of True] Cons.IH [of seen] show ?case
    unfolding check_definitions_step by (cases "IsNative (def_ID d)") auto
qed simp

lemma check_definitions_ok:
  assumes "\<forall>d \<in> set ds. proper_asset d" and "distinct (map def_ID ds)"
    and "seen \<Longrightarrow> \<forall>d \<in> set ds. \<not> IsNative (def_ID d)"
  shows "check_definitions seen ds = Inr (seen \<or> (\<exists>d \<in> set ds. IsNative (def_ID d)))"
  using assms
proof (induction ds arbitrary: seen)
  case (Cons d ds)
  show ?case
  proof (cases "IsNative (def_ID d)")
    case True
    have "\<not> IsNative (def_ID e)" if "e \<in> set ds" for e
      using proper_native [of d] proper_native [of e] True that Cons.prems(1, 2) by (auto simp: image_iff)
    with Cons.IH [of True] Cons.prems True show ?thesis unfolding check_definitions_step by auto
  next
    case False
    with Cons show ?thesis unfolding check_definitions_step by simp
  qed
qed simp

lemma check_balances_None: "check_balances known es = None \<longleftrightarrow>
    (\<forall>e \<in> set es. be_Address e \<noteq> [] \<and> be_AssetID e \<noteq> [] \<and> be_Amount e \<noteq> 0 \<and> be_AssetID e \<in> known)"
  by (induction es) auto

lemma neighbours_distinct:
  "sorted (map k xs) \<Longrightarrow> neighbours (\<lambda>a b. k a = k b) xs \<longleftrightarrow> \<not> distinct (map k xs)"
  for k :: "'a \<Rightarrow> 'k :: linorder"
proof -
  assume s: "sorted (map k xs)"
  have "distinct (map k ys) \<Longrightarrow> \<not> neighbours (\<lambda>a b. k a = k b) ys" for ys
    by (induction "\<lambda>a b. k a = k b" ys rule: neighbours.induct) auto
  with neighbours_sorted [OF s] s show ?thesis using strict_sorted_iff by blast
qed

lemma sorted_lists:
  "sorted (map sa_Address (sort_by account_less as))" "sorted (map sr_StakeID (sort_by stake_less rs))"
  "sorted (map (\<lambda>c. (sc_Height c, sc_Address c)) (sort_by coinbase_less cs))"
  "sorted (map def_ID (sort_by definition_less ds))"
  "sorted (map (\<lambda>e. (be_Address e, be_AssetID e)) (sort_by entry_less es))"
  unfolding sort_keys
  by (rule sorted_sort_by, rule fst_sorted, rule sorted_sort_by, rule fst2_sorted, rule sorted_sort_by,
      rule sorted_sort_by, rule sorted_sort_by)

lemma sorted_distinct:
  "neighbours (\<lambda>a b. sa_Address a = sa_Address b) (sort_by account_less as) \<longleftrightarrow> \<not> distinct (map sa_Address as)"
  "neighbours (\<lambda>a b. sr_StakeID a = sr_StakeID b) (sort_by stake_less rs) \<longleftrightarrow> \<not> distinct (map sr_StakeID rs)"
  "neighbours (\<lambda>a b. sc_Height a = sc_Height b \<and> sc_Address a = sc_Address b) (sort_by coinbase_less cs)
     \<longleftrightarrow> \<not> distinct (map (\<lambda>c. (sc_Height c, sc_Address c)) cs)"
  "neighbours (\<lambda>a b. def_ID a = def_ID b) (sort_by definition_less ds) \<longleftrightarrow> \<not> distinct (map def_ID ds)"
  "neighbours (\<lambda>a b. be_Address a = be_Address b \<and> be_AssetID a = be_AssetID b) (sort_by entry_less es)
     \<longleftrightarrow> \<not> distinct (map (\<lambda>e. (be_Address e, be_AssetID e)) es)"
  using neighbours_distinct [OF sorted_lists(1) [of as]] neighbours_distinct [OF sorted_lists(2) [of rs]]
    neighbours_distinct [OF sorted_lists(3) [of cs]] neighbours_distinct [OF sorted_lists(4) [of ds]]
    neighbours_distinct [OF sorted_lists(5) [of es]]
  by (simp_all add: distinct_sort_by)

lemma sort_idem:
  "sort_by account_less (sort_by account_less as) = sort_by account_less as"
  "sort_by stake_less (sort_by stake_less rs) = sort_by stake_less rs"
  "sort_by coinbase_less (sort_by coinbase_less cs) = sort_by coinbase_less cs"
  "sort_by definition_less (sort_by definition_less ds) = sort_by definition_less ds"
  "sort_by entry_less (sort_by entry_less es) = sort_by entry_less es"
  unfolding sort_keys by (rule sort_by_idem)+

lemma root_sorted:
  "RootForCollectionsWithAssets (sort_by account_less as) (sort_by stake_less rs) (sort_by definition_less ds)
     (sort_by entry_less es) = RootForCollectionsWithAssets as rs ds es"
  "RootForCollections (sort_by account_less as) (sort_by stake_less rs) = RootForCollections as rs"
  by (simp_all add: RootForCollectionsWithAssets_def RootForCollections_def StableDigestInputs_def sort_idem)

lemma sort_by_empty: "sort_by lt xs = [] \<longleftrightarrow> xs = []"
  by (metis mset_sort_by mset_zero_iff)

lemma if_None: "(if c then Some e else m) = None \<longleftrightarrow> \<not> c \<and> m = None"
  by simp

lemma case_None: "(case m of Some e \<Rightarrow> Some e | None \<Rightarrow> n) = None \<longleftrightarrow> m = None \<and> n = None"
  by (cases m) simp_all

lemma snapshot_Validate_proper: "snapshot_Validate s = None \<longleftrightarrow> snapshot_proper s"
proof (cases "check_definitions False (sn_Assets s)")
  case (Inl e)
  have "\<not> snapshot_proper s"
    using check_definitions_ok [of "sn_Assets s" False] Inl unfolding snapshot_proper_def by auto
  moreover have "snapshot_Validate s \<noteq> None"
    by (simp add: snapshot_Validate_def StableDigestInputs_def Let_def if_None case_None Inl)
  ultimately show ?thesis by blast
next
  case (Inr seen)
  note facts = check_definitions_Inr [OF Inr]
  show ?thesis
    unfolding snapshot_Validate_def snapshot_proper_def StableDigestInputs_def Let_def prod.case Inr sum.case
      if_None case_None sorted_distinct check_coinbases_None check_balances_None root_sorted
    using facts by (cases "sn_Assets s = []") (simp_all add: sort_by_empty list_ex_iff)
qed

section \<open>Keys with a separator\<close>

lemma split_key_join: "a \<noteq> [] \<Longrightarrow> CHR 0x00 \<notin> set a \<Longrightarrow> k \<noteq> [] \<Longrightarrow> split_key (a @ [CHR 0x00] @ k) = Some (a, k)"
proof -
  assume a: "a \<noteq> []" "CHR 0x00 \<notin> set a" "k \<noteq> []"
  then have "takeWhile (\<lambda>c. c \<noteq> CHR 0x00) (a @ [CHR 0x00] @ k) = a"
    by (subst takeWhile_append2) auto
  with a show ?thesis by (simp add: split_key_def)
qed

lemma zero_char_less: "c \<noteq> CHR 0x00 \<Longrightarrow> CHR 0x00 < c"
proof -
  assume c: "c \<noteq> CHR 0x00"
  have "of_char c \<noteq> (0 :: nat)"
  proof
    assume "of_char c = (0 :: nat)"
    then have "c = char_of (0 :: nat)" by (metis char_of_char)
    with c show False by (simp add: char_of_def)
  qed
  then show ?thesis by (simp add: less_char_def)
qed

lemma join_less:
  "CHR 0x00 \<notin> set a \<Longrightarrow> CHR 0x00 \<notin> set b \<Longrightarrow>
     a @ [CHR 0x00] @ k < b @ [CHR 0x00] @ j \<longleftrightarrow> (a, k) < (b, j)"
proof (induction a arbitrary: b)
  case Nil
  then show ?case by (cases b) (auto simp: zero_char_less)
next
  case (Cons x a)
  show ?case
  proof (cases b)
    case Nil
    with Cons.prems have "\<not> x < CHR 0x00" using zero_char_less [of x] by auto
    with Nil Cons.prems show ?thesis by auto
  next
    case (Cons y b')
    with Cons.prems Cons.IH [of b'] show ?thesis by auto
  qed
qed

section \<open>Saving\<close>

text \<open>The buckets of the state hold a snapshot.\<close>

abbreviation owner_key :: "stake_record \<Rightarrow> string" where
  "owner_key r \<equiv> stateStakeOwnerKey (sr_OwnerAddress r) (sr_StakeID r)"

definition holds_state :: "'b bolt \<Rightarrow> 'b bolt_db \<Rightarrow> snapshot \<Rightarrow> bool" where
  "holds_state B db s \<longleftrightarrow> (\<exists>meta accounts stakes owner coinbases assets balances.
     db_state db = Some \<lparr>st_meta = Some meta, st_accounts = Some accounts, st_stakes = Some stakes,
       st_stakesByOwner = Some owner, st_coinbases = Some coinbases, st_assets = Some assets, st_balances = Some balances\<rparr>
     \<and> meta_value B meta stateVersionKey = string_of [sn_Version s]
     \<and> meta_value B meta stateHeightKey = heightKey (sn_Height s) \<and> meta_value B meta stateRootKey = sn_StateRoot s
     \<and> bolt_Pairs B accounts = map (\<lambda>a. (sa_Address a, SAccount a)) (sort_by account_less (sn_Accounts s))
     \<and> bolt_Pairs B stakes = map (\<lambda>r. (sr_StakeID r, SStake r)) (sort_by stake_less (sn_Stakes s))
     \<and> bolt_Pairs B coinbases = map (\<lambda>c. (heightKey (sc_Height c), SCredit c)) (sort_by coinbase_less (sn_Coinbases s))
     \<and> bolt_Pairs B assets = map (\<lambda>d. (def_ID d, SAsset d)) (sort_by definition_less (sn_Assets s))
     \<and> bolt_Pairs B balances = map (\<lambda>e. (stateAssetBalanceKey (be_Address e) (be_AssetID e), SRaw (heightKey (be_Amount e))))
         (sort_by entry_less (sn_AssetBalances s))
     \<and> (distinct (map owner_key (sn_Stakes s)) \<longrightarrow>
        bolt_Pairs B owner = map (\<lambda>r. (owner_key r, SStake r)) (sort_by (by_key owner_key) (sn_Stakes s))))"

context bolt_buckets
begin

lemma fold_put_get:
  "fold_ok (\<lambda>x. bolt_Put B (key x) (val x)) xs b = Inr b' \<Longrightarrow> distinct (map key xs) \<Longrightarrow>
     bolt_Get B b' = bolt_Get B b ++ map_of (map (\<lambda>x. (key x, val x)) xs)"
proof (induction xs arbitrary: b)
  case (Cons x xs)
  from Cons.prems obtain b1 where b1: "bolt_Put B (key x) (val x) b = Inr b1"
    "fold_ok (\<lambda>x. bolt_Put B (key x) (val x)) xs b1 = Inr b'" by auto
  have "map_of (map (\<lambda>x. (key x, val x)) xs) (key x) = None"
    using Cons.prems(2) by (auto simp: map_of_eq_None_iff image_iff)
  with Cons.IH [OF b1(2)] Cons.prems(2) get_put [OF b1(1)] show ?case
    by (auto simp: fun_eq_iff map_add_def split: option.splits)
qed simp

lemma fold_put_pairs:
  assumes "fold_ok (\<lambda>x. bolt_Put B (key x) (val x)) xs b = Inr b'" and "bolt_Pairs B b = []"
    and "mset ys = mset xs" and "sorted_wrt (<) (map key ys)"
  shows "bolt_Pairs B b' = map (\<lambda>x. (key x, val x)) ys"
proof (rule pairs_unique)
  have d: "distinct (map key ys)" using assms(4) strict_sorted_iff by blast
  then have dx: "distinct (map key xs)" by (metis assms(3) mset_map mset_eq_imp_distinct_iff)
  have "set ys = set xs" using mset_eq_setD [OF assms(3)] .
  moreover have "bolt_Get B b' = map_of (map (\<lambda>x. (key x, val x)) xs)"
    using fold_put_get [OF assms(1) dx] assms(2) by (simp add: get_pairs)
  ultimately show "bolt_Get B b' = map_of (map (\<lambda>x. (key x, val x)) ys)"
    using d dx by (simp add: map_of_inject_set comp_def)
  show "sorted_wrt (<) (map fst (map (\<lambda>x. (key x, val x)) ys))" using assms(4) by (simp add: comp_def)
qed

lemma fold_put_stake:
  "fold_ok (put_stake B) rs (st, ow) = Inr (st', ow') \<Longrightarrow>
     fold_ok (\<lambda>r. bolt_Put B (sr_StakeID r) (SStake r)) rs st = Inr st'
     \<and> fold_ok (\<lambda>r. bolt_Put B (stateStakeOwnerKey (sr_OwnerAddress r) (sr_StakeID r)) (SStake r)) rs ow = Inr ow'"
  by (induction rs arbitrary: st ow) (auto simp: put_stake_def)

lemma put_credit_Inr: "put_credit B c b = Inr b' \<longleftrightarrow>
    bolt_Get B b (heightKey (sc_Height c)) = None \<and> bolt_Put B (heightKey (sc_Height c)) (SCredit c) b = Inr b'"
  by (simp add: put_credit_def)

lemma fold_put_credit:
  "fold_ok (put_credit B) cs b = Inr b' \<Longrightarrow>
     fold_ok (\<lambda>c. bolt_Put B (heightKey (sc_Height c)) (SCredit c)) cs b = Inr b'
     \<and> distinct (map sc_Height cs) \<and> (\<forall>c \<in> set cs. bolt_Get B b (heightKey (sc_Height c)) = None)"
proof (induction cs arbitrary: b)
  case (Cons c cs)
  from Cons.prems obtain b1 where n: "bolt_Get B b (heightKey (sc_Height c)) = None"
    and b1: "bolt_Put B (heightKey (sc_Height c)) (SCredit c) b = Inr b1" "fold_ok (put_credit B) cs b1 = Inr b'"
    by (auto simp: put_credit_Inr)
  from Cons.IH [OF b1(2)] get_put [OF b1(1)] b1(1) n show ?case by (auto simp: image_iff split: if_splits)
qed simp

lemma strict_keys:
  assumes "snapshot_proper s"
  shows "sorted_wrt (<) (map sa_Address (sort_by account_less (sn_Accounts s)))"
    and "sorted_wrt (<) (map sr_StakeID (sort_by stake_less (sn_Stakes s)))"
    and "sorted_wrt (<) (map def_ID (sort_by definition_less (sn_Assets s)))"
    and "sorted_wrt (<) (map (\<lambda>e. (be_Address e, be_AssetID e)) (sort_by entry_less (sn_AssetBalances s)))"
    and "distinct (map sc_Height (sn_Coinbases s)) \<Longrightarrow>
      sorted_wrt (<) (map (\<lambda>c. heightKey (sc_Height c)) (sort_by coinbase_less (sn_Coinbases s)))"
proof -
  have "sorted (map sc_Height (sort_by coinbase_less (sn_Coinbases s)))"
    by (rule fst_sorted) (rule sorted_lists(3))
  then show "distinct (map sc_Height (sn_Coinbases s)) \<Longrightarrow>
      sorted_wrt (<) (map (\<lambda>c. heightKey (sc_Height c)) (sort_by coinbase_less (sn_Coinbases s)))"
    using strict_sorted_iff [of "map sc_Height (sort_by coinbase_less (sn_Coinbases s))"]
    by (simp add: distinct_sort_by sorted_wrt_map)
qed (use assms in \<open>simp_all add: strict_sorted_iff sorted_lists distinct_sort_by snapshot_proper_def\<close>)

lemma balance_keys_strict:
  assumes "snapshot_proper s" and "\<And>e. e \<in> set (sn_AssetBalances s) \<Longrightarrow> CHR 0x00 \<notin> set (be_Address e)"
  shows "sorted_wrt (<) (map (\<lambda>e. stateAssetBalanceKey (be_Address e) (be_AssetID e)) (sort_by entry_less (sn_AssetBalances s)))"
proof -
  let ?es = "sort_by entry_less (sn_AssetBalances s)"
  have "sorted_wrt (\<lambda>e f. (be_Address e, be_AssetID e) < (be_Address f, be_AssetID f)) ?es"
    using strict_keys(4) [OF assms(1)] by (simp add: sorted_wrt_map)
  then have "sorted_wrt (\<lambda>e f. stateAssetBalanceKey (be_Address e) (be_AssetID e)
      < stateAssetBalanceKey (be_Address f) (be_AssetID f)) ?es"
    by (rule sorted_wrt_mono_rel [rotated])
      (use assms(2) join_less in \<open>simp add: stateAssetBalanceKey_def stateAssetBalancePrefix_def\<close>)
  then show ?thesis by (simp add: sorted_wrt_map)
qed

lemma put_meta_values:
  assumes "put_meta B s meta = Inr meta'"
  shows "meta_value B meta' stateVersionKey = string_of [sn_Version s]"
    and "meta_value B meta' stateHeightKey = heightKey (sn_Height s)" and "meta_value B meta' stateRootKey = sn_StateRoot s"
  using assms
  by (auto simp: put_meta_def meta_value_def stateVersionKey_def stateHeightKey_def stateRootKey_def dest!: get_put)

lemma saveStateTx_holds:
  assumes "saveStateTx B s db = Inr db'" and "\<And>e. e \<in> set (sn_AssetBalances s) \<Longrightarrow> CHR 0x00 \<notin> set (be_Address e)"
  shows "holds_state B db' s" and "snapshot_proper s"
proof -
  from assms(1) show p: "snapshot_proper s" by (auto simp: saveStateTx_def snapshot_Validate_proper)
  from assms(1) obtain meta0 ac0 st0 ow0 cb0 as0 ba0 meta1 ac1 st1 ow1 cb1 as1 ba1 meta ac st ow cb as ba
    where clear: "clear_state B (meta0, ac0, st0, ow0, cb0, as0, ba0) = Inr (meta1, ac1, st1, ow1, cb1, as1, ba1)"
      and m: "put_meta B s meta1 = Inr meta" and a: "fold_ok (put_account B) (sn_Accounts s) ac1 = Inr ac"
      and r: "fold_ok (put_stake B) (sn_Stakes s) (st1, ow1) = Inr (st, ow)"
      and d: "fold_ok (put_asset B) (sn_Assets s) as1 = Inr as"
      and b: "fold_ok (put_balance B) (sn_AssetBalances s) ba1 = Inr ba"
      and c: "fold_ok (put_credit B) (sn_Coinbases s) cb1 = Inr cb"
      and db': "db' = with_state (meta, ac, st, ow, cb, as, ba) db"
    unfolding saveStateTx_def by (auto split: prod.splits)
  have e: "bolt_Pairs B ac1 = []" "bolt_Pairs B st1 = []" "bolt_Pairs B ow1 = []" "bolt_Pairs B cb1 = []"
    "bolt_Pairs B as1 = []" "bolt_Pairs B ba1 = []"
    using clear by (auto simp: clear_state_def dest!: clear_pairs)
  note r = fold_put_stake [OF r]
  note c = fold_put_credit [OF c]
  note keys = strict_keys [OF p]
  have "bolt_Pairs B ac = map (\<lambda>a. (sa_Address a, SAccount a)) (sort_by account_less (sn_Accounts s))"
    using a unfolding put_account_def by (rule fold_put_pairs) (simp_all add: e mset_sort_by keys)
  moreover have "bolt_Pairs B st = map (\<lambda>r. (sr_StakeID r, SStake r)) (sort_by stake_less (sn_Stakes s))"
    using r by (intro fold_put_pairs) (auto simp: e mset_sort_by keys)
  moreover have "bolt_Pairs B cb = map (\<lambda>c. (heightKey (sc_Height c), SCredit c)) (sort_by coinbase_less (sn_Coinbases s))"
    using c by (intro fold_put_pairs) (auto simp: e mset_sort_by keys)
  moreover have "bolt_Pairs B as = map (\<lambda>d. (def_ID d, SAsset d)) (sort_by definition_less (sn_Assets s))"
    using d unfolding put_asset_def by (rule fold_put_pairs) (simp_all add: e mset_sort_by keys)
  moreover have "bolt_Pairs B ba = map (\<lambda>e. (stateAssetBalanceKey (be_Address e) (be_AssetID e), SRaw (heightKey (be_Amount e))))
         (sort_by entry_less (sn_AssetBalances s))"
    using b unfolding put_balance_def
    by (rule fold_put_pairs) (simp_all add: e mset_sort_by balance_keys_strict [OF p assms(2)])
  moreover have "bolt_Pairs B ow = map (\<lambda>r. (owner_key r, SStake r)) (sort_by (by_key owner_key) (sn_Stakes s))"
    if "distinct (map owner_key (sn_Stakes s))"
  proof (rule fold_put_pairs [OF conjunct2 [OF r]])
    show "sorted_wrt (<) (map owner_key (sort_by (by_key owner_key) (sn_Stakes s)))"
      using that by (simp add: strict_sorted_iff sorted_sort_by distinct_sort_by)
  qed (simp_all add: e mset_sort_by)
  ultimately show "holds_state B db' s"
    unfolding holds_state_def db' with_state_def by (auto simp: put_meta_values [OF m])
qed

subsection \<open>Loading\<close>

lemma load_lists:
  "fold_ok load_account (map (\<lambda>a. (sa_Address a, SAccount a)) as) acc1 = Inr (acc1 @ as)"
  "fold_ok load_stake (map (\<lambda>r. (sr_StakeID r, SStake r)) rs) acc2 = Inr (acc2 @ rs)"
  "fold_ok load_credit (map (\<lambda>c. (heightKey (sc_Height c), SCredit c)) cs) acc3 = Inr (acc3 @ cs)"
  "fold_ok load_asset (map (\<lambda>d. (def_ID d, SAsset d)) ds) acc4 = Inr (acc4 @ ds)"
     apply (induction as arbitrary: acc1; simp add: load_account_def as_account_def on_ok_def)
    apply (induction rs arbitrary: acc2; simp add: load_stake_def as_stake_def on_ok_def)
   apply (induction cs arbitrary: acc3; simp add: load_credit_def as_credit_def on_ok_def)
  apply (induction ds arbitrary: acc4; simp add: load_asset_def as_asset_def on_ok_def)
  done

lemma load_balances:
  assumes "\<And>e. e \<in> set es \<Longrightarrow> be_Address e \<noteq> [] \<and> be_AssetID e \<noteq> [] \<and> CHR 0x00 \<notin> set (be_Address e)"
  shows "fold_ok load_balance (map (\<lambda>e. (stateAssetBalanceKey (be_Address e) (be_AssetID e), SRaw (heightKey (be_Amount e)))) es) acc
    = Inr (acc @ es)"
  using assms
proof (induction es arbitrary: acc)
  case (Cons e es)
  then have "split_key (stateAssetBalanceKey (be_Address e) (be_AssetID e)) = Some (be_Address e, be_AssetID e)"
    using split_key_join [of "be_Address e" "be_AssetID e"]
    by (simp add: stateAssetBalanceKey_def stateAssetBalancePrefix_def)
  with Cons show ?case by (simp add: load_balance_def on_ok_def)
qed simp

lemma snapshot_sorted_proper: "snapshot_proper s \<Longrightarrow> snapshot_proper (snapshot_sorted s)"
  unfolding snapshot_proper_def snapshot_sorted_def StableDigestInputs_def
  by (cases "sn_Assets s = []") (simp_all add: distinct_sort_by sort_idem root_sorted sort_by_empty)

lemma snapshot_sorted_eq:
  "snapshot_sorted s = \<lparr>sn_Version = sn_Version s, sn_Height = sn_Height s, sn_StateRoot = sn_StateRoot s,
     sn_Accounts = sort_by account_less (sn_Accounts s), sn_Stakes = sort_by stake_less (sn_Stakes s),
     sn_Coinbases = sort_by coinbase_less (sn_Coinbases s), sn_Assets = sort_by definition_less (sn_Assets s),
     sn_AssetBalances = sort_by entry_less (sn_AssetBalances s)\<rparr>"
  by (cases s) (simp add: snapshot_sorted_def StableDigestInputs_def)

lemma load_holds:
  assumes "holds_state B db s" and "snapshot_proper s"
    and "\<And>e. e \<in> set (sn_AssetBalances s) \<Longrightarrow> CHR 0x00 \<notin> set (be_Address e)"
  shows "store_LoadState B db = Inr (snapshot_sorted s)"
proof -
  have es: "fold_ok load_balance (map (\<lambda>e. (stateAssetBalanceKey (be_Address e) (be_AssetID e), SRaw (heightKey (be_Amount e))))
      (sort_by entry_less (sn_AssetBalances s))) [] = Inr ([] @ sort_by entry_less (sn_AssetBalances s))"
    using assms(2, 3) by (intro load_balances) (auto simp: snapshot_proper_def)
  have "snapshot_Validate (snapshot_sorted s) = None"
    using snapshot_sorted_proper [OF assms(2)] by (simp add: snapshot_Validate_proper)
  moreover have "sn_StateRoot s \<noteq> []" using assms(2) by (simp add: snapshot_proper_def)
  ultimately show ?thesis
    using assms(1)
    by (auto simp: holds_state_def store_LoadState_def need_def on_ok_def unless_err_def meta_complete_def
        load_lists es snapshot_sorted_eq Let_def)
qed

subsection \<open>The checks on opening\<close>

lemma index_assets:
  "\<forall>d \<in> set ds. proper_asset d \<Longrightarrow>
     fold_ok index_asset (map (\<lambda>d. (def_ID d, SAsset d)) ds) ids = Inr (ids \<union> def_ID ` set ds)"
  by (induction ds arbitrary: ids)
    (auto simp: index_asset_def as_asset_def on_ok_def unless_err_def proper_asset_def split: if_splits)

lemma index_balances:
  assumes "\<And>e. e \<in> set es \<Longrightarrow> be_Address e \<noteq> [] \<and> be_AssetID e \<noteq> [] \<and> be_Amount e \<noteq> 0
      \<and> CHR 0x00 \<notin> set (be_Address e) \<and> be_AssetID e \<in> ids"
  shows "fold_ok (index_balance ids) (map (\<lambda>e. (stateAssetBalanceKey (be_Address e) (be_AssetID e), SRaw (heightKey (be_Amount e)))) es) m
    = Inr (fold (\<lambda>e m. if IsNative (be_AssetID e) then fmupd (be_Address e) (be_Amount e) m else m) es m)"
  using assms
proof (induction es arbitrary: m)
  case (Cons e es)
  then have "split_key (stateAssetBalanceKey (be_Address e) (be_AssetID e)) = Some (be_Address e, be_AssetID e)"
    using split_key_join [of "be_Address e" "be_AssetID e"]
    by (simp add: stateAssetBalanceKey_def stateAssetBalancePrefix_def)
  with Cons show ?case by (simp add: index_balance_def on_ok_def)
qed simp

lemma index_accounts:
  "\<forall>a \<in> set as. get_or 0 nb (sa_Address a) = sa_Confirmed a \<Longrightarrow>
     fold_ok (index_account nb) (map (\<lambda>a. (sa_Address a, SAccount a)) as) () = Inr ()"
  by (induction as) (auto simp: index_account_def as_account_def on_ok_def)

lemma index_stakes:
  "\<forall>r \<in> set rs. bolt_Get B ow (owner_key r) = Some (SStake r) \<Longrightarrow>
     fold_ok (index_stake B ow) (map (\<lambda>r. (sr_StakeID r, SStake r)) rs) n = Inr (n + length rs)"
  by (induction rs arbitrary: n) (auto simp: index_stake_def as_stake_def on_ok_def)

lemma index_owners:
  assumes "\<And>r. r \<in> set rs \<Longrightarrow> bolt_Get B st (sr_StakeID r) = Some (SStake r) \<and> sr_OwnerAddress r \<noteq> []
      \<and> sr_StakeID r \<noteq> [] \<and> CHR 0x00 \<notin> set (sr_OwnerAddress r)"
  shows "fold_ok (index_owner B st) (map (\<lambda>r. (owner_key r, SStake r)) rs) n = Inr (n + length rs)"
  using assms
proof (induction rs arbitrary: n)
  case (Cons r rs)
  then have "split_key (owner_key r) = Some (sr_OwnerAddress r, sr_StakeID r)"
    using split_key_join [of "sr_OwnerAddress r" "sr_StakeID r"]
    by (simp add: stateStakeOwnerKey_def stateStakeOwnerPrefix_def)
  with Cons show ?case by (simp add: index_owner_def as_stake_def on_ok_def)
qed simp

lemma index_credits:
  "\<forall>c \<in> set cs. sc_Address c \<noteq> [] \<and> sc_Amount c \<noteq> 0 \<Longrightarrow>
     fold_ok index_credit (map (\<lambda>c. (heightKey (sc_Height c), SCredit c)) cs) () = Inr ()"
  by (induction cs) (auto simp: index_credit_def as_credit_def on_ok_def)

end

text \<open>
  The snapshots whose addresses can be used in keys and whose accounts agree with the native balances
  also where no assets are listed.
\<close>

definition storable :: "snapshot \<Rightarrow> bool" where
  "storable s \<longleftrightarrow> (\<forall>e \<in> set (sn_AssetBalances s). CHR 0x00 \<notin> set (be_Address e))
     \<and> (\<forall>r \<in> set (sn_Stakes s). sr_OwnerAddress r \<noteq> [] \<and> sr_StakeID r \<noteq> [] \<and> CHR 0x00 \<notin> set (sr_OwnerAddress r))
     \<and> (sn_Assets s = [] \<longrightarrow> (\<forall>a \<in> set (sn_Accounts s). sa_Confirmed a = 0))"

lemma owner_keys_distinct:
  assumes "distinct (map sr_StakeID rs)"
    and "\<And>r. r \<in> set rs \<Longrightarrow> sr_OwnerAddress r \<noteq> [] \<and> sr_StakeID r \<noteq> [] \<and> CHR 0x00 \<notin> set (sr_OwnerAddress r)"
  shows "distinct (map owner_key rs)"
proof -
  have "split_key (owner_key r) = Some (sr_OwnerAddress r, sr_StakeID r)" if "r \<in> set rs" for r
    using assms(2) [OF that] split_key_join by (simp add: stateStakeOwnerKey_def stateStakeOwnerPrefix_def)
  then have "sr_StakeID a = sr_StakeID b" if "a \<in> set rs" "b \<in> set rs" "owner_key a = owner_key b" for a b
    using that by (metis option.inject prod.inject)
  with assms(1) show ?thesis by (auto simp: distinct_map inj_on_def)
qed

context bolt_buckets
begin

lemma holds_indexes:
  assumes "holds_state B db s" and p: "snapshot_proper s" and st: "storable s"
  shows "store_ValidateStateIndexes B db = None"
proof -
  note st = st [unfolded storable_def] and p = snapshot_properD [OF p]
  have od: "distinct (map owner_key (sn_Stakes s))"
    using st by (intro owner_keys_distinct p(1)) blast
  obtain meta accounts stakes owner coinbases assets balances where db:
     "db_state db = Some \<lparr>st_meta = Some meta, st_accounts = Some accounts, st_stakes = Some stakes,
       st_stakesByOwner = Some owner, st_coinbases = Some coinbases, st_assets = Some assets, st_balances = Some balances\<rparr>"
     and pairs: "bolt_Pairs B accounts = map (\<lambda>a. (sa_Address a, SAccount a)) (sort_by account_less (sn_Accounts s))"
     "bolt_Pairs B stakes = map (\<lambda>r. (sr_StakeID r, SStake r)) (sort_by stake_less (sn_Stakes s))"
     "bolt_Pairs B coinbases = map (\<lambda>c. (heightKey (sc_Height c), SCredit c)) (sort_by coinbase_less (sn_Coinbases s))"
     "bolt_Pairs B assets = map (\<lambda>d. (def_ID d, SAsset d)) (sort_by definition_less (sn_Assets s))"
     "bolt_Pairs B balances = map (\<lambda>e. (stateAssetBalanceKey (be_Address e) (be_AssetID e), SRaw (heightKey (be_Amount e))))
         (sort_by entry_less (sn_AssetBalances s))"
     "bolt_Pairs B owner = map (\<lambda>r. (owner_key r, SStake r)) (sort_by (by_key owner_key) (sn_Stakes s))"
    using assms(1) unfolding holds_state_def by (elim exE conjE) (erule that, assumption+, erule mp [OF _ od])
  have so: "bolt_Get B owner (owner_key r) = Some (SStake r)" if "r \<in> set (sn_Stakes s)" for r
    unfolding get_pairs pairs using that od by (intro map_of_is_SomeI) (auto simp: comp_def distinct_sort_by)
  have ss: "bolt_Get B stakes (sr_StakeID r) = Some (SStake r)" if "r \<in> set (sn_Stakes s)" for r
    unfolding get_pairs pairs using that p(1) by (intro map_of_is_SomeI) (auto simp: comp_def distinct_sort_by)
  let ?es = "sort_by entry_less (sn_AssetBalances s)"
  have a: "fold_ok index_asset (bolt_Pairs B assets) {} = Inr (def_ID ` set (sn_Assets s))"
    using p(2) by (simp add: pairs index_assets)
  have b: "fold_ok (index_balance (def_ID ` set (sn_Assets s))) (bolt_Pairs B balances) fmempty = Inr (native_balances ?es)"
    unfolding pairs native_balances_def using p(3) st by (intro index_balances) auto
  have "native_balances ?es = fmempty" if "sn_Assets s = []"
    using that p(3) by (cases "sn_AssetBalances s") (auto simp: native_balances_def sort_by_def)
  then have c: "fold_ok (index_account (native_balances ?es)) (bolt_Pairs B accounts) () = Inr ()"
    unfolding pairs using p(4) st by (intro index_accounts) (cases "sn_Assets s = []"; auto)
  have d: "fold_ok (index_stake B owner) (bolt_Pairs B stakes) 0 = Inr (length (sn_Stakes s))"
    using index_stakes [of "sort_by stake_less (sn_Stakes s)" owner 0] so size_mset [of "sort_by stake_less (sn_Stakes s)"]
    by (simp add: pairs mset_sort_by)
  have e: "fold_ok (index_owner B stakes) (bolt_Pairs B owner) 0 = Inr (length (sn_Stakes s))"
    using index_owners [of "sort_by (by_key owner_key) (sn_Stakes s)" stakes 0] ss st
      size_mset [of "sort_by (by_key owner_key) (sn_Stakes s)"]
    by (simp add: pairs mset_sort_by)
  have f: "fold_ok index_credit (bolt_Pairs B coinbases) () = Inr ()"
    using p(5) by (simp add: pairs index_credits)
  show ?thesis
    by (simp add: store_ValidateStateIndexes_def db need_def on_ok_def a b c d e f)
qed

end

section \<open>Main results\<close>

text \<open>
  A snapshot that was saved is loaded back, in sorted form, and the two are equivalent: provided no
  address contains a zero byte, the byte that separates the parts of a key.
\<close>

theorem saved_state_loads:
  assumes "bolt_buckets B" and "store_SaveState B s db = (None, db')"
    and "\<forall>e \<in> set (sn_AssetBalances s). CHR 0x00 \<notin> set (be_Address e)"
  shows "store_LoadState B db' = Inr (snapshot_sorted s) \<and> Equivalent s (snapshot_sorted s)"
proof -
  from assms(2) have "saveStateTx B s db = Inr db'" by (auto simp: store_SaveState_def split: option.splits)
  note held = bolt_buckets.saveStateTx_holds [OF assms(1) this bspec [OF assms(3)]]
  have "Equivalent s (snapshot_sorted s)"
    by (simp add: Equivalent_def snapshot_sorted_def StableDigestInputs_def sort_idem)
  with bolt_buckets.load_holds [OF assms(1) held bspec [OF assms(3)]] show ?thesis by simp
qed

lemma committed:
  assumes "store_SaveBlockAndState B block s db = (None, db')"
  shows "\<exists>db1. saveStateTx B s db1 = Inr db'" and "validateBlockStatePair block s = None"
  using assms by (auto simp: store_SaveBlockAndState_def split: option.splits)

context bolt_buckets
begin

lemma consistency_check:
  assumes "holds_chain B db (bs @ [block])" and "holds_state B db s" and "snapshot_proper s" and "sn_Height s = b_Height block"
  shows "store_ValidateChainStateConsistency B db
    = (if b_StateRoot block \<noteq> [] \<and> sn_StateRoot s \<noteq> b_StateRoot block
       then Some (Err ''chain tip/state root mismatch'') else None)"
  using assms snapshot_properD(6) [OF assms(3)] chain_get_last [of "bs @ [block]"]
  by (auto simp: holds_chain_def holds_state_def store_ValidateChainStateConsistency_def tip_state_check_def
      as_block_def need_def)

lemma held_metadata:
  assumes "holds_state B db s" and "snapshot_proper s"
  shows "store_GetStateMetadata B db = Inr (sn_Version s, sn_Height s, sn_StateRoot s)"
  using assms snapshot_properD(6) [OF assms(2)]
  by (auto simp: holds_state_def store_GetStateMetadata_def meta_complete_def need_def on_ok_def)

lemma committed_holds:
  assumes "holds_chain B db bs" and "store_SaveBlockAndState B block s db = (None, db')" and "storable s"
  shows "holds_chain B db' (bs @ [block])" and "holds_state B db' s" and "snapshot_proper s" and "sn_Height s = b_Height block"
proof -
  obtain db1 where "saveStateTx B s db1 = Inr db'" using committed(1) [OF assms(2)] by blast
  then show "holds_state B db' s" "snapshot_proper s"
    using saveStateTx_holds [of s db1 db'] assms(3) by (auto simp: storable_def)
  show "holds_chain B db' (bs @ [block])" using SaveBlockAndState_chain(1) [OF assms(1, 2)] .
  show "sn_Height s = b_Height block"
    using committed(2) [OF assms(2)] by (auto simp: validateBlockStatePair_def split: option.splits if_splits)
qed

end


text \<open>
  A block in the old format that carries any state root other than that of its state is committed, and
  the store cannot be opened again while it is the tip: the commit compares the roots of canonical
  blocks only, and the check on opening those of all blocks.
\<close>

theorem old_block_root_blocks_start:
  assumes "bolt_buckets B" and "holds_chain B db bs" and "store_SaveBlockAndState B block s db = (None, db')"
    and "storable s" and "b_StateRoot block \<noteq> []" and "b_StateRoot block \<noteq> sn_StateRoot s"
  shows "store_ValidateStartupIntegrity B db' = Some (Err ''chain tip/state root mismatch'')"
proof -
  note held = bolt_buckets.committed_holds [OF assms(1-4)]
  show ?thesis
    using bolt_buckets.read_chain(3) [OF assms(1) held(1)] bolt_buckets.consistency_check [OF assms(1) held] assms(5, 6)
    by (auto simp: store_ValidateStartupIntegrity_def)
qed

text \<open>The root of a block in the old format is not part of its header, so anyone can change it.\<close>

lemma old_block_root_free:
  "b_ProtocolVersion block \<noteq> BlockVersionCanonical \<Longrightarrow> CalculateHash (block\<lparr>b_StateRoot := r\<rparr>) = CalculateHash block"
  by (auto simp: CalculateHash_def HeaderBytesWithNonce_def b_ProtocolVersion_def split: if_splits)

end
