(* ===== verification/Store_Scenarios.thy ===== *)
theory Store_Scenarios
  imports Store_State Chain_Scenarios
begin

text \<open>
  Concrete inputs for the properties of the store: the database of finite maps, opened new, with the genesis
  block of a network and the snapshot of its empty ledger.
\<close>

lemma map_bolt_fields [simp]:
  "bolt_New map_bolt = fmempty" "bolt_Get map_bolt b k = fmlookup b k"
  "k \<noteq> [] \<Longrightarrow> bolt_Put map_bolt k v b = Inr (fmupd k v b)" "bolt_Pairs map_bolt b = sorted_list_of_fmap b"
  "bolt_DeleteFrom map_bolt k b = Inr (fmfilter (\<lambda>j. j < k) b)" "bolt_Commit map_bolt = None"
  by (simp_all add: map_bolt_def)

definition empty_db :: "(string, stored) fmap bolt_db" where
  "empty_db = \<lparr>db_blocks = Some fmempty, db_meta = Some fmempty,
     db_state = Some \<lparr>st_meta = Some fmempty, st_accounts = Some fmempty, st_stakes = Some fmempty,
       st_stakesByOwner = Some fmempty, st_coinbases = Some fmempty, st_assets = Some fmempty, st_balances = Some fmempty\<rparr>\<rparr>"

lemma empty_db_init: "store_Init map_bolt \<lparr>db_blocks = None, db_meta = None, db_state = None\<rparr> = (None, empty_db)"
  by (simp add: store_Init_def created_def empty_db_def)

lemma empty_db_reach: "store_reach map_bolt empty_db"
  by (rule store_reach.fresh [OF _ _ empty_db_init]) simp_all

lemma empty_db_chain: "holds_chain map_bolt empty_db []"
  by (rule map_store.Init_new [OF _ _ empty_db_init]) simp_all


definition empty_snapshot :: snapshot where
  "empty_snapshot = SnapshotForLedger fresh_ledger"

lemma fresh_lists: "StateAccounts fresh_ledger = []" "fst (StateStakes fresh_ledger) = []"
  "StateCoinbases fresh_ledger = []" "StateAssetDefinitions fresh_ledger = [native_definition]"
  "StateAssetBalances fresh_ledger = []"
proof -
  have "sorted_list_of_fmap (fmupd k v fmempty) = [(k, v)]" for k :: string and v :: asset_definition
    by (simp add: sorted_list_of_fmap_def sorted_list_of_fset_def)
  then show "StateAssetDefinitions fresh_ledger = [native_definition]"
    by (simp add: StateAssetDefinitions_def fresh_fields open_net_fields Definitions_def NewAssetState_def)
qed (simp_all add: StateAccounts_def StateStakes_def StateCoinbases_def StateAssetBalances_def Balances_def
    NewAssetState_def fresh_fields Records_def fresh_ledger_def NewMatureWithProfile_def NewStakeState_def Let_def
    RefreshReleased_def)

lemma empty_snapshot_eq:
  "empty_snapshot = \<lparr>sn_Version = SnapshotVersion, sn_Height = 0,
     sn_StateRoot = RootForCollectionsWithAssets [] [] [native_definition] [], sn_Accounts = [], sn_Stakes = [],
     sn_Coinbases = [], sn_Assets = [native_definition], sn_AssetBalances = []\<rparr>"
  by (simp add: empty_snapshot_def SnapshotForLedger_def StableDigestInputs_def fresh_lists fresh_fields sort_by_def Let_def)

lemma empty_snapshot_proper: "snapshot_proper empty_snapshot"
proof -
  have "length (RootForCollectionsWithAssets [] [] [native_definition] []) = 64"
    by (simp add: RootForCollectionsWithAssets_def StableDigestInputs_def length_DoubleSHA256Hex)
  then have "RootForCollectionsWithAssets [] [] [native_definition] [] \<noteq> []" by auto
  moreover have "def_ID native_definition = NativeAssetID" "proper_asset native_definition"
    by (simp_all add: native_definition_def proper_asset_def)
  ultimately show ?thesis by (simp add: snapshot_proper_def empty_snapshot_eq)
qed

lemma empty_snapshot_storable: "storable empty_snapshot"
  by (simp add: storable_def empty_snapshot_eq)

lemma key_nonempty [simp]: "heightKey h \<noteq> []"
  using length_heightKey [of h] by (metis length_0_conv zero_neq_numeral)

lemma saves_empty_snapshot:
  assumes "db_state db = db_state empty_db"
  shows "\<exists>db'. saveStateTx map_bolt empty_snapshot db = Inr db'"
proof -
  have "snapshot_Validate empty_snapshot = None" using empty_snapshot_proper by (simp add: snapshot_Validate_proper)
  moreover have "def_ID native_definition \<noteq> []" by (simp add: native_definition_def NativeAssetID_def)
  ultimately show ?thesis
    using assms
    by (simp add: saveStateTx_def state_buckets_def clear_state_def clearBucket_def empty_db_def need_def on_ok_def
        unless_err_def put_meta_def put_asset_def stateVersionKey_def stateHeightKey_def stateRootKey_def empty_snapshot_eq)
qed

definition first_block :: block where
  "first_block = GenesisBlockForNetwork open_net"

lemma first_block_fields: "b_Height first_block = 0" "b_StateRoot first_block = []"
  "b_ProtocolVersion first_block \<noteq> BlockVersionCanonical"
  by (simp_all add: first_block_def GenesisBlockForNetwork_def Let_def zero_block_def b_ProtocolVersion_def
      BlockVersionCanonical_def BlockVersionLegacy_def)

lemma first_commit:
  assumes "b_Height b = 0" and "b_ProtocolVersion b \<noteq> BlockVersionCanonical"
  shows "\<exists>db'. store_SaveBlockAndState map_bolt b empty_snapshot empty_db = (None, db')"
proof -
  have v: "snapshot_Validate empty_snapshot = None" using empty_snapshot_proper by (simp add: snapshot_Validate_proper)
  have pair: "validateBlockStatePair b empty_snapshot = None"
    using assms v by (simp add: validateBlockStatePair_def empty_snapshot_eq)
  have pre: "validateCanonicalCommitPreconditionsTx map_bolt b empty_db = None"
    using assms map_store.commit_check [OF empty_db_chain, of b] by simp
  have "\<exists>db1. put_tip map_bolt b empty_db = Inr db1 \<and> db_state db1 = db_state empty_db"
    by (simp add: put_tip_def on_ok_def must_def empty_db_def tipKey_def)
  then obtain db1 where db1: "put_tip map_bolt b empty_db = Inr db1" "db_state db1 = db_state empty_db" by blast
  obtain db' where "saveStateTx map_bolt empty_snapshot db1 = Inr db'" using saves_empty_snapshot [OF db1(2)] by blast
  then show ?thesis
    by (simp add: store_SaveBlockAndState_def pair pre db_Update_def unless_err_def on_ok_def db1)
qed


theorem old_block_root_blocks_start_witness:
  "\<exists>db'. store_SaveBlockAndState map_bolt (first_block\<lparr>b_StateRoot := ''x''\<rparr>) empty_snapshot empty_db = (None, db')
    \<and> store_ValidateStartupIntegrity map_bolt db' = Some (Err ''chain tip/state root mismatch'')"
proof -
  let ?b = "first_block\<lparr>b_StateRoot := ''x''\<rparr>"
  have "length (sn_StateRoot empty_snapshot) = 64"
    by (simp add: empty_snapshot_eq RootForCollectionsWithAssets_def StableDigestInputs_def length_DoubleSHA256Hex)
  then have "length (b_StateRoot ?b) \<noteq> length (sn_StateRoot empty_snapshot)" by simp
  then have r: "b_StateRoot ?b \<noteq> sn_StateRoot empty_snapshot" by metis
  have pv: "b_ProtocolVersion ?b = b_ProtocolVersion first_block" by (simp add: b_ProtocolVersion_def)
  obtain db' where db': "store_SaveBlockAndState map_bolt ?b empty_snapshot empty_db = (None, db')"
    using first_commit [of ?b] first_block_fields pv by auto
  then show ?thesis
    using old_block_root_blocks_start [OF map_store.bolt_buckets_axioms empty_db_chain db' empty_snapshot_storable _ r] by auto
qed

theorem saved_state_loads_witness:
  "\<exists>db'. store_SaveState map_bolt empty_snapshot empty_db = (None, db')
    \<and> store_LoadState map_bolt db' = Inr (snapshot_sorted empty_snapshot)"
proof -
  have v: "snapshot_Validate empty_snapshot = None" using empty_snapshot_proper by (simp add: snapshot_Validate_proper)
  obtain db' where "saveStateTx map_bolt empty_snapshot empty_db = Inr db'" using saves_empty_snapshot by blast
  moreover have "validateStateAgainstCanonicalTipTx map_bolt empty_snapshot empty_db = None"
    by (simp add: validateStateAgainstCanonicalTipTx_def empty_db_def chain_buckets_def)
  ultimately have db': "store_SaveState map_bolt empty_snapshot empty_db = (None, db')"
    by (simp add: store_SaveState_def v db_Update_def unless_err_def)
  then show ?thesis
    using saved_state_loads [OF map_store.bolt_buckets_axioms db'] by (simp add: empty_snapshot_eq)
qed

theorem replaced_branch_witness:
  "case store_ReplaceFromHeightAndState map_bolt 0 [first_block] empty_snapshot empty_db of
      (Some e, db') \<Rightarrow> db' = empty_db
    | (None, db') \<Rightarrow> store_Blocks map_bolt db' = Inr [first_block]"
  using replaced_branch [OF map_store.bolt_buckets_axioms empty_db_chain, of "[first_block]" 0 empty_snapshot]
  by (auto split: prod.splits option.splits)

end
