(* ===== verification/Blockchain.thy ===== *)
theory Blockchain
  imports Store_State Selection
begin

text \<open>
  \<open>chain/blockchain.go\<close>, \<open>chain/stats.go\<close>, \<open>chain/fee_query.go\<close> and \<open>chain/asset_query.go\<close>: the chain on top of the
  store. The only store of the node is the bolt store, which implements every store interface, so the
  type assertions of the code always succeed and their other branches are left out. The clock, the
  cancellation of the context and the order of Go's maps are arguments.
\<close>

section \<open>Queries\<close>

definition snapshotMatchesTip :: "snapshot \<Rightarrow> block \<Rightarrow> bool" where
  "snapshotMatchesTip s tip =
    (if sn_Version s \<noteq> SnapshotVersion \<or> sn_Height s \<noteq> b_Height tip then False
     else if b_ProtocolVersion tip = BlockVersionCanonical then
       b_StateRoot tip \<noteq> [] \<and> b_StateRoot tip = sn_StateRoot s
     else True)"

text \<open>Whether the metadata of the stored state is that of the tip.\<close>

definition state_current :: "err + u8 \<times> u64 \<times> string \<Rightarrow> block \<Rightarrow> bool" where
  "state_current meta tip =
    (case meta of
       Inl _ \<Rightarrow> False
     | Inr (version, height, stateRoot) \<Rightarrow>
         if version = SnapshotVersion \<and> height = b_Height tip then
           (if b_ProtocolVersion tip = BlockVersionCanonical then b_StateRoot tip \<noteq> [] \<and> b_StateRoot tip = stateRoot
            else True)
         else False)"

definition or_localnet :: "network_config \<Rightarrow> network_config" where
  "or_localnet profile = (if nc_Name profile = [] then Localnet else profile)"

record state_status =
  ss_Available :: bool
  ss_Current :: bool
  ss_Version :: u8
  ss_Height :: u64
  ss_StateRoot :: string
  ss_TipHeight :: u64
  ss_TipHash :: string

definition StateStatusWithNetwork :: "'b bolt \<Rightarrow> 'b bolt_db \<Rightarrow> err + state_status" where
  "StateStatusWithNetwork B db =
    on_ok (store_Tip B db) (\<lambda>tip.
      let result = \<lparr>ss_Available = False, ss_Current = False, ss_Version = 0, ss_Height = 0, ss_StateRoot = [],
                    ss_TipHeight = b_Height tip, ss_TipHash = b_Hash tip\<rparr> in
      case store_GetStateMetadata B db of
        Inl _ \<Rightarrow> Inr result
      | Inr (version, height, stateRoot) \<Rightarrow>
          Inr (result\<lparr>ss_Available := True, ss_Version := version, ss_Height := height, ss_StateRoot := stateRoot,
                 ss_Current := state_current (Inr (version, height, stateRoot)) tip\<rparr>))"

record state_validation =
  sv_Valid :: bool
  sv_Height :: u64
  sv_StateRoot :: string
  sv_Accounts :: nat
  sv_Stakes :: nat
  sv_PendingCoinbases :: nat
  sv_Error :: "err option"

definition zero_validation :: state_validation where
  "zero_validation = \<lparr>sv_Valid = False, sv_Height = 0, sv_StateRoot = [], sv_Accounts = 0, sv_Stakes = 0,
     sv_PendingCoinbases = 0, sv_Error = None\<rparr>"

definition ValidateStateWithNetwork ::
  "ext \<Rightarrow> 'b bolt \<Rightarrow> network_config \<Rightarrow> 'b bolt_db \<Rightarrow> err option \<times> state_validation" where
  "ValidateStateWithNetwork X B profile0 db =
    (let profile = or_localnet profile0 in
     case store_Tip B db of
       Inl e \<Rightarrow> (Some e, zero_validation)
     | Inr tip \<Rightarrow>
     (case store_ValidateStateIndexes B db of
        Some e \<Rightarrow> (Some e, zero_validation\<lparr>sv_Height := b_Height tip, sv_Error := Some e\<rparr>)
      | None \<Rightarrow>
      (case store_LoadState B db of
         Inl e \<Rightarrow> (Some e, zero_validation)
       | Inr persisted \<Rightarrow>
       (case store_Blocks B db of
          Inl e \<Rightarrow> (Some e, zero_validation)
        | Inr blocks \<Rightarrow>
        (case SnapshotForBlocks X blocks (nc_Consensus profile) profile of
           Inl e \<Rightarrow> (Some e, zero_validation\<lparr>sv_Height := b_Height tip, sv_StateRoot := sn_StateRoot persisted\<rparr>)
         | Inr expected \<Rightarrow>
             let mismatch = Err ''state snapshot does not match canonical chain'';
                 result = \<lparr>sv_Valid = Equivalent persisted expected, sv_Height = sn_Height persisted,
                   sv_StateRoot = sn_StateRoot persisted, sv_Accounts = length (sn_Accounts persisted),
                   sv_Stakes = length (sn_Stakes persisted), sv_PendingCoinbases = length (sn_Coinbases persisted),
                   sv_Error = None\<rparr> in
             if \<not> sv_Valid result then (Some mismatch, result\<lparr>sv_Error := Some mismatch\<rparr>) else (None, result))))))"

definition zero_state_account :: state_account where
  "zero_state_account = \<lparr>sa_Address = [], sa_Confirmed = 0, sa_Mature = 0, sa_Nonce = 0\<rparr>"

definition found_or_zero :: "state_account option \<Rightarrow> state_account" where
  "found_or_zero a = (case a of None \<Rightarrow> zero_state_account | Some a \<Rightarrow> a)"

definition bc_BalanceDetailsForWithProfile ::
  "ext \<Rightarrow> 'b bolt \<Rightarrow> string \<Rightarrow> transaction list \<Rightarrow> network_config \<Rightarrow> 'b bolt_db \<Rightarrow> err + balance_details" where
  "bc_BalanceDetailsForWithProfile X B address pending profile db =
    on_ok (store_Tip B db) (\<lambda>tip.
      if state_current (store_GetStateMetadata B db) tip then
        on_ok (store_GetStateAccount B address db) (\<lambda>account.
        on_ok (store_GetStateStakesForAddress B address db) (\<lambda>stakes.
          Inr (BalanceDetailsFromState address (found_or_zero account) stakes pending
                 (cp_CoinbaseMaturity (nc_Consensus profile)) (b_Height tip))))
      else on_ok (store_Blocks B db) (\<lambda>blocks.
        BalanceDetailsForWithProfile X address blocks pending (nc_Consensus profile) profile))"

definition bc_Ledger :: "ext \<Rightarrow> 'b bolt \<Rightarrow> 'b bolt_db \<Rightarrow> err + ledger" where
  "bc_Ledger X B db = on_ok (store_Blocks B db) (ledger_Replay X)"

definition AccountNonceWithProfile :: "ext \<Rightarrow> 'b bolt \<Rightarrow> string \<Rightarrow> 'b bolt_db \<Rightarrow> err + u64" where
  "AccountNonceWithProfile X B address db =
    on_ok (store_Tip B db) (\<lambda>tip.
      if state_current (store_GetStateMetadata B db) tip then
        on_ok (store_GetStateAccount B address db) (\<lambda>account. Inr (sa_Nonce (found_or_zero account)))
      else on_ok (bc_Ledger X B db) (\<lambda>l. Inr (ledger_Nonce l address)))"

definition AssetBalanceWithProfile ::
  "ext \<Rightarrow> 'b bolt \<Rightarrow> string \<Rightarrow> string \<Rightarrow> network_config \<Rightarrow> 'b bolt_db \<Rightarrow> err + u64" where
  "AssetBalanceWithProfile X B address assetID profile0 db =
    on_ok (store_Tip B db) (\<lambda>tip.
      let profile = or_localnet profile0 in
      if state_current (store_GetStateMetadata B db) tip then
        on_ok (store_GetStateAssetBalance B address assetID db) (\<lambda>amount.
          Inr (case amount of None \<Rightarrow> 0 | Some a \<Rightarrow> a))
      else on_ok (store_Blocks B db) (\<lambda>blocks.
        on_ok (ReplayMatureWithProfile X blocks (nc_Consensus profile) profile) (\<lambda>l.
          Inr (asset_Balance (ml_assets l) address assetID))))"

definition AssetDefinitionWithProfile ::
  "ext \<Rightarrow> 'b bolt \<Rightarrow> string \<Rightarrow> network_config \<Rightarrow> 'b bolt_db \<Rightarrow> err + asset_definition option" where
  "AssetDefinitionWithProfile X B assetID profile0 db =
    on_ok (store_Tip B db) (\<lambda>tip.
      let profile = or_localnet profile0 in
      if state_current (store_GetStateMetadata B db) tip then
        on_ok (store_GetStateAsset B assetID db) (\<lambda>found.
          Inr (case found of
                 Some d \<Rightarrow> Some d
               | None \<Rightarrow> if IsNative assetID then Some native_definition else None))
      else on_ok (store_Blocks B db) (\<lambda>blocks.
        on_ok (ReplayMatureWithProfile X blocks (nc_Consensus profile) profile) (\<lambda>l.
          Inr (asset_Definition (ml_assets l) assetID))))"

definition AssetBalancesForAddressWithProfile ::
  "ext \<Rightarrow> 'b bolt \<Rightarrow> string \<Rightarrow> network_config \<Rightarrow> 'b bolt_db \<Rightarrow> err + balance_entry list" where
  "AssetBalancesForAddressWithProfile X B address profile0 db =
    on_ok (store_Tip B db) (\<lambda>tip.
      let profile = or_localnet profile0 in
      if state_current (store_GetStateMetadata B db) tip then store_GetStateAssetBalancesForAddress B address db
      else on_ok (store_Blocks B db) (\<lambda>blocks.
        on_ok (ReplayMatureWithProfile X blocks (nc_Consensus profile) profile) (\<lambda>l.
          Inr (filter (\<lambda>e. be_Address e = address) (Balances (ml_assets l))))))"

record fee_pool_result =
  fp_AssetID :: string
  fp_Amount :: u64
  fp_Symbol :: string
  fp_Pool :: string

definition EstimateFee :: "transaction \<Rightarrow> network_config \<Rightarrow> err + quote" where
  "EstimateFee tx profile = Estimate tx profile"

definition FeePoolBalanceWithProfile :: "ext \<Rightarrow> 'b bolt \<Rightarrow> network_config \<Rightarrow> 'b bolt_db \<Rightarrow> err + fee_pool_result" where
  "FeePoolBalanceWithProfile X B profile0 db =
    (let profile = or_localnet profile0;
         result = \<lparr>fp_AssetID = NativeAssetID, fp_Amount = 0, fp_Symbol = NativeAssetSymbol, fp_Pool = FeeCollectorAddress\<rparr> in
     on_ok (store_Tip B db) (\<lambda>tip.
       if state_current (store_GetStateMetadata B db) tip then
         on_ok (store_GetStateAssetBalance B FeeCollectorAddress NativeAssetID db) (\<lambda>amount.
           Inr (result\<lparr>fp_Amount := case amount of None \<Rightarrow> 0 | Some a \<Rightarrow> a\<rparr>))
       else on_ok (store_Blocks B db) (\<lambda>blocks.
         case ReplayMatureWithProfile X blocks (nc_Consensus profile) profile of
           Inl e \<Rightarrow> Inl (Wrap ''fee pool replay failed'' e)
         | Inr l \<Rightarrow> Inr (result\<lparr>fp_Amount := FeePoolBalance l\<rparr>))))"

section \<open>Statistics\<close>

record chain_stats =
  cs_Blocks :: nat
  cs_CoinbaseBlocks :: nat
  cs_TotalTransactions :: nat
  cs_CoinbaseTransactions :: nat
  cs_NormalTransactions :: nat
  cs_TotalSupply :: u64
  cs_CirculatingSupply :: u64
  cs_CumulativeWork :: u64

definition count_tx :: "transaction \<Rightarrow> chain_stats \<times> bool \<Rightarrow> chain_stats \<times> bool" where
  "count_tx tx = (\<lambda>(stats, hasCoinbase).
    if tx_Coinbase tx then (stats\<lparr>cs_CoinbaseTransactions := cs_CoinbaseTransactions stats + 1\<rparr>, True)
    else (stats\<lparr>cs_NormalTransactions := cs_NormalTransactions stats + 1\<rparr>, hasCoinbase))"

definition count_block :: "block \<Rightarrow> chain_stats \<Rightarrow> chain_stats" where
  "count_block block stats0 =
    (let stats = stats0\<lparr>cs_TotalTransactions := cs_TotalTransactions stats0 + length (b_Transactions block)\<rparr>;
         (stats, hasCoinbase) = fold count_tx (b_Transactions block) (stats, False) in
     if b_Height block = 0 then stats
     else if hasCoinbase then stats\<lparr>cs_CoinbaseBlocks := cs_CoinbaseBlocks stats + 1\<rparr>
     else stats)"

definition calculateChainStats :: "ext \<Rightarrow> block list \<Rightarrow> consensus_params \<Rightarrow> network_config \<Rightarrow> chain_stats" where
  "calculateChainStats X blocks consensus profile =
     fold count_block blocks
       \<lparr>cs_Blocks = length blocks, cs_CoinbaseBlocks = 0, cs_TotalTransactions = 0, cs_CoinbaseTransactions = 0,
        cs_NormalTransactions = 0, cs_TotalSupply = TotalSupply blocks,
        cs_CirculatingSupply = CirculatingSupplyWithProfile X blocks consensus profile,
        cs_CumulativeWork = CalculateCumulativeWork blocks\<rparr>"

definition CalculateChainStatsWithConsensus :: "ext \<Rightarrow> block list \<Rightarrow> consensus_params \<Rightarrow> chain_stats" where
  "CalculateChainStatsWithConsensus X blocks consensus = calculateChainStats X blocks consensus Localnet"

definition CalculateChainStats :: "ext \<Rightarrow> block list \<Rightarrow> chain_stats" where
  "CalculateChainStats X blocks = CalculateChainStatsWithConsensus X blocks (nc_Consensus Localnet)"

definition CalculateChainStatsWithProfile :: "ext \<Rightarrow> block list \<Rightarrow> network_config \<Rightarrow> chain_stats" where
  "CalculateChainStatsWithProfile X blocks profile0 =
    (let profile = or_localnet profile0 in calculateChainStats X blocks (nc_Consensus profile) profile)"

section \<open>Changing the chain\<close>

definition InitWithProfile :: "ext \<Rightarrow> 'b bolt \<Rightarrow> network_config \<Rightarrow> 'b bolt_db \<Rightarrow> err option \<times> 'b bolt_db" where
  "InitWithProfile X B profile db =
    (case store_HasChain B db of
       Inl e \<Rightarrow> (Some e, db)
     | Inr has \<Rightarrow>
     if \<not> has then
       (let genesis = GenesisBlockForNetwork profile in
        case SnapshotForBlocks X [genesis] (nc_Consensus profile) profile of
          Inl e \<Rightarrow> (Some e, db)
        | Inr s \<Rightarrow> store_SaveBlockAndState B genesis s db)
     else case store_Tip B db of
       Inl e \<Rightarrow> (Some e, db)
     | Inr tip \<Rightarrow>
     (case store_LoadState B db of
        Inl e \<Rightarrow> (Some (Wrap ''persisted state unavailable'' e), db)
      | Inr s \<Rightarrow>
          if \<not> snapshotMatchesTip s tip then (Some (Err ''persisted state does not match canonical tip''), db)
          else (store_ValidateChainStateConsistency B db, db)))"

definition RebuildStateWithProfile :: "ext \<Rightarrow> 'b bolt \<Rightarrow> network_config \<Rightarrow> 'b bolt_db \<Rightarrow> err option \<times> 'b bolt_db" where
  "RebuildStateWithProfile X B profile db =
    (case store_Blocks B db of
       Inl e \<Rightarrow> (Some e, db)
     | Inr blocks \<Rightarrow>
     if blocks = [] then (Some (Err ''chain is not initialized''), db)
     else case SnapshotForBlocks X blocks (nc_Consensus profile) profile of
       Inl e \<Rightarrow> (Some e, db)
     | Inr s \<Rightarrow> store_SaveState B s db)"

definition ReplaceFromHeightWithNetwork ::
  "ext \<Rightarrow> 'b bolt \<Rightarrow> u64 \<Rightarrow> block list \<Rightarrow> network_config \<Rightarrow> 'b bolt_db \<Rightarrow> err option \<times> 'b bolt_db" where
  "ReplaceFromHeightWithNetwork X B start blocks profile db =
    (case store_Blocks B db of
       Inl e \<Rightarrow> (Some e, db)
     | Inr existing \<Rightarrow>
         let full = filter (\<lambda>b. b_Height b < start) existing @ blocks in
         case SnapshotForBlocks X full (nc_Consensus profile) profile of
           Inl e \<Rightarrow> (Some e, db)
         | Inr s \<Rightarrow> store_ReplaceFromHeightAndState B start blocks s db)"

definition next_snapshot :: "ext \<Rightarrow> err + snapshot \<Rightarrow> block list \<Rightarrow> block \<Rightarrow> network_config \<Rightarrow> err + snapshot" where
  "next_snapshot X loaded blocks block profile =
    (case loaded of
       Inr current \<Rightarrow>
         if snapshotMatchesTip current (last blocks) then SnapshotAfterBlock X current block (nc_Consensus profile) profile
         else SnapshotForBlocks X (blocks @ [block]) (nc_Consensus profile) profile
     | Inl _ \<Rightarrow> SnapshotForBlocks X (blocks @ [block]) (nc_Consensus profile) profile)"

definition AddBlockWithNetwork ::
  "ext \<Rightarrow> 'b bolt \<Rightarrow> i64 \<Rightarrow> block \<Rightarrow> network_config \<Rightarrow> 'b bolt_db \<Rightarrow> err option \<times> 'b bolt_db" where
  "AddBlockWithNetwork X B now block profile db =
    (case store_Blocks B db of
       Inl e \<Rightarrow> (Some e, db)
     | Inr blocks \<Rightarrow>
     if blocks = [] then (Some (Err ''chain is not initialized''), db)
     else case ValidateNextBlockWithNetwork X now block (last blocks) blocks (nc_Difficulty profile) (nc_Consensus profile) profile of
       Some e \<Rightarrow> (Some e, db)
     | None \<Rightarrow>
     (case next_snapshot X (store_LoadState B db) blocks block profile of
        Inl e \<Rightarrow> (Some e, db)
      | Inr s \<Rightarrow> store_SaveBlockAndState B block s db))"

section \<open>Mining\<close>

fun next_nonces :: "mature_ledger \<Rightarrow> transaction list \<Rightarrow> (string, u64) fmap \<Rightarrow> err + (string, u64) fmap" where
  "next_nonces l [] m = Inr m"
| "next_nonces l (tx # txs) m =
     (if tx_Coinbase tx then next_nonces l txs m
      else if fmlookup m (tx_From tx) \<noteq> None then next_nonces l txs m
      else let nonce = mature_Nonce l (tx_From tx) in
        if nonce = max_u64 then Inl (Err ''transaction nonce overflow'')
        else next_nonces l txs (fmupd (tx_From tx) (nonce + 1) m))"

text \<open>The loop over the selected transactions: the work ledger, the transactions taken and their fees.\<close>

fun take_valid :: "ext \<Rightarrow> network_config \<Rightarrow> u64 \<Rightarrow> mature_ledger \<Rightarrow> transaction list \<Rightarrow> u64 \<Rightarrow> transaction list
    \<Rightarrow> err + transaction list \<times> u64" where
  "take_valid X profile height l validPending totalFees [] = Inr (validPending, totalFees)"
| "take_valid X profile height l validPending totalFees (tx # txs) =
     (if ValidateTransactionSize tx (nc_Consensus profile) \<noteq> None then
        take_valid X profile height l validPending totalFees txs
      else case ApplyTransactionAtHeight X tx height l of
        (Some _, l') \<Rightarrow> take_valid X profile height l' validPending totalFees txs
      | (None, l') \<Rightarrow>
          let validPending = validPending @ [tx] in
          on_ok (if nc_TxVersion profile \<ge> TxVersionAsset \<or> TxType tx = TxTypeTransfer then
                   (case Add totalFees (tx_Fee tx) of
                      Inl _ \<Rightarrow> Inl (Err ''transaction fees overflow'')
                    | Inr nextFees \<Rightarrow> Inr nextFees)
                 else Inr totalFees) (\<lambda>totalFees.
          if cp_MaxTxCount (nc_Consensus profile) > 0
             \<and> of_nat (length validPending) \<ge> cp_MaxTxCount (nc_Consensus profile) then
            Inr (validPending, totalFees)
          else take_valid X profile height l' validPending totalFees txs))"

definition block_reward :: "network_config \<Rightarrow> u64 \<Rightarrow> err + u64" where
  "block_reward profile totalFees =
    (if nc_TxVersion profile < TxVersionAsset then
       (case Add InitialBlockReward totalFees of
          Inl _ \<Rightarrow> Inl (Err ''block reward overflow'')
        | Inr reward \<Rightarrow> Inr reward)
     else Inr (ep_BlockSubsidy (nc_Economic profile)))"

text \<open>The coinbase transaction, the block around it and, for canonical blocks, its state root.\<close>

definition block_template ::
  "ext \<Rightarrow> i64 \<Rightarrow> string \<Rightarrow> network_config \<Rightarrow> block list \<Rightarrow> mature_ledger \<Rightarrow> u64 \<Rightarrow> transaction list \<Rightarrow> u64 \<Rightarrow> err + block" where
  "block_template X now miner profile blocks l height validPending totalFees =
    on_ok (block_reward profile totalFees) (\<lambda>reward.
    on_ok (let coinbase = NewCoinbaseTransactionWithVersion miner reward height (nc_TxVersion profile) in
           if tx_ProtocolVersion coinbase \<ge> TxVersionCanonical then
             (case RefreshIDForChainID coinbase (nc_ChainID profile) of
                (Some e, _) \<Rightarrow> Inl e
              | (None, coinbase) \<Rightarrow> Inr coinbase)
           else Inr coinbase) (\<lambda>coinbase.
    let block = NewBlockWithVersion now height (b_Hash (last blocks)) miner
          (CalculateNextDifficultyWithParams blocks (nc_Difficulty profile)) (coinbase # validPending)
          (nc_BlockVersion profile) in
    if b_ProtocolVersion block = BlockVersionCanonical then
      (case mature_ApplyBlock X block (fst (mature_Clone l)) of
         (Some e, _) \<Rightarrow> Inl e
       | (None, candidate) \<Rightarrow> Inr (block\<lparr>b_StateRoot := fst (RootForLedger candidate)\<rparr>))
    else Inr block))"

text \<open>None stands for a run of the mining loop that does not end.\<close>

definition MineBlockWithContextAndNetwork ::
  "ext \<Rightarrow> 'b bolt \<Rightarrow> map_order \<Rightarrow> i64 \<Rightarrow> (nat \<Rightarrow> bool) \<Rightarrow> string \<Rightarrow> transaction list \<Rightarrow> mine_options \<Rightarrow> network_config
     \<Rightarrow> 'b bolt_db \<Rightarrow> (err + block) option" where
  "MineBlockWithContextAndNetwork X B ord now cancelled miner pending opts profile db =
    (case on_ok (store_Blocks B db) (\<lambda>blocks.
          if blocks = [] then Inl (Err ''chain is not initialized'')
          else on_ok (ReplayMatureWithProfile X blocks (nc_Consensus profile) profile) (\<lambda>l0.
          case mature_Clone l0 of (workLedger, l) \<Rightarrow>
          (case Add (b_Height (last blocks)) 1 of
             Inl _ \<Rightarrow> Inl (Err ''block height overflow'')
           | Inr height \<Rightarrow>
           on_ok (next_nonces workLedger pending fmempty) (\<lambda>nextNonce.
           on_ok (SelectWithNonces X ord pending profile (cp_MaxGasPerBlock (nc_Consensus profile)) nextNonce) (\<lambda>selected.
           Inr (map_option (\<lambda>selected.
             on_ok (take_valid X profile height workLedger [] 0 selected) (\<lambda>(validPending, totalFees).
               block_template X now miner profile blocks l height validPending totalFees)) selected)))))) of
       Inl e \<Rightarrow> Some (Inl e)
     | Inr None \<Rightarrow> None
     | Inr (Some (Inl e)) \<Rightarrow> Some (Inl e)
     | Inr (Some (Inr block)) \<Rightarrow> MineWithContext cancelled block opts)"

text \<open>The entry points for the local network, and for a context that is never cancelled.\<close>

definition bc_Init :: "ext \<Rightarrow> 'b bolt \<Rightarrow> 'b bolt_db \<Rightarrow> err option \<times> 'b bolt_db" where
  "bc_Init X B = InitWithProfile X B Localnet"

definition ReplaceFromHeight :: "ext \<Rightarrow> 'b bolt \<Rightarrow> u64 \<Rightarrow> block list \<Rightarrow> 'b bolt_db \<Rightarrow> err option \<times> 'b bolt_db" where
  "ReplaceFromHeight X B start blocks = ReplaceFromHeightWithNetwork X B start blocks Localnet"

definition AddBlock :: "ext \<Rightarrow> 'b bolt \<Rightarrow> i64 \<Rightarrow> block \<Rightarrow> 'b bolt_db \<Rightarrow> err option \<times> 'b bolt_db" where
  "AddBlock X B now block = AddBlockWithNetwork X B now block Localnet"

definition MineBlockWithContext ::
  "ext \<Rightarrow> 'b bolt \<Rightarrow> map_order \<Rightarrow> i64 \<Rightarrow> (nat \<Rightarrow> bool) \<Rightarrow> string \<Rightarrow> transaction list \<Rightarrow> mine_options
     \<Rightarrow> 'b bolt_db \<Rightarrow> (err + block) option" where
  "MineBlockWithContext X B ord now cancelled miner pending opts =
     MineBlockWithContextAndNetwork X B ord now cancelled miner pending opts Localnet"

definition MineBlock ::
  "ext \<Rightarrow> 'b bolt \<Rightarrow> map_order \<Rightarrow> i64 \<Rightarrow> string \<Rightarrow> transaction list \<Rightarrow> 'b bolt_db \<Rightarrow> (err + block) option" where
  "MineBlock X B ord now miner pending =
     MineBlockWithContext X B ord now (\<lambda>_. False) miner pending \<lparr>mo_MaxNonce = 0\<rparr>"

end
