(* ===== verification/Same_State.thy ===== *)
theory Same_State
  imports Chain_Validity Restore
begin

text \<open>
  Every operation of the ledger takes ledgers that its readers cannot tell apart (\<open>same_state\<close>: balance
  maps may differ in zero entries) to the same error and again to such ledgers. This is what lets a
  ledger rebuilt from a snapshot stand for the replayed one. The statements are relational
  parametricity rules, proved by \<open>transfer_prover\<close> from those of the fields.
\<close>

abbreviation given :: "('b \<Rightarrow> 'c \<Rightarrow> bool) \<Rightarrow> ('a \<Rightarrow> 'b) \<Rightarrow> ('a \<Rightarrow> 'c) \<Rightarrow> bool" where
  "given R \<equiv> rel_fun (=) R"

section \<open>Fields\<close>

definition same_assets :: "asset_state \<Rightarrow> asset_state \<Rightarrow> bool" where
  "same_assets s s' \<longleftrightarrow> as_assets s' = as_assets s \<and> asset_Balance s' = asset_Balance s"

abbreviation assets_kept :: "err option \<times> asset_state \<Rightarrow> err option \<times> asset_state \<Rightarrow> bool" where
  "assets_kept \<equiv> rel_prod (=) same_assets"

abbreviation kept :: "err option \<times> mature_ledger \<Rightarrow> err option \<times> mature_ledger \<Rightarrow> bool" where
  "kept \<equiv> rel_prod (=) same_state"

lemma same_state_alt: "same_state l l' \<longleftrightarrow> ml_accounts l' = ml_accounts l \<and> ml_coinbases l' = ml_coinbases l
     \<and> ml_stakes l' = ml_stakes l \<and> same_assets (ml_assets l) (ml_assets l')
     \<and> ml_currentHeight l' = ml_currentHeight l \<and> ml_maturity l' = ml_maturity l
     \<and> ml_params l' = ml_params l \<and> ml_profile l' = ml_profile l"
  by (auto simp: same_state_def same_assets_def)

lemma asset_readers [transfer_rule]:
  "(rel_fun same_assets (=)) as_assets as_assets"
  "(rel_fun same_assets (=)) asset_Balance asset_Balance"
  by (auto simp: rel_fun_def same_assets_def)

lemma asset_writers [transfer_rule]:
  "(rel_fun (given (=)) (rel_fun same_assets same_assets)) as_assets_update as_assets_update"
  by (auto simp: rel_fun_def same_assets_def asset_Balance_def fun_eq_iff split: option.splits)

lemma ledger_readers [transfer_rule]:
  "(rel_fun same_state (=)) ml_accounts ml_accounts"
  "(rel_fun same_state (=)) ml_coinbases ml_coinbases"
  "(rel_fun same_state (=)) ml_stakes ml_stakes"
  "(rel_fun same_state (=)) ml_currentHeight ml_currentHeight"
  "(rel_fun same_state (=)) ml_maturity ml_maturity"
  "(rel_fun same_state (=)) ml_params ml_params"
  "(rel_fun same_state (=)) ml_profile ml_profile"
  "(rel_fun same_state same_assets) ml_assets ml_assets"
  by (auto simp: rel_fun_def same_state_alt)

lemma ledger_writers [transfer_rule]:
  "(rel_fun (given (=)) (rel_fun same_state same_state)) ml_accounts_update ml_accounts_update"
  "(rel_fun (given (=)) (rel_fun same_state same_state)) ml_coinbases_update ml_coinbases_update"
  "(rel_fun (given (=)) (rel_fun same_state same_state)) ml_stakes_update ml_stakes_update"
  "(rel_fun (given (=)) (rel_fun same_state same_state)) ml_currentHeight_update ml_currentHeight_update"
  "(rel_fun (rel_fun same_assets same_assets) (rel_fun same_state same_state)) ml_assets_update ml_assets_update"
  by (auto simp: rel_fun_def same_state_alt)

lemma ledger_make [transfer_rule]:
  "(given (given (given (given (given (rel_fun same_assets (given (given (given same_state)))))))))
     mature_ledger_ext mature_ledger_ext"
  by (auto simp: rel_fun_def same_state_alt)

section \<open>Assets\<close>

text \<open>The error of a change of a balance depends on the balance only.\<close>

lemma balance_verdicts:
  "fst (addBalance a k n s) = (if n = 0 then None else
     case Add (asset_Balance s a k) n of Inl e \<Rightarrow> Some (Wrap ''asset balance overflow'' e) | Inr _ \<Rightarrow> None)"
  "fst (subtractBalance a k n s) = (if n = 0 then None else
     case Sub (asset_Balance s a k) n of Inl _ \<Rightarrow> Some ErrInsufficientBalance | Inr _ \<Rightarrow> None)"
  by (auto simp: addBalance_def subtractBalance_def asset_Balance_get get_or_def Let_def Sub_def word_gt_0 split: sum.splits option.splits)

lemma addBalance_kept [transfer_rule]: "(given (given (given (rel_fun same_assets assets_kept)))) addBalance addBalance"
proof (intro rel_funI, simp)
  fix a k :: string and n :: u64 and s s'
  assume same: "same_assets s s'"
  obtain r t r' t' where t: "addBalance a k n s = (r, t)" "addBalance a k n s' = (r', t')" by fastforce
  have r: "r = r'" using same t balance_verdicts(1) [of a k n s] balance_verdicts(1) [of a k n s'] by (simp add: same_assets_def)
  have "same_assets t t'"
    using same addBalance_cases [OF t(1)] addBalance_cases [OF t(2)] r by (cases r) (auto simp: same_assets_def)
  then show "assets_kept (addBalance a k n s) (addBalance a k n s')" using t r by simp
qed

lemma subtractBalance_kept [transfer_rule]: "(given (given (given (rel_fun same_assets assets_kept)))) subtractBalance subtractBalance"
proof (intro rel_funI, simp)
  fix a k :: string and n :: u64 and s s'
  assume same: "same_assets s s'"
  obtain r t r' t' where t: "subtractBalance a k n s = (r, t)" "subtractBalance a k n s' = (r', t')" by fastforce
  have r: "r = r'" using same t balance_verdicts(2) [of a k n s] balance_verdicts(2) [of a k n s'] by (simp add: same_assets_def)
  have "same_assets t t'"
    using same subtractBalance_cases [OF t(1)] subtractBalance_cases [OF t(2)] r by (cases r) (auto simp: same_assets_def)
  then show "assets_kept (subtractBalance a k n s) (subtractBalance a k n s')" using t r by simp
qed

lemma asset_Clone_kept [transfer_rule]: "(rel_fun same_assets same_assets) asset_Clone asset_Clone"
  by (auto simp: rel_fun_def same_assets_def asset_Clone_def asset_Balance_def fun_eq_iff)

lemma asset_ops_kept [transfer_rule]:
  "(given (given (given (rel_fun same_assets assets_kept)))) Credit Credit"
  "(given (given (given (rel_fun same_assets assets_kept)))) Debit Debit"
  "(given (given (given (given (rel_fun same_assets assets_kept))))) Transfer Transfer"
  "(given (given (given (given (rel_fun same_assets assets_kept))))) Mint Mint"
  "(given (given (given (rel_fun same_assets assets_kept)))) Burn Burn"
  "(given (rel_fun same_assets assets_kept)) Create Create"
  unfolding Credit_def Debit_def Transfer_def Mint_def Burn_def Create_def by transfer_prover+

lemma CreateFromTransactionID_kept [transfer_rule]:
  "(given (given (given (given (given (given (given (given (given (given (rel_fun same_assets assets_kept)))))))))))
     CreateFromTransactionID CreateFromTransactionID"
  unfolding CreateFromTransactionID_def by transfer_prover

lemma AssetModelEnabled_kept [transfer_rule]: "(rel_fun same_state (=)) AssetModelEnabled AssetModelEnabled"
  unfolding AssetModelEnabled_def by transfer_prover

lemma combinators_kept [transfer_rule]:
  "(rel_fun (rel_fun same_assets assets_kept) (rel_fun same_state kept)) on_assets on_assets"
  "(rel_fun (given (=)) (rel_fun same_state kept)) on_stakes on_stakes"
  "(rel_fun (rel_fun same_state kept) (rel_fun (rel_fun same_state kept) (rel_fun same_state kept))) and_then and_then"
  unfolding on_assets_def on_stakes_def and_then_def by transfer_prover+

section \<open>The ledger\<close>

lemma Clone_kept [transfer_rule]: "(rel_fun same_state (rel_prod same_state same_state)) mature_Clone mature_Clone"
  unfolding mature_Clone_def by transfer_prover

lemma matureCoinbases_kept [transfer_rule]: "(given (rel_fun same_state same_state)) matureCoinbases matureCoinbases"
  unfolding matureCoinbases_def by transfer_prover

lemma lockedStake_kept [transfer_rule]: "(given (rel_fun same_state (rel_prod (=) same_state))) lockedStake lockedStake"
  unfolding lockedStake_def by transfer_prover

lemma validateNativeSpend_kept [transfer_rule]: "(given (given (rel_fun same_state kept))) validateNativeSpend validateNativeSpend"
  unfolding validateNativeSpend_def by transfer_prover

lemma native_moves_kept [transfer_rule]:
  "(given (given (rel_fun same_state kept))) spendNative spendNative"
  "(given (given (rel_fun same_state kept))) receiveNative receiveNative"
  unfolding spendNative_def receiveNative_def by transfer_prover+

lemma fees_kept [transfer_rule]:
  "(given (given (rel_fun same_state kept))) chargeNativeFee chargeNativeFee"
  "(given (rel_fun same_state kept)) settleFees settleFees"
  unfolding chargeNativeFee_def settleFees_def by transfer_prover+

lemma v3_checks_kept [transfer_rule]:
  "(given (given (rel_fun same_state (=)))) v3_shape v3_shape"
  "(given (rel_fun same_state kept)) v3_transfer_check v3_transfer_check"
  "(given (rel_fun same_state kept)) v3_create_check v3_create_check"
  "(given (rel_fun same_state kept)) v3_mint_check v3_mint_check"
  "(given (rel_fun same_state kept)) v3_burn_check v3_burn_check"
  unfolding v3_shape_def v3_identity_def validateFeePolicy_def v3_transfer_check_def v3_create_check_def v3_mint_check_def
    v3_burn_check_def asset_Definition_def by transfer_prover+

lemma validateV3_kept [transfer_rule]:
  "(given (given (rel_fun same_state kept))) validateAssetTransactionV3 validateAssetTransactionV3"
  unfolding validateAssetTransactionV3_def by transfer_prover

lemma set_nonce_kept [transfer_rule]: "(given (given (rel_fun same_state same_state))) set_nonce set_nonce"
  unfolding set_nonce_def by transfer_prover

lemma v3_effect_kept [transfer_rule]: "(given (rel_fun same_state kept)) v3_effect v3_effect"
  unfolding v3_effect_def by transfer_prover

lemma applyV3_kept [transfer_rule]:
  "(given (given (rel_fun same_state kept))) applyAssetTransactionV3 applyAssetTransactionV3"
  unfolding applyAssetTransactionV3_def by transfer_prover

lemma legacy_checks_kept [transfer_rule]:
  "(given (rel_fun same_state (=))) mature_type_check mature_type_check"
  "(given (given (rel_fun same_state (=)))) mature_identity mature_identity"
  "(given (rel_fun same_state kept)) mature_transfer_check mature_transfer_check"
  "(given (rel_fun same_state kept)) mature_lock_check mature_lock_check"
  "(given (rel_fun same_state kept)) mature_unlock_check mature_unlock_check"
  unfolding mature_type_check_def mature_identity_def mature_transfer_check_def mature_lock_check_def
    mature_unlock_check_def by transfer_prover+

lemma validate_kept [transfer_rule]:
  "(given (given (rel_fun same_state kept))) mature_ValidateTransaction mature_ValidateTransaction"
  unfolding mature_ValidateTransaction_def by transfer_prover

lemma legacy_transfer_kept [transfer_rule]: "(given (rel_fun same_state kept)) legacy_transfer legacy_transfer"
  unfolding legacy_transfer_def by transfer_prover

lemma apply_kept [transfer_rule]:
  "(given (given (rel_fun same_state kept))) ApplyCoinbaseAtHeight ApplyCoinbaseAtHeight"
  "(given (given (given (rel_fun same_state kept)))) ApplyTransactionAtHeight ApplyTransactionAtHeight"
  unfolding ApplyCoinbaseAtHeight_def ApplyTransactionAtHeight_def by transfer_prover+

section \<open>Blocks\<close>

lemma block_loop_kept: "same_state l l' \<Longrightarrow> kept (block_loop X h n txs l) (block_loop X h n txs l')"
proof (induction txs arbitrary: n l l')
  case (Cons tx txs)
  have c: "kept (ApplyCoinbaseAtHeight tx h l) (ApplyCoinbaseAtHeight tx h l')"
    "kept (ApplyTransactionAtHeight X tx h l) (ApplyTransactionAtHeight X tx h l')"
    using apply_kept Cons.prems by (blast dest: rel_funD)+
  show ?case
    using Cons c by (auto simp: rel_prod_sel split: option.splits prod.splits)
qed simp

lemma block_loop_rule [transfer_rule]:
  "(given (given (given (given (rel_fun same_state kept))))) block_loop block_loop"
  by (auto simp: rel_fun_def block_loop_kept)

lemma applyBlock_kept [transfer_rule]: "(given (given (rel_fun same_state kept))) applyBlock applyBlock"
  unfolding applyBlock_def by transfer_prover

lemma mature_ApplyBlock_same: "(given (given (rel_fun same_state kept))) mature_ApplyBlock mature_ApplyBlock"
  unfolding mature_ApplyBlock_def by transfer_prover

end
