(* ===== verification/Ledger_Owners.thy ===== *)
theory Ledger_Owners
  imports Chain_Validity Restore
begin

text \<open>
  Who can own balances and stakes: only addresses the network accepts and the fee pool; and the pending
  coinbase credits are listed by rising height. These are the facts that make every ledger a replay
  reaches storable as a snapshot.
\<close>

section \<open>Owners of balances\<close>

definition owners :: "asset_state \<Rightarrow> string set" where
  "owners s = {a. \<exists>k. asset_Balance s a k \<noteq> 0}"

text \<open>The owners and identifiers of the stakes, whatever their status.\<close>

definition holders :: "stake_state \<Rightarrow> (string \<times> string) set" where
  "holders st = {(sr_OwnerAddress r, sr_StakeID r) | k r. fmlookup (ss_records st) k = Some r}"

lemma holders_upd: "holders (st\<lparr>ss_records := fmupd k r (ss_records st)\<rparr>) \<subseteq> insert (sr_OwnerAddress r, sr_StakeID r) (holders st)"
  by (auto simp: holders_def split: if_splits)

lemma holders_refresh [simp]: "holders (RefreshReleased h st) = holders st"
proof -
  have same: "sr_OwnerAddress (release_record h r) = sr_OwnerAddress r" "sr_StakeID (release_record h r) = sr_StakeID r" for r
    by (simp_all add: release_record_def)
  show ?thesis by (auto simp: holders_def RefreshReleased_def) (metis same)+
qed

lemma holders_refreshed [simp]: "holders (ml_stakes (refreshed l)) = holders (ml_stakes l)"
  by (simp add: refreshed_def)

text \<open>Between two ledgers only the addresses of a set become owners, and no stake is added.\<close>

definition gains :: "string set \<Rightarrow> mature_ledger \<Rightarrow> mature_ledger \<Rightarrow> bool" where
  "gains A l l' \<longleftrightarrow> owners (ml_assets l') \<subseteq> owners (ml_assets l) \<union> A \<and> holders (ml_stakes l') \<subseteq> holders (ml_stakes l)"

lemma gains_trans: "gains A a b \<Longrightarrow> gains B b c \<Longrightarrow> A \<subseteq> S \<Longrightarrow> B \<subseteq> S \<Longrightarrow> gains S a c"
  unfolding gains_def by blast

lemma gains_mono: "gains A a b \<Longrightarrow> A \<subseteq> S \<Longrightarrow> gains S a b"
  unfolding gains_def by blast

lemma gains_same: "ml_assets l' = ml_assets l \<Longrightarrow> ml_stakes l' = ml_stakes l \<Longrightarrow> gains A l l'"
  by (simp add: gains_def)

lemma owners_credit: "asset_Balance s' = upd2 (asset_Balance s) a k v \<Longrightarrow> owners s' \<subseteq> owners s \<union> {a}"
  by (auto simp: owners_def upd2_def split: if_splits)

lemma owners_debit:
  assumes "asset_Balance s' = upd2 (asset_Balance s) a k (asset_Balance s a k - n)" and "unat n \<le> unat (asset_Balance s a k)"
  shows "owners s' \<subseteq> owners s"
proof -
  have "asset_Balance s a k - n \<noteq> 0 \<Longrightarrow> asset_Balance s a k \<noteq> 0" using assms(2) by (auto simp: unat_eq_0)
  then show ?thesis using assms(1) by (auto simp: owners_def upd2_def split: if_splits)
qed

lemma Credit_owners: "Credit a k n s = (None, s') \<Longrightarrow> owners s' \<subseteq> owners s \<union> {a}"
  using Credit_cases(2) [of a k n s None s'] owners_credit by blast

lemma Debit_owners: "Debit a k n s = (None, s') \<Longrightarrow> owners s' \<subseteq> owners s"
  using Debit_cases(2) [of a k n s None s'] owners_debit by blast

lemma Transfer_owners:
  assumes "Transfer k from to n s = (None, s')" shows "owners s' \<subseteq> owners s \<union> {to}"
proof -
  note T = Transfer_ok [OF assms]
  have "asset_Balance s from k \<noteq> 0" using T(1, 3) by (auto simp: word_gt_0 unat_eq_0)
  then have "from \<in> owners s" by (auto simp: owners_def)
  moreover have "owners s' \<subseteq> owners s \<union> {to} \<union> {from}" using T(4) by (auto simp: owners_def upd2_def split: if_splits)
  ultimately show ?thesis by auto
qed

lemma spendNative_gains: "spendNative a n l = (None, l') \<Longrightarrow> gains {} l l'"
proof -
  assume s: "spendNative a n l = (None, l')"
  then obtain l1 as where v: "validateNativeSpend a n l = (None, l1)" and d: "Debit a NativeAssetID n (ml_assets l1) = (None, as)"
    and l': "ml_assets l' = as" "ml_stakes l' = ml_stakes l1"
    by (auto simp: spendNative_def Let_def split: prod.splits option.splits sum.splits)
  have "ml_assets l1 = ml_assets l" "holders (ml_stakes l1) = holders (ml_stakes l)"
    using validateNativeSpend_state [of a n l] v by auto
  with Debit_owners [OF d] l' show ?thesis by (auto simp: gains_def)
qed

lemma receiveNative_gains: "receiveNative a n l = (None, l') \<Longrightarrow> gains {a} l l'"
  using Credit_owners
  by (fastforce simp: receiveNative_def Let_def gains_def split: prod.splits option.splits sum.splits if_splits)

lemma chargeNativeFee_gains:
  assumes "chargeNativeFee a n l = (None, l')"
  shows "gains {FeeCollectorAddress} l l'"
proof (cases "n = 0")
  case False
  then obtain l1 as where s: "spendNative a n l = (None, l1)"
    and c: "Credit FeeCollectorAddress NativeAssetID n (ml_assets l1) = (None, as)" and l': "l' = l1\<lparr>ml_assets := as\<rparr>"
    using assms by (auto simp: chargeNativeFee_def split: prod.splits option.splits)
  with Credit_owners [OF c] spendNative_gains [OF s] show ?thesis by (auto simp: gains_def)
qed (use assms in \<open>auto simp: chargeNativeFee_def gains_def\<close>)

lemma settleFees_gains:
  assumes "settleFees miner l = (None, l')"
  shows "gains {a. ValidateAddressForNetwork a (ml_profile l) = None} l l'"
proof (cases "asset_Balance (ml_assets l) FeeCollectorAddress NativeAssetID = 0")
  case False
  let ?fee = "asset_Balance (ml_assets l) FeeCollectorAddress NativeAssetID"
  obtain as where v: "ValidateAddressForNetwork miner (ml_profile l) = None"
    and d: "Debit FeeCollectorAddress NativeAssetID ?fee (ml_assets l) = (None, as)"
    and r: "receiveNative miner ?fee (l\<lparr>ml_assets := as\<rparr>) = (None, l')"
    using assms False by (auto simp: settleFees_def Let_def split: prod.splits option.splits if_splits)
  show ?thesis using receiveNative_gains [OF r] Debit_owners [OF d] v by (auto simp: gains_def)
qed (use assms in \<open>simp add: settleFees_def gains_def\<close>)

definition network_owners :: "network_config \<Rightarrow> string set" where
  "network_owners profile = insert FeeCollectorAddress {a. ValidateAddressForNetwork a profile = None}"

lemma on_assets_gains:
  assumes "on_assets f l = (None, l')" and "\<And>s'. f (ml_assets l) = (None, s') \<Longrightarrow> owners s' \<subseteq> owners (ml_assets l) \<union> A"
  shows "gains A l l'"
  using assms by (fastforce simp: on_assets_def gains_def split: prod.splits)

lemma Create_owners:
  assumes "CreateFromTransactionID i n sy dc mx mi bu pa pe iss s = (None, s')"
  shows "owners s' = owners s"
proof -
  have "as_balances s' = as_balances s" using assms Create_balances unfolding CreateFromTransactionID_def by (metis snd_conv)
  then show ?thesis by (simp add: owners_def asset_Balance_def)
qed

lemma Mint_owners: "Mint k iss to n s = (None, s') \<Longrightarrow> owners s' \<subseteq> owners s \<union> {to}"
  using Mint_ok(2) owners_credit by blast

lemma Burn_owners: "Burn k owner n s = (None, s') \<Longrightarrow> owners s' \<subseteq> owners s"
  using Burn_ok(2, 3) owners_debit by blast

lemma v3_effect_gains:
  assumes "v3_effect tx l = (None, l')"
  shows "gains (insert FeeCollectorAddress (if TxType tx = TxTypeTransfer \<or> TxType tx = TxTypeAssetMint then {tx_To tx} else {})) l l'"
    (is "gains ?S l l'")
proof -
  let ?fee = "chargeNativeFee (EffectiveFeePayer tx) (tx_Fee tx)"
  have op_fee: "gains ?S l l'" if run: "and_then (on_assets f) ?fee l = (None, l')"
    and own: "\<And>s'. f (ml_assets l) = (None, s') \<Longrightarrow> owners s' \<subseteq> owners (ml_assets l) \<union> ?S" for f
  proof -
    obtain l1 where o: "on_assets f l = (None, l1)" and c: "?fee l1 = (None, l')" using run by (auto simp: and_then_ok)
    show ?thesis by (rule gains_trans [OF on_assets_gains [OF o own] chargeNativeFee_gains [OF c]]) auto
  qed
  show ?thesis
  proof (cases "TxType tx = TxTypeTransfer \<and> IsNative (EffectiveAssetID tx)")
    case True
    then obtain l1 l2 where s: "spendNative (tx_From tx) (tx_Amount tx) l = (None, l1)" and f: "?fee l1 = (None, l2)"
      and r: "receiveNative (tx_To tx) (tx_Amount tx) l2 = (None, l')"
      using assms by (auto simp: v3_effect_def and_then_ok)
    show ?thesis
      using spendNative_gains [OF s] chargeNativeFee_gains [OF f] receiveNative_gains [OF r] True unfolding gains_def by auto
  next
    case False
    then consider (transfer) "TxType tx = TxTypeTransfer"
        "and_then (on_assets (Transfer (tx_AssetID tx) (tx_From tx) (tx_To tx) (tx_Amount tx))) ?fee l = (None, l')"
      | (create) "and_then (on_assets (CreateFromTransactionID (tx_ID tx) (tx_AssetName tx) (tx_AssetSymbol tx)
           (tx_AssetDecimals tx) (tx_AssetMaxSupply tx) (tx_AssetMintable tx) (tx_AssetBurnable tx)
           (tx_AssetPausable tx) (tx_AssetPermissioned tx) (tx_From tx))) ?fee l = (None, l')"
      | (mint) "TxType tx = TxTypeAssetMint"
        "and_then (on_assets (Mint (tx_AssetID tx) (tx_From tx) (tx_To tx) (tx_Amount tx))) ?fee l = (None, l')"
      | (burn) "and_then (on_assets (Burn (tx_AssetID tx) (tx_From tx) (tx_Amount tx))) ?fee l = (None, l')"
      using assms by (auto simp: v3_effect_def split: if_splits)
    then show ?thesis
    proof cases
      case transfer
      show ?thesis by (rule op_fee [OF transfer(2)]) (use transfer(1) Transfer_owners in fastforce)
    next
      case create
      show ?thesis by (rule op_fee [OF create]) (use Create_owners in blast)
    next
      case mint
      show ?thesis by (rule op_fee [OF mint(2)]) (use mint(1) Mint_owners in fastforce)
    next
      case burn
      show ?thesis by (rule op_fee [OF burn]) (use Burn_owners in blast)
    qed
  qed
qed

section \<open>Transactions\<close>

definition tidy :: "mature_ledger \<Rightarrow> bool" where
  "tidy l \<longleftrightarrow> owners (ml_assets l) \<subseteq> network_owners (ml_profile l)
     \<and> holders (ml_stakes l) \<subseteq> {(a, k). ValidateAddressForNetwork a (ml_profile l) = None \<and> k \<noteq> []}"

lemma tidy_gains:
  "tidy l \<Longrightarrow> gains A l l' \<Longrightarrow> A \<subseteq> network_owners (ml_profile l) \<Longrightarrow> ml_profile l' = ml_profile l \<Longrightarrow> tidy l'"
  unfolding tidy_def gains_def by auto

lemma tidy_refreshed [simp]: "tidy (refreshed l) = tidy l"
  by (simp add: tidy_def)

lemma validate_mint_party:
  assumes "mature_ValidateTransaction X tx l = (None, l1)" and "\<not> tx_Coinbase tx"
    and "tx_ProtocolVersion tx = TxVersionAsset" and "TxType tx = TxTypeAssetMint"
  shows "ValidateAddressForNetwork (tx_To tx) (ml_profile l) = None"
proof -
  have "v3_shape X tx l = None"
    using assms by (auto simp: mature_ValidateTransaction_def validateAssetTransactionV3_def split: option.splits)
  with assms(4) show ?thesis by (auto simp: v3_shape_def split: option.splits if_splits)
qed

lemma applyV3_gains:
  assumes "applyAssetTransactionV3 tx h l = (None, l')" and "ledger_ok l"
  shows "gains (insert FeeCollectorAddress (if TxType tx = TxTypeTransfer \<or> TxType tx = TxTypeAssetMint then {tx_To tx} else {})) l l'"
proof -
  obtain l1 where e: "v3_effect tx (refreshed l) = (None, l1)" and l': "l' = set_nonce (tx_From tx) (tx_Nonce tx) l1"
    using assms(1) mature_Clone_eq [OF assms(2)] by (auto simp: applyAssetTransactionV3_def split: prod.splits option.splits)
  show ?thesis using v3_effect_gains [OF e] l' by (simp add: gains_def set_nonce_def)
qed

lemma legacy_transfer_gains:
  assumes "legacy_transfer tx l = (None, l')" and "ledger_ok l"
  shows "gains {tx_To tx} l l'"
proof -
  obtain cost s1 s2 where d: "Debit (tx_From tx) NativeAssetID cost (ml_assets l) = (None, s1)"
    and c: "Credit (tx_To tx) NativeAssetID (tx_Amount tx) s1 = (None, s2)"
    and l': "ml_assets l' = s2" "ml_stakes l' = ml_stakes l"
    using assms(1) ledger_okD(1) [OF assms(2)]
    by (auto simp: legacy_transfer_def Let_def on_assets_def AssetModelEnabled_def split: sum.splits prod.splits option.splits)
  show ?thesis using Debit_owners [OF d] Credit_owners [OF c] l' by (auto simp: gains_def)
qed

lemma hash_nonempty: "CalculateIDForChainID tx c = Inr i \<Longrightarrow> i \<noteq> []"
  by (auto simp: CalculateIDForChainID_def split: sum.splits dest: arg_cong [where f = length])

lemma ApplyLock_holders:
  assumes "ApplyLock tx h st = (None, st')" and "tx_ID tx \<noteq> []"
  shows "\<exists>k. k \<noteq> [] \<and> holders st' \<subseteq> insert (tx_From tx, k) (holders st)"
proof -
  let ?k = "if tx_StakeID tx = [] then tx_ID tx else tx_StakeID tx"
  have "holders st' \<subseteq> insert (tx_From tx, ?k) (holders st)"
    using assms(1) holders_upd [where k = ?k and st = st] by (fastforce simp: ApplyLock_def Let_def split: if_splits)
  with assms(2) show ?thesis by (intro exI [of _ ?k]) auto
qed

lemma ApplyUnlock_holders:
  assumes "ApplyUnlock tx h st = (None, st')"
  shows "holders st' \<subseteq> holders st"
proof -
  obtain r rh where r: "fmlookup (ss_records st) (tx_StakeID tx) = Some r"
    and st': "st' = st\<lparr>ss_records := fmupd (tx_StakeID tx) (r\<lparr>sr_Status := StatusUnlocking, sr_UnlockTxID := tx_ID tx,
       sr_UnlockHeight := h, sr_ReleaseHeight := rh\<rparr>) (ss_records st)\<rparr>"
    using assms by (auto simp: ApplyUnlock_def split: option.splits if_splits sum.splits)
  have "(sr_OwnerAddress r, sr_StakeID r) \<in> holders st" using r by (auto simp: holders_def)
  then show ?thesis using holders_upd [where st = st and k = "tx_StakeID tx"] st' by fastforce
qed

lemma ApplyTransaction_tidy:
  assumes "ApplyTransactionAtHeight X tx h l = (None, l')" and "ledger_ok l" and "\<not> tx_Coinbase tx" and "tidy l"
  shows "tidy l'"
proof -
  obtain l1 where v: "mature_ValidateTransaction X tx l = (None, l1)"
    using assms(1) by (auto simp: ApplyTransactionAtHeight_def split: prod.splits option.splits)
  have l1: "ledger_ok l1" "tidy l1" "ml_profile l1 = ml_profile l"
    using validate_state [OF v] assms(2, 4) ledger_ok_refreshed by auto
  have prof: "ml_profile l' = ml_profile l1"
    using ApplyTransactionAtHeight_ok [OF assms(1-3)] l1(3) by (simp add: same_config_def)
  show ?thesis
  proof (cases "tx_ProtocolVersion tx = TxVersionAsset")
    case True
    have "applyAssetTransactionV3 tx h l1 = (None, l')"
      using assms(1) v True by (simp add: ApplyTransactionAtHeight_def)
    from tidy_gains [OF l1(2) applyV3_gains [OF this l1(1)] _ prof] show ?thesis
      using validate_v3_parties(3) [OF v assms(3) True] validate_mint_party [OF v assms(3) True] l1(3)
      by (auto simp: network_owners_def)
  next
    case False
    note L = validate_legacy [OF v assms(3) False]
    show ?thesis
    proof (cases "TxType tx = TxTypeTransfer")
      case tr: True
      have "ValidateAddressForNetwork (tx_To tx) (ml_profile l) = None"
        using L(2) tr by (auto simp: mature_identity_def split: option.splits if_splits)
      moreover have "legacy_transfer tx l1 = (None, l')"
        using assms(1) v False tr by (simp add: ApplyTransactionAtHeight_def)
      ultimately show ?thesis
        using tidy_gains [OF l1(2) legacy_transfer_gains [OF _ l1(1)] _ prof] l1(3) by (simp add: network_owners_def)
    next
      case ntr: False
      have sender: "ValidateAddressForNetwork (tx_From tx) (ml_profile l1) = None"
        using L(2) l1(3) by (auto simp: mature_identity_def split: option.splits if_splits)
      have named: "tx_ID tx \<noteq> []"
        using L(2) hash_nonempty by (auto simp: mature_identity_def split: option.splits if_splits sum.splits)
      have "(\<exists>st. ApplyLock tx h (ml_stakes l1) = (None, st) \<and> l' = set_nonce (tx_From tx) (tx_Nonce tx) (l1\<lparr>ml_stakes := st\<rparr>))
        \<or> (\<exists>st. ApplyUnlock tx h (ml_stakes l1) = (None, st) \<and> l' = set_nonce (tx_From tx) (tx_Nonce tx) (l1\<lparr>ml_stakes := st\<rparr>))"
        using assms(1) v False ntr
        by (auto simp: ApplyTransactionAtHeight_def on_stakes_def split: prod.splits option.splits if_splits)
      then show ?thesis
        using ApplyLock_holders [OF _ named] ApplyUnlock_holders sender l1(2) by (fastforce simp: tidy_def set_nonce_def)
    qed
  qed
qed

section \<open>Blocks\<close>

lemma ApplyCoinbase_parts:
  assumes "ApplyCoinbaseAtHeight tx h l = (None, l')" and "ledger_ok l"
  shows "gains {tx_To tx} l l'" and "ValidateAddressForNetwork (tx_To tx) (ml_profile l) = None"
    and "ml_profile l' = ml_profile l"
    and "ml_coinbases l' = ml_coinbases l @ (if tx_Amount tx > 0 then [\<lparr>cb_Address = tx_To tx,
           cb_Amount = tx_Amount tx, cb_Height = h, cb_Matured = False\<rparr>] else [])"
proof -
  obtain as where c: "Credit (tx_To tx) NativeAssetID (tx_Amount tx) (ml_assets l) = (None, as)"
    and l': "ml_assets l' = as" "ml_stakes l' = ml_stakes l"
    using assms(1) ledger_okD(1) [OF assms(2)]
    by (auto simp: ApplyCoinbaseAtHeight_def Let_def on_assets_def split: if_splits option.splits sum.splits prod.splits)
  show "gains {tx_To tx} l l'" using Credit_owners [OF c] l' by (auto simp: gains_def)
  show "ValidateAddressForNetwork (tx_To tx) (ml_profile l) = None" "ml_profile l' = ml_profile l"
    "ml_coinbases l' = ml_coinbases l @ (if tx_Amount tx > 0 then [\<lparr>cb_Address = tx_To tx,
       cb_Amount = tx_Amount tx, cb_Height = h, cb_Matured = False\<rparr>] else [])"
    using assms(1)
    by (auto simp: ApplyCoinbaseAtHeight_def Let_def on_assets_def split: if_splits option.splits sum.splits prod.splits)
qed

text \<open>The pending credits of a chain whose last block has a height: rising heights, none above it.\<close>

definition credits_ok :: "network_config \<Rightarrow> nat \<Rightarrow> coinbase_credit list \<Rightarrow> bool" where
  "credits_ok profile h cs \<longleftrightarrow> sorted_wrt (\<lambda>a b. unat (cb_Height a) < unat (cb_Height b)) cs
     \<and> (\<forall>c \<in> set cs. unat (cb_Height c) < h \<and> cb_Amount c \<noteq> 0 \<and> ValidateAddressForNetwork (cb_Address c) profile = None)"

lemma credits_ok_mono: "credits_ok p h cs \<Longrightarrow> h \<le> h' \<Longrightarrow> credits_ok p h' cs"
  by (fastforce simp: credits_ok_def)

lemma credits_ok_snoc:
  "credits_ok p (unat h) cs \<Longrightarrow> ValidateAddressForNetwork a p = None \<Longrightarrow> n \<noteq> 0 \<Longrightarrow>
   credits_ok p (Suc (unat h)) (cs @ [\<lparr>cb_Address = a, cb_Amount = n, cb_Height = h, cb_Matured = False\<rparr>])"
  by (auto simp: credits_ok_def sorted_wrt_append)

text \<open>Before the coinbase of a block all credits are below its height, after it at most at its height.\<close>

lemma block_loop_tidy:
  assumes "block_loop X h n txs l = (None, l')" and "ledger_ok l" and "tidy l"
    and "credits_ok (ml_profile l) (if n = 0 then unat h else Suc (unat h)) (ml_coinbases l)"
  shows "tidy l' \<and> credits_ok (ml_profile l') (Suc (unat h)) (ml_coinbases l') \<and> ml_profile l' = ml_profile l"
  using assms
proof (induction txs arbitrary: n l)
  case Nil
  then show ?case using credits_ok_mono [of "ml_profile l" _ "ml_coinbases l" "Suc (unat h)"] by (auto split: if_splits)
next
  case (Cons tx txs)
  show ?case
  proof (cases "tx_Coinbase tx")
    case True
    with Cons.prems obtain l1 where c: "ApplyCoinbaseAtHeight tx h l = (None, l1)" and n: "n = 0"
      and r: "block_loop X h (n + 1) txs l1 = (None, l')"
      by (auto split: prod.splits option.splits if_splits)
    note C = ApplyCoinbase_parts [OF c Cons.prems(2)]
    have "tidy l1" by (rule tidy_gains [OF Cons.prems(3) C(1) _ C(3)]) (simp add: network_owners_def C(2))
    moreover have "credits_ok (ml_profile l1) (Suc (unat h)) (ml_coinbases l1)"
      using Cons.prems(4) n C(2-4) credits_ok_snoc [of "ml_profile l" h] credits_ok_mono [of "ml_profile l" "unat h" _ "Suc (unat h)"]
      by (auto simp: word_gt_0)
    ultimately show ?thesis
      using Cons.IH [OF r] ApplyCoinbaseAtHeight_ok [OF c Cons.prems(2)] C(3) by auto
  next
    case False
    with Cons.prems obtain l1 where c: "ApplyTransactionAtHeight X tx h l = (None, l1)"
      and r: "block_loop X h n txs l1 = (None, l')"
      by (auto split: prod.splits option.splits)
    note C = ApplyTransactionAtHeight_ok [OF c Cons.prems(2) False]
    show ?thesis
      using Cons.IH [OF r] C ApplyTransaction_tidy [OF c Cons.prems(2) False Cons.prems(3)] Cons.prems(4)
      by (auto simp: same_config_def)
  qed
qed

lemma mature_step_filter:
  assumes "fold (mature_step m h) cs (pending, accounts) = (pending', accounts')"
  shows "\<exists>ds. pending' = pending @ ds \<and> subseq ds cs"
  using assms
proof (induction cs arbitrary: pending accounts)
  case (Cons c cs)
  obtain p a where s: "mature_step m h c (pending, accounts) = (p, a)" by fastforce
  then have p: "p = pending \<or> p = pending @ [c]"
    by (auto simp: mature_step_def Let_def split: if_splits sum.splits)
  have "fold (mature_step m h) cs (p, a) = (pending', accounts')" using Cons.prems s by simp
  from Cons.IH [OF this] obtain ds where ds: "pending' = p @ ds" "subseq ds cs" by blast
  then show ?case using p by (auto intro: exI [of _ "c # ds"] exI [of _ ds])
qed simp

lemma matureCoinbases_tidy:
  "tidy (matureCoinbases h l) = tidy l" "ml_profile (matureCoinbases h l) = ml_profile l"
  "subseq (ml_coinbases (matureCoinbases h l)) (ml_coinbases l)"
  "ml_stakes (matureCoinbases h l) = ml_stakes l" "ml_params (matureCoinbases h l) = ml_params l"
  "ml_maturity (matureCoinbases h l) = ml_maturity l" "ml_currentHeight (matureCoinbases h l) = ml_currentHeight l"
  using mature_step_filter [of "ml_maturity l" h "ml_coinbases l" "[]" "ml_accounts l"]
  by (auto simp: matureCoinbases_def tidy_def split: prod.split)

lemma sorted_wrt_subseq: "subseq ds cs \<Longrightarrow> sorted_wrt P cs \<Longrightarrow> sorted_wrt P ds"
  by (induction rule: list_emb.induct) (auto dest: list_emb_set)

lemma credits_ok_subseq: "credits_ok p h cs \<Longrightarrow> subseq ds cs \<Longrightarrow> credits_ok p h ds"
proof -
  assume c: "credits_ok p h cs" and s: "subseq ds cs"
  then obtain N where "ds = nths cs N" by (auto simp: subseq_conv_nths)
  then have "set ds \<subseteq> set cs" by (simp add: set_nths_subset)
  moreover have "sorted_wrt (\<lambda>a b. unat (cb_Height a) < unat (cb_Height b)) ds"
    using c s by (auto simp: credits_ok_def intro: sorted_wrt_subseq)
  ultimately show ?thesis using c by (auto simp: credits_ok_def)
qed

lemma applyBlock_tidy:
  assumes "applyBlock X b l = (None, l')" and "ledger_ok l" and "tidy l"
    and "credits_ok (ml_profile l) (unat (b_Height b)) (ml_coinbases l)"
  shows "tidy l' \<and> credits_ok (ml_profile l') (Suc (unat (b_Height b))) (ml_coinbases l')
    \<and> ml_profile l' = ml_profile l \<and> ml_params l' = ml_params l \<and> ml_maturity l' = ml_maturity l"
proof -
  define l0 where "l0 = (if b_Height b > 0 then matureCoinbases (b_Height b - 1) l else l)"
  have l0: "ledger_ok l0" "tidy l0" "ml_profile l0 = ml_profile l" "same_config l l0"
    "credits_ok (ml_profile l) (unat (b_Height b)) (ml_coinbases l0)"
    using matureCoinbases_ok [OF assms(2)] assms matureCoinbases_tidy [of "b_Height b - 1" l] credits_ok_subseq
    by (auto simp: l0_def same_config_def matureCoinbases_tidy)
  obtain l1 l2 where bl: "block_loop X (b_Height b) 0 (b_Transactions b) l0 = (None, l1)"
    and st: "settleFees (b_MinerAddress b) l1 = (None, l2)"
    and l': "l' = matureCoinbases (b_Height b) (l2\<lparr>ml_currentHeight := b_Height b\<rparr>)"
    using assms(1) block_loop_ok [of X "b_Height b" 0 "b_Transactions b" l0] l0(1) ledger_okD(1)
    by (auto simp: applyBlock_def Let_def l0_def [symmetric] split: prod.splits option.splits if_splits)
  note B = block_loop_tidy [OF bl l0(1, 2)]
  have ok1: "ledger_ok l1" using block_loop_ok [OF bl l0(1)] by simp
  note S = settleFees_ok [OF st ok1]
  have "tidy l2"
    by (rule tidy_gains [OF _ settleFees_gains [OF st]]) (use B l0 S in \<open>auto simp: network_owners_def same_config_def\<close>)
  then have "tidy l'" using l' matureCoinbases_tidy(1) by (simp add: tidy_def)
  moreover have "ml_profile l' = ml_profile l" "ml_params l' = ml_params l" "ml_maturity l' = ml_maturity l"
    using l' S l0 block_loop_ok [OF bl l0(1)] by (simp_all add: matureCoinbases_tidy same_config_def)
  moreover have "credits_ok (ml_profile l) (Suc (unat (b_Height b))) (ml_coinbases l')"
    using B S l0 l' matureCoinbases_tidy(3) [of "b_Height b" "l2\<lparr>ml_currentHeight := b_Height b\<rparr>"] credits_ok_subseq
    by (auto simp: same_config_def)
  ultimately show ?thesis by simp
qed

section \<open>Chains\<close>

text \<open>What a replay of a number of blocks reaches, when they are numbered from zero.\<close>

definition replayed :: "consensus_params \<Rightarrow> network_config \<Rightarrow> nat \<Rightarrow> mature_ledger \<Rightarrow> bool" where
  "replayed params profile n l \<longleftrightarrow> ledger_ok l \<and> tidy l \<and> credits_ok profile n (ml_coinbases l)
     \<and> FeePoolBalance l = 0 \<and> ml_profile l = profile \<and> ml_params l = params \<and> ml_maturity l = cp_CoinbaseMaturity params
     \<and> unat (ml_currentHeight l) = n - 1"

lemma replayed_new:
  assumes "nc_Name profile \<noteq> []" and "nc_TxVersion profile \<ge> TxVersionAsset"
  shows "replayed params profile 0 (NewMatureWithProfile params profile)"
  using ledger_ok_new [of profile params] assms
  by (simp add: replayed_def tidy_def credits_ok_def NewMatureWithProfile_def NewAssetState_def asset_Balance_def
      owners_def holders_def NewStakeState_def FeePoolBalance_def)

lemma replayed_step:
  assumes "replayed params profile n l" and "mature_ApplyBlock X b l = (None, l')" and "unat (b_Height b) = n"
  shows "replayed params profile (Suc n) l'"
proof -
  have ok: "ledger_ok l" using assms(1) by (simp add: replayed_def)
  have a: "applyBlock X b (refreshed l) = (None, l')" using mature_ApplyBlock_cases(1) [OF assms(2) ok] by simp
  note A = applyBlock_ok [OF a ledger_ok_refreshed [OF ok]] and T = applyBlock_tidy [OF a ledger_ok_refreshed [OF ok]]
  show ?thesis using assms(1, 3) A T by (auto simp: replayed_def FeePoolBalance_def)
qed

lemma replayed_run:
  assumes "run_steps (mature_ApplyBlock X) bs l = (None, l')" and "replayed params profile n l"
    and "\<And>i. i < length bs \<Longrightarrow> unat (b_Height (bs ! i)) = n + i"
  shows "replayed params profile (n + length bs) l'"
  using assms
proof (induction bs arbitrary: l n)
  case (Cons b bs)
  from Cons.prems(1) obtain l1 where b: "mature_ApplyBlock X b l = (None, l1)"
    and r: "run_steps (mature_ApplyBlock X) bs l1 = (None, l')"
    by (auto split: prod.splits option.splits)
  have "replayed params profile (Suc n) l1" using replayed_step [OF Cons.prems(2) b] Cons.prems(3) [of 0] by simp
  from Cons.IH [OF r this] Cons.prems(3) [of "Suc _"] show ?case by simp
qed simp

lemma replay_replayed:
  assumes "ReplayMatureWithProfile X bs params profile = Inr l" and "\<And>i. i < length bs \<Longrightarrow> unat (b_Height (bs ! i)) = i"
    and "nc_Name profile \<noteq> []" and "nc_TxVersion profile \<ge> TxVersionAsset"
  shows "replayed params profile (length bs) l"
  using replayed_run [where n = 0] replayed_new [OF assms(3, 4)] prior_replay [OF assms(1, 3, 4)] assms(2) by auto

end
