(* ===== verification/Snapshot_Ready.thy ===== *)
theory Snapshot_Ready
  imports Ledger_Owners Store_State
begin

text \<open>
  Every ledger that a replay of a numbered chain reaches has a snapshot that passes its own validation,
  is already in sorted order, and can be stored and read back.
\<close>

section \<open>Addresses\<close>

lemma value58_alphabet: "value58 n s = Some x \<Longrightarrow> set s \<subseteq> set alphabet"
  using value58_bad by (metis option.distinct(1) subsetI)

lemma prefixed_chars: "HasPrefix a p \<Longrightarrow> c \<notin> set p \<Longrightarrow> c \<notin> set (drop (length p) a) \<Longrightarrow> c \<notin> set a"
  by (metis HasPrefix_def Un_iff append_take_drop_id set_append)

lemma address_chars:
  assumes "ValidateAddressForNetwork a p = None" and "CHR 0x00 \<notin> set (nc_AddressPrefix p)"
  shows "a \<noteq> [] \<and> CHR 0x00 \<notin> set a"
proof (cases "IsLegacyDevAddress a")
  case True
  then have h: "HasPrefix a legacyDevPrefix" and t: "\<forall>c\<in>set (drop (length legacyDevPrefix) a). c \<in> set ''0123456789abcdef''"
    and n: "length a > 0"
    by (auto simp: IsLegacyDevAddress_def list_all_iff)
  have "CHR 0x00 \<notin> set ''0123456789abcdef''" by simp
  with t have "CHR 0x00 \<notin> set (drop (length legacyDevPrefix) a)" by blast
  moreover have "CHR 0x00 \<notin> set legacyDevPrefix" by (simp add: legacyDevPrefix_def)
  ultimately have "CHR 0x00 \<notin> set a" using prefixed_chars [OF h] by blast
  with n show ?thesis by simp
next
  case False
  obtain x where h: "HasPrefix a (nc_AddressPrefix p)" and d: "Base58CheckDecode (TrimPrefix a (nc_AddressPrefix p)) = Inr x"
    using assms(1) False by (auto simp: ValidateAddressForNetwork_def DecodeAddress_def split: sum.splits if_splits)
  define b where "b = drop (length (nc_AddressPrefix p)) a"
  have d: "Base58CheckDecode b = Inr x" using d h by (simp add: b_def TrimPrefix_def)
  have ne: "b \<noteq> []" using d Base58CheckDecode_bad [of b] by auto
  then obtain v where "value58 0 b = Some v"
    using d by (auto simp: Base58CheckDecode_def Base58Decode_def split: option.splits)
  moreover have "CHR 0x00 \<notin> set alphabet" by (simp add: alphabet_def)
  ultimately have "CHR 0x00 \<notin> set b" using value58_alphabet by blast
  then have "CHR 0x00 \<notin> set a" using prefixed_chars [OF h assms(2)] by (simp add: b_def)
  moreover have "a \<noteq> []" using ne by (auto simp: b_def)
  ultimately show ?thesis by simp
qed

lemma network_owner_chars:
  "a \<in> network_owners p \<Longrightarrow> CHR 0x00 \<notin> set (nc_AddressPrefix p) \<Longrightarrow> a \<noteq> [] \<and> CHR 0x00 \<notin> set a"
  using address_chars by (auto simp: network_owners_def FeeCollectorAddress_def)

section \<open>Lists of the snapshot\<close>

lemma balance_known:
  assumes "asset_ok s" and "asset_Balance s a k \<noteq> 0"
  shows "\<exists>d. fmlookup (as_assets s) k = Some d \<and> def_ID d = k"
proof -
  have "0 < unat (asset_Balance s a k)" using assms(2) by (simp add: unat_gt_0)
  with balance_le_total [of s a k] have "total_balance s k \<noteq> 0" by linarith
  then obtain d where "fmlookup (as_assets s) k = Some d" using asset_okD(3) [OF assms(1)] by (cases "fmlookup (as_assets s) k") auto
  with asset_ids [OF assms(1) this] show ?thesis by simp
qed

lemma native_known: "asset_ok s \<Longrightarrow> IsNative k \<Longrightarrow> fmlookup (as_assets s) k \<noteq> None \<Longrightarrow> k = NativeAssetID"
  using asset_okD(2) by (fastforce simp: issued_ok_def)

lemma fold_native:
  assumes "distinct (map (\<lambda>e. (be_Address e, be_AssetID e)) es)" and "\<And>e. e \<in> set es \<Longrightarrow> IsNative (be_AssetID e) \<Longrightarrow> be_AssetID e = NativeAssetID"
  shows "get_or 0 (fold (\<lambda>e m. if IsNative (be_AssetID e) then fmupd (be_Address e) (be_Amount e) m else m) es m) a
    = (case find (\<lambda>e. be_Address e = a \<and> be_AssetID e = NativeAssetID) es of None \<Rightarrow> get_or 0 m a | Some e \<Rightarrow> be_Amount e)"
  using assms
proof (induction es arbitrary: m)
  case (Cons e es)
  have no: "find (\<lambda>e. be_Address e = a \<and> be_AssetID e = NativeAssetID) es = None"
    if "be_Address e = a" "be_AssetID e = NativeAssetID"
    using Cons.prems(1) that by (auto simp: find_None_iff image_iff)
  show ?case using Cons.IH Cons.prems no by (auto split: option.splits)
qed simp

lemma native_balances_Balances:
  assumes "asset_ok s"
  shows "get_or 0 (native_balances (sort_by entry_less (Balances s))) a = asset_Balance s a NativeAssetID"
proof -
  let ?es = "sort_by entry_less (Balances s)"
  have mem: "e \<in> set ?es \<longleftrightarrow> be_Amount e = asset_Balance s (be_Address e) (be_AssetID e) \<and> be_Amount e \<noteq> 0" for e
    by (simp add: in_Balances)
  have native: "be_AssetID e = NativeAssetID" if "e \<in> set ?es" "IsNative (be_AssetID e)" for e
    using that mem [of e] balance_known [OF assms, of "be_Address e" "be_AssetID e"] native_known [OF assms that(2)] by auto
  have "get_or 0 (native_balances ?es) a
    = (case find (\<lambda>e. be_Address e = a \<and> be_AssetID e = NativeAssetID) ?es of None \<Rightarrow> 0 | Some e \<Rightarrow> be_Amount e)"
    unfolding native_balances_def using distinct_Balances [of s] native
    by (subst fold_native) (auto simp: distinct_sort_by split: option.splits)
  also have "\<dots> = asset_Balance s a NativeAssetID"
  proof (cases "find (\<lambda>e. be_Address e = a \<and> be_AssetID e = NativeAssetID) ?es")
    case None
    have "asset_Balance s a NativeAssetID = 0"
      using None mem [of "\<lparr>be_Address = a, be_AssetID = NativeAssetID, be_Amount = asset_Balance s a NativeAssetID\<rparr>"]
      unfolding find_None_iff by fastforce
    with None show ?thesis by simp
  next
    case (Some e)
    then have "e \<in> set ?es" "be_Address e = a" "be_AssetID e = NativeAssetID"
      unfolding find_Some_iff using nth_mem by blast+
    with Some mem [of e] show ?thesis by simp
  qed
  finally show ?thesis .
qed

section \<open>The snapshot of a replayed ledger\<close>

lemma SnapshotForLedger_fields:
  assumes "ledger_ok l"
  shows "sn_Accounts (SnapshotForLedger l) = StateAccounts l" and "sn_Stakes (SnapshotForLedger l) = fst (StateStakes l)"
    and "sn_Coinbases (SnapshotForLedger l) = StateCoinbases l" and "sn_Assets (SnapshotForLedger l) = Definitions (ml_assets l)"
    and "sn_AssetBalances (SnapshotForLedger l) = Balances (ml_assets l)"
    and "sn_Version (SnapshotForLedger l) = SnapshotVersion" and "sn_Height (SnapshotForLedger l) = ml_currentHeight l"
    and "Definitions (ml_assets l) \<noteq> []"
    and "sn_StateRoot (SnapshotForLedger l) = RootForCollectionsWithAssets (StateAccounts l) (fst (StateStakes l))
           (Definitions (ml_assets l)) (Balances (ml_assets l))"
proof -
  note ok = ledger_okD [OF assms]
  have "native_definition \<in> set (Definitions (ml_assets l))"
    using asset_okD(1) [OF ok(2)] by (simp add: in_Definitions [OF ok(2)] native_definition_def)
  then show ne: "Definitions (ml_assets l) \<noteq> []" by auto
  have "\<not> nc_TxVersion (ml_profile l) < TxVersionAsset" using ok(1) by (simp add: AssetModelEnabled_def)
  with ne show "sn_Accounts (SnapshotForLedger l) = StateAccounts l" "sn_Stakes (SnapshotForLedger l) = fst (StateStakes l)"
    "sn_Coinbases (SnapshotForLedger l) = StateCoinbases l" "sn_Assets (SnapshotForLedger l) = Definitions (ml_assets l)"
    "sn_AssetBalances (SnapshotForLedger l) = Balances (ml_assets l)"
    "sn_Version (SnapshotForLedger l) = SnapshotVersion" "sn_Height (SnapshotForLedger l) = ml_currentHeight l"
    "sn_StateRoot (SnapshotForLedger l) = RootForCollectionsWithAssets (StateAccounts l) (fst (StateStakes l))
           (Definitions (ml_assets l)) (Balances (ml_assets l))"
    by (simp_all add: SnapshotForLedger_def StableDigestInputs_def StateAssetDefinitions_def StateAssetBalances_def
        accounts_sorted stakes_sorted [OF ok(3)] Let_def)
qed

lemma StateAccounts_facts:
  "distinct (map sa_Address (StateAccounts l))"
  "a \<in> set (StateAccounts l) \<Longrightarrow> sa_Confirmed a = ma_Confirmed (ml_account l (sa_Address a))"
proof -
  have "map sa_Address (StateAccounts l) = map fst (sorted_list_of_fmap (ml_accounts l))"
    by (simp add: StateAccounts_def case_prod_unfold)
  then show "distinct (map sa_Address (StateAccounts l))" using strictly_sorted [of "ml_accounts l"] by (simp add: strict_sorted_iff)
  show "a \<in> set (StateAccounts l) \<Longrightarrow> sa_Confirmed a = ma_Confirmed (ml_account l (sa_Address a))"
    by (auto simp: StateAccounts_def set_sorted_list_of_fmap get_or_def)
qed

lemma StateStakes_facts:
  assumes "stakes_ok l"
  shows "distinct (map sr_StakeID (fst (StateStakes l)))"
    and "r \<in> set (fst (StateStakes l)) \<Longrightarrow> (sr_OwnerAddress r, sr_StakeID r) \<in> holders (ml_stakes l)"
proof -
  define st where "st = RefreshReleased (ml_currentHeight l) (ml_stakes l)"
  have rs: "fst (StateStakes l) = map snd (sorted_list_of_fmap (ss_records st))"
    by (simp add: StateStakes_def Records_def Let_def st_def)
  have "stakes_ok (l\<lparr>ml_stakes := st\<rparr>)" using stakes_ok_refreshed [OF assms] by (simp add: refreshed_def st_def)
  then have k: "fmlookup (ss_records st) k = Some r \<Longrightarrow> sr_StakeID r = k" for k r by (simp add: stakes_ok_def)
  have "map (sr_StakeID \<circ> snd) (sorted_list_of_fmap (ss_records st)) = map fst (sorted_list_of_fmap (ss_records st))"
    by (rule map_cong [OF refl]) (auto simp: set_sorted_list_of_fmap k)
  moreover have "distinct (map fst (sorted_list_of_fmap (ss_records st)))"
    using strictly_sorted [of "ss_records st"] unfolding strict_sorted_iff by blast
  ultimately show "distinct (map sr_StakeID (fst (StateStakes l)))" unfolding rs map_map by argo
  assume "r \<in> set (fst (StateStakes l))"
  then obtain k where "fmlookup (ss_records st) k = Some r" by (auto simp: rs set_sorted_list_of_fmap)
  then have "(sr_OwnerAddress r, sr_StakeID r) \<in> holders st" unfolding holders_def by blast
  then show "(sr_OwnerAddress r, sr_StakeID r) \<in> holders (ml_stakes l)" by (simp add: st_def)
qed

lemma StateCoinbases_facts:
  assumes "credits_ok p n (ml_coinbases l)"
  shows "sort_by coinbase_less (StateCoinbases l) = StateCoinbases l"
    and "distinct (map (\<lambda>c. (sc_Height c, sc_Address c)) (StateCoinbases l))"
    and "c \<in> set (StateCoinbases l) \<Longrightarrow> ValidateAddressForNetwork (sc_Address c) p = None \<and> sc_Amount c \<noteq> 0 \<and> unat (sc_Height c) < n"
proof -
  have "sorted_wrt (\<lambda>a b. unat (cb_Height a) < unat (cb_Height b)) (filter (\<lambda>c. \<not> cb_Matured c) (ml_coinbases l))"
    using assms sorted_wrt_filter by (auto simp: credits_ok_def)
  then have w: "sorted_wrt (\<lambda>a b. sc_Height a < sc_Height b) (StateCoinbases l)"
    by (simp add: StateCoinbases_def sorted_wrt_map word_less_nat_alt)
  have "sorted_wrt (\<lambda>a b. (sc_Height a, sc_Address a, sc_Amount a) \<le> (sc_Height b, sc_Address b, sc_Amount b)) (StateCoinbases l)"
    by (rule sorted_wrt_mono_rel [OF _ w]) (simp add: less_eq_prod_def)
  then show "sort_by coinbase_less (StateCoinbases l) = StateCoinbases l"
    unfolding coinbase_key by (intro sort_by_id) (simp add: sorted_map)
  have "sorted_wrt (<) (map sc_Height (StateCoinbases l))" using w by (simp add: sorted_wrt_map)
  then have "distinct (map sc_Height (StateCoinbases l))" by (simp add: strict_sorted_iff)
  then show "distinct (map (\<lambda>c. (sc_Height c, sc_Address c)) (StateCoinbases l))" by (auto simp: distinct_map inj_on_def)
  show "c \<in> set (StateCoinbases l) \<Longrightarrow> ValidateAddressForNetwork (sc_Address c) p = None \<and> sc_Amount c \<noteq> 0 \<and> unat (sc_Height c) < n"
    using assms by (auto simp: StateCoinbases_def credits_ok_def)
qed

lemma definition_order: "sort_by definition_less (Definitions s) = Definitions s"
  unfolding definition_key by (intro sort_by_id) (simp add: Definitions_def)

lemma balance_order: "sort_by entry_less (Balances s) = Balances s"
  by (rule entries_order.sort_sorted [OF sorted_Balances])

lemma ready_assets:
  assumes "asset_ok s"
  shows "\<forall>d \<in> set (Definitions s). proper_asset d" and "\<exists>d \<in> set (Definitions s). IsNative (def_ID d)"
    and "e \<in> set (Balances s) \<Longrightarrow> be_AssetID e \<noteq> [] \<and> be_AssetID e \<in> def_ID ` set (Definitions s)"
proof -
  show "\<forall>d \<in> set (Definitions s). proper_asset d"
  proof
    fix d assume d: "d \<in> set (Definitions s)"
    note kinds = definition_kinds [OF assms d]
    show "proper_asset d"
      using kinds by (cases "def_ID d = NativeAssetID") (auto simp: proper_asset_def issued_ok_def native_definition_def)
  qed
  have "native_definition \<in> set (Definitions s)"
    using asset_okD(1) [OF assms] by (simp add: in_Definitions [OF assms] native_definition_def)
  moreover have "IsNative (def_ID native_definition)" by (simp add: native_definition_def)
  ultimately show "\<exists>d \<in> set (Definitions s). IsNative (def_ID d)" by blast
  assume "e \<in> set (Balances s)"
  then have "asset_Balance s (be_Address e) (be_AssetID e) \<noteq> 0" unfolding in_Balances by argo
  then obtain d where d: "fmlookup (as_assets s) (be_AssetID e) = Some d" "def_ID d = be_AssetID e"
    using balance_known [OF assms] by blast
  then have "d \<in> set (Definitions s)" by (simp add: in_Definitions [OF assms])
  moreover have "be_AssetID e \<noteq> []"
    using asset_okD(2) [OF assms, of "be_AssetID e" d] d by (cases "be_AssetID e = NativeAssetID") (auto simp: issued_ok_def NativeAssetID_def)
  ultimately show "be_AssetID e \<noteq> [] \<and> be_AssetID e \<in> def_ID ` set (Definitions s)" using d(2) by force
qed

lemma root_nonempty: "RootForCollectionsWithAssets as rs ds es \<noteq> []"
  by (auto simp: RootForCollectionsWithAssets_def StableDigestInputs_def dest: arg_cong [where f = length])

lemma ready_snapshot:
  assumes "replayed params profile n l" and "0 < n" and zero: "CHR 0x00 \<notin> set (nc_AddressPrefix profile)"
  shows "snapshot_proper (SnapshotForLedger l)" and "storable (SnapshotForLedger l)"
    and "snapshot_sorted (SnapshotForLedger l) = SnapshotForLedger l" and "unat (sn_Height (SnapshotForLedger l)) = n - 1"
proof -
  have ok: "ledger_ok l" and tidy: "tidy l" and credits: "credits_ok profile n (ml_coinbases l)" and pool: "FeePoolBalance l = 0"
    and cfg: "ml_profile l = profile" and height: "unat (ml_currentHeight l) = n - 1"
    using assms(1) by (simp_all add: replayed_def)
  note L = ledger_okD [OF ok] and F = SnapshotForLedger_fields [OF ok] and A = ready_assets [OF L(2)]
  note C = StateCoinbases_facts [OF credits] and S = StateStakes_facts [OF L(3)]
  have owner: "be_Address e \<noteq> [] \<and> CHR 0x00 \<notin> set (be_Address e)" if "e \<in> set (Balances (ml_assets l))" for e
  proof -
    have "asset_Balance (ml_assets l) (be_Address e) (be_AssetID e) \<noteq> 0" using that unfolding in_Balances by argo
    then have "be_Address e \<in> owners (ml_assets l)" by (auto simp: owners_def)
    then show ?thesis using tidy network_owner_chars [OF _ zero] by (auto simp: tidy_def cfg)
  qed
  have native: "get_or 0 (native_balances (sort_by entry_less (Balances (ml_assets l)))) (sa_Address a) = sa_Confirmed a"
    if "a \<in> set (StateAccounts l)" for a
    using native_balances_Balances [OF L(2)] StateAccounts_facts(2) [OF that] L(5, 6) pool L(1)
    by (cases "sa_Address a = FeeCollectorAddress") (auto simp: FeePoolBalance_def)
  have credit: "sc_Address c \<noteq> [] \<and> sc_Amount c \<noteq> 0 \<and> sc_Height c \<le> ml_currentHeight l" if "c \<in> set (StateCoinbases l)" for c
    using C(3) [OF that] address_chars [OF _ zero] height assms(2) by (auto simp: word_le_nat_alt)
  have entry: "\<forall>e \<in> set (Balances (ml_assets l)). be_Address e \<noteq> [] \<and> be_AssetID e \<noteq> [] \<and> be_Amount e \<noteq> 0
      \<and> be_AssetID e \<in> def_ID ` set (Definitions (ml_assets l))"
    using owner A(3) in_Balances by blast
  show "snapshot_proper (SnapshotForLedger l)"
    unfolding snapshot_proper_def F
    using S(1) C(2) A(1, 2) distinct_Definitions [OF asset_ids [OF L(2)]] distinct_Balances [of "ml_assets l"] entry native credit
      StateAccounts_facts(1) [of l] F(8) root_nonempty by simp
  have stake: "sr_OwnerAddress r \<noteq> [] \<and> sr_StakeID r \<noteq> [] \<and> CHR 0x00 \<notin> set (sr_OwnerAddress r)" if "r \<in> set (fst (StateStakes l))" for r
    using S(2) [OF that] tidy address_chars [OF _ zero, of "sr_OwnerAddress r"] by (auto simp: tidy_def cfg)
  then show "storable (SnapshotForLedger l)" unfolding storable_def F using owner F(8) by blast
  show "snapshot_sorted (SnapshotForLedger l) = SnapshotForLedger l"
    by (intro snapshot.equality) (simp_all add: snapshot_sorted_def StableDigestInputs_def F accounts_sorted stakes_sorted [OF L(3)] C(1)
        definition_order balance_order)
  show "unat (sn_Height (SnapshotForLedger l)) = n - 1" using F(7) height by simp
qed

end
