(* ===== verification/Chain_State.thy ===== *)
theory Chain_State
  imports Blockchain Same_State Snapshot_Ready
begin

text \<open>
  The chain and its stored state stay in step: whatever the blockchain does, the state in the database is
  the snapshot of a replay of the blocks in the database. The node replays only when it has to; the
  other times it rebuilds a ledger from the stored snapshot and applies one block.
\<close>

definition asset_network :: "network_config \<Rightarrow> bool" where
  "asset_network profile \<longleftrightarrow> nc_Name profile \<noteq> [] \<and> nc_TxVersion profile \<ge> TxVersionAsset
     \<and> CHR 0x00 \<notin> set (nc_AddressPrefix profile)"

section \<open>One more block\<close>

lemma replay_snoc:
  assumes "ReplayMatureWithProfile X bs params profile = Inr l" and "asset_network profile"
  shows "ReplayMatureWithProfile X (bs @ [b]) params profile
    = (case mature_ApplyBlock X b l of (Some e, _) \<Rightarrow> Inl e | (None, l') \<Rightarrow> Inr l')"
proof -
  note run = prior_replay [OF assms(1)]
  have run: "run_steps (mature_ApplyBlock X) bs (NewMatureWithProfile params profile) = (None, l)" and ok: "ledger_ok l"
    using run assms(2) by (simp_all add: asset_network_def)
  show ?thesis
  proof (cases "mature_ApplyBlock X b l")
    case (Pair r l')
    show ?thesis
    proof (cases r)
      case None
      then have "matureCoinbases (b_Height b) l' = l'"
        using mature_ApplyBlock_cases(1) [OF Pair ok] applyBlock_matured by blast
      with run Pair None show ?thesis by (simp add: ReplayMatureWithProfile_def run_steps_append)
    qed (use run Pair in \<open>simp add: ReplayMatureWithProfile_def run_steps_append\<close>)
  qed
qed

lemma ApplyBlock_refreshed:
  assumes "ledger_ok l" shows "mature_ApplyBlock X b (refreshed l) = mature_ApplyBlock X b l"
  using mature_Clone_eq [OF assms] mature_Clone_eq [OF ledger_ok_refreshed [OF assms]] ledger_okD(1) [OF assms]
    ledger_okD(1) [OF ledger_ok_refreshed [OF assms]]
  by (simp add: mature_ApplyBlock_def)

lemma height_follows:
  assumes "unat h = n - 1" and "unat h' = n" and "0 < n"
  shows "Add h 1 = Inr (h' :: u64)"
  using assms unat_u64_lt [of h'] by (auto simp: Add_Inr_iff)

lemma SnapshotAfterBlock_replays:
  assumes "ReplayMatureWithProfile X bs params profile = Inr l" and "numbered bs" and "bs \<noteq> []"
    and "unat (b_Height b) = length bs" and net: "asset_network profile"
  shows "SnapshotAfterBlock X (SnapshotForLedger l) b params profile = SnapshotForBlocks X (bs @ [b]) params profile"
proof -
  have n: "nc_Name profile \<noteq> []" "nc_TxVersion profile \<ge> TxVersionAsset" "CHR 0x00 \<notin> set (nc_AddressPrefix profile)"
    using net by (simp_all add: asset_network_def)
  have r: "replayed params profile (length bs) l"
    using replay_replayed [OF assms(1) numbered_nth [OF assms(2)] n(1, 2)] by simp
  then have ok: "ledger_ok l" and tidy: "tidy l" and cfg: "ml_profile l = profile" "ml_params l = params"
    and more: "FeePoolBalance l = 0" "ml_maturity l = cp_CoinbaseMaturity (ml_params l)"
    by (simp_all add: replayed_def)
  note ready = ready_snapshot [OF r _ n(3)]
  have "Add (sn_Height (SnapshotForLedger l)) 1 = Inr (b_Height b)"
    using ready(4) assms(3, 4) by (intro height_follows [of _ "length bs"]) auto
  moreover have "snapshot_Validate (SnapshotForLedger l) = None"
    using ready(1) assms(3) by (simp add: snapshot_Validate_proper)
  moreover have "asset_Balance (ml_assets l) [] k = 0" for k
  proof (rule ccontr)
    assume "asset_Balance (ml_assets l) [] k \<noteq> 0"
    then have "[] \<in> network_owners profile" using tidy by (auto simp: tidy_def owners_def cfg)
    then show False using network_owner_chars [OF _ n(3)] by blast
  qed
  then obtain l1 where l1: "restore_snapshot (SnapshotForLedger l) params profile = Inr l1" "same_state (refreshed l) l1"
    using restore_same [OF ok more(1) _ _ more(2)] n(1) cfg by auto
  have "kept (mature_ApplyBlock X b (refreshed l)) (mature_ApplyBlock X b l1)"
    using mature_ApplyBlock_same l1(2) by (blast dest: rel_funD)
  then have same: "kept (mature_ApplyBlock X b l) (mature_ApplyBlock X b l1)" by (simp add: ApplyBlock_refreshed [OF ok])
  ultimately show ?thesis
    using l1(1) same SnapshotForLedger_cong
    by (auto simp: SnapshotAfterBlock_def SnapshotForBlocks_def replay_snoc [OF assms(1) net] rel_prod_sel
        split: prod.splits option.splits)
qed

section \<open>The database\<close>

definition in_step :: "ext \<Rightarrow> 'b bolt \<Rightarrow> network_config \<Rightarrow> 'b bolt_db \<Rightarrow> block list \<Rightarrow> bool" where
  "in_step X B profile db bs \<longleftrightarrow> holds_chain B db bs
     \<and> (bs \<noteq> [] \<longrightarrow> (\<exists>s. SnapshotForBlocks X bs (nc_Consensus profile) profile = Inr s \<and> holds_state B db s))"

lemma snapshot_facts:
  assumes "SnapshotForBlocks X bs params profile = Inr s" and "numbered bs" and "bs \<noteq> []" and "asset_network profile"
  shows "snapshot_proper s" and "storable s" and "snapshot_sorted s = s" and "sn_Height s = b_Height (last bs)"
proof -
  obtain l where l: "ReplayMatureWithProfile X bs params profile = Inr l" and s: "s = SnapshotForLedger l"
    using assms(1) by (auto simp: SnapshotForBlocks_def split: sum.splits)
  have r: "replayed params profile (length bs) l"
    using replay_replayed [OF l numbered_nth [OF assms(2)]] assms(4) by (simp add: asset_network_def)
  note ready = ready_snapshot [OF r]
  show "snapshot_proper s" "storable s" "snapshot_sorted s = s"
    using ready(1-3) assms(3, 4) s by (simp_all add: asset_network_def)
  have "unat (sn_Height s) = length bs - 1" using ready(4) assms(3, 4) s by (simp add: asset_network_def)
  then show "sn_Height s = b_Height (last bs)" using numbered_last [OF assms(2, 3)] by (simp add: word_unat_eq_iff)
qed

context bolt_buckets
begin

lemma in_step_load:
  assumes "in_step X B profile db bs" and "bs \<noteq> []" and "asset_network profile"
  shows "\<exists>s. SnapshotForBlocks X bs (nc_Consensus profile) profile = Inr s \<and> holds_state B db s \<and> store_LoadState B db = Inr s
    \<and> snapshot_proper s \<and> storable s \<and> sn_Height s = b_Height (last bs)"
proof -
  have n: "numbered bs" using assms(1) by (simp add: in_step_def holds_chain_def)
  obtain s where s: "SnapshotForBlocks X bs (nc_Consensus profile) profile = Inr s" "holds_state B db s"
    using assms(1, 2) by (auto simp: in_step_def)
  note F = snapshot_facts [OF s(1) n assms(2, 3)]
  have "store_LoadState B db = Inr s" using load_holds [OF s(2) F(1)] F(2, 3) by (simp add: storable_def)
  with s F show ?thesis by blast
qed

lemma commit_in_step:
  assumes "holds_chain B db bs" and "SnapshotForBlocks X (bs @ [b]) (nc_Consensus profile) profile = Inr s"
    and "asset_network profile" and "store_SaveBlockAndState B b s db = (None, db')"
  shows "in_step X B profile db' (bs @ [b])"
proof -
  have h: "holds_chain B db' (bs @ [b])" using SaveBlockAndState_chain(1) [OF assms(1, 4)] .
  then have n: "numbered (bs @ [b])" by (simp add: holds_chain_def)
  have "storable s" using snapshot_facts(2) [OF assms(2) n _ assms(3)] by simp
  from committed_holds(2) [OF assms(1, 4) this] h assms(2) show ?thesis by (auto simp: in_step_def)
qed

text \<open>Whatever branch of the code computes it, the snapshot that is committed is that of a replay.\<close>

lemma next_snapshot_replays:
  assumes "in_step X B profile db bs" and "bs \<noteq> []" and "asset_network profile" and "unat (b_Height b) = length bs"
  shows "next_snapshot X (store_LoadState B db) bs b profile = SnapshotForBlocks X (bs @ [b]) (nc_Consensus profile) profile"
proof -
  have n: "numbered bs" using assms(1) by (simp add: in_step_def holds_chain_def)
  obtain s where s: "SnapshotForBlocks X bs (nc_Consensus profile) profile = Inr s" "store_LoadState B db = Inr s"
    using in_step_load [OF assms(1-3)] by blast
  obtain l where l: "ReplayMatureWithProfile X bs (nc_Consensus profile) profile = Inr l" "s = SnapshotForLedger l"
    using s(1) by (auto simp: SnapshotForBlocks_def split: sum.splits)
  show ?thesis using SnapshotAfterBlock_replays [OF l(1) n assms(2, 4, 3)] s(2) l(2) by (simp add: next_snapshot_def)
qed

lemma Init_exact:
  assumes "in_step X B profile db bs" and "asset_network profile" and "InitWithProfile X B profile db = (r, db')"
  shows "bs \<noteq> [] \<and> db' = db \<or> bs = [] \<and> r \<noteq> None \<and> db' = db
    \<or> bs = [] \<and> r = None \<and> in_step X B profile db' [GenesisBlockForNetwork profile]"
proof (cases "bs = []")
  case True
  let ?g = "GenesisBlockForNetwork profile"
  have h: "holds_chain B db []" using assms(1) True by (simp add: in_step_def)
  have has: "store_HasChain B db = Inr False" using read_chain(3) [OF h] by simp
  show ?thesis
  proof (cases "SnapshotForBlocks X [?g] (nc_Consensus profile) profile")
    case (Inl e)
    then show ?thesis using has assms(3) True by (auto simp: InitWithProfile_def Let_def)
  next
    case (Inr s)
    then have run: "store_SaveBlockAndState B ?g s db = (r, db')"
      using has assms(3) by (simp add: InitWithProfile_def Let_def)
    show ?thesis
    proof (cases r)
      case None
      with commit_in_step [OF h _ assms(2)] Inr run True show ?thesis by fastforce
    next
      case (Some e)
      then show ?thesis using failed_same(2) [of B ?g s db] run True by auto
    qed
  qed
next
  case False
  then have "store_HasChain B db = Inr True" using read_chain(3) assms(1) by (auto simp: in_step_def)
  then have "db' = db" using assms(3)
    by (auto simp: InitWithProfile_def split: sum.splits option.splits if_splits)
  with False show ?thesis by auto
qed

lemma Init_in_step:
  assumes "in_step X B profile db bs" and "asset_network profile"
  shows "\<exists>cs. in_step X B profile (snd (InitWithProfile X B profile db)) cs"
  using Init_exact [OF assms, of "fst (InitWithProfile X B profile db)" "snd (InitWithProfile X B profile db)"] assms(1)
  by auto

lemma reopen_in_step:
  assumes "in_step X B profile db bs" shows "in_step X B profile (snd (store_Init B db)) bs"
proof -
  have "holds_chain B (snd (store_Init B db)) bs" using Init_chain assms by (simp add: in_step_def)
  moreover have "holds_state B (snd (store_Init B db)) s" if hs: "holds_state B db s" for s
  proof -
    obtain meta accounts stakes owner coinbases assets balances where
      "db_state db = Some \<lparr>st_meta = Some meta, st_accounts = Some accounts, st_stakes = Some stakes,
       st_stakesByOwner = Some owner, st_coinbases = Some coinbases, st_assets = Some assets, st_balances = Some balances\<rparr>"
      using hs unfolding holds_state_def by blast
    then have "db_state (snd (store_Init B db)) = db_state db"
      by (simp add: store_Init_def db_Update_def created_def split: option.splits)
    with hs show ?thesis by (simp add: holds_state_def)
  qed
  ultimately show ?thesis using assms by (auto simp: in_step_def)
qed

lemma Rebuild_in_step:
  assumes "in_step X B profile db bs" and "asset_network profile"
  shows "in_step X B profile (snd (RebuildStateWithProfile X B profile db)) bs"
proof (cases "bs = [] \<or> fst (RebuildStateWithProfile X B profile db) \<noteq> None")
  case True
  have "fst (store_SaveState B s db) \<noteq> None \<Longrightarrow> snd (store_SaveState B s db) = db" for s
    by (auto simp: store_SaveState_def split: option.splits)
  then have "snd (RebuildStateWithProfile X B profile db) = db"
    using True read_chain(1) [of db bs] assms(1) by (auto simp: RebuildStateWithProfile_def in_step_def split: sum.splits)
  with assms(1) show ?thesis by simp
next
  case False
  have h: "holds_chain B db bs" using assms(1) by (simp add: in_step_def)
  then have n: "numbered bs" by (simp add: holds_chain_def)
  obtain s where s: "SnapshotForBlocks X bs (nc_Consensus profile) profile = Inr s"
    using assms(1) False by (auto simp: in_step_def)
  have run: "RebuildStateWithProfile X B profile db = store_SaveState B s db"
    using False s read_chain(1) [OF h] by (simp add: RebuildStateWithProfile_def)
  then have "\<exists>db1. saveStateTx B s db1 = Inr (snd (store_SaveState B s db))"
    using False by (cases "store_SaveState B s db") (auto simp: store_SaveState_def split: option.splits)
  then have "holds_state B (snd (store_SaveState B s db)) s"
    using saveStateTx_holds(1) snapshot_facts(2) [OF s n _ assms(2)] False by (auto simp: storable_def)
  with SaveState_chain [of s db bs] h run s show ?thesis by (auto simp: in_step_def)
qed

lemma kept_below: "numbered bs \<Longrightarrow> filter (\<lambda>b. b_Height b < h) bs = take (unat h) bs"
proof (induction bs rule: rev_induct)
  case (snoc b bs)
  then have "unat (b_Height b) = length bs" "numbered bs" by (simp_all add: numbered_snoc)
  with snoc.IH show ?case by (auto simp: word_less_nat_alt)
qed simp

lemma Replace_exact:
  assumes "in_step X B profile db bs" and "asset_network profile" and "length cs < 2 ^ 64"
    and "ReplaceFromHeightWithNetwork X B h cs profile db = (r, db')"
  shows "if r = None then in_step X B profile db' (take (unat h) bs @ cs) else db' = db"
proof -
  have hc: "holds_chain B db bs" using assms(1) by (simp add: in_step_def)
  then have n: "numbered bs" by (simp add: holds_chain_def)
  let ?full = "take (unat h) bs @ cs"
  show ?thesis
  proof (cases "SnapshotForBlocks X ?full (nc_Consensus profile) profile")
    case (Inl e)
    then show ?thesis using read_chain(1) [OF hc] assms(4)
      by (auto simp: ReplaceFromHeightWithNetwork_def kept_below [OF n] Let_def)
  next
    case (Inr s)
    then have run: "store_ReplaceFromHeightAndState B h cs s db = (r, db')"
      using read_chain(1) [OF hc] assms(4) by (simp add: ReplaceFromHeightWithNetwork_def kept_below [OF n] Let_def)
    show ?thesis
    proof (cases r)
      case (Some e)
      then show ?thesis using failed_same(4) [of B h cs s db] run by auto
    next
      case None
      have tx: "replaceFromHeightTx B h cs (Some s) db = Inr db'"
        using None run
        by (auto simp: store_ReplaceFromHeightAndState_def store_replaceFromHeight_def split: option.splits)
      note R = replaceFromHeightTx_chain [OF hc tx assms(3)]
      have n': "numbered ?full" using R(1) by (simp add: holds_chain_def)
      obtain db1 where "saveStateTx B s db1 = Inr db'"
        using tx by (auto simp: replaceFromHeightTx_def Let_def split: if_splits option.splits)
      then have "holds_state B db' s"
        using saveStateTx_holds(1) snapshot_facts(2) [OF Inr n' _ assms(2)] R(2) by (auto simp: storable_def)
      with R(1) Inr None show ?thesis by (auto simp: in_step_def)
    qed
  qed
qed

lemma Replace_in_step:
  assumes "in_step X B profile db bs" and "asset_network profile" and "length cs < 2 ^ 64"
  shows "\<exists>ds. in_step X B profile (snd (ReplaceFromHeightWithNetwork X B h cs profile db)) ds"
  using Replace_exact [OF assms, of h "fst (ReplaceFromHeightWithNetwork X B h cs profile db)"
      "snd (ReplaceFromHeightWithNetwork X B h cs profile db)"] assms(1)
  by (auto split: if_splits)

lemma AddBlock_replays:
  assumes "in_step X B profile db bs" and "asset_network profile" and "bs \<noteq> []"
  shows "AddBlockWithNetwork X B now b profile db
    = (case ValidateNextBlockWithNetwork X now b (last bs) bs (nc_Difficulty profile) (nc_Consensus profile) profile of
         Some e \<Rightarrow> (Some e, db)
       | None \<Rightarrow>
       (case SnapshotForBlocks X (bs @ [b]) (nc_Consensus profile) profile of
          Inl e \<Rightarrow> (Some e, db)
        | Inr s \<Rightarrow> store_SaveBlockAndState B b s db))"
proof -
  have hc: "holds_chain B db bs" using assms(1) by (simp add: in_step_def)
  then have n: "numbered bs" by (simp add: holds_chain_def)
  have "unat (b_Height b) = length bs"
    if "ValidateNextBlockWithNetwork X now b (last bs) bs (nc_Difficulty profile) (nc_Consensus profile) profile = None"
    using that numbered_last [OF n assms(3)] assms(3)
    by (cases bs) (auto simp: ValidateNextBlockWithNetwork_def Add_Inr_iff split: sum.splits if_splits)
  with next_snapshot_replays [OF assms(1, 3, 2)] show ?thesis
    using read_chain(1) [OF hc] assms(3) by (auto simp: AddBlockWithNetwork_def split: option.splits sum.splits)
qed

lemma AddBlock_exact:
  assumes "in_step X B profile db bs" and "asset_network profile" and "AddBlockWithNetwork X B now b profile db = (r, db')"
  shows "if r = None then bs \<noteq> [] \<and> in_step X B profile db' (bs @ [b]) else db' = db"
proof (cases "bs = []")
  case True
  then show ?thesis using assms(1, 3) read_chain(1) [of db bs] by (auto simp: AddBlockWithNetwork_def in_step_def)
next
  case False
  have hc: "holds_chain B db bs" using assms(1) by (simp add: in_step_def)
  note run = assms(3) [unfolded AddBlock_replays [OF assms(1, 2) False]]
  show ?thesis
  proof (cases "ValidateNextBlockWithNetwork X now b (last bs) bs (nc_Difficulty profile) (nc_Consensus profile) profile")
    case (Some e)
    with run show ?thesis by auto
  next
    case valid: None
    show ?thesis
    proof (cases "SnapshotForBlocks X (bs @ [b]) (nc_Consensus profile) profile")
      case (Inl e)
      with run valid show ?thesis by auto
    next
      case (Inr s)
      with run valid have save: "store_SaveBlockAndState B b s db = (r, db')" by simp
      show ?thesis
      proof (cases r)
        case None
        with commit_in_step [OF hc Inr assms(2)] save False show ?thesis by auto
      next
        case (Some e)
        then show ?thesis using failed_same(2) [of B b s db] save by auto
      qed
    qed
  qed
qed

lemma AddBlock_in_step:
  assumes "in_step X B profile db bs" and "asset_network profile"
  shows "\<exists>cs. in_step X B profile (snd (AddBlockWithNetwork X B now b profile db)) cs"
  using AddBlock_exact [OF assms, of now b "fst (AddBlockWithNetwork X B now b profile db)"
      "snd (AddBlockWithNetwork X B now b profile db)"] assms(1)
  by (auto split: if_splits)

end

section \<open>Main results\<close>

text \<open>The calls that the blockchain serves, from a new database on; a call that fails is one of them.\<close>

inductive bc_reach :: "ext \<Rightarrow> 'b bolt \<Rightarrow> network_config \<Rightarrow> 'b bolt_db \<Rightarrow> bool" for X B profile where
  fresh: "db_meta db = None \<Longrightarrow> db_blocks db = None \<Longrightarrow> store_Init B db = (None, db') \<Longrightarrow> bc_reach X B profile db'"
| reopen: "bc_reach X B profile db \<Longrightarrow> bc_reach X B profile (snd (store_Init B db))"
| init: "bc_reach X B profile db \<Longrightarrow> bc_reach X B profile (snd (InitWithProfile X B profile db))"
| add: "bc_reach X B profile db \<Longrightarrow> bc_reach X B profile (snd (AddBlockWithNetwork X B now b profile db))"
| replace: "bc_reach X B profile db \<Longrightarrow> length cs < 2 ^ 64 \<Longrightarrow>
    bc_reach X B profile (snd (ReplaceFromHeightWithNetwork X B h cs profile db))"
| rebuild: "bc_reach X B profile db \<Longrightarrow> bc_reach X B profile (snd (RebuildStateWithProfile X B profile db))"

lemma reach_in_step:
  assumes "bolt_buckets B" and "bc_reach X B profile db" and net: "asset_network profile"
  shows "\<exists>bs. in_step X B profile db bs"
  using assms(2)
proof (induction rule: bc_reach.induct)
  case (fresh db db')
  then show ?case using bolt_buckets.Init_new [OF assms(1)] by (metis in_step_def)
next
  case (reopen db)
  then show ?case using bolt_buckets.reopen_in_step [OF assms(1)] by blast
next
  case (init db)
  then show ?case using bolt_buckets.Init_in_step [OF assms(1) _ net] by blast
next
  case (add db now b)
  then show ?case using bolt_buckets.AddBlock_in_step [OF assms(1) _ net] by blast
next
  case (replace db cs h)
  then show ?case using bolt_buckets.Replace_in_step [OF assms(1) _ net] by blast
next
  case (rebuild db)
  then show ?case using bolt_buckets.Rebuild_in_step [OF assms(1) _ net] by blast
qed

text \<open>
  C1. The stored state is the state of the stored chain: after any sequence of restarts, initialisations, added
  blocks, replaced branches and rebuilds, failed ones included, the blocks read back are numbered from
  zero, and when there is one, the state read back is exactly the snapshot of a replay of all of them
  from nothing, and the node's own check of the state against the chain reports it valid.
\<close>

theorem stored_state_current:
  assumes "bolt_buckets B" and "bc_reach X B profile db" and "asset_network profile"
  shows "\<exists>bs. store_Blocks B db = Inr bs \<and> map (unat \<circ> b_Height) bs = [0..<length bs]
    \<and> (bs \<noteq> [] \<longrightarrow> (\<exists>s. SnapshotForBlocks X bs (nc_Consensus profile) profile = Inr s \<and> store_LoadState B db = Inr s
         \<and> sn_Height s = b_Height (last bs) \<and> fst (ValidateStateWithNetwork X B profile db) = None))"
proof -
  obtain bs where bs: "in_step X B profile db bs" using reach_in_step [OF assms] by blast
  then have hc: "holds_chain B db bs" by (simp add: in_step_def)
  note read = bolt_buckets.read_chain [OF assms(1) hc]
  have "\<exists>s. SnapshotForBlocks X bs (nc_Consensus profile) profile = Inr s \<and> store_LoadState B db = Inr s
         \<and> sn_Height s = b_Height (last bs) \<and> fst (ValidateStateWithNetwork X B profile db) = None" if ne: "bs \<noteq> []"
  proof -
    obtain s where s: "SnapshotForBlocks X bs (nc_Consensus profile) profile = Inr s" "holds_state B db s"
      "store_LoadState B db = Inr s" "snapshot_proper s" "storable s" "sn_Height s = b_Height (last bs)"
      using bolt_buckets.in_step_load [OF assms(1) bs ne assms(3)] by blast
    have "store_ValidateStateIndexes B db = None" using bolt_buckets.holds_indexes [OF assms(1) s(2, 4, 5)] .
    with s read that assms(3) show ?thesis
      by (simp add: ValidateStateWithNetwork_def or_localnet_def asset_network_def Equivalent_def Let_def)
  qed
  with read(1) hc show ?thesis by (auto simp: holds_chain_def numbered_def)
qed

lemma snapshot_root:
  assumes "ledger_ok l" shows "sn_StateRoot (SnapshotForLedger l) = fst (RootForLedger l)"
proof -
  note F = SnapshotForLedger_fields(9) [OF assms]
  show ?thesis
    using F ledger_okD(1) [OF assms]
    by (auto simp: RootForLedger_def StateAssetDefinitions_def StateAssetBalances_def AssetModelEnabled_def split: prod.splits dest: leD)
qed

lemma valid_block_committed:
  assumes "bolt_buckets B" and "bc_reach X B profile db" and "asset_network profile"
    and "nc_BlockVersion profile = BlockVersionCanonical" and "store_Blocks B db = Inr bs" and "bs \<noteq> []" and "b_Hash (last bs) \<noteq> []"
    and "ValidateNextBlockWithNetwork X now b (last bs) bs (nc_Difficulty profile) (nc_Consensus profile) profile = None"
  shows "\<exists>s. SnapshotForBlocks X (bs @ [b]) (nc_Consensus profile) profile = Inr s \<and> sn_StateRoot s = b_StateRoot b
    \<and> AddBlockWithNetwork X B now b profile db = store_SaveBlockAndState B b s db
    \<and> validateBlockStatePair b s = None \<and> validateCanonicalCommitPreconditionsTx B b db = None"
proof -
  obtain cs where cs: "in_step X B profile db cs" using reach_in_step [OF assms(1-3)] by blast
  then have hc: "holds_chain B db cs" by (simp add: in_step_def)
  then have "cs = bs" using bolt_buckets.read_chain(1) [OF assms(1)] assms(5) by fastforce
  then have step: "in_step X B profile db bs" and hc: "holds_chain B db bs" and n: "numbered bs"
    using cs hc by (simp_all add: holds_chain_def)
  obtain l where l: "ReplayMatureWithProfile X bs (nc_Consensus profile) profile = Inr l"
    using step assms(6) by (auto simp: in_step_def SnapshotForBlocks_def split: sum.splits)
  have ok: "ledger_ok l" using prior_replay [OF l] assms(3) by (simp add: asset_network_def)
  have v: "validateBlock X now b bs (nc_Difficulty profile) (nc_Consensus profile) profile = None"
    and h: "Add (b_Height (last bs)) 1 = Inr (b_Height b)" and prev: "b_PreviousHash b = b_Hash (last bs)"
    using assms(8) by (auto simp: ValidateNextBlockWithNetwork_def split: sum.splits if_splits)
  obtain l' where l': "mature_ApplyBlock X b l = (None, l')" "fst (RootForLedger l') = b_StateRoot b"
    using validated_block_applies [OF v assms(4) ok l] by blast
  let ?s = "SnapshotForLedger l'"
  have s: "SnapshotForBlocks X (bs @ [b]) (nc_Consensus profile) profile = Inr ?s"
    using replay_snoc [OF l assms(3)] l'(1) by (simp add: SnapshotForBlocks_def)
  have ok': "ledger_ok l'" using mature_ApplyBlock_kept [OF ok, of X b] l'(1) by simp
  have high: "unat (b_Height b) = length bs"
    using h numbered_last [OF n assms(6)] assms(6) by (cases bs) (auto simp: Add_Inr_iff)
  then have n': "numbered (bs @ [b])" using n by (simp add: numbered_snoc)
  note F = snapshot_facts [OF s n' _ assms(3)]
  have "snapshot_Validate ?s = None" "sn_StateRoot ?s \<noteq> []"
    using F(1) by (simp_all add: snapshot_Validate_proper snapshot_properD(6))
  then have "validateBlockStatePair b ?s = None"
    using F(4) snapshot_root [OF ok'] l'(2) by (simp add: validateBlockStatePair_def)
  moreover have "validateCanonicalCommitPreconditionsTx B b db = None"
    using bolt_buckets.commit_check [OF assms(1) hc, of b] high prev assms(7) by simp
  moreover have "AddBlockWithNetwork X B now b profile db = store_SaveBlockAndState B b ?s db"
    using bolt_buckets.AddBlock_replays [OF assms(1) step assms(3, 6), of now b] assms(8) s by simp
  ultimately show ?thesis using s snapshot_root [OF ok'] l'(2) by auto
qed


end
