(* ===== verification/Mining.thy ===== *)
theory Mining
  imports Chain_State
begin

text \<open>
  What the miner builds against what validation demands. The transactions that the loop of
  \<open>MineBlockWithContextAndNetwork\<close> takes, the coinbase and the state root of the template pass every
  check of \<open>validateBlock\<close> but those on the header; the count of transactions is the exception, since
  the loop stops at the limit without counting the coinbase.
\<close>

section \<open>The transactions taken\<close>

lemma ledger_profiles [simp]:
  "ml_profile (snd (spendNative a n l)) = ml_profile l"
  "ml_profile (snd (receiveNative a n l)) = ml_profile l"
  "ml_profile (snd (on_assets f l)) = ml_profile l"
  "ml_profile (snd (on_stakes g l)) = ml_profile l"
  "ml_profile (set_nonce a k l) = ml_profile l"
  "ml_profile (fst (mature_Clone l)) = ml_profile l" "ml_profile (snd (mature_Clone l)) = ml_profile l"
  using validateNativeSpend_state [of a n l]
  by (auto simp: spendNative_def receiveNative_def on_assets_def on_stakes_def set_nonce_def mature_Clone_def Let_def
      split: prod.splits option.splits sum.splits)

lemma chargeNativeFee_profile [simp]: "ml_profile (snd (chargeNativeFee a n l)) = ml_profile l"
proof -
  obtain r1 l1 where l1: "spendNative a n l = (r1, l1)" by fastforce
  then have p1: "ml_profile l1 = ml_profile l" using ledger_profiles(1) [of a n l] by simp
  obtain r2 as where as: "Credit FeeCollectorAddress NativeAssetID n (ml_assets l1) = (r2, as)" by fastforce
  obtain r3 l3 where l3: "receiveNative a n (l1\<lparr>ml_assets := as\<rparr>) = (r3, l3)" by fastforce
  then have p3: "ml_profile l3 = ml_profile l" using ledger_profiles(2) [of a n "l1\<lparr>ml_assets := as\<rparr>"] p1 by simp
  show ?thesis
    by (cases r1; cases r2; cases r3) (simp_all add: chargeNativeFee_def l1 as l3 p1 p3)
qed

lemma and_then_profile:
  assumes "\<And>l. ml_profile (snd (f l)) = ml_profile l" and "\<And>l. ml_profile (snd (g l)) = ml_profile l"
  shows "ml_profile (snd (and_then f g l)) = ml_profile l"
proof -
  obtain r l1 where l1: "f l = (r, l1)" by fastforce
  then have "ml_profile l1 = ml_profile l" using assms(1) [of l] by simp
  with l1 assms(2) [of l1] show ?thesis by (cases r) (simp_all add: and_then_def)
qed

lemma v3_effect_profile [simp]: "ml_profile (snd (v3_effect tx l)) = ml_profile l"
  by (simp add: v3_effect_def and_then_profile)

lemma applyV3_profile: "ml_profile (snd (applyAssetTransactionV3 tx h l)) = ml_profile l"
proof -
  obtain b l0 where c: "mature_Clone l = (b, l0)" by fastforce
  then have p: "ml_profile b = ml_profile l" "ml_profile l0 = ml_profile l"
    using ledger_profiles(6, 7) [of l] by simp_all
  obtain r l1 where e: "v3_effect tx l0 = (r, l1)" by fastforce
  then have "ml_profile l1 = ml_profile l" using v3_effect_profile [of tx l0] p by simp
  with c e p show ?thesis by (cases r) (simp_all add: applyAssetTransactionV3_def)
qed

lemma legacy_transfer_profile: "ml_profile (snd (legacy_transfer tx l)) = ml_profile l"
  by (auto simp: legacy_transfer_def Let_def on_assets_def split: sum.splits prod.splits option.splits)

lemma ApplyTransaction_profile: "ml_profile (snd (ApplyTransactionAtHeight X tx h l)) = ml_profile l"
proof -
  obtain r l1 where v: "mature_ValidateTransaction X tx l = (r, l1)" by fastforce
  then have p: "ml_profile l1 = ml_profile l" using validate_state by fastforce
  obtain r2 st2 where a: "ApplyLock tx h (ml_stakes l1) = (r2, st2)" by fastforce
  obtain r3 st3 where b: "ApplyUnlock tx h (ml_stakes l1) = (r3, st3)" by fastforce
  show ?thesis
    using p applyV3_profile [of tx h l1] legacy_transfer_profile [of tx l1]
    by (cases r; cases r2; cases r3) (simp_all add: ApplyTransactionAtHeight_def v on_stakes_def a b)
qed

lemma applied_checks:
  assumes "ApplyTransactionAtHeight X tx h l = (None, l')" and "\<not> tx_Coinbase tx"
  shows "ValidateTransactionVersion (tx_ProtocolVersion tx) (nc_TxVersion (ml_profile l)) = None"
    and "plain_check tx (ml_profile l) = None"
proof -
  obtain l1 where v: "mature_ValidateTransaction X tx l = (None, l1)"
    using assms(1) by (auto simp: ApplyTransactionAtHeight_def split: prod.splits option.splits)
  then show version: "ValidateTransactionVersion (tx_ProtocolVersion tx) (nc_TxVersion (ml_profile l)) = None"
    by (auto simp: mature_ValidateTransaction_def split: option.splits)
  show "plain_check tx (ml_profile l) = None"
  proof (cases "tx_ProtocolVersion tx = TxVersionAsset")
    case True
    then have "v3_shape X tx l = None"
      using v assms(2) by (auto simp: mature_ValidateTransaction_def validateAssetTransactionV3_def split: option.splits)
    then have "fees_Validate tx (ml_profile l) = None" and "envelope_type_check tx = None"
      by (auto simp: v3_shape_def validateFeePolicy_def ValidateAssetEnvelope_def split: option.splits if_splits)
    then show ?thesis
      by (auto simp: plain_check_def envelope_type_check_def TxTypeTransfer_def TxTypeStakeLock_def TxTypeAssetCreate_def
          TxTypeAssetMint_def TxTypeAssetBurn_def split: if_splits)
  next
    case False
    have "tx_ProtocolVersion tx \<le> TxVersionAsset"
      using version by (auto simp: ValidateTransactionVersion_def Let_def MaxSupportedTxVersion_def TxVersionAsset_def
          tx_ProtocolVersion_def not_less split: if_splits)
    with False have "tx_ProtocolVersion tx < TxVersionAsset" by simp
    then have "fees_Validate tx (ml_profile l) = None" by (simp add: fees_Validate_def)
    moreover have "mature_type_check tx l = None" using validate_legacy(1) [OF v assms(2) False] .
    ultimately show ?thesis
      by (auto simp: plain_check_def mature_type_check_def TxTypeTransfer_def TxTypeStakeLock_def split: if_splits)
  qed
qed

text \<open>The checks of the validator on what the loop took, with the same sum of fees.\<close>

lemma take_valid_checks:
  assumes "take_valid X profile h l taken fees txs = Inr (taken', fees')" and "ml_profile l = profile"
    and "\<forall>tx \<in> set txs. \<not> tx_Coinbase tx"
  shows "\<exists>new. taken' = taken @ new \<and> set new \<subseteq> set txs \<and> (\<forall>i c. tx_checks profile i c fees new = Inr (c, fees'))"
  using assms
proof (induction txs arbitrary: l taken fees)
  case (Cons tx txs)
  obtain r l' where a: "ApplyTransactionAtHeight X tx h l = (r, l')" by fastforce
  have p: "ml_profile l' = profile" using ApplyTransaction_profile [of X tx h l] a Cons.prems(2) by simp
  show ?case
  proof (cases "ValidateTransactionSize tx (nc_Consensus profile) \<noteq> None \<or> r \<noteq> None")
    case True
    then obtain l0 where "take_valid X profile h l0 taken fees txs = Inr (taken', fees')" "ml_profile l0 = profile"
      using Cons.prems(1, 2) a p by (cases "ValidateTransactionSize tx (nc_Consensus profile)") auto
    from Cons.IH [OF this] Cons.prems(3) show ?thesis by auto
  next
    case False
    note checks = applied_checks [of X tx h l l']
    have ok: "ValidateTransactionVersion (tx_ProtocolVersion tx) (nc_TxVersion profile) = None" "plain_check tx profile = None"
      using checks a False Cons.prems(2, 3) by auto
    define counted where "counted \<longleftrightarrow> nc_TxVersion profile \<ge> TxVersionAsset \<or> TxType tx = TxTypeTransfer"
    obtain f where f: "if counted then Add fees (tx_Fee tx) = Inr f else f = fees"
      and rest: "taken' = taken @ [tx] \<and> fees' = f \<or> take_valid X profile h l' (taken @ [tx]) f txs = Inr (taken', fees')"
      using Cons.prems(1) a False unfolding counted_def
      by (auto simp: Let_def on_ok_def split: if_splits sum.splits)
    have step: "tx_checks profile i c fees (tx # new) = tx_checks profile (i + 1) c f new" for i c new
      using ok f Cons.prems(3) by (auto simp: counted_def)
    from rest show ?thesis
    proof
      assume "taken' = taken @ [tx] \<and> fees' = f"
      then show ?thesis using step by (intro exI [of _ "[tx]"]) auto
    next
      assume "take_valid X profile h l' (taken @ [tx]) f txs = Inr (taken', fees')"
      from Cons.IH [OF this p] Cons.prems(3) obtain new where new: "taken' = (taken @ [tx]) @ new" "set new \<subseteq> set txs"
        "\<forall>i c. tx_checks profile i c f new = Inr (c, fees')" by auto
      with step show ?thesis by (intro exI [of _ "tx # new"]) auto
    qed
  qed
qed simp

lemma take_valid_count:
  assumes "take_valid X profile h l taken fees txs = Inr (taken', fees')" and "cp_MaxTxCount (nc_Consensus profile) > 0"
    and "length taken < unat (cp_MaxTxCount (nc_Consensus profile))"
  shows "length taken' \<le> unat (cp_MaxTxCount (nc_Consensus profile))"
  using assms
proof (induction txs arbitrary: l taken fees)
  case (Cons tx txs)
  let ?m = "cp_MaxTxCount (nc_Consensus profile)"
  have "Suc (length taken) < 18446744073709551616" by (rule le_less_trans [OF Suc_leI [OF Cons.prems(3)] unat_u64_lt])
  then have small: "unat (of_nat (Suc (length taken)) :: u64) = Suc (length taken)" by (simp only: unat_of_nat) simp
  consider l' where "take_valid X profile h l' taken fees txs = Inr (taken', fees')"
    | l' f where "take_valid X profile h l' (taken @ [tx]) f txs = Inr (taken', fees')" "\<not> of_nat (Suc (length taken)) \<ge> ?m"
    | "taken' = taken @ [tx]"
    using Cons.prems(1, 2)
    by (auto simp: Let_def on_ok_def split: if_splits prod.splits option.splits sum.splits)
  then show ?case
  proof cases
    case (2 l' f)
    then have "Suc (length taken) < unat ?m" using small by (simp only: word_le_nat_alt not_le)
    with Cons.IH [OF 2(1) Cons.prems(2)] show ?thesis by simp
  qed (use Cons.IH Cons.prems in auto)
qed simp

section \<open>The template\<close>

lemma template_coinbase:
  assumes "nc_TxVersion profile = TxVersionAsset"
  shows "\<exists>coinbase. RefreshIDForChainID (NewCoinbaseTransactionWithVersion miner reward h (nc_TxVersion profile)) (nc_ChainID profile) = (None, coinbase)
    \<and> tx_Coinbase coinbase \<and> tx_Amount coinbase = reward \<and> tx_ProtocolVersion coinbase = TxVersionAsset
    \<and> coinbase_check 0 coinbase profile = None"
proof -
  let ?c = "NewCoinbaseTransactionWithVersion miner reward h (nc_TxVersion profile)"
  have f: "tx_Coinbase ?c" "tx_Amount ?c = reward" "tx_Version ?c = TxVersionAsset" "tx_From ?c = CoinbaseSender"
    by (simp_all add: NewCoinbaseTransactionWithVersion_def RefreshID_def assms)
  have v: "tx_ProtocolVersion ?c = TxVersionAsset" using f(3) by (simp add: tx_ProtocolVersion_def TxVersionAsset_def)
  obtain i where i: "CalculateIDForChainID ?c (nc_ChainID profile) = Inr i"
    using v by (simp add: CalculateIDForChainID_def SigningBytesWithChainID_def TxVersionAsset_def TxVersionLegacy_def
        TxVersionCanonical_def CanonicalSigningBytesWithChainID_def Let_def)
  have "CalculateIDForChainID (?c\<lparr>tx_ID := i\<rparr>) (nc_ChainID profile) = Inr i"
    using i by (simp add: CalculateIDForChainID_def signing_ignores_signatures)
  then show ?thesis
    using i f v by (simp add: RefreshIDForChainID_def coinbase_check_def tx_ProtocolVersion_def TxVersionAsset_def)
qed

lemma ApplyBlock_fields:
  assumes "b_Height b' = b_Height b" and "b_Transactions b' = b_Transactions b" and "b_MinerAddress b' = b_MinerAddress b"
  shows "mature_ApplyBlock X b' l = mature_ApplyBlock X b l"
  unfolding mature_ApplyBlock_def applyBlock_def assms ..

lemma block_template_fields:
  assumes "block_template X now miner profile bs l h txs fees = Inr t" and "nc_TxVersion profile = TxVersionAsset"
    and "nc_BlockVersion profile = BlockVersionCanonical"
  shows "\<exists>coinbase. b_Transactions t = coinbase # txs \<and> tx_Coinbase coinbase \<and> tx_Amount coinbase = ep_BlockSubsidy (nc_Economic profile)
      \<and> tx_ProtocolVersion coinbase = TxVersionAsset \<and> coinbase_check 0 coinbase profile = None"
    and "b_Height t = h" and "b_PreviousHash t = b_Hash (last bs)" and "b_ProtocolVersion t = BlockVersionCanonical"
    and "\<exists>l'. mature_ApplyBlock X t (fst (mature_Clone l)) = (None, l') \<and> b_StateRoot t = fst (RootForLedger l')"
proof -
  obtain coinbase where c: "RefreshIDForChainID (NewCoinbaseTransactionWithVersion miner (ep_BlockSubsidy (nc_Economic profile)) h
      (nc_TxVersion profile)) (nc_ChainID profile) = (None, coinbase)" "tx_Coinbase coinbase"
      "tx_Amount coinbase = ep_BlockSubsidy (nc_Economic profile)" "tx_ProtocolVersion coinbase = TxVersionAsset"
      "coinbase_check 0 coinbase profile = None"
    using template_coinbase [OF assms(2)] by metis
  define b where "b = NewBlockWithVersion now h (b_Hash (last bs)) miner
    (CalculateNextDifficultyWithParams bs (nc_Difficulty profile)) (coinbase # txs) (nc_BlockVersion profile)"
  have v: "tx_ProtocolVersion (NewCoinbaseTransactionWithVersion miner (ep_BlockSubsidy (nc_Economic profile)) h (nc_TxVersion profile))
      \<ge> TxVersionCanonical"
    by (simp add: NewCoinbaseTransactionWithVersion_def RefreshID_def assms(2) tx_ProtocolVersion_def TxVersionAsset_def TxVersionCanonical_def)
  have bv: "b_ProtocolVersion b = BlockVersionCanonical"
    by (simp add: b_def NewBlockWithVersion_def assms(3) b_ProtocolVersion_def BlockVersionCanonical_def BlockVersionLegacy_def)
  obtain l' where a: "mature_ApplyBlock X b (fst (mature_Clone l)) = (None, l')" and t: "t = b\<lparr>b_StateRoot := fst (RootForLedger l')\<rparr>"
    using assms(1) c(1) v bv
    by (auto simp: block_template_def block_reward_def assms(2) on_ok_def Let_def b_def [symmetric] split: prod.splits option.splits)
  have "mature_ApplyBlock X t (fst (mature_Clone l)) = (None, l')"
    using a ApplyBlock_fields [of t b X] by (simp add: t)
  then show "\<exists>l'. mature_ApplyBlock X t (fst (mature_Clone l)) = (None, l') \<and> b_StateRoot t = fst (RootForLedger l')"
    by (simp add: t)
  show "b_ProtocolVersion t = BlockVersionCanonical" using bv by (auto simp: t b_ProtocolVersion_def split: if_splits)
  show "b_Height t = h" "b_PreviousHash t = b_Hash (last bs)" by (simp_all add: t b_def NewBlockWithVersion_def Let_def)
  show "\<exists>coinbase. b_Transactions t = coinbase # txs \<and> tx_Coinbase coinbase \<and> tx_Amount coinbase = ep_BlockSubsidy (nc_Economic profile)
      \<and> tx_ProtocolVersion coinbase = TxVersionAsset \<and> coinbase_check 0 coinbase profile = None"
    using c(2-5) by (simp add: t b_def NewBlockWithVersion_def Let_def)
qed

section \<open>What validation says of a mined block\<close>

lemma exec_loop_block:
  "block_loop X h n txs l = (None, l') \<Longrightarrow> exec_loop X h txs l = None"
  by (induction txs arbitrary: n l) (auto split: if_splits prod.splits option.splits)

lemma replay_matured:
  assumes "ReplayMatureWithProfile X bs params profile = Inr l" and "bs \<noteq> []"
  shows "matureCoinbases (b_Height (last bs)) (refreshed l) = refreshed l"
proof -
  have "matureCoinbases (b_Height (last bs)) l = l"
    using assms by (auto simp: ReplayMatureWithProfile_def matureCoinbases_idem split: prod.splits option.splits)
  then show ?thesis by (cases l) (auto simp: matureCoinbases_def refreshed_def split: prod.splits)
qed

lemma ledger_root_nonempty: "fst (RootForLedger l) \<noteq> []"
proof -
  have "length (fst (RootForLedger l)) = 64"
    by (simp add: RootForLedger_def RootForCollectionsWithAssets_def RootForCollections_def StableDigestInputs_def
        split: prod.splits)
  then show ?thesis by auto
qed

lemma single_coinbase_reward:
  assumes "b_Transactions b = coinbase # txs" and "tx_Amount coinbase = ep_BlockSubsidy (nc_Economic profile)"
    and "\<forall>tx \<in> set txs. \<not> tx_Coinbase tx" and "nc_TxVersion profile \<ge> TxVersionAsset"
  shows "reward_checks b 1 fees profile = None"
  using assms by (auto simp: reward_checks_def list_ex_iff)


lemma template_count:
  assumes "block_template X now miner profile bs l h txs fees = Inr t"
  shows "length (b_Transactions t) = Suc (length txs)"
proof -
  let ?block = "\<lambda>coinbase. NewBlockWithVersion now h (b_Hash (last bs)) miner
    (CalculateNextDifficultyWithParams bs (nc_Difficulty profile)) (coinbase # txs) (nc_BlockVersion profile)"
  obtain coinbase where "(if b_ProtocolVersion (?block coinbase) = BlockVersionCanonical then
      (case mature_ApplyBlock X (?block coinbase) (fst (mature_Clone l)) of
         (Some e, _) \<Rightarrow> Inl e
       | (None, candidate) \<Rightarrow> Inr ((?block coinbase)\<lparr>b_StateRoot := fst (RootForLedger candidate)\<rparr>))
      else Inr (?block coinbase)) = Inr t"
    using assms unfolding block_template_def on_ok_Inr Let_def by blast
  then have "b_Transactions t = b_Transactions (?block coinbase)"
    by (auto split: if_splits prod.splits option.splits)
  then show ?thesis by (simp add: NewBlockWithVersion_def Let_def)
qed

lemma over_count:
  assumes "length (b_Transactions b) = Suc (unat (cp_MaxTxCount (nc_Consensus profile)))"
    and "0 < cp_MaxTxCount (nc_Consensus profile)" and "cp_MaxTxCount (nc_Consensus profile) < max_u64"
  shows "ValidateBlockResourcesWithProfile b profile
    = Some (Err ''block exceeds max transaction count: got %d want <= %d'')"
proof -
  let ?m = "cp_MaxTxCount (nc_Consensus profile)"
  have "Suc (unat ?m) < 18446744073709551616" using assms(3) by (simp add: word_less_nat_alt)
  then have "unat (of_nat (Suc (unat ?m)) :: u64) = Suc (unat ?m)" by (simp only: unat_of_nat) simp
  then have "of_nat (Suc (unat ?m)) > ?m" by (simp only: word_less_nat_alt)
  then show ?thesis
    using assms(1, 2)
    by (auto simp: ValidateBlockResourcesWithProfile_def validateBlockResources_def Let_def simp del: of_nat_Suc)
qed

text \<open>
  C40. One transaction too many: the loop of the miner stops when it has taken as many transactions as a block
  may hold, and the coinbase comes on top. So the loop never takes more than that, and when it takes
  that many, the block is rejected for its count, whatever its nonce, and never validates.
\<close>

theorem full_block_rejected:
  assumes "take_valid X profile h l [] 0 selected = Inr (txs, fees)"
    and "block_template X now miner profile bs l h txs fees = Inr t"
    and "0 < cp_MaxTxCount (nc_Consensus profile)" and "cp_MaxTxCount (nc_Consensus profile) < max_u64"
    and "length txs \<ge> unat (cp_MaxTxCount (nc_Consensus profile))"
  shows "length txs = unat (cp_MaxTxCount (nc_Consensus profile))
    \<and> ValidateBlockResourcesWithProfile (t\<lparr>b_Nonce := n, b_Hash := d\<rparr>) profile
        = Some (Err ''block exceeds max transaction count: got %d want <= %d'')
    \<and> ValidateNextBlockWithNetwork X clock (t\<lparr>b_Nonce := n, b_Hash := d\<rparr>) (last bs) bs
        (nc_Difficulty profile) (nc_Consensus profile) profile \<noteq> None"
proof -
  let ?m = "cp_MaxTxCount (nc_Consensus profile)"
  have "unat ?m > 0" using assms(3) by (simp add: unat_gt_0 word_greater_zero_iff)
  then have len: "length txs = unat ?m" using take_valid_count [OF assms(1, 3)] assms(5) by simp
  have over: "ValidateBlockResourcesWithProfile (t\<lparr>b_Nonce := n, b_Hash := d\<rparr>) profile
      = Some (Err ''block exceeds max transaction count: got %d want <= %d'')"
    by (rule over_count) (use template_count [OF assms(2)] len assms(3, 4) in simp_all)
  then have "header_checks clock (t\<lparr>b_Nonce := n, b_Hash := d\<rparr>) bs (nc_Difficulty profile) profile \<noteq> None"
    by (auto simp: header_checks_def split: option.splits)
  then show ?thesis
    using len over by (auto simp: ValidateNextBlockWithNetwork_def validateBlock_def split: sum.splits option.splits)
qed

end
