(* ===== verification/Blockchain_Scenarios.thy ===== *)
theory Blockchain_Scenarios
  imports Mining Store_Scenarios Scenarios
begin

text \<open>
  Concrete inputs for the properties of the blockchain and the miner: a new database initialised with the
  genesis block of an open network, the empty template on it, and a pool that fills a block of one.
\<close>

section \<open>An initialised chain\<close>

lemma open_asset_network: "asset_network open_net"
  by (simp add: asset_network_def open_net_fields) (simp add: open_net_def Localnet_def)

lemma first_block_applies: "mature_ApplyBlock X first_block fresh_ledger = (None, fresh_ledger)"
proof -
  have "mature_ApplyBlock X first_block fresh_ledger = mature_ApplyBlock X root_block fresh_ledger"
    by (rule ApplyBlock_fields) (simp_all add: first_block_def GenesisBlockForNetwork_def root_block_def zero_block_def Let_def)
  then show ?thesis by (simp add: root_block_applies)
qed

lemma first_replay: "ReplayMatureWithProfile X [first_block] (nc_Consensus open_net) open_net = Inr fresh_ledger"
proof -
  have "matureCoinbases 0 fresh_ledger = fresh_ledger" by (simp add: matureCoinbases_def fresh_fields)
  then show ?thesis
    by (simp add: ReplayMatureWithProfile_def fresh_ledger_def [symmetric] first_block_applies first_block_fields)
qed

lemma first_snapshot: "SnapshotForBlocks X [first_block] (nc_Consensus open_net) open_net = Inr empty_snapshot"
  by (simp add: SnapshotForBlocks_def first_replay empty_snapshot_def)

lemma init_first:
  "\<exists>db. InitWithProfile no_ext map_bolt open_net empty_db = (None, db) \<and> bc_reach no_ext map_bolt open_net db
    \<and> store_Blocks map_bolt db = Inr [first_block]"
proof -
  obtain db where db: "store_SaveBlockAndState map_bolt first_block empty_snapshot empty_db = (None, db)"
    using first_commit first_block_fields by blast
  have run: "InitWithProfile no_ext map_bolt open_net empty_db = (None, db)"
    using map_store.read_chain(3) [OF empty_db_chain] first_snapshot db
    by (simp add: InitWithProfile_def first_block_def [symmetric] Let_def)
  have "bc_reach no_ext map_bolt open_net empty_db" by (rule bc_reach.fresh [OF _ _ empty_db_init]) simp_all
  from bc_reach.init [OF this] run have "bc_reach no_ext map_bolt open_net db" by simp
  moreover have "store_Blocks map_bolt db = Inr [first_block]"
    using map_store.SaveBlockAndState_chain(1) [OF empty_db_chain db] map_store.read_chain(1) by auto
  ultimately show ?thesis using run by blast
qed

theorem stored_state_current_witness:
  "\<exists>db. InitWithProfile no_ext map_bolt open_net empty_db = (None, db) \<and> store_Blocks map_bolt db = Inr [first_block]
    \<and> store_LoadState map_bolt db = Inr empty_snapshot \<and> fst (ValidateStateWithNetwork no_ext map_bolt open_net db) = None"
proof -
  obtain db where db: "InitWithProfile no_ext map_bolt open_net empty_db = (None, db)" "bc_reach no_ext map_bolt open_net db"
    "store_Blocks map_bolt db = Inr [first_block]" using init_first by blast
  from stored_state_current [OF map_store.bolt_buckets_axioms db(2) open_asset_network] db first_snapshot
  show ?thesis by auto
qed

lemma first_hash: "b_Hash first_block \<noteq> []"
proof -
  have "b_Hash first_block = CalculateHash first_block"
    by (simp add: first_block_def GenesisBlockForNetwork_def Let_def CalculateHash_def)
  moreover have "length (CalculateHash b) = 64" for b by (simp add: CalculateHash_def)
  ultimately show ?thesis by (metis list.size(3) zero_neq_numeral)
qed


section \<open>A template\<close>

lemma dev_address_open: "ValidateAddressForNetwork dev_address open_net = None" "TrimSpace dev_address \<noteq> []"
  "dev_address \<noteq> FeeCollectorAddress"
  by code_simp+

lemma below_top: "x \<le> (18446744073709551615 :: u64)"
  using unat_u64_le [of x] by (simp add: word_le_nat_alt)

lemma first_coinbase:
  assumes "tx_Coinbase c" and "tx_To c = dev_address"
  shows "\<exists>l. ApplyCoinbaseAtHeight c 1 fresh_ledger = (None, l) \<and> asset_Balance (ml_assets l) FeeCollectorAddress NativeAssetID = 0"
proof -
  obtain r as where cr: "Credit dev_address NativeAssetID (tx_Amount c) NewAssetState = (r, as)" by fastforce
  have "fmlookup (as_assets NewAssetState) NativeAssetID \<noteq> None" by (simp add: NewAssetState_def)
  then have "r = None" using Credit_cases(4) [OF cr dev_address_open(2)] unat_u64_lt [of "tx_Amount c"] by (simp add: fresh_balance)
  then obtain l where l: "ApplyCoinbaseAtHeight c 1 fresh_ledger = (None, l)"
    using cr assms dev_address_open(1)
    by (simp add: ApplyCoinbaseAtHeight_def fresh_fields AssetModelEnabled_def open_net_fields on_assets_def Let_def
        zero_mature_def Add_def not_less below_top)
  have "FeeCollectorAddress \<notin> owners (ml_assets l)"
    using ApplyCoinbase_parts(1) [OF l fresh_ok] dev_address_open(3) assms(2)
    by (auto simp: gains_def owners_def fresh_fields fresh_balance)
  with l show ?thesis by (auto simp: owners_def)
qed

lemma first_block_of_miner:
  assumes "b_Height b = 1" and "b_Transactions b = [c]" and "tx_Coinbase c" and "tx_To c = dev_address"
  shows "\<exists>l. mature_ApplyBlock X b fresh_ledger = (None, l)"
proof -
  obtain l where l: "ApplyCoinbaseAtHeight c 1 fresh_ledger = (None, l)" "asset_Balance (ml_assets l) FeeCollectorAddress NativeAssetID = 0"
    using first_coinbase [OF assms(3, 4)] by blast
  have "matureCoinbases 0 fresh_ledger = fresh_ledger" by (simp add: matureCoinbases_def fresh_fields)
  then have "\<exists>l'. applyBlock X b fresh_ledger = (None, l')"
    using assms l by (simp add: applyBlock_def settleFees_def)
  then show ?thesis
    using mature_Clone_eq [OF fresh_ok] ledger_okD(1) [OF fresh_ok] by (auto simp: mature_ApplyBlock_def fresh_refreshed)
qed

lemma template_exists: "\<exists>t. block_template no_ext 0 dev_address open_net [first_block] fresh_ledger 1 [] 0 = Inr t"
proof -
  let ?c = "NewCoinbaseTransactionWithVersion dev_address (ep_BlockSubsidy (nc_Economic open_net)) 1 (nc_TxVersion open_net)"
  obtain c where c: "RefreshIDForChainID ?c (nc_ChainID open_net) = (None, c)" "tx_Coinbase c"
    using template_coinbase [OF open_net_fields(2)] by metis
  then have "tx_To c = dev_address"
    by (auto simp: RefreshIDForChainID_def NewCoinbaseTransactionWithVersion_def RefreshID_def split: sum.splits)
  then have "\<exists>l. mature_ApplyBlock no_ext (NewBlockWithVersion 0 1 (b_Hash (last [first_block])) dev_address
      (CalculateNextDifficultyWithParams [first_block] (nc_Difficulty open_net)) (c # []) (nc_BlockVersion open_net)) fresh_ledger = (None, l)"
    using c(2) by (intro first_block_of_miner [where c = c]) (simp_all add: NewBlockWithVersion_def Let_def)
  then obtain l where l: "mature_ApplyBlock no_ext (NewBlockWithVersion 0 1 (b_Hash (last [first_block])) dev_address
      (CalculateNextDifficultyWithParams [first_block] (nc_Difficulty open_net)) (c # []) (nc_BlockVersion open_net)) fresh_ledger = (None, l)"
    by blast
  have "fst (mature_Clone fresh_ledger) = fresh_ledger" using mature_Clone_eq [OF fresh_ok] by (simp add: fresh_refreshed)
  moreover have "TxVersionCanonical \<le> tx_ProtocolVersion ?c"
    by (simp add: NewCoinbaseTransactionWithVersion_def RefreshID_def open_net_fields tx_ProtocolVersion_def TxVersionAsset_def
        TxVersionCanonical_def)
  ultimately show ?thesis using l c(1)
    by (simp add: block_template_def block_reward_def on_ok_def Let_def open_net_fields)
qed


section \<open>A full block\<close>

definition narrow_net :: network_config where
  "narrow_net = Localnet\<lparr>nc_Consensus := (nc_Consensus Localnet)\<lparr>cp_MaxTxCount := 1, cp_MaxTxBytes := max_u64\<rparr>\<rparr>"

lemma narrow_takes: "\<exists>fees. take_valid demo_ext narrow_net 1 funded [] 0 [stake_tx] = Inr ([stake_tx], fees)"
proof -
  obtain l where l: "ApplyTransactionAtHeight demo_ext stake_tx 1 funded = (None, l)"
    using stake_tx_applies by (metis prod.collapse)
  have "ValidateTransactionSize stake_tx (nc_Consensus narrow_net) = None"
    by (simp add: ValidateTransactionSize_def narrow_net_def not_less below_top)
  moreover have "Add 0 (tx_Fee stake_tx) = Inr (tx_Fee stake_tx)" by (simp add: Add_def not_less below_top)
  ultimately show ?thesis using l by (simp add: on_ok_def narrow_net_def)
qed

lemma narrow_template: "\<exists>t. block_template demo_ext 0 dev_address narrow_net [first_block] funded 1 [stake_tx] fees = Inr t"
proof -
  have n: "nc_TxVersion narrow_net = TxVersionAsset" "nc_BlockVersion narrow_net = 1"
    by (simp_all add: narrow_net_def Localnet_def TxVersionAsset_def)
  obtain c where c: "RefreshIDForChainID (NewCoinbaseTransactionWithVersion dev_address (ep_BlockSubsidy (nc_Economic narrow_net)) 1
      (nc_TxVersion narrow_net)) (nc_ChainID narrow_net) = (None, c)"
    using template_coinbase [OF n(1)] by metis
  then show ?thesis
    by (simp add: block_template_def block_reward_def on_ok_def Let_def n NewBlockWithVersion_def b_ProtocolVersion_def
        BlockVersionLegacy_def BlockVersionCanonical_def zero_block_def)
qed

theorem full_block_rejected_witness:
  "\<exists>t fees. block_template demo_ext 0 dev_address narrow_net [first_block] funded 1 [stake_tx] fees = Inr t
    \<and> ValidateBlockResourcesWithProfile t narrow_net = Some (Err ''block exceeds max transaction count: got %d want <= %d'')"
proof -
  obtain fees where f: "take_valid demo_ext narrow_net 1 funded [] 0 [stake_tx] = Inr ([stake_tx], fees)"
    using narrow_takes by blast
  obtain t where t: "block_template demo_ext 0 dev_address narrow_net [first_block] funded 1 [stake_tx] fees = Inr t"
    using narrow_template by blast
  have "cp_MaxTxCount (nc_Consensus narrow_net) = 1" by (simp add: narrow_net_def)
  with full_block_rejected [OF f t, where n = "b_Nonce t" and d = "b_Hash t"] t show ?thesis by auto
qed

end
