(* ===== verification/P2p_Auth.thy ===== *)
theory P2p_Auth
  imports Amount Storage Chain_Rules Locator
begin

text \<open>
  \<open>p2p/types.go\<close>, \<open>p2p/identity.go\<close>, \<open>p2p/auth.go\<close> and \<open>p2p/client.go\<close>: the messages of the peer protocol, the
  identity of a node, and the signing and checking of requests and responses. Ed25519 and the
  transport of HTTP are parameters: \<open>ed25519\<close> has the two functions the code calls, \<open>transport\<close> makes
  a request and sends it. A header is a finite map; every key the code uses is a constant, so
  canonical spelling of keys does not matter. The clock and random bytes are arguments. Reading and
  creating the key files of a node is not modelled.
\<close>

section \<open>Messages\<close>

record peer_view =
  pv_URL :: string
  pv_Source :: string
  pv_Status :: string
  pv_Score :: int
  pv_LastHeight :: u64
  pv_LastTipHash :: string
  pv_LastNetworkID :: string
  pv_LastChainID :: u64
  pv_LastGenesisHash :: string
  pv_LastSuccess :: string
  pv_LastFailure :: string
  pv_FailureCount :: int
  pv_SuccessCount :: int
  pv_LastLatencyMS :: i64
  pv_CooldownUntil :: string
  pv_LastError :: string
  pv_Version :: string
  pv_Protocol :: string
  pv_Services :: string
  pv_NextRetryAt :: string

record handshake =
  hs_NetworkName :: string
  hs_NetworkID :: string
  hs_ChainID :: u64
  hs_ProtocolVersion :: u32
  hs_P2PProtocolVersion :: string
  hs_MinProtocolVersion :: u32
  hs_GenesisHash :: string
  hs_Height :: u64
  hs_TipHash :: string
  hs_CumulativeWork :: u64
  hs_NodeID :: string
  hs_IdentityVersion :: u32
  hs_NodePublicKey :: string
  hs_NodeSignature :: string
  hs_AuthChallenge :: string
  hs_P2PListen :: string
  hs_P2PAdvertise :: string
  hs_Services :: "string list"
  hs_KnownPeers :: "peer_view list"

definition zero_handshake :: handshake where
  "zero_handshake = \<lparr>hs_NetworkName = [], hs_NetworkID = [], hs_ChainID = 0, hs_ProtocolVersion = 0,
     hs_P2PProtocolVersion = [], hs_MinProtocolVersion = 0, hs_GenesisHash = [], hs_Height = 0, hs_TipHash = [],
     hs_CumulativeWork = 0, hs_NodeID = [], hs_IdentityVersion = 0, hs_NodePublicKey = [], hs_NodeSignature = [],
     hs_AuthChallenge = [], hs_P2PListen = [], hs_P2PAdvertise = [], hs_Services = [], hs_KnownPeers = []\<rparr>"

record peer_status =
  st_Network :: string
  st_NetworkID :: string
  st_ChainID :: u64
  st_GenesisHash :: string
  st_ProtocolVersion :: u32
  st_P2PProtocolVersion :: string
  st_Height :: u64
  st_TipHash :: string
  st_Difficulty :: u32
  st_TipDifficulty :: u32
  st_NextDifficulty :: u32
  st_CumulativeWork :: u64
  st_TotalSupply :: string
  st_MempoolCount :: int
  st_AdvertiseP2P :: string
  st_KnownPeerCount :: int
  st_ActivePeerCount :: int

record block_header =
  bh_Version :: u32
  bh_Height :: u64
  bh_Hash :: string
  bh_PreviousHash :: string
  bh_Timestamp :: i64
  bh_Difficulty :: u32
  bh_MerkleRoot :: string
  bh_StateRoot :: string
  bh_TxCount :: int
  bh_MinerAddress :: string

definition HeaderFromBlock :: "block \<Rightarrow> block_header" where
  "HeaderFromBlock block =
    \<lparr>bh_Version = b_Version block, bh_Height = b_Height block, bh_Hash = b_Hash block,
     bh_PreviousHash = b_PreviousHash block, bh_Timestamp = b_Timestamp block, bh_Difficulty = b_Difficulty block,
     bh_MerkleRoot = b_MerkleRoot block, bh_StateRoot = b_StateRoot block,
     bh_TxCount = int (length (b_Transactions block)), bh_MinerAddress = b_MinerAddress block\<rparr>"

section \<open>Identity\<close>

record ed25519 =
  ed_Sign :: "bytes \<Rightarrow> bytes \<Rightarrow> bytes"
  ed_Verify :: "bytes \<Rightarrow> bytes \<Rightarrow> bytes \<Rightarrow> bool"

record node_identity =
  ni_NodeID :: string
  ni_PublicKey :: bytes
  ni_PrivateKey :: bytes

definition NodeIdentityVersion :: u32 where "NodeIdentityVersion = 1"

definition nodeIdentityDomain :: string where "nodeIdentityDomain = ''IndoChain/p2p-handshake/v1''"

definition IdentityVersion :: "node_identity \<Rightarrow> u32" where
  "IdentityVersion identity =
    (if length (ni_PublicKey identity) = 32 \<and> length (ni_PrivateKey identity) = 64 then NodeIdentityVersion else 0)"

definition writeIdentityString :: "string \<Rightarrow> bytes" where
  "writeIdentityString value = PutUint32 (of_nat (length value)) @ bytes_of value"

definition handshakeSigningBytes :: "handshake \<Rightarrow> bytes" where
  "handshakeSigningBytes hs =
     writeIdentityString nodeIdentityDomain @ PutUint32 (hs_IdentityVersion hs) @ writeIdentityString (hs_NodeID hs)
     @ writeIdentityString (hs_NodePublicKey hs) @ writeIdentityString (hs_AuthChallenge hs)
     @ writeIdentityString (hs_NetworkID hs) @ PutUint64 (hs_ChainID hs) @ writeIdentityString (hs_GenesisHash hs)
     @ PutUint32 (hs_ProtocolVersion hs) @ writeIdentityString (hs_P2PProtocolVersion hs)
     @ PutUint32 (hs_MinProtocolVersion hs) @ PutUint64 (hs_Height hs) @ writeIdentityString (hs_TipHash hs)
     @ PutUint64 (hs_CumulativeWork hs) @ writeIdentityString (hs_P2PListen hs) @ writeIdentityString (hs_P2PAdvertise hs)"

definition SignHandshake :: "ed25519 \<Rightarrow> node_identity \<Rightarrow> handshake \<Rightarrow> err + string" where
  "SignHandshake D identity hs =
    (if IdentityVersion identity \<noteq> NodeIdentityVersion then Inl (Err ''unsupported node identity version'')
     else let hs = hs\<lparr>hs_IdentityVersion := NodeIdentityVersion, hs_NodeID := ni_NodeID identity,
                      hs_NodePublicKey := hex_encode (ni_PublicKey identity)\<rparr> in
       Inr (hex_encode (ed_Sign D (ni_PrivateKey identity) (handshakeSigningBytes hs))))"

definition sized_hex :: "nat \<Rightarrow> string \<Rightarrow> bytes option" where
  "sized_hex n text =
    (case hex_decode text of None \<Rightarrow> None | Some raw \<Rightarrow> if length raw \<noteq> n then None else Some raw)"

definition VerifyHandshakeIdentity :: "ed25519 \<Rightarrow> handshake \<Rightarrow> err option" where
  "VerifyHandshakeIdentity D hs =
    (if hs_IdentityVersion hs \<noteq> NodeIdentityVersion then Some (Err ''peer rejected: unsupported node identity version'')
     else case sized_hex 32 (hs_NodePublicKey hs) of
       None \<Rightarrow> Some (Err ''peer rejected: invalid node identity public key'')
     | Some publicKey \<Rightarrow>
     (case sized_hex 64 (hs_NodeSignature hs) of
        None \<Rightarrow> Some (Err ''peer rejected: invalid node identity signature'')
      | Some signature \<Rightarrow>
          if \<not> ed_Verify D publicKey (handshakeSigningBytes hs) signature then
            Some (Err ''peer rejected: invalid node identity signature'')
          else None))"

definition claims_identity :: "handshake \<Rightarrow> bool" where
  "claims_identity hs \<longleftrightarrow> hs_IdentityVersion hs \<noteq> 0 \<or> hs_NodePublicKey hs \<noteq> [] \<or> hs_NodeSignature hs \<noteq> []"

definition ValidateHandshake :: "ed25519 \<Rightarrow> network_config \<Rightarrow> handshake \<Rightarrow> err option" where
  "ValidateHandshake D local peer =
    (if hs_NetworkID peer \<noteq> nc_NetworkID local then Some (Err ''peer rejected: network id mismatch'')
     else if hs_ChainID peer \<noteq> nc_ChainID local then Some (Err ''peer rejected: chain id mismatch'')
     else if hs_GenesisHash peer \<noteq> GenesisHashForNetwork local then Some (Err ''peer rejected: genesis hash mismatch'')
     else if hs_ProtocolVersion peer < nc_MinProtocolVersion local \<or> nc_ProtocolVersion local < hs_MinProtocolVersion peer then
       Some (Err ''peer rejected: incompatible protocol version'')
     else if claims_identity peer then VerifyHandshakeIdentity D peer
     else if nc_RequireAuthenticatedNode local then Some (Err ''peer rejected: authenticated node identity required'')
     else None)"

definition ValidateStatus :: "network_config \<Rightarrow> peer_status \<Rightarrow> err option" where
  "ValidateStatus local peer =
    (if st_NetworkID peer \<noteq> nc_NetworkID local then Some (Err ''peer rejected: network id mismatch'')
     else if st_ChainID peer \<noteq> nc_ChainID local then Some (Err ''peer rejected: chain id mismatch'')
     else if st_GenesisHash peer \<noteq> GenesisHashForNetwork local then Some (Err ''peer rejected: genesis hash mismatch'')
     else if st_ProtocolVersion peer < nc_MinProtocolVersion local then
       Some (Err ''peer rejected: incompatible protocol version'')
     else None)"

section \<open>Signed requests and responses\<close>

type_synonym header = "(string, string) fmap"

record http_request =
  rq_Method :: string
  rq_URI :: string
  rq_Header :: header

record http_response =
  rs_StatusCode :: int
  rs_Header :: header
  rs_Body :: "err + bytes"

definition p2pMessageAuthVersion :: u32 where "p2pMessageAuthVersion = 1"
definition p2pMessageAuthDomain :: string where "p2pMessageAuthDomain = ''IndoChain/p2p-message/v1''"
definition p2pMessageAuthTimeSkew :: int where "p2pMessageAuthTimeSkew = 300"
definition p2pMessageAuthBodyLimit :: nat where "p2pMessageAuthBodyLimit = 8388608"
definition p2pMessageAuthResponseLimit :: nat where "p2pMessageAuthResponseLimit = 16777216"

definition authHeaderVersion :: string where "authHeaderVersion = ''X-IND-Auth-Version''"
definition authHeaderNodeID :: string where "authHeaderNodeID = ''X-IND-Node-ID''"
definition authHeaderNodePubKey :: string where "authHeaderNodePubKey = ''X-IND-Node-PubKey''"
definition authHeaderNetworkID :: string where "authHeaderNetworkID = ''X-IND-Network-ID''"
definition authHeaderChainID :: string where "authHeaderChainID = ''X-IND-Chain-ID''"
definition authHeaderTimestamp :: string where "authHeaderTimestamp = ''X-IND-Auth-Timestamp''"
definition authHeaderNonce :: string where "authHeaderNonce = ''X-IND-Auth-Nonce''"
definition authHeaderSignature :: string where "authHeaderSignature = ''X-IND-Auth-Signature''"

lemmas auth_headers = authHeaderVersion_def authHeaderNodeID_def authHeaderNodePubKey_def authHeaderNetworkID_def
  authHeaderChainID_def authHeaderTimestamp_def authHeaderNonce_def authHeaderSignature_def

text \<open>\<open>strings.TrimSpace(header.Get(key))\<close>.\<close>

definition trimmed :: "header \<Rightarrow> string \<Rightarrow> string" where
  "trimmed h key = TrimSpace (get_or [] h key)"

definition writeP2PAuthString :: "string \<Rightarrow> bytes" where
  "writeP2PAuthString value = PutUint32 (of_nat (length value)) @ bytes_of value"

definition writeP2PAuthBytes :: "bytes \<Rightarrow> bytes" where
  "writeP2PAuthBytes value = PutUint32 (of_nat (length value)) @ value"

definition bodyDigest :: "bytes \<Rightarrow> bytes" where
  "bodyDigest body = sha256 body"

definition p2pRequestSigningBytes ::
  "string \<Rightarrow> bytes \<Rightarrow> string \<Rightarrow> u64 \<Rightarrow> string \<Rightarrow> string \<Rightarrow> i64 \<Rightarrow> string \<Rightarrow> bytes \<Rightarrow> bytes" where
  "p2pRequestSigningBytes nodeID publicKey networkID chainID method requestURI timestamp nonce body =
     writeP2PAuthString p2pMessageAuthDomain @ PutUint32 p2pMessageAuthVersion @ writeP2PAuthString ''request''
     @ writeP2PAuthString nodeID @ writeP2PAuthBytes publicKey @ writeP2PAuthString networkID @ PutUint64 chainID
     @ writeP2PAuthString method @ writeP2PAuthString requestURI @ PutUint64 timestamp @ writeP2PAuthString nonce
     @ writeP2PAuthBytes (bodyDigest body)"

definition p2pResponseSigningBytes ::
  "string \<Rightarrow> bytes \<Rightarrow> string \<Rightarrow> u64 \<Rightarrow> string \<Rightarrow> int \<Rightarrow> i64 \<Rightarrow> bytes \<Rightarrow> bytes" where
  "p2pResponseSigningBytes nodeID publicKey networkID chainID requestNonce status timestamp body =
     writeP2PAuthString p2pMessageAuthDomain @ PutUint32 p2pMessageAuthVersion @ writeP2PAuthString ''response''
     @ writeP2PAuthString nodeID @ writeP2PAuthBytes publicKey @ writeP2PAuthString networkID @ PutUint64 chainID
     @ writeP2PAuthString requestNonce @ PutUint32 (of_int status) @ PutUint64 timestamp
     @ writeP2PAuthBytes (bodyDigest body)"

text \<open>The headers both signing functions set.\<close>

definition auth_header_set :: "node_identity \<Rightarrow> string \<Rightarrow> u64 \<Rightarrow> i64 \<Rightarrow> string \<Rightarrow> bytes \<Rightarrow> header \<Rightarrow> header" where
  "auth_header_set identity networkID chainID timestamp nonce signature h =
     fmupd authHeaderSignature (hex_encode signature)
       (fmupd authHeaderNonce nonce
         (fmupd authHeaderTimestamp (FormatInt timestamp)
           (fmupd authHeaderChainID (FormatUint chainID)
             (fmupd authHeaderNetworkID networkID
               (fmupd authHeaderNodePubKey (hex_encode (ni_PublicKey identity))
                 (fmupd authHeaderNodeID (ni_NodeID identity)
                   (fmupd authHeaderVersion (FormatUint p2pMessageAuthVersion) h)))))))"

text \<open>Every caller passes a request, so the check for \<open>nil\<close> is left out here and below.\<close>

definition SignP2PRequest ::
  "ed25519 \<Rightarrow> node_identity \<Rightarrow> string \<Rightarrow> u64 \<Rightarrow> http_request \<Rightarrow> bytes \<Rightarrow> i64 \<Rightarrow> string \<Rightarrow> err + http_request" where
  "SignP2PRequest D identity networkID chainID req body timestamp nonce =
    (if IdentityVersion identity \<noteq> NodeIdentityVersion then Inl (Err ''unsupported node identity version'')
     else if TrimSpace networkID = [] then Inl (Err ''network id is required'')
     else if length nonce \<noteq> 64 then Inl (Err ''invalid auth nonce'')
     else if hex_decode nonce = None then Inl (Err ''invalid auth nonce'')
     else let payload = p2pRequestSigningBytes (ni_NodeID identity) (ni_PublicKey identity) networkID chainID
                          (rq_Method req) (rq_URI req) timestamp nonce body;
              signature = ed_Sign D (ni_PrivateKey identity) payload in
       Inr (req\<lparr>rq_Header := auth_header_set identity networkID chainID timestamp nonce signature (rq_Header req)\<rparr>))"

definition ParseInt :: "string \<Rightarrow> err + i64" where
  "ParseInt s =
    (let neg = (s \<noteq> [] \<and> hd s = CHR ''-'');
         digits = (if s \<noteq> [] \<and> (hd s = CHR ''-'' \<or> hd s = CHR ''+'') then tl s else s) in
     case ParseUint digits of
       Inl e \<Rightarrow> Inl e
     | Inr un \<Rightarrow>
         if \<not> neg \<and> unat un \<ge> 2 ^ 63 then Inl ErrRange
         else if neg \<and> unat un > 2 ^ 63 then Inl ErrRange
         else Inr (if neg then - un else un))"

definition parseAuthVersion :: "string \<Rightarrow> err + u32" where
  "parseAuthVersion value =
    (case ParseUint (TrimSpace value) of
       Inl _ \<Rightarrow> Inl (Err ''invalid p2p message auth version'')
     | Inr parsed \<Rightarrow>
         if unat parsed \<ge> 2 ^ 32 then Inl (Err ''invalid p2p message auth version'') else Inr (ucast parsed))"

definition outside_skew :: "i64 \<Rightarrow> i64 \<Rightarrow> bool" where
  "outside_skew now timestamp =
    (let delta = now - timestamp in sint delta > p2pMessageAuthTimeSkew \<or> sint delta < - p2pMessageAuthTimeSkew)"

type_synonym replay_cache = "(string, i64) fmap"

definition drop_expired :: "i64 \<Rightarrow> replay_cache \<Rightarrow> replay_cache" where
  "drop_expired nowUnix seen =
     fmfilter (\<lambda>existing. case fmlookup seen existing of Some expiresAt \<Rightarrow> \<not> sint expiresAt \<le> sint nowUnix | None \<Rightarrow> False) seen"

definition consumeRequestNonce :: "string \<Rightarrow> i64 \<Rightarrow> replay_cache \<Rightarrow> bool \<times> replay_cache" where
  "consumeRequestNonce key nowUnix seen0 =
    (let seen = drop_expired nowUnix seen0 in
     if fmlookup seen key \<noteq> None then (False, seen)
     else let seen = fmupd key (nowUnix + of_int p2pMessageAuthTimeSkew) seen in
       (True, if fcard (fmdom seen) > 4096 then drop_expired nowUnix seen else seen))"

record request_auth =
  ra_NodeID :: string
  ra_PublicKey :: bytes
  ra_NetworkID :: string
  ra_ChainID :: u64
  ra_Timestamp :: i64
  ra_Nonce :: string

definition VerifyP2PRequest ::
  "ed25519 \<Rightarrow> string \<Rightarrow> u64 \<Rightarrow> http_request \<Rightarrow> bytes \<Rightarrow> i64 \<Rightarrow> replay_cache \<Rightarrow> (err + request_auth) \<times> replay_cache" where
  "VerifyP2PRequest D localNetworkID localChainID req body now seen =
    (let h = rq_Header req;
         nodeID = trimmed h authHeaderNodeID;
         networkID = trimmed h authHeaderNetworkID;
         publicKeyRaw = trimmed h authHeaderNodePubKey;
         signatureRaw = trimmed h authHeaderSignature;
         nonce = trimmed h authHeaderNonce;
         timestampText = trimmed h authHeaderTimestamp;
         chainText = trimmed h authHeaderChainID in
     case parseAuthVersion (get_or [] h authHeaderVersion) of
       Inl e \<Rightarrow> (Inl e, seen)
     | Inr version \<Rightarrow>
     if version \<noteq> p2pMessageAuthVersion then (Inl (Err ''unsupported p2p message auth version''), seen)
     else if nodeID = [] \<or> networkID = [] \<or> publicKeyRaw = [] \<or> signatureRaw = [] \<or> nonce = [] \<or> timestampText = [] \<or> chainText = [] then
       (Inl (Err ''incomplete p2p message authentication headers''), seen)
     else if networkID \<noteq> localNetworkID then (Inl (Err ''peer rejected: network id mismatch''), seen)
     else (case ParseUint chainText of
       Inl _ \<Rightarrow> (Inl (Err ''peer rejected: chain id mismatch''), seen)
     | Inr chainID \<Rightarrow>
     if chainID \<noteq> localChainID then (Inl (Err ''peer rejected: chain id mismatch''), seen)
     else (case sized_hex 32 publicKeyRaw of
       None \<Rightarrow> (Inl (Err ''invalid p2p message public key''), seen)
     | Some publicKey \<Rightarrow>
     (case sized_hex 64 signatureRaw of
        None \<Rightarrow> (Inl (Err ''invalid p2p message signature''), seen)
      | Some signature \<Rightarrow>
      if length nonce \<noteq> 64 then (Inl (Err ''invalid p2p message nonce''), seen)
      else if hex_decode nonce = None then (Inl (Err ''invalid p2p message nonce''), seen)
      else (case ParseInt timestampText of
        Inl _ \<Rightarrow> (Inl (Err ''invalid p2p message timestamp''), seen)
      | Inr timestamp \<Rightarrow>
      if outside_skew now timestamp then (Inl (Err ''p2p message timestamp outside allowed skew''), seen)
      else if \<not> ed_Verify D publicKey (p2pRequestSigningBytes nodeID publicKey networkID chainID (rq_Method req) (rq_URI req)
                                   timestamp nonce body) signature then
        (Inl (Err ''invalid p2p message signature''), seen)
      else (case consumeRequestNonce (hex_encode publicKey @ '':'' @ nonce) now seen of
        (False, seen) \<Rightarrow> (Inl (Err ''p2p message nonce replay detected''), seen)
      | (True, seen) \<Rightarrow>
          (Inr \<lparr>ra_NodeID = nodeID, ra_PublicKey = publicKey, ra_NetworkID = networkID, ra_ChainID = chainID,
                ra_Timestamp = timestamp, ra_Nonce = nonce\<rparr>, seen)))))))"

definition SignP2PResponse ::
  "ed25519 \<Rightarrow> node_identity \<Rightarrow> string \<Rightarrow> u64 \<Rightarrow> string \<Rightarrow> int \<Rightarrow> bytes \<Rightarrow> i64 \<Rightarrow> err + header" where
  "SignP2PResponse D identity networkID chainID requestNonce status body timestamp =
    (if IdentityVersion identity \<noteq> NodeIdentityVersion then Inl (Err ''unsupported node identity version'')
     else if length requestNonce \<noteq> 64 then Inl (Err ''invalid response request nonce'')
     else if hex_decode requestNonce = None then Inl (Err ''invalid response request nonce'')
     else let payload = p2pResponseSigningBytes (ni_NodeID identity) (ni_PublicKey identity) networkID chainID
                          requestNonce status timestamp body;
              signature = ed_Sign D (ni_PrivateKey identity) payload in
       Inr (auth_header_set identity networkID chainID timestamp requestNonce signature fmempty))"

definition VerifyP2PResponse ::
  "ed25519 \<Rightarrow> handshake \<Rightarrow> string \<Rightarrow> u64 \<Rightarrow> string \<Rightarrow> int \<Rightarrow> bytes \<Rightarrow> header \<Rightarrow> i64 \<Rightarrow> err option" where
  "VerifyP2PResponse D hs networkID chainID requestNonce status body h now =
    (let nodeID = trimmed h authHeaderNodeID;
         publicKeyRaw = trimmed h authHeaderNodePubKey;
         responseNetworkID = trimmed h authHeaderNetworkID;
         chainText = trimmed h authHeaderChainID;
         timestampText = trimmed h authHeaderTimestamp;
         nonce = trimmed h authHeaderNonce;
         signatureRaw = trimmed h authHeaderSignature in
     case parseAuthVersion (get_or [] h authHeaderVersion) of
       Inl e \<Rightarrow> Some e
     | Inr version \<Rightarrow>
     if version \<noteq> p2pMessageAuthVersion then Some (Err ''unsupported p2p message auth version'')
     else if nodeID = [] \<or> publicKeyRaw = [] \<or> responseNetworkID = [] \<or> chainText = [] \<or> timestampText = [] \<or> nonce = [] \<or> signatureRaw = [] then
       Some (Err ''incomplete p2p response authentication headers'')
     else if nodeID \<noteq> hs_NodeID hs then Some (Err ''p2p response node id mismatch'')
     else if publicKeyRaw \<noteq> hs_NodePublicKey hs then Some (Err ''p2p response node public key mismatch'')
     else if responseNetworkID \<noteq> networkID then Some (Err ''p2p response network id mismatch'')
     else (case ParseUint chainText of
       Inl _ \<Rightarrow> Some (Err ''p2p response chain id mismatch'')
     | Inr responseChainID \<Rightarrow>
     if responseChainID \<noteq> chainID then Some (Err ''p2p response chain id mismatch'')
     else if nonce \<noteq> requestNonce then Some (Err ''p2p response request nonce mismatch'')
     else (case sized_hex 32 publicKeyRaw of
       None \<Rightarrow> Some (Err ''invalid p2p response public key'')
     | Some publicKey \<Rightarrow>
     (case sized_hex 64 signatureRaw of
        None \<Rightarrow> Some (Err ''invalid p2p response signature'')
      | Some signature \<Rightarrow>
      (case ParseInt timestampText of
         Inl _ \<Rightarrow> Some (Err ''invalid p2p response timestamp'')
       | Inr timestamp \<Rightarrow>
       if outside_skew now timestamp then Some (Err ''p2p response timestamp outside allowed skew'')
       else if \<not> ed_Verify D publicKey (p2pResponseSigningBytes nodeID publicKey responseNetworkID responseChainID
                                    requestNonce status timestamp body) signature then
         Some (Err ''invalid p2p response signature'')
       else None)))))"

section \<open>The server's guard\<close>

definition hasP2PAuthHeaders :: "header \<Rightarrow> bool" where
  "hasP2PAuthHeaders h =
     list_ex (\<lambda>key. trimmed h key \<noteq> [])
       [authHeaderVersion, authHeaderNodePubKey, authHeaderTimestamp, authHeaderNonce, authHeaderSignature]"

text \<open>
  \<open>Server.authenticated\<close>: the handler \<open>serve\<close> changes the state of the server and answers a status (0 when
  it did not set one), headers and a body. The guard answers with that, or with a status and an
  error. The headers of the handler go over those of the signature: the code means to leave out the
  keys of the signature, but compares the canonical spelling of a key with the constants, which are
  spelled otherwise. \<open>identity\<close> is what loading the node's own identity gives.
\<close>

record answer =
  an_Status :: int
  an_Header :: header
  an_Body :: bytes

definition authenticated ::
  "ed25519 \<Rightarrow> network_config \<Rightarrow> err + node_identity \<Rightarrow> i64 \<Rightarrow> i64 \<Rightarrow> (http_request \<Rightarrow> bytes \<Rightarrow> 's \<Rightarrow> answer \<times> 's) \<Rightarrow>
     http_request \<Rightarrow> bytes \<Rightarrow> 's \<times> replay_cache \<Rightarrow> (answer + int \<times> err) \<times> 's \<times> replay_cache" where
  "authenticated D net identity now later serve req body = (\<lambda>(s, seen).
    let hasAuth = hasP2PAuthHeaders (rq_Header req) in
    if \<not> hasAuth \<and> \<not> nc_RequireAuthenticatedNode net then
      (case serve req body s of (a, s) \<Rightarrow> (Inl a, s, seen))
    else if length body > p2pMessageAuthBodyLimit then
      (Inr (413, Err ''authenticated request body too large''), s, seen)
    else if \<not> hasAuth then (Inr (401, Err ''authenticated p2p message required''), s, seen)
    else case VerifyP2PRequest D (nc_NetworkID net) (nc_ChainID net) req body now seen of
      (Inl e, seen) \<Rightarrow> (Inr (401, e), s, seen)
    | (Inr auth, seen) \<Rightarrow>
    (case serve req body s of
       (a, s) \<Rightarrow>
       if length (an_Body a) > p2pMessageAuthResponseLimit then
         (Inr (500, Err ''authenticated p2p response too large''), s, seen)
       else (case on_ok identity (\<lambda>identity. SignP2PResponse D identity (nc_NetworkID net) (nc_ChainID net) (ra_Nonce auth) (an_Status a) (an_Body a) later) of
         Inl e \<Rightarrow> (Inr (500, e), s, seen)
       | Inr responseHeaders \<Rightarrow>
           (Inl (a\<lparr>an_Status := if an_Status a = 0 then 200 else an_Status a,
                   an_Header := responseHeaders ++\<^sub>f an_Header a\<rparr>), s, seen))))"

section \<open>The client\<close>

record transport =
  tp_NewRequest :: "string \<Rightarrow> string \<Rightarrow> err + http_request"
  tp_Do :: "http_request \<Rightarrow> bytes option \<Rightarrow> err + http_response"

record client =
  cl_NodeID :: string
  cl_P2PURL :: string
  cl_NetworkID :: string
  cl_NodeIdentity :: node_identity
  cl_AuthenticateRequests :: bool

definition zero_client :: client where
  "zero_client = \<lparr>cl_NodeID = [], cl_P2PURL = [], cl_NetworkID = [],
     cl_NodeIdentity = \<lparr>ni_NodeID = [], ni_PublicKey = [], ni_PrivateKey = []\<rparr>, cl_AuthenticateRequests = False\<rparr>"

definition WithIdentity :: "client \<Rightarrow> string \<Rightarrow> string \<Rightarrow> string \<Rightarrow> client" where
  "WithIdentity c nodeID p2pURL networkID = c\<lparr>cl_NodeID := nodeID, cl_P2PURL := p2pURL, cl_NetworkID := networkID\<rparr>"

definition WithNodeIdentity :: "client \<Rightarrow> node_identity \<Rightarrow> client" where
  "WithNodeIdentity c identity =
     c\<lparr>cl_NodeIdentity := identity, cl_NodeID := ni_NodeID identity, cl_AuthenticateRequests := True\<rparr>"

definition NewClientForProfile :: "err + node_identity \<Rightarrow> network_config \<Rightarrow> err + client" where
  "NewClientForProfile identity profile =
    (if \<not> nc_RequireAuthenticatedNode profile then Inr zero_client
     else case identity of Inl e \<Rightarrow> Inl e | Inr identity \<Rightarrow> Inr (WithNodeIdentity zero_client identity))"

definition NodeIdentityValidation :: "client \<Rightarrow> err option" where
  "NodeIdentityValidation c =
    (if IdentityVersion (cl_NodeIdentity c) \<noteq> NodeIdentityVersion then
       Some (Err ''authenticated client requires a valid node identity'')
     else None)"

definition set_unless_empty :: "string \<Rightarrow> string \<Rightarrow> header \<Rightarrow> header" where
  "set_unless_empty key value h = (if value \<noteq> [] then fmupd key value h else h)"

definition addHeaders :: "client \<Rightarrow> http_request \<Rightarrow> http_request" where
  "addHeaders c req =
     req\<lparr>rq_Header := set_unless_empty authHeaderNetworkID (cl_NetworkID c)
       (set_unless_empty ''X-IND-P2P-URL'' (cl_P2PURL c) (set_unless_empty authHeaderNodeID (cl_NodeID c) (rq_Header req)))\<rparr>"

definition status_check :: "bool \<Rightarrow> int \<Rightarrow> err option" where
  "status_check rejectClientError status =
    (if rejectClientError then (if status \<ge> 400 then Some (Err ''peer returned %s'') else None)
     else if status \<ge> 500 then Some (Err ''peer returned %s'') else None)"

text \<open>
  \<open>doJSON\<close> after its first block, with the variable \<open>handshake\<close> of the function as an argument. \<open>newNonce\<close> is
  the random nonce, \<open>decode\<close> is \<open>encoding/json\<close> at the type of the target.
\<close>

definition exchange ::
  "ed25519 \<Rightarrow> transport \<Rightarrow> client \<Rightarrow> string \<Rightarrow> string \<Rightarrow> string \<Rightarrow> bytes option \<Rightarrow> (bytes \<Rightarrow> err + 'a) \<Rightarrow> bool \<Rightarrow> bool \<Rightarrow>
     handshake \<Rightarrow> err + string \<Rightarrow> i64 \<Rightarrow> err + 'a" where
  "exchange D T c peer method path raw decode auth rejectClientError hs newNonce now =
    (case tp_NewRequest T method (TrimRight peer CHR ''/'' @ path) of
       Inl e \<Rightarrow> Inl e
     | Inr req \<Rightarrow>
     let req = addHeaders c (if method = ''POST'' then req\<lparr>rq_Header := fmupd ''Content-Type'' ''application/json'' (rq_Header req)\<rparr> else req) in
     (case (if auth then
             (case newNonce of
                Inl e \<Rightarrow> Inl e
              | Inr nonce \<Rightarrow>
                  (case SignP2PRequest D (cl_NodeIdentity c) (hs_NetworkID hs) (hs_ChainID hs) req
                          (case raw of None \<Rightarrow> [] | Some body \<Rightarrow> body) now nonce of
                     Inl e \<Rightarrow> Inl e
                   | Inr req \<Rightarrow> Inr (req, nonce)))
           else Inr (req, [])) of
       Inl e \<Rightarrow> Inl e
     | Inr (req, requestNonce) \<Rightarrow>
     (case tp_Do T req raw of
        Inl e \<Rightarrow> Inl e
      | Inr resp \<Rightarrow>
      if auth then
        (case rs_Body resp of
           Inl e \<Rightarrow> Inl e
         | Inr body \<Rightarrow>
         if length body > p2pMessageAuthResponseLimit then Inl (Err ''peer authenticated response too large'')
         else (case VerifyP2PResponse D hs (hs_NetworkID hs) (hs_ChainID hs) requestNonce (rs_StatusCode resp) body
                     (rs_Header resp) now of
           Some e \<Rightarrow> Inl e
         | None \<Rightarrow>
         (case status_check rejectClientError (rs_StatusCode resp) of Some e \<Rightarrow> Inl e | None \<Rightarrow> decode body)))
      else
        (case status_check rejectClientError (rs_StatusCode resp) of
           Some e \<Rightarrow> Inl e
         | None \<Rightarrow> (case rs_Body resp of Inl e \<Rightarrow> Inl e | Inr body \<Rightarrow> decode body)))))"

definition client_Handshake ::
  "ed25519 \<Rightarrow> transport \<Rightarrow> (bytes \<Rightarrow> err + handshake) \<Rightarrow> client \<Rightarrow> err + bytes \<Rightarrow> i64 \<Rightarrow> string \<Rightarrow> err + handshake" where
  "client_Handshake D T decode c challengeBytes now peer =
    (case challengeBytes of
       Inl e \<Rightarrow> Inl e
     | Inr raw \<Rightarrow>
     let challenge = hex_encode raw in
     (case exchange D T c peer ''GET'' (''/p2p/handshake?challenge='' @ challenge) None decode False True zero_handshake (Inr []) now of
       Inl e \<Rightarrow> Inl e
     | Inr hs \<Rightarrow>
     if hs_AuthChallenge hs \<noteq> [] \<and> hs_AuthChallenge hs \<noteq> challenge then Inl (Err ''peer handshake challenge mismatch'')
     else if claims_identity hs then
       (case VerifyHandshakeIdentity D hs of Some e \<Rightarrow> Inl e | None \<Rightarrow> Inr hs)
     else Inr hs))"

text \<open>
  The block for authenticated calls declares a new variable \<open>handshake\<close>, which is gone after the block: the
  variable used for signing and checking keeps its zero value.
\<close>

definition doJSON ::
  "ed25519 \<Rightarrow> transport \<Rightarrow> (bytes \<Rightarrow> err + handshake) \<Rightarrow> client \<Rightarrow> string \<Rightarrow> string \<Rightarrow> string \<Rightarrow> bytes option \<Rightarrow>
     (bytes \<Rightarrow> err + 'a) \<Rightarrow> bool \<Rightarrow> bool \<Rightarrow> err + bytes \<Rightarrow> err + string \<Rightarrow> i64 \<Rightarrow> err + 'a" where
  "doJSON D T decodeHandshake c peer method path raw decode auth rejectClientError challengeBytes newNonce now =
    (let handshake = zero_handshake;
         failed = (if auth then
           (case client_Handshake D T decodeHandshake c challengeBytes now peer of
              Inl e \<Rightarrow> Some e
            | Inr inner \<Rightarrow>
            (case NodeIdentityValidation c of
               Some e \<Rightarrow> Some e
             | None \<Rightarrow>
                 if cl_NetworkID c \<noteq> [] \<and> cl_NetworkID c \<noteq> hs_NetworkID inner then
                   Some (Err ''peer handshake network id mismatch'')
                 else None))
           else None) in
     case failed of
       Some e \<Rightarrow> Inl e
     | None \<Rightarrow> exchange D T c peer method path raw decode auth rejectClientError handshake newNonce now)"

text \<open>The calls of the client that synchronisation uses, with the decoders of their answers.\<close>

record locator_response =
  lr_Height :: u64
  lr_TipHash :: string
  lr_Locator :: "locator_entry list"

record common_ancestor =
  ca_Found :: bool
  ca_Height :: u64
  ca_Hash :: string
  ca_Error :: string

record json_decoders =
  js_Handshake :: "bytes \<Rightarrow> err + handshake"
  js_Status :: "bytes \<Rightarrow> err + peer_status"
  js_Headers :: "bytes \<Rightarrow> err + block_header list"
  js_Locator :: "bytes \<Rightarrow> err + locator_response"
  js_Block :: "bytes \<Rightarrow> err + block"
  js_CommonAncestor :: "bytes \<Rightarrow> err + common_ancestor"

text \<open>The random challenge and nonce of a call, by its path.\<close>

type_synonym randomness = "string \<Rightarrow> (err + bytes) \<times> (err + string)"

definition getJSON ::
  "ed25519 \<Rightarrow> transport \<Rightarrow> json_decoders \<Rightarrow> client \<Rightarrow> randomness \<Rightarrow> i64 \<Rightarrow> string \<Rightarrow> string \<Rightarrow> (bytes \<Rightarrow> err + 'a) \<Rightarrow> err + 'a" where
  "getJSON D T J c rnd now peer path decode =
     doJSON D T (js_Handshake J) c peer ''GET'' path None decode (cl_AuthenticateRequests c) True (fst (rnd path)) (snd (rnd path)) now"

definition postJSON ::
  "ed25519 \<Rightarrow> transport \<Rightarrow> json_decoders \<Rightarrow> client \<Rightarrow> randomness \<Rightarrow> i64 \<Rightarrow> string \<Rightarrow> string \<Rightarrow> err + bytes \<Rightarrow> (bytes \<Rightarrow> err + 'a) \<Rightarrow> err + 'a" where
  "postJSON D T J c rnd now peer path encoded decode =
    (case encoded of
       Inl e \<Rightarrow> Inl e
     | Inr raw \<Rightarrow> doJSON D T (js_Handshake J) c peer ''POST'' path (Some raw) decode (cl_AuthenticateRequests c) False
                   (fst (rnd path)) (snd (rnd path)) now)"

text \<open>What a peer answers in one series of calls.\<close>

record remote =
  rm_Handshake :: "err + handshake"
  rm_Status :: "err + peer_status"
  rm_Headers :: "u64 \<Rightarrow> nat \<Rightarrow> err + block_header list"
  rm_Locator :: "err + locator_response"
  rm_Block :: "u64 \<Rightarrow> err + block"
  rm_CommonAncestor :: "locator_entry list \<Rightarrow> err + common_ancestor"

definition client_remote ::
  "ed25519 \<Rightarrow> transport \<Rightarrow> json_decoders \<Rightarrow> (locator_entry list \<Rightarrow> err + bytes) \<Rightarrow> client \<Rightarrow> randomness \<Rightarrow> i64 \<Rightarrow> string \<Rightarrow> remote" where
  "client_remote D T J encode c rnd now peer =
    \<lparr>rm_Handshake = client_Handshake D T (js_Handshake J) c (fst (rnd ''/p2p/handshake'')) now peer,
     rm_Status = getJSON D T J c rnd now peer ''/p2p/status'' (js_Status J),
     rm_Headers = (\<lambda>start limit.
       getJSON D T J c rnd now peer (''/p2p/headers?from='' @ FormatUint start @ ''&limit='' @ dec limit) (js_Headers J)),
     rm_Locator = getJSON D T J c rnd now peer ''/p2p/locator'' (js_Locator J),
     rm_Block = (\<lambda>height. getJSON D T J c rnd now peer (''/p2p/block/'' @ FormatUint height) (js_Block J)),
     rm_CommonAncestor = (\<lambda>locator.
       postJSON D T J c rnd now peer ''/p2p/common-ancestor'' (encode locator) (js_CommonAncestor J))\<rparr>"

end
