(* ===== verification/Message_Auth.thy ===== *)
theory Message_Auth
  imports P2p_Auth
begin

text \<open>
  What the signatures of the peer protocol give: a request signed for a network is accepted there once and
  refused again for five minutes, the signed bytes determine what was signed, and where this
  falls short: a request dated ahead is accepted a second time, and the client of the node never
  gets as far as sending an authenticated request.
\<close>

section \<open>Texts\<close>

lemma TrimSpace_Nil [simp]: "TrimSpace [] = []"
  by (rule TrimSpace_plain) simp

lemma hex_digit_code: "d < 16 \<Longrightarrow> plain_char (hex_digit d)"
  by (simp add: plain_char_def hex_digit_def)

lemma plain_hex_encode: "list_all plain_char (hex_encode b)"
proof (induction b)
  case (Cons x b)
  have "unat x div 16 < 16" and "unat x mod 16 < 16" using unat_u8_lt [of x] by linarith+
  with Cons show ?case by (simp add: hex_encode_def hex_digit_code)
qed simp

lemma hex_value_plain: "hex_value c = Some n \<Longrightarrow> plain_char c"
  by (auto simp: hex_value_def plain_char_def Let_def split: if_splits)

lemma hex_decode_plain: "hex_decode s = Some b \<Longrightarrow> list_all plain_char s"
  by (induction s arbitrary: b rule: hex_decode.induct) (auto split: option.splits dest: hex_value_plain)

lemma plain_dec: "list_all plain_char (dec n)"
proof (induction n rule: dec.induct)
  case (1 n)
  have d: "plain_char (digit_char k)" if "k < 10" for k using that by (simp add: plain_char_def digit_char_def)
  show ?case using 1 d [of n] d [of "n mod 10"] by (subst dec.simps) simp
qed

lemma plain_FormatInt: "list_all plain_char (FormatInt t)"
  using plain_dec by (simp add: FormatInt_def plain_char_def)

lemma dec_not_sign: "dec n \<noteq> []" "hd (dec n) \<noteq> CHR ''-''" "hd (dec n) \<noteq> CHR ''+''"
proof -
  have *: "dec n \<noteq> [] \<and> is_digit (hd (dec n))" for n
  proof (induction n rule: dec.induct)
    case (1 n)
    then show ?case
      by (subst (1 2) dec.simps) (auto simp: is_digit_def digit_value_digit_char hd_append)
  qed
  show "dec n \<noteq> []" using * by blast
  show "hd (dec n) \<noteq> CHR ''-''" using * not_digit(2) by metis
  show "hd (dec n) \<noteq> CHR ''+''" using * [of n] by (auto simp: is_digit_def digit_value_def)
qed

lemma ParseInt_FormatInt [simp]: "ParseInt (FormatInt t) = Inr t"
proof (cases "sint t < 0")
  case True
  have lo: "- (2 ^ 63) \<le> sint t" using sint_ge [of t] by simp
  define n where "n = nat (- sint t)"
  have n: "n \<le> 2 ^ 63" using lo by (simp add: n_def)
  have "ParseUint (dec n) = Inr (of_nat n)"
    using parse_dec [of n] n dec_not_sign(1) [of n] by (simp add: ParseUint_def)
  moreover have "(of_nat n :: u64) = - t" using True by (simp add: n_def)
  moreover have "unat (of_nat n :: u64) = n" using n by (intro unat_of_nat_u64) simp
  ultimately show ?thesis using True n by (simp add: ParseInt_def FormatInt_def Let_def n_def [symmetric])
next
  case False
  have hi: "sint t < 2 ^ 63" using sint_lt [of t] by simp
  define n where "n = nat (sint t)"
  have n: "n < 2 ^ 63" using hi False by (simp add: n_def nat_less_iff)
  have "ParseUint (dec n) = Inr (of_nat n)"
    using parse_dec [of n] n dec_not_sign(1) [of n] by (simp add: ParseUint_def)
  moreover have "(of_nat n :: u64) = t" using False by (simp add: n_def)
  moreover have "unat (of_nat n :: u64) = n" using n by (intro unat_of_nat_u64) simp
  ultimately show ?thesis
    using False n dec_not_sign [of n] by (simp add: ParseInt_def FormatInt_def Let_def n_def [symmetric])
qed

lemma auth_version: "parseAuthVersion (FormatUint p2pMessageAuthVersion) = Inr p2pMessageAuthVersion"
proof -
  have "TrimSpace (FormatUint p2pMessageAuthVersion) = FormatUint (1 :: u64)"
    using TrimSpace_plain [OF plain_dec, of 1] by (simp add: FormatUint_def p2pMessageAuthVersion_def)
  then show ?thesis by (simp add: parseAuthVersion_def p2pMessageAuthVersion_def)
qed

lemma sized_hex_encode [simp]: "sized_hex n (hex_encode b) = (if length b = n then Some b else None)"
  by (simp add: sized_hex_def)

lemma hex_encode_empty: "hex_encode b = [] \<longleftrightarrow> b = []"
  using length_hex_encode [of b] by (cases b) auto

section \<open>A signed request is accepted\<close>

text \<open>What the code relies on of Ed25519: signatures have 64 bytes and verify under the public key of the pair.\<close>

definition key_pair :: "ed25519 \<Rightarrow> node_identity \<Rightarrow> bool" where
  "key_pair D identity \<longleftrightarrow>
     (\<forall>m. length (ed_Sign D (ni_PrivateKey identity) m) = 64
        \<and> ed_Verify D (ni_PublicKey identity) m (ed_Sign D (ni_PrivateKey identity) m))"

text \<open>Names that survive being sent in a header.\<close>

definition sendable :: "string \<Rightarrow> bool" where
  "sendable s \<longleftrightarrow> s \<noteq> [] \<and> TrimSpace s = s"

lemma auth_header_get:
  assumes "sendable (ni_NodeID identity)" and "sendable networkID" and "hex_decode nonce \<noteq> None"
  shows "trimmed (auth_header_set identity networkID chainID t nonce sig h) authHeaderNodeID = ni_NodeID identity"
    and "trimmed (auth_header_set identity networkID chainID t nonce sig h) authHeaderNetworkID = networkID"
    and "trimmed (auth_header_set identity networkID chainID t nonce sig h) authHeaderNodePubKey = hex_encode (ni_PublicKey identity)"
    and "trimmed (auth_header_set identity networkID chainID t nonce sig h) authHeaderSignature = hex_encode sig"
    and "trimmed (auth_header_set identity networkID chainID t nonce sig h) authHeaderNonce = nonce"
    and "trimmed (auth_header_set identity networkID chainID t nonce sig h) authHeaderTimestamp = FormatInt t"
    and "trimmed (auth_header_set identity networkID chainID t nonce sig h) authHeaderChainID = FormatUint chainID"
    and "get_or [] (auth_header_set identity networkID chainID t nonce sig h) authHeaderVersion = FormatUint p2pMessageAuthVersion"
  using assms TrimSpace_plain [OF plain_hex_encode] TrimSpace_plain [OF plain_dec] TrimSpace_plain [OF plain_FormatInt]
    TrimSpace_plain [OF hex_decode_plain]
  by (auto simp: auth_header_set_def trimmed_def auth_headers sendable_def FormatUint_def)

lemma FormatInt_ne: "FormatInt t \<noteq> []" and FormatUint_ne: "FormatUint c \<noteq> []"
  using dec_not_sign(1) by (simp_all add: FormatInt_def FormatUint_def)

lemma nonce_ne: "length nonce = 64 \<Longrightarrow> nonce \<noteq> []"
  by auto

lemma Sign_Inr:
  assumes "SignP2PRequest D identity networkID chainID req body t nonce = Inr req'"
  shows "length (ni_PublicKey identity) = 32" and "length nonce = 64" and "hex_decode nonce \<noteq> None"
    and "req' = req\<lparr>rq_Header := auth_header_set identity networkID chainID t nonce
           (ed_Sign D (ni_PrivateKey identity) (p2pRequestSigningBytes (ni_NodeID identity) (ni_PublicKey identity) networkID chainID
              (rq_Method req) (rq_URI req) t nonce body)) (rq_Header req)\<rparr>"
  using assms by (auto simp: SignP2PRequest_def IdentityVersion_def NodeIdentityVersion_def Let_def split: if_splits)

lemma signed_accepted:
  assumes "key_pair D identity" and "sendable (ni_NodeID identity)" and "sendable networkID"
    and "SignP2PRequest D identity networkID chainID req body t nonce = Inr req'"
    and "\<not> outside_skew now t"
    and "fmlookup seen (hex_encode (ni_PublicKey identity) @ '':'' @ nonce) = None"
  shows "fst (VerifyP2PRequest D networkID chainID req' body now seen)
    = Inr \<lparr>ra_NodeID = ni_NodeID identity, ra_PublicKey = ni_PublicKey identity, ra_NetworkID = networkID,
           ra_ChainID = chainID, ra_Timestamp = t, ra_Nonce = nonce\<rparr>"
proof -
  note S = Sign_Inr [OF assms(4)]
  note H = auth_header_get [OF assms(2, 3) S(3)]
  have "fst (consumeRequestNonce (hex_encode (ni_PublicKey identity) @ '':'' @ nonce) now seen)"
    using assms(6) by (simp add: consumeRequestNonce_def drop_expired_def Let_def)
  moreover have "ni_PublicKey identity \<noteq> []" using S(1) by auto
  moreover obtain sig where sig: "sig = ed_Sign D (ni_PrivateKey identity) (p2pRequestSigningBytes (ni_NodeID identity)
      (ni_PublicKey identity) networkID chainID (rq_Method req) (rq_URI req) t nonce body)" by simp
  moreover have "length sig = 64" "ed_Verify D (ni_PublicKey identity) (p2pRequestSigningBytes (ni_NodeID identity)
      (ni_PublicKey identity) networkID chainID (rq_Method req) (rq_URI req) t nonce body) sig"
    using assms(1) sig by (simp_all add: key_pair_def)
  moreover from this(1) have "sig \<noteq> []" by auto
  ultimately show ?thesis
    using assms(2, 3, 5) S nonce_ne [OF S(2)]
    by (auto simp: VerifyP2PRequest_def H auth_version Let_def sendable_def FormatInt_ne FormatUint_ne hex_encode_empty sig [symmetric]
        split: prod.splits bool.splits)
qed

text \<open>
  C27. A signed request is accepted: a request that \<open>SignP2PRequest\<close> signs with a key pair for a network
  passes \<open>VerifyP2PRequest\<close> of that network, for the same body, within five minutes of the time of
  signing, when the nonce is not in the replay cache; what the server learns of the sender is what
  the sender signed with.
\<close>

theorem signed_request_accepted:
  assumes "key_pair D identity" and "sendable (ni_NodeID identity)" and "sendable networkID"
    and "SignP2PRequest D identity networkID chainID req body t nonce = Inr req'"
    and "\<not> outside_skew now t"
    and "fmlookup seen (hex_encode (ni_PublicKey identity) @ '':'' @ nonce) = None"
  shows "fst (VerifyP2PRequest D networkID chainID req' body now seen)
    = Inr \<lparr>ra_NodeID = ni_NodeID identity, ra_PublicKey = ni_PublicKey identity, ra_NetworkID = networkID,
           ra_ChainID = chainID, ra_Timestamp = t, ra_Nonce = nonce\<rparr>"
  using signed_accepted [OF assms] .

section \<open>What a signature covers\<close>

interpretation auth_string: prefix_code writeP2PAuthString fits32
  using string_code.split by unfold_locales (simp add: writeP2PAuthString_def root_writeString_def)

definition fits32_bytes :: "bytes \<Rightarrow> bool" where
  "fits32_bytes b \<longleftrightarrow> length b < 2 ^ 32"

interpretation auth_bytes: prefix_code writeP2PAuthBytes fits32_bytes
proof
  fix v w r s :: bytes
  assume ok: "fits32_bytes v" "fits32_bytes w"
  show "writeP2PAuthBytes v @ r = writeP2PAuthBytes w @ s \<longleftrightarrow> v = w \<and> r = s"
    using auth_string.split [of "string_of v" "string_of w" r s] ok
    by (auto simp: writeP2PAuthString_def writeP2PAuthBytes_def fits32_def fits32_bytes_def dest: arg_cong [of _ _ bytes_of])
qed

lemma digest_fits: "fits32_bytes (bodyDigest body)"
  by (simp add: fits32_bytes_def bodyDigest_def)

lemmas payload_split = auth_string.split auth_bytes.split u32_codec.write_inject u64_codec.write_inject

lemma word_fits: "fits32 ''request''" "fits32 ''response''" "fits32 p2pMessageAuthDomain" "fits32 nodeIdentityDomain"
  by (simp_all add: fits32_def p2pMessageAuthDomain_def nodeIdentityDomain_def)

lemma writeIdentityString_eq: "writeIdentityString = writeP2PAuthString"
  by (simp add: writeIdentityString_def writeP2PAuthString_def fun_eq_iff)

text \<open>
  C28. What a signature of the peer protocol stands for: the bytes signed for a request determine the sender and
  its key, the network and chain, the method, the path with its query, the time, the nonce and the
  digest of the body, and they are the bytes signed for no response and no handshake.
\<close>

theorem request_payload_binds:
  assumes "fits32 n" "fits32 n'" "fits32_bytes k" "fits32_bytes k'" "fits32 w" "fits32 w'" "fits32 m" "fits32 m'"
    "fits32 u" "fits32 u'" "fits32 x" "fits32 x'"
  shows "(p2pRequestSigningBytes n k w c m u t x b = p2pRequestSigningBytes n' k' w' c' m' u' t' x' b'
      \<longleftrightarrow> n = n' \<and> k = k' \<and> w = w' \<and> c = c' \<and> m = m' \<and> u = u' \<and> t = t' \<and> x = x' \<and> sha256 b = sha256 b')
    \<and> p2pRequestSigningBytes n k w c m u t x b \<noteq> p2pResponseSigningBytes n' k' w' c' x' status t' b'
    \<and> p2pRequestSigningBytes n k w c m u t x b \<noteq> handshakeSigningBytes hs"
proof (intro conjI)
  note last = auth_bytes.split [of "bodyDigest b" "bodyDigest b'" "[]" "[]", OF digest_fits digest_fits, unfolded bodyDigest_def, simplified]
  show "p2pRequestSigningBytes n k w c m u t x b = p2pRequestSigningBytes n' k' w' c' m' u' t' x' b'
      \<longleftrightarrow> n = n' \<and> k = k' \<and> w = w' \<and> c = c' \<and> m = m' \<and> u = u' \<and> t = t' \<and> x = x' \<and> sha256 b = sha256 b'"
    using assms by (simp add: p2pRequestSigningBytes_def payload_split word_fits last bodyDigest_def)
  show "p2pRequestSigningBytes n k w c m u t x b \<noteq> p2pResponseSigningBytes n' k' w' c' x' status t' b'"
    by (simp add: p2pRequestSigningBytes_def p2pResponseSigningBytes_def payload_split word_fits)
  show "p2pRequestSigningBytes n k w c m u t x b \<noteq> handshakeSigningBytes hs"
    by (simp add: p2pRequestSigningBytes_def handshakeSigningBytes_def writeIdentityString_eq payload_split word_fits)
      (simp add: p2pMessageAuthDomain_def nodeIdentityDomain_def)
qed

section \<open>Replay\<close>

definition replay_key :: "request_auth \<Rightarrow> string" where
  "replay_key a = hex_encode (ra_PublicKey a) @ '':'' @ ra_Nonce a"

text \<open>Of a request that was accepted once, only the clock and the cache decide the next time.\<close>

lemma accepted_once:
  assumes "VerifyP2PRequest D w c req body now seen = (Inr a, seen1)"
  shows "\<not> outside_skew now (ra_Timestamp a)" and "consumeRequestNonce (replay_key a) now seen = (True, seen1)"
    and "VerifyP2PRequest D w c req body t s
      = (if outside_skew t (ra_Timestamp a) then (Inl (Err ''p2p message timestamp outside allowed skew''), s)
         else case consumeRequestNonce (replay_key a) t s of
           (False, s) \<Rightarrow> (Inl (Err ''p2p message nonce replay detected''), s)
         | (True, s) \<Rightarrow> (Inr a, s))"
  using assms
  by (auto simp: VerifyP2PRequest_def replay_key_def Let_def split: sum.splits if_splits option.splits prod.splits bool.splits)

lemma lookup_drop_expired:
  "fmlookup (drop_expired t m) k = (case fmlookup m k of Some e \<Rightarrow> if sint e \<le> sint t then None else Some e | None \<Rightarrow> None)"
  by (auto simp: drop_expired_def split: option.splits)

lemma consume_inserts:
  assumes "consumeRequestNonce k t m = (True, m')" and "sint t < sint (t + 300)"
  shows "fmlookup m' k = Some (t + 300)"
  using assms by (auto simp: consumeRequestNonce_def Let_def p2pMessageAuthTimeSkew_def lookup_drop_expired split: if_splits)

lemma consume_keeps:
  assumes "fmlookup m k = Some e" and "sint t < sint e"
  shows "fmlookup (snd (consumeRequestNonce k' t m)) k = Some e" and "k' = k \<Longrightarrow> \<not> fst (consumeRequestNonce k' t m)"
  using assms by (auto simp: consumeRequestNonce_def Let_def lookup_drop_expired split: option.splits)

lemma sint_add:
  assumes "- (2 ^ 63) \<le> sint t + d" and "sint t + d < 2 ^ 63"
  shows "sint ((t :: i64) + of_int d) = sint t + d"
proof -
  have "sint (of_int (sint t + d) :: i64) = sint t + d"
    using assms by (subst sint_sbintrunc') (simp add: signed_take_bit_int_eq_self)
  then show ?thesis by simp
qed

lemma outside_skew_iff:
  assumes "0 \<le> sint now" and "0 \<le> sint t"
  shows "outside_skew now t \<longleftrightarrow> sint now - sint t > 300 \<or> sint now - sint t < - 300"
proof -
  have "now - t = now + of_int (- sint t)" by simp
  moreover have "sint (now + of_int (- sint t)) = sint now - sint t"
    using assms sint_lt [of now] sint_lt [of t] by (subst sint_add) auto
  ultimately show ?thesis by (simp add: outside_skew_def p2pMessageAuthTimeSkew_def Let_def)
qed

text \<open>
  C25. The replay cache forgets too early: a request that was accepted, sent again while nothing else came in, is
  accepted again exactly when five minutes have passed since and its time is not more than five
  minutes ago. A request that is dated at its arrival or later, as clocks or an attacker make it, thus
  passes twice.
\<close>

theorem replay_accepted_iff:
  assumes "VerifyP2PRequest D w c req body now seen = (Inr a, seen1)"
    and "0 \<le> sint now" and "sint now \<le> sint later" and "sint later < 2 ^ 62" and "0 \<le> sint (ra_Timestamp a)"
  shows "fst (VerifyP2PRequest D w c req body later seen1) = Inr a
    \<longleftrightarrow> sint now + 300 \<le> sint later \<and> sint later \<le> sint (ra_Timestamp a) + 300"
proof -
  note A = accepted_once [OF assms(1)]
  have up: "sint (now + 300) = sint now + 300" using sint_add [of now 300] assms(2-4) by simp
  have "fmlookup seen1 (replay_key a) = Some (now + 300)" using consume_inserts [OF A(2)] up by simp
  then have "fst (consumeRequestNonce (replay_key a) later seen1) \<longleftrightarrow> sint now + 300 \<le> sint later"
    by (simp add: consumeRequestNonce_def Let_def lookup_drop_expired up)
  moreover have "outside_skew later (ra_Timestamp a) \<longleftrightarrow> sint later > sint (ra_Timestamp a) + 300"
    if "sint now + 300 \<le> sint later"
    using that A(1) outside_skew_iff [of now "ra_Timestamp a"] outside_skew_iff [of later "ra_Timestamp a"] assms(2, 3, 5) by auto
  ultimately show ?thesis unfolding A(3) [of later seen1] by (auto split: prod.splits bool.splits)
qed

text \<open>The requests a server checks one after the other, its clock never going back.\<close>

inductive served :: "ed25519 \<Rightarrow> string \<Rightarrow> u64 \<Rightarrow> i64 \<Rightarrow> replay_cache \<Rightarrow> i64 \<Rightarrow> replay_cache \<Rightarrow> bool" for D w c t0 s0 where
  start: "served D w c t0 s0 t0 s0"
| serve: "served D w c t0 s0 t s \<Longrightarrow> sint t \<le> sint t' \<Longrightarrow>
    served D w c t0 s0 t' (snd (VerifyP2PRequest D w c req body t' s))"

lemma verify_cache:
  "\<exists>k. snd (VerifyP2PRequest D w c req body t s) = s \<or> snd (VerifyP2PRequest D w c req body t s) = snd (consumeRequestNonce k t s)"
  by (auto simp: VerifyP2PRequest_def Let_def split: sum.splits if_splits option.splits prod.splits bool.splits) (metis snd_conv)+

lemma served_keeps:
  assumes "served D w c t0 s0 t s" and "fmlookup s0 k = Some e" and "sint t < sint e"
  shows "fmlookup s k = Some e"
  using assms(1, 3)
proof (induction rule: served.induct)
  case (serve t s t' req body)
  then have "fmlookup s k = Some e" by simp
  with consume_keeps(1) [of s k e t'] serve.prems verify_cache [of D w c req body t' s] show ?case by metis
qed (use assms(2) in simp)

text \<open>
  C24. No replay for five minutes: once a request is accepted, then for the next five minutes, whatever other
  requests the server checks in between, no request with the same key and nonce is accepted again.
\<close>

theorem no_early_replay:
  assumes "VerifyP2PRequest D w c req body now seen = (Inr a, seen1)"
    and "served D w c now seen1 t s" and "sint t \<le> sint t'" and "sint t' < sint now + 300" and "sint now < 2 ^ 62"
    and "VerifyP2PRequest D w c req' body' t' s = (Inr a', s')"
  shows "(ra_PublicKey a', ra_Nonce a') \<noteq> (ra_PublicKey a, ra_Nonce a)"
proof
  assume same: "(ra_PublicKey a', ra_Nonce a') = (ra_PublicKey a, ra_Nonce a)"
  have "- (2 ^ 63) \<le> sint now" using sint_ge [of now] by simp
  then have up: "sint (now + 300) = sint now + 300" using sint_add [of now 300] assms(5) by simp
  then have "fmlookup seen1 (replay_key a) = Some (now + 300)" using consume_inserts [OF accepted_once(2) [OF assms(1)]] by simp
  then have "fmlookup s (replay_key a) = Some (now + 300)" using served_keeps [OF assms(2)] assms(3, 4) up by simp
  then have "\<not> fst (consumeRequestNonce (replay_key a) t' s)" using consume_keeps(2) assms(4) up by simp
  moreover have "replay_key a' = replay_key a" using same by (simp add: replay_key_def)
  ultimately show False using accepted_once(2) [OF assms(6)] by simp
qed

section \<open>The client\<close>

lemma unsigned_exchange: "\<exists>e. exchange D T c peer method path raw decode True rejectClientError zero_handshake newNonce now = Inl e"
  by (auto simp: exchange_def SignP2PRequest_def zero_handshake_def Let_def split: sum.splits)

text \<open>
  The client of the node cannot make an authenticated call: whatever the peer answers, such a call
  ends in an error. The block that asks for the handshake declares a variable of its own, so the
  request is signed for the empty network, which \<open>SignP2PRequest\<close> refuses.
\<close>

theorem authenticated_call_fails:
  "\<exists>e. doJSON D T decodeHandshake c peer method path raw decode True rejectClientError challengeBytes newNonce now = Inl e"
  using unsigned_exchange [of D T c peer "method" path raw decode rejectClientError newNonce now]
  by (auto simp: doJSON_def Let_def split: option.splits)

lemma authenticated_remote_fails:
  assumes "nc_RequireAuthenticatedNode profile" and "NewClientForProfile identity profile = Inr c"
  shows "\<exists>e. rm_Status (client_remote D T J encode c rnd now peer) = Inl e"
    and "\<exists>e. rm_Locator (client_remote D T J encode c rnd now peer) = Inl e"
    and "\<exists>e. rm_Block (client_remote D T J encode c rnd now peer) h = Inl e"
proof -
  have auth: "cl_AuthenticateRequests c"
    using assms by (auto simp: NewClientForProfile_def WithNodeIdentity_def split: sum.splits)
  have "\<exists>e. getJSON D T J c rnd now peer path decode = Inl e" for path and decode :: "bytes \<Rightarrow> err + 'a"
    using unsigned_exchange [of D T c peer "''GET''" path None decode True "snd (rnd path)" now]
    by (auto simp: getJSON_def doJSON_def auth Let_def split: option.splits)
  then show "\<exists>e. rm_Status (client_remote D T J encode c rnd now peer) = Inl e"
    "\<exists>e. rm_Locator (client_remote D T J encode c rnd now peer) = Inl e"
    "\<exists>e. rm_Block (client_remote D T J encode c rnd now peer) h = Inl e"
    by (simp_all add: client_remote_def)
qed

end
