(* ===== verification/Message_Scenarios.thy ===== *)
theory Message_Scenarios
  imports Message_Auth
begin

text \<open>Concrete messages at which the properties of the peer protocol apply, with a stand-in for Ed25519.\<close>

definition demo_ed :: ed25519 where
  "demo_ed = \<lparr>ed_Sign = (\<lambda>_ _. replicate 64 7), ed_Verify = (\<lambda>_ _ s. s = replicate 64 7)\<rparr>"

definition demo_node :: node_identity where
  "demo_node = \<lparr>ni_NodeID = ''node-a'', ni_PublicKey = replicate 32 1, ni_PrivateKey = replicate 64 2\<rparr>"

definition demo_nonce :: "char \<Rightarrow> string" where
  "demo_nonce c = replicate 64 c"

definition demo_get :: http_request where
  "demo_get = \<lparr>rq_Method = ''GET'', rq_URI = ''/p2p/status'', rq_Header = fmempty\<rparr>"

definition demo_request :: "char \<Rightarrow> http_request" where
  "demo_request c = demo_get\<lparr>rq_Header := auth_header_set demo_node ''ind-test-1'' 7 1000 (demo_nonce c) (replicate 64 7) fmempty\<rparr>"

definition demo_sender :: "char \<Rightarrow> request_auth" where
  "demo_sender c = \<lparr>ra_NodeID = ''node-a'', ra_PublicKey = replicate 32 1, ra_NetworkID = ''ind-test-1'', ra_ChainID = 7,
     ra_Timestamp = 1000, ra_Nonce = demo_nonce c\<rparr>"

lemma demo_key_pair: "key_pair demo_ed demo_node"
  by (simp add: key_pair_def demo_ed_def demo_node_def)

lemma demo_sendable: "sendable ''node-a''" "sendable ''ind-test-1''"
  using TrimSpace_plain [of "''node-a''"] TrimSpace_plain [of "''ind-test-1''"] by (simp_all add: sendable_def plain_char_def)

lemma demo_hex: "hex_decode (demo_nonce CHR ''0'') \<noteq> None" "hex_decode (demo_nonce CHR ''1'') \<noteq> None"
  by (simp_all add: demo_nonce_def numeral_eq_Suc hex_value_def)

lemma demo_signs:
  assumes "c = CHR ''0'' \<or> c = CHR ''1''"
  shows "SignP2PRequest demo_ed demo_node ''ind-test-1'' 7 demo_get [] 1000 (demo_nonce c) = Inr (demo_request c)"
proof -
  have "hex_decode (demo_nonce c) \<noteq> None" and "length (demo_nonce c) = 64"
    using assms demo_hex by (auto simp: demo_nonce_def)
  then show ?thesis
    using demo_sendable(2)
    by (simp add: SignP2PRequest_def demo_request_def sendable_def IdentityVersion_def NodeIdentityVersion_def Let_def)
      (simp add: demo_node_def demo_ed_def demo_get_def)
qed

lemma demo_accepted:
  assumes "c = CHR ''0'' \<or> c = CHR ''1''" and "fmlookup seen (replay_key (demo_sender c)) = None"
  shows "fst (VerifyP2PRequest demo_ed ''ind-test-1'' 7 (demo_request c) [] 1000 seen) = Inr (demo_sender c)"
proof -
  have "sendable (ni_NodeID demo_node)" using demo_sendable(1) by (simp add: demo_node_def)
  moreover have "\<not> outside_skew 1000 1000" by (simp add: outside_skew_def p2pMessageAuthTimeSkew_def)
  ultimately show ?thesis
    using signed_accepted [OF demo_key_pair _ demo_sendable(2) demo_signs [OF assms(1)], of 1000 seen] assms(2)
    by (simp add: demo_sender_def replay_key_def demo_node_def)
qed

text \<open>The cache after the first request.\<close>

definition demo_seen :: replay_cache where
  "demo_seen = snd (VerifyP2PRequest demo_ed ''ind-test-1'' 7 (demo_request CHR ''0'') [] 1000 fmempty)"

lemma demo_first:
  "VerifyP2PRequest demo_ed ''ind-test-1'' 7 (demo_request CHR ''0'') [] 1000 fmempty = (Inr (demo_sender CHR ''0''), demo_seen)"
  using demo_accepted [of "CHR ''0''" fmempty] unfolding demo_seen_def by (simp add: prod_eq_iff)

lemma demo_seen_value: "demo_seen = fmupd (replay_key (demo_sender CHR ''0'')) 1300 fmempty"
  using accepted_once(2) [OF demo_first]
  by (simp add: consumeRequestNonce_def drop_expired_def p2pMessageAuthTimeSkew_def Let_def fcard_finsert_if fcard_fempty)

lemma demo_other_key: "replay_key (demo_sender CHR ''0'') \<noteq> replay_key (demo_sender CHR ''1'')"
  by (simp add: replay_key_def demo_sender_def demo_nonce_def numeral_eq_Suc)

lemma demo_second:
  "VerifyP2PRequest demo_ed ''ind-test-1'' 7 (demo_request CHR ''1'') [] 1000 demo_seen
    = (Inr (demo_sender CHR ''1''), snd (VerifyP2PRequest demo_ed ''ind-test-1'' 7 (demo_request CHR ''1'') [] 1000 demo_seen))"
  using demo_accepted [of "CHR ''1''" demo_seen] demo_other_key by (simp add: demo_seen_value prod_eq_iff)

theorem signed_request_accepted_witness:
  "key_pair demo_ed demo_node
    \<and> fst (VerifyP2PRequest demo_ed ''ind-test-1'' 7 (demo_request CHR ''0'') [] 1000 fmempty) = Inr (demo_sender CHR ''0'')"
proof -
  have "sendable (ni_NodeID demo_node)" using demo_sendable(1) by (simp add: demo_node_def)
  moreover have "\<not> outside_skew 1000 1000" by (simp add: outside_skew_def p2pMessageAuthTimeSkew_def)
  ultimately show ?thesis
    using signed_request_accepted [OF demo_key_pair _ demo_sendable(2) demo_signs [of "CHR ''0''"], of 1000 fmempty] demo_key_pair
    by (simp add: demo_sender_def demo_node_def)
qed

theorem request_payload_binds_witness:
  "fits32 ''node-a'' \<and> fits32 ''node-b'' \<and> fits32_bytes [1]
    \<and> p2pRequestSigningBytes ''node-a'' [1] ''n'' 7 ''GET'' ''/p2p/status'' 1000 ''x'' []
      \<noteq> p2pRequestSigningBytes ''node-b'' [1] ''n'' 7 ''GET'' ''/p2p/status'' 1000 ''x'' []"
proof -
  have "fits32 ''node-a''" "fits32 ''node-b''" "fits32 ''n''" "fits32 ''GET''" "fits32 ''/p2p/status''" "fits32 ''x''" "fits32_bytes [1]"
    by (simp_all add: fits32_def fits32_bytes_def)
  with request_payload_binds [of "''node-a''" "''node-b''" "[1]" "[1]" "''n''" "''n''" "''GET''" "''GET''" "''/p2p/status''" "''/p2p/status''" "''x''" "''x''"]
  show ?thesis by simp
qed

theorem replay_accepted_iff_witness:
  "VerifyP2PRequest demo_ed ''ind-test-1'' 7 (demo_request CHR ''0'') [] 1000 fmempty = (Inr (demo_sender CHR ''0''), demo_seen)
    \<and> fst (VerifyP2PRequest demo_ed ''ind-test-1'' 7 (demo_request CHR ''0'') [] 1300 demo_seen) = Inr (demo_sender CHR ''0'')"
  using replay_accepted_iff [OF demo_first, of 1300] demo_first by (simp add: demo_sender_def)

theorem no_early_replay_witness:
  "VerifyP2PRequest demo_ed ''ind-test-1'' 7 (demo_request CHR ''0'') [] 1000 fmempty = (Inr (demo_sender CHR ''0''), demo_seen)
    \<and> ra_Nonce (demo_sender CHR ''1'') \<noteq> ra_Nonce (demo_sender CHR ''0'')"
  using no_early_replay [OF demo_first served.start _ _ _ demo_second] demo_first by (simp add: demo_sender_def)

end
