(* ===== verification/Peer_Book.thy ===== *)
theory Peer_Book
  imports P2p_Auth Go_Sort
begin

text \<open>
  \<open>p2p/peer.go\<close> and the helpers of \<open>p2p/maintenance.go\<close> and \<open>p2p/discovery.go\<close> on peer records: the file of known
  peers, their scores and their status. The parser of \<open>net/url\<close> and the texts of RFC 3339 are the record
  \<open>golib\<close>; instants are nanoseconds. The file is what it decodes to; its failures are not modelled, and
  its mutex makes each operation one step. An operation reads the clock once.
\<close>

section \<open>Library calls\<close>

record url =
  u_Scheme :: string
  u_Host :: string
  u_Path :: string
  u_RawQuery :: string
  u_Fragment :: string

record golib =
  lb_ParseURL :: "string \<Rightarrow> err + url"
  lb_URLString :: "url \<Rightarrow> string"
  lb_Format :: "int \<Rightarrow> string"
  lb_Parse :: "string \<Rightarrow> int option"

definition Second :: int where "Second = 1000000000"
definition Minute :: int where "Minute = 60 * Second"
definition Hour :: int where "Hour = 60 * Minute"

definition Contains :: "string \<Rightarrow> string \<Rightarrow> bool" where
  "Contains s t = list_ex (\<lambda>i. take (length t) (drop i s) = t) [0..<Suc (length s)]"

fun Join :: "string list \<Rightarrow> string \<Rightarrow> string" where
  "Join [] sep = []"
| "Join [s] sep = s"
| "Join (s # t # ss) sep = s @ sep @ Join (t # ss) sep"

section \<open>Addresses of peers\<close>

text \<open>The user part of an address, which the code keeps, is part of what \<open>lb_URLString\<close> prints.\<close>

definition NormalizePeerURL :: "golib \<Rightarrow> string \<Rightarrow> err + string" where
  "NormalizePeerURL G peer0 =
    (let peer = TrimSpace peer0 in
     if peer = [] then Inl (Err ''peer url is required'')
     else case lb_ParseURL G peer of
       Inl e \<Rightarrow> Inl e
     | Inr parsed \<Rightarrow>
         if (u_Scheme parsed \<noteq> ''http'' \<and> u_Scheme parsed \<noteq> ''https'') \<or> u_Host parsed = [] then
           Inl (Err ''peer url must be http(s)://host:port'')
         else if u_RawQuery parsed \<noteq> [] \<or> u_Fragment parsed \<noteq> [] \<or> (u_Path parsed \<noteq> [] \<and> u_Path parsed \<noteq> ''/'') then
           Inl (Err ''peer url must not include path, query, or fragment'')
         else Inr (TrimRight (lb_URLString G (parsed\<lparr>u_Path := [], u_RawQuery := [], u_Fragment := []\<rparr>)) CHR ''/''))"

definition ValidatePeerURL :: "golib \<Rightarrow> string \<Rightarrow> err option" where
  "ValidatePeerURL G peer = (case NormalizePeerURL G peer of Inl e \<Rightarrow> Some e | Inr _ \<Rightarrow> None)"

fun unique_peers_loop :: "golib \<Rightarrow> string set \<Rightarrow> string list \<Rightarrow> string list" where
  "unique_peers_loop G seen [] = []"
| "unique_peers_loop G seen (peer # peers) =
     (case NormalizePeerURL G peer of
        Inl _ \<Rightarrow> unique_peers_loop G seen peers
      | Inr normalized \<Rightarrow>
          if normalized \<in> seen then unique_peers_loop G seen peers
          else normalized # unique_peers_loop G (insert normalized seen) peers)"

definition uniquePeers :: "golib \<Rightarrow> string list \<Rightarrow> string list" where
  "uniquePeers G peers = unique_peers_loop G {} peers"

definition MergePeers :: "golib \<Rightarrow> string list list \<Rightarrow> string list" where
  "MergePeers G groups = uniquePeers G (concat groups)"

definition normalizedOrEmpty :: "golib \<Rightarrow> string \<Rightarrow> string" where
  "normalizedOrEmpty G peer =
    (if peer = [] then [] else case NormalizePeerURL G peer of Inl _ \<Rightarrow> [] | Inr normalized \<Rightarrow> normalized)"

section \<open>Records and scores\<close>

definition PeerStatusActive :: string where "PeerStatusActive = ''active''"
definition PeerStatusBad :: string where "PeerStatusBad = ''bad''"
definition PeerStatusCooldown :: string where "PeerStatusCooldown = ''cooldown''"
definition PeerStatusOffline :: string where "PeerStatusOffline = ''offline''"
definition PeerStatusRejected :: string where "PeerStatusRejected = ''rejected''"
definition PeerStatusUnknown :: string where "PeerStatusUnknown = ''unknown''"

lemmas peer_statuses = PeerStatusActive_def PeerStatusBad_def PeerStatusCooldown_def PeerStatusOffline_def
  PeerStatusRejected_def PeerStatusUnknown_def

definition PeerScoreMax :: int where "PeerScoreMax = 100"
definition PeerScoreMin :: int where "PeerScoreMin = - 100"
definition PeerScoreBadThreshold :: int where "PeerScoreBadThreshold = - 20"
definition DefaultMaxDiscoveredPeers :: nat where "DefaultMaxDiscoveredPeers = 16"

record peer_metadata =
  pm_URL :: string
  pm_NodeID :: string
  pm_NetworkID :: string
  pm_ChainID :: u64
  pm_GenesisHash :: string
  pm_ProtocolVersion :: u32
  pm_LastHeight :: u64
  pm_LastTipHash :: string
  pm_LastSeenAt :: string
  pm_FirstSeenAt :: string
  pm_LastSuccessAt :: string
  pm_LastFailureAt :: string
  pm_FailureCount :: int
  pm_SuccessCount :: int
  pm_CooldownUntil :: string
  pm_Status :: string
  pm_Score :: int
  pm_Source :: string
  pm_LastError :: string
  pm_LastScoreReason :: string
  pm_LastScoreAt :: string
  pm_LastLatencyMS :: i64
  pm_LastStatusCheckAt :: string
  pm_Version :: string
  pm_Protocol :: string
  pm_Services :: string
  pm_NextRetryAt :: string
  pm_LastDiscoveryAt :: string

definition new_peer :: "string \<Rightarrow> string \<Rightarrow> peer_metadata" where
  "new_peer u status = \<lparr>pm_URL = u, pm_NodeID = [], pm_NetworkID = [], pm_ChainID = 0, pm_GenesisHash = [],
     pm_ProtocolVersion = 0, pm_LastHeight = 0, pm_LastTipHash = [], pm_LastSeenAt = [], pm_FirstSeenAt = [],
     pm_LastSuccessAt = [], pm_LastFailureAt = [], pm_FailureCount = 0, pm_SuccessCount = 0, pm_CooldownUntil = [],
     pm_Status = status, pm_Score = 0, pm_Source = [], pm_LastError = [], pm_LastScoreReason = [], pm_LastScoreAt = [],
     pm_LastLatencyMS = 0, pm_LastStatusCheckAt = [], pm_Version = [], pm_Protocol = [], pm_Services = [],
     pm_NextRetryAt = [], pm_LastDiscoveryAt = []\<rparr>"

definition clampScore :: "int \<Rightarrow> int" where
  "clampScore score = (if score > PeerScoreMax then PeerScoreMax else if score < PeerScoreMin then PeerScoreMin else score)"

definition clamp :: "int \<Rightarrow> int \<Rightarrow> int \<Rightarrow> int" where
  "clamp v lo hi = (if v < lo then lo else if v > hi then hi else v)"

definition statusForScore :: "int \<Rightarrow> string \<Rightarrow> string" where
  "statusForScore score fallback =
    (if score \<le> PeerScoreBadThreshold then PeerStatusBad
     else if fallback = [] \<or> fallback = PeerStatusBad \<or> fallback = PeerStatusCooldown then PeerStatusActive
     else fallback)"

definition cooling :: "golib \<Rightarrow> int \<Rightarrow> peer_metadata \<Rightarrow> bool" where
  "cooling G now peer = (case lb_Parse G (pm_CooldownUntil peer) of None \<Rightarrow> False | Some until \<Rightarrow> now < until)"

definition currentStatus :: "golib \<Rightarrow> int \<Rightarrow> peer_metadata \<Rightarrow> string" where
  "currentStatus G now peer =
    (if pm_CooldownUntil peer \<noteq> [] then
       if cooling G now peer then PeerStatusCooldown
       else statusForScore (pm_Score peer) (if pm_Status peer = PeerStatusCooldown then PeerStatusUnknown else pm_Status peer)
     else statusForScore (pm_Score peer) (pm_Status peer))"

definition reasonTriggersCooldown :: "string \<Rightarrow> int \<Rightarrow> bool" where
  "reasonTriggersCooldown reason score =
    (if score \<le> PeerScoreBadThreshold then False
     else if reason \<in> {''request failed'', ''handshake mismatch'', ''invalid block'', ''invalid header'', ''fork detected'',
                       ''latency failed'', ''latency high'', ''maintenance failed''} then
       score \<le> - 10
     else False)"

definition reasonRequiresCooldown :: "string \<Rightarrow> bool" where
  "reasonRequiresCooldown reason \<longleftrightarrow> reason = ''sync up to date'' \<or> reason = ''peer status ok'' \<or>
     reason = ''latency excellent'' \<or> reason = ''latency ok''"

definition scoreCooldownElapsed :: "golib \<Rightarrow> string \<Rightarrow> int \<Rightarrow> bool" where
  "scoreCooldownElapsed G v now =
    (if v = [] then True else case lb_Parse G v of None \<Rightarrow> True | Some at \<Rightarrow> now - at \<ge> Minute)"

definition latencyScoreDelta :: "i64 \<Rightarrow> string \<Rightarrow> int \<times> string" where
  "latencyScoreDelta latencyMS errText =
    (if errText \<noteq> [] then (- 3, ''latency failed'')
     else if sint latencyMS \<le> 0 then (0, [])
     else if sint latencyMS \<le> 100 then (2, ''latency excellent'')
     else if sint latencyMS \<le> 500 then (1, ''latency ok'')
     else if sint latencyMS > 2000 then (- 2, ''latency high'')
     else (0, []))"

definition latencyReputationScore :: "i64 \<Rightarrow> int" where
  "latencyReputationScore latencyMS =
    (if sint latencyMS \<le> 0 then 0 else if sint latencyMS \<le> 100 then 10 else if sint latencyMS \<le> 500 then 5
     else if sint latencyMS \<le> 2000 then 0 else - 5)"

definition uptimeReputationScore :: "golib \<Rightarrow> int \<Rightarrow> peer_metadata \<Rightarrow> int" where
  "uptimeReputationScore G now peer =
    (if currentStatus G now peer \<noteq> PeerStatusActive \<or> pm_LastSuccessAt peer = [] then 0
     else case lb_Parse G (pm_LastSuccessAt peer) of
       None \<Rightarrow> 0
     | Some at \<Rightarrow> let age = now - at in if age \<le> Hour then 8 else if age \<le> 24 * Hour then 4 else 1)"

definition reliabilityReputationScore :: "peer_metadata \<Rightarrow> int" where
  "reliabilityReputationScore peer =
    (if pm_SuccessCount peer + pm_FailureCount peer = 0 then 0
     else clamp (pm_SuccessCount peer * 4 - pm_FailureCount peer * 6) (- 50) 50)"

definition failurePenalty :: "peer_metadata \<Rightarrow> int" where
  "failurePenalty peer =
    (if pm_FailureCount peer \<le> 0 then 0
     else clamp (pm_FailureCount peer * 2 + (if pm_LastError peer \<noteq> [] then 3 else 0)) 0 40)"

definition effectivePeerScore :: "golib \<Rightarrow> int \<Rightarrow> peer_metadata \<Rightarrow> int" where
  "effectivePeerScore G now peer =
     clampScore (pm_Score peer + latencyReputationScore (pm_LastLatencyMS peer) + uptimeReputationScore G now peer
                 + reliabilityReputationScore peer - failurePenalty peer)"

definition mergePeerSource :: "string \<Rightarrow> string \<Rightarrow> string" where
  "mergePeerSource existing0 incoming =
    (let existing = (if existing0 = [] then ''peers.json'' else existing0) in
     if incoming = [] \<or> existing = incoming \<or> Contains existing incoming then existing
     else existing @ '' + '' @ incoming)"

text \<open>One round of \<open>uniqueMetadata\<close>, for a record whose address is normalised already.\<close>

definition expire_cooldown :: "golib \<Rightarrow> int \<Rightarrow> peer_metadata \<Rightarrow> peer_metadata" where
  "expire_cooldown G now peer =
    (if pm_CooldownUntil peer \<noteq> [] \<and> (case lb_Parse G (pm_CooldownUntil peer) of None \<Rightarrow> False | Some until \<Rightarrow> \<not> now < until) then
       peer\<lparr>pm_CooldownUntil := [],
            pm_Status := if pm_Status peer = PeerStatusCooldown then PeerStatusUnknown else pm_Status peer\<rparr>
     else peer)"

definition rescored_peer :: "golib \<Rightarrow> int \<Rightarrow> peer_metadata \<Rightarrow> peer_metadata" where
  "rescored_peer G now peer0 =
    (let peer = peer0\<lparr>pm_Score := clampScore (pm_Score peer0)\<rparr>;
         peer = peer\<lparr>pm_Status := currentStatus G now peer\<rparr> in
     if pm_FirstSeenAt peer = [] then peer\<lparr>pm_FirstSeenAt := pm_LastSeenAt peer\<rparr> else peer)"

definition refreshed_peer :: "golib \<Rightarrow> int \<Rightarrow> peer_metadata \<Rightarrow> peer_metadata" where
  "refreshed_peer G now peer0 =
    (let peer = (if pm_Status peer0 = [] then peer0\<lparr>pm_Status := PeerStatusUnknown\<rparr> else peer0);
         peer = expire_cooldown G now peer;
         peer = (if pm_Source peer = [] then peer\<lparr>pm_Source := ''peers.json''\<rparr> else peer) in
     rescored_peer G now peer)"

fun unique_metadata_loop :: "golib \<Rightarrow> int \<Rightarrow> string set \<Rightarrow> peer_metadata list \<Rightarrow> peer_metadata list" where
  "unique_metadata_loop G now seen [] = []"
| "unique_metadata_loop G now seen (peer # peers) =
     (case NormalizePeerURL G (pm_URL peer) of
        Inl _ \<Rightarrow> unique_metadata_loop G now seen peers
      | Inr normalized \<Rightarrow>
          if normalized \<in> seen then unique_metadata_loop G now seen peers
          else refreshed_peer G now (peer\<lparr>pm_URL := normalized\<rparr>) # unique_metadata_loop G now (insert normalized seen) peers)"

definition uniqueMetadata :: "golib \<Rightarrow> int \<Rightarrow> peer_metadata list \<Rightarrow> peer_metadata list" where
  "uniqueMetadata G now peers = unique_metadata_loop G now {} peers"

section \<open>The file of peers\<close>

text \<open>A file of records, of addresses as older versions wrote it, or one that does not decode.\<close>

datatype peer_file = NoFile | Modern "peer_metadata list" | Legacy "string list" | Corrupt

definition LoadMetadata :: "golib \<Rightarrow> int \<Rightarrow> peer_file \<Rightarrow> peer_metadata list \<times> peer_file" where
  "LoadMetadata G now f =
    (case f of
       NoFile \<Rightarrow> ([], f)
     | Modern peers \<Rightarrow> (uniqueMetadata G now peers, f)
     | Legacy peers \<Rightarrow> (uniqueMetadata G now (map (\<lambda>u. new_peer u PeerStatusUnknown) peers), f)
     | Corrupt \<Rightarrow> ([], NoFile))"

definition SaveMetadata :: "golib \<Rightarrow> int \<Rightarrow> peer_metadata list \<Rightarrow> peer_file" where
  "SaveMetadata G now peers = Modern (uniqueMetadata G now peers)"

definition peers_Load :: "golib \<Rightarrow> int \<Rightarrow> peer_file \<Rightarrow> string list \<times> peer_file" where
  "peers_Load G now f = (case LoadMetadata G now f of (peers, f) \<Rightarrow> (uniquePeers G (map pm_URL peers), f))"

definition peers_Save :: "golib \<Rightarrow> int \<Rightarrow> string list \<Rightarrow> peer_file" where
  "peers_Save G now peers = SaveMetadata G now (map (\<lambda>u. new_peer u PeerStatusUnknown) peers)"

text \<open>The loops over the records change the first one with the address.\<close>

fun change_first :: "string \<Rightarrow> (peer_metadata \<Rightarrow> peer_metadata) \<Rightarrow> peer_metadata list \<Rightarrow> peer_metadata list" where
  "change_first u f [] = []"
| "change_first u f (p # ps) = (if pm_URL p = u then f p # ps else p # change_first u f ps)"

definition find_peer :: "string \<Rightarrow> peer_metadata list \<Rightarrow> peer_metadata option" where
  "find_peer u peers = find (\<lambda>p. pm_URL p = u) peers"

definition AddWithSource :: "golib \<Rightarrow> int \<Rightarrow> string \<Rightarrow> string \<Rightarrow> peer_file \<Rightarrow> err option \<times> peer_file" where
  "AddWithSource G now peer source f =
    (case NormalizePeerURL G peer of
       Inl e \<Rightarrow> (Some e, f)
     | Inr peer \<Rightarrow>
     (case LoadMetadata G now f of (peers, f) \<Rightarrow>
        if find_peer peer peers \<noteq> None then
          (if source \<noteq> [] then
             (None, SaveMetadata G now (change_first peer (\<lambda>p. p\<lparr>pm_Source := mergePeerSource (pm_Source p) source\<rparr>) peers))
           else (None, f))
        else (None, SaveMetadata G now (peers @ [(new_peer peer PeerStatusUnknown)\<lparr>pm_Source := source, pm_FirstSeenAt := lb_Format G now\<rparr>]))))"

definition peers_Add :: "golib \<Rightarrow> int \<Rightarrow> string \<Rightarrow> peer_file \<Rightarrow> err option \<times> peer_file" where
  "peers_Add G now peer f = AddWithSource G now peer [] f"

definition merged_peer :: "peer_metadata \<Rightarrow> peer_metadata \<Rightarrow> peer_metadata" where
  "merged_peer peer existing =
    (let peer = (if pm_FirstSeenAt peer = [] then peer\<lparr>pm_FirstSeenAt := pm_FirstSeenAt existing\<rparr> else peer) in
     if pm_Source peer = [] then peer\<lparr>pm_Source := pm_Source existing\<rparr> else peer)"

definition Upsert :: "golib \<Rightarrow> int \<Rightarrow> peer_metadata \<Rightarrow> peer_file \<Rightarrow> err option \<times> peer_file" where
  "Upsert G now peer0 f =
    (case NormalizePeerURL G (pm_URL peer0) of
       Inl e \<Rightarrow> (Some e, f)
     | Inr normalized \<Rightarrow>
         let peer = peer0\<lparr>pm_URL := normalized, pm_Score := clampScore (pm_Score peer0)\<rparr>;
             peer = peer\<lparr>pm_Status := statusForScore (pm_Score peer) (pm_Status peer)\<rparr> in
         (case LoadMetadata G now f of (peers, f) \<Rightarrow>
            (None, SaveMetadata G now
              (if find_peer normalized peers \<noteq> None then change_first normalized (merged_peer peer) peers else peers @ [peer]))))"

text \<open>The score, the status and a cooldown of one minute; the reason and its time are set by the callers.\<close>

definition scored :: "golib \<Rightarrow> int \<Rightarrow> int \<Rightarrow> string \<Rightarrow> string \<Rightarrow> peer_metadata \<Rightarrow> peer_metadata" where
  "scored G now score fallback reason p0 =
    (let p = p0\<lparr>pm_Score := clampScore score, pm_Status := statusForScore (clampScore score) fallback,
                pm_LastScoreReason := reason, pm_LastScoreAt := lb_Format G now\<rparr> in
     if reasonTriggersCooldown reason (pm_Score p) then
       p\<lparr>pm_CooldownUntil := lb_Format G (now + Minute), pm_Status := PeerStatusCooldown\<rparr>
     else p)"

definition AdjustPeerScore :: "golib \<Rightarrow> int \<Rightarrow> string \<Rightarrow> int \<Rightarrow> string \<Rightarrow> peer_file \<Rightarrow> err option \<times> peer_file" where
  "AdjustPeerScore G now peerURL delta reason f =
    (case NormalizePeerURL G peerURL of
       Inl e \<Rightarrow> (Some e, f)
     | Inr peerURL \<Rightarrow>
     (case LoadMetadata G now f of (peers, f) \<Rightarrow>
        (case find_peer peerURL peers of
           Some p \<Rightarrow>
             if reasonRequiresCooldown reason \<and> pm_LastScoreReason p = reason \<and> \<not> scoreCooldownElapsed G (pm_LastScoreAt p) now then
               (None, f)
             else (None, SaveMetadata G now (change_first peerURL (\<lambda>p. scored G now (pm_Score p + delta) (pm_Status p) reason p) peers))
         | None \<Rightarrow>
             (None, SaveMetadata G now (peers @ [scored G now delta PeerStatusActive reason (new_peer peerURL PeerStatusUnknown)])))))"

definition latency_update :: "golib \<Rightarrow> int \<Rightarrow> i64 \<Rightarrow> string \<Rightarrow> peer_metadata \<Rightarrow> peer_metadata" where
  "latency_update G now latencyMS errText p0 =
    (let at = lb_Format G now;
         p = p0\<lparr>pm_LastLatencyMS := latencyMS, pm_LastStatusCheckAt := at, pm_LastError := errText\<rparr>;
         p = (if errText = [] \<and> pm_Status p \<noteq> PeerStatusBad then
                p\<lparr>pm_Status := PeerStatusActive, pm_LastSuccessAt := at, pm_SuccessCount := pm_SuccessCount p + 1\<rparr>
              else if errText \<noteq> [] \<and> pm_Status p \<noteq> PeerStatusBad \<and> pm_Status p \<noteq> PeerStatusRejected then
                p\<lparr>pm_Status := PeerStatusOffline, pm_LastFailureAt := at, pm_FailureCount := pm_FailureCount p + 1\<rparr>
              else p) in
     case latencyScoreDelta latencyMS errText of (delta, reason) \<Rightarrow>
       if delta \<noteq> 0 then scored G now (pm_Score p + delta) (pm_Status p) reason p else p)"

definition UpdateLatency :: "golib \<Rightarrow> int \<Rightarrow> string \<Rightarrow> i64 \<Rightarrow> string \<Rightarrow> peer_file \<Rightarrow> err option \<times> peer_file" where
  "UpdateLatency G now peerURL latencyMS errText f =
    (case NormalizePeerURL G peerURL of
       Inl e \<Rightarrow> (Some e, f)
     | Inr peerURL \<Rightarrow>
     (case LoadMetadata G now f of (peers, f) \<Rightarrow>
        if find_peer peerURL peers \<noteq> None then
          (None, SaveMetadata G now (change_first peerURL (latency_update G now latencyMS errText) peers))
        else
          let at = lb_Format G now;
              meta = (new_peer peerURL (if errText = [] then PeerStatusActive else PeerStatusOffline))
                       \<lparr>pm_FirstSeenAt := at, pm_LastLatencyMS := latencyMS, pm_LastStatusCheckAt := at, pm_LastError := errText\<rparr>;
              meta = (if errText = [] then meta\<lparr>pm_LastSuccessAt := at, pm_SuccessCount := 1\<rparr>
                      else meta\<lparr>pm_LastFailureAt := at, pm_FailureCount := 1\<rparr>) in
          (case latencyScoreDelta latencyMS errText of (delta, reason) \<Rightarrow>
             (None, SaveMetadata G now (peers @ [scored G now delta (pm_Status meta) reason meta])))))"

definition peers_Remove :: "golib \<Rightarrow> int \<Rightarrow> string \<Rightarrow> peer_file \<Rightarrow> err option \<times> peer_file" where
  "peers_Remove G now peer f =
    (case NormalizePeerURL G peer of
       Inl e \<Rightarrow> (Some e, f)
     | Inr peer \<Rightarrow>
     (case LoadMetadata G now f of (peers, f) \<Rightarrow> (None, SaveMetadata G now (filter (\<lambda>p. pm_URL p \<noteq> peer) peers))))"

definition peers_Clear :: "golib \<Rightarrow> int \<Rightarrow> peer_file" where
  "peers_Clear G now = SaveMetadata G now []"

definition peerLastSeen :: "golib \<Rightarrow> peer_metadata \<Rightarrow> int option" where
  "peerLastSeen G peer =
    (case List.map_filter (\<lambda>v. if v = [] then None else lb_Parse G v) [pm_LastSeenAt peer, pm_LastSuccessAt peer, pm_FirstSeenAt peer] of
       [] \<Rightarrow> None
     | at # _ \<Rightarrow> Some at)"

definition keeps_peer :: "golib \<Rightarrow> int \<Rightarrow> int \<Rightarrow> peer_metadata \<Rightarrow> bool" where
  "keeps_peer G ttl now peer =
    (if pm_Source peer = ''seed'' \<or> Contains (pm_Source peer) ''seed'' then True
     else case peerLastSeen G peer of None \<Rightarrow> True | Some lastSeen \<Rightarrow> now - lastSeen \<le> ttl)"

definition PruneExpired :: "golib \<Rightarrow> int \<Rightarrow> int \<Rightarrow> peer_file \<Rightarrow> nat \<times> peer_file" where
  "PruneExpired G ttl now f =
    (if ttl \<le> 0 then (0, f)
     else case LoadMetadata G now f of (peers, f) \<Rightarrow>
       let kept = filter (keeps_peer G ttl now) peers;
           pruned = length peers - length kept in
       if pruned = 0 then (0, f) else (pruned, SaveMetadata G now kept))"

section \<open>Views and selection\<close>

definition MetadataFromHandshake :: "golib \<Rightarrow> int \<Rightarrow> string \<Rightarrow> handshake \<Rightarrow> int \<Rightarrow> peer_metadata" where
  "MetadataFromHandshake G now u hs scoreDelta =
    (let u = (case NormalizePeerURL G u of Inl _ \<Rightarrow> u | Inr normalized \<Rightarrow> normalized);
         score = clampScore scoreDelta;
         services = Join (hs_Services hs) '','';
         at = lb_Format G now in
     (new_peer u (statusForScore score PeerStatusActive))
       \<lparr>pm_NodeID := hs_NodeID hs, pm_NetworkID := hs_NetworkID hs, pm_ChainID := hs_ChainID hs, pm_GenesisHash := hs_GenesisHash hs,
        pm_ProtocolVersion := hs_ProtocolVersion hs, pm_LastHeight := hs_Height hs, pm_LastTipHash := hs_TipHash hs,
        pm_LastSeenAt := at, pm_FirstSeenAt := at, pm_LastSuccessAt := at, pm_SuccessCount := 1, pm_Score := score,
        pm_Version := hs_NetworkName hs, pm_Protocol := hs_P2PProtocolVersion hs,
        pm_Services := if services = [] then ''p2p'' else services\<rparr>)"

definition PeerViewFromMetadata :: "golib \<Rightarrow> int \<Rightarrow> peer_metadata \<Rightarrow> peer_view" where
  "PeerViewFromMetadata G now peer =
    \<lparr>pv_URL = pm_URL peer, pv_Source = pm_Source peer, pv_Status = currentStatus G now peer, pv_Score = pm_Score peer,
     pv_LastHeight = pm_LastHeight peer, pv_LastTipHash = pm_LastTipHash peer, pv_LastNetworkID = pm_NetworkID peer,
     pv_LastChainID = pm_ChainID peer, pv_LastGenesisHash = pm_GenesisHash peer, pv_LastSuccess = pm_LastSuccessAt peer,
     pv_LastFailure = pm_LastFailureAt peer, pv_FailureCount = pm_FailureCount peer, pv_SuccessCount = pm_SuccessCount peer,
     pv_LastLatencyMS = pm_LastLatencyMS peer, pv_CooldownUntil = pm_CooldownUntil peer, pv_LastError = pm_LastError peer,
     pv_Version = pm_Version peer, pv_Protocol = pm_Protocol peer, pv_Services = pm_Services peer,
     pv_NextRetryAt = pm_NextRetryAt peer\<rparr>"

text \<open>\<open>shuffle\<close> is the random order of \<open>rand.Shuffle\<close>.\<close>

definition SelectPeers ::
  "golib \<Rightarrow> int \<Rightarrow> (peer_metadata list \<Rightarrow> peer_metadata list) \<Rightarrow> peer_metadata list \<Rightarrow> bool \<Rightarrow> nat \<Rightarrow> peer_metadata list" where
  "SelectPeers G now shuffle peers includeCooldown limit =
    (let filtered = filter (\<lambda>p. \<not> (pm_Status p = PeerStatusBad \<or> pm_Status p = PeerStatusRejected \<or> pm_Status p = PeerStatusOffline)
                             \<and> \<not> (\<not> includeCooldown \<and> currentStatus G now p = PeerStatusCooldown)) (uniqueMetadata G now peers);
         ordered = sort_by (\<lambda>p q. effectivePeerScore G now p > effectivePeerScore G now q) (shuffle filtered) in
     if limit > 0 \<and> length ordered > limit then take limit ordered else ordered)"

definition PeerViews ::
  "golib \<Rightarrow> int \<Rightarrow> (peer_metadata list \<Rightarrow> peer_metadata list) \<Rightarrow> peer_metadata list \<Rightarrow> nat \<Rightarrow> peer_view list" where
  "PeerViews G now shuffle peers limit0 =
    (let limit = (if limit0 = 0 \<or> limit0 > DefaultMaxDiscoveredPeers then DefaultMaxDiscoveredPeers else limit0) in
     map (PeerViewFromMetadata G now) (SelectPeers G now shuffle peers True limit))"

section \<open>Retries\<close>

definition peerRetryDue :: "golib \<Rightarrow> peer_metadata \<Rightarrow> int \<Rightarrow> bool" where
  "peerRetryDue G peer now =
    (if pm_NextRetryAt peer = [] then True
     else case lb_Parse G (pm_NextRetryAt peer) of None \<Rightarrow> True | Some at \<Rightarrow> \<not> now < at)"

text \<open>The loop of \<open>peerBackoff\<close>, with \<open>n\<close> rounds left; a delay is an \<open>int64\<close> of nanoseconds.\<close>

fun backoff_loop :: "nat \<Rightarrow> i64 \<Rightarrow> i64 \<Rightarrow> i64" where
  "backoff_loop 0 hi delay = (if sint delay > sint hi then hi else delay)"
| "backoff_loop (Suc n) hi delay = (let delay = delay * 2 in if sint delay \<ge> sint hi then hi else backoff_loop n hi delay)"

definition peerBackoff :: "int \<Rightarrow> i64 \<Rightarrow> i64 \<Rightarrow> i64" where
  "peerBackoff failures base hi = (if failures \<le> 0 then 0 else backoff_loop (nat (failures - 1)) hi base)"

definition markPeerMaintenanceFailure ::
  "golib \<Rightarrow> peer_metadata \<Rightarrow> string \<Rightarrow> int \<Rightarrow> i64 \<Rightarrow> i64 \<Rightarrow> peer_file \<Rightarrow> peer_file" where
  "markPeerMaintenanceFailure G peer errText now base hi f =
    (case LoadMetadata G now f of (peers, f) \<Rightarrow>
       if find_peer (pm_URL peer) peers \<noteq> None then
         SaveMetadata G now (change_first (pm_URL peer) (\<lambda>p.
           p\<lparr>pm_LastFailureAt := lb_Format G now, pm_FailureCount := pm_FailureCount p + 1, pm_LastError := errText,
             pm_Status := PeerStatusOffline, pm_LastScoreReason := ''maintenance failed'', pm_LastScoreAt := lb_Format G now,
             pm_NextRetryAt := lb_Format G (now + sint (peerBackoff (pm_FailureCount p + 1) base hi))\<rparr>) peers)
       else f)"

section \<open>Peers the server learns of\<close>

record introduction =
  in_URL :: string
  in_NodeID :: string
  in_NetworkID :: string
  in_ChainID :: u64
  in_Version :: string
  in_Protocol :: string
  in_Services :: string

text \<open>\<open>strings.EqualFold\<close> is that of the prelude, which is exact for ASCII addresses.\<close>

definition isSelfPeerURL :: "golib \<Rightarrow> string \<Rightarrow> string \<Rightarrow> bool" where
  "isSelfPeerURL G peerURL selfURL =
    (if selfURL = [] then False
     else case (lb_ParseURL G peerURL, lb_ParseURL G selfURL) of
       (Inr a, Inr b) \<Rightarrow> EqualFold (u_Scheme a) (u_Scheme b) \<and> EqualFold (u_Host a) (u_Host b)
     | _ \<Rightarrow> TrimRight peerURL CHR ''/'' = TrimRight selfURL CHR ''/'')"

definition introduced :: "golib \<Rightarrow> int \<Rightarrow> introduction \<Rightarrow> peer_metadata" where
  "introduced G now intro =
    (new_peer (in_URL intro) PeerStatusActive)
      \<lparr>pm_NodeID := in_NodeID intro, pm_NetworkID := in_NetworkID intro, pm_ChainID := in_ChainID intro, pm_Score := 5,
       pm_Source := ''inbound'', pm_LastSeenAt := lb_Format G now, pm_FirstSeenAt := lb_Format G now,
       pm_LastScoreReason := ''peer connect'', pm_LastScoreAt := lb_Format G now, pm_Version := in_Version intro,
       pm_Protocol := in_Protocol intro, pm_Services := in_Services intro\<rparr>"

definition acceptPeerIntroduction ::
  "golib \<Rightarrow> int \<Rightarrow> string \<Rightarrow> network_config \<Rightarrow> introduction \<Rightarrow> peer_file \<Rightarrow> err option \<times> peer_file" where
  "acceptPeerIntroduction G now self net intro f =
    (if in_URL intro = [] then (Some (Err ''peer url is required''), f)
     else case ValidatePeerURL G (in_URL intro) of
       Some e \<Rightarrow> (Some e, f)
     | None \<Rightarrow>
     if isSelfPeerURL G (in_URL intro) self then (None, f)
     else if nc_RequireAuthenticatedNode net \<and> TrimSpace (in_NodeID intro) = [] then (Some (Err ''peer node id is required''), f)
     else if nc_RequireAuthenticatedNode net \<and> TrimSpace (in_NetworkID intro) = [] then (Some (Err ''peer network id is required''), f)
     else if nc_RequireAuthenticatedNode net \<and> in_ChainID intro = 0 then (Some (Err ''peer chain id is required''), f)
     else if in_NetworkID intro \<noteq> [] \<and> in_NetworkID intro \<noteq> nc_NetworkID net then
       (Some (Err ''network id mismatch: local=%s peer=%s''), f)
     else if in_ChainID intro \<noteq> 0 \<and> in_ChainID intro \<noteq> nc_ChainID net then
       (Some (Err ''chain id mismatch: local=%d peer=%d''), f)
     else Upsert G now (introduced G now intro) f)"

definition learnInboundPeer ::
  "golib \<Rightarrow> int \<Rightarrow> string \<Rightarrow> network_config \<Rightarrow> header \<Rightarrow> peer_file \<Rightarrow> peer_file" where
  "learnInboundPeer G now self net h f =
    (let intro = \<lparr>in_URL = get_or [] h ''X-IND-P2P-URL'', in_NodeID = get_or [] h authHeaderNodeID,
                  in_NetworkID = get_or [] h authHeaderNetworkID, in_ChainID = nc_ChainID net,
                  in_Version = nc_NetworkName net, in_Protocol = nc_P2PProtocolVersion net, in_Services = ''p2p''\<rparr> in
     if in_URL intro = [] then f else snd (acceptPeerIntroduction G now self net intro f))"

definition safeKnownPeers :: "golib \<Rightarrow> int \<Rightarrow> string \<Rightarrow> peer_file \<Rightarrow> peer_metadata list \<times> peer_file" where
  "safeKnownPeers G now self f =
    (case LoadMetadata G now f of (peers, f) \<Rightarrow>
       (filter (\<lambda>p. \<not> (pm_URL p = [] \<or> isSelfPeerURL G (pm_URL p) self) \<and> ValidatePeerURL G (pm_URL p) = None) peers, f))"

definition countActivePeers :: "golib \<Rightarrow> int \<Rightarrow> peer_metadata list \<Rightarrow> nat" where
  "countActivePeers G now peers = length (filter (\<lambda>p. currentStatus G now p = PeerStatusActive) peers)"

definition countSourcePeers :: "peer_metadata list \<Rightarrow> string \<Rightarrow> nat" where
  "countSourcePeers peers source = length (filter (\<lambda>p. Contains (pm_Source p) source) peers)"

section \<open>Notes on a peer\<close>

definition failureStatus :: "string \<Rightarrow> string" where
  "failureStatus reason =
    (if reason = ''request failed'' then PeerStatusOffline
     else if reason \<in> {''handshake mismatch'', ''invalid block'', ''invalid header'', ''fork detected''} then PeerStatusRejected
     else PeerStatusUnknown)"

definition normal_or_same :: "golib \<Rightarrow> string \<Rightarrow> string" where
  "normal_or_same G peer = (case NormalizePeerURL G peer of Inl _ \<Rightarrow> peer | Inr normalized \<Rightarrow> normalized)"

definition notePeerSuccess ::
  "golib \<Rightarrow> int \<Rightarrow> string \<Rightarrow> handshake \<Rightarrow> int \<Rightarrow> string \<Rightarrow> peer_file \<Rightarrow> err option \<times> peer_file" where
  "notePeerSuccess G now peer0 hs scoreDelta reason f =
    (let peer = normal_or_same G peer0 in
     case LoadMetadata G now f of (peers, f) \<Rightarrow>
     (case (case find_peer peer peers of
        None \<Rightarrow> Some ((MetadataFromHandshake G now peer hs 0)\<lparr>pm_LastError := [], pm_LastScoreReason := [], pm_LastScoreAt := []\<rparr>)
      | Some existing \<Rightarrow>
          if reasonRequiresCooldown reason \<and> pm_LastScoreReason existing = reason
             \<and> \<not> scoreCooldownElapsed G (pm_LastScoreAt existing) now
             \<and> pm_LastHeight existing = hs_Height hs \<and> pm_LastTipHash existing = hs_TipHash hs then None
          else Some ((MetadataFromHandshake G now peer hs (pm_Score existing))
            \<lparr>pm_FirstSeenAt := pm_FirstSeenAt existing, pm_Source := pm_Source existing, pm_FailureCount := pm_FailureCount existing,
             pm_LastFailureAt := pm_LastFailureAt existing, pm_SuccessCount := pm_SuccessCount existing + 1, pm_CooldownUntil := [],
             pm_LastError := [], pm_LastScoreReason := pm_LastScoreReason existing, pm_LastScoreAt := pm_LastScoreAt existing\<rparr>)) of
        None \<Rightarrow> (None, f)
      | Some meta \<Rightarrow>
      (case Upsert G now meta f of
         (Some e, f) \<Rightarrow> (Some e, f)
       | (None, f) \<Rightarrow> AdjustPeerScore G now peer scoreDelta reason f)))"

definition notePeerFailure ::
  "golib \<Rightarrow> int \<Rightarrow> string \<Rightarrow> string \<Rightarrow> int \<Rightarrow> string \<Rightarrow> peer_file \<Rightarrow> err option \<times> peer_file" where
  "notePeerFailure G now peer0 errText scoreDelta reason f =
    (let peer = normal_or_same G peer0; at = lb_Format G now in
     case LoadMetadata G now f of (peers, f) \<Rightarrow>
     let meta = (case find_peer peer peers of
           None \<Rightarrow> (new_peer peer (failureStatus reason))
             \<lparr>pm_LastError := errText, pm_FirstSeenAt := at, pm_LastFailureAt := at, pm_FailureCount := 1\<rparr>
         | Some existing \<Rightarrow> existing\<lparr>pm_LastError := errText, pm_Status := failureStatus reason, pm_LastFailureAt := at,
             pm_FailureCount := pm_FailureCount existing + 1\<rparr>) in
     (case Upsert G now meta f of
        (Some e, f) \<Rightarrow> (Some e, f)
      | (None, f) \<Rightarrow> AdjustPeerScore G now peer scoreDelta reason f))"

end
