(* ===== verification/Peer_Facts.thy ===== *)
theory Peer_Facts
  imports Peer_Book
begin

text \<open>
  What holds of the file of peers: every list that is read or written is well formed, failures delay retries
  by doubling up to a limit, and an introduction replaces whatever was known of a peer.
\<close>

section \<open>Well-formed records\<close>

definition peer_ok :: "peer_metadata \<Rightarrow> bool" where
  "peer_ok p \<longleftrightarrow> PeerScoreMin \<le> pm_Score p \<and> pm_Score p \<le> PeerScoreMax \<and> pm_Status p \<noteq> [] \<and> pm_Source p \<noteq> []
     \<and> (pm_Score p \<le> PeerScoreBadThreshold \<longrightarrow> pm_Status p = PeerStatusBad \<or> pm_Status p = PeerStatusCooldown)
     \<and> (pm_Status p = PeerStatusBad \<longrightarrow> pm_Score p \<le> PeerScoreBadThreshold)
     \<and> (pm_Status p = PeerStatusCooldown \<longrightarrow> pm_CooldownUntil p \<noteq> [])"

definition book_ok :: "golib \<Rightarrow> peer_metadata list \<Rightarrow> bool" where
  "book_ok G peers \<longleftrightarrow> distinct (map pm_URL peers) \<and> list_all peer_ok peers
     \<and> (\<forall>p \<in> set peers. \<exists>u. NormalizePeerURL G u = Inr (pm_URL p))"

lemma clampScore_range: "PeerScoreMin \<le> clampScore s \<and> clampScore s \<le> PeerScoreMax"
  by (simp add: clampScore_def PeerScoreMin_def PeerScoreMax_def)

lemma refreshed_url [simp]: "pm_URL (refreshed_peer G now p) = pm_URL p"
  by (simp add: refreshed_peer_def rescored_peer_def expire_cooldown_def Let_def)

lemma currentStatus_ok:
  "currentStatus G now p \<noteq> []"
  "pm_Score p \<le> PeerScoreBadThreshold \<Longrightarrow> currentStatus G now p = PeerStatusBad \<or> currentStatus G now p = PeerStatusCooldown"
  "currentStatus G now p = PeerStatusBad \<Longrightarrow> pm_Score p \<le> PeerScoreBadThreshold"
  "currentStatus G now p = PeerStatusCooldown \<Longrightarrow> pm_CooldownUntil p \<noteq> []"
  by (auto simp: currentStatus_def statusForScore_def peer_statuses split: if_splits)

lemma rescored_ok: "pm_Source p \<noteq> [] \<Longrightarrow> peer_ok (rescored_peer G now p)"
  using clampScore_range [of "pm_Score p"] currentStatus_ok [where G = G and now = now and p = "p\<lparr>pm_Score := clampScore (pm_Score p)\<rparr>"]
  by (simp add: peer_ok_def rescored_peer_def Let_def)

lemma refreshed_ok: "peer_ok (refreshed_peer G now p)"
  unfolding refreshed_peer_def Let_def by (rule rescored_ok) simp

lemma unique_loop_ok:
  "book_ok G (unique_metadata_loop G now seen peers) \<and> set (map pm_URL (unique_metadata_loop G now seen peers)) \<inter> seen = {}"
  by (induction G now seen peers rule: unique_metadata_loop.induct)
    (auto simp: book_ok_def refreshed_ok split: sum.splits)

text \<open>
  C30. Peer records are well formed: whatever the file of peers holds, hand-written or damaged included, and whatever
  list of records is saved, the records that are read and written have distinct addresses in normal
  form, scores between -100 and 100, a status and a source, are marked bad or in cooldown when the
  score is at or below -20, and marked bad only then.
\<close>

theorem peer_book_ok: "book_ok G (fst (LoadMetadata G now f)) \<and> (\<exists>peers'. SaveMetadata G now peers = Modern peers' \<and> book_ok G peers')"
  using unique_loop_ok [of G now "{}"] by (auto simp: LoadMetadata_def SaveMetadata_def uniqueMetadata_def book_ok_def split: peer_file.splits)

section \<open>Introductions\<close>

text \<open>What the code relies on of \<open>net/url\<close>: an address in normal form is its own normal form.\<close>

definition stable_urls :: "golib \<Rightarrow> bool" where
  "stable_urls G \<longleftrightarrow> (\<forall>s t. NormalizePeerURL G s = Inr t \<longrightarrow> NormalizePeerURL G t = Inr t)"

lemma find_unique:
  assumes "\<And>p. p \<in> set peers \<Longrightarrow> NormalizePeerURL G (pm_URL p) = Inr (pm_URL p)" and "u \<notin> seen"
  shows "find_peer u (unique_metadata_loop G now seen peers) = map_option (refreshed_peer G now) (find_peer u peers)"
  using assms
proof (induction peers arbitrary: seen)
  case (Cons p peers)
  then have p: "NormalizePeerURL G (pm_URL p) = Inr (pm_URL p)" by simp
  have "p\<lparr>pm_URL := pm_URL p\<rparr> = p" by simp
  with Cons.IH [of seen] Cons.IH [of "insert (pm_URL p) seen"] Cons.prems p show ?case
    by (cases "pm_URL p = u") (auto simp: find_peer_def)
qed (simp add: find_peer_def)

lemma find_change_first: "\<forall>p. pm_URL (f p) = u \<Longrightarrow> find_peer u (change_first u f peers) = map_option f (find_peer u peers)"
  by (induction peers) (auto simp: find_peer_def)

lemma change_first_urls: "\<forall>p. pm_URL (f p) = u \<Longrightarrow> map pm_URL (change_first u f peers) = map pm_URL peers"
  by (induction peers) auto

lemma find_append: "find_peer u (xs @ ys) = (case find_peer u xs of None \<Rightarrow> find_peer u ys | Some p \<Rightarrow> Some p)"
  by (induction xs) (auto simp: find_peer_def)

lemma book_normal: "stable_urls G \<Longrightarrow> book_ok G peers \<Longrightarrow> p \<in> set peers \<Longrightarrow> NormalizePeerURL G (pm_URL p) = Inr (pm_URL p)"
  by (auto simp: book_ok_def stable_urls_def)

lemma Upsert_stores:
  assumes "stable_urls G" and "NormalizePeerURL G (pm_URL peer) = Inr u" and "pm_FirstSeenAt peer \<noteq> []" and "pm_Source peer \<noteq> []"
  shows "\<exists>peers. Upsert G now peer f = (None, Modern peers) \<and>
    find_peer u peers = Some (refreshed_peer G now (peer\<lparr>pm_URL := u, pm_Score := clampScore (pm_Score peer),
      pm_Status := statusForScore (clampScore (pm_Score peer)) (pm_Status peer)\<rparr>))"
proof -
  let ?peer = "peer\<lparr>pm_URL := u, pm_Score := clampScore (pm_Score peer),
      pm_Status := statusForScore (clampScore (pm_Score peer)) (pm_Status peer)\<rparr>"
  obtain peers f' where load: "LoadMetadata G now f = (peers, f')" by fastforce
  then have ok: "book_ok G peers" using unique_loop_ok [of G now "{}"] 
    by (auto simp: LoadMetadata_def uniqueMetadata_def book_ok_def split: peer_file.splits)
  let ?new = "if find_peer u peers \<noteq> None then change_first u (merged_peer ?peer) peers else peers @ [?peer]"
  have same: "merged_peer ?peer q = ?peer" for q using assms(3, 4) by (simp add: merged_peer_def)
  have u: "NormalizePeerURL G u = Inr u" using assms(1, 2) by (auto simp: stable_urls_def)
  have "pm_URL ` set ?new \<subseteq> insert u (pm_URL ` set peers)"
    using arg_cong [OF change_first_urls [of "merged_peer ?peer" u peers], of set] by (auto simp: same)
  then have urls: "pm_URL p = u \<or> (\<exists>q \<in> set peers. pm_URL p = pm_URL q)" if "p \<in> set ?new" for p using that by blast
  have "NormalizePeerURL G (pm_URL p) = Inr (pm_URL p)" if "p \<in> set ?new" for p
    using urls [OF that] book_normal [OF assms(1) ok] u by metis
  then have "find_peer u (uniqueMetadata G now ?new) = map_option (refreshed_peer G now) (find_peer u ?new)"
    unfolding uniqueMetadata_def by (intro find_unique) auto
  moreover have "find_peer u ?new = Some ?peer"
    using find_change_first [of "merged_peer ?peer" u peers] by (auto simp: same find_append) (simp add: find_peer_def)
  ultimately show ?thesis using assms(2) load by (auto simp: Upsert_def SaveMetadata_def Let_def)
qed

lemma refreshed_same:
  assumes "pm_Status p = PeerStatusActive" "pm_CooldownUntil p = []" "pm_Source p \<noteq> []" "pm_FirstSeenAt p \<noteq> []" "pm_Score p = 5"
  shows "refreshed_peer G now p = p"
proof -
  have "p\<lparr>pm_Score := pm_Score p\<rparr> = p" "p\<lparr>pm_Status := pm_Status p\<rparr> = p" by simp_all
  moreover have "clampScore (pm_Score p) = pm_Score p" using assms(5) by (simp add: clampScore_def PeerScoreMax_def PeerScoreMin_def)
  moreover have "currentStatus G now p = pm_Status p"
    using assms by (simp add: currentStatus_def statusForScore_def peer_statuses PeerScoreBadThreshold_def)
  ultimately have "rescored_peer G now p = p" using assms(4) by (simp add: rescored_peer_def)
  moreover have "expire_cooldown G now p = p" using assms(2) by (simp add: expire_cooldown_def)
  moreover have "pm_Status p \<noteq> []" using assms(1) by (simp add: PeerStatusActive_def)
  ultimately show ?thesis using assms(3) by (simp add: refreshed_peer_def)
qed

text \<open>
  An introduction wipes a reputation: whatever the node has recorded of a peer, a rejected handshake, a bad score
  or a cooldown included, an introduction with its address that is accepted leaves a record with a
  score of 5, no failures, no error and no cooldown, marked active.
\<close>

theorem introduction_resets:
  assumes "stable_urls G" and "NormalizePeerURL G (in_URL intro) = Inr u" and "lb_Format G now \<noteq> []"
    and "\<not> isSelfPeerURL G (in_URL intro) self"
    and "fst (acceptPeerIntroduction G now self net intro f) = None"
  shows "\<exists>peers p. snd (acceptPeerIntroduction G now self net intro f) = Modern peers \<and> find_peer u peers = Some p
    \<and> pm_Score p = 5 \<and> pm_Status p = PeerStatusActive \<and> pm_FailureCount p = 0 \<and> pm_CooldownUntil p = [] \<and> pm_LastError p = []"
proof -
  have "acceptPeerIntroduction G now self net intro f = Upsert G now (introduced G now intro) f"
    using assms(4, 5) by (auto simp: acceptPeerIntroduction_def split: option.splits if_splits)
  moreover have five: "clampScore 5 = 5" "statusForScore 5 PeerStatusActive = PeerStatusActive"
    by (simp_all add: clampScore_def statusForScore_def peer_statuses PeerScoreMax_def PeerScoreMin_def PeerScoreBadThreshold_def)
  moreover have fields: "pm_Status (introduced G now intro) = PeerStatusActive" "pm_CooldownUntil (introduced G now intro) = []"
    "pm_Source (introduced G now intro) \<noteq> []" "pm_FirstSeenAt (introduced G now intro) \<noteq> []" "pm_Score (introduced G now intro) = 5"
    "pm_URL (introduced G now intro) = in_URL intro" "pm_FailureCount (introduced G now intro) = 0" "pm_LastError (introduced G now intro) = []"
    using assms(3) by (simp_all add: introduced_def new_peer_def)
  moreover obtain peers where "Upsert G now (introduced G now intro) f = (None, Modern peers)"
    "find_peer u peers = Some (refreshed_peer G now ((introduced G now intro)\<lparr>pm_URL := u, pm_Score := 5, pm_Status := PeerStatusActive\<rparr>))"
    using Upsert_stores [OF assms(1), of "introduced G now intro" u now f] assms(2) fields five by auto
  ultimately show ?thesis by (simp add: refreshed_same)
qed

section \<open>Retries\<close>

lemma sint_double: "0 \<le> sint d \<Longrightarrow> sint d < 2 ^ 62 \<Longrightarrow> sint ((d :: i64) * 2) = sint d * 2"
  by (simp add: sint_word_ariths signed_take_bit_int_eq_self)

lemma backoff_loop_value:
  assumes "0 < sint d" and "sint d \<le> sint hi" and "sint hi < 2 ^ 62"
  shows "sint (backoff_loop n hi d) = min (sint hi) (sint d * 2 ^ n)"
  using assms
proof (induction n arbitrary: d)
  case (Suc n)
  note two = sint_double [of d]
  show ?case
  proof (cases "sint (d * 2) \<ge> sint hi")
    case True
    have "sint hi \<le> sint d * 2" using True Suc.prems two by simp
    moreover have "sint d * 2 \<le> sint d * 2 ^ Suc n" using Suc.prems(1) by simp
    ultimately have "min (sint hi) (sint d * 2 ^ Suc n) = sint hi" by linarith
    with True show ?thesis by (simp only: backoff_loop.simps Let_def if_True)
  next
    case False
    then show ?thesis using Suc.IH [of "d * 2"] Suc.prems two by (simp add: Let_def mult.assoc)
  qed
qed (simp add: min_def)

text \<open>
  Retries back off: after \<open>n\<close> failures in a row the delay is the base doubled \<open>n - 1\<close> times, cut off at the
  maximum; it never wraps.
\<close>

theorem peerBackoff_value:
  assumes "0 < sint base" and "sint base \<le> sint hi" and "sint hi < 2 ^ 62" and "0 < failures"
  shows "sint (peerBackoff failures base hi) = min (sint hi) (sint base * 2 ^ nat (failures - 1))"
  using backoff_loop_value [OF assms(1-3)] assms(4) by (simp add: peerBackoff_def)

end
