(* ===== verification/Reorg.thy ===== *)
theory Reorg
  imports Peer_Book Blockchain
begin

text \<open>
  \<open>p2p/reorg.go\<close>, \<open>p2p/fork.go\<close>, \<open>p2p/ancestor.go\<close> and the opening of the chain: comparing with the chain of a peer,
  planning and applying a reorganisation, and revalidating the pool. What a peer answers is the
  record \<open>remote\<close> of theory P2p_Auth; the peer may answer differently each time it is asked again, so a function
  takes one record for each series of calls. A failure to open the database file is an argument.
  Reading and writing the pool does not fail. The order of Go's maps is an argument.
\<close>

section \<open>Opening the chain\<close>

definition OpenBolt :: "err option \<Rightarrow> 'b bolt \<Rightarrow> 'b bolt_db \<Rightarrow> err option \<times> 'b bolt_db" where
  "OpenBolt opened B db =
    (case opened of
       Some e \<Rightarrow> (Some e, db)
     | None \<Rightarrow>
     (case store_Init B db of
        (Some e, db) \<Rightarrow> (Some e, db)
      | (None, db) \<Rightarrow> (store_ValidateStartupIntegrity B db, db)))"

definition openChainWithProfile ::
  "err option \<Rightarrow> ext \<Rightarrow> 'b bolt \<Rightarrow> network_config \<Rightarrow> 'b bolt_db \<Rightarrow> err option \<times> 'b bolt_db" where
  "openChainWithProfile opened X B profile db =
    (case OpenBolt opened B db of
       (Some e, db) \<Rightarrow> (Some e, db)
     | (None, db) \<Rightarrow> InitWithProfile X B profile db)"

text \<open>Open the chain and read its blocks.\<close>

definition open_blocks ::
  "err option \<Rightarrow> ext \<Rightarrow> 'b bolt \<Rightarrow> network_config \<Rightarrow> 'b bolt_db \<Rightarrow> (err + block list) \<times> 'b bolt_db" where
  "open_blocks opened X B profile db =
    (case openChainWithProfile opened X B profile db of
       (Some e, db) \<Rightarrow> (Inl e, db)
     | (None, db) \<Rightarrow> (store_Blocks B db, db))"

section \<open>Forks\<close>

definition LocatorFromBlocks :: "block list \<Rightarrow> locator_response option" where
  "LocatorFromBlocks blocks =
     map_option (\<lambda>locator. \<lparr>lr_Height = b_Height (last blocks), lr_TipHash = b_Hash (last blocks), lr_Locator = locator\<rparr>)
       (BuildBlockLocator blocks)"

definition no_ancestor :: "string \<Rightarrow> common_ancestor" where
  "no_ancestor text = \<lparr>ca_Found = False, ca_Height = 0, ca_Hash = [], ca_Error = text\<rparr>"

definition FindCommonAncestorWithProfile ::
  "err option \<Rightarrow> ext \<Rightarrow> 'b bolt \<Rightarrow> locator_entry list \<Rightarrow> network_config \<Rightarrow> 'b bolt_db \<Rightarrow> (err + common_ancestor) \<times> 'b bolt_db" where
  "FindCommonAncestorWithProfile opened X B locator profile db =
    (if locator = [] then (Inr (no_ancestor ''empty locator''), db)
     else case open_blocks opened X B profile db of
       (Inl e, db) \<Rightarrow> (Inl e, db)
     | (Inr blocks, db) \<Rightarrow>
         (case FindCommonAncestor blocks locator of
            None \<Rightarrow> (Inr (no_ancestor ''no common ancestor found''), db)
          | Some a \<Rightarrow> (Inr \<lparr>ca_Found = True, ca_Height = le_Height a, ca_Hash = le_Hash a, ca_Error = []\<rparr>, db)))"

text \<open>The handler of the server and the wrapper it calls.\<close>

definition p2p_FindCommonAncestor ::
  "err option \<Rightarrow> ext \<Rightarrow> 'b bolt \<Rightarrow> locator_entry list \<Rightarrow> 'b bolt_db \<Rightarrow> (err + common_ancestor) \<times> 'b bolt_db" where
  "p2p_FindCommonAncestor opened X B locator db = FindCommonAncestorWithProfile opened X B locator Localnet db"

definition server_commonAncestor ::
  "err option \<Rightarrow> ext \<Rightarrow> 'b bolt \<Rightarrow> network_config \<Rightarrow> locator_entry list \<Rightarrow> 'b bolt_db \<Rightarrow> (err + common_ancestor) \<times> 'b bolt_db" where
  "server_commonAncestor opened X B profile locator db = p2p_FindCommonAncestor opened X B locator db"

record fork_result =
  fr_ForkDetected :: bool
  fr_InSync :: bool
  fr_LocalHeight :: u64
  fr_LocalTip :: string
  fr_PeerHeight :: u64
  fr_PeerTip :: string
  fr_CommonAncestorFound :: bool
  fr_CommonAncestorHeight :: u64
  fr_CommonAncestorHash :: string
  fr_LocalAheadBlocks :: u64
  fr_PeerAheadBlocks :: u64
  fr_ReorgSupported :: bool
  fr_Status :: string

text \<open>How \<open>CheckForkWithProfile\<close> and \<open>InspectDatadirFork\<close> read two tips and a common ancestor.\<close>

definition fork_verdict :: "string \<Rightarrow> u64 \<Rightarrow> string \<Rightarrow> u64 \<Rightarrow> string \<Rightarrow> common_ancestor \<Rightarrow> fork_result" where
  "fork_verdict ahead localHeight localTip peerHeight peerTip a =
    (let peerAhead = (ca_Found a \<and> ca_Height a = localHeight \<and> peerHeight > localHeight);
         localAhead = (ca_Found a \<and> ca_Height a = peerHeight \<and> localHeight > peerHeight) in
     \<lparr>fr_ForkDetected = (\<not> peerAhead \<and> \<not> localAhead), fr_InSync = False,
      fr_LocalHeight = localHeight, fr_LocalTip = localTip, fr_PeerHeight = peerHeight, fr_PeerTip = peerTip,
      fr_CommonAncestorFound = ca_Found a,
      fr_CommonAncestorHeight = (if ca_Found a then ca_Height a else 0),
      fr_CommonAncestorHash = (if ca_Found a then ca_Hash a else []),
      fr_LocalAheadBlocks = (if ca_Found a \<and> localHeight \<ge> ca_Height a then localHeight - ca_Height a else 0),
      fr_PeerAheadBlocks = (if ca_Found a \<and> peerHeight \<ge> ca_Height a then peerHeight - ca_Height a else 0),
      fr_ReorgSupported = False,
      fr_Status = (if peerAhead then ahead else if localAhead then ''local_ahead'' else ''fork'')\<rparr>)"

definition in_sync_verdict :: "u64 \<Rightarrow> string \<Rightarrow> fork_result" where
  "in_sync_verdict height tip =
    \<lparr>fr_ForkDetected = False, fr_InSync = True, fr_LocalHeight = height, fr_LocalTip = tip, fr_PeerHeight = height, fr_PeerTip = tip,
     fr_CommonAncestorFound = False, fr_CommonAncestorHeight = 0, fr_CommonAncestorHash = [], fr_LocalAheadBlocks = 0,
     fr_PeerAheadBlocks = 0, fr_ReorgSupported = False, fr_Status = ''in_sync''\<rparr>"

text \<open>
  \<open>R0\<close> answers without a signature, \<open>R\<close> is the answer to \<open>CommonAncestorWithPeerAndProfile\<close>, or the error of making
  its client. None is a locator loop that does not end.
\<close>

definition CheckForkWithProfile ::
  "err option \<Rightarrow> err option \<Rightarrow> ext \<Rightarrow> 'b bolt \<Rightarrow> ed25519 \<Rightarrow> golib \<Rightarrow> remote \<Rightarrow> err + remote \<Rightarrow> string \<Rightarrow> network_config \<Rightarrow> 'b bolt_db
     \<Rightarrow> (err + fork_result) option \<times> 'b bolt_db" where
  "CheckForkWithProfile opened opened' X B D G R0 R peer profile0 db =
    (let profile = or_localnet profile0 in
     case unless_err (ValidatePeerURL G peer)
        (on_ok (rm_Handshake R0) (\<lambda>hs. unless_err (ValidateHandshake D profile hs)
        (on_ok (rm_Status R0) (\<lambda>st. unless_err (ValidateStatus profile st) (Inr st))))) of
       Inl e \<Rightarrow> (Some (Inl e), db)
     | Inr st \<Rightarrow>
     (case open_blocks opened X B profile db of
        (Inl e, db) \<Rightarrow> (Some (Inl e), db)
      | (Inr blocks, db) \<Rightarrow>
          let tip = last blocks in
          if b_Height tip = st_Height st \<and> b_Hash tip = st_TipHash st then (Some (Inr (in_sync_verdict (b_Height tip) (b_Hash tip))), db)
          else (case open_blocks opened' X B profile db of
             (Inl e, db) \<Rightarrow> (Some (Inl e), db)
           | (Inr again, db) \<Rightarrow>
               (map_option (\<lambda>locator. on_ok R (\<lambda>R. on_ok (rm_CommonAncestor R (lr_Locator locator)) (\<lambda>a.
                  Inr (fork_verdict ''peer_ahead'' (b_Height tip) (b_Hash tip) (st_Height st) (st_TipHash st) a))))
                 (LocatorFromBlocks again), db))))"

definition SyncError :: "fork_result \<Rightarrow> fork_result option" where
  "SyncError r = (if \<not> fr_ForkDetected r then None else Some r)"

section \<open>Plans\<close>

record block_summary =
  bs_Height :: u64
  bs_Hash :: string
  bs_TxCount :: nat
  bs_MinerAddress :: string
  bs_Difficulty :: u32

definition summarizeBlock :: "block \<Rightarrow> block_summary" where
  "summarizeBlock b = \<lparr>bs_Height = b_Height b, bs_Hash = b_Hash b, bs_TxCount = length (b_Transactions b),
     bs_MinerAddress = b_MinerAddress b, bs_Difficulty = b_Difficulty b\<rparr>"

record reorg_plan =
  rp_Peer :: string
  rp_Network :: string
  rp_NetworkID :: string
  rp_ChainID :: u64
  rp_LocalNetworkID :: string
  rp_PeerNetworkID :: string
  rp_LocalChainID :: u64
  rp_PeerChainID :: u64
  rp_LocalGenesis :: string
  rp_PeerGenesis :: string
  rp_LocalHeight :: u64
  rp_LocalTip :: string
  rp_PeerHeight :: u64
  rp_PeerTip :: string
  rp_CommonAncestorHeight :: u64
  rp_CommonAncestorHash :: string
  rp_DisconnectBlocks :: "block_summary list"
  rp_ConnectBlocks :: "block_summary list"
  rp_ReorgDepth :: u64
  rp_LocalWork :: u64
  rp_PeerWork :: u64
  rp_PeerHasMoreWork :: bool
  rp_MaxDepth :: u64
  rp_MaxReorgDepth :: u64
  rp_Allowed :: bool
  rp_Reason :: err
  rp_Decision :: string

text \<open>
  The heights that are fetched. Go's loop compares \<open>h <= st.Height\<close> and would not end at the largest height,
  which no chain in memory reaches.
\<close>

definition heights_above :: "u64 \<Rightarrow> u64 \<Rightarrow> u64 list" where
  "heights_above a h = map of_nat [Suc (unat a)..<Suc (unat h)]"

fun fetch_blocks :: "(u64 \<Rightarrow> err + block) \<Rightarrow> u64 list \<Rightarrow> err + block list" where
  "fetch_blocks get [] = Inr []"
| "fetch_blocks get (h # hs) = on_ok (get h) (\<lambda>b. on_ok (fetch_blocks get hs) (\<lambda>bs. Inr (b # bs)))"

definition start_plan :: "string \<Rightarrow> network_config \<Rightarrow> peer_status \<Rightarrow> block \<Rightarrow> locator_entry \<Rightarrow> u64 \<Rightarrow> reorg_plan" where
  "start_plan peer profile st localTip ancestor maxDepth =
    \<lparr>rp_Peer = peer, rp_Network = nc_Name profile, rp_NetworkID = nc_NetworkID profile, rp_ChainID = nc_ChainID profile,
     rp_LocalNetworkID = nc_NetworkID profile, rp_PeerNetworkID = st_NetworkID st, rp_LocalChainID = nc_ChainID profile,
     rp_PeerChainID = st_ChainID st, rp_LocalGenesis = GenesisHashForNetwork profile, rp_PeerGenesis = st_GenesisHash st,
     rp_LocalHeight = b_Height localTip, rp_LocalTip = b_Hash localTip, rp_PeerHeight = st_Height st, rp_PeerTip = st_TipHash st,
     rp_CommonAncestorHeight = le_Height ancestor, rp_CommonAncestorHash = le_Hash ancestor,
     rp_DisconnectBlocks = [], rp_ConnectBlocks = [], rp_ReorgDepth = b_Height localTip - le_Height ancestor,
     rp_LocalWork = 0, rp_PeerWork = 0, rp_PeerHasMoreWork = False, rp_MaxDepth = maxDepth, rp_MaxReorgDepth = maxDepth,
     rp_Allowed = False, rp_Reason = Err [], rp_Decision = []\<rparr>"

text \<open>The loop from the tip down to the ancestor.\<close>

definition disconnect_blocks :: "block list \<Rightarrow> u64 \<Rightarrow> block_summary list" where
  "disconnect_blocks localBlocks h = map summarizeBlock (takeWhile (\<lambda>b. \<not> b_Height b \<le> h) (rev localBlocks))"

text \<open>The comparison of the two branches.\<close>

definition judge_plan :: "ext \<Rightarrow> i64 \<Rightarrow> block list \<Rightarrow> block list \<Rightarrow> network_config \<Rightarrow> reorg_plan \<Rightarrow> reorg_plan" where
  "judge_plan X now localBlocks peerFull profile plan0 =
    (let plan = plan0\<lparr>rp_LocalWork := CalculateCumulativeWork localBlocks, rp_PeerWork := CalculateCumulativeWork peerFull,
                      rp_PeerHasMoreWork := CalculateCumulativeWork peerFull > CalculateCumulativeWork localBlocks\<rparr> in
     if rp_PeerWork plan = rp_LocalWork plan then
       plan\<lparr>rp_Allowed := False, rp_Decision := ''fork_tie_same_work'',
            rp_Reason := Err ''fork tie: peer chain has equal cumulative work''\<rparr>
     else if rp_PeerWork plan < rp_LocalWork plan then
       plan\<lparr>rp_Allowed := False, rp_Decision := ''local_ahead_more_work'', rp_Reason := Err ''local chain has higher cumulative work''\<rparr>
     else case ValidateChainWithNetwork X now peerFull profile of
       Inl e \<Rightarrow> plan\<lparr>rp_Allowed := False, rp_Decision := ''peer_branch_invalid'', rp_Reason := Wrap ''peer branch validation failed'' e\<rparr>
     | Inr _ \<Rightarrow> plan\<lparr>rp_Allowed := True, rp_Decision := ''reorg_apply_higher_work'',
                  rp_Reason := Err ''peer chain has more cumulative work and depth is within limit''\<rparr>)"

text \<open>The part of \<open>BuildReorgPlanWithProfile\<close> after the local blocks and the locator are known.\<close>

definition plan_from ::
  "ext \<Rightarrow> i64 \<Rightarrow> remote \<Rightarrow> string \<Rightarrow> u64 \<Rightarrow> network_config \<Rightarrow> peer_status \<Rightarrow> block list \<Rightarrow> locator_entry \<Rightarrow> err + reorg_plan \<times> block list" where
  "plan_from X now R peer maxDepth profile st localBlocks ancestor =
    (let plan = start_plan peer profile st (last localBlocks) ancestor maxDepth in
     if rp_ReorgDepth plan > maxDepth then
       Inr (plan\<lparr>rp_Decision := ''reorg_depth_exceeds_max'', rp_Reason := Err ''reorg depth exceeds max depth''\<rparr>, [])
     else
       let plan = plan\<lparr>rp_DisconnectBlocks := disconnect_blocks localBlocks (le_Height ancestor)\<rparr>;
           maxReorgFetch = (if nl_MaxReorgFetchBlocks (nc_NetworkLimits profile) = 0 then 512
                            else nl_MaxReorgFetchBlocks (nc_NetworkLimits profile)) in
       if st_Height st - le_Height ancestor > maxReorgFetch then
         Inr (plan\<lparr>rp_Decision := ''reorg_fetch_exceeds_max'', rp_Reason := Err ''peer reorg branch exceeds max remote fetch''\<rparr>, [])
       else on_ok (fetch_blocks (rm_Block R) (heights_above (le_Height ancestor) (st_Height st))) (\<lambda>peerBranch.
         let plan = plan\<lparr>rp_ConnectBlocks := map summarizeBlock peerBranch\<rparr>;
             peerFull = take (Suc (unat (le_Height ancestor))) localBlocks @ peerBranch in
         Inr (judge_plan X now localBlocks peerFull profile plan, peerBranch)))"

definition BuildReorgPlanWithProfile ::
  "err option \<Rightarrow> ext \<Rightarrow> 'b bolt \<Rightarrow> ed25519 \<Rightarrow> golib \<Rightarrow> i64 \<Rightarrow> err + remote \<Rightarrow> string \<Rightarrow> u64 \<Rightarrow> network_config \<Rightarrow> 'b bolt_db
     \<Rightarrow> (err + reorg_plan \<times> block list) \<times> 'b bolt_db" where
  "BuildReorgPlanWithProfile opened X B D G now client peer maxDepth0 profile0 db =
    (let profile = or_localnet profile0;
         maxDepth = (if maxDepth0 = 0 then DefaultMaxReorgDepth profile else maxDepth0) in
     case unless_err (ValidatePeerURL G peer)
        (on_ok client (\<lambda>R.
         on_ok (rm_Handshake R) (\<lambda>hs. unless_err (ValidateHandshake D profile hs)
        (on_ok (rm_Status R) (\<lambda>st. unless_err (ValidateStatus profile st) (Inr (R, st))))))) of
       Inl e \<Rightarrow> (Inl e, db)
     | Inr (R, st) \<Rightarrow>
     (case open_blocks opened X B profile db of
        (Inl e, db) \<Rightarrow> (Inl e, db)
      | (Inr localBlocks, db) \<Rightarrow>
          (on_ok (rm_Locator R) (\<lambda>loc.
             case FindCommonAncestor localBlocks (lr_Locator loc) of
               None \<Rightarrow> Inl (Err ''common ancestor not found'')
             | Some ancestor \<Rightarrow> plan_from X now R peer maxDepth profile st localBlocks ancestor), db)))"

section \<open>The pool after a change of chain\<close>

record revalidation =
  rv_Kept :: nat
  rv_DroppedInvalid :: nat
  rv_DroppedConfirmed :: nat
  rv_DroppedDuplicate :: nat

definition confirmedTransactionIDs :: "block list \<Rightarrow> string set" where
  "confirmedTransactionIDs blocks = set (map tx_ID (filter (\<lambda>tx. \<not> tx_Coinbase tx) (concat (map b_Transactions blocks))))"

definition sender_order :: "transaction \<Rightarrow> transaction \<Rightarrow> bool" where
  "sender_order a b =
    (if tx_From a \<noteq> tx_From b then tx_From a < tx_From b
     else if tx_Nonce a \<noteq> tx_Nonce b then tx_Nonce a < tx_Nonce b
     else tx_ID a < tx_ID b)"

fun revalidate_loop ::
  "ext \<Rightarrow> network_config \<Rightarrow> string set \<Rightarrow> mature_ledger \<Rightarrow> string set \<Rightarrow> transaction list \<Rightarrow> revalidation \<Rightarrow> transaction list
     \<Rightarrow> transaction list \<times> revalidation" where
  "revalidate_loop X profile confirmed work seen kept summary [] = (kept, summary)"
| "revalidate_loop X profile confirmed work seen kept summary (tx # txs) =
    (let invalid = summary\<lparr>rv_DroppedInvalid := rv_DroppedInvalid summary + 1\<rparr>;
         maxTxs = cp_MaxTxCount (nc_Consensus profile) in
     if tx_Coinbase tx then revalidate_loop X profile confirmed work seen kept invalid txs
     else if tx_ID tx \<in> confirmed then
       revalidate_loop X profile confirmed work seen kept (summary\<lparr>rv_DroppedConfirmed := rv_DroppedConfirmed summary + 1\<rparr>) txs
     else if tx_ID tx \<in> seen then
       revalidate_loop X profile confirmed work seen kept (summary\<lparr>rv_DroppedDuplicate := rv_DroppedDuplicate summary + 1\<rparr>) txs
     else if ValidateForRevalidation X tx \<lparr>pol_Profile = profile, pol_MaxTxs = maxTxs,
                                          pol_MaxGas = cp_MaxGasPerBlock (nc_Consensus profile)\<rparr> \<noteq> None then
       revalidate_loop X profile confirmed work seen kept invalid txs
     else if maxTxs > 0 \<and> of_nat (length kept) \<ge> maxTxs then
       revalidate_loop X profile confirmed work seen kept invalid txs
     else case ApplyTransaction X tx work of
       (Some _, work) \<Rightarrow> revalidate_loop X profile confirmed work seen kept invalid txs
     | (None, work) \<Rightarrow>
         revalidate_loop X profile confirmed work (insert (tx_ID tx) seen) (kept @ [tx]) (summary\<lparr>rv_Kept := rv_Kept summary + 1\<rparr>) txs)"

definition revalidateTransactions ::
  "ext \<Rightarrow> transaction list \<Rightarrow> mature_ledger \<Rightarrow> string set \<Rightarrow> network_config \<Rightarrow> transaction list \<times> revalidation" where
  "revalidateTransactions X txs l confirmed profile =
     revalidate_loop X profile confirmed (fst (mature_Clone l)) {} []
       \<lparr>rv_Kept = 0, rv_DroppedInvalid = 0, rv_DroppedConfirmed = 0, rv_DroppedDuplicate = 0\<rparr> (sort_by sender_order txs)"

record 'b node =
  nd_db :: "'b bolt_db"
  nd_pool :: pool
  nd_peers :: peer_file

definition RevalidateMempoolAgainstLedgerWithProfile ::
  "err option \<Rightarrow> ext \<Rightarrow> 'b bolt \<Rightarrow> network_config \<Rightarrow> 'b node \<Rightarrow> (err + revalidation) \<times> 'b node" where
  "RevalidateMempoolAgainstLedgerWithProfile opened X B profile0 n =
    (let profile = or_localnet profile0 in
     case open_blocks opened X B profile (nd_db n) of
       (Inl e, db) \<Rightarrow> (Inl e, n\<lparr>nd_db := db\<rparr>)
     | (Inr blocks, db) \<Rightarrow>
     (case ReplayMatureWithProfile X blocks (nc_Consensus profile) profile of
        Inl e \<Rightarrow> (Inl e, n\<lparr>nd_db := db\<rparr>)
      | Inr l \<Rightarrow>
      (case revalidateTransactions X (mempool_Load (nd_pool n)) l (confirmedTransactionIDs blocks) profile of
         (kept, summary) \<Rightarrow> (Inr summary, n\<lparr>nd_db := db, nd_pool := mempool_Save kept (nd_pool n)\<rparr>))))"

definition removeBlockTxs :: "block \<Rightarrow> pool \<Rightarrow> pool" where
  "removeBlockTxs block p = RemoveIDs (set (map tx_ID (filter (\<lambda>tx. \<not> tx_Coinbase tx) (b_Transactions block)))) p"

section \<open>Applying a plan\<close>

definition orphaned :: "block list \<Rightarrow> (string, transaction) fmap" where
  "orphaned blocks = fold (\<lambda>tx m. if tx_Coinbase tx then m else fmupd (tx_ID tx) tx m) (concat (map b_Transactions blocks)) fmempty"

text \<open>The loop over the orphaned transactions: the ledger, the pool, its identifiers, and three counts.\<close>

fun requeue_loop ::
  "ext \<Rightarrow> mature_ledger \<Rightarrow> string set \<Rightarrow> transaction list \<Rightarrow> nat \<Rightarrow> nat \<Rightarrow> nat \<Rightarrow> transaction list \<Rightarrow> transaction list \<times> nat \<times> nat \<times> nat" where
  "requeue_loop X work seen kept requeued invalid duplicate [] = (kept, requeued, invalid, duplicate)"
| "requeue_loop X work seen kept requeued invalid duplicate (tx # txs) =
    (if tx_ID tx \<in> seen then requeue_loop X work seen kept requeued invalid (duplicate + 1) txs
     else case ApplyTransaction X tx work of
       (None, work) \<Rightarrow> requeue_loop X work (insert (tx_ID tx) seen) (kept @ [tx]) (requeued + 1) invalid duplicate txs
     | (Some _, work) \<Rightarrow> requeue_loop X work seen kept requeued (invalid + 1) duplicate txs)"

fun expected_nonces :: "mature_ledger \<Rightarrow> transaction list \<Rightarrow> (string, u64) fmap \<Rightarrow> (string, u64) fmap" where
  "expected_nonces l [] m = m"
| "expected_nonces l (tx # txs) m =
    (if fmlookup m (tx_From tx) \<noteq> None then expected_nonces l txs m
     else let nonce = mature_Nonce l (tx_From tx) in
       if nonce = max_u64 then expected_nonces l txs m
       else expected_nonces l txs (fmupd (tx_From tx) (nonce + 1) m))"

text \<open>The loop of \<open>SelectWithNonces\<close> always ends, so that its result None does not arise.\<close>

definition selected_txs :: "err + transaction list option \<Rightarrow> err + transaction list" where
  "selected_txs r = (case r of Inl e \<Rightarrow> Inl e | Inr None \<Rightarrow> Inl (Err []) | Inr (Some txs) \<Rightarrow> Inr txs)"

definition apply_ignoring :: "ext \<Rightarrow> transaction list \<Rightarrow> mature_ledger \<Rightarrow> mature_ledger" where
  "apply_ignoring X txs l = fold (\<lambda>tx l. snd (ApplyTransaction X tx l)) txs l"

text \<open>The field for the error repeats the error that is returned and is left out.\<close>

record reorg_result =
  rr_Applied :: bool
  rr_OldHeight :: u64
  rr_NewHeight :: u64
  rr_OldTip :: string
  rr_NewTip :: string
  rr_DisconnectedBlocks :: nat
  rr_ConnectedBlocks :: nat
  rr_RequeuedTransactions :: nat
  rr_DroppedTransactions :: nat
  rr_DroppedConfirmedTransactions :: nat
  rr_DroppedInvalidTransactions :: nat
  rr_DroppedDuplicateTransactions :: nat
  rr_MempoolCount :: nat
  rr_ChainValid :: bool
  rr_Plan :: "reorg_plan option"

definition no_result :: "reorg_plan option \<Rightarrow> reorg_result" where
  "no_result plan = \<lparr>rr_Applied = False, rr_OldHeight = 0, rr_NewHeight = 0, rr_OldTip = [], rr_NewTip = [],
     rr_DisconnectedBlocks = 0, rr_ConnectedBlocks = 0, rr_RequeuedTransactions = 0, rr_DroppedTransactions = 0,
     rr_DroppedConfirmedTransactions = 0, rr_DroppedInvalidTransactions = 0, rr_DroppedDuplicateTransactions = 0,
     rr_MempoolCount = 0, rr_ChainValid = False, rr_Plan = plan\<rparr>"

text \<open>The pool after the chain was replaced: what is kept, what is requeued, and what is counted.\<close>

definition reorg_pool ::
  "ext \<Rightarrow> map_order \<Rightarrow> (transaction list \<Rightarrow> transaction list) \<Rightarrow> network_config \<Rightarrow> mature_ledger \<Rightarrow> string set \<Rightarrow> transaction list
     \<Rightarrow> (string, transaction) fmap \<Rightarrow> err + transaction list \<times> nat \<times> nat \<times> nat \<times> nat" where
  "reorg_pool X ord order profile l confirmed pending orphans =
    (let lost = fmfilter (\<lambda>id. id \<notin> confirmed) orphans;
         confirmedDropped = fcard (fmdom orphans) - fcard (fmdom lost) in
     case revalidateTransactions X pending l confirmed profile of (kept, reval) \<Rightarrow>
     case requeue_loop X (apply_ignoring X kept (fst (mature_Clone l))) (set (map tx_ID kept)) kept 0 0 (rv_DroppedDuplicate reval)
            (order (map snd (sorted_list_of_fmap lost))) of (kept, requeued, invalid, duplicate) \<Rightarrow>
     on_ok (selected_txs (SelectWithNonces X ord kept profile (cp_MaxGasPerBlock (nc_Consensus profile)) (expected_nonces l kept fmempty)))
       (\<lambda>selected. Inr (selected, requeued, confirmedDropped + rv_DroppedConfirmed reval,
          invalid + (length kept - length selected) + rv_DroppedInvalid reval, duplicate)))"

text \<open>\<open>opened\<close> and \<open>opened'\<close> are the two times the database is opened.\<close>

definition ApplyReorgWithProfile ::
  "err option \<Rightarrow> err option \<Rightarrow> ext \<Rightarrow> 'b bolt \<Rightarrow> ed25519 \<Rightarrow> golib \<Rightarrow> map_order \<Rightarrow> (transaction list \<Rightarrow> transaction list) \<Rightarrow> i64 \<Rightarrow> err + remote \<Rightarrow>
     string \<Rightarrow> u64 \<Rightarrow> bool \<Rightarrow> network_config \<Rightarrow> 'b node \<Rightarrow> err option \<times> reorg_result \<times> 'b node" where
  "ApplyReorgWithProfile opened opened' X B D G ord order now client peer maxDepth yes profile0 n =
    (let profile = or_localnet profile0 in
     if \<not> yes then (Some (Err ''refusing to apply reorg without --yes''), no_result None, n)
     else case BuildReorgPlanWithProfile opened X B D G now client peer maxDepth profile (nd_db n) of
       (Inl e, db) \<Rightarrow> (Some e, no_result None, n\<lparr>nd_db := db\<rparr>)
     | (Inr (plan, branch), db) \<Rightarrow>
     if \<not> rp_Allowed plan then (Some (rp_Reason plan), no_result (Some plan), n\<lparr>nd_db := db\<rparr>)
     else (case open_blocks opened' X B profile db of
       (Inl e, db) \<Rightarrow> (Some e, no_result None, n\<lparr>nd_db := db\<rparr>)
     | (Inr localBlocks, db) \<Rightarrow>
         let a = rp_CommonAncestorHeight plan;
             orphans = orphaned (drop (Suc (unat a)) localBlocks) in
         (case ReplaceFromHeightWithNetwork X B (a + 1) branch profile db of
            (Some e, db) \<Rightarrow> (Some e, no_result None, n\<lparr>nd_db := db\<rparr>)
          | (None, db) \<Rightarrow>
          (case on_ok (store_Blocks B db) (\<lambda>newBlocks.
                on_ok (ValidateChainWithNetwork X now newBlocks profile) (\<lambda>_.
                on_ok (ReplayMatureWithProfile X newBlocks (nc_Consensus profile) profile) (\<lambda>l.
                on_ok (reorg_pool X ord order profile l (confirmedTransactionIDs newBlocks) (mempool_Load (nd_pool n)) orphans) (\<lambda>p.
                Inr (newBlocks, p))))) of
             Inl e \<Rightarrow> (Some e, no_result None, n\<lparr>nd_db := db\<rparr>)
           | Inr (newBlocks, kept, requeued, confirmed, invalid, duplicate) \<Rightarrow>
               (None, \<lparr>rr_Applied = True, rr_OldHeight = b_Height (last localBlocks), rr_NewHeight = b_Height (last newBlocks),
                  rr_OldTip = b_Hash (last localBlocks), rr_NewTip = b_Hash (last newBlocks),
                  rr_DisconnectedBlocks = length (rp_DisconnectBlocks plan), rr_ConnectedBlocks = length (rp_ConnectBlocks plan),
                  rr_RequeuedTransactions = requeued, rr_DroppedTransactions = confirmed + invalid + duplicate,
                  rr_DroppedConfirmedTransactions = confirmed, rr_DroppedInvalidTransactions = invalid,
                  rr_DroppedDuplicateTransactions = duplicate, rr_MempoolCount = length kept, rr_ChainValid = True,
                  rr_Plan = Some plan\<rparr>,
                n\<lparr>nd_db := db, nd_pool := mempool_Save kept (nd_pool n)\<rparr>)))))"

end
