(* ===== verification/Sync.thy ===== *)
theory Sync
  imports Reorg
begin

text \<open>
  \<open>p2p/sync.go\<close> and the handlers of \<open>p2p/server.go\<close> that change state: following a peer, and taking blocks and
  transactions from peers. The state is the database, the pool and the file of peers. The
  mutex of the node keeps these calls apart, so each is one step; \<open>receiveTx\<close> does not take it, which
  the model does not show. The cached status of \<open>nodestate\<close> is not part of the state; output and logs are left out.
\<close>

record 'b env =
  ev_X :: ext
  ev_B :: "'b bolt"
  ev_D :: ed25519
  ev_G :: golib
  ev_ord :: map_order
  ev_order :: "transaction list \<Rightarrow> transaction list"
  ev_now :: i64
  ev_clock :: int
  ev_opened :: "nat \<Rightarrow> err option"

text \<open>The text of an error, with the verbs of its format left as they are.\<close>

fun Error :: "err \<Rightarrow> string" where
  "Error (Err s) = s"
| "Error (Wrap s e) = s @ '': '' @ Error e"

definition note_failure :: "'b env \<Rightarrow> string \<Rightarrow> err \<Rightarrow> int \<Rightarrow> string \<Rightarrow> 'b node \<Rightarrow> 'b node" where
  "note_failure E peer e delta reason n =
     n\<lparr>nd_peers := snd (notePeerFailure (ev_G E) (ev_clock E) peer (Error e) delta reason (nd_peers n))\<rparr>"

definition note_success :: "'b env \<Rightarrow> string \<Rightarrow> handshake \<Rightarrow> int \<Rightarrow> string \<Rightarrow> 'b node \<Rightarrow> 'b node" where
  "note_success E peer hs delta reason n =
     n\<lparr>nd_peers := snd (notePeerSuccess (ev_G E) (ev_clock E) peer hs delta reason (nd_peers n))\<rparr>"

section \<open>Following a peer\<close>

definition blockAtHeight :: "'b bolt \<Rightarrow> u64 \<Rightarrow> 'b bolt_db \<Rightarrow> block option" where
  "blockAtHeight B height db =
    (case store_Blocks B db of Inl _ \<Rightarrow> None | Inr blocks \<Rightarrow> find (\<lambda>b. b_Height b = height) blocks)"

fun header_run :: "u64 \<Rightarrow> string option \<Rightarrow> block_header list \<Rightarrow> err option" where
  "header_run height previous [] = None"
| "header_run height previous (h # hs) =
    (if bh_Height h \<noteq> height + 1 then Some (Err ''invalid header height: got %d want %d'')
     else if bh_Hash h = [] then Some (Err ''invalid header hash: empty'')
     else if bh_Difficulty h > 16 then Some (Err ''invalid header difficulty: %d'')
     else if (case previous of None \<Rightarrow> False | Some hash \<Rightarrow> bh_PreviousHash h \<noteq> hash) then
       Some (Err ''invalid header continuity at height %d'')
     else header_run (bh_Height h) (Some (bh_Hash h)) hs)"

definition validateHeaders :: "block \<Rightarrow> block_header list \<Rightarrow> err option" where
  "validateHeaders localTip headers =
    (if headers = [] then None
     else if bh_PreviousHash (hd headers) \<noteq> b_Hash localTip then Some (Err ''fork detected: peer does not extend local tip'')
     else header_run (b_Height localTip) None headers)"

text \<open>\<open>ReorgSyncError\<close> is the error with the plan, of which the first line is kept.\<close>

definition ReorgSyncError :: "reorg_plan \<Rightarrow> err" where
  "ReorgSyncError plan = Wrap ''sync failed: fork detected'' (rp_Reason plan)"

text \<open>The peer is asked for the plan once here and once more when it is applied, \<open>R1\<close> and \<open>R2\<close>.\<close>

definition syncReorgFromPeer ::
  "'b env \<Rightarrow> err + remote \<Rightarrow> err + remote \<Rightarrow> string \<Rightarrow> network_config \<Rightarrow> u64 \<Rightarrow> 'b node \<Rightarrow> err option \<times> 'b node" where
  "syncReorgFromPeer E R1 R2 peer profile maxReorgDepth n =
    (case BuildReorgPlanWithProfile (ev_opened E 1) (ev_X E) (ev_B E) (ev_D E) (ev_G E) (ev_now E) R1 peer maxReorgDepth profile (nd_db n) of
       (Inl e, db) \<Rightarrow> (Some (Wrap ''sync failed: fork detected'' e), n\<lparr>nd_db := db\<rparr>)
     | (Inr (plan, _), db) \<Rightarrow>
     if \<not> rp_Allowed plan then (Some (ReorgSyncError plan), n\<lparr>nd_db := db\<rparr>)
     else (case ApplyReorgWithProfile (ev_opened E 2) (ev_opened E 3) (ev_X E) (ev_B E) (ev_D E) (ev_G E) (ev_ord E) (ev_order E)
                  (ev_now E) R2 peer maxReorgDepth True profile (n\<lparr>nd_db := db\<rparr>) of
       (Some e, r, n) \<Rightarrow>
         (case rr_Plan r of
            Some plan \<Rightarrow> if rp_Peer plan \<noteq> [] then (Some (ReorgSyncError plan), n)
                         else (Some (Wrap ''sync failed: reorg apply failed'' e), n)
          | None \<Rightarrow> (Some (Wrap ''sync failed: reorg apply failed'' e), n))
     | (None, r, n) \<Rightarrow> (None, n)))"

definition reorg_and_note ::
  "'b env \<Rightarrow> err + remote \<Rightarrow> err + remote \<Rightarrow> string \<Rightarrow> handshake \<Rightarrow> network_config \<Rightarrow> u64 \<Rightarrow> 'b node \<Rightarrow> err option \<times> 'b node" where
  "reorg_and_note E R1 R2 peer hs profile maxReorgDepth n =
    (case syncReorgFromPeer E R1 R2 peer profile maxReorgDepth n of
       (Some e, n) \<Rightarrow> (Some e, note_failure E peer e (- 10) ''fork detected'' n)
     | (None, n) \<Rightarrow> (None, note_success E peer hs 10 ''sync reorg'' n))"

text \<open>The loop over the headers: on the left the result of a return from the function, on the right the node after the loop.\<close>

fun import_loop ::
  "'b env \<Rightarrow> remote \<Rightarrow> err + remote \<Rightarrow> err + remote \<Rightarrow> string \<Rightarrow> handshake \<Rightarrow> network_config \<Rightarrow> u64 \<Rightarrow> block_header list \<Rightarrow> 'b node
     \<Rightarrow> (err option \<times> 'b node) + 'b node" where
  "import_loop E R R1 R2 peer hs profile maxReorgDepth [] n = Inr n"
| "import_loop E R R1 R2 peer hs profile maxReorgDepth (h # headers) n =
    (case blockAtHeight (ev_B E) (bh_Height h) (nd_db n) of
       Some existing \<Rightarrow>
         if b_Hash existing = bh_Hash h then import_loop E R R1 R2 peer hs profile maxReorgDepth headers n
         else Inl (reorg_and_note E R1 R2 peer hs profile maxReorgDepth n)
     | None \<Rightarrow>
     (case rm_Block R (bh_Height h) of
        Inl e \<Rightarrow> Inl (Some (Wrap ''peer unavailable'' e), note_failure E peer e (- 5) ''request failed'' n)
      | Inr block \<Rightarrow>
      (case AddBlockWithNetwork (ev_X E) (ev_B E) (ev_now E) block profile (nd_db n) of
         (Some e, db) \<Rightarrow>
           Inl (Some (Wrap ''import block %d'' e), note_failure E peer e (- 30) ''invalid block'' (n\<lparr>nd_db := db\<rparr>))
       | (None, db) \<Rightarrow>
           import_loop E R R1 R2 peer hs profile maxReorgDepth headers
             (n\<lparr>nd_db := db, nd_pool := removeBlockTxs block (nd_pool n)\<rparr>))))"

definition or_500 :: "u64 \<Rightarrow> u64" where
  "or_500 v = (if v = 0 then 500 else v)"

text \<open>What follows the loop: the whole chain is validated again and the pool revalidated.\<close>

definition finish_sync :: "'b env \<Rightarrow> string \<Rightarrow> handshake \<Rightarrow> network_config \<Rightarrow> 'b node \<Rightarrow> err option \<times> 'b node" where
  "finish_sync E peer hs profile n =
    (case on_ok (store_Blocks (ev_B E) (nd_db n)) (\<lambda>blocks. ValidateChainWithNetwork (ev_X E) (ev_now E) blocks profile) of
       Inl e \<Rightarrow> (Some e, n)
     | Inr _ \<Rightarrow>
     (case RevalidateMempoolAgainstLedgerWithProfile (ev_opened E 4) (ev_X E) (ev_B E) profile n of
        (Inl e, n) \<Rightarrow> (Some e, n)
      | (Inr _, n) \<Rightarrow>
      (case openChainWithProfile (ev_opened E 5) (ev_X E) (ev_B E) profile (nd_db n) of
         (Some e, db) \<Rightarrow> (Some e, n\<lparr>nd_db := db\<rparr>)
       | (None, db) \<Rightarrow>
       (case store_Tip (ev_B E) db of
          Inl e \<Rightarrow> (Some e, n\<lparr>nd_db := db\<rparr>)
        | Inr _ \<Rightarrow> (None, note_success E peer hs 10 ''sync imported block'' (n\<lparr>nd_db := db\<rparr>))))))"

text \<open>What follows the status of the peer, with the chain open.\<close>

definition sync_from ::
  "'b env \<Rightarrow> remote \<Rightarrow> err + remote \<Rightarrow> err + remote \<Rightarrow> string \<Rightarrow> handshake \<Rightarrow> peer_status \<Rightarrow> block \<Rightarrow> network_config \<Rightarrow> u64 \<Rightarrow> 'b node
     \<Rightarrow> err option \<times> 'b node" where
  "sync_from E R R1 R2 peer hs status localTip profile maxReorgDepth n =
    (if st_Height status \<le> b_Height localTip then
       (case blockAtHeight (ev_B E) (st_Height status) (nd_db n) of
          None \<Rightarrow>
            let e = Err ''local block at peer height %d not found'' in
            (Some e, note_failure E peer e (- 30) ''invalid local chain'' n)
        | Some local \<Rightarrow>
            if st_TipHash status \<noteq> b_Hash local then reorg_and_note E R1 R2 peer hs profile maxReorgDepth n
            else (None, note_success E peer hs 1 ''sync up to date'' n))
     else
       let missing = st_Height status - b_Height localTip;
           needed = unat missing;
           limits = nc_NetworkLimits profile in
       if missing > or_500 (nl_MaxSyncBlocks limits) then
         (let e = Err ''sync range exceeds max remote fetch: missing=%d max=%d'' in
          (Some e, note_failure E peer e (- 10) ''sync range too large'' n))
       else if missing > or_500 (nl_MaxHeaderBatch limits) then
         (let e = Err ''sync header range exceeds max batch: missing=%d max=%d'' in
          (Some e, note_failure E peer e (- 10) ''header range too large'' n))
       else case rm_Headers R (b_Height localTip + 1) needed of
         Inl e \<Rightarrow> (Some (Wrap ''peer unavailable'' e), note_failure E peer e (- 5) ''request failed'' n)
       | Inr headers \<Rightarrow>
       if length headers < needed then
         (let e = Err ''peer returned insufficient headers: got %d want %d'' in
          (Some e, note_failure E peer e (- 30) ''invalid header'' n))
       else if headers \<noteq> [] \<and> bh_PreviousHash (hd headers) \<noteq> b_Hash localTip then
         reorg_and_note E R1 R2 peer hs profile maxReorgDepth n
       else (case validateHeaders localTip headers of
         Some e \<Rightarrow> (Some e, note_failure E peer e (- 30) ''invalid header'' n)
       | None \<Rightarrow>
       (case import_loop E R R1 R2 peer hs profile maxReorgDepth headers n of
          Inl result \<Rightarrow> result
        | Inr n \<Rightarrow> finish_sync E peer hs profile n)))"

text \<open>\<open>client\<close> is the peer as the two clients of the function see it, or the error of making them.\<close>

definition SyncFromPeerWithProfileAndMaxDepth ::
  "'b env \<Rightarrow> err + remote \<Rightarrow> err + remote \<Rightarrow> err + remote \<Rightarrow> string \<Rightarrow> network_config \<Rightarrow> u64 \<Rightarrow> 'b node \<Rightarrow> err option \<times> 'b node" where
  "SyncFromPeerWithProfileAndMaxDepth E client R1 R2 peer0 profile0 maxDepth n =
    (case NormalizePeerURL (ev_G E) peer0 of
       Inl e \<Rightarrow> (Some e, n)
     | Inr peer \<Rightarrow>
     let profile = or_localnet profile0 in
     (case client of
        Inl e \<Rightarrow> (Some e, n)
      | Inr R \<Rightarrow>
      let maxReorgDepth = (if maxDepth = 0 then DefaultMaxReorgDepth profile else maxDepth) in
      (case rm_Handshake R of
         Inl e \<Rightarrow> (Some (Wrap ''peer unavailable'' e), note_failure E peer e (- 5) ''request failed'' n)
       | Inr hs \<Rightarrow>
       (case ValidateHandshake (ev_D E) profile hs of
          Some e \<Rightarrow> (Some e, note_failure E peer e (- 20) ''handshake mismatch'' n)
        | None \<Rightarrow>
        let n = note_success E peer hs 5 ''handshake'' n in
        (case openChainWithProfile (ev_opened E 0) (ev_X E) (ev_B E) profile (nd_db n) of
           (Some e, db) \<Rightarrow> (Some e, n\<lparr>nd_db := db\<rparr>)
         | (None, db) \<Rightarrow>
         let n = n\<lparr>nd_db := db\<rparr> in
         (case store_Tip (ev_B E) db of
            Inl e \<Rightarrow> (Some e, n)
          | Inr localTip \<Rightarrow>
          (case rm_Status R of
             Inl e \<Rightarrow> (Some (Wrap ''peer unavailable'' e), note_failure E peer e (- 5) ''request failed'' n)
           | Inr status \<Rightarrow>
           (case ValidateStatus profile status of
              Some e \<Rightarrow> (Some e, note_failure E peer e (- 20) ''status mismatch'' n)
            | None \<Rightarrow> sync_from E R R1 R2 peer hs status localTip profile maxReorgDepth n))))))))"

section \<open>Blocks and transactions from peers\<close>

definition receiveBlock ::
  "'b env \<Rightarrow> string \<Rightarrow> network_config \<Rightarrow> header \<Rightarrow> block \<Rightarrow> 'b node \<Rightarrow> err option \<times> 'b node" where
  "receiveBlock E self profile0 h block n =
    (let profile = or_localnet profile0 in
     case openChainWithProfile (ev_opened E 0) (ev_X E) (ev_B E) profile (nd_db n) of
       (Some e, db) \<Rightarrow> (Some e, n\<lparr>nd_db := db\<rparr>)
     | (None, db) \<Rightarrow>
     let n = n\<lparr>nd_db := db\<rparr> in
     (case store_Tip (ev_B E) db of
        Inl e \<Rightarrow> (Some e, n)
      | Inr tip \<Rightarrow>
      if b_PreviousHash block \<noteq> b_Hash tip then (Some (Err ''block does not extend local tip''), n)
      else (case AddBlockWithNetwork (ev_X E) (ev_B E) (ev_now E) block profile db of
        (Some e, db) \<Rightarrow> (Some e, n\<lparr>nd_db := db\<rparr>)
      | (None, db) \<Rightarrow>
          let n = n\<lparr>nd_db := db, nd_pool := removeBlockTxs block (nd_pool n)\<rparr>;
              n = snd (RevalidateMempoolAgainstLedgerWithProfile (ev_opened E 1) (ev_X E) (ev_B E) profile n) in
          (None, n\<lparr>nd_peers := learnInboundPeer (ev_G E) (ev_clock E) self profile h (nd_peers n)\<rparr>))))"

definition acceptTx :: "'b env \<Rightarrow> network_config \<Rightarrow> transaction \<Rightarrow> 'b node \<Rightarrow> err option \<times> 'b node" where
  "acceptTx E profile0 tx n =
    (let profile = or_localnet profile0; X = ev_X E; B = ev_B E in
     if tx_Coinbase tx then (Some (Err ''coinbase tx is not accepted in mempool''), n)
     else case RevalidateMempoolAgainstLedgerWithProfile (ev_opened E 0) X B profile n of
       (Inl e, n) \<Rightarrow> (Some (Wrap ''mempool revalidation failed'' e), n)
     | (Inr _, n) \<Rightarrow>
     (case open_blocks (ev_opened E 1) X B profile (nd_db n) of
        (Inl e, db) \<Rightarrow> (Some e, n\<lparr>nd_db := db\<rparr>)
      | (Inr blocks, db) \<Rightarrow>
      let n = n\<lparr>nd_db := db\<rparr>; pending = mempool_Load (nd_pool n) in
      if list_ex (\<lambda>confirmed. tx_ID confirmed = tx_ID tx) (concat (map b_Transactions blocks)) then
        (Some (Err ''tx already confirmed''), n)
      else if list_ex (\<lambda>existing. tx_ID existing = tx_ID tx) pending then (None, n)
      else (case ReplayMatureWithProfile X blocks (nc_Consensus profile) profile of
        Inl e \<Rightarrow> (Some e, n)
      | Inr l \<Rightarrow>
      (case mature_ValidateTransaction X tx (apply_ignoring X pending (fst (mature_Clone l))) of
         (Some e, _) \<Rightarrow> (Some (Wrap ''sender balance insufficient or chain not synced'' e), n)
       | (None, _) \<Rightarrow>
       (case Admit X tx \<lparr>pol_Profile = profile, pol_MaxTxs = cp_MaxTxCount (nc_Consensus profile),
                         pol_MaxGas = cp_MaxGasPerBlock (nc_Consensus profile)\<rparr> (nd_pool n) of
          (Some e, p) \<Rightarrow> (if errors_Is e ErrDuplicateTx then None else Some e, n\<lparr>nd_pool := p\<rparr>)
        | (None, p) \<Rightarrow> (None, n\<lparr>nd_pool := p\<rparr>))))))"

definition receiveTx ::
  "'b env \<Rightarrow> string \<Rightarrow> network_config \<Rightarrow> header \<Rightarrow> transaction \<Rightarrow> 'b node \<Rightarrow> err option \<times> 'b node" where
  "receiveTx E self profile h tx n =
    (case acceptTx E profile tx n of
       (Some e, n) \<Rightarrow> (Some e, n)
     | (None, n) \<Rightarrow>
         (None, n\<lparr>nd_peers := learnInboundPeer (ev_G E) (ev_clock E) self (or_localnet profile) h (nd_peers n)\<rparr>))"

end
