(* ===== verification/Sync_Safety.thy ===== *)
theory Sync_Safety
  imports Sync Chain_State Message_Auth
begin

text \<open>
  What a node keeps whatever its peers answer: every call that changes the chain leaves a database whose state is
  that of its chain, and a chain with at least the work of the one before. A reorganisation replaces
  the chain only by a valid one with more work that branches off within the depth limit.
\<close>

section \<open>Work\<close>

lemma work_mono: "CalculateCumulativeWork bs \<le> CalculateCumulativeWork (bs @ cs)"
  by (simp add: word_le_nat_alt CalculateCumulativeWork_def cumulative_loop_value min_le_iff_disj)

definition carries :: "ext \<Rightarrow> 'b bolt \<Rightarrow> network_config \<Rightarrow> u64 \<Rightarrow> 'b bolt_db \<Rightarrow> bool" where
  "carries X B profile w db \<longleftrightarrow>
     bc_reach X B profile db \<and> (\<exists>bs. in_step X B profile db bs \<and> w \<le> CalculateCumulativeWork bs)"

lemma net_or [simp]: "asset_network profile \<Longrightarrow> or_localnet profile = profile"
  by (simp add: asset_network_def or_localnet_def)

section \<open>What a plan promises\<close>

text \<open>What an allowed plan promises of the chain it was made for.\<close>

definition good_plan :: "ext \<Rightarrow> i64 \<Rightarrow> network_config \<Rightarrow> u64 \<Rightarrow> block list \<Rightarrow> reorg_plan \<Rightarrow> block list \<Rightarrow> bool" where
  "good_plan X now profile maxDepth bs plan branch \<longleftrightarrow>
     (let a = rp_CommonAncestorHeight plan; new = take (Suc (unat a)) bs @ branch in
      unat a < length bs \<and> a \<noteq> max_u64 \<and> length branch < 2 ^ 64
      \<and> length bs - Suc (unat a) \<le> unat maxDepth
      \<and> CalculateCumulativeWork bs < CalculateCumulativeWork new
      \<and> (\<exists>v. ValidateChainWithNetwork X now new profile = Inr v))"

text \<open>A reorganisation of the chain \<open>bs\<close> that a peer may cause.\<close>

definition reorganised :: "ext \<Rightarrow> i64 \<Rightarrow> network_config \<Rightarrow> u64 \<Rightarrow> block list \<Rightarrow> block list \<Rightarrow> bool" where
  "reorganised X now profile maxDepth bs new \<longleftrightarrow>
     (\<exists>a branch. a < length bs \<and> new = take (Suc a) bs @ branch \<and> length bs - Suc a \<le> unat maxDepth)
     \<and> CalculateCumulativeWork bs < CalculateCumulativeWork new
     \<and> (\<exists>v. ValidateChainWithNetwork X now new profile = Inr v)"

lemma good_reorganised:
  "good_plan X now profile maxDepth bs plan branch \<Longrightarrow>
     reorganised X now profile maxDepth bs (take (Suc (unat (rp_CommonAncestorHeight plan))) bs @ branch)"
  by (auto simp: good_plan_def reorganised_def Let_def)

context bolt_buckets
begin

lemma in_step_unique: "in_step X B profile db bs \<Longrightarrow> in_step X B profile db cs \<Longrightarrow> bs = cs"
  using read_chain(1) by (metis in_step_def old.sum.inject(2))

lemma in_step_blocks: "in_step X B profile db bs \<Longrightarrow> store_Blocks B db = Inr bs"
  using read_chain(1) by (simp add: in_step_def)

lemma carriesI: "bc_reach X B profile db \<Longrightarrow> in_step X B profile db bs \<Longrightarrow> w \<le> CalculateCumulativeWork bs \<Longrightarrow> carries X B profile w db"
  by (auto simp: carries_def)

section \<open>Opening\<close>

lemma carries_open_store:
  assumes "carries X B profile w db" shows "carries X B profile w (snd (OpenBolt opened B db))"
proof -
  obtain bs where bs: "bc_reach X B profile db" "in_step X B profile db bs" "w \<le> CalculateCumulativeWork bs"
    using assms by (auto simp: carries_def)
  have "carries X B profile w (snd (store_Init B db))"
    using carriesI [OF bc_reach.reopen [OF bs(1)] reopen_in_step [OF bs(2)] bs(3)] .
  with assms show ?thesis by (auto simp: OpenBolt_def split: option.splits prod.splits)
qed

lemma carries_Init:
  assumes "carries X B profile w db" and "asset_network profile" and "InitWithProfile X B profile db = (r, db')"
  shows "carries X B profile w db'" and "r = None \<Longrightarrow> \<exists>cs. cs \<noteq> [] \<and> in_step X B profile db' cs"
proof -
  obtain bs where bs: "bc_reach X B profile db" "in_step X B profile db bs" "w \<le> CalculateCumulativeWork bs"
    using assms by (auto simp: carries_def)
  note X = Init_exact [OF bs(2) assms(2, 3)]
  have reach: "bc_reach X B profile db'" using bc_reach.init [OF bs(1)] assms(3) by (metis snd_conv)
  have "w \<le> CalculateCumulativeWork [GenesisBlockForNetwork profile]" if "bs = []"
    using bs(3) that work_mono [of "[]" "[GenesisBlockForNetwork profile]"] by simp
  then show "carries X B profile w db'" using X reach bs(2, 3) carriesI by metis
  show "r = None \<Longrightarrow> \<exists>cs. cs \<noteq> [] \<and> in_step X B profile db' cs" using X bs(2) by auto
qed

lemma carries_open:
  assumes "carries X B profile w db" and "asset_network profile" and "openChainWithProfile opened X B profile db = (r, db')"
  shows "carries X B profile w db'" and "r = None \<Longrightarrow> \<exists>cs. cs \<noteq> [] \<and> in_step X B profile db' cs"
  using assms carries_open_store [OF assms(1), of opened] carries_Init [OF _ assms(2)]
  by (auto simp: openChainWithProfile_def split: prod.splits option.splits)

lemma open_blocks_step:
  assumes "carries X B profile w db" and "asset_network profile" and "open_blocks opened X B profile db = (r, db')"
  shows "carries X B profile w db'" and "r = Inr cs \<Longrightarrow> cs \<noteq> [] \<and> in_step X B profile db' cs"
  using assms carries_open [OF assms(1, 2), of opened] in_step_blocks
  by (fastforce simp: open_blocks_def split: prod.splits option.splits)+

lemma open_keeps:
  assumes "in_step X B profile db bs" and "bs \<noteq> []" and "asset_network profile"
  shows "openChainWithProfile opened X B profile db = (r, db') \<Longrightarrow> in_step X B profile db' bs"
proof -
  assume run: "openChainWithProfile opened X B profile db = (r, db')"
  obtain r1 db1 where o: "OpenBolt opened B db = (r1, db1)" by fastforce
  then have s1: "in_step X B profile db1 bs"
    using assms(1) reopen_in_step [OF assms(1)] by (auto simp: OpenBolt_def split: option.splits prod.splits)
  show ?thesis
  proof (cases r1)
    case None
    then have "InitWithProfile X B profile db1 = (r, db')" using run o by (simp add: openChainWithProfile_def)
    from Init_exact [OF s1 assms(3) this] s1 assms(2) show ?thesis by auto
  qed (use run o s1 in \<open>simp add: openChainWithProfile_def\<close>)
qed

lemma open_blocks_keeps:
  assumes "in_step X B profile db bs" and "bs \<noteq> []" and "asset_network profile" and "open_blocks opened X B profile db = (r, db')"
  shows "in_step X B profile db' bs" and "r = Inr cs \<Longrightarrow> cs = bs"
  using open_keeps [OF assms(1-3), of opened] in_step_blocks assms(4)
  by (fastforce simp: open_blocks_def split: prod.splits option.splits)+

section \<open>Plans\<close>

lemma fetch_length: "fetch_blocks get hs = Inr bs \<Longrightarrow> length bs = length hs"
  by (induction hs arbitrary: bs) (auto simp: on_ok_def split: sum.splits)

lemma heights_length: "length (heights_above a h) = unat h - unat a"
  by (auto simp: heights_above_def)

lemma ancestor_on_chain:
  assumes "FindCommonAncestor bs locator = Some e" and "numbered bs"
  shows "unat (le_Height e) < length bs"
proof -
  have "fmlookup (by_height bs) (le_Height e) = Some (le_Hash e)"
    using assms(1) first_common_Some by (auto simp: FindCommonAncestor_def)
  then obtain b where "b \<in> set bs" "b_Height b = le_Height e" using lookup_by_height by blast
  then obtain i where "i < length bs" "b_Height (bs ! i) = le_Height e" by (metis in_set_conv_nth)
  with numbered_nth [OF assms(2)] show ?thesis by metis
qed

lemma judge_allowed:
  "rp_Allowed (judge_plan X now bs new profile plan) \<Longrightarrow>
     CalculateCumulativeWork bs < CalculateCumulativeWork new \<and> (\<exists>v. ValidateChainWithNetwork X now new profile = Inr v)"
  "rp_CommonAncestorHeight (judge_plan X now bs new profile plan) = rp_CommonAncestorHeight plan"
  by (auto simp: judge_plan_def Let_def word_less_nat_alt word_le_nat_alt split: if_splits sum.splits) (metis linorder_neqE_nat unat_eq_nat_uint word_unat_eq_iff)?

lemma plan_from_good:
  assumes "plan_from X now R peer maxDepth profile st bs a = Inr (plan, branch)" and "rp_Allowed plan"
    and "numbered bs" and "bs \<noteq> []" and "unat (le_Height a) < length bs"
  shows "good_plan X now profile maxDepth bs plan branch"
proof -
  let ?new = "take (Suc (unat (le_Height a))) bs @ branch"
  have depth: "\<not> b_Height (last bs) - le_Height a > maxDepth"
    and fetch: "fetch_blocks (rm_Block R) (heights_above (le_Height a) (st_Height st)) = Inr branch"
    and judged: "CalculateCumulativeWork bs < CalculateCumulativeWork ?new" "\<exists>v. ValidateChainWithNetwork X now ?new profile = Inr v"
    and plan: "rp_CommonAncestorHeight plan = le_Height a"
    using assms(1, 2) judge_allowed
    by (auto simp: plan_from_def start_plan_def Let_def on_ok_def split: if_splits sum.splits)
  have len: "length branch = unat (st_Height st) - unat (le_Height a)" using fetch_length [OF fetch] by (simp add: heights_length)
  have last: "unat (b_Height (last bs)) = length bs - 1" using numbered_last [OF assms(3, 4)] .
  have "le_Height a \<noteq> max_u64"
  proof
    assume m: "le_Height a = max_u64"
    have "unat (st_Height st) \<le> unat (max_u64 :: u64)" using unat_u64_le [of "st_Height st"] by simp
    with len m have "branch = []" by simp
    moreover have "length bs \<le> Suc (unat (le_Height a))" using last m unat_u64_lt [of "b_Height (last bs)"] by simp
    ultimately show False using judged(1) by simp
  qed
  moreover have "length bs - Suc (unat (le_Height a)) \<le> unat maxDepth"
    using depth last assms(5) by (auto simp: word_less_nat_alt unat_sub_if' not_less split: if_splits)
  moreover have "length branch < 2 ^ 64" using len unat_u64_lt [of "st_Height st"] by (simp add: less_imp_diff_less)
  ultimately show ?thesis using judged plan assms(5) by (simp add: good_plan_def Let_def)
qed

lemma Build_step:
  assumes "carries X B profile w db" and "asset_network profile"
    and "BuildReorgPlanWithProfile opened X B D G now client peer maxDepth profile db = (r, db')"
  shows "carries X B profile w db'"
    and "r = Inr (plan, branch) \<Longrightarrow> rp_Allowed plan \<Longrightarrow>
      \<exists>bs. bs \<noteq> [] \<and> in_step X B profile db' bs
        \<and> good_plan X now profile (if maxDepth = 0 then DefaultMaxReorgDepth profile else maxDepth) bs plan branch"
proof -
  show "carries X B profile w db'"
    using assms(3) assms(1) open_blocks_step(1) [OF assms(1, 2), of opened]
    by (auto simp: BuildReorgPlanWithProfile_def assms(2) Let_def split: sum.splits prod.splits)
  assume r: "r = Inr (plan, branch)" "rp_Allowed plan"
  let ?max = "if maxDepth = 0 then DefaultMaxReorgDepth profile else maxDepth"
  have "\<exists>bs (loc :: locator_response) e R st. open_blocks opened X B profile db = (Inr bs, db') \<and> FindCommonAncestor bs (lr_Locator loc) = Some e
    \<and> plan_from X now R peer ?max profile st bs e = Inr (plan, branch)"
    using assms(3) r(1)
    by (auto simp: BuildReorgPlanWithProfile_def assms(2) Let_def on_ok_def simp del: split_paired_Ex if_split
        split: sum.splits prod.splits option.splits intro!: exI)
  then obtain bs and loc :: locator_response and e R st where open': "open_blocks opened X B profile db = (Inr bs, db')"
    and e: "FindCommonAncestor bs (lr_Locator loc) = Some e"
    and p: "plan_from X now R peer ?max profile st bs e = Inr (plan, branch)" by blast
  have bs: "bs \<noteq> []" "in_step X B profile db' bs" using open_blocks_step(2) [OF assms(1, 2) open', of bs] by auto
  then have n: "numbered bs" by (simp add: in_step_def holds_chain_def)
  from plan_from_good [OF p r(2) n bs(1) ancestor_on_chain [OF e n]] bs show "\<exists>bs. bs \<noteq> [] \<and> in_step X B profile db' bs
        \<and> good_plan X now profile (if maxDepth = 0 then DefaultMaxReorgDepth profile else maxDepth) bs plan branch" by blast
qed

section \<open>Applying a plan\<close>

lemma Replace_good:
  assumes "bc_reach X B profile db" and "in_step X B profile db bs" and "asset_network profile"
    and "good_plan X now profile maxDepth bs plan branch"
    and "ReplaceFromHeightWithNetwork X B (rp_CommonAncestorHeight plan + 1) branch profile db = (r, db')"
  shows "bc_reach X B profile db'"
    and "if r = None then in_step X B profile db' (take (Suc (unat (rp_CommonAncestorHeight plan))) bs @ branch) else db' = db"
proof -
  let ?a = "rp_CommonAncestorHeight plan"
  have g: "?a \<noteq> max_u64" "length branch < 2 ^ 64" using assms(4) by (auto simp: good_plan_def Let_def)
  have "unat (?a + 1) = Suc (unat ?a)" using g(1) by (rule unat_inc)
  then show "if r = None then in_step X B profile db' (take (Suc (unat ?a)) bs @ branch) else db' = db"
    using Replace_exact [OF assms(2, 3) g(2) assms(5)] by (auto split: if_splits)
  show "bc_reach X B profile db'" using bc_reach.replace [OF assms(1) g(2)] assms(5) by (metis snd_conv)
qed

lemma carries_work: "carries X B profile w db \<Longrightarrow> in_step X B profile db bs \<Longrightarrow> w \<le> CalculateCumulativeWork bs"
  using in_step_unique unfolding carries_def by metis

lemma Replace_step:
  assumes "carries X B profile w db" and "in_step X B profile db bs" and "asset_network profile"
    and "good_plan X now profile maxDepth bs plan branch"
    and "ReplaceFromHeightWithNetwork X B (rp_CommonAncestorHeight plan + 1) branch profile db = (r, db')"
  shows "carries X B profile w db'"
    and "r = None \<Longrightarrow> \<exists>new. in_step X B profile db' new \<and> reorganised X now profile maxDepth bs new"
proof -
  have reach: "bc_reach X B profile db" using assms(1) by (simp add: carries_def)
  note R = Replace_good [OF reach assms(2-5)] and G = good_reorganised [OF assms(4)] and W = carries_work [OF assms(1, 2)]
  show "r = None \<Longrightarrow> \<exists>new. in_step X B profile db' new \<and> reorganised X now profile maxDepth bs new"
    using R(2) G by (auto split: if_splits)
  show "carries X B profile w db'"
  proof (cases "r = None")
    case True
    then have "in_step X B profile db' (take (Suc (unat (rp_CommonAncestorHeight plan))) bs @ branch)" using R(2) by simp
    then show ?thesis using carriesI [OF R(1)] W G by (force simp: reorganised_def)
  qed (use R assms(1) in simp)
qed

lemma Build_keeps:
  assumes "in_step X B profile db bs" and "bs \<noteq> []" and "asset_network profile"
    and "BuildReorgPlanWithProfile opened X B D G now client peer maxDepth profile db = (r, db')"
  shows "in_step X B profile db' bs"
  using assms(1, 4) open_blocks_keeps(1) [OF assms(1-3), of opened]
  by (auto simp: BuildReorgPlanWithProfile_def assms(3) Let_def split: sum.splits prod.splits)

text \<open>
  Applying a plan, in two parts: it ends before the chain is replaced, or with the database that \<open>ReplaceFromHeight\<close>
  leaves for an allowed plan.
\<close>

lemma Apply_run:
  assumes "carries X B profile w (nd_db n)" and "asset_network profile"
    and "ApplyReorgWithProfile opened opened' X B D G ord order now client peer maxDepth yes profile n = (r, res, n')"
  obtains (unchanged) "r \<noteq> None" "nd_db n' = nd_db n"
    | (planned) rb where "r \<noteq> None" "BuildReorgPlanWithProfile opened X B D G now client peer maxDepth profile (nd_db n) = (rb, nd_db n')"
    | (opened) rb db1 ro where "r \<noteq> None" "BuildReorgPlanWithProfile opened X B D G now client peer maxDepth profile (nd_db n) = (rb, db1)"
        "open_blocks opened' X B profile db1 = (ro, nd_db n')"
    | (replaced) plan branch db1 cs db2 rr where
        "BuildReorgPlanWithProfile opened X B D G now client peer maxDepth profile (nd_db n) = (Inr (plan, branch), db1)" "rp_Allowed plan"
        "open_blocks opened' X B profile db1 = (Inr cs, db2)"
        "ReplaceFromHeightWithNetwork X B (rp_CommonAncestorHeight plan + 1) branch profile db2 = (rr, nd_db n')" "r = None \<longrightarrow> rr = None"
proof -
  obtain rb db1 where b: "BuildReorgPlanWithProfile opened X B D G now client peer maxDepth profile (nd_db n) = (rb, db1)" by fastforce
  obtain ro db2 where o: "open_blocks opened' X B profile db1 = (ro, db2)" by fastforce
  note run = assms(3) [unfolded ApplyReorgWithProfile_def net_or [OF assms(2)] Let_def b]
  consider "\<not> yes" | e where "yes" "rb = Inl e" | plan branch where "yes" "rb = Inr (plan, branch)" "\<not> rp_Allowed plan"
    | plan branch e where "yes" "rb = Inr (plan, branch)" "rp_Allowed plan" "ro = Inl e"
    | plan branch cs where "yes" "rb = Inr (plan, branch)" "rp_Allowed plan" "ro = Inr cs"
    by (metis sumE surj_pair)
  then show ?thesis
  proof cases
    case 1
    then show ?thesis using run by (intro unchanged) auto
  next
    case 2
    then show ?thesis using run b by (intro planned) auto
  next
    case 3
    then show ?thesis using run b by (intro planned) auto
  next
    case 4
    then show ?thesis using run b o by (intro opened [OF _ b]) auto
  next
    case 5
    obtain rr db3 where rep: "ReplaceFromHeightWithNetwork X B (rp_CommonAncestorHeight plan + 1) branch profile db2 = (rr, db3)" by fastforce
    have "nd_db n' = db3" "r = None \<Longrightarrow> rr = None"
      using run o 5 rep by (auto split: sum.splits option.splits)
    then show ?thesis using 5 b o rep by (intro replaced) auto
  qed
qed

lemma Apply_step:
  assumes "carries X B profile w (nd_db n)" and "asset_network profile"
    and "ApplyReorgWithProfile opened opened' X B D G ord order now client peer maxDepth yes profile n = (r, res, n')"
  shows "carries X B profile w (nd_db n')"
  using assms
proof (cases rule: Apply_run)
  case (planned rb)
  then show ?thesis using Build_step(1) [OF assms(1, 2)] by blast
next
  case (opened rb db1 ro)
  then show ?thesis using Build_step(1) [OF assms(1, 2)] open_blocks_step(1) [OF _ assms(2)] by blast
next
  case (replaced plan branch db1 cs db2 rr)
  obtain bs where bs: "bs \<noteq> []" "in_step X B profile db1 bs"
    "good_plan X now profile (if maxDepth = 0 then DefaultMaxReorgDepth profile else maxDepth) bs plan branch"
    using Build_step(2) [OF assms(1, 2) replaced(1) refl replaced(2)] by blast
  have "carries X B profile w db2" using open_blocks_step(1) [OF Build_step(1) [OF assms(1, 2) replaced(1)] assms(2) replaced(3)] .
  from Replace_step(1) [OF this open_blocks_keeps(1) [OF bs(2, 1) assms(2) replaced(3)] assms(2) bs(3) replaced(4)] show ?thesis .
qed (use assms(1) in simp)

lemma Apply_exact:
  assumes "bc_reach X B profile (nd_db n)" and "in_step X B profile (nd_db n) bs" and "bs \<noteq> []" and "asset_network profile"
    and "ApplyReorgWithProfile opened opened' X B D G ord order now client peer maxDepth yes profile n = (r, res, n')"
  shows "\<exists>new. in_step X B profile (nd_db n') new \<and> (r \<noteq> None \<and> new = bs
    \<or> reorganised X now profile (if maxDepth = 0 then DefaultMaxReorgDepth profile else maxDepth) bs new)"
proof -
  have c: "carries X B profile 0 (nd_db n)" using assms(1, 2) by (auto simp: carries_def)
  show ?thesis using c assms(4, 5)
  proof (cases rule: Apply_run)
    case unchanged
    then show ?thesis using assms(2) by auto
  next
    case (planned rb)
    then show ?thesis using Build_keeps [OF assms(2-4)] by blast
  next
    case (opened rb db1 ro)
    then show ?thesis using Build_keeps [OF assms(2-4)] open_blocks_keeps(1) [OF _ assms(3, 4)] by blast
  next
    case (replaced plan branch db1 cs db2 rr)
    have s1: "in_step X B profile db1 bs" using Build_keeps [OF assms(2-4) replaced(1)] .
    then have g: "good_plan X now profile (if maxDepth = 0 then DefaultMaxReorgDepth profile else maxDepth) bs plan branch"
      using Build_step(2) [OF c assms(4) replaced(1) refl replaced(2)] in_step_unique by blast
    have c2: "carries X B profile 0 db2" using open_blocks_step(1) [OF Build_step(1) [OF c assms(4) replaced(1)] assms(4) replaced(3)] .
    have s2: "in_step X B profile db2 bs" using open_blocks_keeps(1) [OF s1 assms(3, 4) replaced(3)] .
    have "bc_reach X B profile db2" using c2 by (simp add: carries_def)
    from Replace_good(2) [OF this s2 assms(4) g replaced(4)] show ?thesis
      using good_reorganised [OF g] replaced(5) s2 by (cases "rr = None") auto
  qed
qed

section \<open>The calls of a node\<close>

lemma Add_step:
  assumes "carries X B profile w db" and "asset_network profile" and "AddBlockWithNetwork X B now b profile db = (r, db')"
  shows "carries X B profile w db'"
proof -
  obtain bs where bs: "bc_reach X B profile db" "in_step X B profile db bs" "w \<le> CalculateCumulativeWork bs"
    using assms by (auto simp: carries_def)
  have reach: "bc_reach X B profile db'" using bc_reach.add [OF bs(1)] assms(3) by (metis snd_conv)
  have "w \<le> CalculateCumulativeWork (bs @ [b])" using bs(3) work_mono order_trans by blast
  then show ?thesis using AddBlock_exact [OF bs(2) assms(2, 3)] bs reach by (auto simp: carries_def split: if_splits)
qed

lemma Revalidate_step:
  assumes "carries X B profile w (nd_db n)" and "asset_network profile"
    and "RevalidateMempoolAgainstLedgerWithProfile opened X B profile n = (r, n')"
  shows "carries X B profile w (nd_db n')"
  using assms(3) open_blocks_step(1) [OF assms(1, 2), of opened]
  by (auto simp: RevalidateMempoolAgainstLedgerWithProfile_def assms(2) Let_def split: sum.splits prod.splits)

end

lemma note_db [simp]: "nd_db (note_failure E peer e d t n) = nd_db n" "nd_db (note_success E peer hs d t n) = nd_db n"
  by (simp_all add: note_failure_def note_success_def)

text \<open>
  The database of a node after a call, whatever the peer answers and the file system does. The calls that return a database
  are collected as rules that go forward from the call.
\<close>

definition keeps :: "'b env \<Rightarrow> network_config \<Rightarrow> u64 \<Rightarrow> 'b bolt_db \<Rightarrow> bool" where
  "keeps E profile w db \<longleftrightarrow> bolt_buckets (ev_B E) \<and> asset_network profile \<and> carries (ev_X E) (ev_B E) profile w db"

named_theorems keeping

lemma keeps_net: "keeps E profile w db \<Longrightarrow> or_localnet profile = profile"
  by (simp add: keeps_def)

lemma keeps_open [keeping]:
  "openChainWithProfile opened (ev_X E) (ev_B E) profile db = (r, db') \<Longrightarrow> keeps E profile w db \<Longrightarrow> keeps E profile w db'"
  using bolt_buckets.carries_open(1) by (fastforce simp: keeps_def)

lemma keeps_blocks [keeping]:
  "open_blocks opened (ev_X E) (ev_B E) profile db = (r, db') \<Longrightarrow> keeps E profile w db \<Longrightarrow> keeps E profile w db'"
  using bolt_buckets.open_blocks_step(1) by (fastforce simp: keeps_def)

lemma keeps_build [keeping]:
  "BuildReorgPlanWithProfile opened (ev_X E) (ev_B E) D G now client peer maxDepth profile db = (r, db')
     \<Longrightarrow> keeps E profile w db \<Longrightarrow> keeps E profile w db'"
  using bolt_buckets.Build_step(1) by (fastforce simp: keeps_def)

lemma keeps_apply [keeping]:
  "ApplyReorgWithProfile opened opened' (ev_X E) (ev_B E) D G ord order now client peer maxDepth yes profile n = (r, res, n')
     \<Longrightarrow> keeps E profile w (nd_db n) \<Longrightarrow> keeps E profile w (nd_db n')"
  using bolt_buckets.Apply_step by (fastforce simp: keeps_def)

lemma keeps_add [keeping]:
  "AddBlockWithNetwork (ev_X E) (ev_B E) now b profile db = (r, db') \<Longrightarrow> keeps E profile w db \<Longrightarrow> keeps E profile w db'"
  using bolt_buckets.Add_step by (fastforce simp: keeps_def)

lemma keeps_revalidate [keeping]:
  "RevalidateMempoolAgainstLedgerWithProfile opened (ev_X E) (ev_B E) profile n = (r, n')
     \<Longrightarrow> keeps E profile w (nd_db n) \<Longrightarrow> keeps E profile w (nd_db n')"
  using bolt_buckets.Revalidate_step by (fastforce simp: keeps_def)

lemma keeps_revalidated:
  "keeps E profile w (nd_db n) \<Longrightarrow> keeps E profile w (nd_db (snd (RevalidateMempoolAgainstLedgerWithProfile opened (ev_X E) (ev_B E) profile n)))"
  using keeps_revalidate by (metis surjective_pairing)

lemma keeps_reorg:
  assumes "keeps E profile w (nd_db n)"
  shows "keeps E profile w (nd_db (snd (reorg_and_note E R1 R2 peer hs profile maxDepth n)))"
proof -
  have "keeps E profile w (nd_db (snd (syncReorgFromPeer E R1 R2 peer profile maxDepth n)))"
    using assms by (auto simp: syncReorgFromPeer_def dest!: keeping split: sum.splits prod.splits option.splits)
  then show ?thesis by (auto simp: reorg_and_note_def split: prod.splits option.splits)
qed

lemma keeps_import:
  assumes "keeps E profile w (nd_db n)"
  shows "case import_loop E R R1 R2 peer hs profile maxDepth headers n of
           Inl result \<Rightarrow> keeps E profile w (nd_db (snd result)) | Inr n' \<Rightarrow> keeps E profile w (nd_db n')"
  using assms
proof (induction headers arbitrary: n)
  case (Cons h headers)
  show ?case
  proof (cases "blockAtHeight (ev_B E) (bh_Height h) (nd_db n)")
    case (Some b)
    with Cons show ?thesis by (simp add: keeps_reorg)
  next
    case None
    show ?thesis
    proof (cases "rm_Block R (bh_Height h)")
      case (Inl e)
      with None Cons.prems show ?thesis by simp
    next
      case (Inr b)
      obtain r db where a: "AddBlockWithNetwork (ev_X E) (ev_B E) (ev_now E) b profile (nd_db n) = (r, db)" by fastforce
      note k = keeps_add [OF a Cons.prems]
      show ?thesis using None Inr a k Cons.IH by (cases r) simp_all
    qed
  qed
qed simp

lemma keeps_finish:
  "keeps E profile w (nd_db n) \<Longrightarrow> keeps E profile w (nd_db (snd (finish_sync E peer hs profile n)))"
  by (auto simp: finish_sync_def dest!: keeping split: sum.splits prod.splits option.splits)

lemma keeps_sync_from:
  assumes "keeps E profile w (nd_db n)"
  shows "keeps E profile w (nd_db (snd (sync_from E R R1 R2 peer hs status tip profile maxDepth n)))"
proof -
  have done_early: "keeps E profile w (nd_db (snd result))"
    if "import_loop E R R1 R2 peer hs profile maxDepth headers n = Inl result" for headers result
    using keeps_import [OF assms, of R R1 R2 peer hs maxDepth headers] that by simp
  have done_late: "keeps E profile w (nd_db (snd (finish_sync E peer hs profile n')))"
    if "import_loop E R R1 R2 peer hs profile maxDepth headers n = Inr n'" for headers n'
    using keeps_import [OF assms, of R R1 R2 peer hs maxDepth headers] that by (simp add: keeps_finish)
  show ?thesis unfolding sync_from_def Let_def
    by (simp add: assms keeps_reorg split: sum.split option.split del: split_paired_All) (blast intro: done_early done_late)
qed

lemma keeps_sync:
  assumes "keeps E profile w (nd_db n)"
  shows "keeps E profile w (nd_db (snd (SyncFromPeerWithProfileAndMaxDepth E client R1 R2 peer profile maxDepth n)))"
  using assms
  by (auto simp: SyncFromPeerWithProfileAndMaxDepth_def keeps_net Let_def intro!: keeps_sync_from dest!: keeping
      split: sum.splits option.splits prod.splits)

lemma keeps_receiveBlock:
  assumes "keeps E profile w (nd_db n)"
  shows "keeps E profile w (nd_db (snd (receiveBlock E self profile h b n)))"
  using assms
  by (auto simp: receiveBlock_def keeps_net Let_def intro!: keeps_revalidated dest!: keeping
      split: sum.splits option.splits prod.splits)

lemma keeps_receiveTx:
  assumes "keeps E profile w (nd_db n)"
  shows "keeps E profile w (nd_db (snd (receiveTx E self profile h tx n)))"
proof -
  have "keeps E profile w (nd_db (snd (acceptTx E profile tx n)))"
    using assms by (auto simp: acceptTx_def keeps_net Let_def dest!: keeping split: sum.splits option.splits prod.splits)
  then show ?thesis by (auto simp: receiveTx_def split: option.splits prod.splits)
qed

section \<open>Properties\<close>

text \<open>
  The steps by which peers act on a node: a synchronisation, a block and a transaction that are received, and a
  reorganisation asked for by the operator. Peers, clocks and the file system are arbitrary in each step.
\<close>

inductive peer_step :: "ext \<Rightarrow> 'b bolt \<Rightarrow> network_config \<Rightarrow> 'b node \<Rightarrow> 'b node \<Rightarrow> bool" for X B profile where
  sync: "ev_X E = X \<Longrightarrow> ev_B E = B \<Longrightarrow>
    peer_step X B profile n (snd (SyncFromPeerWithProfileAndMaxDepth E client R1 R2 peer profile maxDepth n))"
| block: "ev_X E = X \<Longrightarrow> ev_B E = B \<Longrightarrow> peer_step X B profile n (snd (receiveBlock E self profile h b n))"
| tx: "ev_X E = X \<Longrightarrow> ev_B E = B \<Longrightarrow> peer_step X B profile n (snd (receiveTx E self profile h t n))"
| reorg: "peer_step X B profile n
    (snd (snd (ApplyReorgWithProfile opened opened' X B D G ord order now client peer maxDepth yes profile n)))"

lemma peer_step_carries:
  assumes "bolt_buckets B" and "asset_network profile" and "peer_step X B profile n n'" and "carries X B profile w (nd_db n)"
  shows "carries X B profile w (nd_db n')"
  using assms(3, 4)
proof (cases rule: peer_step.cases)
  case (sync E client R1 R2 peer maxDepth)
  then show ?thesis using keeps_sync [of E profile w n] assms by (simp add: keeps_def)
next
  case (block E self h b)
  then show ?thesis using keeps_receiveBlock [of E profile w n] assms by (simp add: keeps_def)
next
  case (tx E self h t)
  then show ?thesis using keeps_receiveTx [of E profile w n] assms by (simp add: keeps_def)
next
  case (reorg opened opened' D G ord order now client peer maxDepth yes)
  then show ?thesis using bolt_buckets.Apply_step [OF assms(1, 4, 2)] by (metis surjective_pairing)
qed

text \<open>
  C3. Whatever peers send, in whatever order, the database of a node stays one that the chain's own operations can
  produce, with the stored state that of the stored chain, and the cumulative work of the chain never falls.
\<close>

theorem peers_never_lower_work:
  assumes "bolt_buckets B" and "asset_network profile" and "bc_reach X B profile (nd_db n)"
    and "store_Blocks B (nd_db n) = Inr bs" and "(peer_step X B profile)\<^sup>*\<^sup>* n n'"
  shows "\<exists>bs'. bc_reach X B profile (nd_db n') \<and> store_Blocks B (nd_db n') = Inr bs' \<and> in_step X B profile (nd_db n') bs'
    \<and> CalculateCumulativeWork bs \<le> CalculateCumulativeWork bs'"
proof -
  obtain cs where cs: "in_step X B profile (nd_db n) cs" using reach_in_step assms(1-3) by blast
  then have "cs = bs" using bolt_buckets.in_step_blocks [OF assms(1)] assms(4) by fastforce
  with cs assms(3) have "carries X B profile (CalculateCumulativeWork bs) (nd_db n)" by (auto simp: carries_def)
  with assms(5) have "carries X B profile (CalculateCumulativeWork bs) (nd_db n')"
    by (induction rule: rtranclp_induct) (use peer_step_carries assms(1, 2) in blast)+
  then show ?thesis using bolt_buckets.in_step_blocks [OF assms(1)] by (auto simp: carries_def)
qed

text \<open>
  C4. A reorganisation leaves the chain as it is, or replaces it by a valid one that branches off no deeper than the limit
  and has more cumulative work, and it reports success only in the second case. The stored state is always that of the stored chain.
\<close>

theorem reorg_applied:
  assumes "bolt_buckets B" and "asset_network profile" and "bc_reach X B profile (nd_db n)"
    and "store_Blocks B (nd_db n) = Inr bs" and "bs \<noteq> []"
  shows "case ApplyReorgWithProfile opened opened' X B D G ord order now client peer maxDepth yes profile n of (r, res, n') \<Rightarrow>
    \<exists>new. store_Blocks B (nd_db n') = Inr new \<and> in_step X B profile (nd_db n') new \<and>
      (r \<noteq> None \<and> new = bs \<or> reorganised X now profile (if maxDepth = 0 then DefaultMaxReorgDepth profile else maxDepth) bs new)"
proof -
  obtain cs where cs: "in_step X B profile (nd_db n) cs" using reach_in_step assms(1-3) by blast
  then have s: "in_step X B profile (nd_db n) bs" using bolt_buckets.in_step_blocks [OF assms(1)] assms(4) by fastforce
  obtain r res n' where run: "ApplyReorgWithProfile opened opened' X B D G ord order now client peer maxDepth yes profile n = (r, res, n')"
    by (metis prod.collapse)
  from bolt_buckets.Apply_exact [OF assms(1, 3) s assms(5, 2) run] obtain new where
    "in_step X B profile (nd_db n') new" "r \<noteq> None \<and> new = bs
      \<or> reorganised X now profile (if maxDepth = 0 then DefaultMaxReorgDepth profile else maxDepth) bs new" by blast
  then show ?thesis using bolt_buckets.in_step_blocks [OF assms(1)] run by (simp only: prod.case) blast
qed

lemma sync_needs_status:
  assumes "\<And>R. client = Inr R \<Longrightarrow> \<exists>e. rm_Status R = Inl e"
  shows "fst (SyncFromPeerWithProfileAndMaxDepth E client R1 R2 peer profile maxDepth n) \<noteq> None"
proof (cases client)
  case (Inl e)
  then show ?thesis by (cases "NormalizePeerURL (ev_G E) peer") (simp_all add: SyncFromPeerWithProfileAndMaxDepth_def Let_def)
next
  case (Inr R)
  then obtain e where e: "rm_Status R = Inl e" using assms by blast
  note run = SyncFromPeerWithProfileAndMaxDepth_def [of E client R1 R2 peer profile maxDepth n, unfolded Inr Let_def sum.case e]
  show ?thesis unfolding Inr run
    by (cases "NormalizePeerURL (ev_G E) peer"; cases "rm_Handshake R"; simp split: option.split prod.split sum.split)
qed

text \<open>
  C29. On a network that requires authenticated nodes a synchronisation never succeeds, whatever the peer answers, because
  no request after the handshake can be signed.
\<close>

theorem authenticated_sync_fails:
  assumes "nc_RequireAuthenticatedNode profile"
  shows "fst (SyncFromPeerWithProfileAndMaxDepth E
      (on_ok (NewClientForProfile identity profile) (\<lambda>c. Inr (client_remote D T J encode c rnd now url)))
      R1 R2 peer profile maxDepth n) \<noteq> None"
proof (cases "NewClientForProfile identity profile")
  case (Inl e)
  then show ?thesis by (intro sync_needs_status) (simp add: on_ok_def)
next
  case (Inr c)
  then show ?thesis using authenticated_remote_fails(1) [OF assms Inr] by (intro sync_needs_status) (auto simp add: on_ok_def)
qed

end
