(* ===== verification/Serving.thy ===== *)
theory Serving
  imports Sync_Safety
begin

text \<open>
  The read-only handlers of \<open>p2p/server.go\<close> that serve blocks, headers and locators, and what a node gains by
  following a peer that serves its own chain with them. The numbers of a query are parsed before the
  handlers of the model start; a number that does not parse is zero in the code.
\<close>

section \<open>Handlers\<close>

definition server_allBlocks :: "err option \<Rightarrow> ext \<Rightarrow> 'b bolt \<Rightarrow> network_config \<Rightarrow> 'b bolt_db \<Rightarrow> (err + block list) \<times> 'b bolt_db" where
  "server_allBlocks opened X B profile db = open_blocks opened X B (or_localnet profile) db"

text \<open>The limit of a query: one hundred unless it is positive, and at most that of the network.\<close>

definition served_limit :: "u64 \<Rightarrow> int \<Rightarrow> int" where
  "served_limit configured limit0 =
    (let limit = (if limit0 \<le> 0 then 100 else limit0);
         most = or_500 configured in
     if of_int limit > most then uint most else limit)"

fun serve_loop :: "u64 \<Rightarrow> int \<Rightarrow> (block \<Rightarrow> 'a) \<Rightarrow> 'a list \<Rightarrow> block list \<Rightarrow> 'a list" where
  "serve_loop start limit f out [] = out"
| "serve_loop start limit f out (block # blocks) =
    (if b_Height block < start then serve_loop start limit f out blocks
     else let out = out @ [f block] in
       if int (length out) \<ge> limit then out else serve_loop start limit f out blocks)"

text \<open>What the handlers answer once the blocks of the chain are read. A missing block is the error the client makes of the status 404.\<close>

definition blocks_page :: "network_config \<Rightarrow> u64 \<Rightarrow> int \<Rightarrow> block list \<Rightarrow> block list" where
  "blocks_page profile start limit all =
     serve_loop start (served_limit (nl_MaxSyncBlocks (nc_NetworkLimits profile)) limit) id [] all"

definition headers_page :: "network_config \<Rightarrow> u64 \<Rightarrow> int \<Rightarrow> block list \<Rightarrow> block_header list" where
  "headers_page profile start limit all =
     serve_loop start (served_limit (nl_MaxHeaderBatch (nc_NetworkLimits profile)) limit) HeaderFromBlock [] all"

definition block_with :: "u64 \<Rightarrow> block list \<Rightarrow> err + block" where
  "block_with height all =
    (case find (\<lambda>b. b_Height b = height) all of None \<Rightarrow> Inl (Err ''block not found'') | Some b \<Rightarrow> Inr b)"

definition server_blocks ::
  "err option \<Rightarrow> ext \<Rightarrow> 'b bolt \<Rightarrow> network_config \<Rightarrow> u64 \<Rightarrow> int \<Rightarrow> 'b bolt_db \<Rightarrow> (err + block list) \<times> 'b bolt_db" where
  "server_blocks opened X B profile start limit db =
    (case server_allBlocks opened X B profile db of
       (Inl e, db) \<Rightarrow> (Inl e, db)
     | (Inr all, db) \<Rightarrow>
         (Inr (blocks_page (or_localnet profile) start limit all), db))"

definition server_headers ::
  "err option \<Rightarrow> ext \<Rightarrow> 'b bolt \<Rightarrow> network_config \<Rightarrow> u64 \<Rightarrow> int \<Rightarrow> 'b bolt_db \<Rightarrow> (err + block_header list) \<times> 'b bolt_db" where
  "server_headers opened X B profile start limit db =
    (case server_allBlocks opened X B profile db of
       (Inl e, db) \<Rightarrow> (Inl e, db)
     | (Inr all, db) \<Rightarrow>
         (Inr (headers_page (or_localnet profile) start limit all), db))"

definition server_block ::
  "err option \<Rightarrow> ext \<Rightarrow> 'b bolt \<Rightarrow> network_config \<Rightarrow> u64 \<Rightarrow> 'b bolt_db \<Rightarrow> (err + block) \<times> 'b bolt_db" where
  "server_block opened X B profile height db =
    (case server_allBlocks opened X B profile db of
       (Inl e, db) \<Rightarrow> (Inl e, db)
     | (Inr all, db) \<Rightarrow> (block_with height all, db))"

definition server_locator ::
  "err option \<Rightarrow> ext \<Rightarrow> 'b bolt \<Rightarrow> network_config \<Rightarrow> 'b bolt_db \<Rightarrow> (err + locator_response option) \<times> 'b bolt_db" where
  "server_locator opened X B profile db =
    (case server_allBlocks opened X B profile db of
       (Inl e, db) \<Rightarrow> (Inl e, db)
     | (Inr all, db) \<Rightarrow> (Inr (LocatorFromBlocks all), db))"

text \<open>
  The status of a server without a cached state, and the handshake. \<open>shuffle\<close> is the random order of the peers, \<open>identity\<close> what the key
  file gives, and None an amount that cannot be printed, which does not arise.
\<close>

definition Ticker :: string where
  "Ticker = ''dIDR''"

definition server_localStatus ::
  "err option \<Rightarrow> ext \<Rightarrow> 'b bolt \<Rightarrow> golib \<Rightarrow> int \<Rightarrow> string \<Rightarrow> network_config \<Rightarrow> 'b node \<Rightarrow> (err + peer_status) option \<times> 'b node" where
  "server_localStatus opened X B G clock advertise profile n =
    (let net = or_localnet profile in
     case server_allBlocks opened X B profile (nd_db n) of
       (Inl e, db) \<Rightarrow> (Some (Inl e), n\<lparr>nd_db := db\<rparr>)
     | (Inr blocks, db) \<Rightarrow>
         (case safeKnownPeers G clock advertise (nd_peers n) of (known, f) \<Rightarrow>
         (case safeKnownPeers G clock advertise f of (peers, f) \<Rightarrow>
           let tip = last blocks;
               nextDifficulty = CalculateNextDifficultyWithParams blocks (nc_Difficulty net) in
           (map_option (\<lambda>supply. Inr
              \<lparr>st_Network = nc_Name net, st_NetworkID = nc_NetworkID net, st_ChainID = nc_ChainID net,
               st_GenesisHash = GenesisHashForNetwork net, st_ProtocolVersion = nc_ProtocolVersion net,
               st_P2PProtocolVersion = nc_P2PProtocolVersion net, st_Height = b_Height tip, st_TipHash = b_Hash tip,
               st_Difficulty = nextDifficulty, st_TipDifficulty = b_Difficulty tip, st_NextDifficulty = nextDifficulty,
               st_CumulativeWork = CalculateCumulativeWork blocks, st_TotalSupply = supply @ '' '' @ Ticker,
               st_MempoolCount = int (length (mempool_Load (nd_pool n))), st_AdvertiseP2P = advertise,
               st_KnownPeerCount = int (length known), st_ActivePeerCount = int (countActivePeers G clock peers)\<rparr>)
              (Format (TotalSupply blocks)), n\<lparr>nd_db := db, nd_peers := f\<rparr>))))"

definition server_handshake ::
  "err option \<Rightarrow> ext \<Rightarrow> 'b bolt \<Rightarrow> ed25519 \<Rightarrow> golib \<Rightarrow> int \<Rightarrow> (peer_metadata list \<Rightarrow> peer_metadata list) \<Rightarrow> string \<Rightarrow> string
     \<Rightarrow> err + node_identity \<Rightarrow> network_config \<Rightarrow> string \<Rightarrow> 'b node \<Rightarrow> (err + handshake) option \<times> 'b node" where
  "server_handshake opened X B D G clock shuffle listen advertise identity0 profile query n =
    (let net = or_localnet profile; challenge = TrimSpace query in
     case server_localStatus opened X B G clock advertise profile n of
       (None, n) \<Rightarrow> (None, n)
     | (Some (Inl e), n) \<Rightarrow> (Some (Inl e), n)
     | (Some (Inr status), n) \<Rightarrow>
     (case identity0 of
        Inl e \<Rightarrow> (Some (Inl e), n)
      | Inr identity \<Rightarrow>
      if challenge \<noteq> [] \<and> (length challenge \<noteq> 64 \<or> hex_decode challenge = None) then
        (Some (Inl (Err ''invalid handshake challenge'')), n)
      else (case safeKnownPeers G clock advertise (nd_peers n) of (peers, f) \<Rightarrow>
        let hs = \<lparr>hs_NetworkName = nc_NetworkName net, hs_NetworkID = nc_NetworkID net, hs_ChainID = nc_ChainID net,
               hs_ProtocolVersion = nc_ProtocolVersion net, hs_P2PProtocolVersion = nc_P2PProtocolVersion net,
               hs_MinProtocolVersion = nc_MinProtocolVersion net, hs_GenesisHash = GenesisHashForNetwork net,
               hs_Height = st_Height status, hs_TipHash = st_TipHash status, hs_CumulativeWork = st_CumulativeWork status,
               hs_NodeID = ni_NodeID identity, hs_IdentityVersion = NodeIdentityVersion,
               hs_NodePublicKey = hex_encode (ni_PublicKey identity), hs_NodeSignature = [], hs_AuthChallenge = challenge,
               hs_P2PListen = listen, hs_P2PAdvertise = advertise, hs_Services = [''p2p''],
               hs_KnownPeers = PeerViews G clock shuffle peers DefaultMaxDiscoveredPeers\<rparr> in
        (Some (on_ok (SignHandshake D identity hs) (\<lambda>signature. Inr (hs\<lparr>hs_NodeSignature := signature\<rparr>))),
         n\<lparr>nd_peers := f\<rparr>))))"

section \<open>What is served\<close>

lemma serve_loop_eq:
  assumes "0 < limit" and "int (length out) < limit"
  shows "serve_loop start limit f out blocks = out @ take (nat limit - length out) (map f (filter (\<lambda>b. \<not> b_Height b < start) blocks))"
  using assms
proof (induction blocks arbitrary: out)
  case (Cons b blocks)
  show ?case
  proof (cases "b_Height b < start \<or> int (length (out @ [f b])) \<ge> limit")
    case True
    then show ?thesis using Cons by (auto simp: Let_def take_Cons')
  next
    case False
    then have "nat limit - length out = Suc (nat limit - length (out @ [f b]))" using Cons.prems by auto
    with False Cons show ?thesis by (simp add: Let_def)
  qed
qed simp

lemma or_500_pos: "or_500 v \<noteq> 0"
  by (simp add: or_500_def)

lemma served_limit_pos: "0 < served_limit configured limit"
proof -
  have "0 < uint (or_500 configured)" using or_500_pos [of configured] by (simp add: word_neq_0_conv word_less_def)
  then show ?thesis by (auto simp: served_limit_def Let_def)
qed

lemma served_limit_exact:
  assumes "0 < limit" and "int limit = uint m" and "m \<le> or_500 configured"
  shows "served_limit configured (int limit) = int limit"
proof -
  have "(of_int (int limit) :: u64) = m" using assms(2) by simp
  then show ?thesis using assms(1, 3) by (auto simp: served_limit_def Let_def)
qed

text \<open>The blocks from a height on, in a chain that is numbered.\<close>

lemma numbered_filter:
  assumes "numbered blocks" and "unat start \<le> length blocks"
  shows "filter (\<lambda>b. \<not> b_Height b < start) blocks = drop (unat start) blocks"
proof -
  have h: "unat (b_Height (blocks ! i)) = i" if "i < length blocks" for i using numbered_nth [OF assms(1) that] .
  have "filter (\<lambda>b. \<not> b_Height b < start) (take (unat start) blocks) = []"
    using h assms(2) by (auto simp: filter_empty_conv in_set_conv_nth word_less_nat_alt)
  moreover have "filter (\<lambda>b. \<not> b_Height b < start) (drop (unat start) blocks) = drop (unat start) blocks"
    using h by (auto simp: filter_id_conv in_set_conv_nth word_less_nat_alt)
  ultimately show ?thesis by (metis append_Nil append_take_drop_id filter_append)
qed

section \<open>Following an honest peer\<close>

text \<open>A peer that answers as these handlers do on a chain, which a server does whose database holds it.\<close>

definition serves :: "network_config \<Rightarrow> block list \<Rightarrow> remote \<Rightarrow> bool" where
  "serves profile chain R \<longleftrightarrow>
     rm_Headers R = (\<lambda>start limit. Inr (headers_page profile start (int limit) chain)) \<and> rm_Block R = (\<lambda>h. block_with h chain)"

lemma server_serves:
  assumes "fst (server_allBlocks opened X B profile db) = Inr chain" and "or_localnet profile = profile"
    and "rm_Headers R = (\<lambda>start limit. fst (server_headers opened X B profile start (int limit) db))"
    and "rm_Block R = (\<lambda>h. fst (server_block opened X B profile h db))"
  shows "serves profile chain R"
  using assms
  by (cases "server_allBlocks opened X B profile db") (simp add: serves_def server_headers_def server_block_def)

lemma served_headers:
  assumes "serves profile (bs @ new) R" and "numbered (bs @ new)" and "new \<noteq> []" and "unat start = length bs" and "length new = unat m"
    and "m \<le> or_500 (nl_MaxHeaderBatch (nc_NetworkLimits profile))"
  shows "rm_Headers R start (length new) = Inr (map HeaderFromBlock new)"
proof -
  let ?conf = "nl_MaxHeaderBatch (nc_NetworkLimits profile)"
  have "int (length new) = uint m" using assms(5) by (simp only: uint_nat)
  moreover have pos: "0 < length new" using assms(3) by simp
  ultimately have limit: "served_limit ?conf (int (length new)) = int (length new)"
    using assms(6) by (intro served_limit_exact)
  have "unat start \<le> length (bs @ new)" using assms(4) by simp
  from numbered_filter [OF assms(2) this] have f: "filter (\<lambda>b. \<not> b_Height b < start) (bs @ new) = new"
    by (simp only: assms(4)) simp
  have "serve_loop start (int (length new)) HeaderFromBlock [] (bs @ new) = map HeaderFromBlock new"
    using pos by (subst serve_loop_eq) (simp_all only: f, simp_all)
  then show ?thesis using assms(1) limit by (simp add: serves_def headers_page_def)
qed

lemma find_numbered:
  assumes "numbered bs" and "i < length bs"
  shows "find (\<lambda>b. b_Height b = b_Height (bs ! i)) bs = Some (bs ! i)"
proof -
  have "b_Height (bs ! j) \<noteq> b_Height (bs ! i)" if "j < i" for j
    using numbered_nth [OF assms(1)] assms(2) that by (metis less_trans nat_neq_iff)
  then show ?thesis using assms(2) by (auto simp: find_Some_iff)
qed

lemma served_block:
  assumes "serves profile (bs @ new) R" and "numbered (bs @ new)" and "b \<in> set new"
  shows "rm_Block R (b_Height b) = Inr b"
proof -
  obtain i where "i < length (bs @ new)" "(bs @ new) ! i = b" using assms(3) by (metis UnCI in_set_conv_nth set_append)
  then have "find (\<lambda>c. b_Height c = b_Height b) (bs @ new) = Some b" using find_numbered [OF assms(2)] by metis
  then show ?thesis using assms(1) by (simp add: serves_def block_with_def)
qed

context bolt_buckets
begin

lemma no_block_above:
  assumes "in_step X B profile db cs" and "unat h = length cs"
  shows "blockAtHeight B h db = None"
proof -
  have "numbered cs" using assms(1) by (simp add: in_step_def holds_chain_def)
  then have "b_Height c \<noteq> h" if "c \<in> set cs" for c using numbered_nth assms(2) that by (metis in_set_conv_nth less_irrefl)
  then show ?thesis using in_step_blocks [OF assms(1)] by (auto simp: blockAtHeight_def find_None_iff)
qed

lemma Revalidate_keeps:
  assumes "in_step X B profile (nd_db n) cs" and "cs \<noteq> []" and "asset_network profile"
  shows "in_step X B profile (nd_db (snd (RevalidateMempoolAgainstLedgerWithProfile opened X B profile n))) cs"
  using open_blocks_keeps(1) [OF assms, of opened]
  by (auto simp: RevalidateMempoolAgainstLedgerWithProfile_def assms(3) Let_def split: sum.splits prod.splits)

lemma finish_keeps:
  assumes "ev_X E = X" and "ev_B E = B" and "in_step X B profile (nd_db n) cs" and "cs \<noteq> []" and "asset_network profile"
  shows "in_step X B profile (nd_db (snd (finish_sync E peer hs profile n))) cs"
proof -
  obtain r n1 where v: "RevalidateMempoolAgainstLedgerWithProfile (ev_opened E 4) X B profile n = (r, n1)" by fastforce
  have k: "in_step X B profile (nd_db n1) cs" using Revalidate_keeps [OF assms(3-5), of "ev_opened E 4"] v by simp
  show ?thesis unfolding finish_sync_def assms(1, 2) v
    using assms(3) k open_keeps [OF k assms(4, 5), of "ev_opened E 5"] by (auto split: sum.splits option.splits prod.splits)
qed

lemma import_honest:
  assumes "ev_X E = X" and "ev_B E = B" and "asset_network profile"
    and "in_step X B profile (nd_db n) cs" and "numbered (cs @ ds)" and "\<And>d. d \<in> set ds \<Longrightarrow> rm_Block R (b_Height d) = Inr d"
  shows "case import_loop E R R1 R2 peer hs profile maxDepth (map HeaderFromBlock ds) n of
      Inl (r, n') \<Rightarrow> r \<noteq> None \<and> (\<exists>k \<le> length ds. in_step X B profile (nd_db n') (cs @ take k ds))
    | Inr n' \<Rightarrow> in_step X B profile (nd_db n') (cs @ ds)"
  using assms(4-6)
proof (induction ds arbitrary: cs n)
  case (Cons d ds)
  have h: "unat (b_Height d) = length cs" using numbered_nth [OF Cons.prems(2), of "length cs"] by simp
  have none: "blockAtHeight B (b_Height d) (nd_db n) = None" using no_block_above [OF Cons.prems(1) h] .
  obtain r db where add: "AddBlockWithNetwork X B (ev_now E) d profile (nd_db n) = (r, db)" by fastforce
  note exact = AddBlock_exact [OF Cons.prems(1) assms(3) add]
  note run = none Cons.prems(3) [of d] add assms(1, 2)
  show ?case
  proof (cases r)
    case None
    let ?n = "n\<lparr>nd_db := db, nd_pool := removeBlockTxs d (nd_pool n)\<rparr>"
    have "in_step X B profile (nd_db ?n) (cs @ [d])" using exact None by simp
    from Cons.IH [OF this] Cons.prems(2, 3) have IH: "case import_loop E R R1 R2 peer hs profile maxDepth (map HeaderFromBlock ds) ?n of
        Inl (r, n') \<Rightarrow> r \<noteq> None \<and> (\<exists>k \<le> length ds. in_step X B profile (nd_db n') ((cs @ [d]) @ take k ds))
      | Inr n' \<Rightarrow> in_step X B profile (nd_db n') ((cs @ [d]) @ ds)" by simp
    have step: "import_loop E R R1 R2 peer hs profile maxDepth (map HeaderFromBlock (d # ds)) n
        = import_loop E R R1 R2 peer hs profile maxDepth (map HeaderFromBlock ds) ?n"
      using run None by (simp add: HeaderFromBlock_def)
    have "\<exists>k \<le> length (d # ds). in_step X B profile db' (cs @ take k (d # ds))"
      if "k \<le> length ds" "in_step X B profile db' ((cs @ [d]) @ take k ds)" for k db'
      using that by (intro exI [of _ "Suc k"]) simp
    with IH show ?thesis unfolding step by (auto split: sum.splits prod.splits simp del: length_Cons)
  next
    case (Some e)
    then have "in_step X B profile db (cs @ take 0 (d # ds))" using exact Cons.prems(1) by simp
    then show ?thesis using run Some by (auto simp: HeaderFromBlock_def intro!: exI [of _ 0])
  qed
qed simp

lemma sync_from_honest:
  assumes "ev_X E = X" and "ev_B E = B" and "asset_network profile" and "in_step X B profile (nd_db n) bs" and "bs \<noteq> []"
    and "new \<noteq> []" and "numbered (bs @ new)" and "b_PreviousHash (hd new) = b_Hash (last bs)" and "st_Height st = b_Height (last new)"
    and "\<And>m. length new = unat m \<Longrightarrow> m \<le> or_500 (nl_MaxHeaderBatch (nc_NetworkLimits profile)) \<Longrightarrow>
      rm_Headers R (b_Height (last bs) + 1) (length new) = Inr (map HeaderFromBlock new)"
    and "\<And>b. b \<in> set new \<Longrightarrow> rm_Block R (b_Height b) = Inr b"
  shows "case sync_from E R R1 R2 peer hs st (last bs) profile maxDepth n of (r, n') \<Rightarrow>
    \<exists>k \<le> length new. in_step X B profile (nd_db n') (bs @ take k new) \<and> (r = None \<longrightarrow> k = length new)"
proof -
  let ?m = "st_Height st - b_Height (last bs)"
  have n: "numbered bs" using assms(4) by (simp add: in_step_def holds_chain_def)
  have tip: "unat (b_Height (last bs)) = length bs - 1" using numbered_last [OF n assms(5)] .
  have top': "unat (st_Height st) = length bs + length new - 1" using numbered_last [OF assms(7)] assms(6, 9) by simp
  have above: "\<not> st_Height st \<le> b_Height (last bs)" using tip top' assms(5, 6) by (cases bs; cases new) (auto simp: word_le_nat_alt)
  then have m: "length new = unat ?m" using tip top' assms(5) by (cases bs) (auto simp: unat_sub not_le less_imp_le)
  have hdn: "bh_PreviousHash (hd (map HeaderFromBlock new)) = b_Hash (last bs)"
    using assms(6, 8) by (simp add: hd_map HeaderFromBlock_def)
  have stay: "\<exists>k \<le> length new. in_step X B profile db (bs @ take k new) \<and> (r = None \<longrightarrow> k = length new)"
    if "in_step X B profile db bs" "r \<noteq> None" for db and r :: "err option" using that by (intro exI [of _ 0]) auto
  note here = stay [OF assms(4)]
  have loop: "case (case import_loop E R R1 R2 peer hs profile maxDepth (map HeaderFromBlock new) n of
       Inl result \<Rightarrow> result | Inr n \<Rightarrow> finish_sync E peer hs profile n) of (r, n') \<Rightarrow>
    \<exists>k \<le> length new. in_step X B profile (nd_db n') (bs @ take k new) \<and> (r = None \<longrightarrow> k = length new)"
  proof (cases "import_loop E R R1 R2 peer hs profile maxDepth (map HeaderFromBlock new) n")
    case (Inl result)
    then show ?thesis using import_honest [OF assms(1-4, 7, 11), of R1 R2 peer hs maxDepth] by (cases result) auto
  next
    case (Inr n')
    then have "in_step X B profile (nd_db n') (bs @ new)" using import_honest [OF assms(1-4, 7, 11), of R1 R2 peer hs maxDepth] by simp
    from finish_keeps [OF assms(1, 2) this _ assms(3), of peer hs] assms(5) Inr show ?thesis
      by (cases "finish_sync E peer hs profile n'") (simp, intro exI [of _ "length new"], simp)
  qed
  show ?thesis
  proof (cases "?m > or_500 (nl_MaxSyncBlocks (nc_NetworkLimits profile)) \<or> ?m > or_500 (nl_MaxHeaderBatch (nc_NetworkLimits profile))")
    case True
    then show ?thesis using above here by (auto simp: sync_from_def Let_def)
  next
    case False
    have "rm_Headers R (b_Height (last bs) + 1) (unat ?m) = Inr (map HeaderFromBlock new)"
      using assms(10) [OF m] False m by (simp add: not_less)
    then show ?thesis using False above here loop hdn m
      by (auto simp: sync_from_def Let_def split: option.split)
  qed
qed

lemma opened_tip: "in_step X B profile db bs \<Longrightarrow> bs \<noteq> [] \<Longrightarrow> store_Tip B db = Inr (last bs)"
  using read_chain(2) [of db bs] by (simp add: in_step_def)

lemma sync_honest:
  assumes "ev_X E = X" and "ev_B E = B" and "asset_network profile" and "in_step X B profile (nd_db n) bs" and "bs \<noteq> []"
    and "new \<noteq> []" and "numbered (bs @ new)" and "b_PreviousHash (hd new) = b_Hash (last bs)"
    and "rm_Status R = Inr st" and "st_Height st = b_Height (last new)"
    and "\<And>m. length new = unat m \<Longrightarrow> m \<le> or_500 (nl_MaxHeaderBatch (nc_NetworkLimits profile)) \<Longrightarrow>
      rm_Headers R (b_Height (last bs) + 1) (length new) = Inr (map HeaderFromBlock new)"
    and "\<And>b. b \<in> set new \<Longrightarrow> rm_Block R (b_Height b) = Inr b"
  shows "case SyncFromPeerWithProfileAndMaxDepth E (Inr R) R1 R2 peer profile maxDepth n of (r, n') \<Rightarrow>
    \<exists>k \<le> length new. in_step X B profile (nd_db n') (bs @ take k new) \<and> (r = None \<longrightarrow> k = length new)"
proof -
  obtain ro db where o: "openChainWithProfile (ev_opened E 0) X B profile (nd_db n) = (ro, db)" by fastforce
  have k: "in_step X B profile db bs" using open_keeps [OF assms(4, 5, 3) o] .
  have stay: "\<exists>k \<le> length new. in_step X B profile db (bs @ take k new) \<and> (Some e = None \<longrightarrow> k = length new)"
    if "in_step X B profile db bs" for db and e :: err using that by (intro exI [of _ 0]) simp
  have follow: "case sync_from E R R1 R2 url hs st (last bs) profile depth (n1\<lparr>nd_db := db\<rparr>) of (r, n') \<Rightarrow>
    \<exists>k \<le> length new. in_step X B profile (nd_db n') (bs @ take k new) \<and> (r = None \<longrightarrow> k = length new)" for url hs depth n1
    by (rule sync_from_honest [OF assms(1-3) _ assms(5-8, 10-12)]) (simp add: k)
  show ?thesis
    unfolding SyncFromPeerWithProfileAndMaxDepth_def Let_def assms(1, 2) net_or [OF assms(3)]
    using stay [OF assms(4)] stay [OF k] follow opened_tip [OF k assms(5)] o assms(9)
    by (simp split: sum.split option.split)
qed

end

text \<open>
  C5. Following an honest peer: when the peer serves a chain that extends the chain of the node, a synchronisation leaves
  the node with its old chain and a first part of the blocks it was missing, with the state that belongs to them; when it
  succeeds, with the whole chain of the peer.
\<close>

theorem honest_sync_follows:
  assumes "bolt_buckets (ev_B E)" and "asset_network profile" and "bc_reach (ev_X E) (ev_B E) profile (nd_db n)"
    and "store_Blocks (ev_B E) (nd_db n) = Inr bs" and "bs \<noteq> []"
    and "serves profile (bs @ new) R" and "numbered (bs @ new)" and "new \<noteq> []" and "b_PreviousHash (hd new) = b_Hash (last bs)"
    and "rm_Status R = Inr st" and "st_Height st = b_Height (last new)"
  shows "case SyncFromPeerWithProfileAndMaxDepth E (Inr R) R1 R2 peer profile maxDepth n of (r, n') \<Rightarrow>
    \<exists>k \<le> length new. store_Blocks (ev_B E) (nd_db n') = Inr (bs @ take k new)
      \<and> in_step (ev_X E) (ev_B E) profile (nd_db n') (bs @ take k new) \<and> (r = None \<longrightarrow> k = length new)"
proof -
  obtain cs where cs: "in_step (ev_X E) (ev_B E) profile (nd_db n) cs" using reach_in_step assms(1-3) by blast
  then have s: "in_step (ev_X E) (ev_B E) profile (nd_db n) bs" using bolt_buckets.in_step_blocks [OF assms(1)] assms(4) by fastforce
  have "numbered bs" using s by (simp add: in_step_def holds_chain_def)
  then have tip: "unat (b_Height (last bs)) = length bs - 1" using assms(5) by (rule numbered_last)
  have "length bs < 2 ^ 64"
    using numbered_nth [OF assms(7), of "length bs"] assms(8) unat_u64_lt [of "b_Height ((bs @ new) ! length bs)"] by simp
  then have "b_Height (last bs) \<noteq> max_u64" using tip assms(5) by auto
  then have start: "unat (b_Height (last bs) + 1) = length bs" using tip assms(5) by (simp add: unat_inc)
  have "case SyncFromPeerWithProfileAndMaxDepth E (Inr R) R1 R2 peer profile maxDepth n of (r, n') \<Rightarrow>
    \<exists>k \<le> length new. in_step (ev_X E) (ev_B E) profile (nd_db n') (bs @ take k new) \<and> (r = None \<longrightarrow> k = length new)"
    using served_headers [OF assms(6-8) start] served_block [OF assms(6, 7)]
    by (rule bolt_buckets.sync_honest [OF assms(1) refl refl assms(2) s assms(5, 8, 7, 9-11)])
  then show ?thesis using bolt_buckets.in_step_blocks [OF assms(1)] by (fastforce split: prod.splits)
qed

section \<open>Handshakes\<close>

lemma handshake_sent:
  assumes "server_handshake opened X B D G clock shuffle listen advertise (Inr identity) profile query n = (Some (Inr hs), n')"
  shows "hs_NetworkID hs = nc_NetworkID (or_localnet profile)" and "hs_ChainID hs = nc_ChainID (or_localnet profile)"
    and "hs_GenesisHash hs = GenesisHashForNetwork (or_localnet profile)" and "hs_ProtocolVersion hs = nc_ProtocolVersion (or_localnet profile)"
    and "hs_MinProtocolVersion hs = nc_MinProtocolVersion (or_localnet profile)" and "hs_AuthChallenge hs = TrimSpace query"
    and "hs_IdentityVersion hs = NodeIdentityVersion" and "hs_NodePublicKey hs = hex_encode (ni_PublicKey identity)"
    and "hs_NodeSignature hs = hex_encode (ed_Sign D (ni_PrivateKey identity) (handshakeSigningBytes hs))"
    and "length (ni_PublicKey identity) = 32"
  using assms
  by (auto simp: server_handshake_def SignHandshake_def IdentityVersion_def NodeIdentityVersion_def on_ok_def Let_def
      handshakeSigningBytes_def split: option.splits sum.splits prod.splits if_splits)

text \<open>
  C26. A handshake is accepted on its own network: what a server sends to a challenge names that challenge, and the nodes of the
  network accept it, when the identity of the server is a key pair and the network does not exclude its own version.
\<close>

theorem handshake_accepted:
  assumes "key_pair D identity" and "nc_MinProtocolVersion profile \<le> nc_ProtocolVersion profile" and "nc_Name profile \<noteq> []"
    and "server_handshake opened X B D G clock shuffle listen advertise (Inr identity) profile query n = (Some (Inr hs), n')"
  shows "hs_AuthChallenge hs = TrimSpace query \<and> VerifyHandshakeIdentity D hs = None \<and> ValidateHandshake D profile hs = None"
proof -
  note S = handshake_sent [OF assms(4)]
  have net: "or_localnet profile = profile" using assms(3) by (simp add: or_localnet_def)
  have sig: "length (ed_Sign D (ni_PrivateKey identity) m) = 64" "ed_Verify D (ni_PublicKey identity) m (ed_Sign D (ni_PrivateKey identity) m)" for m
    using assms(1) by (simp_all add: key_pair_def)
  have "VerifyHandshakeIdentity D hs = None"
    unfolding VerifyHandshakeIdentity_def sized_hex_def S(7, 8) by (subst S(9)) (simp add: sig S(10))
  moreover have "claims_identity hs" using S(7) by (simp add: claims_identity_def NodeIdentityVersion_def)
  ultimately show ?thesis using S(1-6) assms(2) by (simp add: ValidateHandshake_def net not_less)
qed

end
