(* ===== verification/Peer_Scenarios.thy ===== *)
theory Peer_Scenarios
  imports Blockchain_Scenarios Message_Scenarios Peer_Facts Serving
begin

text \<open>
  Concrete inputs for the properties of peers, reorganisations and synchronisation: one address that the stand-in
  for \<open>net/url\<close> parses, a peer that was rejected, and a node with the chain of a new database.
\<close>

section \<open>Peers\<close>

definition demo_url :: string where
  "demo_url = ''http://a:1''"

definition demo_lib :: golib where
  "demo_lib = \<lparr>lb_ParseURL = (\<lambda>s. if s = demo_url
       then Inr \<lparr>u_Scheme = ''http'', u_Host = ''a:1'', u_Path = [], u_RawQuery = [], u_Fragment = []\<rparr> else Inl (Err ''parse'')),
     lb_URLString = (\<lambda>_. demo_url), lb_Format = (\<lambda>_. ''now''), lb_Parse = (\<lambda>_. Some 0)\<rparr>"

lemma demo_trim: "TrimSpace demo_url = demo_url" "TrimRight demo_url CHR ''/'' = demo_url"
  by code_simp+

lemma demo_normal: "NormalizePeerURL demo_lib demo_url = Inr demo_url"
proof -
  have "demo_url \<noteq> []" by (simp add: demo_url_def)
  then show ?thesis by (simp add: NormalizePeerURL_def demo_lib_def demo_trim Let_def)
qed

lemma demo_stable: "stable_urls demo_lib"
proof -
  have "t = demo_url" if "NormalizePeerURL demo_lib s = Inr t" for s t
    using that by (auto simp: NormalizePeerURL_def demo_lib_def demo_trim Let_def split: if_splits)
  then show ?thesis using demo_normal unfolding stable_urls_def by blast
qed

definition demo_intro :: introduction where
  "demo_intro = \<lparr>in_URL = demo_url, in_NodeID = [], in_NetworkID = [], in_ChainID = 0, in_Version = [], in_Protocol = [], in_Services = []\<rparr>"

definition bad_book :: peer_file where
  "bad_book = Modern [(new_peer demo_url PeerStatusBad)\<lparr>pm_Score := - 100, pm_FailureCount := 9, pm_LastError := ''handshake mismatch''\<rparr>]"

theorem introduction_resets_witness:
  "\<exists>peers p. snd (acceptPeerIntroduction demo_lib 0 [] Localnet demo_intro bad_book) = Modern peers
    \<and> find_peer demo_url peers = Some p \<and> pm_Score p = 5 \<and> pm_Status p = PeerStatusActive \<and> pm_FailureCount p = 0"
proof -
  have accepted: "acceptPeerIntroduction demo_lib 0 [] Localnet demo_intro bad_book = Upsert demo_lib 0 (introduced demo_lib 0 demo_intro) bad_book"
    using demo_normal
    by (simp add: acceptPeerIntroduction_def demo_intro_def ValidatePeerURL_def isSelfPeerURL_def Localnet_def demo_url_def [symmetric])
      (simp add: demo_url_def)
  have "fst (Upsert demo_lib 0 (introduced demo_lib 0 demo_intro) bad_book) = None"
    using Upsert_stores [OF demo_stable, of "introduced demo_lib 0 demo_intro" demo_url 0 bad_book] demo_normal
    by (auto simp: introduced_def new_peer_def demo_intro_def demo_lib_def)
  moreover have "lb_Format demo_lib 0 \<noteq> []" by (simp add: demo_lib_def)
  moreover have "\<not> isSelfPeerURL demo_lib (in_URL demo_intro) []" by (simp add: isSelfPeerURL_def)
  moreover have "NormalizePeerURL demo_lib (in_URL demo_intro) = Inr demo_url" by (simp add: demo_intro_def demo_normal)
  ultimately show ?thesis
    using introduction_resets [OF demo_stable, of demo_intro demo_url 0 "[]" Localnet bad_book] accepted by auto
qed

theorem peerBackoff_value_witness: "sint (peerBackoff 3 30 100) = 100"
  using peerBackoff_value [of 30 100 3] by simp

section \<open>A node\<close>

definition demo_env :: "(string, stored) fmap env" where
  "demo_env = \<lparr>ev_X = no_ext, ev_B = map_bolt, ev_D = demo_ed, ev_G = demo_lib, ev_ord = (\<lambda>_ xs. xs), ev_order = (\<lambda>xs. xs),
     ev_now = 0, ev_clock = 0, ev_opened = (\<lambda>_. None)\<rparr>"

text \<open>The node after a block that a peer sent and a synchronisation with a peer that does not answer.\<close>

theorem peers_never_lower_work_witness:
  "\<exists>db n bs'. InitWithProfile no_ext map_bolt open_net empty_db = (None, db)
    \<and> n = snd (SyncFromPeerWithProfileAndMaxDepth demo_env (Inl (Err ''down'')) (Inl (Err ''down'')) (Inl (Err ''down'')) demo_url open_net 0
          (snd (receiveBlock demo_env [] open_net fmempty first_block \<lparr>nd_db = db, nd_pool = None, nd_peers = NoFile\<rparr>)))
    \<and> store_Blocks map_bolt (nd_db n) = Inr bs' \<and> in_step no_ext map_bolt open_net (nd_db n) bs'
    \<and> CalculateCumulativeWork [first_block] \<le> CalculateCumulativeWork bs'"
proof -
  obtain db where db: "InitWithProfile no_ext map_bolt open_net empty_db = (None, db)" "bc_reach no_ext map_bolt open_net db"
    "store_Blocks map_bolt db = Inr [first_block]" using init_first by blast
  let ?n = "\<lparr>nd_db = db, nd_pool = None, nd_peers = NoFile\<rparr>"
  let ?n1 = "snd (receiveBlock demo_env [] open_net fmempty first_block ?n)"
  let ?n2 = "snd (SyncFromPeerWithProfileAndMaxDepth demo_env (Inl (Err ''down'')) (Inl (Err ''down'')) (Inl (Err ''down'')) demo_url open_net 0 ?n1)"
  have E: "ev_X demo_env = no_ext" "ev_B demo_env = map_bolt" by (simp_all add: demo_env_def)
  have "peer_step no_ext map_bolt open_net ?n ?n1" "peer_step no_ext map_bolt open_net ?n1 ?n2"
    by (rule peer_step.block [OF E] peer_step.sync [OF E])+
  then have "(peer_step no_ext map_bolt open_net)\<^sup>*\<^sup>* ?n ?n2" by (meson converse_rtranclp_into_rtranclp rtranclp.rtrancl_refl)
  then show ?thesis
    using peers_never_lower_work [OF map_store.bolt_buckets_axioms open_asset_network, of no_ext ?n "[first_block]" ?n2] db by auto
qed

theorem reorg_applied_witness:
  "\<exists>db. InitWithProfile no_ext map_bolt open_net empty_db = (None, db) \<and>
    (case ApplyReorgWithProfile None None no_ext map_bolt demo_ed demo_lib (\<lambda>_ xs. xs) (\<lambda>xs. xs) 0 (Inl (Err ''down'')) demo_url 0 True open_net
       \<lparr>nd_db = db, nd_pool = None, nd_peers = NoFile\<rparr> of (r, res, n') \<Rightarrow>
      \<exists>new. store_Blocks map_bolt (nd_db n') = Inr new \<and> (r \<noteq> None \<and> new = [first_block]
        \<or> reorganised no_ext 0 open_net (DefaultMaxReorgDepth open_net) [first_block] new))"
proof -
  obtain db where db: "InitWithProfile no_ext map_bolt open_net empty_db = (None, db)" "bc_reach no_ext map_bolt open_net db"
    "store_Blocks map_bolt db = Inr [first_block]" using init_first by blast
  show ?thesis
    using reorg_applied [OF map_store.bolt_buckets_axioms open_asset_network, where X = no_ext
        and n = "\<lparr>nd_db = db, nd_pool = None, nd_peers = NoFile\<rparr>" and bs = "[first_block]" and opened = None and opened' = None
        and D = demo_ed and G = demo_lib and ord = "\<lambda>_ xs. xs" and order = "\<lambda>xs. xs" and now = 0 and client = "Inl (Err ''down'')"
        and peer = demo_url and maxDepth = 0 and yes = True] db
    by (fastforce split: prod.splits)
qed

theorem authenticated_sync_fails_witness:
  "nc_RequireAuthenticatedNode Testnet
    \<and> fst (SyncFromPeerWithProfileAndMaxDepth demo_env
        (on_ok (NewClientForProfile (Inr demo_node) Testnet)
          (\<lambda>c. Inr (client_remote demo_ed \<lparr>tp_NewRequest = (\<lambda>_ _. Inl (Err ''none'')), tp_Do = (\<lambda>_ _. Inl (Err ''none''))\<rparr>
             \<lparr>js_Handshake = (\<lambda>_. Inl (Err ''none'')), js_Status = (\<lambda>_. Inl (Err ''none'')), js_Headers = (\<lambda>_. Inr []),
              js_Locator = (\<lambda>_. Inl (Err ''none'')), js_Block = (\<lambda>_. Inl (Err ''none'')), js_CommonAncestor = (\<lambda>_. Inl (Err ''none''))\<rparr>
             (\<lambda>_. Inr []) c (\<lambda>_. (Inr [], Inr [])) 0 demo_url)))
        (Inl (Err ''down'')) (Inl (Err ''down'')) demo_url Testnet 0 \<lparr>nd_db = empty_db, nd_pool = None, nd_peers = NoFile\<rparr>) \<noteq> None"
proof -
  have "nc_RequireAuthenticatedNode Testnet" by (simp add: Testnet_def)
  then show ?thesis by (simp only: authenticated_sync_fails simp_thms)
qed

section \<open>A server\<close>

definition next_block :: block where
  "next_block = first_block\<lparr>b_Height := 1, b_PreviousHash := b_Hash first_block\<rparr>"

definition demo_status :: peer_status where
  "demo_status = \<lparr>st_Network = nc_Name open_net, st_NetworkID = nc_NetworkID open_net, st_ChainID = nc_ChainID open_net,
     st_GenesisHash = GenesisHashForNetwork open_net, st_ProtocolVersion = 1, st_P2PProtocolVersion = ''ind-p2p/1'', st_Height = 1,
     st_TipHash = b_Hash next_block, st_Difficulty = 1, st_TipDifficulty = 1, st_NextDifficulty = 1, st_CumulativeWork = 1,
     st_TotalSupply = ''0'', st_MempoolCount = 0, st_AdvertiseP2P = [], st_KnownPeerCount = 0, st_ActivePeerCount = 0\<rparr>"

definition demo_server :: remote where
  "demo_server = \<lparr>rm_Handshake = Inr zero_handshake, rm_Status = Inr demo_status,
     rm_Headers = (\<lambda>start limit. Inr (headers_page open_net start (int limit) [first_block, next_block])),
     rm_Locator = Inl (Err ''none''), rm_Block = (\<lambda>h. block_with h [first_block, next_block]),
     rm_CommonAncestor = (\<lambda>_. Inl (Err ''none''))\<rparr>"

text \<open>A peer that offers a block without proof of work: the node keeps a first part of its chain.\<close>

theorem honest_sync_follows_witness:
  "\<exists>db k. InitWithProfile no_ext map_bolt open_net empty_db = (None, db) \<and> k \<le> 1 \<and>
    store_Blocks map_bolt (nd_db (snd (SyncFromPeerWithProfileAndMaxDepth demo_env (Inr demo_server) (Inl (Err ''down'')) (Inl (Err ''down''))
      demo_url open_net 0 \<lparr>nd_db = db, nd_pool = None, nd_peers = NoFile\<rparr>))) = Inr ([first_block] @ take k [next_block])"
proof -
  obtain db where db: "InitWithProfile no_ext map_bolt open_net empty_db = (None, db)" "bc_reach no_ext map_bolt open_net db"
    "store_Blocks map_bolt db = Inr [first_block]" using init_first by blast
  let ?n = "\<lparr>nd_db = db, nd_pool = None, nd_peers = NoFile\<rparr>"
  have E: "ev_X demo_env = no_ext" "ev_B demo_env = map_bolt" by (simp_all add: demo_env_def)
  have "serves open_net ([first_block] @ [next_block]) demo_server" by (simp add: serves_def demo_server_def)
  moreover have "numbered ([first_block] @ [next_block])" by (simp add: numbered_def first_block_fields next_block_def)
  moreover have "rm_Status demo_server = Inr demo_status" "st_Height demo_status = b_Height (last [next_block])"
    by (simp_all add: demo_server_def demo_status_def next_block_def)
  moreover have "b_PreviousHash (hd [next_block]) = b_Hash (last [first_block])" by (simp add: next_block_def)
  ultimately show ?thesis
    using honest_sync_follows [of demo_env open_net ?n "[first_block]" "[next_block]" demo_server demo_status "Inl (Err ''down'')" "Inl (Err ''down'')" demo_url 0]
      map_store.bolt_buckets_axioms open_asset_network db unfolding E
    by (fastforce split: prod.splits)
qed

lemma served_first:
  "\<exists>db. server_allBlocks None no_ext map_bolt open_net empty_db = (Inr [first_block], db)"
proof -
  obtain db where db: "InitWithProfile no_ext map_bolt open_net empty_db = (None, db)" "store_Blocks map_bolt db = Inr [first_block]"
    using init_first by blast
  have "store_Init map_bolt empty_db = (None, empty_db)" by (simp add: store_Init_def created_def empty_db_def)
  moreover have "store_ValidateStartupIntegrity map_bolt empty_db = None"
    using map_store.read_chain(3) [OF empty_db_chain] by (simp add: store_ValidateStartupIntegrity_def)
  ultimately show ?thesis using db net_or [OF open_asset_network]
    by (simp add: server_allBlocks_def open_blocks_def openChainWithProfile_def OpenBolt_def)
qed

lemma no_supply: "Format (TotalSupply [first_block]) \<noteq> None"
proof -
  have "TotalSupply [first_block] = 0" by (simp add: TotalSupply_def TotalSupplyWithProfile_def first_block_fields)
  moreover have "Format 0 \<noteq> None" by code_simp
  ultimately show ?thesis by simp
qed

lemma no_peers: "safeKnownPeers demo_lib 0 [] NoFile = ([], NoFile)"
  by (simp add: safeKnownPeers_def LoadMetadata_def uniqueMetadata_def)

theorem handshake_accepted_witness:
  "\<exists>hs n. server_handshake None no_ext map_bolt demo_ed demo_lib 0 (\<lambda>xs. xs) [] [] (Inr demo_node) open_net []
      \<lparr>nd_db = empty_db, nd_pool = None, nd_peers = NoFile\<rparr> = (Some (Inr hs), n)
    \<and> VerifyHandshakeIdentity demo_ed hs = None \<and> ValidateHandshake demo_ed open_net hs = None"
proof -
  obtain db where all: "server_allBlocks None no_ext map_bolt open_net empty_db = (Inr [first_block], db)" using served_first by blast
  obtain s where s: "Format (TotalSupply [first_block]) = Some s" using no_supply by blast
  have "IdentityVersion demo_node = NodeIdentityVersion" by (simp add: IdentityVersion_def demo_node_def)
  moreover have "TrimSpace [] = []" by code_simp
  ultimately obtain hs n where run: "server_handshake None no_ext map_bolt demo_ed demo_lib 0 (\<lambda>xs. xs) [] [] (Inr demo_node) open_net []
      \<lparr>nd_db = empty_db, nd_pool = None, nd_peers = NoFile\<rparr> = (Some (Inr hs), n)"
    using all s by (simp add: server_handshake_def server_localStatus_def SignHandshake_def on_ok_def Let_def no_peers)
  have "nc_MinProtocolVersion open_net \<le> nc_ProtocolVersion open_net" by (simp add: open_net_def Localnet_def)
  from handshake_accepted [OF demo_key_pair this open_net_fields(1) run] run show ?thesis by blast
qed

end
