(* ===== verification/Pool_Revalidation.thy ===== *)
theory Pool_Revalidation
  imports Reorg
begin

text \<open>
  What \<open>revalidateTransactions\<close> keeps of a pool when the chain has changed: an abstract account of its loop, and the
  facts about the pool that follow from it.
\<close>

section \<open>The loop\<close>

definition dropped :: "revalidation \<Rightarrow> nat" where
  "dropped s = rv_DroppedInvalid s + rv_DroppedConfirmed s + rv_DroppedDuplicate s"

definition max_txs :: "network_config \<Rightarrow> u64" where
  "max_txs profile = cp_MaxTxCount (nc_Consensus profile)"

text \<open>What holds of the transactions kept so far.\<close>

definition pool_ok :: "ext \<Rightarrow> network_config \<Rightarrow> string set \<Rightarrow> transaction list \<Rightarrow> bool" where
  "pool_ok X profile confirmed kept \<longleftrightarrow>
     distinct (map tx_ID kept)
     \<and> list_all (\<lambda>tx. \<not> tx_Coinbase tx \<and> tx_ID tx \<notin> confirmed
          \<and> ValidateForRevalidation X tx \<lparr>pol_Profile = profile, pol_MaxTxs = max_txs profile,
                                           pol_MaxGas = cp_MaxGasPerBlock (nc_Consensus profile)\<rparr> = None) kept
     \<and> (max_txs profile = 0 \<or> length kept \<le> unat (max_txs profile))"

lemma pool_ok_snoc:
  assumes "pool_ok X profile confirmed kept" and "tx_ID tx \<notin> set (map tx_ID kept)" and "\<not> tx_Coinbase tx" and "tx_ID tx \<notin> confirmed"
    and "ValidateForRevalidation X tx \<lparr>pol_Profile = profile, pol_MaxTxs = max_txs profile,
                                       pol_MaxGas = cp_MaxGasPerBlock (nc_Consensus profile)\<rparr> = None"
    and "\<not> (max_txs profile > 0 \<and> of_nat (length kept) \<ge> max_txs profile)"
  shows "pool_ok X profile confirmed (kept @ [tx])"
proof -
  have "length kept < unat (max_txs profile)" if m: "max_txs profile \<noteq> 0"
  proof -
    have "length kept \<le> unat (max_txs profile)" using assms(1) m by (auto simp: pool_ok_def)
    then have "unat (of_nat (length kept) :: u64) = length kept"
      using unat_u64_lt [of "max_txs profile"] by (intro unat_of_nat_u64) (simp only: order_le_less_trans)
    moreover have "(of_nat (length kept) :: u64) < max_txs profile" using assms(6) m by (simp add: word_neq_0_conv not_le)
    ultimately show ?thesis by (simp add: word_less_nat_alt)
  qed
  with assms show ?thesis by (auto simp: pool_ok_def)
qed

lemma revalidate_loop_spec:
  assumes "revalidate_loop X profile confirmed work seen kept summary txs = (kept', summary')"
    and "pool_ok X profile confirmed kept" and "seen = set (map tx_ID kept)" and "rv_Kept summary = length kept"
  shows "pool_ok X profile confirmed kept' \<and> (\<exists>new. kept' = kept @ new \<and> subseq new txs) \<and> rv_Kept summary' = length kept'
    \<and> rv_Kept summary' + dropped summary' = rv_Kept summary + dropped summary + length txs"
  using assms
proof (induction txs arbitrary: work seen kept summary)
  case (Cons tx txs)
  let ?pol = "\<lparr>pol_Profile = profile, pol_MaxTxs = max_txs profile, pol_MaxGas = cp_MaxGasPerBlock (nc_Consensus profile)\<rparr>"
  define keep where "keep \<longleftrightarrow> \<not> tx_Coinbase tx \<and> tx_ID tx \<notin> confirmed \<and> tx_ID tx \<notin> seen \<and> ValidateForRevalidation X tx ?pol = None
    \<and> \<not> (max_txs profile > 0 \<and> of_nat (length kept) \<ge> max_txs profile) \<and> fst (ApplyTransaction X tx work) = None"
  show ?case
  proof (cases keep)
    case True
    obtain w where a: "ApplyTransaction X tx work = (None, w)" using True by (metis keep_def prod.collapse)
    have "revalidate_loop X profile confirmed w (insert (tx_ID tx) seen) (kept @ [tx]) (summary\<lparr>rv_Kept := rv_Kept summary + 1\<rparr>) txs
        = (kept', summary')"
      using Cons.prems(1) True a by (auto simp: keep_def max_txs_def Let_def split: if_splits)
    from Cons.IH [OF this pool_ok_snoc [OF Cons.prems(2)]] True Cons.prems(3, 4) show ?thesis
      by (auto simp: keep_def dropped_def)
  next
    case False
    obtain w s where "revalidate_loop X profile confirmed w seen kept s txs = (kept', summary')"
      and "rv_Kept s = rv_Kept summary" "dropped s = Suc (dropped summary)"
      using Cons.prems(1) False
      by (auto simp: keep_def max_txs_def Let_def dropped_def split: if_splits option.splits prod.splits)
    with Cons.IH [OF this(1) Cons.prems(2, 3)] Cons.prems(4) show ?thesis by (auto intro: list_emb.intros)
  qed
qed simp

section \<open>Properties\<close>

text \<open>
  C31. Revalidating a pool against a changed chain keeps a pool without duplicates, without coinbase or confirmed
  transactions and within the limit of the network, takes its transactions from the old pool in the order of the
  sort by sender and nonce, and counts each transaction of the old pool exactly once as kept or dropped.
\<close>

theorem revalidated_pool:
  "case revalidateTransactions X txs l confirmed profile of (kept, s) \<Rightarrow>
     pool_ok X profile confirmed kept \<and> subseq kept (sort_by sender_order txs)
     \<and> rv_Kept s = length kept \<and> rv_Kept s + dropped s = length txs"
proof -
  obtain kept s where run: "revalidateTransactions X txs l confirmed profile = (kept, s)" by fastforce
  have "length (sort_by sender_order txs) = length txs" by (metis mset_sort_by size_mset)
  moreover have "pool_ok X profile confirmed []" by (simp add: pool_ok_def)
  ultimately show ?thesis
    using revalidate_loop_spec [OF run [unfolded revalidateTransactions_def]] run by (simp add: dropped_def)
qed

end
