(* ===== verification/Service_Nodes.thy ===== *)
theory Service_Nodes
  imports Reorg
begin

text \<open>
  \<open>servicenode/types.go\<close> and \<open>servicenode/store.go\<close>: the registry of service nodes, their challenges, scores and simulated
  rewards. Each of the three JSON files is the list it decodes to, or None when it does not parse; writing does not fail. The clock is
  an argument for each time it is read, and so are the random identifiers and the date. The lock of a file covers one
  read or write only; the operations here do not overlap.
\<close>

section \<open>Data\<close>

definition StatusRegistered :: string where "StatusRegistered = ''registered''"
definition service_StatusActive :: string where "service_StatusActive = ''active''"

definition ChallengePending :: string where "ChallengePending = ''pending''"
definition ChallengePassed :: string where "ChallengePassed = ''passed''"
definition ChallengeFailed :: string where "ChallengeFailed = ''failed''"
definition ChallengeExpired :: string where "ChallengeExpired = ''expired''"

definition ModeLocal :: string where "ModeLocal = ''local''"

definition FlagHeartbeatSpam :: string where "FlagHeartbeatSpam = ''heartbeat_spam''"
definition FlagImpossibleBandwidth :: string where "FlagImpossibleBandwidth = ''impossible_bandwidth''"
definition FlagRepeatedIdenticalSamples :: string where "FlagRepeatedIdenticalSamples = ''repeated_identical_samples''"
definition FlagChallengeFailed :: string where "FlagChallengeFailed = ''challenge_failed''"
definition FlagChallengeExpired :: string where "FlagChallengeExpired = ''challenge_expired''"
definition FlagEndpointChangedTooOften :: string where "FlagEndpointChangedTooOften = ''endpoint_changed_too_often''"

lemmas challenge_statuses = ChallengePending_def ChallengePassed_def ChallengeFailed_def ChallengeExpired_def

record service_metadata =
  md_ClientVersion :: string
  md_Platform :: string
  md_UserAgent :: string

record service_sample =
  sp_CreatedAt :: i64
  sp_LatencyMS :: i64
  sp_BytesUp :: i64
  sp_BytesDown :: i64
  sp_Success :: bool

record service_node =
  vn_ServiceNodeID :: string
  vn_OwnerAddress :: string
  vn_AdvertisedEndpoint :: string
  vn_Mode :: string
  vn_CreatedAt :: i64
  vn_LastSeenAt :: i64
  vn_Status :: string
  vn_Metadata :: service_metadata
  vn_Heartbeats :: "i64 list"
  vn_Samples :: "service_sample list"
  vn_Flags :: "string list"
  vn_AbusePenalty :: int
  vn_LastAbuseReason :: string
  vn_EndpointChanges :: int

record service_challenge =
  ch_ChallengeID :: string
  ch_Address :: string
  ch_IssuedAt :: i64
  ch_ExpiresAt :: i64
  ch_Nonce :: string
  ch_ExpectedMode :: string
  ch_Status :: string
  ch_Result :: "service_sample option"

record service_reward =
  rw_Epoch :: string
  rw_Address :: string
  rw_ServiceScore :: int
  rw_SimulatedPoints :: int
  rw_EligibleSimulatedPoints :: int
  rw_Reason :: string
  rw_CreatedAt :: i64

record service_score =
  sc_Address :: string
  sc_UptimeScore :: int
  sc_LatencyScore :: int
  sc_BandwidthScore :: int
  sc_ReliabilityScore :: int
  sc_AbusePenalty :: int
  sc_ServiceScore :: int
  sc_Flags :: "string list"
  sc_SimulatedPoints :: int
  sc_EligibleSimulatedPoints :: int
  sc_RequiredStake :: u64
  sc_ActiveStake :: u64
  sc_StakeEligible :: bool
  sc_CollateralStatus :: string
  sc_EligibilityNote :: string
  sc_Note :: string

record 'b service =
  sv_Nodes :: "service_node list option"
  sv_Challenges :: "service_challenge list option"
  sv_Rewards :: "service_reward list option"
  sv_db :: "'b bolt_db"

definition service_Load :: "'a list option \<Rightarrow> err + 'a list" where
  "service_Load file = (case file of None \<Rightarrow> Inl (Err ''invalid service store json %s'') | Some items \<Rightarrow> Inr items)"

section \<open>Scores\<close>

definition service_clamp :: "int \<Rightarrow> int \<Rightarrow> int \<Rightarrow> int" where
  "service_clamp v lo hi = (if v < lo then lo else if v > hi then hi else v)"

definition uptimeScore :: "i64 \<Rightarrow> i64 \<Rightarrow> int" where
  "uptimeScore now lastSeen =
    (let age = now - lastSeen in
     if sint lastSeen \<le> 0 \<or> sint age < 0 then 0
     else if sint age \<le> 300 then 100
     else if sint age \<le> 1800 then 50
     else 0)"

definition latencyScore :: "i64 \<Rightarrow> int" where
  "latencyScore ms = (if sint ms \<le> 50 then 100 else if sint ms \<le> 100 then 80 else if sint ms \<le> 250 then 60
     else if sint ms \<le> 500 then 30 else 10)"

definition bandwidthScore :: "i64 \<Rightarrow> int" where
  "bandwidthScore n = (if sint n \<ge> 100000000 then 100 else if sint n \<ge> 50000000 then 80 else if sint n \<ge> 10000000 then 50
     else if sint n \<ge> 1000000 then 20 else 5)"

definition reliabilityScore :: "string \<Rightarrow> service_challenge list \<Rightarrow> int" where
  "reliabilityScore address challenges =
    (let own = filter (\<lambda>c. ch_Address c = address) challenges;
         total = int (length (filter (\<lambda>c. ch_Status c = ChallengePassed \<or> ch_Status c = ChallengeFailed \<or> ch_Status c = ChallengeExpired) own));
         passed = int (length (filter (\<lambda>c. ch_Status c = ChallengePassed) own)) in
     if total = 0 then 0 else service_clamp (passed * 100 div total) 0 100)"

definition addFlag :: "string \<Rightarrow> int \<Rightarrow> service_node \<Rightarrow> service_node" where
  "addFlag flag penalty node =
     node\<lparr>vn_Flags := (if flag \<in> set (vn_Flags node) then vn_Flags node else vn_Flags node @ [flag]),
          vn_AbusePenalty := service_clamp (vn_AbusePenalty node + penalty) 0 100, vn_LastAbuseReason := flag\<rparr>"

definition repeatedSample :: "service_sample list \<Rightarrow> service_sample \<Rightarrow> bool" where
  "repeatedSample samples sample \<longleftrightarrow> samples \<noteq> [] \<and> sp_LatencyMS (last samples) = sp_LatencyMS sample
     \<and> sp_BytesUp (last samples) = sp_BytesUp sample \<and> sp_BytesDown (last samples) = sp_BytesDown sample"

text \<open>\<open>appendRecent\<close> and \<open>appendRecentSample\<close>.\<close>

definition maxRecentItems :: nat where "maxRecentItems = 32"

definition appendRecent :: "'a list \<Rightarrow> 'a \<Rightarrow> 'a list" where
  "appendRecent values v =
    (let values = values @ [v] in if length values > maxRecentItems then drop (length values - maxRecentItems) values else values)"

definition collateral ::
  "err option \<Rightarrow> 'b bolt \<Rightarrow> network_config \<Rightarrow> string \<Rightarrow> 'b bolt_db \<Rightarrow> (u64 \<times> u64 \<times> bool \<times> string) \<times> 'b bolt_db" where
  "collateral opened B profile address db =
    (let params = cp_Staking (nc_Consensus profile);
         required = sp_MinServiceStake params;
         none = (required, 0, required = 0, ''none'') in
     case OpenBolt opened B db of
       (Some _, db) \<Rightarrow> (none, db)
     | (None, db) \<Rightarrow>
     (case store_Blocks B db of
        Inl _ \<Rightarrow> (none, db)
      | Inr blocks \<Rightarrow>
      if blocks = [] then (none, db)
      else case staking_Replay blocks params of
        Inl _ \<Rightarrow> ((required, 0, False, ''insufficient''), db)
      | Inr state \<Rightarrow>
      (case AddressSummary address (b_Height (last blocks)) state of ((active, unlocking, released), _) \<Rightarrow>
         (if active \<ge> required then (required, active, True, ''eligible'')
          else if unlocking > 0 then (required, active, False, ''unlocking'')
          else if released > 0 then (required, active, False, ''released'')
          else if active = 0 then (required, active, required = 0, ''none'')
          else (required, active, False, ''insufficient''), db))))"

definition rewardWeight :: int where "rewardWeight = 10"

definition FindNode :: "string \<Rightarrow> 'b service \<Rightarrow> err + service_node option" where
  "FindNode address s = on_ok (service_Load (sv_Nodes s)) (\<lambda>nodes. Inr (find (\<lambda>n. vn_OwnerAddress n = address) nodes))"

definition not_registered :: err where
  "not_registered = Err ''service node not registered for address %s''"

definition service_Score ::
  "err option \<Rightarrow> 'b bolt \<Rightarrow> network_config \<Rightarrow> i64 \<Rightarrow> string \<Rightarrow> 'b service \<Rightarrow> (err + service_score) \<times> 'b service" where
  "service_Score opened B profile now address s =
    (case FindNode address s of
       Inl e \<Rightarrow> (Inl e, s)
     | Inr None \<Rightarrow> (Inl not_registered, s)
     | Inr (Some node) \<Rightarrow>
     (case service_Load (sv_Challenges s) of
        Inl e \<Rightarrow> (Inl e, s)
      | Inr challenges \<Rightarrow>
      let uptime = uptimeScore now (vn_LastSeenAt node);
          latest = last (vn_Samples node);
          latency = (if vn_Samples node = [] then 0 else latencyScore (sp_LatencyMS latest));
          bandwidth = (if vn_Samples node = [] then 0 else bandwidthScore (sp_BytesUp latest + sp_BytesDown latest));
          reliability = reliabilityScore address challenges;
          penalty = service_clamp (vn_AbusePenalty node) 0 100;
          raw = (uptime * 30 + latency * 20 + bandwidth * 30 + reliability * 20) div 100;
          final = service_clamp (raw - penalty) 0 100 in
      (case collateral opened B profile address (sv_db s) of ((required, active, eligible, status), db) \<Rightarrow>
       let barred = (sp_RequireStakeForServiceRewards (cp_Staking (nc_Consensus profile)) \<and> \<not> eligible) in
       (Inr \<lparr>sc_Address = address, sc_UptimeScore = uptime, sc_LatencyScore = latency, sc_BandwidthScore = bandwidth,
          sc_ReliabilityScore = reliability, sc_AbusePenalty = penalty, sc_ServiceScore = final, sc_Flags = vn_Flags node,
          sc_SimulatedPoints = final * rewardWeight, sc_EligibleSimulatedPoints = (if barred then 0 else final * rewardWeight),
          sc_RequiredStake = required, sc_ActiveStake = active, sc_StakeEligible = eligible, sc_CollateralStatus = status,
          sc_EligibilityNote = (if barred then ''not eligible for service reward simulation until active stake >= required stake'' else []),
          sc_Note = ''service points are simulation only and are not spendable dIDR''\<rparr>, s\<lparr>sv_db := db\<rparr>))))"

section \<open>Operations\<close>

definition serviceNodeID :: "string \<Rightarrow> string" where
  "serviceNodeID address = ''svc_'' @ hex_encode (take 8 (sha256 (bytes_of (''service-node:'' @ address))))"

text \<open>The loops over a list change its first element with the key.\<close>

fun put_first :: "('a \<Rightarrow> bool) \<Rightarrow> 'a \<Rightarrow> 'a list \<Rightarrow> 'a list" where
  "put_first P y [] = []"
| "put_first P y (x # xs) = (if P x then y # xs else x # put_first P y xs)"

definition note_endpoint :: "string \<Rightarrow> service_node \<Rightarrow> service_node" where
  "note_endpoint endpoint node =
    (if endpoint \<noteq> [] \<and> endpoint \<noteq> vn_AdvertisedEndpoint node then
       let node = node\<lparr>vn_EndpointChanges := vn_EndpointChanges node + 1\<rparr> in
       if vn_EndpointChanges node \<ge> 3 then addFlag FlagEndpointChangedTooOften 20 node else node
     else node)"

definition Register ::
  "network_config \<Rightarrow> i64 \<Rightarrow> string \<Rightarrow> string \<Rightarrow> service_metadata \<Rightarrow> 'b service \<Rightarrow> (err + service_node) \<times> 'b service" where
  "Register profile now address endpoint meta s =
    (case ValidateAddressForNetwork address profile of
       Some e \<Rightarrow> (Inl e, s)
     | None \<Rightarrow>
     (case service_Load (sv_Nodes s) of
        Inl e \<Rightarrow> (Inl e, s)
      | Inr nodes \<Rightarrow>
      (case find (\<lambda>n. vn_OwnerAddress n = address) nodes of
         Some found \<Rightarrow>
           let node = (note_endpoint endpoint found)\<lparr>vn_AdvertisedEndpoint := endpoint, vn_Metadata := meta, vn_Status := StatusRegistered\<rparr>;
               node = (if vn_Mode node = [] then node\<lparr>vn_Mode := ModeLocal\<rparr> else node) in
           (Inr node, s\<lparr>sv_Nodes := Some (put_first (\<lambda>n. vn_OwnerAddress n = address) node nodes)\<rparr>)
       | None \<Rightarrow>
           let node = \<lparr>vn_ServiceNodeID = serviceNodeID address, vn_OwnerAddress = address, vn_AdvertisedEndpoint = endpoint,
                 vn_Mode = ModeLocal, vn_CreatedAt = now, vn_LastSeenAt = now, vn_Status = StatusRegistered, vn_Metadata = meta,
                 vn_Heartbeats = [], vn_Samples = [], vn_Flags = [], vn_AbusePenalty = 0, vn_LastAbuseReason = [], vn_EndpointChanges = 0\<rparr> in
           (Inr node, s\<lparr>sv_Nodes := Some (nodes @ [node])\<rparr>))))"

text \<open>What a heartbeat does to the record of its node.\<close>

definition beat_node :: "i64 \<Rightarrow> string \<Rightarrow> service_metadata \<Rightarrow> service_node \<Rightarrow> service_node" where
  "beat_node now endpoint meta found =
    (let node = note_endpoint endpoint found;
         node = (if endpoint \<noteq> [] \<and> endpoint \<noteq> vn_AdvertisedEndpoint found then node\<lparr>vn_AdvertisedEndpoint := endpoint\<rparr> else node);
         node = (if sint (vn_LastSeenAt node) > 0 \<and> sint (now - vn_LastSeenAt node) < 2 then addFlag FlagHeartbeatSpam 10 node else node) in
     node\<lparr>vn_LastSeenAt := now, vn_Status := service_StatusActive, vn_Metadata := meta,
          vn_Heartbeats := appendRecent (vn_Heartbeats node) now\<rparr>)"

definition Heartbeat ::
  "err option \<Rightarrow> 'b bolt \<Rightarrow> network_config \<Rightarrow> i64 \<Rightarrow> i64 \<Rightarrow> string \<Rightarrow> string \<Rightarrow> service_metadata \<Rightarrow> 'b service
     \<Rightarrow> (err + service_score \<times> service_node) \<times> 'b service" where
  "Heartbeat opened B profile now now' address endpoint meta s =
    (case ValidateAddressForNetwork address profile of
       Some e \<Rightarrow> (Inl e, s)
     | None \<Rightarrow>
     (case service_Load (sv_Nodes s) of
        Inl e \<Rightarrow> (Inl e, s)
      | Inr nodes \<Rightarrow>
      (case find (\<lambda>n. vn_OwnerAddress n = address) nodes of
         None \<Rightarrow> (Inl not_registered, s)
       | Some found \<Rightarrow>
           let node = beat_node now endpoint meta found;
               s = s\<lparr>sv_Nodes := Some (put_first (\<lambda>n. vn_OwnerAddress n = address) node nodes)\<rparr> in
           (case service_Score opened B profile now' address s of
              (Inl e, s) \<Rightarrow> (Inl e, s)
            | (Inr score, s) \<Rightarrow> (Inr (score, node), s)))))"

definition CreateChallenge ::
  "network_config \<Rightarrow> i64 \<Rightarrow> string \<Rightarrow> string \<Rightarrow> string \<Rightarrow> 'b service \<Rightarrow> (err + service_challenge) \<times> 'b service" where
  "CreateChallenge profile now randomID randomNonce address s =
    (case ValidateAddressForNetwork address profile of
       Some e \<Rightarrow> (Inl e, s)
     | None \<Rightarrow>
     (case FindNode address s of
        Inl e \<Rightarrow> (Inl e, s)
      | Inr None \<Rightarrow> (Inl not_registered, s)
      | Inr (Some _) \<Rightarrow>
      (case service_Load (sv_Challenges s) of
         Inl e \<Rightarrow> (Inl e, s)
       | Inr challenges \<Rightarrow>
           let challenge = \<lparr>ch_ChallengeID = randomID, ch_Address = address, ch_IssuedAt = now, ch_ExpiresAt = now + 300,
                 ch_Nonce = randomNonce, ch_ExpectedMode = ModeLocal, ch_Status = ChallengePending, ch_Result = None\<rparr> in
           (Inr challenge, s\<lparr>sv_Challenges := Some (challenges @ [challenge])\<rparr>))))"

definition impossibleBandwidth :: int where "impossibleBandwidth = 1000000000"

text \<open>What a submitted sample adds to the record of its node.\<close>

definition judge_sample :: "service_sample \<Rightarrow> service_node \<Rightarrow> service_node" where
  "judge_sample sample node =
    (let node = (if sp_Success sample then node else addFlag FlagChallengeFailed 15 node);
         node = (if sint (sp_BytesUp sample + sp_BytesDown sample) > impossibleBandwidth then addFlag FlagImpossibleBandwidth 40 node else node);
         node = (if repeatedSample (vn_Samples node) sample then addFlag FlagRepeatedIdenticalSamples 10 node else node) in
     node\<lparr>vn_Samples := appendRecent (vn_Samples node) sample\<rparr>)"

text \<open>How a pending challenge is settled: the error when it has expired, with the records of the node and of the challenge.\<close>

definition settle ::
  "i64 \<Rightarrow> service_sample \<Rightarrow> service_node \<Rightarrow> service_challenge \<Rightarrow> err option \<times> service_node \<times> service_challenge" where
  "settle now sample node challenge =
    (if sint now > sint (ch_ExpiresAt challenge) then
       (Some (Err ''challenge expired''), addFlag FlagChallengeExpired 15 node, challenge\<lparr>ch_Status := ChallengeExpired\<rparr>)
     else (None, judge_sample sample node,
       challenge\<lparr>ch_Result := Some sample, ch_Status := (if sp_Success sample then ChallengePassed else ChallengeFailed)\<rparr>))"

definition SubmitChallenge ::
  "err option \<Rightarrow> 'b bolt \<Rightarrow> network_config \<Rightarrow> i64 \<Rightarrow> i64 \<Rightarrow> string \<Rightarrow> i64 \<Rightarrow> i64 \<Rightarrow> i64 \<Rightarrow> bool \<Rightarrow> 'b service
     \<Rightarrow> (err + service_score \<times> service_challenge) \<times> 'b service" where
  "SubmitChallenge opened B profile now now' challengeID latencyMS bytesUp bytesDown success s =
    (if challengeID = [] then (Inl (Err ''challenge_id is required''), s)
     else if sint latencyMS < 0 \<or> sint bytesUp < 0 \<or> sint bytesDown < 0 then
       (Inl (Err ''latency and byte values must be non-negative''), s)
     else case service_Load (sv_Challenges s) of
       Inl e \<Rightarrow> (Inl e, s)
     | Inr challenges \<Rightarrow>
     (case find (\<lambda>c. ch_ChallengeID c = challengeID) challenges of
        None \<Rightarrow> (Inl (Err ''challenge not found: %s''), s)
      | Some challenge \<Rightarrow>
      if ch_Status challenge \<noteq> ChallengePending then (Inl (Err ''challenge already %s''), s)
      else case service_Load (sv_Nodes s) of
        Inl e \<Rightarrow> (Inl e, s)
      | Inr nodes \<Rightarrow>
      (case find (\<lambda>n. vn_OwnerAddress n = ch_Address challenge) nodes of
         None \<Rightarrow> (Inl not_registered, s)
       | Some node \<Rightarrow>
           let sample = \<lparr>sp_CreatedAt = now, sp_LatencyMS = latencyMS, sp_BytesUp = bytesUp, sp_BytesDown = bytesDown, sp_Success = success\<rparr> in
           (case settle now sample node challenge of (expired, node, settled) \<Rightarrow>
             let s = s\<lparr>sv_Nodes := Some (put_first (\<lambda>n. vn_OwnerAddress n = ch_Address challenge) node nodes),
                       sv_Challenges := Some (put_first (\<lambda>c. ch_ChallengeID c = challengeID) settled challenges)\<rparr> in
             (case expired of
                Some e \<Rightarrow> (Inl e, s)
              | None \<Rightarrow>
              (case service_Score opened B profile now' (ch_Address challenge) s of
                 (Inl e, s) \<Rightarrow> (Inl e, s)
               | (Inr score, s) \<Rightarrow> (Inr (score, settled), s)))))))"

definition rewardReason :: "service_score \<Rightarrow> string" where
  "rewardReason score =
    (if sc_EligibilityNote score \<noteq> [] then sc_EligibilityNote score @ ''; not dIDR'' else ''daily service score simulation; not dIDR'')"

definition rewardsFor :: "string \<Rightarrow> service_reward list \<Rightarrow> service_reward list" where
  "rewardsFor address rewards = filter (\<lambda>r. rw_Address r = address) rewards"

definition Rewards ::
  "err option \<Rightarrow> 'b bolt \<Rightarrow> network_config \<Rightarrow> i64 \<Rightarrow> string \<Rightarrow> i64 \<Rightarrow> string \<Rightarrow> 'b service \<Rightarrow> (err + service_reward list) \<times> 'b service" where
  "Rewards opened B profile now epoch now' address s =
    (case service_Score opened B profile now address s of
       (Inl e, s) \<Rightarrow> (Inl e, s)
     | (Inr score, s) \<Rightarrow>
     (case service_Load (sv_Rewards s) of
        Inl e \<Rightarrow> (Inl e, s)
      | Inr rewards \<Rightarrow>
          let mine = (\<lambda>r. rw_Address r = address \<and> rw_Epoch r = epoch);
              rewards = (case find mine rewards of
                Some r \<Rightarrow> put_first mine (r\<lparr>rw_ServiceScore := sc_ServiceScore score, rw_SimulatedPoints := sc_SimulatedPoints score,
                    rw_EligibleSimulatedPoints := sc_EligibleSimulatedPoints score, rw_Reason := rewardReason score\<rparr>) rewards
              | None \<Rightarrow> rewards @ [\<lparr>rw_Epoch = epoch, rw_Address = address, rw_ServiceScore = sc_ServiceScore score,
                    rw_SimulatedPoints = sc_SimulatedPoints score, rw_EligibleSimulatedPoints = sc_EligibleSimulatedPoints score,
                    rw_Reason = rewardReason score, rw_CreatedAt = now'\<rparr>]) in
          (Inr (rewardsFor address rewards), s\<lparr>sv_Rewards := Some rewards\<rparr>)))"

end
