(* ===== verification/Service_Facts.thy ===== *)
theory Service_Facts
  imports Service_Nodes
begin

text \<open>
  What the registry of service nodes keeps whatever calls it serves: an invariant of its records, the life cycle of a
  challenge, the range of scores, and the reach of the flag for impossible bandwidth.
\<close>

section \<open>Lists\<close>

lemma put_first_nth:
  assumes "find P xs = Some x"
  shows "\<exists>i < length xs. P (xs ! i) \<and> xs ! i = x \<and> put_first P y xs = xs[i := y]"
  using assms
proof (induction xs)
  case (Cons a xs)
  show ?case
  proof (cases "P a")
    case True
    with Cons.prems show ?thesis by (intro exI [of _ 0]) simp
  next
    case False
    then obtain i where "i < length xs" "P (xs ! i)" "xs ! i = x" "put_first P y xs = xs[i := y]" using Cons by auto
    with False show ?thesis by (intro exI [of _ "Suc i"]) simp
  qed
qed simp

lemma appendRecent_length [simp]: "length (appendRecent xs x) \<le> maxRecentItems"
  by (simp add: appendRecent_def Let_def maxRecentItems_def)

lemma service_clamp_range: "0 \<le> service_clamp v 0 100" "service_clamp v 0 100 \<le> 100"
  by (simp_all add: service_clamp_def)

section \<open>The invariant\<close>

definition service_node_ok :: "service_node \<Rightarrow> bool" where
  "service_node_ok n \<longleftrightarrow> vn_ServiceNodeID n = serviceNodeID (vn_OwnerAddress n) \<and> 0 \<le> vn_AbusePenalty n \<and> vn_AbusePenalty n \<le> 100
     \<and> distinct (vn_Flags n) \<and> length (vn_Heartbeats n) \<le> maxRecentItems \<and> length (vn_Samples n) \<le> maxRecentItems
     \<and> (vn_AbusePenalty n = 0 \<or> vn_Flags n \<noteq> [])"

text \<open>A challenge is pending or settled; it has a result exactly when it was passed or failed, and passed is what a successful sample says.\<close>

definition challenge_ok :: "service_challenge \<Rightarrow> bool" where
  "challenge_ok c \<longleftrightarrow>
     ch_Status c \<in> {ChallengePending, ChallengeExpired} \<and> ch_Result c = None
     \<or> (\<exists>r. ch_Result c = Some r \<and> ch_Status c = (if sp_Success r then ChallengePassed else ChallengeFailed))"

definition service_ok :: "'b service \<Rightarrow> bool" where
  "service_ok s \<longleftrightarrow>
     (\<exists>nodes challenges rewards. sv_Nodes s = Some nodes \<and> sv_Challenges s = Some challenges \<and> sv_Rewards s = Some rewards
       \<and> list_all service_node_ok nodes \<and> distinct (map vn_OwnerAddress nodes) \<and> list_all challenge_ok challenges
       \<and> distinct (map (\<lambda>r. (rw_Address r, rw_Epoch r)) rewards)
       \<and> list_all (\<lambda>r. 0 \<le> rw_ServiceScore r \<and> rw_ServiceScore r \<le> 100 \<and> rw_SimulatedPoints r = 10 * rw_ServiceScore r
           \<and> rw_EligibleSimulatedPoints r \<in> {0, rw_SimulatedPoints r}) rewards)"

lemma addFlag_ok [intro]: "service_node_ok n \<Longrightarrow> service_node_ok (addFlag f p n)"
  by (auto simp: service_node_ok_def addFlag_def service_clamp_def)

lemma addFlag_owner [simp]: "vn_OwnerAddress (addFlag f p n) = vn_OwnerAddress n"
  by (simp add: addFlag_def)

lemma note_endpoint_ok:
  assumes "service_node_ok n"
  shows "service_node_ok (note_endpoint e n)" and "vn_OwnerAddress (note_endpoint e n) = vn_OwnerAddress n"
proof -
  have "service_node_ok (n\<lparr>vn_EndpointChanges := k\<rparr>)" for k using assms by (simp add: service_node_ok_def)
  then show "service_node_ok (note_endpoint e n)" using assms by (auto simp: note_endpoint_def Let_def)
  show "vn_OwnerAddress (note_endpoint e n) = vn_OwnerAddress n" by (simp add: note_endpoint_def Let_def)
qed

lemma beat_node_ok:
  assumes "service_node_ok n"
  shows "service_node_ok (beat_node now e meta n)" and "vn_OwnerAddress (beat_node now e meta n) = vn_OwnerAddress n"
proof -
  have beat: "service_node_ok (m\<lparr>vn_LastSeenAt := now, vn_Status := st, vn_Metadata := meta, vn_Heartbeats := appendRecent (vn_Heartbeats m) now\<rparr>)"
    and adv: "service_node_ok (m\<lparr>vn_AdvertisedEndpoint := e\<rparr>)" if "service_node_ok m" for m st
    using that by (simp_all add: service_node_ok_def)
  show "service_node_ok (beat_node now e meta n)"
    unfolding beat_node_def Let_def by (rule beat) (use assms note_endpoint_ok(1) adv in \<open>auto\<close>)
  show "vn_OwnerAddress (beat_node now e meta n) = vn_OwnerAddress n" using note_endpoint_ok(2) assms by (simp add: beat_node_def Let_def)
qed

lemma judge_sample_ok:
  assumes "service_node_ok n"
  shows "service_node_ok (judge_sample x n)" and "vn_OwnerAddress (judge_sample x n) = vn_OwnerAddress n"
proof -
  have upd: "service_node_ok (m\<lparr>vn_Samples := appendRecent (vn_Samples m) x\<rparr>)" if "service_node_ok m" for m
    using that by (simp add: service_node_ok_def)
  show "service_node_ok (judge_sample x n)" unfolding judge_sample_def Let_def
    by (rule upd) (use assms in \<open>auto\<close>)
  show "vn_OwnerAddress (judge_sample x n) = vn_OwnerAddress n" by (simp add: judge_sample_def Let_def)
qed

definition nodes_ok :: "service_node list \<Rightarrow> bool" where
  "nodes_ok nodes \<longleftrightarrow> list_all service_node_ok nodes \<and> distinct (map vn_OwnerAddress nodes)"

lemma nodes_put:
  assumes "nodes_ok nodes" and "find (\<lambda>n. vn_OwnerAddress n = a) nodes = Some n" and "service_node_ok n'" and "vn_OwnerAddress n' = a"
  shows "nodes_ok (put_first (\<lambda>n. vn_OwnerAddress n = a) n' nodes)"
proof -
  obtain i where i: "i < length nodes" "vn_OwnerAddress (nodes ! i) = a" "put_first (\<lambda>n. vn_OwnerAddress n = a) n' nodes = nodes[i := n']"
    using put_first_nth [OF assms(2)] by blast
  have "map vn_OwnerAddress (nodes[i := n']) = map vn_OwnerAddress nodes"
    using i(1, 2) assms(4) by (metis list_update_id map_update nth_map)
  moreover have "list_all service_node_ok (nodes[i := n'])"
    using assms(1, 3) i(1) by (auto simp: nodes_ok_def list_all_length nth_list_update)
  ultimately show ?thesis using assms(1) i(3) by (simp add: nodes_ok_def)
qed

lemma found_node: "find (\<lambda>n. vn_OwnerAddress n = a) nodes = Some n \<Longrightarrow> nodes_ok nodes \<Longrightarrow> service_node_ok n \<and> vn_OwnerAddress n = a"
  by (auto simp: nodes_ok_def list_all_iff find_Some_iff)

definition rewards_ok :: "service_reward list \<Rightarrow> bool" where
  "rewards_ok rewards \<longleftrightarrow> distinct (map (\<lambda>r. (rw_Address r, rw_Epoch r)) rewards)
     \<and> list_all (\<lambda>r. 0 \<le> rw_ServiceScore r \<and> rw_ServiceScore r \<le> 100 \<and> rw_SimulatedPoints r = 10 * rw_ServiceScore r
           \<and> rw_EligibleSimulatedPoints r \<in> {0, rw_SimulatedPoints r}) rewards"

lemma service_ok_parts:
  "service_ok s \<longleftrightarrow> (\<exists>nodes challenges rewards. sv_Nodes s = Some nodes \<and> sv_Challenges s = Some challenges \<and> sv_Rewards s = Some rewards
     \<and> nodes_ok nodes \<and> list_all challenge_ok challenges \<and> rewards_ok rewards)"
  by (auto simp: service_ok_def nodes_ok_def rewards_ok_def)

section \<open>Operations\<close>

lemma Score_keeps:
  assumes "service_Score opened B profile now a s = (r, s')"
  shows "sv_Nodes s' = sv_Nodes s" and "sv_Challenges s' = sv_Challenges s" and "sv_Rewards s' = sv_Rewards s"
  using assms by (auto simp: service_Score_def Let_def split: sum.splits option.splits prod.splits)

lemma Score_ok: "service_Score opened B profile now a s = (r, s') \<Longrightarrow> service_ok s \<Longrightarrow> service_ok s'"
  using Score_keeps [of opened B profile now a s r s'] by (simp add: service_ok_parts)

lemma Score_range:
  assumes "service_Score opened B profile now a s = (Inr sc, s')"
  shows "0 \<le> sc_ServiceScore sc \<and> sc_ServiceScore sc \<le> 100 \<and> sc_SimulatedPoints sc = 10 * sc_ServiceScore sc
    \<and> sc_EligibleSimulatedPoints sc = (if sp_RequireStakeForServiceRewards (cp_Staking (nc_Consensus profile)) \<and> \<not> sc_StakeEligible sc then 0
        else sc_SimulatedPoints sc)"
  using assms service_clamp_range
  by (auto simp: service_Score_def rewardWeight_def Let_def split: sum.splits option.splits prod.splits)

lemma Register_ok:
  assumes "service_ok s"
  shows "service_ok (snd (Register profile now a endpoint meta s))"
proof -
  obtain nodes challenges rewards where s: "sv_Nodes s = Some nodes" "sv_Challenges s = Some challenges" "sv_Rewards s = Some rewards"
    "nodes_ok nodes" "list_all challenge_ok challenges" "rewards_ok rewards" using assms by (auto simp: service_ok_parts)
  show ?thesis
  proof (cases "find (\<lambda>n. vn_OwnerAddress n = a) nodes")
    case None
    have "nodes_ok (nodes @ [n])" if "service_node_ok n" "vn_OwnerAddress n = a" for n
      using s(4) that None by (auto simp: nodes_ok_def find_None_iff)
    then show ?thesis using s None assms
      by (auto simp: Register_def service_Load_def service_ok_parts Let_def service_node_ok_def split: option.splits)
  next
    case (Some n)
    note n = found_node [OF Some s(4)]
    define node where "node = (let node = (note_endpoint endpoint n)\<lparr>vn_AdvertisedEndpoint := endpoint, vn_Metadata := meta, vn_Status := StatusRegistered\<rparr> in
       if vn_Mode node = [] then node\<lparr>vn_Mode := ModeLocal\<rparr> else node)"
    have "service_node_ok node" using note_endpoint_ok(1) [of n endpoint] n by (simp add: node_def Let_def service_node_ok_def)
    moreover have "vn_OwnerAddress node = a" using n note_endpoint_ok(2) [of n endpoint] by (simp add: node_def Let_def)
    ultimately have "service_ok (s\<lparr>sv_Nodes := Some (put_first (\<lambda>n. vn_OwnerAddress n = a) node nodes)\<rparr>)"
      using nodes_put [OF s(4) Some] s by (simp add: service_ok_parts)
    then show ?thesis using s(1) Some assms unfolding Register_def service_Load_def node_def Let_def by (simp split: option.split)
  qed
qed

lemma Heartbeat_ok:
  assumes "service_ok s"
  shows "service_ok (snd (Heartbeat opened B profile now now' a endpoint meta s))"
proof -
  obtain nodes challenges rewards where s: "sv_Nodes s = Some nodes" "sv_Challenges s = Some challenges" "sv_Rewards s = Some rewards"
    "nodes_ok nodes" "list_all challenge_ok challenges" "rewards_ok rewards" using assms by (auto simp: service_ok_parts)
  show ?thesis
  proof (cases "find (\<lambda>n. vn_OwnerAddress n = a) nodes")
    case None
    then show ?thesis using s assms by (auto simp: Heartbeat_def service_Load_def split: option.splits)
  next
    case (Some n)
    note n = found_node [OF Some s(4)]
    let ?s = "s\<lparr>sv_Nodes := Some (put_first (\<lambda>n. vn_OwnerAddress n = a) (beat_node now endpoint meta n) nodes)\<rparr>"
    have "service_ok ?s" using nodes_put [OF s(4) Some] beat_node_ok n s by (simp add: service_ok_parts)
    moreover obtain r s' where sc: "service_Score opened B profile now' a ?s = (r, s')" by fastforce
    ultimately have "service_ok s'" using Score_ok by blast
    then show ?thesis using s(1) Some assms sc by (cases r) (simp_all add: Heartbeat_def service_Load_def Let_def split: option.split)
  qed
qed

lemma CreateChallenge_ok: "service_ok s \<Longrightarrow> service_ok (snd (CreateChallenge profile now i nonce a s))"
  by (auto simp: CreateChallenge_def service_Load_def service_ok_parts challenge_ok_def Let_def split: option.splits sum.splits)

lemma challenges_put:
  assumes "list_all challenge_ok cs" and "find P cs = Some c" and "challenge_ok c'"
  shows "list_all challenge_ok (put_first P c' cs)"
proof -
  obtain i where "i < length cs" "put_first P c' cs = cs[i := c']" using put_first_nth [OF assms(2)] by blast
  then show ?thesis using assms(1, 3) by (auto simp: list_all_length nth_list_update)
qed

text \<open>A submission that changes anything: the challenge is pending, and both lists have one record replaced.\<close>

lemma SubmitChallenge_run:
  assumes "SubmitChallenge opened B profile now now' i lat up down success s = (r, s')" and "service_ok s"
  obtains (same) "s' = s" | (settled) nodes challenges n c n' c' e sample where
    "sv_Nodes s = Some nodes" "sv_Challenges s = Some challenges"
    "find (\<lambda>c. ch_ChallengeID c = i) challenges = Some c" "ch_Status c = ChallengePending"
    "find (\<lambda>n. vn_OwnerAddress n = ch_Address c) nodes = Some n" "settle now sample n c = (e, n', c')"
    "sv_Nodes s' = Some (put_first (\<lambda>n. vn_OwnerAddress n = ch_Address c) n' nodes)"
    "sv_Challenges s' = Some (put_first (\<lambda>c. ch_ChallengeID c = i) c' challenges)" "sv_Rewards s' = sv_Rewards s"
proof -
  obtain nodes challenges where s: "sv_Nodes s = Some nodes" "sv_Challenges s = Some challenges" using assms(2) by (auto simp: service_ok_parts)
  let ?sample = "\<lparr>sp_CreatedAt = now, sp_LatencyMS = lat, sp_BytesUp = up, sp_BytesDown = down, sp_Success = success\<rparr>"
  consider "s' = s" | c n where "i \<noteq> []" "\<not> (sint lat < 0 \<or> sint up < 0 \<or> sint down < 0)"
    "find (\<lambda>c. ch_ChallengeID c = i) challenges = Some c" "ch_Status c = ChallengePending"
    "find (\<lambda>n. vn_OwnerAddress n = ch_Address c) nodes = Some n"
    using assms(1) s by (auto simp: SubmitChallenge_def service_Load_def simp del: not_less split: if_splits option.splits)
  then show ?thesis
  proof cases
    case (2 c n)
    obtain e n' c' where st: "settle now ?sample n c = (e, n', c')" by (metis prod.collapse)
    let ?s = "s\<lparr>sv_Nodes := Some (put_first (\<lambda>n. vn_OwnerAddress n = ch_Address c) n' nodes),
        sv_Challenges := Some (put_first (\<lambda>c. ch_ChallengeID c = i) c' challenges)\<rparr>"
    obtain r1 s1 where sc: "service_Score opened B profile now' (ch_Address c) ?s = (r1, s1)" by fastforce
    have "s' = ?s \<or> s' = s1" using assms(1) s 2 st sc
      by (cases e; cases r1) (simp_all add: SubmitChallenge_def service_Load_def Let_def)
    then show ?thesis using settled [OF s 2(3-5) st] Score_keeps [OF sc] by auto
  qed (rule same)
qed

lemma settle_cases:
  "settle now sample n c = (e, n', c') \<Longrightarrow>
     n' = addFlag FlagChallengeExpired 15 n \<and> c' = c\<lparr>ch_Status := ChallengeExpired\<rparr>
     \<or> n' = judge_sample sample n
       \<and> c' = c\<lparr>ch_Result := Some sample, ch_Status := (if sp_Success sample then ChallengePassed else ChallengeFailed)\<rparr>"
  by (auto simp: settle_def split: if_splits)

lemma pending_no_result: "challenge_ok c \<Longrightarrow> ch_Status c = ChallengePending \<Longrightarrow> ch_Result c = None"
  by (auto simp: challenge_ok_def challenge_statuses split: if_splits)

lemma SubmitChallenge_ok:
  assumes "service_ok s"
  shows "service_ok (snd (SubmitChallenge opened B profile now now' i lat up down success s))"
proof -
  obtain r s' where run: "SubmitChallenge opened B profile now now' i lat up down success s = (r, s')" by fastforce
  have "service_ok s'" using run assms
  proof (cases rule: SubmitChallenge_run)
    case (settled nodes challenges n c n' c' e sample)
    have ok: "nodes_ok nodes" "list_all challenge_ok challenges" "\<exists>rewards. sv_Rewards s = Some rewards \<and> rewards_ok rewards"
      using assms settled(1, 2) by (auto simp: service_ok_parts)
    have n: "service_node_ok n" "vn_OwnerAddress n = ch_Address c" using found_node [OF settled(5) ok(1)] by auto
    have "challenge_ok c" using ok(2) settled(3) by (auto simp: list_all_iff find_Some_iff)
    then have "ch_Result c = None" using settled(4) pending_no_result by blast
    then have "challenge_ok c'" using settle_cases [OF settled(6)] by (auto simp: challenge_ok_def)
    moreover have "service_node_ok n'" "vn_OwnerAddress n' = ch_Address c" using settle_cases [OF settled(6)] n judge_sample_ok by auto
    ultimately show ?thesis using nodes_put [OF ok(1) settled(5)] challenges_put [OF ok(2) settled(3)] settled(7-9) ok(3)
      by (auto simp: service_ok_parts)
  qed (use assms in simp)
  with run show ?thesis by simp
qed

lemma Rewards_ok:
  assumes "service_ok s"
  shows "service_ok (snd (Rewards opened B profile now epoch now' a s))"
proof -
  obtain r s1 where sc: "service_Score opened B profile now a s = (r, s1)" by fastforce
  have s1: "service_ok s1" using Score_ok [OF sc assms] .
  then obtain rewards where rw: "sv_Rewards s1 = Some rewards" "rewards_ok rewards" by (auto simp: service_ok_parts)
  let ?mine = "\<lambda>r. rw_Address r = a \<and> rw_Epoch r = epoch"
  have saved: "service_ok (s1\<lparr>sv_Rewards := Some new\<rparr>)" if "rewards_ok new" for new using s1 that by (auto simp: service_ok_parts)
  show ?thesis
  proof (cases r)
    case (Inl e)
    then show ?thesis using sc s1 by (simp add: Rewards_def)
  next
    case (Inr score)
    note range = Score_range [OF sc [unfolded Inr]]
    show ?thesis
    proof (cases "find ?mine rewards")
      case None
      then have "rewards_ok (rewards @ [\<lparr>rw_Epoch = epoch, rw_Address = a, rw_ServiceScore = sc_ServiceScore score,
          rw_SimulatedPoints = sc_SimulatedPoints score, rw_EligibleSimulatedPoints = sc_EligibleSimulatedPoints score,
          rw_Reason = rewardReason score, rw_CreatedAt = now'\<rparr>])"
        using rw(2) range by (auto simp: rewards_ok_def find_None_iff)
      from saved [OF this] show ?thesis using sc Inr rw(1) None by (simp add: Rewards_def service_Load_def Let_def)
    next
      case (Some r0)
      let ?r = "r0\<lparr>rw_ServiceScore := sc_ServiceScore score, rw_SimulatedPoints := sc_SimulatedPoints score,
          rw_EligibleSimulatedPoints := sc_EligibleSimulatedPoints score, rw_Reason := rewardReason score\<rparr>"
      obtain i where i: "i < length rewards" "rewards ! i = r0" "put_first ?mine ?r rewards = rewards[i := ?r]"
        using put_first_nth [OF Some] by blast
      have "map (\<lambda>r. (rw_Address r, rw_Epoch r)) (rewards[i := ?r]) = map (\<lambda>r. (rw_Address r, rw_Epoch r)) rewards"
        using i(1, 2) by (intro nth_equalityI) (auto simp: nth_list_update)
      moreover have "list_all Q (rewards[i := ?r])" if "list_all Q rewards" "Q ?r" for Q
        using that i(1) by (auto simp: list_all_length nth_list_update)
      ultimately have "rewards_ok (rewards[i := ?r])" using rw(2) range by (simp add: rewards_ok_def)
      from saved [OF this] show ?thesis using sc Inr rw(1) Some i(3) by (simp add: Rewards_def service_Load_def Let_def)
    qed
  qed
qed

section \<open>Histories\<close>

text \<open>One call of the registry, at any time and with any random identifiers, or a change of the chain by the rest of the node.\<close>

inductive service_step :: "'b bolt \<Rightarrow> network_config \<Rightarrow> 'b service \<Rightarrow> 'b service \<Rightarrow> bool" for B profile where
  register: "service_step B profile s (snd (Register profile now a endpoint meta s))"
| heartbeat: "service_step B profile s (snd (Heartbeat opened B profile now now' a endpoint meta s))"
| challenge: "service_step B profile s (snd (CreateChallenge profile now i nonce a s))"
| submit: "service_step B profile s (snd (SubmitChallenge opened B profile now now' i lat up down success s))"
| rewards: "service_step B profile s (snd (Rewards opened B profile now epoch now' a s))"
| chain: "service_step B profile s (s\<lparr>sv_db := db\<rparr>)"

definition service_fresh :: "'b service \<Rightarrow> bool" where
  "service_fresh s \<longleftrightarrow> sv_Nodes s = Some [] \<and> sv_Challenges s = Some [] \<and> sv_Rewards s = Some []"

lemma service_step_ok: "service_step B profile s s' \<Longrightarrow> service_ok s \<Longrightarrow> service_ok s'"
proof (induction rule: service_step.induct)
  case (chain s db)
  then show ?case by (simp add: service_ok_parts)
qed (simp_all add: Register_ok Heartbeat_ok CreateChallenge_ok SubmitChallenge_ok Rewards_ok)

lemma service_reach_ok:
  assumes "(service_step B profile)\<^sup>*\<^sup>* s s'" and "service_fresh s"
  shows "service_ok s'"
  using assms(1)
proof (induction rule: rtranclp_induct)
  case base
  show ?case using assms(2) by (auto simp: service_ok_parts service_fresh_def nodes_ok_def rewards_ok_def)
qed (rule service_step_ok)

text \<open>
  C32. The records of the registry: whatever calls it serves, an owner has one node, with the identifier of its address, a penalty between
  0 and 100 that comes with a flag, and at most 32 recent heartbeats and samples; a challenge has a result exactly when it was passed or
  failed; an owner has one reward a day, in range and with points that are simulated ten to one or barred.
\<close>

theorem service_book_ok:
  assumes "service_fresh s" and "(service_step B profile)\<^sup>*\<^sup>* s s'"
  shows "service_ok s'"
  using service_reach_ok [OF assms(2, 1)] .

text \<open>
  C33. A challenge is settled once: when it was passed, failed or has expired, no later call changes it.
\<close>

theorem challenge_settles_once:
  assumes "service_fresh s0" and "(service_step B profile)\<^sup>*\<^sup>* s0 s" and "service_step B profile s s'"
    and "sv_Challenges s = Some cs" and "i < length cs" and "ch_Status (cs ! i) \<noteq> ChallengePending"
  shows "\<exists>cs'. sv_Challenges s' = Some cs' \<and> i < length cs' \<and> cs' ! i = cs ! i"
  using assms(3)
proof (cases rule: service_step.cases)
  case (register now a endpoint meta)
  then have "sv_Challenges s' = sv_Challenges s" by (auto simp: Register_def Let_def split: option.splits sum.splits)
  with assms(4, 5) show ?thesis by simp
next
  case (heartbeat opened now now' a endpoint meta)
  then have "sv_Challenges s' = sv_Challenges s"
    by (auto simp: Heartbeat_def Let_def dest!: Score_keeps(2) split: option.splits sum.splits prod.splits)
  with assms(4, 5) show ?thesis by simp
next
  case (challenge now j nonce a)
  then have "sv_Challenges s' = sv_Challenges s \<or> (\<exists>c. sv_Challenges s' = Some (cs @ [c]))"
    using assms(4) by (auto simp: CreateChallenge_def service_Load_def Let_def split: option.splits sum.splits)
  with assms(4, 5) show ?thesis by (auto simp: nth_append)
next
  case (submit opened now now' j lat up down success)
  then have run: "SubmitChallenge opened B profile now now' j lat up down success s
      = (fst (SubmitChallenge opened B profile now now' j lat up down success s), s')" by (simp add: prod_eq_iff)
  show ?thesis using run service_reach_ok [OF assms(2, 1)]
  proof (cases rule: SubmitChallenge_run)
    case (settled nodes challenges n c n' c' e sample)
    then obtain k where "k < length cs" "cs ! k = c" "sv_Challenges s' = Some (cs[k := c'])"
      using put_first_nth [OF settled(3)] assms(4) by auto
    moreover from this have "k \<noteq> i" using assms(6) settled(4) by auto
    ultimately show ?thesis using assms(5) by simp
  qed (use assms(4, 5) in simp)
next
  case (rewards opened now epoch now' a)
  then have "sv_Challenges s' = sv_Challenges s"
    by (auto simp: Rewards_def Let_def dest!: Score_keeps(2) split: option.splits sum.splits prod.splits)
  with assms(4, 5) show ?thesis by simp
qed (use assms(4, 5) in simp)

section \<open>The flag for impossible bandwidth\<close>

lemma sint_add_nonneg:
  assumes "0 \<le> sint (a :: i64)" and "0 \<le> sint b"
  shows "sint (a + b) = (if sint a + sint b < 2 ^ 63 then sint a + sint b else sint a + sint b - 2 ^ 64)"
proof -
  have r: "sint a < 2 ^ 63" "sint b < 2 ^ 63" using sint_lt [of a] sint_lt [of b] by simp_all
  have "sint (a + b) = signed_take_bit 63 (sint a + sint b)" by (simp add: sint_word_ariths)
  also have "\<dots> = (sint a + sint b + 2 ^ 63) mod 2 ^ 64 - 2 ^ 63" by (simp add: signed_take_bit_eq_take_bit_shift take_bit_eq_mod)
  also have "\<dots> = (if sint a + sint b < 2 ^ 63 then sint a + sint b else sint a + sint b - 2 ^ 64)"
  proof (cases "sint a + sint b < 2 ^ 63")
    case True
    then show ?thesis using assms by simp
  next
    case False
    have "(sint a + sint b + 2 ^ 63) mod 2 ^ 64 = (sint a + sint b + 2 ^ 63 - 2 ^ 64) mod 2 ^ 64" by (rule minus_mod_self2 [symmetric])
    also have "\<dots> = sint a + sint b + 2 ^ 63 - 2 ^ 64" using False r by (intro mod_pos_pos_trivial) simp_all
    finally show ?thesis using False by simp
  qed
  finally show ?thesis .
qed

text \<open>
  C34. The sum of the two byte counts wraps: the flag for impossible bandwidth is set for a sample exactly when the sum exceeds the limit
  and stays below \<open>2^63\<close>, so that a sample with larger counts escapes it.
\<close>

theorem bandwidth_flag_iff:
  assumes "0 \<le> sint (sp_BytesUp sample)" and "0 \<le> sint (sp_BytesDown sample)" and "FlagImpossibleBandwidth \<notin> set (vn_Flags n)"
  shows "FlagImpossibleBandwidth \<in> set (vn_Flags (judge_sample sample n))
    \<longleftrightarrow> 1000000000 < sint (sp_BytesUp sample) + sint (sp_BytesDown sample) \<and> sint (sp_BytesUp sample) + sint (sp_BytesDown sample) < 2 ^ 63"
proof -
  have flag: "set (vn_Flags (addFlag f p m)) = insert f (set (vn_Flags m))" for f p m by (auto simp: addFlag_def)
  have other: "FlagImpossibleBandwidth \<noteq> FlagChallengeFailed" "FlagImpossibleBandwidth \<noteq> FlagRepeatedIdenticalSamples"
    by (simp_all add: FlagImpossibleBandwidth_def FlagChallengeFailed_def FlagRepeatedIdenticalSamples_def)
  have "FlagImpossibleBandwidth \<in> set (vn_Flags (judge_sample sample n))
      \<longleftrightarrow> impossibleBandwidth < sint (sp_BytesUp sample + sp_BytesDown sample)"
    using assms(3) other by (auto simp: judge_sample_def flag Let_def)
  moreover have "sint (sp_BytesUp sample) < 2 ^ 63" "sint (sp_BytesDown sample) < 2 ^ 63"
    using sint_lt [of "sp_BytesUp sample"] sint_lt [of "sp_BytesDown sample"] by simp_all
  ultimately show ?thesis using sint_add_nonneg [OF assms(1, 2)] by (auto simp: impossibleBandwidth_def)
qed

end
