(* ===== verification/Service_Scenarios.thy ===== *)
theory Service_Scenarios
  imports Service_Facts Blockchain_Scenarios
begin

text \<open>Concrete histories of the registry: a node that registers, gets a challenge and lets it expire.\<close>

definition demo_meta :: service_metadata where
  "demo_meta = \<lparr>md_ClientVersion = ''1'', md_Platform = ''linux'', md_UserAgent = []\<rparr>"

definition new_registry :: "(string, stored) fmap service" where
  "new_registry = \<lparr>sv_Nodes = Some [], sv_Challenges = Some [], sv_Rewards = Some [], sv_db = empty_db\<rparr>"

lemma new_registry_fresh: "service_fresh new_registry"
  by (simp add: service_fresh_def new_registry_def)

theorem service_book_ok_witness:
  "service_ok (snd (Heartbeat None map_bolt open_net 7 7 dev_address [] demo_meta (snd (Register open_net 5 dev_address [] demo_meta new_registry))))"
proof -
  have "(service_step map_bolt open_net)\<^sup>*\<^sup>* new_registry
      (snd (Heartbeat None map_bolt open_net 7 7 dev_address [] demo_meta (snd (Register open_net 5 dev_address [] demo_meta new_registry))))"
    by (meson converse_rtranclp_into_rtranclp rtranclp.rtrancl_refl service_step.register service_step.heartbeat)
  from service_book_ok [OF new_registry_fresh this] show ?thesis .
qed

definition registered :: "(string, stored) fmap service" where
  "registered = snd (Register open_net 5 dev_address [] demo_meta new_registry)"

definition challenged :: "(string, stored) fmap service" where
  "challenged = snd (CreateChallenge open_net 5 ''c1'' ''n1'' dev_address registered)"

definition lapsed :: "(string, stored) fmap service" where
  "lapsed = snd (SubmitChallenge None map_bolt open_net 1000 1000 ''c1'' 10 10 10 True challenged)"

definition lapsed_challenge :: service_challenge where
  "lapsed_challenge = \<lparr>ch_ChallengeID = ''c1'', ch_Address = dev_address, ch_IssuedAt = 5, ch_ExpiresAt = 305, ch_Nonce = ''n1'',
     ch_ExpectedMode = ModeLocal, ch_Status = ChallengeExpired, ch_Result = None\<rparr>"

lemma registered_nodes: "\<exists>n. sv_Nodes registered = Some [n] \<and> vn_OwnerAddress n = dev_address" "sv_Challenges registered = Some []"
  by (simp_all add: registered_def Register_def dev_address_open service_Load_def new_registry_def Let_def)

lemma lapsed_challenges: "sv_Challenges lapsed = Some [lapsed_challenge]"
proof -
  obtain n where n: "sv_Nodes registered = Some [n]" "vn_OwnerAddress n = dev_address" using registered_nodes by blast
  have c: "sv_Nodes challenged = Some [n]" "sv_Challenges challenged = Some [lapsed_challenge\<lparr>ch_Status := ChallengePending\<rparr>]"
    using n registered_nodes(2)
    by (simp_all add: challenged_def CreateChallenge_def dev_address_open FindNode_def on_ok_def service_Load_def lapsed_challenge_def Let_def)
  show ?thesis using c n(2)
    by (simp add: lapsed_def SubmitChallenge_def service_Load_def lapsed_challenge_def settle_def Let_def)
qed

theorem challenge_settles_once_witness:
  "\<exists>cs. sv_Challenges (snd (SubmitChallenge None map_bolt open_net 1001 1001 ''c1'' 10 10 10 True lapsed)) = Some cs
    \<and> 0 < length cs \<and> cs ! 0 = lapsed_challenge"
proof -
  have "(service_step map_bolt open_net)\<^sup>*\<^sup>* new_registry lapsed"
    unfolding lapsed_def challenged_def registered_def
    by (meson converse_rtranclp_into_rtranclp rtranclp.rtrancl_refl service_step.register service_step.challenge service_step.submit)
  moreover have "ch_Status ([lapsed_challenge] ! 0) \<noteq> ChallengePending" by (simp add: lapsed_challenge_def challenge_statuses)
  ultimately show ?thesis
    using challenge_settles_once [OF new_registry_fresh _ service_step.submit lapsed_challenges, where i = 0] by simp
qed

theorem bandwidth_flag_iff_witness:
  "\<exists>n. vn_Flags n = [] \<and> FlagImpossibleBandwidth \<notin> set (vn_Flags (judge_sample
     \<lparr>sp_CreatedAt = 1, sp_LatencyMS = 1, sp_BytesUp = 4611686018427387904, sp_BytesDown = 4611686018427387904, sp_Success = True\<rparr> n))"
proof -
  obtain n where n: "sv_Nodes registered = Some [n]" using registered_nodes by blast
  then have "vn_Flags n = []" by (auto simp: registered_def Register_def dev_address_open service_Load_def new_registry_def Let_def)
  moreover have "sint (4611686018427387904 :: i64) = 4611686018427387904" by simp
  ultimately show ?thesis
    using bandwidth_flag_iff [of "\<lparr>sp_CreatedAt = 1, sp_LatencyMS = 1, sp_BytesUp = 4611686018427387904, sp_BytesDown = 4611686018427387904, sp_Success = True\<rparr>" n]
    by (intro exI [of _ n]) simp
qed

end
