(* ===== verification/Faucet.thy ===== *)
theory Faucet
  imports Go_Prelude
begin

text \<open>
  \<open>faucet/state.go\<close>: what the faucet remembers of each address. The file is the map it decodes to, or None when it
  does not parse; writing does not fail. The day and the time of a request are the two formats of the clock.
\<close>

record address_state =
  fa_LastRequestTime :: string
  fa_TotalAmountRequested :: u64
  fa_Day :: string
  fa_DailyAmountRequested :: u64
  fa_PendingTxIDs :: "string list"

type_synonym faucet_file = "(string, address_state) fmap option"

definition zero_address_state :: address_state where
  "zero_address_state = \<lparr>fa_LastRequestTime = [], fa_TotalAmountRequested = 0, fa_Day = [], fa_DailyAmountRequested = 0, fa_PendingTxIDs = []\<rparr>"

definition faucet_Load :: "faucet_file \<Rightarrow> err + (string, address_state) fmap" where
  "faucet_Load file =
    (case file of None \<Rightarrow> Inl (Err ''failed to load faucet state: invalid json'') | Some requests \<Rightarrow> Inr requests)"

definition appendUnique :: "string list \<Rightarrow> string \<Rightarrow> string list" where
  "appendUnique values v = (if v \<in> set values then values else values @ [v])"

definition record_request :: "string \<Rightarrow> string \<Rightarrow> u64 \<Rightarrow> string \<Rightarrow> address_state \<Rightarrow> address_state" where
  "record_request day time amount txID entry0 =
    (let entry = (if fa_Day entry0 \<noteq> day then entry0\<lparr>fa_Day := day, fa_DailyAmountRequested := 0\<rparr> else entry0) in
     entry\<lparr>fa_LastRequestTime := time, fa_TotalAmountRequested := fa_TotalAmountRequested entry + amount,
           fa_DailyAmountRequested := fa_DailyAmountRequested entry + amount, fa_PendingTxIDs := appendUnique (fa_PendingTxIDs entry) txID\<rparr>)"

definition faucet_Record ::
  "string \<Rightarrow> string \<Rightarrow> u64 \<Rightarrow> string \<Rightarrow> string \<Rightarrow> faucet_file \<Rightarrow> err option \<times> faucet_file" where
  "faucet_Record address txID amount day time file =
    (case faucet_Load file of
       Inl e \<Rightarrow> (Some e, file)
     | Inr requests \<Rightarrow>
         (None, Some (fmupd address (record_request day time amount txID (get_or zero_address_state requests address)) requests)))"

section \<open>Totals\<close>

text \<open>The requests of one address, in order: day, time, amount and transaction.\<close>

definition recorded :: "(string \<times> string \<times> u64 \<times> string) list \<Rightarrow> address_state" where
  "recorded requests = fold (\<lambda>(day, time, amount, txID). record_request day time amount txID) requests zero_address_state"

text \<open>
  The totals of an address are the sums of its requests, and of those on its last day when the days come in order, both modulo \<open>2^64\<close>;
  the pending transactions are listed once.
\<close>

lemma recorded_totals:
  shows "fa_TotalAmountRequested (recorded requests) = sum_list (map (\<lambda>r. fst (snd (snd r))) requests)"
    and "distinct (fa_PendingTxIDs (recorded requests))"
    and "set (fa_PendingTxIDs (recorded requests)) = (\<lambda>r. snd (snd (snd r))) ` set requests"
proof (induction requests rule: rev_induct)
  case (snoc r requests)
  obtain day time amount txID where r: "r = (day, time, amount, txID)" by (cases r)
  have step: "recorded (requests @ [r]) = record_request day time amount txID (recorded requests)" by (simp add: recorded_def r)
  show "fa_TotalAmountRequested (recorded (requests @ [r])) = sum_list (map (\<lambda>r. fst (snd (snd r))) (requests @ [r]))"
    "distinct (fa_PendingTxIDs (recorded (requests @ [r])))"
    "set (fa_PendingTxIDs (recorded (requests @ [r]))) = (\<lambda>r. snd (snd (snd r))) ` set (requests @ [r])"
    using snoc unfolding step by (simp_all add: record_request_def appendUnique_def Let_def r insert_absorb)
qed (simp_all add: recorded_def zero_address_state_def)

lemma faucet_Record_lookup:
  "faucet_Record a txID amount day time (Some m) = (None, Some m') \<Longrightarrow>
     fmlookup m' b = (if b = a then Some (record_request day time amount txID (get_or zero_address_state m a)) else fmlookup m b)"
  by (auto simp: faucet_Record_def faucet_Load_def)

lemma daily_within_total:
  assumes "fa_Day e = day" and "fa_DailyAmountRequested e \<le> fa_TotalAmountRequested e"
    and "unat (fa_TotalAmountRequested e) + unat amount < 2 ^ 64"
  shows "fa_DailyAmountRequested (record_request day time amount txID e) \<le> fa_TotalAmountRequested (record_request day time amount txID e)"
proof -
  have "unat (fa_TotalAmountRequested e + amount) = unat (fa_TotalAmountRequested e) + unat amount"
    using assms(3) by (intro unat_add_u64) simp
  moreover have "unat (fa_DailyAmountRequested e + amount) = unat (fa_DailyAmountRequested e) + unat amount"
    using assms(2, 3) by (intro unat_add_u64) (simp add: word_le_nat_alt)
  ultimately show ?thesis using assms(1, 2) by (simp add: record_request_def Let_def word_le_nat_alt)
qed

end
