(* ===== verification/Spec2Isabelle.thy ===== *)
theory Spec2Isabelle
  imports Scenarios Mempool_Scenarios Chain_Scenarios Store_Scenarios Blockchain_Scenarios Peer_Scenarios Pool_Revalidation Service_Scenarios Faucet
begin

text \<open>
  A verification development of the Indochain node, the Go program under \<open>src/deskachain/node\<close>; paths
  below are relative to its directory \<open>internal\<close>.

  \<^bold>\<open>The program.\<close> A node keeps a chain of blocks of transactions. \<open>types\<close> defines both with their hashes
  and their canonical encoding; \<open>crypto\<close> and \<open>address\<close> define hashes, signatures and addresses; \<open>config\<close>
  the network profiles; \<open>fees\<close> the price of a transaction. \<open>ledger\<close> replays blocks into account
  balances, nonces and pending coinbase credits, and executes asset transactions over \<open>asset\<close> and
  \<open>staking\<close>. \<open>chain\<close> mines, validates and compares chains; \<open>state\<close> digests and stores the ledger at a
  tip; \<open>mempool\<close> keeps transactions until a block takes them. \<open>p2p\<close> exchanges blocks and
  transactions with peers over signed requests, keeps a book of peers and follows the chain with most work.

  \<^bold>\<open>Conventions.\<close> Go's \<open>uint64\<close>, \<open>uint32\<close>, \<open>byte\<close> and \<open>int64\<close> are words, with comparisons of \<open>int64\<close> read by
  \<^const>\<open>sint\<close>; strings are lists of characters of eight bits; structs are records with a short prefix
  on each field; Go maps are finite maps, and code that ranges over one takes the order as an
  argument or sorts. An operation that mutates its receiver takes the state last and returns the
  error, if any, with the new state, so that what a failing call leaves behind is part of the model;
  a query returns a sum with the error on the left. Errors keep their format string, without the
  numbers filled in; wrapped errors keep the error they wrap. Code outside the repository is the
  record \<open>ext\<close> of theory Crypto: RIPEMD-160 and the parser and verifier of secp256k1. SHA-256
  is part of Go's library and is defined. The clock and the cancellation of a context are arguments.
  The database bbolt is the record \<open>bolt\<close> of theory Storage: its bucket type is a type variable, its
  calls are the fields, and the locale \<open>bolt_buckets\<close> states what the store relies on. For \<open>p2p\<close>,
  Ed25519 is the record \<open>ed25519\<close>, the network \<open>transport\<close> and the decoders of messages
  \<open>json_decoders\<close> (P2p_Auth), and \<open>net/url\<close> with the format of times is \<open>golib\<close> (Peer_Book). A peer is
  the record \<open>remote\<close> of its answers, about which nothing is assumed.

  \<^bold>\<open>Theories.\<close>
  \<^item> Go_Prelude: types of the model, lemmas on words, finite maps, sums over maps and
    \<open>run_steps\<close>, the loop that stops at the first error. Go_Sort: sorting by a Go comparison, with the
    locale \<open>priority\<close> for comparisons that order by a key; it is interpreted for the pool's comparison
    of fees and of nonces (Selection) and for the four lists of the state root (State_Root).
  \<^item> Arith (\<open>arith/uint64.go\<close>), Config (\<open>config/config.go\<close>), Crypto and Address (\<open>crypto\<close>, \<open>address\<close>), Amount
    (\<open>amount/amount.go\<close>), Json (the part of \<open>encoding/json\<close> that fixes the bytes of legacy hashes).
  \<^item> Transaction, Tx_Codec, Block (\<open>types\<close>): identifiers, signing bytes, the canonical codec with its
    decoder, headers, Merkle root. The locale \<open>field_codec\<close> carries the round trips of fields.
  \<^item> Fees (\<open>fees/policy.go\<close>), Asset_Model and Asset_State (\<open>asset\<close>), Staking (\<open>staking/staking.go\<close>).
  \<^item> Ledger (\<open>ledger/ledger.go\<close>), Mature_Ledger (\<open>ledger/maturity.go\<close>, \<open>ledger/asset_execution.go\<close>) and
    Ledger_Invariants, the books of the ledger: supply, balances against accounts, locked stake.
  \<^item> Mempool, Selection (\<open>mempool\<close>): the pool, admission as one call and as interleaved halves, the two
    selections for a block.
  \<^item> Pow, Locator, Chain_Rules (\<open>chain/pow.go\<close>, \<open>locator.go\<close>, \<open>genesis.go\<close>, \<open>resources.go\<close>, \<open>validation.go\<close>) and
    Chain_Validity, what a validated block and chain satisfy.
  \<^item> State_Root, Snapshot (\<open>state\<close>) and Restore, rebuilding a ledger from its snapshot.
  \<^item> Storage, Store_Commit (\<open>storage/bbolt.go\<close>): keys, the state, block, transaction, reward and alias
    indexes, and the writes as transactions that commit or change nothing. Store_Chain: the laws of
    buckets as the locale \<open>bolt_buckets\<close>, interpreted on maps, and what a committed write leaves of
    the blocks. Store_State: a state that was written is read back.
  \<^item> Blockchain (\<open>chain/blockchain.go\<close>): opening, validating, adding and replacing blocks and mining, over
    the store. Same_State, Ledger_Owners, Snapshot_Ready: ledgers that agree as states replay alike;
    a replayed ledger has a snapshot that can be stored. Chain_State: the histories of a node's
    database and the step between chain and stored state. Mining: the block template against the
    validator.
  \<^item> P2p_Auth (\<open>p2p/types.go\<close>, \<open>identity.go\<close>, \<open>auth.go\<close>, \<open>client.go\<close>, the guard of \<open>server.go\<close>): messages, signed
    requests, the replay cache. Message_Auth: what a signature and the cache achieve.
  \<^item> Peer_Book (\<open>p2p/peer.go\<close>, parts of \<open>maintenance.go\<close>, \<open>server.go\<close> and \<open>sync.go\<close>): the file of peers, scores and
    introductions. Peer_Facts: the records are well formed, retries, resets.
  \<^item> Reorg (\<open>p2p/reorg.go\<close>, \<open>fork.go\<close>, \<open>ancestor.go\<close>) and Sync (\<open>p2p/sync.go\<close>, the handlers of \<open>server.go\<close> that change
    state): the node as the record \<open>node\<close> of database, pool and peers. Sync_Safety: what these calls keep of the
    chain. Serving (the handlers of \<open>server.go\<close> that answer): following a peer that serves its chain, handshakes.
    Pool_Revalidation: the pool after a change of chain.
  \<^item> Service_Nodes (\<open>servicenode\<close>): the registry of service nodes over the stake of the chain, with Service_Facts, its invariant and the
    life of a challenge. Faucet (\<open>faucet/state.go\<close>): the totals of each address.
  \<^item> Scenarios, Mempool_Scenarios, Chain_Scenarios, Store_Scenarios, Blockchain_Scenarios, Message_Scenarios, Peer_Scenarios, Service_Scenarios: concrete
    inputs at which the properties apply.

  \<^bold>\<open>What is shown.\<close> Money: a block changes the sum of balances by its coinbase amounts, the settled
  fees and the burned legacy fees only, no balance wraps, and the supply of a valid chain is fixed by
  its length. Authority: only signers pay, and nothing that was applied applies again. Atomicity: a
  rejected block, transaction or transfer changes nothing. Stakes: nothing is released early, lost
  or moved back. Encodings: the codec round-trips, signing bytes and the preimage of the state root
  determine what they encode, and the root does not depend on map order. Chain: the shape of valid
  chains, that a validated block replays to the state root it carries, bounds of difficulty and
  work, mining and locators end. Pool: limits and uniqueness under calls that do not overlap, what
  remains under overlapping calls, and the order and bounds of selections. Store: a failed write changes
  nothing, stored chains load back complete, and whatever sequence of blocks, branches and restarts
  a node goes through, the state it has stored is the replay of the chain it has stored. Mining: a
  mined block passes the validator of the same node unless it is full. Peers: whatever they send, the work of the
  chain never falls and the stored state stays its replay; a reorganisation adopts only a valid branch with more
  work within the depth limit; following an honest peer ends with its chain or a first part of it; a handshake is
  accepted on its own network; a signed request binds what it asks and is not accepted again for five minutes; the book
  of peers stays well formed. Service nodes: records stay in range and a challenge is settled once. Some theorems show where
  the code falls short of what it means to do, and the manifest lists them as findings.

  \<^bold>\<open>Loops.\<close> Loops over lists are recursive functions. The loops of \<open>MineWithContext\<close> and
  \<open>BuildBlockLocator\<close>, whose end is not structural, are partial functions with None for a run that does
  not end; that they end is proved, for mining under a limit on the nonce. \<open>SelectWithNonces\<close> and the Base58 division recurse with measures.

  \<^bold>\<open>Not modelled.\<close> Files and file locks: the pool, the peers and the database are the values their files
  decode to, and so are those of the registries. Of \<open>p2p\<close>: key files, the worker that maintains and discovers peers, broadcasting and pushing blocks upstream,
  which repeat the modelled calls on timers and goroutines. \<open>rpc\<close>, \<open>serviceagent\<close>, the command line and the
  wallet backend are HTTP handlers, clients and printing around the modelled operations. \<open>mining\<close> and
  \<open>cpuminer\<close> run the modelled template and proof of work in goroutines; \<open>nodestate\<close> caches values for display.
  \<open>wallet\<close> generates keys, encrypts and signs with randomness and ciphers from outside the repository.
\<close>

end
